(* ===== verification/Prelude.thy ===== *)
theory Prelude
  imports Main "HOL-Library.Word"
begin

text \<open>
  Generic material shared by every component: the machine integers of
  \<^verbatim>\<open>include/mtctypes.h\<close>, the C idioms the sources use over and over (loops over
  the configured hosts, \<open>_min\<close> and \<open>_max\<close>, narrowing to \<open>MTC_S32\<close>), and the
  lemma collections the component theories extend.
\<close>

unbundle bit_operations_syntax

named_theorems hostmap_simps "membership of a host in the result of a bitmap operation"
named_theorems frame_simps "fields an operation leaves alone"

section \<open>Machine integers\<close>

type_synonym u8 = "8 word"
type_synonym u32 = "32 word"

text \<open>
  \<open>MTC_CLOCK\<close> and \<open>MTC_S64\<close> are kept as \<open>int\<close>: they hold milliseconds
  since boot and no computation of the daemon comes near their bounds.
  \<open>MTC_U32\<close> is a 32-bit word, because configured times are multiplied by
  \<open>ONE_SEC\<close> in 32-bit arithmetic before they are widened.
\<close>

type_synonym clock = int

definition to_s32 :: "int \<Rightarrow> int" where
  "to_s32 x = signed_take_bit 31 x"

lemma to_s32_id: "- (2 ^ 31) \<le> x \<Longrightarrow> x < 2 ^ 31 \<Longrightarrow> to_s32 x = x"
  by (simp add: to_s32_def signed_take_bit_int_eq_self)

lemma to_s32_idem [simp]: "to_s32 (to_s32 x) = to_s32 x"
  by (simp add: to_s32_def)

lemma to_s32_minus_one [simp]: "to_s32 (- 1) = - 1"
  by (rule to_s32_id) simp_all

definition ONE_SEC :: u32 where "ONE_SEC = 1000"

text \<open>A configured time in seconds, as the sources turn it into milliseconds.\<close>

definition ms_of :: "u32 \<Rightarrow> int" where
  "ms_of t = uint (t * ONE_SEC)"

lemma ms_of_nonneg [simp]: "0 \<le> ms_of t"
  by (simp add: ms_of_def)

lemma uint_mult_le: "uint (a * b) \<le> uint a * uint b" for a b :: u32
  by (simp add: uint_word_ariths mod_mult_self2 zmod_le_nonneg_dividend)

lemma uint_mult_small:
  "uint a * uint b < 2 ^ 32 \<Longrightarrow> uint (a * b) = uint a * uint b" for a b :: u32
  by (simp add: uint_word_ariths)

lemma ms_of_small: "uint t \<le> 4294967 \<Longrightarrow> ms_of t = uint t * 1000"
  by (simp add: ms_of_def ONE_SEC_def uint_word_ariths)

definition u32_max :: "u32 \<Rightarrow> u32 \<Rightarrow> u32" where
  "u32_max x y = (if x > y then x else y)"

definition u32_min :: "u32 \<Rightarrow> u32 \<Rightarrow> u32" where
  "u32_min x y = (if x < y then x else y)"

lemma uint_u32_max: "uint (u32_max x y) = max (uint x) (uint y)"
  by (auto simp: u32_max_def word_less_def)

lemma uint_u32_min: "uint (u32_min x y) = min (uint x) (uint y)"
  by (auto simp: u32_min_def word_less_def)

section \<open>Loops over the hosts\<close>

text \<open>
  Most loops of the daemon have the shape
  \<^verbatim>\<open>for (index = 0; _is_configured_host(index); index++) body\<close>. A loop whose body
  only updates a state is a \<open>fold\<close> over \<open>[0..<n]\<close>; a loop that searches is one of
  the two functions below.
\<close>

definition for_hosts :: "nat \<Rightarrow> (nat \<Rightarrow> 's \<Rightarrow> 's) \<Rightarrow> 's \<Rightarrow> 's" where
  "for_hosts n body s = fold body [0..<n] s"

definition all_hosts :: "nat \<Rightarrow> (nat \<Rightarrow> bool) \<Rightarrow> bool" where
  "all_hosts n P = list_all P [0..<n]"

definition some_host :: "nat \<Rightarrow> (nat \<Rightarrow> bool) \<Rightarrow> bool" where
  "some_host n P = list_ex P [0..<n]"

definition first_host :: "nat \<Rightarrow> (nat \<Rightarrow> bool) \<Rightarrow> nat option" where
  "first_host n P = List.find P [0..<n]"

lemma for_hosts_0 [simp]: "for_hosts 0 body s = s"
  by (simp add: for_hosts_def)

lemma for_hosts_Suc [simp]: "for_hosts (Suc n) body s = body n (for_hosts n body s)"
  by (simp add: for_hosts_def)

lemma all_hosts_iff [simp]: "all_hosts n P \<longleftrightarrow> (\<forall>i<n. P i)"
  by (auto simp: all_hosts_def list_all_iff)

lemma some_host_iff [simp]: "some_host n P \<longleftrightarrow> (\<exists>i<n. P i)"
  by (auto simp: some_host_def list_ex_iff)

lemma first_host_None: "first_host n P = None \<longleftrightarrow> (\<forall>i<n. \<not> P i)"
  by (auto simp: first_host_def find_None_iff)

lemma first_host_Some:
  "first_host n P = Some i \<longleftrightarrow> i < n \<and> P i \<and> (\<forall>j<i. \<not> P j)"
proof -
  have "first_host n P = Some i \<longleftrightarrow>
      (\<exists>k<n. P k \<and> i = k \<and> (\<forall>j<k. \<not> P j))"
    by (auto simp: first_host_def find_Some_iff)
  then show ?thesis by auto
qed

text \<open>An invariant of the loop body is an invariant of the loop.\<close>

lemma for_hosts_inv:
  assumes "I 0 s" and "\<And>i s. i < n \<Longrightarrow> I i s \<Longrightarrow> I (Suc i) (body i s)"
  shows "I n (for_hosts n body s)"
  using assms by (induction n) auto

lemma for_hosts_frame:
  assumes "\<And>i s. f (body i s) = f s"
  shows "f (for_hosts n body s) = f s"
  using assms by (induction n) auto

lemma for_hosts_cong:
  assumes "\<And>i s. i < n \<Longrightarrow> body i s = body' i s"
  shows "for_hosts n body s = for_hosts n body' s"
  using assms by (induction n) auto

text \<open>A loop that writes one cell of a per-host array.\<close>

lemma for_hosts_array:
  "for_hosts n (\<lambda>i a. a(i := f i)) a = (\<lambda>i. if i < n then f i else a i)"
  by (induction n) (auto simp: fun_eq_iff less_Suc_eq)

section \<open>Bits of a word\<close>

lemma word_and_bit_iff:
  "(w AND push_bit n 1 \<noteq> 0) \<longleftrightarrow> bit w n" if "n < 32" for w :: u32
proof -
  have "(w AND push_bit n 1 = 0) \<longleftrightarrow> \<not> bit w n"
    by (simp add: push_bit_eq_mult and_exp_eq_0_iff_not_bit)
  then show ?thesis by blast
qed

lemma bit_u32_lt: "bit (w :: u32) n \<Longrightarrow> n < 32"
  using bit_imp_le_length[of w n] by simp

end
