(* ===== verification/HostMap.thy ===== *)
theory HostMap
  imports Prelude
begin

text \<open>
  The per-host bitmap \<open>MTC_HOSTMAP\<close> of \<^verbatim>\<open>include/sm.h\<close>: an array of
  \<open>_rounddiv(MAX_HOST_NUM, 32) = 2\<close> words of 32 bits, with the macros that test and
  update it. The macros are translated word by word; the second half of the theory
  states them as a set of host numbers and gives that view as the interface
  \<open>host_bitmap\<close>, which the client theories reason with.
\<close>

section \<open>The macros\<close>

definition MAX_HOST_NUM :: nat where "MAX_HOST_NUM = 64"

definition MTC_HOSTMAP_UNIT :: nat where "MTC_HOSTMAP_UNIT = 32"

record hostmap =
  hm_word0 :: u32
  hm_word1 :: u32

definition hm_element :: "hostmap \<Rightarrow> nat \<Rightarrow> u32" where
  "hm_element b i = (if i = 0 then hm_word0 b else hm_word1 b)"

definition hm_put :: "hostmap \<Rightarrow> nat \<Rightarrow> u32 \<Rightarrow> hostmap" where
  "hm_put b i w = (if i = 0 then b\<lparr>hm_word0 := w\<rparr> else b\<lparr>hm_word1 := w\<rparr>)"

definition elt :: "nat \<Rightarrow> nat" where
  "elt hostnum = hostnum div MTC_HOSTMAP_UNIT"

definition bitloc :: "nat \<Rightarrow> u32" where
  "bitloc hostnum = push_bit (hostnum mod MTC_HOSTMAP_UNIT) 1"

definition hm_set :: "hostmap \<Rightarrow> nat \<Rightarrow> hostmap" where
  "hm_set b h = hm_put b (elt h) (hm_element b (elt h) OR bitloc h)"

definition hm_reset :: "hostmap \<Rightarrow> nat \<Rightarrow> hostmap" where
  "hm_reset b h = hm_put b (elt h) (hm_element b (elt h) AND NOT (bitloc h))"

definition hm_ison :: "hostmap \<Rightarrow> nat \<Rightarrow> bool" where
  "hm_ison b h \<longleftrightarrow> (hm_element b (elt h) AND bitloc h) \<noteq> 0"

definition hm_set_boolean :: "hostmap \<Rightarrow> nat \<Rightarrow> bool \<Rightarrow> hostmap" where
  "hm_set_boolean b h v = (if v then hm_set b h else hm_reset b h)"

definition hm_init_reset :: hostmap where
  "hm_init_reset = \<lparr>hm_word0 = 0, hm_word1 = 0\<rparr>"

definition hm_init_set :: hostmap where
  "hm_init_set = \<lparr>hm_word0 = NOT 0, hm_word1 = NOT 0\<rparr>"

text \<open>\<open>MTC_HOSTMAP_COMPARE(b1, '!=', b2)\<close>: true where some word differs.\<close>

definition hm_differs :: "hostmap \<Rightarrow> hostmap \<Rightarrow> bool" where
  "hm_differs b1 b2 \<longleftrightarrow>
     (if hm_word0 b1 - hm_word0 b2 \<noteq> 0 then True else hm_word1 b1 - hm_word1 b2 \<noteq> 0)"

definition hm_subseteq :: "hostmap \<Rightarrow> hostmap \<Rightarrow> bool" where
  "hm_subseteq b1 b2 \<longleftrightarrow> \<not> some_host MAX_HOST_NUM (\<lambda>i. hm_ison b1 i \<and> \<not> hm_ison b2 i)"

definition hm_diff :: "hostmap \<Rightarrow> hostmap \<Rightarrow> hostmap" where
  "hm_diff b2 b3 = \<lparr>hm_word0 = hm_word0 b2 AND NOT (hm_word0 b3),
                    hm_word1 = hm_word1 b2 AND NOT (hm_word1 b3)\<rparr>"

definition hm_union :: "hostmap \<Rightarrow> hostmap \<Rightarrow> hostmap" where
  "hm_union b2 b3 = \<lparr>hm_word0 = hm_word0 b2 OR hm_word0 b3,
                     hm_word1 = hm_word1 b2 OR hm_word1 b3\<rparr>"

definition hm_inter :: "hostmap \<Rightarrow> hostmap \<Rightarrow> hostmap" where
  "hm_inter b2 b3 = \<lparr>hm_word0 = hm_word0 b2 AND hm_word0 b3,
                     hm_word1 = hm_word1 b2 AND hm_word1 b3\<rparr>"

definition hm_compl :: "hostmap \<Rightarrow> hostmap" where
  "hm_compl b2 = \<lparr>hm_word0 = NOT (hm_word0 b2), hm_word1 = NOT (hm_word1 b2)\<rparr>"

text \<open>
  \<open>MTC_HOSTMAP_MASK_UNCONFIG\<close>: the first argument is \<open>ha_config.common.hostnum\<close>,
  which \<open>_is_configured_host\<close> compares with.
\<close>

definition hm_mask_unconfig :: "nat \<Rightarrow> hostmap \<Rightarrow> hostmap" where
  "hm_mask_unconfig hostnum b =
     for_hosts MAX_HOST_NUM (\<lambda>i b. if \<not> i < hostnum then hm_reset b i else b) b"

section \<open>The bitmap as a set of hosts\<close>

lemma hm_elt_cases: "h < 64 \<Longrightarrow> elt h = (if h < 32 then 0 else 1)"
  by (auto simp: elt_def MTC_HOSTMAP_UNIT_def)

lemma mod32_cases: "h < 64 \<Longrightarrow> h mod 32 = (if h < 32 then h else h - 32)" for h :: nat
  by (simp add: le_mod_geq)

lemma hm_ison_bit: "hm_ison b h \<longleftrightarrow> bit (hm_element b (elt h)) (h mod 32)"
  unfolding hm_ison_def bitloc_def MTC_HOSTMAP_UNIT_def by (rule word_and_bit_iff) simp

lemma bit_bitloc: "bit (bitloc h) k \<longleftrightarrow> k = h mod 32"
  by (auto simp: bitloc_def MTC_HOSTMAP_UNIT_def bit_simps)

lemma hm_element_put:
  "hm_element (hm_put b i w) j = (if (i = 0) = (j = 0) then w else hm_element b j)"
  by (simp add: hm_element_def hm_put_def)

lemma same_bit:
  "h < 64 \<Longrightarrow> k < 64 \<Longrightarrow> (elt h = 0) = (elt k = 0) \<Longrightarrow> (k mod 32 = h mod 32) = (k = h)"
  by (simp add: hm_elt_cases mod32_cases split: if_splits) arith+

lemma hm_element_same: "(i = 0) = (j = 0) \<Longrightarrow> hm_element b i = hm_element b j"
  by (simp add: hm_element_def)

lemma hm_ison_set [hostmap_simps]:
  assumes "h < 64" "k < 64"
  shows "hm_ison (hm_set b h) k \<longleftrightarrow> k = h \<or> hm_ison b k"
proof (cases "(elt h = 0) = (elt k = 0)")
  case True
  then show ?thesis
    using same_bit[OF assms True] hm_element_same[OF True, of b]
    by (simp add: hm_ison_bit hm_set_def hm_element_put bit_or_iff bit_bitloc disj_commute)
next
  case False
  then show ?thesis
    by (auto simp: hm_ison_bit hm_set_def hm_element_put)
qed

lemma hm_ison_reset [hostmap_simps]:
  assumes "h < 64" "k < 64"
  shows "hm_ison (hm_reset b h) k \<longleftrightarrow> k \<noteq> h \<and> hm_ison b k"
proof (cases "(elt h = 0) = (elt k = 0)")
  case True
  then show ?thesis
    using same_bit[OF assms True] hm_element_same[OF True, of b]
    by (auto simp: hm_ison_bit hm_reset_def hm_element_put bit_and_iff bit_not_iff bit_bitloc)
next
  case False
  then show ?thesis
    by (auto simp: hm_ison_bit hm_reset_def hm_element_put)
qed

lemma hm_ison_set_boolean [hostmap_simps]:
  "h < 64 \<Longrightarrow> k < 64 \<Longrightarrow>
   hm_ison (hm_set_boolean b h v) k \<longleftrightarrow> (if k = h then v else hm_ison b k)"
  by (simp add: hm_set_boolean_def hm_ison_set hm_ison_reset)

lemma hm_ison_init_reset [hostmap_simps, simp]: "\<not> hm_ison hm_init_reset k"
  by (simp add: hm_ison_bit hm_init_reset_def hm_element_def)

lemma hm_ison_init_set [hostmap_simps, simp]: "hm_ison hm_init_set k"
  by (simp add: hm_ison_bit hm_init_set_def hm_element_def bit_not_iff bit_simps)

lemma hm_ison_diff [hostmap_simps]: "hm_ison (hm_diff a b) k \<longleftrightarrow> hm_ison a k \<and> \<not> hm_ison b k"
  by (auto simp: hm_ison_bit hm_diff_def hm_element_def bit_and_iff bit_not_iff bit_u32_lt)

lemma hm_ison_union [hostmap_simps]: "hm_ison (hm_union a b) k \<longleftrightarrow> hm_ison a k \<or> hm_ison b k"
  by (simp add: hm_ison_bit hm_union_def hm_element_def bit_or_iff)

lemma hm_ison_inter [hostmap_simps]: "hm_ison (hm_inter a b) k \<longleftrightarrow> hm_ison a k \<and> hm_ison b k"
  by (simp add: hm_ison_bit hm_inter_def hm_element_def bit_and_iff)

lemma hm_ison_compl [hostmap_simps]: "hm_ison (hm_compl a) k \<longleftrightarrow> \<not> hm_ison a k"
  by (simp add: hm_ison_bit hm_compl_def hm_element_def bit_not_iff bit_simps)

lemma hm_eqI:
  assumes "\<And>k. k < 64 \<Longrightarrow> hm_ison a k = hm_ison b k"
  shows "a = (b :: hostmap)"
proof -
  have "hm_word0 a = hm_word0 b"
  proof (rule bit_word_eqI)
    fix n assume "n < LENGTH(32)"
    then show "bit (hm_word0 a) n = bit (hm_word0 b) n"
      using assms[of n] by (simp add: hm_ison_bit hm_elt_cases hm_element_def)
  qed
  moreover have "hm_word1 a = hm_word1 b"
  proof (rule bit_word_eqI)
    fix n assume "n < LENGTH(32)"
    then show "bit (hm_word1 a) n = bit (hm_word1 b) n"
      using assms[of "n + 32"] by (simp add: hm_ison_bit hm_elt_cases hm_element_def)
  qed
  ultimately show ?thesis by simp
qed

lemma hm_differs_iff: "hm_differs a b \<longleftrightarrow> a \<noteq> b"
  by (cases a; cases b) (simp add: hm_differs_def)

lemma hm_subseteq_iff: "hm_subseteq a b \<longleftrightarrow> (\<forall>k<64. hm_ison a k \<longrightarrow> hm_ison b k)"
  by (auto simp: hm_subseteq_def MAX_HOST_NUM_def)

text \<open>
  What the daemon needs of a set of hosts: membership, the two updates, and the
  membership of a host in the result of each whole-map operation, for host numbers
  below the capacity.
\<close>

locale host_bitmap =
  fixes mem :: "'b \<Rightarrow> nat \<Rightarrow> bool"
    and ins :: "'b \<Rightarrow> nat \<Rightarrow> 'b"
    and del :: "'b \<Rightarrow> nat \<Rightarrow> 'b"
    and inter :: "'b \<Rightarrow> 'b \<Rightarrow> 'b"
    and capacity :: nat
  assumes mem_ins: "h < capacity \<Longrightarrow> k < capacity \<Longrightarrow> mem (ins b h) k \<longleftrightarrow> k = h \<or> mem b k"
    and mem_del: "h < capacity \<Longrightarrow> k < capacity \<Longrightarrow> mem (del b h) k \<longleftrightarrow> k \<noteq> h \<and> mem b k"
    and mem_inter: "mem (inter a b) k \<longleftrightarrow> mem a k \<and> mem b k"
    and extensional: "(\<And>k. k < capacity \<Longrightarrow> mem a k = mem b k) \<Longrightarrow> a = b"
begin

definition members :: "'b \<Rightarrow> nat set" where
  "members b = {h. h < capacity \<and> mem b h}"

lemma members_ins: "h < capacity \<Longrightarrow> members (ins b h) = insert h (members b)"
  by (auto simp: members_def mem_ins)

lemma members_del: "h < capacity \<Longrightarrow> members (del b h) = members b - {h}"
  by (auto simp: members_def mem_del)

lemma members_inter: "members (inter a b) = members a \<inter> members b"
  by (auto simp: members_def mem_inter)

lemma members_inj: "members a = members b \<Longrightarrow> a = b"
  by (rule extensional) (auto simp: members_def set_eq_iff)

lemma finite_members [simp]: "finite (members b)"
  by (simp add: members_def)

text \<open>A loop that switches off the hosts with a property, and one that switches them on.\<close>

lemma mem_reset_loop:
  assumes "n \<le> capacity" "k < capacity"
  shows "mem (for_hosts n (\<lambda>i b. if P i then del b i else b) b) k \<longleftrightarrow>
         mem b k \<and> \<not> (k < n \<and> P k)"
  using assms by (induction n) (auto simp: mem_del less_Suc_eq)

lemma mem_set_loop:
  assumes "n \<le> capacity" "k < capacity"
  shows "mem (for_hosts n (\<lambda>i b. if P i then ins b i else b) b) k \<longleftrightarrow>
         mem b k \<or> (k < n \<and> P k)"
  using assms by (induction n) (auto simp: mem_ins less_Suc_eq)

lemma ins_idem: "h < capacity \<Longrightarrow> mem b h \<Longrightarrow> ins b h = b"
  by (rule extensional) (auto simp: mem_ins)

lemma del_idem: "h < capacity \<Longrightarrow> \<not> mem b h \<Longrightarrow> del b h = b"
  by (rule extensional) (auto simp: mem_del)

lemma inter_absorb: "(\<And>k. k < capacity \<Longrightarrow> mem a k \<Longrightarrow> mem b k) \<Longrightarrow> inter a b = a"
  by (rule extensional) (auto simp: mem_inter)

end

interpretation hm: host_bitmap hm_ison hm_set hm_reset hm_inter 64
  by unfold_locales (auto simp: hostmap_simps intro: hm_eqI)

lemma hm_ison_mask [hostmap_simps]:
  "k < 64 \<Longrightarrow> hm_ison (hm_mask_unconfig n b) k \<longleftrightarrow> k < n \<and> hm_ison b k"
  by (auto simp: hm_mask_unconfig_def MAX_HOST_NUM_def hm.mem_reset_loop)

text \<open>The set of hosts whose bit is on.\<close>

definition hosts_on :: "hostmap \<Rightarrow> nat set" where
  "hosts_on b = {h. h < MAX_HOST_NUM \<and> hm_ison b h}"

lemma hosts_on_members: "hosts_on = hm.members"
  by (simp add: fun_eq_iff hosts_on_def hm.members_def MAX_HOST_NUM_def)

text \<open>
  C35. The bitmap macros of \<^verbatim>\<open>include/sm.h\<close> implement finite sets of host
  numbers: for a host number the map can hold, setting and resetting a bit are
  insertion and deletion and testing it is membership; the whole-map operations are the
  set operations, the two comparisons decide inequality and inclusion, and the mask keeps
  exactly the configured hosts.
\<close>

theorem hostmap_refines_sets:
  assumes "h < 64"
  shows "hosts_on (hm_set b h) = insert h (hosts_on b) \<and>
         hosts_on (hm_reset b h) = hosts_on b - {h} \<and>
         (hm_ison b h \<longleftrightarrow> h \<in> hosts_on b) \<and>
         hosts_on (hm_union a b) = hosts_on a \<union> hosts_on b \<and>
         hosts_on (hm_inter a b) = hosts_on a \<inter> hosts_on b \<and>
         hosts_on (hm_diff a b) = hosts_on a - hosts_on b \<and>
         hosts_on (hm_compl a) = {..<64} - hosts_on a \<and>
         hosts_on (hm_mask_unconfig n a) = hosts_on a \<inter> {..<n} \<and>
         hosts_on hm_init_reset = {} \<and> hosts_on hm_init_set = {..<64} \<and>
         (hm_differs a b \<longleftrightarrow> hosts_on a \<noteq> hosts_on b) \<and>
         (hm_subseteq a b \<longleftrightarrow> hosts_on a \<subseteq> hosts_on b)"
  using assms hm.members_inj[of a b]
  by (auto simp: hosts_on_def MAX_HOST_NUM_def hostmap_simps hm_differs_iff hm_subseteq_iff
        hm.members_def)

theorem hostmap_refines_sets_witness:
  "hosts_on (hm_set hm_init_reset 33) = insert 33 (hosts_on hm_init_reset) \<and>
   hosts_on (hm_reset hm_init_set 33) = hosts_on hm_init_set - {33} \<and>
   hosts_on (hm_mask_unconfig 3 hm_init_set) = {..<64} \<inter> {..<3}"
  using hostmap_refines_sets[of 33 hm_init_reset hm_init_set 3]
    hostmap_refines_sets[of 33 hm_init_set hm_init_set 3] by simp

text \<open>Concrete bitmaps for witnesses and examples.\<close>

definition hm_of :: "nat list \<Rightarrow> hostmap" where
  "hm_of hs = fold (\<lambda>h b. hm_set b h) hs hm_init_reset"

lemma hm_ison_fold_set:
  "\<forall>h \<in> set hs. h < 64 \<Longrightarrow> k < 64 \<Longrightarrow>
   hm_ison (fold (\<lambda>h b. hm_set b h) hs b) k \<longleftrightarrow> k \<in> set hs \<or> hm_ison b k"
  by (induction hs arbitrary: b) (auto simp: hm_ison_set)

lemma hm_ison_of [hostmap_simps]:
  "\<forall>h \<in> set hs. h < 64 \<Longrightarrow> k < 64 \<Longrightarrow> hm_ison (hm_of hs) k \<longleftrightarrow> k \<in> set hs"
  by (simp add: hm_of_def hm_ison_fold_set)

end
