(* ===== verification/HaTypes.thy ===== *)
theory HaTypes
  imports HostMap
begin

text \<open>
  The data every component of the daemon shares: the configuration
  (\<^verbatim>\<open>include/config.h\<close>), the status codes (\<^verbatim>\<open>include/mtcerrno.def\<close>),
  the common objects \<open>COM_DATA_SM\<close>, \<open>COM_DATA_HB\<close>, \<open>COM_DATA_SF\<close>
  (\<^verbatim>\<open>include/sm.h\<close>) and \<open>COM_DATA_XAPIMON\<close> (\<^verbatim>\<open>include/xapi_mon.h\<close>), the
  static variables of the modules that work on them, and the callbacks that run when a
  writer releases a common object.

  A per-host array is a function from the host index; its cells above the configured
  hosts exist in the code too and are simply not used. Where the sources call
  \<open>_getms()\<close> the operation takes the time as an argument.
\<close>

section \<open>Configuration\<close>

type_synonym uuid = string

record ha_config =
  num_host :: nat
  my_index :: nat
  cfg_t1 :: u32
  cfg_T1 :: u32
  cfg_t2 :: u32
  cfg_T2 :: u32
  cfg_Wh :: u32
  cfg_Ws :: u32
  cfg_Tboot :: u32
  cfg_Tenable :: u32
  cfg_tXapi :: u32
  cfg_TXapi :: u32
  cfg_RestartXapi :: u32
  cfg_TRestartXapi :: u32
  cfg_Tlicense :: u32
  gen_UUID :: uuid
  host_UUID :: "nat \<Rightarrow> uuid"

abbreviation my_UUID :: "ha_config \<Rightarrow> uuid" where
  "my_UUID c \<equiv> host_UUID c (my_index c)"

text \<open>What \<^verbatim>\<open>lib/config.c\<close> establishes before the daemon starts.\<close>

definition valid_config :: "ha_config \<Rightarrow> bool" where
  "valid_config c \<longleftrightarrow> my_index c < num_host c \<and> num_host c \<le> MAX_HOST_NUM"

lemma valid_configD:
  "valid_config c \<Longrightarrow> my_index c < num_host c"
  "valid_config c \<Longrightarrow> num_host c \<le> 64"
  "valid_config c \<Longrightarrow> my_index c < 64"
  "valid_config c \<Longrightarrow> i < num_host c \<Longrightarrow> i < 64"
  by (auto simp: valid_config_def MAX_HOST_NUM_def)

text \<open>
  The defaults of \<^verbatim>\<open>include/config.h\<close> for a pool of \<open>n\<close> hosts, seen from
  host \<open>me\<close>: the concrete configuration of the witnesses.
\<close>

definition default_config :: "nat \<Rightarrow> nat \<Rightarrow> ha_config" where
  "default_config n me =
     \<lparr>num_host = n, my_index = me, cfg_t1 = 4, cfg_T1 = 30, cfg_t2 = 4, cfg_T2 = 30,
      cfg_Wh = 30, cfg_Ws = 45, cfg_Tboot = 90, cfg_Tenable = 90,
      cfg_tXapi = 60, cfg_TXapi = 10, cfg_RestartXapi = 1, cfg_TRestartXapi = 30,
      cfg_Tlicense = 30, gen_UUID = [], host_UUID = (\<lambda>_. [])\<rparr>"

lemma default_config_sel [simp]:
  "num_host (default_config n me) = n" "my_index (default_config n me) = me"
  "cfg_t1 (default_config n me) = 4" "cfg_T1 (default_config n me) = 30"
  "cfg_t2 (default_config n me) = 4" "cfg_T2 (default_config n me) = 30"
  "cfg_Wh (default_config n me) = 30" "cfg_Ws (default_config n me) = 45"
  "cfg_Tboot (default_config n me) = 90" "cfg_Tenable (default_config n me) = 90"
  "gen_UUID (default_config n me) = []" "host_UUID (default_config n me) = (\<lambda>_. [])"
  by (simp_all add: default_config_def)

section \<open>Status codes\<close>

type_synonym mtc_status = int

abbreviation "MTC_SUCCESS \<equiv> (0 :: mtc_status)"
abbreviation "MTC_ERROR_SYSTEM_LEVEL_FAILURE \<equiv> (1100 :: mtc_status)"
abbreviation "MTC_ERROR_DAEMON_EXIST \<equiv> (1101 :: mtc_status)"
abbreviation "MTC_ERROR_IMPROPER_LICENSE \<equiv> (1102 :: mtc_status)"
abbreviation "MTC_ERROR_INVALID_PARAMETER \<equiv> (1103 :: mtc_status)"
abbreviation "MTC_ERROR_CF_INVALID_PARAMETER \<equiv> (1200 :: mtc_status)"
abbreviation "MTC_ERROR_CF_INVALID_FORMAT \<equiv> (1201 :: mtc_status)"
abbreviation "MTC_ERROR_CF_OPEN \<equiv> (1202 :: mtc_status)"
abbreviation "MTC_ERROR_COM_INSUFFICIENT_RESOURCE \<equiv> (1300 :: mtc_status)"
abbreviation "MTC_ERROR_COM_PTHREAD \<equiv> (1301 :: mtc_status)"
abbreviation "MTC_ERROR_COM_CALLBACK_NOT_EXIST \<equiv> (1302 :: mtc_status)"
abbreviation "MTC_ERROR_COM_INVALID_HANDLE \<equiv> (1303 :: mtc_status)"
abbreviation "MTC_ERROR_WD_INSUFFICIENT_RESOURCE \<equiv> (1400 :: mtc_status)"
abbreviation "MTC_ERROR_WD_OPEN \<equiv> (1401 :: mtc_status)"
abbreviation "MTC_ERROR_WD_INSTANCE_UNAVAILABLE \<equiv> (1402 :: mtc_status)"
abbreviation "MTC_ERROR_WD_INVALID_HANDLE \<equiv> (1403 :: mtc_status)"
abbreviation "MTC_ERROR_SF_INSUFFICIENT_RESOURCE \<equiv> (1500 :: mtc_status)"
abbreviation "MTC_ERROR_SF_OPEN \<equiv> (1501 :: mtc_status)"
abbreviation "MTC_ERROR_SF_IO_ERROR \<equiv> (1502 :: mtc_status)"
abbreviation "MTC_ERROR_SF_CORRUPTION \<equiv> (1503 :: mtc_status)"
abbreviation "MTC_ERROR_SF_VERSION_MISMATCH \<equiv> (1504 :: mtc_status)"
abbreviation "MTC_ERROR_SF_PTHREAD \<equiv> (1505 :: mtc_status)"
abbreviation "MTC_ERROR_SF_PENDING_WRITE \<equiv> (1506 :: mtc_status)"
abbreviation "MTC_ERROR_SF_GEN_UUID \<equiv> (1507 :: mtc_status)"
abbreviation "MTC_ERROR_SF_INVALID_POOL_STATE \<equiv> (1508 :: mtc_status)"
abbreviation "MTC_ERROR_SC_INVALID_LOCALHOST_STATE \<equiv> (1607 :: mtc_status)"
abbreviation "MTC_ERROR_SC_INVALID_PARAMETER \<equiv> (1608 :: mtc_status)"
abbreviation "MTC_ERROR_SC_STATEFILE_ACCESS \<equiv> (1609 :: mtc_status)"
abbreviation "MTC_ERROR_SC_INVALID_POOL_STATE \<equiv> (1610 :: mtc_status)"
abbreviation "MTC_ERROR_HB_FENCEREQUESTED \<equiv> (1703 :: mtc_status)"
abbreviation "MTC_ERROR_SM_BOOT_TIMEOUT \<equiv> (1901 :: mtc_status)"
abbreviation "MTC_ERROR_SM_NOSTATEFILE \<equiv> (1902 :: mtc_status)"
abbreviation "MTC_ERROR_SM_JOIN_FAILED \<equiv> (1903 :: mtc_status)"
abbreviation "MTC_ERROR_SM_FAULTHANDLER_TIMEOUT \<equiv> (1904 :: mtc_status)"
abbreviation "MTC_ERROR_SM_SURVIVALRULE_FAILED \<equiv> (1905 :: mtc_status)"
abbreviation "MTC_ERROR_SM_INVALID_POOL_STATE \<equiv> (1906 :: mtc_status)"
abbreviation "MTC_ERROR_SM_BOOT_BLOCKED_BY_EXCLUDED \<equiv> (1908 :: mtc_status)"
abbreviation "MTC_ERROR_SM_BOOT_FAILED \<equiv> (1909 :: mtc_status)"
abbreviation "MTC_ERROR_SM_INVALID_INIT_POOL_STATE \<equiv> (1910 :: mtc_status)"
abbreviation "MTC_ERROR_XAPIMON_XAPI_FAILED \<equiv> (2000 :: mtc_status)"
abbreviation "MTC_ERROR_WEIGHT_OPEN \<equiv> (2300 :: mtc_status)"
abbreviation "MTC_ERROR_WEIGHT_LOCK \<equiv> (2301 :: mtc_status)"
abbreviation "MTC_ERROR_WEIGHT_IO_ERROR \<equiv> (2302 :: mtc_status)"
abbreviation "MTC_ERROR_WEIGHT_TABLE_FULL \<equiv> (2303 :: mtc_status)"
abbreviation "MTC_ERROR_UNDEFINED \<equiv> (10000 :: mtc_status)"

section \<open>Enumerations\<close>

datatype fencing_mode =
  FENCING_NONE | FENCING_ARMED | FENCING_DISARM_REQUESTED | FENCING_DISARMED

datatype sm_phase =
  SM_PHASE_STARTING | SM_PHASE_STARTED | SM_PHASE_ABORTED
| SM_PHASE_FHREADY | SM_PHASE_FH1 | SM_PHASE_FH1DONE
| SM_PHASE_FH2 | SM_PHASE_FH2DONE | SM_PHASE_FH3 | SM_PHASE_FH3DONE
| SM_PHASE_FH4 | SM_PHASE_FH4DONE

text \<open>The C enumeration is compared by its number; the order is that of the numbers.\<close>

fun phase_no :: "sm_phase \<Rightarrow> nat" where
  "phase_no SM_PHASE_STARTING = 0"
| "phase_no SM_PHASE_STARTED = 1"
| "phase_no SM_PHASE_ABORTED = 2"
| "phase_no SM_PHASE_FHREADY = 3"
| "phase_no SM_PHASE_FH1 = 4"
| "phase_no SM_PHASE_FH1DONE = 5"
| "phase_no SM_PHASE_FH2 = 6"
| "phase_no SM_PHASE_FH2DONE = 7"
| "phase_no SM_PHASE_FH3 = 8"
| "phase_no SM_PHASE_FH3DONE = 9"
| "phase_no SM_PHASE_FH4 = 10"
| "phase_no SM_PHASE_FH4DONE = 11"

lemma phase_no_inj: "phase_no p = phase_no q \<Longrightarrow> p = q"
  by (cases p; cases q) simp_all

instantiation sm_phase :: linorder
begin

definition less_eq_sm_phase :: "sm_phase \<Rightarrow> sm_phase \<Rightarrow> bool" where
  "less_eq_sm_phase p q \<longleftrightarrow> phase_no p \<le> phase_no q"

definition less_sm_phase :: "sm_phase \<Rightarrow> sm_phase \<Rightarrow> bool" where
  "less_sm_phase p q \<longleftrightarrow> phase_no p < phase_no q"

instance
  by standard (auto simp: less_eq_sm_phase_def less_sm_phase_def intro: phase_no_inj)

end

text \<open>Pool states as written in the State-File; any other number can be read back.\<close>

abbreviation "SF_STATE_NONE \<equiv> (0 :: u32)"
abbreviation "SF_STATE_INIT \<equiv> (1 :: u32)"
abbreviation "SF_STATE_ACTIVE \<equiv> (2 :: u32)"
abbreviation "SF_STATE_INVALID \<equiv> (3 :: u32)"

end
