(* ===== verification/Fist.thy ===== *)
theory Fist
  imports Prelude
begin

text \<open>
  The fault-injection points of \<^verbatim>\<open>daemon/fist.c\<close>: a table of named points, each
  sticky or one-shot. A release build (\<^verbatim>\<open>NDEBUG\<close>) has none of them; in the model
  that is a table in which no point is enabled (\<open>fist_quiet\<close>).
\<close>

record fist =
  f_name :: string
  f_sticky :: bool
  f_enabled :: bool
  f_hash :: int

definition fist_genhas :: "string \<Rightarrow> int" where
  "fist_genhas name = foldl (\<lambda>hash ch. hash + of_char ch) 0 name"

definition fist_entry :: "string \<Rightarrow> bool \<Rightarrow> fist" where
  "fist_entry name sticky = \<lparr>f_name = name, f_sticky = sticky, f_enabled = False, f_hash = 0\<rparr>"

definition fisttab :: "fist list" where
  "fisttab =
  [fist_entry ''init.license.fail'' False,
   fist_entry ''sf.checksum.sticky'' True,
   fist_entry ''sf.checksum.once'' False,
   fist_entry ''sf.ioerror.sticky'' True,
   fist_entry ''sf.ioerror.once'' False,
   fist_entry ''sf.version'' True,
   fist_entry ''sf.genuuid'' True,
   fist_entry ''sf.time.=T2/2+t2'' False,
   fist_entry ''sf.time.=T2/2+t2.onwrite'' False,
   fist_entry ''sf.time.<T2'' False,
   fist_entry ''sf.time.<T2.onwrite'' False,
   fist_entry ''sf.time.=T2'' False,
   fist_entry ''sf.time.>T2<Ws'' False,
   fist_entry ''sf.time.2Ws'' False,
   fist_entry ''sf.time.forever'' True,
   fist_entry ''sf.time.<T2 after write'' False,
   fist_entry ''hb.receive.lostpacket'' False,
   fist_entry ''hb.send.lostpacket'' False,
   fist_entry ''hb.time.=T1/2+t1.sticky'' True,
   fist_entry ''hb.time.<T1'' False,
   fist_entry ''hb.time.<T1.sticky'' True,
   fist_entry ''hb.time.=T1'' False,
   fist_entry ''hb.time.>T1<Wh'' False,
   fist_entry ''hb.time.2Wh'' False,
   fist_entry ''hb.isolate'' True,
   fist_entry ''xm.time.<TXapi'' False,
   fist_entry ''xm.time.=TXapi'' False,
   fist_entry ''xm.time.>TXapi'' False,
   fist_entry ''xm.xapi.error'' False,
   fist_entry ''bm.interface.down'' True,
   fist_entry ''bm.interface.degraded'' True,
   fist_entry ''wd.instance.unavailable'' True,
   fist_entry ''wd.open'' True,
   fist_entry ''com.pthread'' False,
   fist_entry ''sc.socket'' False,
   fist_entry ''sc.pthread'' False,
   fist_entry ''sm.sleep_in_FH3'' False,
   fist_entry ''sm.fence_in_FH3'' False]"

definition fist_initialize :: "fist list \<Rightarrow> fist list" where
  "fist_initialize tab = map (\<lambda>e. e\<lparr>f_hash := fist_genhas (f_name e)\<rparr>) tab"

text \<open>The scan both operations make: the first entry whose hash and name match.\<close>

definition fist_match :: "string \<Rightarrow> fist \<Rightarrow> bool" where
  "fist_match name e \<longleftrightarrow> f_hash e = fist_genhas name \<and> name = f_name e"

fun fist_set_loop :: "string \<Rightarrow> bool \<Rightarrow> fist list \<Rightarrow> (fist list) option" where
  "fist_set_loop name en [] = None"
| "fist_set_loop name en (e # es) =
     (if fist_match name e then Some (e\<lparr>f_enabled := en\<rparr> # es)
      else map_option (\<lambda>es'. e # es') (fist_set_loop name en es))"

text \<open>\<open>Inl\<close> is \<open>MTC_ERROR_INVALID_PARAMETER\<close>.\<close>

definition fist_set :: "string \<Rightarrow> bool \<Rightarrow> fist list \<Rightarrow> unit + fist list" where
  "fist_set name en tab =
     (case fist_set_loop name en tab of Some tab' \<Rightarrow> Inr tab' | None \<Rightarrow> Inl ())"

fun fist_on :: "string \<Rightarrow> fist list \<Rightarrow> bool \<times> fist list" where
  "fist_on name [] = (False, [])"
| "fist_on name (e # es) =
     (if fist_match name e
      then (f_enabled e, (if \<not> f_sticky e then e\<lparr>f_enabled := False\<rparr> else e) # es)
      else (case fist_on name es of (r, es') \<Rightarrow> (r, e # es')))"

definition fist_quiet :: "fist list \<Rightarrow> bool" where
  "fist_quiet tab \<longleftrightarrow> list_all (\<lambda>e. \<not> f_enabled e) tab"

lemma fist_on_quiet [simp]: "fist_quiet tab \<Longrightarrow> fist_on name tab = (False, tab)"
  by (induction name tab rule: fist_on.induct) (auto simp: fist_quiet_def)

lemma fist_on_initial_quiet: "fist_quiet (fist_initialize fisttab)"
  by (simp add: fist_quiet_def fist_initialize_def fisttab_def fist_entry_def)

text \<open>The first matching entry decides everything.\<close>

definition fist_find :: "string \<Rightarrow> fist list \<Rightarrow> fist option" where
  "fist_find name tab = List.find (fist_match name) tab"

lemma fist_find_simps [simp]:
  "fist_find name [] = None"
  "fist_find name (e # es) = (if fist_match name e then Some e else fist_find name es)"
  by (simp_all add: fist_find_def)

lemma fist_match_enabled [simp]: "fist_match name (e\<lparr>f_enabled := b\<rparr>) = fist_match name e"
  by (simp add: fist_match_def)

lemma fist_set_loop_Some:
  "fist_set_loop name en tab = Some tab' \<Longrightarrow>
     \<exists>e. fist_find name tab = Some e \<and> fist_find name tab' = Some (e\<lparr>f_enabled := en\<rparr>)"
  by (induction tab arbitrary: tab') (auto split: if_splits)

lemma fist_set_loop_None: "fist_set_loop name en tab = None \<longleftrightarrow> fist_find name tab = None"
  by (induction tab) auto

lemma fist_match_other: "fist_match name e \<Longrightarrow> n' \<noteq> name \<Longrightarrow> \<not> fist_match n' e"
  by (auto simp: fist_match_def)

lemma fist_set_loop_other:
  "fist_set_loop name en tab = Some tab' \<Longrightarrow> n' \<noteq> name \<Longrightarrow> fist_find n' tab' = fist_find n' tab"
  by (induction tab arbitrary: tab') (auto split: if_splits dest: fist_match_other)

lemma fist_on_find:
  "fist_on name tab =
     (r, tab') \<Longrightarrow> r = (case fist_find name tab of None \<Rightarrow> False | Some e \<Rightarrow> f_enabled e)"
  by (induction name tab arbitrary: tab' rule: fist_on.induct) (auto split: if_splits prod.splits)

lemma fist_on_next:
  "fist_on name tab = (r, tab') \<Longrightarrow>
     fist_find name tab' =
       map_option (\<lambda>e. if f_sticky e then e else e\<lparr>f_enabled := False\<rparr>) (fist_find name tab)"
  by (induction name tab arbitrary: tab' rule: fist_on.induct) (auto split: if_splits prod.splits)

lemma fist_on_other:
  "fist_on name tab = (r, tab') \<Longrightarrow> n' \<noteq> name \<Longrightarrow> fist_find n' tab' = fist_find n' tab"
  by (induction name tab arbitrary: tab' rule: fist_on.induct)
     (auto split: if_splits prod.splits dest: fist_match_other)

text \<open>
  An enabled fault point fires at the next query; a one-shot point fires once and a
  sticky one every time until it is disabled, and no query or setting of one point
  touches another.
\<close>

lemma fist_fires:
  assumes set: "fist_set name True tab = Inr tab1"
    and q1: "fist_on name tab1 = (r1, tab2)" and q2: "fist_on name tab2 = (r2, tab3)"
  shows "r1 \<and> (r2 \<longleftrightarrow> (case fist_find name tab of Some e \<Rightarrow> f_sticky e | None \<Rightarrow> False))
    \<and> (\<forall>n'. n' = name \<or> fist_find n' tab3 = fist_find n' tab)"
proof -
  have l: "fist_set_loop name True tab = Some tab1"
    using set by (auto simp: fist_set_def split: option.splits)
  then obtain e where "fist_find name tab = Some e"
      "fist_find name tab1 = Some (e\<lparr>f_enabled := True\<rparr>)"
    using fist_set_loop_Some by blast
  then show ?thesis
    using fist_on_find[OF q1] fist_on_find[OF q2] fist_on_next[OF q1]
      fist_on_other[OF q1] fist_on_other[OF q2] fist_set_loop_other[OF l] by auto
qed

lemma fist_fires_example:
  "fst (fist_on ''a'' [\<lparr>f_name = ''a'', f_sticky = False, f_enabled = True, f_hash = 97\<rparr>])"
  using fist_fires[of "''a''" "[\<lparr>f_name = ''a'', f_sticky = False, f_enabled = False, f_hash = 97\<rparr>]"
      "[\<lparr>f_name = ''a'', f_sticky = False, f_enabled = True, f_hash = 97\<rparr>]"
      True "[\<lparr>f_name = ''a'', f_sticky = False, f_enabled = False, f_hash = 97\<rparr>]"
      False "[\<lparr>f_name = ''a'', f_sticky = False, f_enabled = False, f_hash = 97\<rparr>]"]
  by (simp add: fist_set_def fist_match_def fist_genhas_def)

end
