(* ===== verification/Shared.thy ===== *)
theory Shared
  imports HaTypes Fist
begin

text \<open>
  The shared state of the daemon: the common objects, the static variables of the
  modules that cooperate through them, and the requests the modules hand to the watchdog
  and to the network. The second half models what releasing a writer lock does: the
  registered callbacks run, in the order \<open>com_writer_unlock\<close> walks its list (the
  last registered first).
\<close>

section \<open>Common objects\<close>

record raw_data =
  raw_current_liveset :: hostmap
  raw_proposed_liveset :: hostmap
  raw_hbdomain :: hostmap
  raw_sfdomain :: hostmap
  raw_time_since_last_HB_receipt :: "nat \<Rightarrow> int"
  raw_time_since_last_SF_update :: "nat \<Rightarrow> int"
  raw_time_since_xapi_restart :: int

record com_data_sm =
  sm_current_liveset :: hostmap
  sm_proposed_liveset :: hostmap
  sm_fencing :: fencing_mode
  sm_status :: mtc_status
  sm_phase_of :: sm_phase
  sm_SR2 :: bool
  sm_sf_access :: hostmap
  sm_sf_corrupted :: hostmap
  sm_hb_approaching_timeout :: bool
  sm_sf_approaching_timeout :: bool
  sm_xapi_approaching_timeout :: bool
  sm_weight :: u32
  sm_commited_weight :: u32

record com_data_hb =
  hb_enable_send :: bool
  hb_enable_receive :: bool
  hb_join :: bool
  hb_fence_request :: bool
  hb_latency :: int
  hb_latency_max :: int
  hb_latency_min :: int
  hb_time_last_HB :: "nat \<Rightarrow> clock"
  hb_hbdomain :: hostmap
  hb_notjoining :: hostmap
  hb_raw :: "nat \<Rightarrow> raw_data"
  hb_err_string :: "nat \<Rightarrow> string"
  hb_fencing :: fencing_mode
  hb_SF_accelerate :: bool
  hb_sm_phase :: "nat \<Rightarrow> sm_phase"

text \<open>\<open>modified_mask\<close> has one bit per field; the three bits are three flags here.\<close>

record com_data_sf =
  sf_mod_pool_state :: bool
  sf_mod_master :: bool
  sf_mod_excluded :: bool
  sf_enable_write :: bool
  sf_enable_read :: bool
  sf_ctl_starting :: bool
  sf_lm_request :: "nat \<Rightarrow> bool"
  sf_lm_grant :: "nat \<Rightarrow> hostmap"
  sf_pool_state :: u32
  sf_master :: uuid
  sf_access :: bool
  sf_corrupted :: bool
  sf_time_last_SF :: "nat \<Rightarrow> clock"
  sf_excluded :: hostmap
  sf_starting :: hostmap
  sf_raw :: "nat \<Rightarrow> raw_data"
  sf_latency :: int
  sf_latency_max :: int
  sf_latency_min :: int
  sf_sfdomain :: hostmap
  sf_fencing :: fencing_mode
  sf_sm_phase :: "nat \<Rightarrow> sm_phase"
  sf_weight :: "nat \<Rightarrow> u32"

record com_data_xapimon =
  xm_enable_monitor :: bool
  xm_latency :: int
  xm_latency_max :: int
  xm_latency_min :: int
  xm_time_Xapi_restart :: clock
  xm_time_healthcheck_start :: clock
  xm_err_string :: string

section \<open>Module variables\<close>

text \<open>\<open>smvar\<close> of \<^verbatim>\<open>daemon/sm.c\<close>.\<close>

record sm_var =
  smv_terminate :: bool
  smv_start_time :: clock
  smv_phase :: sm_phase
  smv_need_fh :: bool
  smv_join_block :: bool
  smv_last_hbdomain :: hostmap
  smv_last_sfdomain :: hostmap
  smv_fencing :: fencing_mode
  smv_SR2 :: bool
  smv_sm_sig :: bool
  smv_hb_sig :: bool
  smv_sf_sig :: bool
  smv_fh_sleep_extend :: bool
  smv_stable_hb :: com_data_hb
  smv_stable_sf :: com_data_sf

text \<open>\<open>lmvar\<close> of \<^verbatim>\<open>daemon/lock_mgr.c\<close>.\<close>

record lm_var =
  lmv_pending_request :: bool
  lmv_cancel_request :: bool
  lmv_terminate :: bool
  lmv_first_cleanup_done :: bool
  lmv_sf :: com_data_sf
  lmv_sm :: com_data_sm

text \<open>\<open>hbvar\<close> of \<^verbatim>\<open>daemon/heartbeat.c\<close>; the watchdog handle is \<open>None\<close> when invalid.\<close>

record hb_var =
  hbv_watchdog :: "nat option"
  hbv_terminate :: bool
  hbv_sequence :: "nat \<Rightarrow> u32"
  hbv_recvfrom_failed :: bool

text \<open>\<open>sfvar\<close> of \<^verbatim>\<open>daemon/statefile.c\<close>.\<close>

record sf_hoststat =
  hs_readonce :: bool
  hs_sequence :: u32
  hs_readclock :: clock
  hs_updateclock :: clock

record sf_latency_t =
  lat_last :: int
  lat_max :: int
  lat_min :: int

record sf_var =
  sfv_terminate :: bool
  sfv_sequence :: u32
  sfv_SF_access :: bool
  sfv_watchdog :: "nat option"
  sfv_interval_ms :: int
  sfv_accelerate_count :: u32
  sfv_hoststat :: "nat \<Rightarrow> sf_hoststat"
  sfv_readlatency :: sf_latency_t
  sfv_writelatency :: sf_latency_t

text \<open>The heartbeat packet \<open>HB_PACKET\<close>, without its padding.\<close>

record hb_packet =
  pkt_signature :: u32
  pkt_checksum :: u32
  pkt_sequence :: u32
  pkt_size :: u32
  pkt_generation_uuid :: uuid
  pkt_host_uuid :: uuid
  pkt_host_index :: u32
  pkt_current_liveset :: hostmap
  pkt_proposed_liveset :: hostmap
  pkt_hbdomain :: hostmap
  pkt_sfdomain :: hostmap
  pkt_time_since_last_HB_receipt :: "nat \<Rightarrow> int"
  pkt_time_since_last_SF_update :: "nat \<Rightarrow> int"
  pkt_time_since_xapi_restart :: int
  pkt_sm_phase :: sm_phase
  pkt_err_string :: string
  pkt_SF_access :: bool
  pkt_SF_corrupted :: bool
  pkt_SF_accelerate :: bool
  pkt_fence_request :: bool
  pkt_SR2 :: bool
  pkt_joining :: bool

text \<open>Calls into \<^verbatim>\<open>daemon/watchdog.c\<close>, in the order they are made.\<close>

datatype wd_request = WdSet nat u32 | WdClose nat

section \<open>The daemon\<close>

text \<open>
  \<open>d_exit\<close> is the status \<open>main_terminate\<close> was called with, \<open>d_fenced\<close> the
  one of a self-fence (after which the host is reset and nothing more happens).
  \<open>d_sent\<close> holds the packets sent, one entry per destination, oldest first.
\<close>

record daemon =
  d_sm :: com_data_sm
  d_hb :: com_data_hb
  d_sf :: com_data_sf
  d_xm :: com_data_xapimon
  d_smv :: sm_var
  d_lmv :: lm_var
  d_hbv :: hb_var
  d_sfv :: sf_var
  d_sent :: "(nat \<times> hb_packet) list"
  d_wd :: "wd_request list"
  d_exit :: "mtc_status option"
  d_fenced :: "mtc_status option"
  d_fist :: "fist list"

text \<open>Update one object in place.\<close>

abbreviation upd_sm :: "(com_data_sm \<Rightarrow> com_data_sm) \<Rightarrow> daemon \<Rightarrow> daemon" where
  "upd_sm f d \<equiv> d\<lparr>d_sm := f (d_sm d)\<rparr>"

abbreviation upd_hb :: "(com_data_hb \<Rightarrow> com_data_hb) \<Rightarrow> daemon \<Rightarrow> daemon" where
  "upd_hb f d \<equiv> d\<lparr>d_hb := f (d_hb d)\<rparr>"

abbreviation upd_sf :: "(com_data_sf \<Rightarrow> com_data_sf) \<Rightarrow> daemon \<Rightarrow> daemon" where
  "upd_sf f d \<equiv> d\<lparr>d_sf := f (d_sf d)\<rparr>"

abbreviation upd_xm :: "(com_data_xapimon \<Rightarrow> com_data_xapimon) \<Rightarrow> daemon \<Rightarrow> daemon" where
  "upd_xm f d \<equiv> d\<lparr>d_xm := f (d_xm d)\<rparr>"

abbreviation upd_smv :: "(sm_var \<Rightarrow> sm_var) \<Rightarrow> daemon \<Rightarrow> daemon" where
  "upd_smv f d \<equiv> d\<lparr>d_smv := f (d_smv d)\<rparr>"

abbreviation upd_lmv :: "(lm_var \<Rightarrow> lm_var) \<Rightarrow> daemon \<Rightarrow> daemon" where
  "upd_lmv f d \<equiv> d\<lparr>d_lmv := f (d_lmv d)\<rparr>"

abbreviation upd_hbv :: "(hb_var \<Rightarrow> hb_var) \<Rightarrow> daemon \<Rightarrow> daemon" where
  "upd_hbv f d \<equiv> d\<lparr>d_hbv := f (d_hbv d)\<rparr>"

abbreviation upd_sfv :: "(sf_var \<Rightarrow> sf_var) \<Rightarrow> daemon \<Rightarrow> daemon" where
  "upd_sfv f d \<equiv> d\<lparr>d_sfv := f (d_sfv d)\<rparr>"

section \<open>Callbacks\<close>

text \<open>
  \<open>pthread_self()\<close> matters in one respect only: the callbacks of the state manager do
  not signal the state-manager thread itself. \<open>by_sm\<close> says that the releasing thread
  is that one.
\<close>

definition sm_send_signals_sm_hb_sf :: "bool \<Rightarrow> bool \<Rightarrow> bool \<Rightarrow> daemon \<Rightarrow> daemon" where
  "sm_send_signals_sm_hb_sf sm_sig hb_sig sf_sig = upd_smv (\<lambda>v.
     v\<lparr>smv_sm_sig := smv_sm_sig v \<or> sm_sig,
       smv_hb_sig := smv_hb_sig v \<or> hb_sig,
       smv_sf_sig := smv_sf_sig v \<or> sf_sig\<rparr>)"

definition sm_hb_updated :: "bool \<Rightarrow> daemon \<Rightarrow> daemon" where
  "sm_hb_updated by_sm d =
     (if \<not> by_sm then sm_send_signals_sm_hb_sf False True False d else d)"

definition sm_sf_updated :: "bool \<Rightarrow> daemon \<Rightarrow> daemon" where
  "sm_sf_updated by_sm d =
     (if \<not> by_sm then sm_send_signals_sm_hb_sf False False True d else d)"

definition sm_sm_updated :: "bool \<Rightarrow> daemon \<Rightarrow> daemon" where
  "sm_sm_updated by_sm d =
     (let d1 = (if sm_fencing (d_sm d) = FENCING_DISARM_REQUESTED
                then upd_smv (\<lambda>v. v\<lparr>smv_fencing := FENCING_DISARMED\<rparr>)
                       (upd_sm (\<lambda>s. s\<lparr>sm_fencing := FENCING_DISARMED\<rparr>) d)
                else d);
          d2 = (if \<not> by_sm then sm_send_signals_sm_hb_sf True False False d1 else d1)
      in upd_smv (\<lambda>v. v\<lparr>smv_SR2 := sm_SR2 (d_sm d2)\<rparr>) d2)"

definition lm_sf_updated :: "daemon \<Rightarrow> daemon" where
  "lm_sf_updated d = upd_lmv (\<lambda>v. v\<lparr>lmv_sf := d_sf d\<rparr>) d"

definition lm_sm_updated :: "daemon \<Rightarrow> daemon" where
  "lm_sm_updated d = upd_lmv (\<lambda>v. v\<lparr>lmv_sm := d_sm d\<rparr>) d"

definition hb_hb_updated :: "daemon \<Rightarrow> daemon" where
  "hb_hb_updated d =
     (case hb_fencing (d_hb d) of
        FENCING_DISARM_REQUESTED \<Rightarrow>
          (let d1 = upd_hb (\<lambda>h. h\<lparr>hb_fencing := FENCING_DISARMED\<rparr>) d
           in (case hbv_watchdog (d_hbv d1) of
                 Some w \<Rightarrow> upd_hbv (\<lambda>v. v\<lparr>hbv_watchdog := None\<rparr>)
                             (d1\<lparr>d_wd := d_wd d1 @ [WdClose w]\<rparr>)
               | None \<Rightarrow> d1))
      | _ \<Rightarrow> d)"

definition sf_sf_updated :: "daemon \<Rightarrow> daemon" where
  "sf_sf_updated d =
     (case sf_fencing (d_sf d) of
        FENCING_DISARM_REQUESTED \<Rightarrow>
          (let d1 = upd_sf (\<lambda>h. h\<lparr>sf_fencing := FENCING_DISARMED\<rparr>) d
           in (case sfv_watchdog (d_sfv d1) of
                 Some w \<Rightarrow> upd_sfv (\<lambda>v. v\<lparr>sfv_watchdog := None\<rparr>)
                             (d1\<lparr>d_wd := d_wd d1 @ [WdClose w]\<rparr>)
               | None \<Rightarrow> d1))
      | _ \<Rightarrow> d)"

text \<open>
  \<open>com_writer_unlock\<close> on each object. The modules initialise in the order of the
  table in \<^verbatim>\<open>daemon/main.c\<close> (state file, lock manager, heartbeat, state manager),
  so the list runs state manager, lock manager, owner.
\<close>

definition unlock_sm :: "bool \<Rightarrow> daemon \<Rightarrow> daemon" where
  "unlock_sm by_sm d = lm_sm_updated (sm_sm_updated by_sm d)"

definition unlock_hb :: "bool \<Rightarrow> daemon \<Rightarrow> daemon" where
  "unlock_hb by_sm d = hb_hb_updated (sm_hb_updated by_sm d)"

definition unlock_sf :: "bool \<Rightarrow> daemon \<Rightarrow> daemon" where
  "unlock_sf by_sm d = sf_sf_updated (lm_sf_updated (sm_sf_updated by_sm d))"

text \<open>A critical section on one object: lock, update, release.\<close>

definition with_sm :: "bool \<Rightarrow> (com_data_sm \<Rightarrow> com_data_sm) \<Rightarrow> daemon \<Rightarrow> daemon" where
  "with_sm by_sm f d = unlock_sm by_sm (upd_sm f d)"

definition with_hb :: "bool \<Rightarrow> (com_data_hb \<Rightarrow> com_data_hb) \<Rightarrow> daemon \<Rightarrow> daemon" where
  "with_hb by_sm f d = unlock_hb by_sm (upd_hb f d)"

definition with_sf :: "bool \<Rightarrow> (com_data_sf \<Rightarrow> com_data_sf) \<Rightarrow> daemon \<Rightarrow> daemon" where
  "with_sf by_sm f d = unlock_sf by_sm (upd_sf f d)"

text \<open>
  \<open>main_terminate\<close> (\<^verbatim>\<open>daemon/main.c\<close>): only the first failing status is
  kept; the calling thread never returns from it.
\<close>

definition main_terminate :: "mtc_status \<Rightarrow> daemon \<Rightarrow> daemon" where
  "main_terminate status d =
     d\<lparr>d_exit := (case d_exit d of
                   None \<Rightarrow> Some status
                 | Some st \<Rightarrow> if st = MTC_SUCCESS then Some status else Some st)\<rparr>"

section \<open>What releasing a lock leaves alone\<close>

lemma unlock_sm_frame [simp, frame_simps]:
  "d_hb (unlock_sm b d) = d_hb d"
  "d_sf (unlock_sm b d) = d_sf d"
  "d_xm (unlock_sm b d) = d_xm d"
  "d_hbv (unlock_sm b d) = d_hbv d"
  "d_sfv (unlock_sm b d) = d_sfv d"
  "d_sent (unlock_sm b d) = d_sent d"
  "d_wd (unlock_sm b d) = d_wd d"
  "d_exit (unlock_sm b d) = d_exit d"
  "d_fenced (unlock_sm b d) = d_fenced d"
  "d_fist (unlock_sm b d) = d_fist d"
  by (auto simp: unlock_sm_def sm_send_signals_sm_hb_sf_def lm_sm_updated_def lm_sf_updated_def sm_sm_updated_def sm_hb_updated_def sm_sf_updated_def hb_hb_updated_def sf_sf_updated_def Let_def
        split: fencing_mode.splits option.splits)

lemma unlock_hb_frame [simp, frame_simps]:
  "d_sm (unlock_hb b d) = d_sm d"
  "d_sf (unlock_hb b d) = d_sf d"
  "d_xm (unlock_hb b d) = d_xm d"
  "d_lmv (unlock_hb b d) = d_lmv d"
  "d_sfv (unlock_hb b d) = d_sfv d"
  "d_sent (unlock_hb b d) = d_sent d"
  "d_exit (unlock_hb b d) = d_exit d"
  "d_fenced (unlock_hb b d) = d_fenced d"
  "d_fist (unlock_hb b d) = d_fist d"
  by (auto simp: unlock_hb_def sm_send_signals_sm_hb_sf_def lm_sm_updated_def lm_sf_updated_def sm_sm_updated_def sm_hb_updated_def sm_sf_updated_def hb_hb_updated_def sf_sf_updated_def Let_def
        split: fencing_mode.splits option.splits)

lemma unlock_sf_frame [simp, frame_simps]:
  "d_sm (unlock_sf b d) = d_sm d"
  "d_hb (unlock_sf b d) = d_hb d"
  "d_xm (unlock_sf b d) = d_xm d"
  "d_hbv (unlock_sf b d) = d_hbv d"
  "d_sent (unlock_sf b d) = d_sent d"
  "d_exit (unlock_sf b d) = d_exit d"
  "d_fenced (unlock_sf b d) = d_fenced d"
  "d_fist (unlock_sf b d) = d_fist d"
  by (auto simp: unlock_sf_def sm_send_signals_sm_hb_sf_def lm_sm_updated_def lm_sf_updated_def sm_sm_updated_def sm_hb_updated_def sm_sf_updated_def hb_hb_updated_def sf_sf_updated_def Let_def
        split: fencing_mode.splits option.splits)

lemma unlock_sm_sm [simp, frame_simps]:
  "sm_current_liveset (d_sm (unlock_sm b d)) = sm_current_liveset (d_sm d)"
  "sm_proposed_liveset (d_sm (unlock_sm b d)) = sm_proposed_liveset (d_sm d)"
  "sm_status (d_sm (unlock_sm b d)) = sm_status (d_sm d)"
  "sm_phase_of (d_sm (unlock_sm b d)) = sm_phase_of (d_sm d)"
  "sm_SR2 (d_sm (unlock_sm b d)) = sm_SR2 (d_sm d)"
  "sm_sf_access (d_sm (unlock_sm b d)) = sm_sf_access (d_sm d)"
  "sm_sf_corrupted (d_sm (unlock_sm b d)) = sm_sf_corrupted (d_sm d)"
  "sm_hb_approaching_timeout (d_sm (unlock_sm b d)) = sm_hb_approaching_timeout (d_sm d)"
  "sm_sf_approaching_timeout (d_sm (unlock_sm b d)) = sm_sf_approaching_timeout (d_sm d)"
  "sm_xapi_approaching_timeout (d_sm (unlock_sm b d)) = sm_xapi_approaching_timeout (d_sm d)"
  "sm_weight (d_sm (unlock_sm b d)) = sm_weight (d_sm d)"
  "sm_commited_weight (d_sm (unlock_sm b d)) = sm_commited_weight (d_sm d)"
  by (auto simp: unlock_sm_def sm_send_signals_sm_hb_sf_def lm_sm_updated_def lm_sf_updated_def sm_sm_updated_def sm_hb_updated_def sm_sf_updated_def hb_hb_updated_def sf_sf_updated_def Let_def
        split: fencing_mode.splits option.splits)

lemma unlock_hb_hb [simp, frame_simps]:
  "hb_enable_send (d_hb (unlock_hb b d)) = hb_enable_send (d_hb d)"
  "hb_enable_receive (d_hb (unlock_hb b d)) = hb_enable_receive (d_hb d)"
  "hb_join (d_hb (unlock_hb b d)) = hb_join (d_hb d)"
  "hb_fence_request (d_hb (unlock_hb b d)) = hb_fence_request (d_hb d)"
  "hb_latency (d_hb (unlock_hb b d)) = hb_latency (d_hb d)"
  "hb_latency_max (d_hb (unlock_hb b d)) = hb_latency_max (d_hb d)"
  "hb_latency_min (d_hb (unlock_hb b d)) = hb_latency_min (d_hb d)"
  "hb_time_last_HB (d_hb (unlock_hb b d)) = hb_time_last_HB (d_hb d)"
  "hb_hbdomain (d_hb (unlock_hb b d)) = hb_hbdomain (d_hb d)"
  "hb_notjoining (d_hb (unlock_hb b d)) = hb_notjoining (d_hb d)"
  "hb_raw (d_hb (unlock_hb b d)) = hb_raw (d_hb d)"
  "hb_err_string (d_hb (unlock_hb b d)) = hb_err_string (d_hb d)"
  "hb_SF_accelerate (d_hb (unlock_hb b d)) = hb_SF_accelerate (d_hb d)"
  "hb_sm_phase (d_hb (unlock_hb b d)) = hb_sm_phase (d_hb d)"
  by (auto simp: unlock_hb_def sm_send_signals_sm_hb_sf_def lm_sm_updated_def lm_sf_updated_def sm_sm_updated_def sm_hb_updated_def sm_sf_updated_def hb_hb_updated_def sf_sf_updated_def Let_def
        split: fencing_mode.splits option.splits)

lemma unlock_sf_sf [simp, frame_simps]:
  "sf_mod_pool_state (d_sf (unlock_sf b d)) = sf_mod_pool_state (d_sf d)"
  "sf_mod_master (d_sf (unlock_sf b d)) = sf_mod_master (d_sf d)"
  "sf_mod_excluded (d_sf (unlock_sf b d)) = sf_mod_excluded (d_sf d)"
  "sf_enable_write (d_sf (unlock_sf b d)) = sf_enable_write (d_sf d)"
  "sf_enable_read (d_sf (unlock_sf b d)) = sf_enable_read (d_sf d)"
  "sf_ctl_starting (d_sf (unlock_sf b d)) = sf_ctl_starting (d_sf d)"
  "sf_lm_request (d_sf (unlock_sf b d)) = sf_lm_request (d_sf d)"
  "sf_lm_grant (d_sf (unlock_sf b d)) = sf_lm_grant (d_sf d)"
  "sf_pool_state (d_sf (unlock_sf b d)) = sf_pool_state (d_sf d)"
  "sf_master (d_sf (unlock_sf b d)) = sf_master (d_sf d)"
  "sf_access (d_sf (unlock_sf b d)) = sf_access (d_sf d)"
  "sf_corrupted (d_sf (unlock_sf b d)) = sf_corrupted (d_sf d)"
  "sf_time_last_SF (d_sf (unlock_sf b d)) = sf_time_last_SF (d_sf d)"
  "sf_excluded (d_sf (unlock_sf b d)) = sf_excluded (d_sf d)"
  "sf_starting (d_sf (unlock_sf b d)) = sf_starting (d_sf d)"
  "sf_raw (d_sf (unlock_sf b d)) = sf_raw (d_sf d)"
  "sf_latency (d_sf (unlock_sf b d)) = sf_latency (d_sf d)"
  "sf_latency_max (d_sf (unlock_sf b d)) = sf_latency_max (d_sf d)"
  "sf_latency_min (d_sf (unlock_sf b d)) = sf_latency_min (d_sf d)"
  "sf_sfdomain (d_sf (unlock_sf b d)) = sf_sfdomain (d_sf d)"
  "sf_sm_phase (d_sf (unlock_sf b d)) = sf_sm_phase (d_sf d)"
  "sf_weight (d_sf (unlock_sf b d)) = sf_weight (d_sf d)"
  by (auto simp: unlock_sf_def sm_send_signals_sm_hb_sf_def lm_sm_updated_def lm_sf_updated_def sm_sm_updated_def sm_hb_updated_def sm_sf_updated_def hb_hb_updated_def sf_sf_updated_def Let_def
        split: fencing_mode.splits option.splits)

lemma unlock_sm_smv [simp, frame_simps]:
  "smv_terminate (d_smv (unlock_sm b d)) = smv_terminate (d_smv d)"
  "smv_start_time (d_smv (unlock_sm b d)) = smv_start_time (d_smv d)"
  "smv_phase (d_smv (unlock_sm b d)) = smv_phase (d_smv d)"
  "smv_need_fh (d_smv (unlock_sm b d)) = smv_need_fh (d_smv d)"
  "smv_join_block (d_smv (unlock_sm b d)) = smv_join_block (d_smv d)"
  "smv_last_hbdomain (d_smv (unlock_sm b d)) = smv_last_hbdomain (d_smv d)"
  "smv_last_sfdomain (d_smv (unlock_sm b d)) = smv_last_sfdomain (d_smv d)"
  "smv_hb_sig (d_smv (unlock_sm b d)) = smv_hb_sig (d_smv d)"
  "smv_sf_sig (d_smv (unlock_sm b d)) = smv_sf_sig (d_smv d)"
  "smv_fh_sleep_extend (d_smv (unlock_sm b d)) = smv_fh_sleep_extend (d_smv d)"
  "smv_stable_hb (d_smv (unlock_sm b d)) = smv_stable_hb (d_smv d)"
  "smv_stable_sf (d_smv (unlock_sm b d)) = smv_stable_sf (d_smv d)"
  "smv_SR2 (d_smv (unlock_sm b d)) = sm_SR2 (d_sm d)"
  by (auto simp: unlock_sm_def sm_send_signals_sm_hb_sf_def lm_sm_updated_def lm_sf_updated_def sm_sm_updated_def sm_hb_updated_def sm_sf_updated_def hb_hb_updated_def sf_sf_updated_def Let_def
        split: fencing_mode.splits option.splits)

lemma unlock_hb_smv [simp, frame_simps]:
  "smv_terminate (d_smv (unlock_hb b d)) = smv_terminate (d_smv d)"
  "smv_start_time (d_smv (unlock_hb b d)) = smv_start_time (d_smv d)"
  "smv_phase (d_smv (unlock_hb b d)) = smv_phase (d_smv d)"
  "smv_need_fh (d_smv (unlock_hb b d)) = smv_need_fh (d_smv d)"
  "smv_join_block (d_smv (unlock_hb b d)) = smv_join_block (d_smv d)"
  "smv_last_hbdomain (d_smv (unlock_hb b d)) = smv_last_hbdomain (d_smv d)"
  "smv_last_sfdomain (d_smv (unlock_hb b d)) = smv_last_sfdomain (d_smv d)"
  "smv_fencing (d_smv (unlock_hb b d)) = smv_fencing (d_smv d)"
  "smv_SR2 (d_smv (unlock_hb b d)) = smv_SR2 (d_smv d)"
  "smv_sm_sig (d_smv (unlock_hb b d)) = smv_sm_sig (d_smv d)"
  "smv_sf_sig (d_smv (unlock_hb b d)) = smv_sf_sig (d_smv d)"
  "smv_fh_sleep_extend (d_smv (unlock_hb b d)) = smv_fh_sleep_extend (d_smv d)"
  "smv_stable_hb (d_smv (unlock_hb b d)) = smv_stable_hb (d_smv d)"
  "smv_stable_sf (d_smv (unlock_hb b d)) = smv_stable_sf (d_smv d)"
  by (auto simp: unlock_hb_def sm_send_signals_sm_hb_sf_def lm_sm_updated_def lm_sf_updated_def sm_sm_updated_def sm_hb_updated_def sm_sf_updated_def hb_hb_updated_def sf_sf_updated_def Let_def
        split: fencing_mode.splits option.splits)

lemma unlock_sf_smv [simp, frame_simps]:
  "smv_terminate (d_smv (unlock_sf b d)) = smv_terminate (d_smv d)"
  "smv_start_time (d_smv (unlock_sf b d)) = smv_start_time (d_smv d)"
  "smv_phase (d_smv (unlock_sf b d)) = smv_phase (d_smv d)"
  "smv_need_fh (d_smv (unlock_sf b d)) = smv_need_fh (d_smv d)"
  "smv_join_block (d_smv (unlock_sf b d)) = smv_join_block (d_smv d)"
  "smv_last_hbdomain (d_smv (unlock_sf b d)) = smv_last_hbdomain (d_smv d)"
  "smv_last_sfdomain (d_smv (unlock_sf b d)) = smv_last_sfdomain (d_smv d)"
  "smv_fencing (d_smv (unlock_sf b d)) = smv_fencing (d_smv d)"
  "smv_SR2 (d_smv (unlock_sf b d)) = smv_SR2 (d_smv d)"
  "smv_sm_sig (d_smv (unlock_sf b d)) = smv_sm_sig (d_smv d)"
  "smv_hb_sig (d_smv (unlock_sf b d)) = smv_hb_sig (d_smv d)"
  "smv_fh_sleep_extend (d_smv (unlock_sf b d)) = smv_fh_sleep_extend (d_smv d)"
  "smv_stable_hb (d_smv (unlock_sf b d)) = smv_stable_hb (d_smv d)"
  "smv_stable_sf (d_smv (unlock_sf b d)) = smv_stable_sf (d_smv d)"
  by (auto simp: unlock_sf_def sm_send_signals_sm_hb_sf_def lm_sm_updated_def lm_sf_updated_def sm_sm_updated_def sm_hb_updated_def sm_sf_updated_def hb_hb_updated_def sf_sf_updated_def Let_def
        split: fencing_mode.splits option.splits)

lemma unlock_sm_lmv [simp, frame_simps]:
  "lmv_pending_request (d_lmv (unlock_sm b d)) = lmv_pending_request (d_lmv d)"
  "lmv_cancel_request (d_lmv (unlock_sm b d)) = lmv_cancel_request (d_lmv d)"
  "lmv_terminate (d_lmv (unlock_sm b d)) = lmv_terminate (d_lmv d)"
  "lmv_first_cleanup_done (d_lmv (unlock_sm b d)) = lmv_first_cleanup_done (d_lmv d)"
  "lmv_sf (d_lmv (unlock_sm b d)) = lmv_sf (d_lmv d)"
  "lmv_sm (d_lmv (unlock_sm b d)) = d_sm (unlock_sm b d)"
  by (auto simp: unlock_sm_def sm_send_signals_sm_hb_sf_def lm_sm_updated_def lm_sf_updated_def sm_sm_updated_def sm_hb_updated_def sm_sf_updated_def hb_hb_updated_def sf_sf_updated_def Let_def
        split: fencing_mode.splits option.splits)

lemma unlock_sf_lmv [simp, frame_simps]:
  "lmv_pending_request (d_lmv (unlock_sf b d)) = lmv_pending_request (d_lmv d)"
  "lmv_cancel_request (d_lmv (unlock_sf b d)) = lmv_cancel_request (d_lmv d)"
  "lmv_terminate (d_lmv (unlock_sf b d)) = lmv_terminate (d_lmv d)"
  "lmv_first_cleanup_done (d_lmv (unlock_sf b d)) = lmv_first_cleanup_done (d_lmv d)"
  "lmv_sm (d_lmv (unlock_sf b d)) = lmv_sm (d_lmv d)"
  "lmv_sf (d_lmv (unlock_sf b d)) = d_sf d"
  by (auto simp: unlock_sf_def sm_send_signals_sm_hb_sf_def lm_sm_updated_def lm_sf_updated_def sm_sm_updated_def sm_hb_updated_def sm_sf_updated_def hb_hb_updated_def sf_sf_updated_def Let_def
        split: fencing_mode.splits option.splits)

lemma unlock_hb_hbv [simp, frame_simps]:
  "hbv_terminate (d_hbv (unlock_hb b d)) = hbv_terminate (d_hbv d)"
  "hbv_sequence (d_hbv (unlock_hb b d)) = hbv_sequence (d_hbv d)"
  "hbv_recvfrom_failed (d_hbv (unlock_hb b d)) = hbv_recvfrom_failed (d_hbv d)"
  by (auto simp: unlock_hb_def sm_send_signals_sm_hb_sf_def lm_sm_updated_def lm_sf_updated_def sm_sm_updated_def sm_hb_updated_def sm_sf_updated_def hb_hb_updated_def sf_sf_updated_def Let_def
        split: fencing_mode.splits option.splits)

lemma unlock_sf_sfv [simp, frame_simps]:
  "sfv_terminate (d_sfv (unlock_sf b d)) = sfv_terminate (d_sfv d)"
  "sfv_sequence (d_sfv (unlock_sf b d)) = sfv_sequence (d_sfv d)"
  "sfv_SF_access (d_sfv (unlock_sf b d)) = sfv_SF_access (d_sfv d)"
  "sfv_interval_ms (d_sfv (unlock_sf b d)) = sfv_interval_ms (d_sfv d)"
  "sfv_accelerate_count (d_sfv (unlock_sf b d)) = sfv_accelerate_count (d_sfv d)"
  "sfv_hoststat (d_sfv (unlock_sf b d)) = sfv_hoststat (d_sfv d)"
  "sfv_readlatency (d_sfv (unlock_sf b d)) = sfv_readlatency (d_sfv d)"
  "sfv_writelatency (d_sfv (unlock_sf b d)) = sfv_writelatency (d_sfv d)"
  by (auto simp: unlock_sf_def sm_send_signals_sm_hb_sf_def lm_sm_updated_def lm_sf_updated_def sm_sm_updated_def sm_hb_updated_def sm_sf_updated_def hb_hb_updated_def sf_sf_updated_def Let_def
        split: fencing_mode.splits option.splits)

text \<open>
  A disarm request is the only thing a release changes in the object itself, and it is
  answered at once: no object is left in \<open>FENCING_DISARM_REQUESTED\<close>.
\<close>

lemma unlock_sm_fencing:
  "sm_fencing (d_sm (unlock_sm b d)) =
     (if sm_fencing (d_sm d) = FENCING_DISARM_REQUESTED then FENCING_DISARMED
      else sm_fencing (d_sm d))"
  "smv_fencing (d_smv (unlock_sm b d)) =
     (if sm_fencing (d_sm d) = FENCING_DISARM_REQUESTED then FENCING_DISARMED
      else smv_fencing (d_smv d))"
  by (auto simp: unlock_sm_def sm_sm_updated_def lm_sm_updated_def
        sm_send_signals_sm_hb_sf_def Let_def)

lemma unlock_hb_fencing:
  "hb_fencing (d_hb (unlock_hb b d)) =
     (if hb_fencing (d_hb d) = FENCING_DISARM_REQUESTED then FENCING_DISARMED
      else hb_fencing (d_hb d))"
  by (auto simp: unlock_hb_def sm_hb_updated_def hb_hb_updated_def
        sm_send_signals_sm_hb_sf_def Let_def split: fencing_mode.splits option.splits)

lemma unlock_sf_fencing:
  "sf_fencing (d_sf (unlock_sf b d)) =
     (if sf_fencing (d_sf d) = FENCING_DISARM_REQUESTED then FENCING_DISARMED
      else sf_fencing (d_sf d))"
  by (auto simp: unlock_sf_def sm_sf_updated_def sf_sf_updated_def lm_sf_updated_def
        sm_send_signals_sm_hb_sf_def Let_def split: fencing_mode.splits option.splits)

text \<open>
  A closing watchdog is requested exactly when a disarm request meets an open handle.
\<close>

lemma unlock_hb_wd:
  "d_wd (unlock_hb b d) =
     (case hbv_watchdog (d_hbv d) of
        Some w \<Rightarrow> (if hb_fencing (d_hb d) = FENCING_DISARM_REQUESTED
                    then d_wd d @ [WdClose w] else d_wd d)
      | None \<Rightarrow> d_wd d)"
  by (auto simp: unlock_hb_def sm_hb_updated_def hb_hb_updated_def
        sm_send_signals_sm_hb_sf_def Let_def split: fencing_mode.splits option.splits)

lemma unlock_sf_wd:
  "d_wd (unlock_sf b d) =
     (case sfv_watchdog (d_sfv d) of
        Some w \<Rightarrow> (if sf_fencing (d_sf d) = FENCING_DISARM_REQUESTED
                    then d_wd d @ [WdClose w] else d_wd d)
      | None \<Rightarrow> d_wd d)"
  by (auto simp: unlock_sf_def sm_sf_updated_def sf_sf_updated_def lm_sf_updated_def
        sm_send_signals_sm_hb_sf_def Let_def split: fencing_mode.splits option.splits)

end
