(* ===== verification/InitObjects.thy ===== *)
theory InitObjects
  imports Shared
begin

text \<open>
  The values the modules create their common objects with, and their static variables at
  start: \<open>sm_initialize0\<close> (\<^verbatim>\<open>daemon/sm.c\<close>), \<open>hb_initialize0\<close>
  (\<^verbatim>\<open>daemon/heartbeat.c\<close>), \<open>sf_initialize0\<close> (\<^verbatim>\<open>daemon/statefile.c\<close>),
  \<open>lm_initialize_lm_fields\<close> (\<^verbatim>\<open>daemon/lock_mgr.c\<close>) and \<open>xapimon_initialize\<close>
  (\<^verbatim>\<open>daemon/xapi_mon.c\<close>). A field the C initialiser leaves indeterminate (the
  structures live on the stack) is given its zero here; no operation reads one before it
  is written.
\<close>

definition init_raw :: raw_data where
  "init_raw = \<lparr>raw_current_liveset = hm_init_reset, raw_proposed_liveset = hm_init_reset,
     raw_hbdomain = hm_init_reset, raw_sfdomain = hm_init_reset,
     raw_time_since_last_HB_receipt = (\<lambda>_. - 1), raw_time_since_last_SF_update = (\<lambda>_. - 1),
     raw_time_since_xapi_restart = - 1\<rparr>"

definition init_com_sm :: com_data_sm where
  "init_com_sm = \<lparr>sm_current_liveset = hm_init_reset, sm_proposed_liveset = hm_init_reset,
     sm_fencing = FENCING_NONE, sm_status = MTC_SUCCESS, sm_phase_of = SM_PHASE_STARTING,
     sm_SR2 = False, sm_sf_access = hm_init_reset, sm_sf_corrupted = hm_init_reset,
     sm_hb_approaching_timeout = False, sm_sf_approaching_timeout = False,
     sm_xapi_approaching_timeout = False, sm_weight = 0, sm_commited_weight = 0\<rparr>"

definition init_com_hb :: com_data_hb where
  "init_com_hb = \<lparr>hb_enable_send = False, hb_enable_receive = False, hb_join = False,
     hb_fence_request = False, hb_latency = - 1, hb_latency_max = - 1, hb_latency_min = - 1,
     hb_time_last_HB = (\<lambda>_. - 1), hb_hbdomain = hm_init_reset, hb_notjoining = hm_init_reset,
     hb_raw = (\<lambda>_. init_raw), hb_err_string = (\<lambda>_. []), hb_fencing = FENCING_ARMED,
     hb_SF_accelerate = False, hb_sm_phase = (\<lambda>_. SM_PHASE_STARTING)\<rparr>"

definition lm_initialize_lm_fields :: "ha_config \<Rightarrow> com_data_sf \<Rightarrow> com_data_sf" where
  "lm_initialize_lm_fields c sf =
     (let sf1 = for_hosts MAX_HOST_NUM (\<lambda>i sf.
            sf\<lparr>sf_lm_request := (sf_lm_request sf)(i := False),
               sf_lm_grant := (sf_lm_grant sf)(i := hm_init_reset)\<rparr>) sf
      in sf1\<lparr>sf_lm_request := (sf_lm_request sf1)(my_index c := False),
             sf_lm_grant := (sf_lm_grant sf1)(my_index c := hm_init_set)\<rparr>)"

definition init_com_sf :: "ha_config \<Rightarrow> com_data_sf" where
  "init_com_sf c = lm_initialize_lm_fields c
     \<lparr>sf_mod_pool_state = False, sf_mod_master = False, sf_mod_excluded = False,
      sf_enable_write = False, sf_enable_read = False, sf_ctl_starting = False,
      sf_lm_request = (\<lambda>_. False), sf_lm_grant = (\<lambda>_. hm_init_reset),
      sf_pool_state = SF_STATE_NONE, sf_master = [], sf_access = False, sf_corrupted = False,
      sf_time_last_SF = (\<lambda>_. - 1), sf_excluded = hm_init_reset, sf_starting = hm_init_reset,
      sf_raw = (\<lambda>_. init_raw), sf_latency = - 1, sf_latency_max = - 1, sf_latency_min = - 1,
      sf_sfdomain = hm_init_reset, sf_fencing = FENCING_ARMED,
      sf_sm_phase = (\<lambda>_. SM_PHASE_STARTING), sf_weight = (\<lambda>_. 0)\<rparr>"

definition init_com_xm :: com_data_xapimon where
  "init_com_xm = \<lparr>xm_enable_monitor = False, xm_latency = - 1, xm_latency_max = - 1,
     xm_latency_min = - 1, xm_time_Xapi_restart = - 1, xm_time_healthcheck_start = - 1,
     xm_err_string = []\<rparr>"

section \<open>Module variables at start\<close>

definition init_smv :: "ha_config \<Rightarrow> sm_var" where
  "init_smv c = \<lparr>smv_terminate = False, smv_start_time = - 1, smv_phase = SM_PHASE_STARTING,
     smv_need_fh = False, smv_join_block = False, smv_last_hbdomain = hm_init_reset,
     smv_last_sfdomain = hm_init_reset, smv_fencing = FENCING_NONE, smv_SR2 = False,
     smv_sm_sig = False, smv_hb_sig = False, smv_sf_sig = False, smv_fh_sleep_extend = False,
     smv_stable_hb = init_com_hb, smv_stable_sf = init_com_sf c\<rparr>"

text \<open>The lock manager clears its two copies with \<open>memset\<close>.\<close>

definition zero_raw :: raw_data where
  "zero_raw = init_raw\<lparr>raw_time_since_last_HB_receipt := (\<lambda>_. 0),
     raw_time_since_last_SF_update := (\<lambda>_. 0), raw_time_since_xapi_restart := 0\<rparr>"

definition zero_com_sf :: com_data_sf where
  "zero_com_sf =
     \<lparr>sf_mod_pool_state = False, sf_mod_master = False, sf_mod_excluded = False,
      sf_enable_write = False, sf_enable_read = False, sf_ctl_starting = False,
      sf_lm_request = (\<lambda>_. False), sf_lm_grant = (\<lambda>_. hm_init_reset),
      sf_pool_state = SF_STATE_NONE, sf_master = [], sf_access = False, sf_corrupted = False,
      sf_time_last_SF = (\<lambda>_. 0), sf_excluded = hm_init_reset, sf_starting = hm_init_reset,
      sf_raw = (\<lambda>_. zero_raw), sf_latency = 0, sf_latency_max = 0, sf_latency_min = 0,
      sf_sfdomain = hm_init_reset, sf_fencing = FENCING_NONE,
      sf_sm_phase = (\<lambda>_. SM_PHASE_STARTING), sf_weight = (\<lambda>_. 0)\<rparr>"

definition init_lmv :: lm_var where
  "init_lmv = \<lparr>lmv_pending_request = False, lmv_cancel_request = False,
     lmv_terminate = False, lmv_first_cleanup_done = False,
     lmv_sf = zero_com_sf, lmv_sm = init_com_sm\<rparr>"

definition init_hbv :: hb_var where
  "init_hbv = \<lparr>hbv_watchdog = None, hbv_terminate = False, hbv_sequence = (\<lambda>_. 0),
     hbv_recvfrom_failed = False\<rparr>"

definition init_hoststat :: sf_hoststat where
  "init_hoststat = \<lparr>hs_readonce = False, hs_sequence = 0, hs_readclock = - 1,
     hs_updateclock = - 1\<rparr>"

definition init_sfv :: "ha_config \<Rightarrow> sf_var" where
  "init_sfv c = \<lparr>sfv_terminate = False, sfv_sequence = 0, sfv_SF_access = False,
     sfv_watchdog = None, sfv_interval_ms = uint (cfg_t2 c * 1000), sfv_accelerate_count = 0,
     sfv_hoststat = (\<lambda>_. init_hoststat),
     sfv_readlatency = \<lparr>lat_last = 0, lat_max = - 1, lat_min = - 1\<rparr>,
     sfv_writelatency = \<lparr>lat_last = 0, lat_max = - 1, lat_min = - 1\<rparr>\<rparr>"

definition init_daemon :: "ha_config \<Rightarrow> daemon" where
  "init_daemon c = \<lparr>d_sm = init_com_sm, d_hb = init_com_hb, d_sf = init_com_sf c,
     d_xm = init_com_xm, d_smv = init_smv c, d_lmv = init_lmv, d_hbv = init_hbv,
     d_sfv = init_sfv c, d_sent = [], d_wd = [], d_exit = None, d_fenced = None,
     d_fist = fist_initialize fisttab\<rparr>"

lemma lm_initialize_lm_fields_loop:
  "for_hosts n (\<lambda>i sf.
      sf\<lparr>sf_lm_request := (sf_lm_request sf)(i := False),
         sf_lm_grant := (sf_lm_grant sf)(i := hm_init_reset)\<rparr>) sf =
   sf\<lparr>sf_lm_request := (\<lambda>i. if i < n then False else sf_lm_request sf i),
      sf_lm_grant := (\<lambda>i. if i < n then hm_init_reset else sf_lm_grant sf i)\<rparr>"
  by (induction n) (auto simp: fun_eq_iff less_Suc_eq)

lemma init_com_sf_lm:
  "sf_lm_request (init_com_sf c) i = False"
  "sf_lm_grant (init_com_sf c) i = (if i = my_index c then hm_init_set else hm_init_reset)"
  by (auto simp: init_com_sf_def lm_initialize_lm_fields_def lm_initialize_lm_fields_loop Let_def)

lemma init_com_sf_sel [simp]:
  "sf_sfdomain (init_com_sf c) = hm_init_reset" "sf_access (init_com_sf c) = False"
  "sf_pool_state (init_com_sf c) = SF_STATE_NONE" "sf_raw (init_com_sf c) = (\<lambda>_. init_raw)"
  "sf_excluded (init_com_sf c) = hm_init_reset" "sf_weight (init_com_sf c) = (\<lambda>_. 0)"
  "sf_fencing (init_com_sf c) = FENCING_ARMED" "sf_time_last_SF (init_com_sf c) = (\<lambda>_. - 1)"
  "sf_starting (init_com_sf c) = hm_init_reset" "sf_sm_phase (init_com_sf c) = (\<lambda>_. SM_PHASE_STARTING)"
  by (simp_all add: init_com_sf_def lm_initialize_lm_fields_def lm_initialize_lm_fields_loop Let_def)

end
