(* ===== verification/SmPartition.thy ===== *)
theory SmPartition
  imports InitObjects
begin

text \<open>
  The liveset predicates and the partition election of \<^verbatim>\<open>daemon/sm.c\<close>:
  \<open>is_all_hosts_up\<close>, \<open>is_empty_liveset\<close>, \<open>get_partition_size\<close>,
  \<open>get_partition_score\<close> and \<open>am_I_in_largest_partition\<close>. Sizes are
  \<open>MTC_S32\<close> values computed in 32-bit arithmetic, so they are words read with
  \<open>sint\<close>; the lemmas give the bound on the weights under which they are exact.
\<close>

section \<open>Livesets\<close>

definition is_all_hosts_up :: "ha_config \<Rightarrow> hostmap \<Rightarrow> bool" where
  "is_all_hosts_up c hostmap \<longleftrightarrow> \<not> some_host (num_host c) (\<lambda>i. \<not> hm_ison hostmap i)"

definition is_empty_liveset :: "ha_config \<Rightarrow> hostmap \<Rightarrow> bool" where
  "is_empty_liveset c liveset \<longleftrightarrow> \<not> some_host (num_host c) (\<lambda>i. hm_ison liveset i)"

lemma is_all_hosts_up_iff [simp]:
  "is_all_hosts_up c b \<longleftrightarrow> (\<forall>i<num_host c. hm_ison b i)"
  by (simp add: is_all_hosts_up_def)

lemma is_empty_liveset_iff [simp]:
  "is_empty_liveset c b \<longleftrightarrow> (\<forall>i<num_host c. \<not> hm_ison b i)"
  by (simp add: is_empty_liveset_def)

section \<open>Partition size\<close>

definition get_partition_size ::
  "ha_config \<Rightarrow> hostmap \<Rightarrow> hostmap \<Rightarrow> (nat \<Rightarrow> u32) option \<Rightarrow> u32" where
  "get_partition_size c sfdomain hbdomain weight =
     (if is_empty_liveset c sfdomain then 0
      else for_hosts (num_host c) (\<lambda>i size.
             if hm_ison sfdomain i \<and> hm_ison hbdomain i then
               (case weight of
                  None \<Rightarrow> size + 1
                | Some w \<Rightarrow> size + 1 + 0x100 * w i)
             else size) 0)"

text \<open>The size a partition is meant to have: one per host, 256 per unit of weight.\<close>

definition host_value :: "(nat \<Rightarrow> u32) option \<Rightarrow> nat \<Rightarrow> nat" where
  "host_value weight i = (case weight of None \<Rightarrow> 1 | Some w \<Rightarrow> 1 + 256 * unat (w i))"

definition partition_value :: "nat \<Rightarrow> (nat \<Rightarrow> bool) \<Rightarrow> (nat \<Rightarrow> u32) option \<Rightarrow> nat" where
  "partition_value n P weight = (\<Sum>i\<in>{i. i < n \<and> P i}. host_value weight i)"

lemma partition_value_0 [simp]: "partition_value 0 P weight = 0"
  by (simp add: partition_value_def)

lemma partition_value_Suc:
  "partition_value (Suc n) P weight =
     partition_value n P weight + (if P n then host_value weight n else 0)"
proof -
  have "{h. h < Suc n \<and> P h} = (if P n then insert n {h. h < n \<and> P h} else {h. h < n \<and> P h})"
    using less_Suc_eq by auto
  then show ?thesis by (auto simp: partition_value_def)
qed

lemma partition_value_mono:
  "(\<And>i. i < n \<Longrightarrow> P i \<Longrightarrow> Q i) \<Longrightarrow> partition_value n P weight \<le> partition_value n Q weight"
  unfolding partition_value_def by (rule sum_mono2) auto

lemma partition_loop_word:
  "for_hosts n (\<lambda>i size. if P i then (case weight of None \<Rightarrow> size + 1
        | Some w \<Rightarrow> size + 1 + 0x100 * w i) else size) (0 :: u32)
   = of_nat (partition_value n P weight)"
proof (induction n)
  case 0
  show ?case by simp
next
  case (Suc n)
  then show ?case
    by (cases weight) (simp_all add: partition_value_Suc host_value_def)
qed

lemma get_partition_size_word:
  "get_partition_size c sfd hbd weight =
     of_nat (partition_value (num_host c) (\<lambda>i. hm_ison sfd i \<and> hm_ison hbd i) weight)"
proof (cases "is_empty_liveset c sfd")
  case True
  then have none: "{i. i < num_host c \<and> hm_ison sfd i \<and> hm_ison hbd i} = {}" by auto
  have "partition_value (num_host c) (\<lambda>i. hm_ison sfd i \<and> hm_ison hbd i) weight = 0"
    unfolding partition_value_def none by simp
  with True show ?thesis
    by (simp add: get_partition_size_def del: is_empty_liveset_iff)
next
  case False
  then show ?thesis
    by (simp add: get_partition_size_def del: is_empty_liveset_iff)
       (rule partition_loop_word)
qed

text \<open>
  The weights an operator may commit without the sizes wrapping: together with one per
  host, 256 times their sum has to stay below \<open>2^31\<close>.
\<close>

definition weights_fit :: "ha_config \<Rightarrow> (nat \<Rightarrow> u32) \<Rightarrow> bool" where
  "weights_fit c w \<longleftrightarrow> partition_value (num_host c) (\<lambda>_. True) (Some w) < 2 ^ 31"

lemma sint_of_nat_small: "n < 2 ^ 31 \<Longrightarrow> sint (of_nat n :: u32) = int n"
  by (simp add: signed_of_nat signed_take_bit_int_eq_self)

lemma get_partition_size_exact:
  assumes "weights_fit c w"
  shows "sint (get_partition_size c sfd hbd (Some w)) =
         int (partition_value (num_host c) (\<lambda>i. hm_ison sfd i \<and> hm_ison hbd i) (Some w))"
proof -
  have "partition_value (num_host c) (\<lambda>i. hm_ison sfd i \<and> hm_ison hbd i) (Some w)
        \<le> partition_value (num_host c) (\<lambda>_. True) (Some w)"
    by (rule partition_value_mono) simp
  with assms show ?thesis
    by (simp add: get_partition_size_word sint_of_nat_small weights_fit_def)
qed

lemma weights_fit_bound:
  assumes "num_host c \<le> 64" and "\<And>i. i < num_host c \<Longrightarrow> unat (w i) \<le> 131071"
  shows "weights_fit c w"
proof -
  have "partition_value (num_host c) (\<lambda>_. True) (Some w) \<le> (\<Sum>i\<in>{i. i < num_host c}. 1 + 256 * 131071)"
    unfolding partition_value_def host_value_def simp_thms
    by (rule sum_mono) (use assms(2) in auto)
  also have "\<dots> = num_host c * (1 + 256 * 131071)" by simp
  also have "\<dots> \<le> 64 * (1 + 256 * 131071)" using assms(1) by (rule mult_le_mono1)
  finally show ?thesis by (simp add: weights_fit_def)
qed

section \<open>Partition score\<close>

text \<open>The loop runs downwards; its three accumulators are \<open>MTC_S64\<close>.\<close>

definition score_step ::
  "hostmap \<Rightarrow> (nat \<Rightarrow> u32) \<Rightarrow> nat \<Rightarrow> int \<times> int \<times> int \<Rightarrow> int \<times> int \<times> int" where
  "score_step hostmap weight i = (\<lambda>(weight_score, size_score, index_score).
     if hm_ison hostmap i
     then (weight_score + uint (weight i), size_score + 1, int MAX_HOST_NUM - int i)
     else (weight_score, size_score, index_score))"

definition get_partition_score :: "ha_config \<Rightarrow> hostmap \<Rightarrow> (nat \<Rightarrow> u32) \<Rightarrow> int" where
  "get_partition_score c hostmap weight =
     (case fold (score_step hostmap weight) (rev [0..<num_host c]) (0, 0, 0) of
        (weight_score, size_score, index_score) \<Rightarrow>
          weight_score * 0x10000 + size_score * 0x100 + index_score)"

definition members_below :: "nat \<Rightarrow> hostmap \<Rightarrow> nat set" where
  "members_below n b = {i. i < n \<and> hm_ison b i}"

lemma finite_members_below [simp]: "finite (members_below n b)"
  by (simp add: members_below_def)

lemma score_fold:
  "fold (score_step b w) (rev [m..<n]) (x, y, z) =
     (x + (\<Sum>i\<in>{i. m \<le> i \<and> i < n \<and> hm_ison b i}. uint (w i)),
      y + int (card {i. m \<le> i \<and> i < n \<and> hm_ison b i}),
      (if {i. m \<le> i \<and> i < n \<and> hm_ison b i} = {} then z
       else 64 - int (LEAST i. m \<le> i \<and> i < n \<and> hm_ison b i)))"
proof (induction "n - m" arbitrary: m)
  case 0
  then have none: "[m..<n] = []" "{i. m \<le> i \<and> i < n \<and> hm_ison b i} = {}" by auto
  show ?case unfolding none by simp
next
  case (Suc k)
  then have mn: "m < n" and k: "k = n - Suc m" by auto
  let ?S = "\<lambda>m. {i. m \<le> i \<and> i < n \<and> hm_ison b i}"
  have rev: "rev [m..<n] = rev [Suc m..<n] @ [m]"
    using mn by (simp add: upt_conv_Cons)
  have S: "?S m = ?S (Suc m) \<union> (if hm_ison b m then {m} else {})"
    using mn by (auto simp: Suc_le_eq order.order_iff_strict)
  have disj: "m \<notin> ?S (Suc m)" and fin: "finite (?S (Suc m))" by auto
  show ?case
  proof (cases "hm_ison b m")
    case True
    then have "(LEAST i. m \<le> i \<and> i < n \<and> hm_ison b i) = m"
      using mn by (intro Least_equality) auto
    moreover have "?S m = insert m (?S (Suc m))" using S True by auto
    ultimately show ?thesis
      using True disj fin Suc(1)[OF k] rev
      by (simp add: score_step_def MAX_HOST_NUM_def)
  next
    case False
    then have "?S m = ?S (Suc m)" using S by auto
    moreover have "(LEAST i. m \<le> i \<and> i < n \<and> hm_ison b i) =
        (LEAST i. Suc m \<le> i \<and> i < n \<and> hm_ison b i)"
      using \<open>?S m = ?S (Suc m)\<close> by (simp add: set_eq_iff)
    ultimately show ?thesis
      using False Suc(1)[OF k] rev by (auto simp: score_step_def)
  qed
qed


lemma get_partition_score_eq:
  "get_partition_score c b w =
     (\<Sum>i\<in>members_below (num_host c) b. uint (w i)) * 65536 +
     int (card (members_below (num_host c) b)) * 256 +
     (if members_below (num_host c) b = {} then 0
      else 64 - int (Min (members_below (num_host c) b)))"
proof -
  have least: "members_below n b \<noteq> {} \<Longrightarrow>
      (LEAST i. i < n \<and> hm_ison b i) = Min (members_below n b)" for n
  proof -
    assume ne: "members_below n b \<noteq> {}"
    have "Min (members_below n b) \<in> members_below n b"
      using ne by (rule Min_in[OF finite_members_below])
    moreover have "\<And>i. i \<in> members_below n b \<Longrightarrow> Min (members_below n b) \<le> i"
      by (rule Min_le[OF finite_members_below])
    ultimately show ?thesis
      by (intro Least_equality) (auto simp: members_below_def)
  qed
  show ?thesis
    using least[of "num_host c"]
    unfolding get_partition_score_def
    by (auto simp: score_fold members_below_def)
qed

text \<open>
  The three fields of a score do not overlap: scores compare as the triples
  (total weight, number of hosts, preference for the lowest host).
\<close>

lemma card_members_below: "n \<le> 64 \<Longrightarrow> card (members_below n b) \<le> 64"
proof -
  assume "n \<le> 64"
  have "card (members_below n b) \<le> card {..<n}"
    by (rule card_mono) (auto simp: members_below_def)
  with \<open>n \<le> 64\<close> show ?thesis by simp
qed

definition score_key :: "ha_config \<Rightarrow> hostmap \<Rightarrow> (nat \<Rightarrow> u32) \<Rightarrow> int \<times> int \<times> int" where
  "score_key c b w =
     ((\<Sum>i\<in>members_below (num_host c) b. uint (w i)),
      int (card (members_below (num_host c) b)),
      (if members_below (num_host c) b = {} then 0
       else 64 - int (Min (members_below (num_host c) b))))"

definition key_less :: "int \<times> int \<times> int \<Rightarrow> int \<times> int \<times> int \<Rightarrow> bool" where
  "key_less x y \<longleftrightarrow>
     (case x of (a, b, d) \<Rightarrow> case y of (a', b', d') \<Rightarrow>
        a < a' \<or> (a = a' \<and> (b < b' \<or> (b = b' \<and> d < d'))))"

text \<open>
  \<open>get_partition_score\<close> orders partitions lexicographically: heavier total weight
  first, then more hosts, then the partition that holds the lowest host number. The
  packing into one 64-bit number never lets a later field outweigh an earlier one.
\<close>

lemma partition_score_lexicographic:
  assumes "num_host c \<le> 64"
  shows "get_partition_score c a w < get_partition_score c b w \<longleftrightarrow>
         key_less (score_key c a w) (score_key c b w)"
proof -
  have field: "0 \<le> int (card (members_below (num_host c) x)) \<and>
      int (card (members_below (num_host c) x)) \<le> 64 \<and>
      0 \<le> (if members_below (num_host c) x = {} then 0
            else 64 - int (Min (members_below (num_host c) x))) \<and>
      (if members_below (num_host c) x = {} then 0
            else 64 - int (Min (members_below (num_host c) x))) \<le> 64" for x
  proof -
    have "members_below (num_host c) x \<noteq> {} \<Longrightarrow> Min (members_below (num_host c) x) < 64"
      using Min_in[OF finite_members_below, of "num_host c" x] assms
      by (auto simp: members_below_def)
    then show ?thesis
      using card_members_below[OF assms, of x]
      by (cases "members_below (num_host c) x = {}") simp_all
  qed
  have arith: "A * 65536 + B * 256 + D < A' * 65536 + B' * 256 + D' \<longleftrightarrow>
      A < A' \<or> (A = A' \<and> (B < B' \<or> (B = B' \<and> D < D')))"
    if "0 \<le> B" "B \<le> 64" "0 \<le> D" "D \<le> 64" "0 \<le> B'" "B' \<le> 64" "0 \<le> D'" "D' \<le> 64"
    for A B D A' B' D' :: int
    using that by (cases "A < A'"; cases "A = A'"; cases "B < B'"; cases "B = B'") auto
  show ?thesis
    unfolding get_partition_score_eq score_key_def key_less_def prod.case
    using field[of a] field[of b] by (intro arith) blast+
qed

lemma partition_score_lexicographic_example:
  "get_partition_score (default_config 3 0) (hm_of [1, 2]) (\<lambda>i. if i = 0 then 1 else 0)
     < get_partition_score (default_config 3 0) (hm_of [0]) (\<lambda>i. if i = 0 then 1 else 0)"
proof -
  have m: "members_below 3 (hm_of [1, 2]) = {1, 2}" "members_below 3 (hm_of [0]) = {0}"
    by (auto simp: members_below_def hostmap_simps)
  show ?thesis
    by (rule partition_score_lexicographic[THEN iffD2])
       (simp_all add: score_key_def key_less_def
          m[unfolded One_nat_def])
qed

section \<open>The election\<close>

definition partition_size_of ::
  "ha_config \<Rightarrow> com_data_hb \<Rightarrow> com_data_sf \<Rightarrow> (nat \<Rightarrow> u32) \<Rightarrow> nat \<Rightarrow> u32" where
  "partition_size_of c hb sf weight index =
     (if \<not> hm_ison (sf_sfdomain sf) index then 0
      else if index = my_index c then
        get_partition_size c (sf_sfdomain sf) (hb_hbdomain hb) (Some weight)
      else
        get_partition_size c (raw_sfdomain (sf_raw sf index)) (raw_hbdomain (sf_raw sf index))
          (Some weight))"

definition election_step ::
  "(nat \<Rightarrow> u32) \<Rightarrow> nat \<Rightarrow> nat option \<times> u32 \<Rightarrow> nat option \<times> u32" where
  "election_step sz index = (\<lambda>(winner_index, winner_size).
     if sint (sz index) > sint winner_size then (Some index, sz index)
     else (winner_index, winner_size))"

definition elect :: "nat \<Rightarrow> (nat \<Rightarrow> u32) \<Rightarrow> nat option" where
  "elect n sz = fst (for_hosts n (election_step sz) (None, 0))"

definition am_I_in_largest_partition ::
  "ha_config \<Rightarrow> com_data_hb \<Rightarrow> com_data_sf \<Rightarrow> (nat \<Rightarrow> u32) \<Rightarrow> bool" where
  "am_I_in_largest_partition c hb sf weight =
     (case elect (num_host c) (partition_size_of c hb sf weight) of
        None \<Rightarrow> False
      | Some w \<Rightarrow>
          w = my_index c \<or>
          (hm_ison (raw_sfdomain (sf_raw sf w)) (my_index c) \<and>
           hm_ison (raw_hbdomain (sf_raw sf w)) (my_index c) \<and>
           hm_ison (sf_sfdomain sf) w \<and>
           hm_ison (hb_hbdomain hb) w))"

text \<open>
  The loop keeps the first host of maximal positive size: the invariant describes the
  state after the hosts below \<open>n\<close>.
\<close>

definition election_inv :: "(nat \<Rightarrow> u32) \<Rightarrow> nat \<Rightarrow> nat option \<times> u32 \<Rightarrow> bool" where
  "election_inv sz n s \<longleftrightarrow>
     (case s of
        (None, m) \<Rightarrow> m = 0 \<and> (\<forall>i<n. sint (sz i) \<le> 0)
      | (Some w, m) \<Rightarrow> w < n \<and> m = sz w \<and> 0 < sint (sz w) \<and>
          (\<forall>i<n. sint (sz i) \<le> sint (sz w)) \<and> (\<forall>i<w. sint (sz i) < sint (sz w)))"

lemma election_inv_loop: "election_inv sz n (for_hosts n (election_step sz) (None, 0))"
proof (rule for_hosts_inv[where I = "election_inv sz"])
  show "election_inv sz 0 (None, 0)" by (simp add: election_inv_def)
  fix i s assume "election_inv sz i s"
  then show "election_inv sz (Suc i) (election_step sz i s)"
    by (cases s; cases "fst s")
       (fastforce simp: election_inv_def election_step_def less_Suc_eq)+
qed

lemma elect_None: "elect n sz = None \<longleftrightarrow> (\<forall>i<n. sint (sz i) \<le> 0)"
  using election_inv_loop[of sz n]
  by (cases "for_hosts n (election_step sz) (None, 0)")
     (force simp: election_inv_def elect_def split: option.splits)

lemma elect_Some:
  assumes "elect n sz = Some w"
  shows "w < n" "0 < sint (sz w)" "\<And>i. i < n \<Longrightarrow> sint (sz i) \<le> sint (sz w)"
    "\<And>i. i < w \<Longrightarrow> sint (sz i) < sint (sz w)"
  using election_inv_loop[of sz n] assms
  by (cases "for_hosts n (election_step sz) (None, 0)",
      auto simp: election_inv_def elect_def)+

lemma elect_cong:
  assumes "\<And>i. i < n \<Longrightarrow> sz i = sz' i"
  shows "elect n sz = elect n sz'"
  using assms unfolding elect_def
  by (intro arg_cong[of _ _ fst] for_hosts_cong) (auto simp: election_step_def)

text \<open>
  What two hosts have in common when they have read the same State-File: \<open>R i\<close> is the
  row of host \<open>i\<close>. A host's own domains are in its own row, and the others' rows are
  in its \<open>raw\<close> array.
\<close>

definition same_view ::
  "ha_config \<Rightarrow> com_data_hb \<Rightarrow> com_data_sf \<Rightarrow> (nat \<Rightarrow> raw_data) \<Rightarrow> hostmap \<Rightarrow> bool" where
  "same_view c hb sf R S \<longleftrightarrow>
     sf_sfdomain sf = S \<and>
     raw_sfdomain (R (my_index c)) = S \<and>
     raw_hbdomain (R (my_index c)) = hb_hbdomain hb \<and>
     all_hosts (num_host c) (\<lambda>i. i \<noteq> my_index c \<longrightarrow>
       raw_sfdomain (sf_raw sf i) = raw_sfdomain (R i) \<and>
       raw_hbdomain (sf_raw sf i) = raw_hbdomain (R i))"

lemma partition_size_of_view:
  assumes "same_view c hb sf R S" and "i < num_host c"
  shows "partition_size_of c hb sf w i =
         (if hm_ison S i then get_partition_size c (raw_sfdomain (R i)) (raw_hbdomain (R i)) (Some w)
          else 0)"
  using assms by (auto simp: partition_size_of_def same_view_def)

lemma get_partition_size_config:
  "num_host c = num_host c' \<Longrightarrow> get_partition_size c = get_partition_size c'"
  by (intro ext) (auto simp: get_partition_size_def)

lemma elect_same_view:
  assumes "same_view c hb sf R S" "same_view c' hb' sf' R S" "num_host c = num_host c'"
  shows "elect (num_host c) (partition_size_of c hb sf w) =
         elect (num_host c') (partition_size_of c' hb' sf' w)"
  using assms partition_size_of_view[OF assms(1)] partition_size_of_view[OF assms(2)]
    get_partition_size_config[OF assms(3)]
  by (subst elect_cong[where sz' = "partition_size_of c' hb' sf' w"]) simp_all

lemma winner_linked:
  assumes "am_I_in_largest_partition c hb sf w" and "same_view c hb sf R S"
  shows "\<exists>k. elect (num_host c) (partition_size_of c hb sf w) = Some k \<and> k < num_host c \<and>
         (k = my_index c \<or>
          (hm_ison (raw_hbdomain (R k)) (my_index c) \<and>
           hm_ison (raw_hbdomain (R (my_index c))) k))"
  using assms elect_Some(1)
  by (fastforce simp: am_I_in_largest_partition_def same_view_def split: option.splits)

text \<open>The heartbeat domains in the rows split the pool into groups.\<close>

definition hb_linked :: "(nat \<Rightarrow> raw_data) \<Rightarrow> nat \<Rightarrow> nat \<Rightarrow> bool" where
  "hb_linked R i j \<longleftrightarrow> hm_ison (raw_hbdomain (R i)) j"

definition heartbeat_groups :: "nat \<Rightarrow> (nat \<Rightarrow> raw_data) \<Rightarrow> bool" where
  "heartbeat_groups n R \<longleftrightarrow>
     all_hosts n (\<lambda>i. hb_linked R i i) \<and>
     all_hosts n (\<lambda>i. all_hosts n (\<lambda>j. hb_linked R i j \<longrightarrow> hb_linked R j i)) \<and>
     all_hosts n (\<lambda>i. all_hosts n (\<lambda>j. all_hosts n (\<lambda>k.
       hb_linked R i j \<and> hb_linked R j k \<longrightarrow> hb_linked R i k)))"

lemma heartbeat_groupsD:
  assumes "heartbeat_groups n R"
  shows "i < n \<Longrightarrow> hb_linked R i i"
    and "hb_linked R i j \<Longrightarrow> i < n \<Longrightarrow> j < n \<Longrightarrow> hb_linked R j i"
    and "hb_linked R i j \<Longrightarrow> hb_linked R j k \<Longrightarrow> i < n \<Longrightarrow> j < n \<Longrightarrow> k < n \<Longrightarrow> hb_linked R i k"
  using assms unfolding heartbeat_groups_def all_hosts_iff by blast+

text \<open>
  C27. The election never lets two heartbeat partitions win. Two hosts that have read the
  same State-File and use the same weights elect the same host; if the heartbeat domains
  in the rows are symmetric and transitive (the pool has split into groups), two hosts
  that both find themselves in the largest partition are in one group.
\<close>

theorem election_single_partition:
  assumes view: "same_view c hb sf R S" "same_view c' hb' sf' R S"
    and pool: "num_host c = num_host c'" "my_index c < num_host c" "my_index c' < num_host c'"
    and groups: "heartbeat_groups (num_host c) R"
    and win: "am_I_in_largest_partition c hb sf w" "am_I_in_largest_partition c' hb' sf' w"
  shows "hm_ison (hb_hbdomain hb) (my_index c') \<and> hm_ison (hb_hbdomain hb') (my_index c)"
proof -
  obtain k where k: "elect (num_host c) (partition_size_of c hb sf w) = Some k" "k < num_host c"
    and a: "k = my_index c \<or> (hm_ison (raw_hbdomain (R k)) (my_index c) \<and>
                              hm_ison (raw_hbdomain (R (my_index c))) k)"
    using winner_linked[OF win(1) view(1)] by blast
  obtain k' where k': "elect (num_host c') (partition_size_of c' hb' sf' w) = Some k'"
    and b: "k' = my_index c' \<or> (hm_ison (raw_hbdomain (R k')) (my_index c') \<and>
                                hm_ison (raw_hbdomain (R (my_index c'))) k')"
    using winner_linked[OF win(2) view(2)] by blast
  have "k' = k" using k(1) k' elect_same_view[OF view pool(1)] by simp
  have own: "raw_hbdomain (R (my_index c)) = hb_hbdomain hb"
    "raw_hbdomain (R (my_index c')) = hb_hbdomain hb'"
    using view by (simp_all add: same_view_def)
  note g = heartbeat_groupsD[OF groups]
  have n: "my_index c' < num_host c" using pool by simp
  have ka: "hb_linked R k (my_index c)" and kb: "hb_linked R k (my_index c')"
    using a b g(1)[OF k(2)] \<open>k' = k\<close> by (auto simp: hb_linked_def)
  have "hb_linked R (my_index c) (my_index c')"
    by (rule g(3)[OF g(2)[OF ka k(2) pool(2)] kb pool(2) k(2) n])
  moreover have "hb_linked R (my_index c') (my_index c)"
    by (rule g(3)[OF g(2)[OF kb k(2) n] ka n k(2) pool(2)])
  ultimately show ?thesis by (simp add: own hb_linked_def)
qed

text \<open>The rows of a three-host pool that has split into the groups \<open>{0, 1}\<close> and \<open>{2}\<close>.\<close>

definition split_row :: "nat \<Rightarrow> raw_data" where
  "split_row i = init_raw\<lparr>raw_hbdomain := hm_of (if i = 2 then [2] else [0, 1]),
                           raw_sfdomain := hm_of [0, 1, 2]\<rparr>"

definition split_hb :: "nat \<Rightarrow> com_data_hb" where
  "split_hb me = init_com_hb\<lparr>hb_hbdomain := raw_hbdomain (split_row me)\<rparr>"

definition split_sf :: "nat \<Rightarrow> com_data_sf" where
  "split_sf me = (init_com_sf (default_config 3 me))
     \<lparr>sf_sfdomain := hm_of [0, 1, 2], sf_raw := split_row\<rparr>"

lemma split_view: "me < 3 \<Longrightarrow>
  same_view (default_config 3 me) (split_hb me) (split_sf me) split_row (hm_of [0, 1, 2])"
  by (simp add: same_view_def split_hb_def split_sf_def split_row_def)

lemma split_groups: "heartbeat_groups 3 split_row"
  by (simp add: heartbeat_groups_def hb_linked_def split_row_def hostmap_simps
      numeral_3_eq_3 less_Suc_eq)

lemma split_wins:
  assumes "me < 3"
  shows "am_I_in_largest_partition (default_config 3 me) (split_hb me) (split_sf me) (\<lambda>_. 1) \<longleftrightarrow> me < 2"
proof -
  have S: "get_partition_size (default_config 3 me) (hm_of [0, 1, 2]) (hm_of [2]) (Some (\<lambda>_. 1)) = 257"
    "get_partition_size (default_config 3 me) (hm_of [0, 1, 2]) (hm_of [0, 1]) (Some (\<lambda>_. 1)) = 514"
    for me
    by (auto simp: get_partition_size_def hostmap_simps numeral_3_eq_3)
  have "elect 3 (partition_size_of (default_config 3 me) (split_hb me) (split_sf me) (\<lambda>_. 1)) =
      elect 3 (\<lambda>i. if i = 2 then 257 else 514)"
    using partition_size_of_view[OF split_view[OF assms]] S
    by (intro elect_cong) (simp add: split_row_def hostmap_simps)
  also have "\<dots> = Some 0"
    by (simp add: elect_def election_step_def numeral_3_eq_3)
  finally show ?thesis
    using assms
    by (auto simp: am_I_in_largest_partition_def split_hb_def split_sf_def split_row_def
          hostmap_simps numeral_3_eq_3 less_Suc_eq)
qed

theorem election_single_partition_witness:
  "am_I_in_largest_partition (default_config 3 0) (split_hb 0) (split_sf 0) (\<lambda>_. 1) \<and>
   am_I_in_largest_partition (default_config 3 1) (split_hb 1) (split_sf 1) (\<lambda>_. 1) \<and>
   \<not> am_I_in_largest_partition (default_config 3 2) (split_hb 2) (split_sf 2) (\<lambda>_. 1) \<and>
   hm_ison (hb_hbdomain (split_hb 0)) 1"
  using election_single_partition[OF split_view split_view, of 0 1 "\<lambda>_. 1"] split_groups
  by (simp add: split_wins)

text \<open>
  Where the sizes wrap, the election fails: one host with the weight \<open>2^23\<close> makes a
  partition of negative size, which never wins, although it is the heaviest.
\<close>

lemma partition_size_wraps:
  "sint (get_partition_size (default_config 2 0) (hm_of [0]) (hm_of [0])
           (Some (\<lambda>i. if i = 0 then 0x800000 else 1))) < 0"
  by (simp add: get_partition_size_def hostmap_simps numeral_2_eq_2)

end
