(* ===== verification/StateFileIO.thy ===== *)
theory StateFileIO
  imports InitObjects
begin

text \<open>
  The State-File format of \<^verbatim>\<open>include/statefile.h\<close> and its access layer
  \<^verbatim>\<open>lib/statefileio.c\<close>: the global section, the host-specific sections, their
  signatures and checksums, and the four routines that read and write them. The block
  device is the environment: a \<open>device\<close> says what a read of each section delivers (or
  that it fails) and what the system calls of a write return, with what a write that was not
  complete leaves in the file.
\<close>

section \<open>Sections\<close>

record sf_global =
  g_sig :: u32
  g_sig_inv :: u32
  g_checksum :: u32
  g_version :: u32
  g_length_global :: u32
  g_length_host_specfic :: u32
  g_max_hosts :: u32
  g_gen_uuid :: uuid
  g_pool_state :: u32
  g_master :: uuid
  g_config_hosts :: u32
  g_end_marker :: u32

record sf_host =
  h_sig :: u32
  h_sig_inv :: u32
  h_checksum :: u32
  h_sequence :: u32
  h_host_index :: u32
  h_host_uuid :: uuid
  h_excluded :: u32
  h_starting :: u32
  h_since_last_hb_receipt :: "nat \<Rightarrow> int"
  h_since_last_sf_update :: "nat \<Rightarrow> int"
  h_since_xapi_restart :: int
  h_current_liveset :: hostmap
  h_proposed_liveset :: hostmap
  h_hbdomain :: hostmap
  h_sfdomain :: hostmap
  h_lock_request :: u32
  h_lock_grant :: hostmap
  h_sm_phase :: sm_phase
  h_weight :: u32
  h_end_marker :: u32

text \<open>Multi-character constants, as gcc packs them.\<close>

definition SIG_SF_GLOBAL :: u32 where "SIG_SF_GLOBAL = 0x6c6f6f70"       \<comment> \<open>'loop'\<close>
definition SIG_END_MARKER_GLOBAL :: u32 where "SIG_END_MARKER_GLOBAL = 0x70646e65"  \<comment> \<open>'pdne'\<close>
definition SIG_SF_HOST :: u32 where "SIG_SF_HOST = 0x74736f68"           \<comment> \<open>'tsoh'\<close>
definition SIG_END_MARKER_HOST :: u32 where "SIG_END_MARKER_HOST = 0x68646e65"  \<comment> \<open>'hdne'\<close>

definition SF_VERSION :: u32 where "SF_VERSION = 2"
definition LENGTH_GLOBAL :: u32 where "LENGTH_GLOBAL = 4096"
definition LENGTH_HOST_SPECIFIC :: u32 where "LENGTH_HOST_SPECIFIC = 4096"

definition sf_create_sig :: "u32 \<Rightarrow> u32" where
  "sf_create_sig sig = sig"

text \<open>\<open>(~sig) >> 3\<close> on an \<open>int\<close>: an arithmetic shift.\<close>

definition sf_create_inverted_sig :: "u32 \<Rightarrow> u32" where
  "sf_create_inverted_sig sig = signed_drop_bit 3 (NOT sig)"

section \<open>The checksummed words\<close>

text \<open>
  \<open>sf_checksum\<close> walks the 32-bit words between two fields, so a section is also a
  sequence of words: a UUID is eight little-endian words, a host bitmap two.
\<close>

definition uuid_byte :: "uuid \<Rightarrow> nat \<Rightarrow> u32" where
  "uuid_byte u i = (if i < length u then of_nat (of_char (u ! i)) else 0)"

definition uuid_words :: "uuid \<Rightarrow> u32 list" where
  "uuid_words u = map (\<lambda>k. uuid_byte u (4 * k) OR push_bit 8 (uuid_byte u (4 * k + 1))
      OR push_bit 16 (uuid_byte u (4 * k + 2)) OR push_bit 24 (uuid_byte u (4 * k + 3))) [0..<8]"

definition hm_words :: "hostmap \<Rightarrow> u32 list" where
  "hm_words b = [hm_word0 b, hm_word1 b]"

definition s32_word :: "int \<Rightarrow> u32" where
  "s32_word x = word_of_int x"

definition global_words :: "sf_global \<Rightarrow> u32 list" where
  "global_words g =
     [g_version g, g_length_global g, g_length_host_specfic g, g_max_hosts g]
     @ uuid_words (g_gen_uuid g) @ [g_pool_state g] @ uuid_words (g_master g)
     @ [g_config_hosts g]"

definition host_words :: "sf_host \<Rightarrow> u32 list" where
  "host_words h =
     [h_sequence h, h_host_index h] @ uuid_words (h_host_uuid h)
     @ [h_excluded h, h_starting h]
     @ map (\<lambda>i. s32_word (h_since_last_hb_receipt h i)) [0..<MAX_HOST_NUM]
     @ map (\<lambda>i. s32_word (h_since_last_sf_update h i)) [0..<MAX_HOST_NUM]
     @ [s32_word (h_since_xapi_restart h)]
     @ hm_words (h_current_liveset h) @ hm_words (h_proposed_liveset h)
     @ hm_words (h_hbdomain h) @ hm_words (h_sfdomain h)
     @ [h_lock_request h] @ hm_words (h_lock_grant h)
     @ [of_nat (phase_no (h_sm_phase h)), h_weight h]"

text \<open>\<open>while (p < end) sum += *p++;\<close>\<close>

fun sf_checksum_loop :: "u32 \<Rightarrow> u32 list \<Rightarrow> u32" where
  "sf_checksum_loop acc [] = acc"
| "sf_checksum_loop acc (w # ws) = sf_checksum_loop (acc + w) ws"

definition sf_checksum :: "u32 list \<Rightarrow> u32" where
  "sf_checksum ws = sf_checksum_loop 0 ws"

lemma sf_checksum_loop_sum: "sf_checksum_loop s ws = s + sum_list ws"
  by (induction ws arbitrary: s) (auto simp: algebra_simps)

lemma sf_checksum_sum: "sf_checksum ws = sum_list ws"
  by (simp add: sf_checksum_def sf_checksum_loop_sum)

text \<open>
  The checksum detects every error confined to one word of a section: replacing a
  word by a different one always changes the sum.
\<close>

lemma checksum_detects_word_error:
  assumes "i < length ws" and "w \<noteq> ws ! i"
  shows "sf_checksum (ws[i := w]) \<noteq> sf_checksum ws"
proof -
  have parts: "ws = take i ws @ ws ! i # drop (Suc i) ws"
    using assms(1) by (rule id_take_nth_drop)
  have upd: "ws[i := w] = take i ws @ w # drop (Suc i) ws"
    using assms(1) by (rule upd_conv_take_nth_drop)
  have "sum_list ws = sum_list (take i ws) + (ws ! i + sum_list (drop (Suc i) ws))"
    by (subst parts) simp
  moreover have "sum_list (ws[i := w]) = sum_list (take i ws) + (w + sum_list (drop (Suc i) ws))"
    by (simp add: upd)
  ultimately show ?thesis
    using assms(2) by (simp add: sf_checksum_sum)
qed

lemma checksum_detects_word_error_example:
  "sf_checksum ([1, 2, 3][1 := 5]) \<noteq> sf_checksum [1, 2, 3]"
  using checksum_detects_word_error[of 1 "[1, 2, 3]" 5] by simp

text \<open>It does not detect two words that change places.\<close>

lemma checksum_misses_swap: "sf_checksum (a # b # ws) = sf_checksum (b # a # ws)"
  by (simp add: sf_checksum_sum algebra_simps)

section \<open>UUIDs\<close>

text \<open>\<open>UUID_comp\<close> is \<open>strncasecmp\<close> over the 32 bytes, \<open>UUID_cpy\<close> copies them.\<close>

definition c_tolower :: "char \<Rightarrow> char" where
  "c_tolower ch = (if 65 \<le> (of_char ch :: nat) \<and> (of_char ch :: nat) \<le> 90
                   then char_of ((of_char ch :: nat) + 32) else ch)"

definition c_str :: "nat \<Rightarrow> string \<Rightarrow> string" where
  "c_str n s = takeWhile (\<lambda>ch. ch \<noteq> CHR 0x00) (take n s)"

definition uuid_comp :: "uuid \<Rightarrow> uuid \<Rightarrow> bool" where
  "uuid_comp x y \<longleftrightarrow> map c_tolower (c_str 32 x) \<noteq> map c_tolower (c_str 32 y)"

lemma uuid_comp_refl [simp]: "\<not> uuid_comp u u"
  by (simp add: uuid_comp_def)

lemma uuid_comp_sym: "uuid_comp u v = uuid_comp v u"
  by (auto simp: uuid_comp_def)

section \<open>Reading and writing\<close>

text \<open>
  What the next write of the file meets: whether \<open>lseek\<close> succeeds, what \<open>write\<close> of a
  number of bytes returns, and what reads of the sections it was writing deliver afterwards when
  it has not transferred all of them (nothing is known of that: the old section, the new one,
  a mixture, or a read error).
\<close>

record write_io =
  io_seek :: bool
  io_ret :: "int \<Rightarrow> int"
  io_torn_global :: "sf_global option"
  io_torn_host :: "nat \<Rightarrow> sf_host option"

record device =
  dv_global :: "sf_global option"
  dv_host :: "nat \<Rightarrow> sf_host option"
  dv_io :: write_io

definition sf_roundup :: "int \<Rightarrow> int" where
  "sf_roundup n = ((n + 512 - 1) div 512) * 512"

text \<open>\<open>sf_write\<close> makes one call and looks at the sign of its result only.\<close>

definition sf_write :: "bool \<Rightarrow> (int \<Rightarrow> int) \<Rightarrow> int \<Rightarrow> mtc_status" where
  "sf_write seek_ok wr len =
     (if \<not> seek_ok then MTC_ERROR_SF_IO_ERROR
      else if wr (sf_roundup len) < 0 then MTC_ERROR_SF_IO_ERROR else MTC_SUCCESS)"

text \<open>All bytes of a write were transferred; what a read delivers after it.\<close>

definition write_complete :: "write_io \<Rightarrow> int \<Rightarrow> bool" where
  "write_complete io len \<longleftrightarrow> io_seek io \<and> io_ret io (sf_roundup len) = sf_roundup len"

definition after_write :: "write_io \<Rightarrow> int \<Rightarrow> 'a option \<Rightarrow> 'a \<Rightarrow> 'a option \<Rightarrow> 'a option" where
  "after_write io len old new torn =
     (if \<not> io_seek io then old else if write_complete io len then Some new else torn)"

text \<open>The sizes of the structures that are written; \<open>sf_write\<close> rounds them up to whole sectors.\<close>

definition sizeof_sf_global :: int where "sizeof_sf_global = 104"
definition sizeof_sf_host :: int where "sizeof_sf_host = 632"

text \<open>A device that transfers the next write of a section completely.\<close>

definition dv_write_ok :: "device \<Rightarrow> bool" where
  "dv_write_ok dev \<longleftrightarrow> write_complete (dv_io dev) sizeof_sf_global \<and> write_complete (dv_io dev) sizeof_sf_host"

lemma sf_roundup_sizes [simp]: "sf_roundup sizeof_sf_global = 512" "sf_roundup sizeof_sf_host = 1024"
  by (simp_all add: sf_roundup_def sizeof_sf_global_def sizeof_sf_host_def)

lemma sf_write_status: "sf_write b wr len = MTC_SUCCESS \<or> sf_write b wr len = MTC_ERROR_SF_IO_ERROR"
  by (simp add: sf_write_def)

lemma sf_write_success: "sf_write b wr len = MTC_SUCCESS \<longleftrightarrow> b \<and> 0 \<le> wr (sf_roundup len)"
  by (simp add: sf_write_def)

lemma write_complete_success: "write_complete io len \<Longrightarrow> 0 \<le> len \<Longrightarrow> sf_write (io_seek io) (io_ret io) len = MTC_SUCCESS"
  by (simp add: write_complete_def sf_write_def sf_roundup_def)

lemma after_write_complete: "write_complete io len \<Longrightarrow> after_write io len old new torn = Some new"
  by (simp add: after_write_def write_complete_def)

text \<open>Validation of what a read delivered, in the order of the code.\<close>

definition validate_global :: "sf_global \<Rightarrow> uuid option \<Rightarrow> mtc_status" where
  "validate_global g expected_uuid =
     (if g_sig g \<noteq> sf_create_sig SIG_SF_GLOBAL \<or>
         g_sig_inv g \<noteq> sf_create_inverted_sig SIG_SF_GLOBAL
      then MTC_ERROR_SF_CORRUPTION
      else if sf_checksum (global_words g) \<noteq> g_checksum g then MTC_ERROR_SF_CORRUPTION
      else if g_version g \<noteq> SF_VERSION then MTC_ERROR_SF_VERSION_MISMATCH
      else (case expected_uuid of
              Some u \<Rightarrow> if uuid_comp (g_gen_uuid g) u then MTC_ERROR_SF_GEN_UUID else MTC_SUCCESS
            | None \<Rightarrow> MTC_SUCCESS))"

definition validate_host :: "sf_host \<Rightarrow> mtc_status" where
  "validate_host h =
     (if h_sig h \<noteq> sf_create_sig SIG_SF_HOST \<or>
         h_sig_inv h \<noteq> sf_create_inverted_sig SIG_SF_HOST
      then MTC_ERROR_SF_CORRUPTION
      else if sf_checksum (host_words h) \<noteq> h_checksum h then MTC_ERROR_SF_CORRUPTION
      else MTC_SUCCESS)"

text \<open>
  The first argument pair is the buffer: a failing \<open>sf_read\<close> leaves it unspecified in
  the code, and nothing reads it then; the model keeps the old contents.
\<close>

definition sf_readglobal :: "device \<Rightarrow> sf_global \<Rightarrow> uuid option \<Rightarrow> mtc_status \<times> sf_global" where
  "sf_readglobal dev buf expected_uuid =
     (case dv_global dev of
        None \<Rightarrow> (MTC_ERROR_SF_IO_ERROR, buf)
      | Some g \<Rightarrow> (validate_global g expected_uuid, g))"

definition sf_readhostspecific :: "device \<Rightarrow> nat \<Rightarrow> sf_host \<Rightarrow> mtc_status \<times> sf_host" where
  "sf_readhostspecific dev host_index buf =
     (case dv_host dev host_index of
        None \<Rightarrow> (MTC_ERROR_SF_IO_ERROR, buf)
      | Some h \<Rightarrow> (validate_host h, h))"

definition stamp_global :: "sf_global \<Rightarrow> sf_global" where
  "stamp_global g =
     (let g1 = g\<lparr>g_sig := sf_create_sig SIG_SF_GLOBAL,
                 g_sig_inv := sf_create_inverted_sig SIG_SF_GLOBAL,
                 g_version := SF_VERSION, g_length_global := LENGTH_GLOBAL,
                 g_length_host_specfic := LENGTH_HOST_SPECIFIC,
                 g_max_hosts := of_nat MAX_HOST_NUM, g_end_marker := SIG_END_MARKER_GLOBAL\<rparr>
      in g1\<lparr>g_checksum := sf_checksum (global_words g1)\<rparr>)"

definition stamp_host :: "sf_host \<Rightarrow> sf_host" where
  "stamp_host h =
     (let h1 = h\<lparr>h_sig := sf_create_sig SIG_SF_HOST,
                 h_sig_inv := sf_create_inverted_sig SIG_SF_HOST,
                 h_end_marker := SIG_END_MARKER_HOST\<rparr>
      in h1\<lparr>h_checksum := sf_checksum (host_words h1)\<rparr>)"

definition sf_writeglobal :: "device \<Rightarrow> sf_global \<Rightarrow> mtc_status \<times> sf_global \<times> device" where
  "sf_writeglobal dev g =
     (let g1 = stamp_global g; io = dv_io dev
      in (sf_write (io_seek io) (io_ret io) sizeof_sf_global, g1,
          dev\<lparr>dv_global := after_write io sizeof_sf_global (dv_global dev) g1 (io_torn_global io)\<rparr>))"

definition sf_writehostspecific ::
  "device \<Rightarrow> nat \<Rightarrow> sf_host \<Rightarrow> mtc_status \<times> sf_host \<times> device" where
  "sf_writehostspecific dev host_index h =
     (let h1 = stamp_host h; io = dv_io dev
      in (sf_write (io_seek io) (io_ret io) sizeof_sf_host, h1,
          dev\<lparr>dv_host := (dv_host dev)(host_index :=
            after_write io sizeof_sf_host (dv_host dev host_index) h1 (io_torn_host io host_index))\<rparr>))"

lemma dv_write_okD:
  assumes "dv_write_ok dev"
  shows "sf_writeglobal dev g = (MTC_SUCCESS, stamp_global g, dev\<lparr>dv_global := Some (stamp_global g)\<rparr>)"
    "sf_writehostspecific dev i h = (MTC_SUCCESS, stamp_host h, dev\<lparr>dv_host := (dv_host dev)(i := Some (stamp_host h))\<rparr>)"
  using assms by (simp_all add: dv_write_ok_def sf_writeglobal_def sf_writehostspecific_def Let_def write_complete_success
      after_write_complete sizeof_sf_global_def sizeof_sf_host_def)

lemma host_words_cong:
  "host_words (h\<lparr>h_checksum := x\<rparr>) = host_words h"
  "host_words (h\<lparr>h_sig := y\<rparr>) = host_words h"
  "host_words (h\<lparr>h_sig_inv := y\<rparr>) = host_words h"
  "host_words (h\<lparr>h_end_marker := y\<rparr>) = host_words h"
  by (simp_all add: host_words_def)

lemma global_words_checksum: "global_words (g\<lparr>g_checksum := x\<rparr>) = global_words g"
  by (simp add: global_words_def)

lemma validate_stamp_host: "validate_host (stamp_host h) = MTC_SUCCESS"
  by (simp add: validate_host_def stamp_host_def Let_def host_words_cong)

lemma validate_stamp_global:
  "validate_global (stamp_global g) u =
     (case u of Some u' \<Rightarrow> if uuid_comp (g_gen_uuid g) u' then MTC_ERROR_SF_GEN_UUID else MTC_SUCCESS
      | None \<Rightarrow> MTC_SUCCESS)"
  by (simp add: validate_global_def stamp_global_def Let_def global_words_checksum
           split: option.split)

section \<open>Round trips\<close>

text \<open>
  What a host writes to its element every reader accepts, and reads back unchanged
  apart from the signatures and the checksum, which only the access layer uses; the other
  sections of the file stay as they were.
\<close>

lemma host_element_roundtrip:
  assumes "dv_write_ok dev"
  shows "case sf_writehostspecific dev i h of (st, h', dev') \<Rightarrow>
           st = MTC_SUCCESS
           \<and> sf_readhostspecific dev' i buf = (MTC_SUCCESS, h')
           \<and> host_words h' = host_words h
           \<and> (\<forall>j. j = i \<or> sf_readhostspecific dev' j buf = sf_readhostspecific dev j buf)
           \<and> sf_readglobal dev' gbuf u = sf_readglobal dev gbuf u"
  using assms
  by (auto simp: dv_write_okD sf_readhostspecific_def sf_readglobal_def Let_def
        validate_stamp_host) (simp add: stamp_host_def Let_def host_words_cong)

text \<open>
  The same for the global section: the reader that expects the generation UUID it was
  written with accepts it, one that expects another reports the mismatch, and the pool
  state and the master are those written.
\<close>

lemma global_section_roundtrip:
  assumes "dv_write_ok dev"
  shows "case sf_writeglobal dev g of (st, g', dev') \<Rightarrow>
           st = MTC_SUCCESS
           \<and> sf_readglobal dev' buf (Some u) =
               (if uuid_comp (g_gen_uuid g) u then MTC_ERROR_SF_GEN_UUID else MTC_SUCCESS, g')
           \<and> g_pool_state g' = g_pool_state g \<and> g_master g' = g_master g
           \<and> g_gen_uuid g' = g_gen_uuid g
           \<and> sf_readhostspecific dev' j hbuf = sf_readhostspecific dev j hbuf"
  using assms
  by (simp add: dv_write_okD sf_readglobal_def sf_readhostspecific_def Let_def
        validate_stamp_global)
     (simp add: stamp_global_def Let_def)

text \<open>A concrete device and sections, for the witnesses.\<close>

definition blank_host :: "nat \<Rightarrow> sf_host" where
  "blank_host i = \<lparr>h_sig = 0, h_sig_inv = 0, h_checksum = 0, h_sequence = 0,
     h_host_index = of_nat i, h_host_uuid = [], h_excluded = 0, h_starting = 0,
     h_since_last_hb_receipt = (\<lambda>_. - 1), h_since_last_sf_update = (\<lambda>_. - 1),
     h_since_xapi_restart = - 1, h_current_liveset = hm_init_reset,
     h_proposed_liveset = hm_init_reset, h_hbdomain = hm_init_reset,
     h_sfdomain = hm_init_reset, h_lock_request = 0, h_lock_grant = hm_init_reset,
     h_sm_phase = SM_PHASE_STARTING, h_weight = 0, h_end_marker = 0\<rparr>"

definition blank_global :: sf_global where
  "blank_global = \<lparr>g_sig = 0, g_sig_inv = 0, g_checksum = 0, g_version = 0,
     g_length_global = 0, g_length_host_specfic = 0, g_max_hosts = 0, g_gen_uuid = [],
     g_pool_state = SF_STATE_INIT, g_master = [], g_config_hosts = 0, g_end_marker = 0\<rparr>"

definition complete_io :: write_io where
  "complete_io = \<lparr>io_seek = True, io_ret = (\<lambda>n. n), io_torn_global = None, io_torn_host = (\<lambda>_. None)\<rparr>"

definition blank_device :: device where
  "blank_device = \<lparr>dv_global = Some (stamp_global blank_global),
     dv_host = (\<lambda>i. Some (stamp_host (blank_host i))), dv_io = complete_io\<rparr>"

lemma blank_writes: "dv_write_ok blank_device"
  by (simp add: blank_device_def complete_io_def dv_write_ok_def write_complete_def)

lemma host_element_roundtrip_example:
  "case sf_writehostspecific blank_device 1 (blank_host 1) of (st, h', dev') \<Rightarrow>
     st = MTC_SUCCESS \<and> sf_readhostspecific dev' 1 (blank_host 0) = (MTC_SUCCESS, h')
     \<and> host_words h' = host_words (blank_host 1)
     \<and> (\<forall>j. j = 1 \<or> sf_readhostspecific dev' j (blank_host 0)
                   = sf_readhostspecific blank_device j (blank_host 0))
     \<and> sf_readglobal dev' blank_global None = sf_readglobal blank_device blank_global None"
  using host_element_roundtrip[where dev = blank_device and i = 1 and h = "blank_host 1"
    and buf = "blank_host 0" and gbuf = blank_global and u = None, OF blank_writes] .

lemma global_section_roundtrip_example:
  "case sf_writeglobal blank_device blank_global of (st, g', dev') \<Rightarrow>
     st = MTC_SUCCESS
     \<and> sf_readglobal dev' blank_global (Some []) =
         (if uuid_comp (g_gen_uuid blank_global) [] then MTC_ERROR_SF_GEN_UUID
          else MTC_SUCCESS, g')
     \<and> g_pool_state g' = g_pool_state blank_global \<and> g_master g' = g_master blank_global
     \<and> g_gen_uuid g' = g_gen_uuid blank_global
     \<and> sf_readhostspecific dev' 0 (blank_host 0) = sf_readhostspecific blank_device 0 (blank_host 0)"
  using global_section_roundtrip[where dev = blank_device and g = blank_global
    and buf = blank_global and u = "[]" and j = 0 and hbuf = "blank_host 0", OF blank_writes] .

section \<open>The transfer loops\<close>

text \<open>
  \<open>rd k n\<close> is what the \<open>k\<close>-th \<open>read\<close> of \<open>n\<close> bytes returns. The loop of
  \<open>sf_read\<close> may run for ever, so it is a partial function: \<open>None\<close> is not returning.
\<close>

partial_function (option) sf_read_loop :: "(nat \<Rightarrow> int \<Rightarrow> int) \<Rightarrow> nat \<Rightarrow> int \<Rightarrow> mtc_status option"
where
  "sf_read_loop rd k len =
     (if len = 0 then Some MTC_SUCCESS
      else if rd k len < 0 then Some MTC_ERROR_SF_IO_ERROR
      else sf_read_loop rd (Suc k) (len - rd k len))"

definition sf_read :: "bool \<Rightarrow> (nat \<Rightarrow> int \<Rightarrow> int) \<Rightarrow> int \<Rightarrow> mtc_status option" where
  "sf_read seek_ok rd len =
     (if \<not> seek_ok then Some MTC_ERROR_SF_IO_ERROR else sf_read_loop rd 0 (sf_roundup len))"

lemma sf_read_loop_returns:
  assumes prog: "\<And>k n. 0 < n \<Longrightarrow> rd k n \<noteq> 0 \<and> rd k n \<le> n" and "0 \<le> len"
  shows "\<exists>st. sf_read_loop rd k len = Some st"
  using assms(2)
proof (induction "nat len" arbitrary: k len rule: less_induct)
  case less
  show ?case
  proof (cases "len = 0 \<or> rd k len < 0")
    case True
    then show ?thesis by (subst sf_read_loop.simps) auto
  next
    case False
    then have "0 < rd k len" "rd k len \<le> len"
      using prog[of len k] less.prems by auto
    then have "\<exists>st. sf_read_loop rd (Suc k) (len - rd k len) = Some st"
      using less.hyps[of "len - rd k len" "Suc k"] by simp
    with False show ?thesis by (subst sf_read_loop.simps) auto
  qed
qed

lemma sf_read_loop_eof:
  assumes "\<And>k n. rd k n = 0" and "len \<noteq> 0"
  shows "sf_read_loop rd k len = None"
proof -
  have "sf_read_loop rd' k' len' = Some st \<Longrightarrow> (\<forall>k n. rd' k n = 0) \<longrightarrow> len' = 0"
    for rd' :: "nat \<Rightarrow> int \<Rightarrow> int" and k' len' st
  proof (erule sf_read_loop.raw_induct[rotated])
    fix f and rd' :: "nat \<Rightarrow> int \<Rightarrow> int" and k' and len' :: int and st
    assume hyp: "\<And>a b c y. f a b c = Some y \<Longrightarrow> (\<forall>k n. a k n = 0) \<longrightarrow> c = 0"
      and run: "(if len' = 0 then Some MTC_SUCCESS
                 else if rd' k' len' < 0 then Some MTC_ERROR_SF_IO_ERROR
                 else f rd' (Suc k') (len' - rd' k' len')) = Some st"
    show "(\<forall>k n. rd' k n = 0) \<longrightarrow> len' = 0"
    proof
      assume z: "\<forall>k n. rd' k n = 0"
      then have "rd' k' len' = 0" by simp
      then show "len' = 0"
        using run hyp[of rd' "Suc k'" len' st] z by (simp split: if_splits)
    qed
  qed
  with assms show ?thesis by (cases "sf_read_loop rd k len") auto
qed

text \<open>
  C38. \<open>sf_read\<close> returns whenever every \<open>read\<close> either fails or makes progress without
  overrunning the request, however the kernel splits the transfer; but at the end of a
  file, where \<open>read\<close> returns 0, it never returns.
\<close>

theorem sf_read_returns_unless_eof:
  assumes "\<And>k n. 0 < n \<Longrightarrow> rd k n \<noteq> 0 \<and> rd k n \<le> n" and "0 < len"
  shows "(\<exists>st. sf_read seek_ok rd len = Some st) \<and> sf_read True (\<lambda>k n. 0) len = None"
proof -
  have "0 < sf_roundup len"
    using assms(2) by (simp add: sf_roundup_def)
  then show ?thesis
    using sf_read_loop_returns[of rd "sf_roundup len" 0, OF assms(1)]
      sf_read_loop_eof[of "\<lambda>k n. 0" "sf_roundup len" 0]
    by (simp add: sf_read_def)
qed

theorem sf_read_returns_unless_eof_witness:
  "(\<exists>st. sf_read True (\<lambda>k n. min n 512) 1400 = Some st) \<and> sf_read True (\<lambda>k n. 0) 1400 = None"
  by (rule sf_read_returns_unless_eof) auto

end
