(* ===== verification/StateFile.thy ===== *)
theory StateFile
  imports StateFileIO
begin

text \<open>
  The State-File thread, \<^verbatim>\<open>daemon/statefile.c\<close>. It keeps an image of the whole
  State-File (\<open>sf_buffer\<close>), publishes what it reads in the common object
  \<open>COM_DATA_SF\<close> (\<open>readsf\<close>), writes the element of the local host
  (\<open>write_hostspecific\<close>), and performs the requested changes of the global section.
  The device, the clock and the measured latencies are the environment of each pass.
\<close>

definition SF_IOATTEMPTS :: nat where "SF_IOATTEMPTS = 3"
definition SLEEP_INTERVAL :: int where "SLEEP_INTERVAL = 500"
definition ACCELERATED_ACCESS_INTERVAL :: int where
  "ACCELERATED_ACCESS_INTERVAL = SLEEP_INTERVAL - 100"

record sf_buffer =
  sfb_global :: sf_global
  sfb_host :: "nat \<Rightarrow> sf_host"

text \<open>What one attempt of \<open>readsf\<close> meets: the device, read times and latencies.\<close>

record sf_env =
  e_dev :: device
  e_clock :: "nat \<Rightarrow> clock"
  e_global_latency :: int
  e_host_latency :: "nat \<Rightarrow> int"

section \<open>Fault points\<close>

definition d_fist_on :: "string \<Rightarrow> daemon \<Rightarrow> bool \<times> daemon" where
  "d_fist_on name d = (case fist_on name (d_fist d) of (r, tab) \<Rightarrow> (r, d\<lparr>d_fist := tab\<rparr>))"

text \<open>\<open>||\<close>: the second point is queried only when the first is off.\<close>

definition d_fist_or :: "string \<Rightarrow> string \<Rightarrow> daemon \<Rightarrow> bool \<times> daemon" where
  "d_fist_or n1 n2 d = (case d_fist_on n1 d of (True, d1) \<Rightarrow> (True, d1)
                                          | (False, d1) \<Rightarrow> d_fist_on n2 d1)"

definition FIST_io :: "daemon \<Rightarrow> bool \<times> daemon" where
  "FIST_io d = d_fist_or ''sf.ioerror.sticky'' ''sf.ioerror.once'' d"

definition FIST_sum :: "daemon \<Rightarrow> bool \<times> daemon" where
  "FIST_sum d = d_fist_or ''sf.checksum.sticky'' ''sf.checksum.once'' d"

definition FIST_global_read :: "daemon \<Rightarrow> mtc_status \<times> daemon" where
  "FIST_global_read d =
     (case FIST_io d of (True, d1) \<Rightarrow> (MTC_ERROR_SF_IO_ERROR, d1)
      | (False, d1) \<Rightarrow> (case FIST_sum d1 of (True, d2) \<Rightarrow> (MTC_ERROR_SF_CORRUPTION, d2)
      | (False, d2) \<Rightarrow> (case d_fist_on ''sf.version'' d2 of
          (True, d3) \<Rightarrow> (MTC_ERROR_SF_VERSION_MISMATCH, d3)
      | (False, d3) \<Rightarrow> (case d_fist_on ''sf.genuuid'' d3 of
          (True, d4) \<Rightarrow> (MTC_ERROR_SF_GEN_UUID, d4)
      | (False, d4) \<Rightarrow> (MTC_SUCCESS, d4)))))"

definition FIST_global_write :: "daemon \<Rightarrow> mtc_status \<times> daemon" where
  "FIST_global_write d =
     (case FIST_io d of (True, d1) \<Rightarrow> (MTC_ERROR_SF_IO_ERROR, d1)
                      | (False, d1) \<Rightarrow> (MTC_SUCCESS, d1))"

definition FIST_hostspecific_read :: "daemon \<Rightarrow> mtc_status \<times> daemon" where
  "FIST_hostspecific_read d =
     (case FIST_io d of (True, d1) \<Rightarrow> (MTC_ERROR_SF_IO_ERROR, d1)
      | (False, d1) \<Rightarrow> (case FIST_sum d1 of (True, d2) \<Rightarrow> (MTC_ERROR_SF_CORRUPTION, d2)
                                          | (False, d2) \<Rightarrow> (MTC_SUCCESS, d2)))"

definition FIST_hostspecific_write :: "daemon \<Rightarrow> mtc_status \<times> daemon" where
  "FIST_hostspecific_write d =
     (case FIST_io d of (True, d1) \<Rightarrow> (MTC_ERROR_SF_IO_ERROR, d1)
                      | (False, d1) \<Rightarrow> (MTC_SUCCESS, d1))"

lemma d_fist_on_quiet [simp]: "fist_quiet (d_fist d) \<Longrightarrow> d_fist_on name d = (False, d)"
  by (simp add: d_fist_on_def)

lemma FIST_quiet [simp]:
  assumes "fist_quiet (d_fist d)"
  shows "FIST_global_read d = (MTC_SUCCESS, d)" "FIST_global_write d = (MTC_SUCCESS, d)"
    "FIST_hostspecific_read d = (MTC_SUCCESS, d)" "FIST_hostspecific_write d = (MTC_SUCCESS, d)"
  using assms by (simp_all add: FIST_global_read_def FIST_global_write_def
      FIST_hostspecific_read_def FIST_hostspecific_write_def FIST_io_def FIST_sum_def
      d_fist_or_def)

section \<open>Latency reports\<close>

definition latency_update :: "int \<Rightarrow> sf_latency_t \<Rightarrow> sf_latency_t" where
  "latency_update latency lp =
     (let lp1 = lp\<lparr>lat_last := to_s32 latency\<rparr>;
          lp2 = (if latency > lat_max lp1 then lp1\<lparr>lat_max := to_s32 latency\<rparr> else lp1)
      in if lat_min lp2 < 0 \<or> latency < lat_min lp2 then lp2\<lparr>lat_min := to_s32 latency\<rparr> else lp2)"

definition sf_reportlatency :: "int \<Rightarrow> bool \<Rightarrow> daemon \<Rightarrow> daemon" where
  "sf_reportlatency latency write =
     upd_sfv (\<lambda>v. if write then v\<lparr>sfv_writelatency := latency_update latency (sfv_writelatency v)\<rparr>
                  else v\<lparr>sfv_readlatency := latency_update latency (sfv_readlatency v)\<rparr>)"

section \<open>Reading the State-File\<close>

record sf_run =
  r_d :: daemon
  r_buf :: sf_buffer
  ios_global :: mtc_status
  ios_host :: "nat \<Rightarrow> mtc_status"

definition readsf_global :: "ha_config \<Rightarrow> sf_env \<Rightarrow> sf_run \<Rightarrow> sf_run" where
  "readsf_global c e r =
     (if ios_global r \<noteq> MTC_SUCCESS then
        (case FIST_global_read (r_d r) of (st, d1) \<Rightarrow>
           if st = MTC_SUCCESS then
             (case sf_readglobal (e_dev e) (sfb_global (r_buf r)) (Some (gen_UUID c)) of (st', g) \<Rightarrow>
                r\<lparr>ios_global := st',
                  r_buf := (r_buf r)\<lparr>sfb_global := g\<rparr>,
                  r_d := (if dv_global (e_dev e) \<noteq> None
                          then sf_reportlatency (e_global_latency e) False d1 else d1)\<rparr>)
           else r\<lparr>ios_global := st, r_d := d1\<rparr>)
      else r)"

text \<open>The bookkeeping after a host element was read without error.\<close>

definition note_host_read :: "ha_config \<Rightarrow> clock \<Rightarrow> nat \<Rightarrow> u32 \<Rightarrow> sf_var \<Rightarrow> sf_var" where
  "note_host_read c now i sq v =
     (let hs = (sfv_hoststat v i)\<lparr>hs_readclock := now\<rparr>
      in if \<not> hs_readonce hs then
           (let v1 = v\<lparr>sfv_hoststat := (sfv_hoststat v)(i := hs\<lparr>hs_readonce := True, hs_sequence := sq\<rparr>)\<rparr>
            in if i = my_index c then v1\<lparr>sfv_sequence := sq\<rparr> else v1)
         else if hs_sequence hs \<noteq> sq then
           v\<lparr>sfv_hoststat := (sfv_hoststat v)(i := hs\<lparr>hs_sequence := sq, hs_updateclock := now\<rparr>)\<rparr>
         else v\<lparr>sfv_hoststat := (sfv_hoststat v)(i := hs)\<rparr>)"

definition readsf_host :: "ha_config \<Rightarrow> sf_env \<Rightarrow> nat \<Rightarrow> sf_run \<Rightarrow> sf_run" where
  "readsf_host c e i r =
     (if ios_host r i \<noteq> MTC_SUCCESS then
        (case FIST_hostspecific_read (r_d r) of (st, d1) \<Rightarrow>
           if st = MTC_SUCCESS then
             (case sf_readhostspecific (e_dev e) i (sfb_host (r_buf r) i) of (st', h) \<Rightarrow>
                let d2 = (if dv_host (e_dev e) i \<noteq> None
                          then sf_reportlatency (e_host_latency e i) False d1 else d1);
                    d3 = (if st' = MTC_SUCCESS
                          then upd_sfv (note_host_read c (e_clock e i) i (h_sequence h)) d2 else d2)
                in r\<lparr>ios_host := (ios_host r)(i := st'),
                     r_buf := (r_buf r)\<lparr>sfb_host := (sfb_host (r_buf r))(i := h)\<rparr>,
                     r_d := d3\<rparr>)
           else r\<lparr>ios_host := (ios_host r)(i := st), r_d := d1\<rparr>)
      else r)"

definition readsf_attempt :: "ha_config \<Rightarrow> sf_env \<Rightarrow> sf_run \<Rightarrow> sf_run" where
  "readsf_attempt c e r = for_hosts (num_host c) (readsf_host c e) (readsf_global c e r)"

definition readsf_status :: "ha_config \<Rightarrow> sf_run \<Rightarrow> mtc_status" where
  "readsf_status c r =
     (if ios_global r = MTC_SUCCESS then
        (case first_host (num_host c) (\<lambda>i. ios_host r i \<noteq> MTC_SUCCESS) of
           Some i \<Rightarrow> ios_host r i | None \<Rightarrow> MTC_SUCCESS)
      else ios_global r)"

fun readsf_attempts ::
  "ha_config \<Rightarrow> sf_env list \<Rightarrow> mtc_status \<Rightarrow> sf_run \<Rightarrow> mtc_status \<times> sf_run" where
  "readsf_attempts c [] status r = (status, r)"
| "readsf_attempts c (e # es) status r =
     (let r1 = readsf_attempt c e r; st = readsf_status c r1
      in if st = MTC_SUCCESS then (st, r1) else readsf_attempts c es st r1)"

section \<open>Publishing what was read\<close>

definition u32_bool :: "u32 \<Rightarrow> bool" where "u32_bool w \<longleftrightarrow> w \<noteq> 0"
definition bool_u32 :: "bool \<Rightarrow> u32" where "bool_u32 b = (if b then 1 else 0)"

lemma u32_bool_u32 [simp]: "u32_bool (bool_u32 b) = b"
  by (simp add: u32_bool_def bool_u32_def)

definition copy_times :: "nat \<Rightarrow> (nat \<Rightarrow> int) \<Rightarrow> (nat \<Rightarrow> int) \<Rightarrow> (nat \<Rightarrow> int)" where
  "copy_times n from_a to_a = for_hosts n (\<lambda>j a. a(j := from_a j)) to_a"

definition copy_raw :: "nat \<Rightarrow> sf_host \<Rightarrow> raw_data \<Rightarrow> raw_data" where
  "copy_raw n h r = r\<lparr>raw_current_liveset := h_current_liveset h,
     raw_proposed_liveset := h_proposed_liveset h,
     raw_hbdomain := h_hbdomain h, raw_sfdomain := h_sfdomain h,
     raw_time_since_last_HB_receipt :=
       copy_times n (h_since_last_hb_receipt h) (raw_time_since_last_HB_receipt r),
     raw_time_since_last_SF_update :=
       copy_times n (h_since_last_sf_update h) (raw_time_since_last_SF_update r),
     raw_time_since_xapi_restart := h_since_xapi_restart h\<rparr>"

definition publish_host ::
  "ha_config \<Rightarrow> com_data_sm \<Rightarrow> sf_var \<Rightarrow> (nat \<Rightarrow> sf_host) \<Rightarrow> nat \<Rightarrow> com_data_sf \<Rightarrow> com_data_sf"
where
  "publish_host c psm v hs i sf =
     (let h = hs i;
          sf1 = (if i \<noteq> my_index c
                 then sf\<lparr>sf_lm_request := (sf_lm_request sf)(i := u32_bool (h_lock_request h)),
                         sf_lm_grant := (sf_lm_grant sf)(i := h_lock_grant h)\<rparr> else sf);
          sf2 = (if i \<noteq> my_index c \<or> \<not> sf_mod_excluded sf1
                 then sf1\<lparr>sf_excluded := hm_set_boolean (sf_excluded sf1) i (u32_bool (h_excluded h))\<rparr>
                 else sf1);
          sf3 = sf2\<lparr>sf_starting := hm_set_boolean (sf_starting sf2) i (u32_bool (h_starting h))\<rparr>;
          sf4 = sf3\<lparr>sf_raw := (sf_raw sf3)(i := copy_raw (num_host c) h (sf_raw sf3 i))\<rparr>;
          sf5 = (if \<not> (\<not> hm_ison (raw_current_liveset (sf_raw sf4 i)) i
                        \<and> hm_ison (sm_current_liveset psm) i)
                 then sf4\<lparr>sf_time_last_SF := (sf_time_last_SF sf4)(i := hs_updateclock (sfv_hoststat v i))\<rparr>
                 else sf4)
      in if i = my_index c
         then sf5\<lparr>sf_sm_phase := (sf_sm_phase sf5)(i := sm_phase_of psm),
                  sf_weight := (sf_weight sf5)(i := sm_commited_weight psm)\<rparr>
         else sf5\<lparr>sf_sm_phase := (sf_sm_phase sf5)(i := h_sm_phase h),
                  sf_weight := (sf_weight sf5)(i := h_weight h)\<rparr>)"

definition publish_latency :: "sf_var \<Rightarrow> com_data_sf \<Rightarrow> com_data_sf" where
  "publish_latency v sf =
     (let mx = max (lat_max (sfv_readlatency v)) (lat_max (sfv_writelatency v));
          mn = min (lat_min (sfv_readlatency v)) (lat_min (sfv_writelatency v));
          sf1 = sf\<lparr>sf_latency := max (lat_last (sfv_readlatency v)) (lat_last (sfv_writelatency v))\<rparr>;
          sf2 = (if mx > sf_latency_max sf1 then sf1\<lparr>sf_latency_max := mx\<rparr> else sf1)
      in if sf_latency_min sf2 < 0 \<or> mn < sf_latency_min sf2 then sf2\<lparr>sf_latency_min := mn\<rparr> else sf2)"

definition reset_latency :: "sf_var \<Rightarrow> sf_var" where
  "reset_latency v = v\<lparr>sfv_readlatency := (sfv_readlatency v)\<lparr>lat_max := - 1, lat_min := - 1\<rparr>,
     sfv_writelatency := (sfv_writelatency v)\<lparr>lat_max := - 1, lat_min := - 1\<rparr>\<rparr>"

definition sf_access_lost :: "ha_config \<Rightarrow> daemon \<Rightarrow> daemon" where
  "sf_access_lost c d =
     upd_sfv (\<lambda>v. v\<lparr>sfv_SF_access := False, sfv_accelerate_count := 0,
                    sfv_interval_ms := uint (cfg_t2 c * 1000)\<rparr>)
       (upd_sf (\<lambda>s. s\<lparr>sf_access := False\<rparr>) d)"

text \<open>The part under the writer lock when every section was read, and otherwise.\<close>

definition readsf_publish :: "ha_config \<Rightarrow> sf_buffer \<Rightarrow> daemon \<Rightarrow> mtc_status \<times> sf_buffer \<times> daemon" where
  "readsf_publish c buf d =
     (let sf1 = publish_latency (d_sfv d)
                  (for_hosts (num_host c) (publish_host c (d_sm d) (d_sfv d) (sfb_host buf)) (d_sf d));
          d1 = upd_sfv (\<lambda>v. (reset_latency v)\<lparr>sfv_SF_access := True\<rparr>) d;
          sf2 = sf1\<lparr>sf_access := True\<rparr>;
          (st3, g3, sf3) =
            (if sf_mod_master sf2
             then (MTC_ERROR_SF_PENDING_WRITE, (sfb_global buf)\<lparr>g_master := sf_master sf2\<rparr>,
                   sf2\<lparr>sf_mod_master := False\<rparr>)
             else (MTC_SUCCESS, sfb_global buf, sf2\<lparr>sf_master := g_master (sfb_global buf)\<rparr>));
          (st4, g4, sf4) =
            (if sf_mod_pool_state sf3
             then (MTC_ERROR_SF_PENDING_WRITE, g3\<lparr>g_pool_state := sf_pool_state sf3\<rparr>,
                   sf3\<lparr>sf_mod_pool_state := False\<rparr>)
             else (st3, g3, sf3\<lparr>sf_pool_state := g_pool_state g3\<rparr>))
      in (st4, buf\<lparr>sfb_global := g4\<rparr>, d1\<lparr>d_sf := sf4\<rparr>))"

definition readsf_failed :: "ha_config \<Rightarrow> mtc_status \<Rightarrow> sf_run \<Rightarrow> mtc_status \<times> daemon" where
  "readsf_failed c status r =
     (let (st, corrupted) =
        (if ios_global r = MTC_ERROR_SF_GEN_UUID then (MTC_ERROR_SF_GEN_UUID, False)
         else if ios_global r = MTC_ERROR_SF_VERSION_MISMATCH
              then (MTC_ERROR_SF_VERSION_MISMATCH, False)
         else if ios_global r = MTC_ERROR_SF_CORRUPTION then (status, True)
         else (status, some_host (num_host c) (\<lambda>i. ios_host r i = MTC_ERROR_SF_CORRUPTION)))
      in (st, upd_sf (\<lambda>s. s\<lparr>sf_corrupted := corrupted\<rparr>) (sf_access_lost c (r_d r))))"

definition readsf :: "ha_config \<Rightarrow> (nat \<Rightarrow> sf_env) \<Rightarrow> sf_buffer \<Rightarrow> daemon
  \<Rightarrow> mtc_status \<times> sf_buffer \<times> daemon" where
  "readsf c env buf d =
     (let r0 = \<lparr>r_d = d, r_buf = buf, ios_global = MTC_ERROR_UNDEFINED,
                ios_host = (\<lambda>_. MTC_ERROR_UNDEFINED)\<rparr>;
          (status, r) = readsf_attempts c (map env [0..<SF_IOATTEMPTS]) MTC_ERROR_UNDEFINED r0
      in if status = MTC_SUCCESS
         then (case readsf_publish c (r_buf r) (r_d r) of
                 (st, buf', d') \<Rightarrow> (st, buf', unlock_sf False d'))
         else (case readsf_failed c status r of
                 (st, d') \<Rightarrow> (st, r_buf r, unlock_sf False d')))"

section \<open>Writing the local element\<close>

definition elapsed :: "clock \<Rightarrow> clock \<Rightarrow> int" where
  "elapsed now t = (if t < 0 then - 1 else to_s32 (now - t))"

text \<open>The element \<open>write_hostspecific\<close> composes under the locks.\<close>

definition compose_element :: "ha_config \<Rightarrow> clock \<Rightarrow> daemon \<Rightarrow> sf_host \<Rightarrow> sf_host" where
  "compose_element c now d h = h\<lparr>
     h_sequence := sfv_sequence (d_sfv d), h_host_index := of_nat (my_index c),
     h_host_uuid := my_UUID c,
     h_excluded := bool_u32 (hm_ison (sf_excluded (d_sf d)) (my_index c)),
     h_current_liveset := sm_current_liveset (d_sm d),
     h_proposed_liveset := sm_proposed_liveset (d_sm d),
     h_hbdomain := hb_hbdomain (d_hb d), h_sfdomain := sf_sfdomain (d_sf d),
     h_sm_phase := sm_phase_of (d_sm d), h_weight := sm_commited_weight (d_sm d),
     h_since_last_hb_receipt :=
       for_hosts (num_host c) (\<lambda>i a. a(i := elapsed now (hb_time_last_HB (d_hb d) i)))
         (h_since_last_hb_receipt h),
     h_since_last_sf_update :=
       for_hosts (num_host c) (\<lambda>i a. a(i := elapsed now (sf_time_last_SF (d_sf d) i)))
         (h_since_last_sf_update h),
     h_since_xapi_restart := elapsed now (xm_time_Xapi_restart (d_xm d)),
     h_lock_request := bool_u32 (sf_lm_request (d_sf d) (my_index c)),
     h_lock_grant := sf_lm_grant (d_sf d) (my_index c),
     h_starting := bool_u32 (sf_ctl_starting (d_sf d))\<rparr>"

definition write_hostspecific :: "ha_config \<Rightarrow> clock \<Rightarrow> int \<Rightarrow> device \<Rightarrow> sf_buffer \<Rightarrow> daemon
  \<Rightarrow> mtc_status \<times> device \<times> sf_buffer \<times> daemon" where
  "write_hostspecific c now latency dev buf d =
     (let me = my_index c;
          h = compose_element c now d (sfb_host buf me);
          excluded_pending = sf_mod_excluded (d_sf d);
          d1 = upd_sfv (\<lambda>v. v\<lparr>sfv_sequence := sfv_sequence v + 1\<rparr>) d;
          d2 = with_sf False (\<lambda>s. s\<lparr>sf_mod_excluded := False,
                 sf_sm_phase := (sf_sm_phase s)(me := sm_phase_of (d_sm d)),
                 sf_weight := (sf_weight s)(me := sm_commited_weight (d_sm d))\<rparr>) d1;
          (st0, d3) = FIST_hostspecific_write d2;
          (st, h', dev', d4) =
            (if st0 = MTC_SUCCESS
             then (case sf_writehostspecific dev me h of (st', h', dev') \<Rightarrow>
                     (st', h', dev', if st' = MTC_SUCCESS then sf_reportlatency latency True d3 else d3))
             else (st0, h, dev, d3));
          d5 = (if st \<noteq> MTC_SUCCESS
                then unlock_sf False (sf_access_lost c
                       (upd_sf (\<lambda>s. if excluded_pending then s\<lparr>sf_mod_excluded := True\<rparr> else s) d4))
                else d4)
      in (st, dev', buf\<lparr>sfb_host := (sfb_host buf)(me := h')\<rparr>, d5))"

section \<open>Requests of the other modules\<close>

definition sf_set_pool_state :: "bool \<Rightarrow> u32 \<Rightarrow> daemon \<Rightarrow> daemon" where
  "sf_set_pool_state by_sm p = with_sf by_sm (\<lambda>s. s\<lparr>sf_mod_pool_state := True, sf_pool_state := p\<rparr>)"

definition sf_set_master :: "uuid \<Rightarrow> daemon \<Rightarrow> daemon" where
  "sf_set_master m = with_sf False (\<lambda>s. s\<lparr>sf_mod_master := True, sf_master := m\<rparr>)"

definition sf_set_excluded :: "ha_config \<Rightarrow> bool \<Rightarrow> bool \<Rightarrow> daemon \<Rightarrow> daemon" where
  "sf_set_excluded c by_sm b = with_sf by_sm (\<lambda>s. s\<lparr>sf_mod_excluded := True,
     sf_excluded := hm_set_boolean (sf_excluded s) (my_index c) b\<rparr>)"

definition sf_accelerate :: "daemon \<Rightarrow> daemon" where
  "sf_accelerate = upd_sfv (\<lambda>v. if sfv_SF_access v
     then v\<lparr>sfv_accelerate_count := sfv_accelerate_count v + 1,
            sfv_interval_ms := ACCELERATED_ACCESS_INTERVAL\<rparr> else v)"

definition sf_cancel_acceleration :: "ha_config \<Rightarrow> daemon \<Rightarrow> daemon" where
  "sf_cancel_acceleration c = upd_sfv (\<lambda>v. if sfv_SF_access v
     then v\<lparr>sfv_accelerate_count := 0, sfv_interval_ms := uint (cfg_t2 c * 1000)\<rparr> else v)"

definition sf_watchdog_set :: "ha_config \<Rightarrow> daemon \<Rightarrow> daemon" where
  "sf_watchdog_set c d = (case sfv_watchdog (d_sfv d) of
     Some w \<Rightarrow> d\<lparr>d_wd := d_wd d @ [WdSet w (cfg_Ws c)]\<rparr> | None \<Rightarrow> d)"

section \<open>One pass of the thread\<close>

record sf_local =
  l_last :: clock
  l_read_once :: bool
  l_alive :: bool

definition sfthread_due :: "int \<Rightarrow> clock \<Rightarrow> sf_local \<Rightarrow> sf_var \<Rightarrow> bool" where
  "sfthread_due rnd now l v =
     (let target = (if sfv_accelerate_count v = 0
                    then (if sfv_interval_ms v + rnd \<le> 0 then sfv_interval_ms v
                          else sfv_interval_ms v + rnd)
                    else sfv_interval_ms v)
      in \<not> now - l_last l < target)"

text \<open>\<open>rnd\<close> is the value of \<open>sf_rand()\<close>, \<open>wr\<close> the device and latency writes meet.\<close>

definition sfthread_pass ::
  "ha_config \<Rightarrow> int \<Rightarrow> clock \<Rightarrow> (nat \<Rightarrow> sf_env) \<Rightarrow> int \<Rightarrow> device \<Rightarrow> sf_buffer \<Rightarrow> daemon \<Rightarrow> sf_local
   \<Rightarrow> device \<times> sf_buffer \<times> daemon \<times> sf_local" where
  "sfthread_pass c rnd now env latency dev buf d l =
     (if \<not> l_alive l \<or> \<not> sfthread_due rnd now l (d_sfv d) then (dev, buf, d, l)
      else
       let d1 = unlock_sf False (sf_watchdog_set c d);
           writable = sf_enable_write (d_sf d1);
           readable = sf_enable_read (d_sf d1);
           l1 = l\<lparr>l_last := now\<rparr>;
           (dev2, buf2, d2) = (if writable \<and> l_read_once l1
              then snd (write_hostspecific c now latency dev buf d1) else (dev, buf, d1));
           d2 = snd (d_fist_on ''sf.time.<T2 after write'' d2)
       in if readable then
            (case readsf c env buf2 d2 of (st, buf3, d3) \<Rightarrow>
               if st = MTC_SUCCESS then (dev2, buf3, d3, l1\<lparr>l_read_once := True\<rparr>)
               else if st = MTC_ERROR_SF_PENDING_WRITE then
                 (case FIST_global_write d3 of (st4, d4) \<Rightarrow>
                    if st4 = MTC_SUCCESS then
                      (case sf_writeglobal dev2 (sfb_global buf3) of (st5, g5, dev5) \<Rightarrow>
                         (dev5, buf3\<lparr>sfb_global := g5\<rparr>,
                          (if st5 = MTC_SUCCESS then sf_reportlatency latency True d4 else d4), l1))
                    else (dev2, buf3, d4, l1))
               else if st = MTC_ERROR_SF_VERSION_MISMATCH \<or> st = MTC_ERROR_SF_GEN_UUID then
                 (dev2, buf3, main_terminate st d3, l1\<lparr>l_alive := False\<rparr>)
               else (dev2, buf3, d3, l1\<lparr>l_read_once := False\<rparr>))
          else (dev2, buf2, d2, l1))"

section \<open>What an attempt does\<close>

lemma d_fist_on_frame [simp]:
  "d_sm (snd (d_fist_on n d)) = d_sm d" "d_hb (snd (d_fist_on n d)) = d_hb d"
  "d_sf (snd (d_fist_on n d)) = d_sf d" "d_sfv (snd (d_fist_on n d)) = d_sfv d"
  "d_xm (snd (d_fist_on n d)) = d_xm d" "d_smv (snd (d_fist_on n d)) = d_smv d"
  "d_hbv (snd (d_fist_on n d)) = d_hbv d" "d_lmv (snd (d_fist_on n d)) = d_lmv d"
  "d_sent (snd (d_fist_on n d)) = d_sent d" "d_wd (snd (d_fist_on n d)) = d_wd d"
  "d_exit (snd (d_fist_on n d)) = d_exit d" "d_fenced (snd (d_fist_on n d)) = d_fenced d"
  by (simp_all add: d_fist_on_def split: prod.split)

text \<open>What the fault points leave alone, in the form the case splits need.\<close>

definition same_objects :: "daemon \<Rightarrow> daemon \<Rightarrow> bool" where
  "same_objects d d' \<longleftrightarrow> d_sm d' = d_sm d \<and> d_hb d' = d_hb d \<and> d_sf d' = d_sf d
     \<and> d_xm d' = d_xm d \<and> d_smv d' = d_smv d \<and> d_lmv d' = d_lmv d \<and> d_hbv d' = d_hbv d
     \<and> d_sent d' = d_sent d \<and> d_wd d' = d_wd d \<and> d_exit d' = d_exit d
     \<and> d_fenced d' = d_fenced d \<and> sfv_watchdog (d_sfv d') = sfv_watchdog (d_sfv d)
     \<and> sfv_terminate (d_sfv d') = sfv_terminate (d_sfv d)"

lemma same_objects_refl [simp]: "same_objects d d"
  by (simp add: same_objects_def)

lemma same_objects_trans [trans]:
  "same_objects d1 d2 \<Longrightarrow> same_objects d2 d3 \<Longrightarrow> same_objects d1 d3"
  by (simp add: same_objects_def)

lemma d_fist_on_same: "d_fist_on n d = (b, d') \<Longrightarrow> same_objects d d'"
  by (auto simp: d_fist_on_def same_objects_def split: prod.splits)

lemma d_fist_or_same: "d_fist_or n m d = (b, d') \<Longrightarrow> same_objects d d'"
  by (auto simp: d_fist_or_def split: prod.splits bool.splits
      intro: d_fist_on_same same_objects_trans)

lemma FIST_same:
  "FIST_global_read d = (st, d') \<Longrightarrow> same_objects d d'"
  "FIST_global_write d = (st, d') \<Longrightarrow> same_objects d d'"
  "FIST_hostspecific_read d = (st, d') \<Longrightarrow> same_objects d d'"
  "FIST_hostspecific_write d = (st, d') \<Longrightarrow> same_objects d d'"
  by (auto simp: FIST_global_read_def FIST_global_write_def FIST_hostspecific_read_def
      FIST_hostspecific_write_def FIST_io_def FIST_sum_def split: prod.splits bool.splits
      dest!: d_fist_or_same d_fist_on_same intro: same_objects_trans)

lemma sf_reportlatency_same [simp]: "same_objects d (sf_reportlatency x w d)"
  by (simp add: sf_reportlatency_def same_objects_def)

lemma sf_reportlatency_keeps [simp]:
  "d_fist (sf_reportlatency x w d) = d_fist d"
  "sfv_hoststat (d_sfv (sf_reportlatency x w d)) = sfv_hoststat (d_sfv d)"
  "sfv_sequence (d_sfv (sf_reportlatency x w d)) = sfv_sequence (d_sfv d)"
  by (simp_all add: sf_reportlatency_def)

lemma note_host_read_keeps [simp]:
  "sfv_watchdog (note_host_read c t i q v) = sfv_watchdog v"
  "sfv_terminate (note_host_read c t i q v) = sfv_terminate v"
  by (simp_all add: note_host_read_def Let_def)

lemma readsf_global_same: "same_objects (r_d r) (r_d (readsf_global c e r))"
  by (auto simp: readsf_global_def split: prod.splits
      intro: FIST_same same_objects_trans[OF FIST_same(1) sf_reportlatency_same])

lemma same_objects_note:
  "same_objects d d' \<Longrightarrow> same_objects d (upd_sfv (note_host_read c t i q) d')"
  by (simp add: same_objects_def)

lemma readsf_host_same: "same_objects (r_d r) (r_d (readsf_host c e i r))"
  by (auto simp: readsf_host_def Let_def split: prod.splits
      intro!: same_objects_note
      intro: FIST_same same_objects_trans[OF FIST_same(3) sf_reportlatency_same])

lemma readsf_attempt_same: "same_objects (r_d r) (r_d (readsf_attempt c e r))"
  unfolding readsf_attempt_def
  by (rule for_hosts_inv[where I = "\<lambda>i s. same_objects (r_d r) (r_d s)"])
     (auto intro: readsf_global_same readsf_host_same same_objects_trans)

lemma readsf_attempts_same:
  "readsf_attempts c es st r = (st', r') \<Longrightarrow> same_objects (r_d r) (r_d r')"
  by (induction es arbitrary: st r)
     (auto simp: Let_def split: if_splits intro: readsf_attempt_same
        same_objects_trans[OF readsf_attempt_same])

text \<open>An attempt in which every section is delivered and valid.\<close>

definition good_attempt :: "ha_config \<Rightarrow> sf_env \<Rightarrow> bool" where
  "good_attempt c e \<longleftrightarrow>
     (case dv_global (e_dev e) of
        Some g \<Rightarrow> validate_global g (Some (gen_UUID c)) = MTC_SUCCESS | None \<Rightarrow> False)
     \<and> all_hosts (num_host c) (\<lambda>i. case dv_host (e_dev e) i of
        Some h \<Rightarrow> validate_host h = MTC_SUCCESS | None \<Rightarrow> False)"

definition dev_host :: "sf_env \<Rightarrow> nat \<Rightarrow> sf_host" where
  "dev_host e i = the (dv_host (e_dev e) i)"

definition dev_global :: "sf_env \<Rightarrow> sf_global" where
  "dev_global e = the (dv_global (e_dev e))"

text \<open>How one good read moves the statistics of a host.\<close>

definition hs_step :: "clock \<Rightarrow> u32 \<Rightarrow> sf_hoststat \<Rightarrow> sf_hoststat" where
  "hs_step now sq hs =
     (if \<not> hs_readonce hs
      then hs\<lparr>hs_readclock := now, hs_readonce := True, hs_sequence := sq\<rparr>
      else if hs_sequence hs \<noteq> sq
      then hs\<lparr>hs_readclock := now, hs_sequence := sq, hs_updateclock := now\<rparr>
      else hs\<lparr>hs_readclock := now\<rparr>)"

lemma note_host_read_hoststat [simp]:
  "sfv_hoststat (note_host_read c now i sq v) =
     (sfv_hoststat v)(i := hs_step now sq (sfv_hoststat v i))"
  by (simp add: note_host_read_def hs_step_def Let_def)

lemma readsf_global_good:
  assumes "fist_quiet (d_fist (r_d r))" and "ios_global r \<noteq> MTC_SUCCESS" and "good_attempt c e"
  shows "readsf_global c e r = r\<lparr>ios_global := MTC_SUCCESS,
      r_buf := (r_buf r)\<lparr>sfb_global := dev_global e\<rparr>,
      r_d := sf_reportlatency (e_global_latency e) False (r_d r)\<rparr>"
  using assms by (auto simp: readsf_global_def sf_readglobal_def good_attempt_def dev_global_def
      split: option.splits)

lemma readsf_host_good:
  assumes "fist_quiet (d_fist (r_d r))" and "ios_host r i \<noteq> MTC_SUCCESS"
    and "good_attempt c e" and "i < num_host c"
  shows "readsf_host c e i r = r\<lparr>ios_host := (ios_host r)(i := MTC_SUCCESS),
      r_buf := (r_buf r)\<lparr>sfb_host := (sfb_host (r_buf r))(i := dev_host e i)\<rparr>,
      r_d := upd_sfv (note_host_read c (e_clock e i) i (h_sequence (dev_host e i)))
               (sf_reportlatency (e_host_latency e i) False (r_d r))\<rparr>"
  using assms by (auto simp: readsf_host_def sf_readhostspecific_def good_attempt_def dev_host_def
      Let_def split: option.splits)

text \<open>The state after the first \<open>k\<close> hosts of a good attempt.\<close>

definition good_upto :: "sf_env \<Rightarrow> sf_run \<Rightarrow> nat \<Rightarrow> sf_run \<Rightarrow> bool" where
  "good_upto e r0 k r \<longleftrightarrow>
     ios_global r = MTC_SUCCESS \<and> sfb_global (r_buf r) = dev_global e
     \<and> d_fist (r_d r) = d_fist (r_d r0)
     \<and> (\<forall>i. ios_host r i = (if i < k then MTC_SUCCESS else ios_host r0 i))
     \<and> (\<forall>i. sfb_host (r_buf r) i = (if i < k then dev_host e i else sfb_host (r_buf r0) i))
     \<and> (\<forall>i. sfv_hoststat (d_sfv (r_d r)) i =
            (if i < k then hs_step (e_clock e i) (h_sequence (dev_host e i))
                             (sfv_hoststat (d_sfv (r_d r0)) i)
             else sfv_hoststat (d_sfv (r_d r0)) i))"

lemma readsf_attempt_good:
  assumes "fist_quiet (d_fist (r_d r))" and "ios_global r \<noteq> MTC_SUCCESS"
    and "\<And>i. ios_host r i \<noteq> MTC_SUCCESS" and "good_attempt c e"
  shows "good_upto e r (num_host c) (readsf_attempt c e r)"
  unfolding readsf_attempt_def
proof (rule for_hosts_inv[where I = "good_upto e r"])
  show "good_upto e r 0 (readsf_global c e r)"
    using assms by (simp add: readsf_global_good good_upto_def)
next
  fix i s
  assume i: "i < num_host c" and inv: "good_upto e r i s"
  then have "readsf_host c e i s = s\<lparr>ios_host := (ios_host s)(i := MTC_SUCCESS),
      r_buf := (r_buf s)\<lparr>sfb_host := (sfb_host (r_buf s))(i := dev_host e i)\<rparr>,
      r_d := upd_sfv (note_host_read c (e_clock e i) i (h_sequence (dev_host e i)))
               (sf_reportlatency (e_host_latency e i) False (r_d s))\<rparr>"
    using assms by (intro readsf_host_good) (auto simp: good_upto_def)
  then show "good_upto e r (Suc i) (readsf_host c e i s)"
    using inv by (auto simp: good_upto_def less_Suc_eq)
qed

lemma good_upto_status: "good_upto e r (num_host c) r' \<Longrightarrow> readsf_status c r' = MTC_SUCCESS"
  by (auto simp: readsf_status_def good_upto_def first_host_None split: option.splits
      dest: first_host_Some[THEN iffD1])

lemma map_env_attempts: "map env [0..<SF_IOATTEMPTS] = [env 0, env 1, env 2]"
  by (simp add: SF_IOATTEMPTS_def upt_rec numeral_2_eq_2)

text \<open>A pass whose first attempt is good publishes exactly what that attempt read.\<close>

lemma readsf_good:
  assumes "fist_quiet (d_fist d)" and "good_attempt c (env 0)"
  obtains r :: sf_run where
    "readsf c env buf d = (case readsf_publish c (r_buf r) (r_d r) of
       (st, buf', d') \<Rightarrow> (st, buf', unlock_sf False d'))"
    "same_objects d (r_d r)" "sfb_global (r_buf r) = dev_global (env 0)"
    "d_fist (r_d r) = d_fist d"
    "\<And>i. i < num_host c \<Longrightarrow> sfb_host (r_buf r) i = dev_host (env 0) i"
    "\<And>i. i < num_host c \<Longrightarrow> sfv_hoststat (d_sfv (r_d r)) i =
       hs_step (e_clock (env 0) i) (h_sequence (dev_host (env 0) i)) (sfv_hoststat (d_sfv d) i)"
proof -
  let ?init = "\<lparr>r_d = d, r_buf = buf, ios_global = MTC_ERROR_UNDEFINED,
               ios_host = (\<lambda>_. MTC_ERROR_UNDEFINED)\<rparr>"
  let ?r = "readsf_attempt c (env 0) ?init"
  have good: "good_upto (env 0) ?init (num_host c) ?r"
    using assms by (intro readsf_attempt_good) simp_all
  have "readsf_attempts c (map env [0..<SF_IOATTEMPTS]) MTC_ERROR_UNDEFINED ?init = (MTC_SUCCESS, ?r)"
    using good_upto_status[OF good] by (simp add: map_env_attempts Let_def)
  then have "readsf c env buf d = (case readsf_publish c (r_buf ?r) (r_d ?r) of
       (st, buf', d') \<Rightarrow> (st, buf', unlock_sf False d'))"
    by (simp add: readsf_def Let_def)
  moreover have "same_objects d (r_d ?r)"
    using readsf_attempt_same[of ?init c "env 0"] by simp
  ultimately show thesis
    using good that[of ?r] by (auto simp: good_upto_def)
qed

end
