(* ===== verification/StateFileProps.thy ===== *)
theory StateFileProps
  imports StateFile
begin

text \<open>
  What the State-File thread guarantees: what a successful pass publishes, what a failing
  one leaves alone, that an element written by one host arrives in the objects of another,
  and how the liveness stamp of a host moves.
\<close>

section \<open>The loop that publishes the rows\<close>

lemma copy_times_nth: "copy_times n f a = (\<lambda>i. if i < n then f i else a i)"
  by (simp add: copy_times_def for_hosts_array)

text \<open>The row of one host, one field at a time; the loop leaves the other rows alone.\<close>

lemma publish_host_row [simp]:
  "sf_raw (publish_host c psm v hs i sf) =
     (sf_raw sf)(i := copy_raw (num_host c) (hs i) (sf_raw sf i))"
  "sf_lm_request (publish_host c psm v hs i sf) =
     (if i = my_index c then sf_lm_request sf
      else (sf_lm_request sf)(i := u32_bool (h_lock_request (hs i))))"
  "sf_lm_grant (publish_host c psm v hs i sf) =
     (if i = my_index c then sf_lm_grant sf
      else (sf_lm_grant sf)(i := h_lock_grant (hs i)))"
  "sf_sm_phase (publish_host c psm v hs i sf) =
     (sf_sm_phase sf)(i := if i = my_index c then sm_phase_of psm else h_sm_phase (hs i))"
  "sf_weight (publish_host c psm v hs i sf) =
     (sf_weight sf)(i := if i = my_index c then sm_commited_weight psm else h_weight (hs i))"
  "sf_starting (publish_host c psm v hs i sf) =
     hm_set_boolean (sf_starting sf) i (u32_bool (h_starting (hs i)))"
  "sf_time_last_SF (publish_host c psm v hs i sf) =
     (if \<not> hm_ison (h_current_liveset (hs i)) i \<and> hm_ison (sm_current_liveset psm) i
      then sf_time_last_SF sf
      else (sf_time_last_SF sf)(i := hs_updateclock (sfv_hoststat v i)))"
  "sf_mod_excluded (publish_host c psm v hs i sf) = sf_mod_excluded sf"
  "sf_excluded (publish_host c psm v hs i sf) =
     (if i \<noteq> my_index c \<or> \<not> sf_mod_excluded sf
      then hm_set_boolean (sf_excluded sf) i (u32_bool (h_excluded (hs i))) else sf_excluded sf)"
  by (auto simp: publish_host_def Let_def copy_raw_def)

lemma publish_host_keeps [simp]:
  "sf_mod_pool_state (publish_host c psm v hs i sf) = sf_mod_pool_state sf"
  "sf_mod_master (publish_host c psm v hs i sf) = sf_mod_master sf"
  "sf_pool_state (publish_host c psm v hs i sf) = sf_pool_state sf"
  "sf_master (publish_host c psm v hs i sf) = sf_master sf"
  "sf_sfdomain (publish_host c psm v hs i sf) = sf_sfdomain sf"
  "sf_fencing (publish_host c psm v hs i sf) = sf_fencing sf"
  "sf_enable_write (publish_host c psm v hs i sf) = sf_enable_write sf"
  "sf_enable_read (publish_host c psm v hs i sf) = sf_enable_read sf"
  "sf_ctl_starting (publish_host c psm v hs i sf) = sf_ctl_starting sf"
  "sf_corrupted (publish_host c psm v hs i sf) = sf_corrupted sf"
  by (auto simp: publish_host_def Let_def)

abbreviation publish_rows where
  "publish_rows c k psm v hs sf \<equiv> for_hosts k (publish_host c psm v hs) sf"

lemma publish_rows_keeps [simp]:
  "sf_mod_pool_state (publish_rows c k psm v hs sf) = sf_mod_pool_state sf"
  "sf_mod_master (publish_rows c k psm v hs sf) = sf_mod_master sf"
  "sf_mod_excluded (publish_rows c k psm v hs sf) = sf_mod_excluded sf"
  "sf_pool_state (publish_rows c k psm v hs sf) = sf_pool_state sf"
  "sf_master (publish_rows c k psm v hs sf) = sf_master sf"
  "sf_sfdomain (publish_rows c k psm v hs sf) = sf_sfdomain sf"
  "sf_fencing (publish_rows c k psm v hs sf) = sf_fencing sf"
  "sf_corrupted (publish_rows c k psm v hs sf) = sf_corrupted sf"
  by (induction k) simp_all

lemma publish_rows_row:
  "sf_raw (publish_rows c k psm v hs sf) i =
     (if i < k then copy_raw (num_host c) (hs i) (sf_raw sf i) else sf_raw sf i)"
  "sf_lm_request (publish_rows c k psm v hs sf) i =
     (if i < k \<and> i \<noteq> my_index c then u32_bool (h_lock_request (hs i)) else sf_lm_request sf i)"
  "sf_lm_grant (publish_rows c k psm v hs sf) i =
     (if i < k \<and> i \<noteq> my_index c then h_lock_grant (hs i) else sf_lm_grant sf i)"
  "sf_sm_phase (publish_rows c k psm v hs sf) i =
     (if i < k then (if i = my_index c then sm_phase_of psm else h_sm_phase (hs i))
      else sf_sm_phase sf i)"
  "sf_weight (publish_rows c k psm v hs sf) i =
     (if i < k then (if i = my_index c then sm_commited_weight psm else h_weight (hs i))
      else sf_weight sf i)"
  "sf_time_last_SF (publish_rows c k psm v hs sf) i =
     (if i < k \<and> \<not> (\<not> hm_ison (h_current_liveset (hs i)) i \<and> hm_ison (sm_current_liveset psm) i)
      then hs_updateclock (sfv_hoststat v i) else sf_time_last_SF sf i)"
proof (induction k)
  case (Suc k)
  { case 1 show ?case using Suc(1) by (cases "i = k"; cases "k = my_index c") auto }
  { case 2 show ?case using Suc(2) by (cases "i = k"; cases "k = my_index c") auto }
  { case 3 show ?case using Suc(3) by (cases "i = k"; cases "k = my_index c") auto }
  { case 4 show ?case using Suc(4) by (cases "i = k"; cases "k = my_index c") auto }
  { case 5 show ?case using Suc(5) by (cases "i = k"; cases "k = my_index c") auto }
  { case 6 show ?case using Suc(6) by (cases "i = k"; cases "k = my_index c") auto }
qed simp_all

lemma publish_host_sets:
  assumes "i < 64" and "k < 64"
  shows "hm_ison (sf_starting (publish_host c psm v hs k sf)) i =
     (if i = k then u32_bool (h_starting (hs k)) else hm_ison (sf_starting sf) i)"
    and "hm_ison (sf_excluded (publish_host c psm v hs k sf)) i =
     (if i = k \<and> (k \<noteq> my_index c \<or> \<not> sf_mod_excluded sf) then u32_bool (h_excluded (hs k))
      else hm_ison (sf_excluded sf) i)"
  using assms by (auto simp add: hm_ison_set_boolean)

lemma publish_rows_sets:
  assumes "i < 64" and "k \<le> 64"
  shows "hm_ison (sf_starting (publish_rows c k psm v hs sf)) i =
     (if i < k then u32_bool (h_starting (hs i)) else hm_ison (sf_starting sf) i)"
    and "hm_ison (sf_excluded (publish_rows c k psm v hs sf)) i =
     (if i < k \<and> (i \<noteq> my_index c \<or> \<not> sf_mod_excluded sf) then u32_bool (h_excluded (hs i))
      else hm_ison (sf_excluded sf) i)"
proof -
  have "k \<le> 64 \<Longrightarrow>
      (hm_ison (sf_starting (publish_rows c k psm v hs sf)) i =
        (if i < k then u32_bool (h_starting (hs i)) else hm_ison (sf_starting sf) i)) \<and>
      (hm_ison (sf_excluded (publish_rows c k psm v hs sf)) i =
        (if i < k \<and> (i \<noteq> my_index c \<or> \<not> sf_mod_excluded sf) then u32_bool (h_excluded (hs i))
         else hm_ison (sf_excluded sf) i))"
  proof (induction k)
    case (Suc k)
    then have "k < 64" by simp
    have "hm_ison (sf_starting (publish_host c psm v hs k s)) i =
         (if i = k then u32_bool (h_starting (hs k)) else hm_ison (sf_starting s) i)"
      "hm_ison (sf_excluded (publish_host c psm v hs k s)) i =
         (if i = k \<and> (k \<noteq> my_index c \<or> \<not> sf_mod_excluded s) then u32_bool (h_excluded (hs k))
          else hm_ison (sf_excluded s) i)" for s
      by (rule publish_host_sets[OF assms(1) \<open>k < 64\<close>])+
    then show ?case
      using Suc by (cases "i = k") (auto simp del: publish_host_row)
  qed simp
  with assms(2) show "hm_ison (sf_starting (publish_rows c k psm v hs sf)) i =
     (if i < k then u32_bool (h_starting (hs i)) else hm_ison (sf_starting sf) i)"
    and "hm_ison (sf_excluded (publish_rows c k psm v hs sf)) i =
     (if i < k \<and> (i \<noteq> my_index c \<or> \<not> sf_mod_excluded sf) then u32_bool (h_excluded (hs i))
      else hm_ison (sf_excluded sf) i)"
    by blast+
qed

section \<open>A successful pass\<close>

text \<open>The concrete environment of the witnesses: a device whose every section is valid.\<close>

definition sf_env_of :: "device \<Rightarrow> clock \<Rightarrow> sf_env" where
  "sf_env_of dev t = \<lparr>e_dev = dev, e_clock = (\<lambda>_. t), e_global_latency = 5, e_host_latency = (\<lambda>_. 5)\<rparr>"

definition blank_buffer :: sf_buffer where
  "blank_buffer = \<lparr>sfb_global = blank_global, sfb_host = blank_host\<rparr>"

lemma publish_latency_keeps [simp]:
  "sf_raw (publish_latency v s) = sf_raw s" "sf_lm_request (publish_latency v s) = sf_lm_request s"
  "sf_lm_grant (publish_latency v s) = sf_lm_grant s" "sf_sm_phase (publish_latency v s) = sf_sm_phase s"
  "sf_weight (publish_latency v s) = sf_weight s" "sf_starting (publish_latency v s) = sf_starting s"
  "sf_excluded (publish_latency v s) = sf_excluded s"
  "sf_time_last_SF (publish_latency v s) = sf_time_last_SF s"
  "sf_mod_pool_state (publish_latency v s) = sf_mod_pool_state s"
  "sf_mod_master (publish_latency v s) = sf_mod_master s"
  "sf_mod_excluded (publish_latency v s) = sf_mod_excluded s"
  "sf_pool_state (publish_latency v s) = sf_pool_state s" "sf_master (publish_latency v s) = sf_master s"
  "sf_fencing (publish_latency v s) = sf_fencing s" "sf_corrupted (publish_latency v s) = sf_corrupted s"
  "sf_sfdomain (publish_latency v s) = sf_sfdomain s"
  by (simp_all add: publish_latency_def Let_def)

text \<open>The object after \<open>readsf_publish\<close>, field by field.\<close>

lemma readsf_publish_fields:
  assumes "readsf_publish c buf d = (st, buf', d')"
  defines "rows \<equiv> publish_rows c (num_host c) (d_sm d) (d_sfv d) (sfb_host buf) (d_sf d)"
  shows "sf_raw (d_sf d') = sf_raw rows" "sf_lm_request (d_sf d') = sf_lm_request rows"
    "sf_lm_grant (d_sf d') = sf_lm_grant rows" "sf_sm_phase (d_sf d') = sf_sm_phase rows"
    "sf_weight (d_sf d') = sf_weight rows" "sf_starting (d_sf d') = sf_starting rows"
    "sf_excluded (d_sf d') = sf_excluded rows" "sf_time_last_SF (d_sf d') = sf_time_last_SF rows"
    "sf_access (d_sf d')" "sf_corrupted (d_sf d') = sf_corrupted (d_sf d)"
    "sf_fencing (d_sf d') = sf_fencing (d_sf d)"
    "sf_pool_state (d_sf d') = (if sf_mod_pool_state (d_sf d) then sf_pool_state (d_sf d)
                               else g_pool_state (sfb_global buf))"
    "sf_master (d_sf d') = (if sf_mod_master (d_sf d) then sf_master (d_sf d)
                            else g_master (sfb_global buf))"
    "\<not> sf_mod_pool_state (d_sf d')" "\<not> sf_mod_master (d_sf d')"
    "st = (if sf_mod_pool_state (d_sf d) \<or> sf_mod_master (d_sf d)
           then MTC_ERROR_SF_PENDING_WRITE else MTC_SUCCESS)"
  using assms(1) unfolding rows_def
  by (auto simp: readsf_publish_def Let_def split: if_splits)

lemma publish_buffer:
  assumes "readsf_publish c buf d = (st, buf', d')"
  shows "g_pool_state (sfb_global buf') = sf_pool_state (d_sf d')"
    and "g_master (sfb_global buf') = sf_master (d_sf d')"
    and "sfb_host buf' = sfb_host buf"
  using assms by (auto simp: readsf_publish_def Let_def split: if_splits)

lemma copy_raw_fields [simp]:
  "raw_current_liveset (copy_raw n h r) = h_current_liveset h"
  "raw_proposed_liveset (copy_raw n h r) = h_proposed_liveset h"
  "raw_hbdomain (copy_raw n h r) = h_hbdomain h" "raw_sfdomain (copy_raw n h r) = h_sfdomain h"
  "raw_time_since_xapi_restart (copy_raw n h r) = h_since_xapi_restart h"
  "raw_time_since_last_HB_receipt (copy_raw n h r) j =
     (if j < n then h_since_last_hb_receipt h j else raw_time_since_last_HB_receipt r j)"
  "raw_time_since_last_SF_update (copy_raw n h r) j =
     (if j < n then h_since_last_sf_update h j else raw_time_since_last_SF_update r j)"
  by (simp_all add: copy_raw_def copy_times_nth)

text \<open>Row \<open>i\<close> of the State-File object after a pass whose first attempt is good.\<close>

lemma readsf_row:
  assumes quiet: "fist_quiet (d_fist d)" and cfg: "valid_config c"
    and good: "good_attempt c (env 0)" and run: "readsf c env buf d = (st, buf', d')"
    and i: "i < num_host c"
  defines "h \<equiv> dev_host (env 0) i"
  shows "sf_access (d_sf d')"
    and "sf_raw (d_sf d') i = copy_raw (num_host c) h (sf_raw (d_sf d) i)"
    and "sf_lm_request (d_sf d') i =
           (if i = my_index c then sf_lm_request (d_sf d) i else u32_bool (h_lock_request h))"
    and "sf_lm_grant (d_sf d') i =
           (if i = my_index c then sf_lm_grant (d_sf d) i else h_lock_grant h)"
    and "sf_sm_phase (d_sf d') i =
           (if i = my_index c then sm_phase_of (d_sm d) else h_sm_phase h)"
    and "sf_weight (d_sf d') i =
           (if i = my_index c then sm_commited_weight (d_sm d) else h_weight h)"
    and "hm_ison (sf_starting (d_sf d')) i = u32_bool (h_starting h)"
    and "hm_ison (sf_excluded (d_sf d')) i =
           (if i \<noteq> my_index c \<or> \<not> sf_mod_excluded (d_sf d) then u32_bool (h_excluded h)
            else hm_ison (sf_excluded (d_sf d)) i)"
    and "sf_time_last_SF (d_sf d') i =
           (if \<not> hm_ison (h_current_liveset h) i \<and> hm_ison (sm_current_liveset (d_sm d)) i
            then sf_time_last_SF (d_sf d) i
            else hs_updateclock (hs_step (e_clock (env 0) i) (h_sequence h)
                                   (sfv_hoststat (d_sfv d) i)))"
    and "st = (if sf_mod_pool_state (d_sf d) \<or> sf_mod_master (d_sf d)
               then MTC_ERROR_SF_PENDING_WRITE else MTC_SUCCESS)"
    and "sf_pool_state (d_sf d') = (if sf_mod_pool_state (d_sf d) then sf_pool_state (d_sf d)
           else g_pool_state (dev_global (env 0)))"
proof -
  obtain r :: sf_run where r: "readsf c env buf d = (case readsf_publish c (r_buf r) (r_d r) of
       (st, buf', d') \<Rightarrow> (st, buf', unlock_sf False d'))"
    and same: "same_objects d (r_d r)" and g: "sfb_global (r_buf r) = dev_global (env 0)"
    and rows: "\<And>i. i < num_host c \<Longrightarrow> sfb_host (r_buf r) i = dev_host (env 0) i"
    and stat: "\<And>i. i < num_host c \<Longrightarrow> sfv_hoststat (d_sfv (r_d r)) i =
       hs_step (e_clock (env 0) i) (h_sequence (dev_host (env 0) i)) (sfv_hoststat (d_sfv d) i)"
    using readsf_good[where c = c and env = env, OF quiet good] by metis
  obtain d1 where pub: "readsf_publish c (r_buf r) (r_d r) = (st, buf', d1)"
    and d': "d' = unlock_sf False d1"
    using run r by (auto split: prod.splits)
  have obj: "d_sf (r_d r) = d_sf d" "d_sm (r_d r) = d_sm d"
    using same by (simp_all add: same_objects_def)
  have "i < 64" "num_host c \<le> 64"
    using cfg i by (auto simp: valid_config_def MAX_HOST_NUM_def)
  note fields = readsf_publish_fields[OF pub] publish_rows_row
    publish_rows_sets[OF \<open>i < 64\<close> \<open>num_host c \<le> 64\<close>] obj rows[OF i] stat[OF i] g
  show "sf_access (d_sf d')"
    "sf_raw (d_sf d') i = copy_raw (num_host c) h (sf_raw (d_sf d) i)"
    "sf_lm_request (d_sf d') i =
       (if i = my_index c then sf_lm_request (d_sf d) i else u32_bool (h_lock_request h))"
    "sf_lm_grant (d_sf d') i =
       (if i = my_index c then sf_lm_grant (d_sf d) i else h_lock_grant h)"
    "sf_sm_phase (d_sf d') i =
       (if i = my_index c then sm_phase_of (d_sm d) else h_sm_phase h)"
    "sf_weight (d_sf d') i =
       (if i = my_index c then sm_commited_weight (d_sm d) else h_weight h)"
    "hm_ison (sf_starting (d_sf d')) i = u32_bool (h_starting h)"
    "hm_ison (sf_excluded (d_sf d')) i =
       (if i \<noteq> my_index c \<or> \<not> sf_mod_excluded (d_sf d) then u32_bool (h_excluded h)
        else hm_ison (sf_excluded (d_sf d)) i)"
    "sf_time_last_SF (d_sf d') i =
       (if \<not> hm_ison (h_current_liveset h) i \<and> hm_ison (sm_current_liveset (d_sm d)) i
        then sf_time_last_SF (d_sf d) i
        else hs_updateclock (hs_step (e_clock (env 0) i) (h_sequence h)
                               (sfv_hoststat (d_sfv d) i)))"
    "st = (if sf_mod_pool_state (d_sf d) \<or> sf_mod_master (d_sf d)
           then MTC_ERROR_SF_PENDING_WRITE else MTC_SUCCESS)"
    "sf_pool_state (d_sf d') = (if sf_mod_pool_state (d_sf d) then sf_pool_state (d_sf d)
       else g_pool_state (dev_global (env 0)))"
    using i unfolding d' h_def by (simp_all add: fields)
qed

text \<open>
  A pass of the State-File thread whose reads are all valid publishes, for every peer,
  exactly the lock request, grants, phase and weight the peer wrote, and never touches the
  local host's own lock request and grants, which only the lock manager may change.
\<close>

lemma readsf_publishes_peers:
  assumes "fist_quiet (d_fist d)" and "valid_config c" and "good_attempt c (env 0)"
    and "readsf c env buf d = (st, buf', d')" and "i < num_host c" and "i \<noteq> my_index c"
  shows "sf_access (d_sf d')
    \<and> sf_lm_request (d_sf d') i = u32_bool (h_lock_request (dev_host (env 0) i))
    \<and> sf_lm_grant (d_sf d') i = h_lock_grant (dev_host (env 0) i)
    \<and> sf_sm_phase (d_sf d') i = h_sm_phase (dev_host (env 0) i)
    \<and> sf_weight (d_sf d') i = h_weight (dev_host (env 0) i)
    \<and> hm_ison (sf_excluded (d_sf d')) i = u32_bool (h_excluded (dev_host (env 0) i))
    \<and> sf_lm_request (d_sf d') (my_index c) = sf_lm_request (d_sf d) (my_index c)
    \<and> sf_lm_grant (d_sf d') (my_index c) = sf_lm_grant (d_sf d) (my_index c)"
  using readsf_row[OF assms(1-5)] assms(6)
    readsf_row(3,4)[OF assms(1-4), of "my_index c"] assms(2)
  by (simp add: valid_config_def)

lemma blank_good: "good_attempt (default_config n me) (sf_env_of blank_device t)"
  by (simp add: good_attempt_def sf_env_of_def blank_device_def validate_stamp_host
      validate_stamp_global) (simp add: blank_global_def)

lemma init_quiet: "fist_quiet (d_fist (init_daemon c))"
  by (simp add: init_daemon_def fist_on_initial_quiet)

lemma valid_default: "me < n \<Longrightarrow> n \<le> 64 \<Longrightarrow> valid_config (default_config n me)"
  by (simp add: valid_config_def MAX_HOST_NUM_def)

lemma readsf_publishes_peers_example:
  "case readsf (default_config 3 0) (\<lambda>_. sf_env_of blank_device 10) blank_buffer
          (init_daemon (default_config 3 0)) of
     (st, buf', d') \<Rightarrow> sf_access (d_sf d') \<and> sf_lm_grant (d_sf d') 1 = h_lock_grant (blank_host 1)"
proof -
  obtain st buf' d' where run: "readsf (default_config 3 0) (\<lambda>_. sf_env_of blank_device 10)
      blank_buffer (init_daemon (default_config 3 0)) = (st, buf', d')"
    by (metis prod_cases3)
  then show ?thesis
    using readsf_publishes_peers[OF init_quiet valid_default blank_good run, of 1]
    by (simp add: dev_host_def sf_env_of_def blank_device_def stamp_host_def Let_def)
qed

section \<open>From one host to another\<close>

lemma host_fields_stamp [simp]:
  "h_current_liveset (stamp_host h) = h_current_liveset h"
  "h_proposed_liveset (stamp_host h) = h_proposed_liveset h"
  "h_hbdomain (stamp_host h) = h_hbdomain h" "h_sfdomain (stamp_host h) = h_sfdomain h"
  "h_lock_request (stamp_host h) = h_lock_request h" "h_lock_grant (stamp_host h) = h_lock_grant h"
  "h_sm_phase (stamp_host h) = h_sm_phase h" "h_weight (stamp_host h) = h_weight h"
  "h_sequence (stamp_host h) = h_sequence h" "h_excluded (stamp_host h) = h_excluded h"
  "h_starting (stamp_host h) = h_starting h"
  "h_since_xapi_restart (stamp_host h) = h_since_xapi_restart h"
  "h_since_last_hb_receipt (stamp_host h) = h_since_last_hb_receipt h"
  "h_since_last_sf_update (stamp_host h) = h_since_last_sf_update h"
  by (simp_all add: stamp_host_def Let_def)

text \<open>A complete write leaves exactly the stamped element on the device.\<close>

lemma write_hostspecific_device:
  assumes "write_hostspecific c now lat dev buf d = (st, dev', buf', d')" and "st = MTC_SUCCESS" and "dv_write_ok dev"
  shows "dv_host dev' = (dv_host dev)(my_index c :=
           Some (stamp_host (compose_element c now d (sfb_host buf (my_index c)))))"
    and "dv_global dev' = dv_global dev"
    and "sfb_host buf' (my_index c) =
           stamp_host (compose_element c now d (sfb_host buf (my_index c)))"
  using assms by (auto simp: write_hostspecific_def dv_write_okD Let_def
      split: prod.splits if_splits)

lemma write_hostspecific_fails:
  "st \<noteq> MTC_SUCCESS \<Longrightarrow> write_hostspecific c now lat dev buf d = (st, dev', buf', d') \<Longrightarrow>
     \<not> sf_access (d_sf d') \<and> sf_mod_excluded (d_sf d') = sf_mod_excluded (d_sf d)"
  by (auto simp: write_hostspecific_def sf_writehostspecific_def Let_def sf_access_lost_def
      with_sf_def same_objects_def split: prod.splits if_splits dest!: FIST_same(4))

text \<open>Whatever becomes of the write, the global section and the requests for it are left alone.\<close>

lemma write_hostspecific_keeps:
  assumes "snd (write_hostspecific c now lat dev buf d) = (dev', buf', d')" and "fist_quiet (d_fist d)"
  shows "dv_global dev' = dv_global dev" "dv_io dev' = dv_io dev" "fist_quiet (d_fist d')"
    "sf_mod_pool_state (d_sf d') = sf_mod_pool_state (d_sf d)" "sf_pool_state (d_sf d') = sf_pool_state (d_sf d)"
    "sf_enable_read (d_sf d') = sf_enable_read (d_sf d)"
  using assms by (auto simp: write_hostspecific_def sf_writehostspecific_def Let_def sf_access_lost_def with_sf_def
      sf_reportlatency_def split: prod.splits if_splits)

text \<open>
  C31. End to end: when host A writes its element and host B then makes a pass that reads the
  file A wrote, the row of A in B's State-File object holds A's live sets, domains, lock
  request, grants, phase, committed weight, exclusion and starting flags, and the elapsed
  times A measured. The write has to be complete: one that transferred fewer bytes also
  ends with success.
\<close>

theorem element_travels:
  assumes written: "write_hostspecific ca now lat dev bufa da = (MTC_SUCCESS, dev', bufa', da')"
    and whole: "dv_write_ok dev"
    and pool: "num_host ca = num_host cb" "my_index ca < num_host ca" "my_index cb \<noteq> my_index ca"
    and quiet: "fist_quiet (d_fist db)" and cfg: "valid_config cb"
    and good: "good_attempt cb (env 0)" and seen: "e_dev (env 0) = dev'"
    and got: "readsf cb env bufb db = (st, bufb', db')"
  shows "let row = sf_raw (d_sf db') (my_index ca) in
      raw_current_liveset row = sm_current_liveset (d_sm da)
    \<and> raw_proposed_liveset row = sm_proposed_liveset (d_sm da)
    \<and> raw_hbdomain row = hb_hbdomain (d_hb da) \<and> raw_sfdomain row = sf_sfdomain (d_sf da)
    \<and> (\<forall>j. j \<ge> num_host ca \<or> raw_time_since_last_HB_receipt row j
                            = elapsed now (hb_time_last_HB (d_hb da) j))
    \<and> (\<forall>j. j \<ge> num_host ca \<or> raw_time_since_last_SF_update row j
                            = elapsed now (sf_time_last_SF (d_sf da) j))
    \<and> raw_time_since_xapi_restart row = elapsed now (xm_time_Xapi_restart (d_xm da))
    \<and> sf_lm_request (d_sf db') (my_index ca) = sf_lm_request (d_sf da) (my_index ca)
    \<and> sf_lm_grant (d_sf db') (my_index ca) = sf_lm_grant (d_sf da) (my_index ca)
    \<and> sf_sm_phase (d_sf db') (my_index ca) = sm_phase_of (d_sm da)
    \<and> sf_weight (d_sf db') (my_index ca) = sm_commited_weight (d_sm da)
    \<and> hm_ison (sf_excluded (d_sf db')) (my_index ca) = hm_ison (sf_excluded (d_sf da)) (my_index ca)
    \<and> hm_ison (sf_starting (d_sf db')) (my_index ca) = sf_ctl_starting (d_sf da)"
proof -
  have h: "dev_host (env 0) (my_index ca) =
      stamp_host (compose_element ca now da (sfb_host bufa (my_index ca)))"
    using write_hostspecific_device(1)[OF written refl whole] by (simp add: dev_host_def seen)
  have i: "my_index ca < num_host cb" using pool by simp
  show ?thesis
    unfolding Let_def using pool
    by (simp add: readsf_row[OF quiet cfg good got i] h compose_element_def for_hosts_array not_le
        disj_imp)
qed

lemma write_hostspecific_ok:
  assumes "fist_quiet (d_fist d)" and "dv_write_ok dev"
  obtains dev' buf' d' where
    "write_hostspecific c now lat dev buf d = (MTC_SUCCESS, dev', buf', d')"
  using assms by (auto simp: write_hostspecific_def dv_write_okD Let_def with_sf_def)

theorem element_travels_witness:
  "case write_hostspecific (default_config 3 0) 100 5 blank_device blank_buffer
          (init_daemon (default_config 3 0)) of (st, dev', bufa', da') \<Rightarrow>
     (case readsf (default_config 3 1) (\<lambda>_. sf_env_of dev' 200) blank_buffer
             (init_daemon (default_config 3 1)) of
        (st', bufb', db') \<Rightarrow> sf_lm_grant (d_sf db') 0 = hm_init_set)"
proof -
  let ?da = "init_daemon (default_config 3 0)" and ?db = "init_daemon (default_config 3 1)"
  obtain dev' bufa' da' where w: "write_hostspecific (default_config 3 0) 100 5 blank_device
      blank_buffer ?da = (MTC_SUCCESS, dev', bufa', da')"
    using write_hostspecific_ok[OF init_quiet blank_writes] by metis
  obtain st bufb' db' where r: "readsf (default_config 3 1) (\<lambda>_. sf_env_of dev' 200) blank_buffer ?db
      = (st, bufb', db')" by (metis prod_cases3)
  have good: "good_attempt (default_config 3 1) (sf_env_of dev' 200)"
    using blank_good[of 3 1 200] write_hostspecific_device[OF w refl blank_writes]
    by (simp add: good_attempt_def sf_env_of_def validate_stamp_host)
  have "sf_lm_grant (d_sf ?da) 0 = hm_init_set"
    by (simp add: init_daemon_def init_com_sf_lm)
  then show ?thesis
    using element_travels[OF w blank_writes _ _ _ init_quiet valid_default good _ r] w r
    by (simp add: Let_def sf_env_of_def)
qed

section \<open>The liveness stamp\<close>

lemma readsf_hoststat:
  assumes "fist_quiet (d_fist d)" and "good_attempt c (env 0)"
    and "readsf c env buf d = (st, buf', d')" and "i < num_host c"
  shows "sfv_hoststat (d_sfv d') i = hs_step (e_clock (env 0) i)
     (h_sequence (dev_host (env 0) i)) (sfv_hoststat (d_sfv d) i)"
proof -
  obtain r :: sf_run where "readsf c env buf d = (case readsf_publish c (r_buf r) (r_d r) of
       (st, buf', d') \<Rightarrow> (st, buf', unlock_sf False d'))"
    and stat: "sfv_hoststat (d_sfv (r_d r)) i =
       hs_step (e_clock (env 0) i) (h_sequence (dev_host (env 0) i)) (sfv_hoststat (d_sfv d) i)"
    using readsf_good[where c = c and env = env, OF assms(1,2)] assms(4) by metis
  with assms(3) show ?thesis
    by (auto simp: readsf_publish_def reset_latency_def Let_def split: prod.splits if_splits)
qed

text \<open>
  The stamp \<open>time_last_SF\<close> a peer is timed out by moves only when the peer's sequence
  number has changed since the last good pass, and then to the time of the read; a peer
  that no longer writes keeps its old stamp, however often the file is read. A peer that
  says it is not alive while the local host still counts it alive is not stamped at all.
\<close>

lemma stamp_moves_only_on_update:
  assumes quiet: "fist_quiet (d_fist d)" and cfg: "valid_config c"
    and good: "good_attempt c (env 0)" and run: "readsf c env buf d = (st, buf', d')"
    and i: "i < num_host c" and once: "hs_readonce (sfv_hoststat (d_sfv d) i)"
    and inv: "sf_time_last_SF (d_sf d) i = hs_updateclock (sfv_hoststat (d_sfv d) i)"
  defines "h \<equiv> dev_host (env 0) i"
  defines "booting \<equiv> \<not> hm_ison (h_current_liveset h) i \<and> hm_ison (sm_current_liveset (d_sm d)) i"
  shows "sf_time_last_SF (d_sf d') i =
       (if \<not> booting \<and> h_sequence h \<noteq> hs_sequence (sfv_hoststat (d_sfv d) i)
        then e_clock (env 0) i else sf_time_last_SF (d_sf d) i)
    \<and> hs_readonce (sfv_hoststat (d_sfv d') i)
    \<and> hs_sequence (sfv_hoststat (d_sfv d') i) = h_sequence h"
proof -
  have "hs_readonce (sfv_hoststat (d_sfv d') i)
      \<and> hs_sequence (sfv_hoststat (d_sfv d') i) = h_sequence h"
    using once unfolding h_def readsf_hoststat[OF quiet good run i] by (simp add: hs_step_def)
  moreover have "sf_time_last_SF (d_sf d') i =
       (if \<not> booting \<and> h_sequence h \<noteq> hs_sequence (sfv_hoststat (d_sfv d) i)
        then e_clock (env 0) i else sf_time_last_SF (d_sf d) i)"
    using once inv unfolding readsf_row(9)[OF quiet cfg good run i] booting_def h_def
    by (simp add: hs_step_def)
  ultimately show ?thesis by blast
qed

definition seen_daemon :: daemon where
  "seen_daemon = upd_sfv (\<lambda>v. v\<lparr>sfv_hoststat := (\<lambda>_. \<lparr>hs_readonce = True, hs_sequence = 7,
     hs_readclock = 4, hs_updateclock = - 1\<rparr>)\<rparr>) (init_daemon (default_config 3 0))"

lemma stamp_moves_only_on_update_example:
  "case readsf (default_config 3 0) (\<lambda>_. sf_env_of blank_device 10) blank_buffer seen_daemon of
     (st, buf', d') \<Rightarrow> sf_time_last_SF (d_sf d') 2 = 10"
proof -
  obtain st buf' d' where run: "readsf (default_config 3 0) (\<lambda>_. sf_env_of blank_device 10)
      blank_buffer seen_daemon = (st, buf', d')"
    by (metis prod_cases3)
  have q: "fist_quiet (d_fist seen_daemon)" using init_quiet by (simp add: seen_daemon_def)
  show ?thesis
    using stamp_moves_only_on_update[OF q valid_default blank_good run, of 2] run
    by (simp add: seen_daemon_def init_daemon_def init_com_sm_def dev_host_def sf_env_of_def
        blank_device_def blank_host_def)
qed

section \<open>A failing pass\<close>

text \<open>A section that is unreadable at every attempt keeps its error through the attempts.\<close>

definition host_unreadable :: "sf_env \<Rightarrow> nat \<Rightarrow> bool" where
  "host_unreadable e j \<longleftrightarrow> (case dv_host (e_dev e) j of
      Some h \<Rightarrow> validate_host h \<noteq> MTC_SUCCESS | None \<Rightarrow> True)"

lemma readsf_host_other: "i \<noteq> j \<Longrightarrow> ios_host (readsf_host c e i r) j = ios_host r j"
  by (auto simp: readsf_host_def Let_def split: prod.splits)

lemma readsf_host_unreadable:
  "host_unreadable e j \<Longrightarrow> ios_host r j \<noteq> MTC_SUCCESS
     \<Longrightarrow> ios_host (readsf_host c e i r) j \<noteq> MTC_SUCCESS"
  by (cases "i = j")
     (auto simp: readsf_host_other readsf_host_def host_unreadable_def sf_readhostspecific_def
        Let_def split: prod.splits option.splits)

lemma readsf_global_ios_host [simp]: "ios_host (readsf_global c e r) = ios_host r"
  by (auto simp: readsf_global_def split: prod.splits)

lemma readsf_attempt_unreadable:
  assumes "host_unreadable e j" and "ios_host r j \<noteq> MTC_SUCCESS"
  shows "ios_host (readsf_attempt c e r) j \<noteq> MTC_SUCCESS"
  unfolding readsf_attempt_def
  by (rule for_hosts_inv[where I = "\<lambda>_ r. ios_host r j \<noteq> MTC_SUCCESS"])
     (simp_all add: assms readsf_host_unreadable)

lemma readsf_status_unreadable:
  "j < num_host c \<Longrightarrow> ios_host r j \<noteq> MTC_SUCCESS \<Longrightarrow> readsf_status c r \<noteq> MTC_SUCCESS"
  by (auto simp: readsf_status_def first_host_None first_host_Some split: option.splits)

lemma readsf_attempts_unreadable:
  "\<lbrakk>\<And>e. e \<in> set es \<Longrightarrow> host_unreadable e j; j < num_host c; st \<noteq> MTC_SUCCESS;
    ios_host r j \<noteq> MTC_SUCCESS; readsf_attempts c es st r = (st', r')\<rbrakk> \<Longrightarrow> st' \<noteq> MTC_SUCCESS"
proof (induction es arbitrary: st r)
  case (Cons e es)
  have bad: "ios_host (readsf_attempt c e r) j \<noteq> MTC_SUCCESS"
    using Cons.prems by (simp add: readsf_attempt_unreadable)
  then have stat: "readsf_status c (readsf_attempt c e r) \<noteq> MTC_SUCCESS"
    by (rule readsf_status_unreadable[OF Cons.prems(2)])
  then have "readsf_attempts c es (readsf_status c (readsf_attempt c e r)) (readsf_attempt c e r)
      = (st', r')"
    using Cons.prems(5) by (simp add: Let_def)
  then show ?case
    using Cons.IH[OF _ Cons.prems(2) stat bad] Cons.prems(1) by simp
qed simp

text \<open>
  C32. When the element of some host cannot be read, or fails its validation, at each of the
  three attempts, the pass is abandoned as a whole: no row of any host changes, access to
  the State-File is declared lost, any acceleration ends and the interval falls back to
  \<open>t2\<close>.
\<close>

theorem readsf_all_or_nothing:
  assumes bad: "host_unreadable (env 0) j" "host_unreadable (env 1) j" "host_unreadable (env 2) j"
    and j: "j < num_host c" and run: "readsf c env buf d = (st, buf', d')"
  shows "\<not> sf_access (d_sf d') \<and> \<not> sfv_SF_access (d_sfv d')
    \<and> sfv_accelerate_count (d_sfv d') = 0 \<and> sfv_interval_ms (d_sfv d') = uint (cfg_t2 c * 1000)
    \<and> sf_raw (d_sf d') = sf_raw (d_sf d) \<and> sf_lm_request (d_sf d') = sf_lm_request (d_sf d)
    \<and> sf_lm_grant (d_sf d') = sf_lm_grant (d_sf d) \<and> sf_weight (d_sf d') = sf_weight (d_sf d)
    \<and> sf_time_last_SF (d_sf d') = sf_time_last_SF (d_sf d)
    \<and> sf_pool_state (d_sf d') = sf_pool_state (d_sf d)"
proof -
  let ?init = "\<lparr>r_d = d, r_buf = buf, ios_global = MTC_ERROR_UNDEFINED,
               ios_host = (\<lambda>_. MTC_ERROR_UNDEFINED)\<rparr>"
  obtain st1 r where att: "readsf_attempts c (map env [0..<SF_IOATTEMPTS]) MTC_ERROR_UNDEFINED ?init
      = (st1, r)" by fastforce
  have "st1 \<noteq> MTC_SUCCESS"
    using readsf_attempts_unreadable[OF _ j _ _ att] bad by (auto simp: map_env_attempts)
  moreover have "d_sf (r_d r) = d_sf d"
    using readsf_attempts_same[OF att] by (simp add: same_objects_def)
  ultimately show ?thesis
    using run att by (auto simp: readsf_def Let_def readsf_failed_def sf_access_lost_def split: if_splits)
qed

theorem readsf_all_or_nothing_witness:
  "case readsf (default_config 2 0) (\<lambda>_. sf_env_of (blank_device\<lparr>dv_host := (\<lambda>i. None)\<rparr>) 10)
          blank_buffer (init_daemon (default_config 2 0)) of
     (st, buf', d') \<Rightarrow> \<not> sf_access (d_sf d')"
proof -
  obtain st buf' d' where run: "readsf (default_config 2 0)
      (\<lambda>_. sf_env_of (blank_device\<lparr>dv_host := (\<lambda>i. None)\<rparr>) 10)
      blank_buffer (init_daemon (default_config 2 0)) = (st, buf', d')"
    by (metis prod_cases3)
  then show ?thesis
    using readsf_all_or_nothing[OF _ _ _ _ run, of 0]
    by (simp add: host_unreadable_def sf_env_of_def)
qed

section \<open>Requested changes of the global section\<close>

lemma sf_watchdog_set_keeps [simp]:
  "d_sf (sf_watchdog_set c d) = d_sf d" "d_sfv (sf_watchdog_set c d) = d_sfv d"
  "d_fist (sf_watchdog_set c d) = d_fist d" "d_sm (sf_watchdog_set c d) = d_sm d"
  by (simp_all add: sf_watchdog_set_def split: option.splits)

lemma stamp_global_keeps [simp]:
  "g_pool_state (stamp_global g) = g_pool_state g" "g_master (stamp_global g) = g_master g"
  by (simp_all add: stamp_global_def Let_def)

lemma readsf_publish_fist: "readsf_publish c buf d = (st, buf', d') \<Longrightarrow> d_fist d' = d_fist d"
  by (auto simp: readsf_publish_def Let_def split: if_splits)

lemma readsf_flags:
  assumes "fist_quiet (d_fist d)" and "good_attempt c (env 0)"
    and "readsf c env buf d = (st, buf', d')"
  shows "\<not> sf_mod_pool_state (d_sf d')"
    and "sf_mod_pool_state (d_sf d) \<Longrightarrow> g_pool_state (sfb_global buf') = sf_pool_state (d_sf d)"
    and "sf_mod_pool_state (d_sf d) \<Longrightarrow> st = MTC_ERROR_SF_PENDING_WRITE"
    and "\<not> sf_mod_pool_state (d_sf d) \<Longrightarrow>
           sf_pool_state (d_sf d') = g_pool_state (dev_global (env 0))"
    and "fist_quiet (d_fist d')"
proof -
  obtain r :: sf_run where r: "readsf c env buf d = (case readsf_publish c (r_buf r) (r_d r) of
       (st, buf', d') \<Rightarrow> (st, buf', unlock_sf False d'))" and "same_objects d (r_d r)"
      and "d_fist (r_d r) = d_fist d" "sfb_global (r_buf r) = dev_global (env 0)"
    using readsf_good[where c = c and env = env, OF assms(1,2)] by metis
  moreover obtain d1 where pub: "readsf_publish c (r_buf r) (r_d r) = (st, buf', d1)"
      "d' = unlock_sf False d1"
    using assms(3) r by (auto split: prod.splits)
  ultimately show "\<not> sf_mod_pool_state (d_sf d')"
    and "sf_mod_pool_state (d_sf d) \<Longrightarrow> g_pool_state (sfb_global buf') = sf_pool_state (d_sf d)"
    and "sf_mod_pool_state (d_sf d) \<Longrightarrow> st = MTC_ERROR_SF_PENDING_WRITE"
    and "\<not> sf_mod_pool_state (d_sf d) \<Longrightarrow>
           sf_pool_state (d_sf d') = g_pool_state (dev_global (env 0))"
    and "fist_quiet (d_fist d')"
    using readsf_publish_fields[OF pub(1)] publish_buffer[OF pub(1)] assms(1)
      readsf_publish_fist[OF pub(1)]
    by (auto simp: same_objects_def)
qed

lemma FIST_global_write_dev:
  "FIST_global_write d = (st, d') \<Longrightarrow> d_sf d' = d_sf d"
  using FIST_same(2) by (auto simp: same_objects_def)

text \<open>
  C37. A requested pool state is written by the next pass of the thread that reads the file; before
  it, the same pass writes the element of the host. When the write of the global section is complete, the next
  good pass finds the requested state in the file. When it is not, whether \<open>write\<close> failed or
  transferred fewer bytes, the request is dropped and not retried: its flag is
  already cleared, and the next good pass takes over the state that the write left in the file.
\<close>

theorem pool_state_request:
  assumes alive: "l_alive l" "sfthread_due rnd now l (d_sfv d)"
    and io: "sf_enable_read (d_sf d)"
    and good: "good_attempt c (env 0)"
    and quiet: "fist_quiet (d_fist d)" and req: "sf_mod_pool_state (d_sf d)"
    and pass: "sfthread_pass c rnd now env lat dev buf d l = (dev', buf', d', l')"
    and next_good: "good_attempt c (env2 0)" "e_dev (env2 0) = dev'"
    and next_pass: "readsf c env2 buf' d' = (st2, buf2, d2)"
  shows "\<not> sf_mod_pool_state (d_sf d')
    \<and> sf_pool_state (d_sf d2) =
        (if write_complete (dv_io dev) sizeof_sf_global then sf_pool_state (d_sf d)
         else if io_seek (dv_io dev) then g_pool_state (the (io_torn_global (dv_io dev)))
         else g_pool_state (the (dv_global dev)))"
proof -
  let ?d1 = "unlock_sf False (sf_watchdog_set c d)"
  define w where "w = (if sf_enable_write (d_sf d) \<and> l_read_once l
      then snd (write_hostspecific c now lat dev buf ?d1) else (dev, buf, ?d1))"
  obtain dev2 buf1 d2' where w: "w = (dev2, buf1, d2')" by (metis prod_cases3)
  have kept: "dv_global dev2 = dv_global dev" "dv_io dev2 = dv_io dev" "fist_quiet (d_fist d2')"
    "sf_mod_pool_state (d_sf d2')" "sf_pool_state (d_sf d2') = sf_pool_state (d_sf d)"
    using w quiet req write_hostspecific_keeps[of c now lat dev buf ?d1 dev2 buf1 d2']
    by (auto simp: w_def split: if_splits)
  obtain st buf3 d3 where first: "readsf c env buf1 d2' = (st, buf3, d3)"
    by (metis prod_cases3)
  note got = readsf_flags(1,5)[OF kept(3) good first] readsf_flags(2,3)[OF kept(3) good first kept(4)]
  have seen: "(dev', d') = (case sf_writeglobal dev2 (sfb_global buf3) of (st5, g5, dev5) \<Rightarrow>
        (dev5, if st5 = MTC_SUCCESS then sf_reportlatency lat True d3 else d3))"
    using pass alive io got first kept w[unfolded w_def]
    by (auto simp: sfthread_pass_def Let_def split: prod.splits if_splits)
  then have res: "fist_quiet (d_fist d') \<and> \<not> sf_mod_pool_state (d_sf d')
      \<and> dv_global dev' = after_write (dv_io dev) sizeof_sf_global (dv_global dev) (stamp_global (sfb_global buf3))
          (io_torn_global (dv_io dev))"
    using got kept by (auto simp: sf_writeglobal_def sf_reportlatency_def Let_def split: if_splits)
  then show ?thesis
    using readsf_flags(4)[OF _ next_good(1) next_pass] next_good(2) got(3) kept(5)
    by (auto simp: dev_global_def after_write_def write_complete_def split: if_splits)
qed

text \<open>A device that refuses writes: the request to go \<open>active\<close> is lost.\<close>

definition readonly_device :: device where
  "readonly_device = blank_device\<lparr>dv_io := \<lparr>io_seek = True, io_ret = (\<lambda>n. - 1),
     io_torn_global = dv_global blank_device, io_torn_host = dv_host blank_device\<rparr>\<rparr>"

definition asking_daemon :: daemon where
  "asking_daemon = upd_sf (\<lambda>s. s\<lparr>sf_enable_read := True, sf_enable_write := True,
     sf_mod_pool_state := True, sf_pool_state := SF_STATE_ACTIVE\<rparr>)
     (init_daemon (default_config 2 0))"

lemma readonly_good: "good_attempt (default_config n me) (sf_env_of readonly_device t)"
  using blank_good[of n me t] by (simp add: good_attempt_def sf_env_of_def readonly_device_def)

lemma readonly_write:
  "sf_writeglobal readonly_device g = (MTC_ERROR_SF_IO_ERROR, stamp_global g, readonly_device)"
  "sf_writehostspecific readonly_device i h = (MTC_ERROR_SF_IO_ERROR, stamp_host h, readonly_device)"
  by (simp_all add: sf_writeglobal_def sf_writehostspecific_def readonly_device_def blank_device_def after_write_def
      write_complete_def sf_write_def Let_def fun_eq_iff)

theorem pool_state_request_witness:
  "case sfthread_pass (default_config 2 0) 0 100000 (\<lambda>_. sf_env_of readonly_device 10) 5
          readonly_device blank_buffer asking_daemon
          \<lparr>l_last = 0, l_read_once = True, l_alive = True\<rparr> of
     (dev', buf', d', l') \<Rightarrow>
       (case readsf (default_config 2 0) (\<lambda>_. sf_env_of readonly_device 20) buf' d' of
          (st2, buf2, d2) \<Rightarrow> sf_pool_state (d_sf d2) = SF_STATE_INIT)"
proof -
  let ?l = "\<lparr>l_last = 0, l_read_once = True, l_alive = True\<rparr>"
  obtain dev' buf' d' l' where run: "sfthread_pass (default_config 2 0) 0 100000
      (\<lambda>_. sf_env_of readonly_device 10) 5 readonly_device blank_buffer asking_daemon ?l
      = (dev', buf', d', l')" by (metis prod_cases4)
  obtain st2 buf2 d2 where again: "readsf (default_config 2 0) (\<lambda>_. sf_env_of readonly_device 20)
      buf' d' = (st2, buf2, d2)" by (metis prod_cases3)
  have due: "sfthread_due 0 100000 ?l (d_sfv asking_daemon)"
    by (simp add: sfthread_due_def asking_daemon_def init_daemon_def init_sfv_def)
  have dev: "dev' = readonly_device"
    using run by (auto simp: sfthread_pass_def due Let_def asking_daemon_def readonly_write write_hostspecific_def
        split: prod.splits if_splits)
  have "\<not> write_complete (dv_io readonly_device) sizeof_sf_global" "io_seek (dv_io readonly_device)"
    "io_torn_global (dv_io readonly_device) = Some (stamp_global blank_global)"
    by (simp_all add: readonly_device_def blank_device_def write_complete_def)
  then show ?thesis
    using pool_state_request[OF _ due _ readonly_good _ _ run readonly_good _ again] run again dev
      init_quiet
    by (auto simp: asking_daemon_def sf_env_of_def blank_global_def)
qed

end
