(* ===== verification/SmBase.thy ===== *)
theory SmBase
  imports InitObjects
begin

text \<open>
  The helpers of \<^verbatim>\<open>daemon/sm.c\<close> the other modules and the two threads of the state
  manager share: self-fencing, aborting, phases, the switches of the other objects, the
  signals, and \<open>start_fh\<close>, which decides whether the fault handler has to run.
\<close>

section \<open>Self-fence and abort\<close>

text \<open>
  An armed self-fence resets the host: \<open>d_fenced\<close> is set and the caller's code after the
  call does not run. When fencing is not armed the call returns.
\<close>

definition self_fence :: "mtc_status \<Rightarrow> daemon \<Rightarrow> daemon" where
  "self_fence code d =
     (if smv_fencing (d_smv d) = FENCING_ARMED then d\<lparr>d_fenced := Some code\<rparr> else d)"

definition sm_abort :: "bool \<Rightarrow> mtc_status \<Rightarrow> daemon \<Rightarrow> daemon" where
  "sm_abort by_sm code d =
     (let d1 = unlock_sm by_sm
                 (upd_smv (\<lambda>v. v\<lparr>smv_phase := SM_PHASE_ABORTED\<rparr>)
                 (upd_sm (\<lambda>s. s\<lparr>sm_status := code, sm_phase_of := SM_PHASE_ABORTED\<rparr>) d));
          d2 = with_hb by_sm (\<lambda>h. h\<lparr>hb_enable_send := False, hb_enable_receive := False\<rparr>) d1;
          d3 = with_sf by_sm (\<lambda>s. s\<lparr>sf_enable_read := False, sf_enable_write := False\<rparr>) d2;
          d4 = upd_xm (\<lambda>x. x\<lparr>xm_enable_monitor := False\<rparr>) d3
      in main_terminate code d4)"

definition set_sm_phase :: "sm_phase \<Rightarrow> daemon \<Rightarrow> daemon" where
  "set_sm_phase p d = unlock_sm True
     (upd_smv (\<lambda>v. v\<lparr>smv_phase := p\<rparr>) (upd_sm (\<lambda>s. s\<lparr>sm_phase_of := p\<rparr>) d))"

definition commit_weight :: "daemon \<Rightarrow> u32 \<times> daemon" where
  "commit_weight d = (sm_weight (d_sm d),
     with_sm True (\<lambda>s. s\<lparr>sm_commited_weight := sm_weight s\<rparr>) d)"

section \<open>Switches of the other objects\<close>

definition start_statefile :: "daemon \<Rightarrow> daemon" where
  "start_statefile = with_sf True (\<lambda>s. s\<lparr>sf_ctl_starting := True, sf_enable_read := True,
     sf_enable_write := True\<rparr>)"

definition clear_statefile_starting :: "daemon \<Rightarrow> daemon" where
  "clear_statefile_starting = with_sf True (\<lambda>s. s\<lparr>sf_ctl_starting := False\<rparr>)"

definition start_heartbeat :: "daemon \<Rightarrow> daemon" where
  "start_heartbeat = with_hb True (\<lambda>h. h\<lparr>hb_join := False, hb_enable_receive := True,
     hb_enable_send := True\<rparr>)"

definition set_heartbeat_join :: "daemon \<Rightarrow> daemon" where
  "set_heartbeat_join = with_hb True (\<lambda>h. h\<lparr>hb_join := True\<rparr>)"

definition fence_request :: "daemon \<Rightarrow> daemon" where
  "fence_request = with_hb True (\<lambda>h. h\<lparr>hb_fence_request := True\<rparr>)"

definition cancel_fence_request :: "daemon \<Rightarrow> daemon" where
  "cancel_fence_request = with_hb True (\<lambda>h. h\<lparr>hb_fence_request := False\<rparr>)"

definition start_xapi_monitor :: "daemon \<Rightarrow> daemon" where
  "start_xapi_monitor = upd_xm (\<lambda>x. x\<lparr>xm_enable_monitor := True\<rparr>)"

definition arm_fencing :: "daemon \<Rightarrow> daemon" where
  "arm_fencing d = unlock_sm True
     (upd_smv (\<lambda>v. v\<lparr>smv_fencing := FENCING_ARMED\<rparr>)
       (upd_sm (\<lambda>s. s\<lparr>sm_fencing := FENCING_ARMED\<rparr>) d))"

definition get_excluded_flag :: "nat \<Rightarrow> daemon \<Rightarrow> bool" where
  "get_excluded_flag i d = hm_ison (sf_excluded (d_sf d)) i"

definition get_pool_state :: "daemon \<Rightarrow> u32" where
  "get_pool_state d = sf_pool_state (d_sf d)"

text \<open>The result says whether the call returned.\<close>

definition check_pool_state :: "daemon \<Rightarrow> bool \<times> daemon" where
  "check_pool_state d =
     (if get_pool_state d = SF_STATE_INVALID
      then (False, sm_abort False MTC_ERROR_SM_INVALID_POOL_STATE d)
      else if get_pool_state d = SF_STATE_INIT
              \<and> smv_phase (d_smv d) \<noteq> SM_PHASE_STARTING
              \<and> smv_phase (d_smv d) \<noteq> SM_PHASE_ABORTED
      then (False, sm_abort False MTC_ERROR_SM_INVALID_INIT_POOL_STATE d)
      else (True, d))"

section \<open>Signals\<close>

definition check_sigs :: "bool \<Rightarrow> bool \<Rightarrow> bool \<Rightarrow> daemon \<Rightarrow> bool \<times> daemon" where
  "check_sigs s h f d =
     (let v = d_smv d in
      ((s \<and> smv_sm_sig v) \<or> (h \<and> smv_hb_sig v) \<or> (f \<and> smv_sf_sig v),
       d\<lparr>d_smv := v\<lparr>smv_sm_sig := smv_sm_sig v \<and> \<not> s,
                   smv_hb_sig := smv_hb_sig v \<and> \<not> h,
                   smv_sf_sig := smv_sf_sig v \<and> \<not> f\<rparr>\<rparr>))"

text \<open>
  While the state-manager thread waits or sleeps the other threads run. They are a list of
  events, each with the time at which the thread looks again; a computation of the thread
  takes the events that are left, the clock and the daemon, and returns them, or \<open>None\<close>
  when it is still waiting at the end of the list.
\<close>

type_synonym sm_env = "(clock \<times> (daemon \<Rightarrow> daemon)) list"
type_synonym sm_st = "sm_env \<times> clock \<times> daemon"

definition st_env :: "sm_st \<Rightarrow> sm_env" where "st_env s = fst s"
definition st_now :: "sm_st \<Rightarrow> clock" where "st_now s = fst (snd s)"
definition st_d :: "sm_st \<Rightarrow> daemon" where "st_d s = snd (snd s)"
definition st_upd :: "(daemon \<Rightarrow> daemon) \<Rightarrow> sm_st \<Rightarrow> sm_st" where
  "st_upd f s = (case s of (es, now, d) \<Rightarrow> (es, now, f d))"

lemma st_simps [simp]:
  "st_env (es, now, d) = es" "st_now (es, now, d) = now" "st_d (es, now, d) = d"
  "st_upd f (es, now, d) = (es, now, f d)" "st_env (st_upd f s) = st_env s"
  "st_now (st_upd f s) = st_now s" "st_d (st_upd f s) = f (st_d s)"
  by (simp_all add: st_env_def st_now_def st_d_def st_upd_def split: prod.split)

text \<open>A negative timeout waits for a signal without limit, as in the code.\<close>

fun sm_wait_loop :: "bool \<Rightarrow> bool \<Rightarrow> bool \<Rightarrow> int \<Rightarrow> clock \<Rightarrow> sm_env \<Rightarrow> clock \<Rightarrow> daemon
  \<Rightarrow> (bool \<times> sm_st) option" where
  "sm_wait_loop s h f timeout start [] now d =
     (case check_sigs s h f d of
        (True, d1) \<Rightarrow> Some (True, [], now, d1)
      | (False, d1) \<Rightarrow> if timeout < 0 \<or> now - start < timeout then None
                      else Some (False, [], now, d1))"
| "sm_wait_loop s h f timeout start ((t, e) # es) now d =
     (case check_sigs s h f d of
        (True, d1) \<Rightarrow> Some (True, (t, e) # es, now, d1)
      | (False, d1) \<Rightarrow> if timeout < 0 \<or> now - start < timeout
                      then sm_wait_loop s h f timeout start es t (e d1)
                      else Some (False, (t, e) # es, now, d1))"

definition sm_wait_signals_sm_hb_sf :: "bool \<Rightarrow> bool \<Rightarrow> bool \<Rightarrow> int \<Rightarrow> sm_st \<Rightarrow> (bool \<times> sm_st) option" where
  "sm_wait_signals_sm_hb_sf s h f timeout st =
     (case st of (es, now, d) \<Rightarrow>
        if timeout = 0 then Some (False, st) else sm_wait_loop s h f timeout now es now d)"

text \<open>\<open>mssleep\<close>: the events up to the given time happen.\<close>

fun sm_sleep_until :: "clock \<Rightarrow> sm_env \<Rightarrow> clock \<Rightarrow> daemon \<Rightarrow> sm_st option" where
  "sm_sleep_until wake [] now d = (if now < wake then None else Some ([], now, d))"
| "sm_sleep_until wake ((t, e) # es) now d =
     (if now < wake then sm_sleep_until wake es t (e d) else Some ((t, e) # es, now, d))"

definition mssleep :: "int \<Rightarrow> sm_st \<Rightarrow> sm_st option" where
  "mssleep ms st = (case st of (es, now, d) \<Rightarrow> sm_sleep_until (now + ms) es now d)"

lemma sm_wait_loop_consumes:
  "sm_wait_loop s h f timeout start es now d = Some (r, es', now', d') \<Longrightarrow> length es' \<le> length es"
  by (induction s h f timeout start es now d rule: sm_wait_loop.induct)
     (force split: prod.splits bool.splits if_splits intro: le_SucI)+

section \<open>Starting the fault handler\<close>

text \<open>The loop state: degradation flags and the two remembered domains.\<close>

definition start_fh_host :: "com_data_sm \<Rightarrow> com_data_hb \<Rightarrow> com_data_sf \<Rightarrow> nat
  \<Rightarrow> bool \<times> bool \<times> hostmap \<times> hostmap \<Rightarrow> bool \<times> bool \<times> hostmap \<times> hostmap" where
  "start_fh_host psm phb psf i = (\<lambda>(hb_degraded, sf_degraded, lh, ls).
     let lh1 = (if hm_ison (hb_hbdomain phb) i \<and> \<not> hm_ison lh i then hm_set lh i else lh);
         ls1 = (if hm_ison (sf_sfdomain psf) i \<and> \<not> hm_ison ls i then hm_set ls i else ls);
         (hd1, lh2) = (if hm_ison lh1 i \<and> \<not> hm_ison (hb_hbdomain phb) i
                       then (hm_ison (sm_current_liveset psm) i, hm_reset lh1 i)
                       else (hb_degraded, lh1));
         (sd1, ls2) = (if hm_ison ls1 i \<and> \<not> hm_ison (sf_sfdomain psf) i
                       then (hm_ison (sm_current_liveset psm) i, hm_reset ls1 i)
                       else (sf_degraded, ls1))
     in (hd1, sd1, lh2, ls2))"

definition start_fh :: "ha_config \<Rightarrow> bool \<Rightarrow> daemon \<Rightarrow> daemon" where
  "start_fh c force d =
     (case for_hosts (num_host c) (start_fh_host (d_sm d) (d_hb d) (d_sf d))
             (False, False, smv_last_hbdomain (d_smv d), smv_last_sfdomain (d_smv d)) of
        (hb_degraded, sf_degraded, lh, ls) \<Rightarrow>
          let d1 = upd_smv (\<lambda>v. v\<lparr>smv_last_hbdomain := lh, smv_last_sfdomain := ls\<rparr>) d;
              force_requested = (force \<and> smv_phase (d_smv d1) = SM_PHASE_STARTED);
              d2 = unlock_hb False (unlock_sf False d1);
              sf_degraded1 = (sf_degraded \<and> \<not> smv_SR2 (d_smv d2))
          in if hb_degraded \<or> sf_degraded1 \<or> force_requested then
               (if smv_phase (d_smv d2) \<in> {SM_PHASE_FHREADY, SM_PHASE_FH1, SM_PHASE_FH1DONE,
                     SM_PHASE_FH2, SM_PHASE_FH2DONE}
                then d2 else upd_smv (\<lambda>v. v\<lparr>smv_need_fh := True\<rparr>) d2)
             else d2)"

text \<open>\<open>wait_fh_event\<close> once \<open>need_fh\<close> is seen (\<open>None\<close> while it is not).\<close>

definition wait_fh_event :: "daemon \<Rightarrow> (bool \<times> daemon) option" where
  "wait_fh_event d =
     (if smv_need_fh (d_smv d)
      then (let d1 = upd_smv (\<lambda>v. v\<lparr>smv_need_fh := False, smv_phase := SM_PHASE_FHREADY\<rparr>) d;
                d2 = set_sm_phase (smv_phase (d_smv d1)) d1
            in Some (\<not> smv_terminate (d_smv d2), d2))
      else None)"

section \<open>What \<open>start_fh\<close> notices\<close>

fun last_host :: "nat \<Rightarrow> (nat \<Rightarrow> bool) \<Rightarrow> nat option" where
  "last_host 0 P = None"
| "last_host (Suc n) P = (if P n then Some n else last_host n P)"

lemma last_host_None: "last_host n P = None \<longleftrightarrow> (\<forall>i<n. \<not> P i)"
  by (induction n) (auto simp: less_Suc_eq)

lemma last_host_Some:
  "last_host n P = Some j \<longleftrightarrow> j < n \<and> P j \<and> (\<forall>i<n. j < i \<longrightarrow> \<not> P i)"
  by (induction n) (auto simp: less_Suc_eq dest: order.asym)

definition down_on :: "hostmap \<Rightarrow> hostmap \<Rightarrow> nat \<Rightarrow> bool" where
  "down_on before now i \<longleftrightarrow> hm_ison before i \<and> \<not> hm_ison now i"

definition degraded :: "nat \<Rightarrow> hostmap \<Rightarrow> hostmap \<Rightarrow> hostmap \<Rightarrow> bool" where
  "degraded n live before now =
     (case last_host n (down_on before now) of Some j \<Rightarrow> hm_ison live j | None \<Rightarrow> False)"

text \<open>
  The remembered domains catch up with the current ones, and each degradation flag is that
  of the last host found down.
\<close>

definition start_fh_inv :: "com_data_sm \<Rightarrow> com_data_hb \<Rightarrow> com_data_sf \<Rightarrow> hostmap \<Rightarrow> hostmap \<Rightarrow> nat
  \<Rightarrow> bool \<times> bool \<times> hostmap \<times> hostmap \<Rightarrow> bool" where
  "start_fh_inv psm phb psf lh0 ls0 k = (\<lambda>(hd, sd, lh, ls).
     (\<forall>i<64. hm_ison lh i = (if i < k then hm_ison (hb_hbdomain phb) i else hm_ison lh0 i)) \<and>
     (\<forall>i<64. hm_ison ls i = (if i < k then hm_ison (sf_sfdomain psf) i else hm_ison ls0 i)) \<and>
     hd = degraded k (sm_current_liveset psm) lh0 (hb_hbdomain phb) \<and>
     sd = degraded k (sm_current_liveset psm) ls0 (sf_sfdomain psf))"

lemma degraded_Suc:
  "degraded (Suc k) live before now =
     (if down_on before now k then hm_ison live k else degraded k live before now)"
  by (simp add: degraded_def)

lemma start_fh_step_half:
  assumes k: "k < 64" and L: "\<And>i. i < 64 \<Longrightarrow> hm_ison l i = (if i < k then hm_ison domn i else hm_ison l0 i)"
  defines "l1 \<equiv> (if hm_ison domn k \<and> \<not> hm_ison l k then hm_set l k else l)"
  defines "l2 \<equiv> (if hm_ison l1 k \<and> \<not> hm_ison domn k then hm_reset l1 k else l1)"
  shows "\<And>i. i < 64 \<Longrightarrow> hm_ison l2 i = (if i < Suc k then hm_ison domn i else hm_ison l0 i)"
    and "(hm_ison l1 k \<and> \<not> hm_ison domn k) = down_on l0 domn k"
proof -
  have kk: "hm_ison l k = hm_ison l0 k"
    using L[OF k] by simp
  have l1: "hm_ison l1 i = (if i = k then hm_ison domn k \<or> hm_ison l0 k else hm_ison l i)" if "i < 64" for i
    using that k kk unfolding l1_def by (auto simp: hm_ison_set)
  show "(hm_ison l1 k \<and> \<not> hm_ison domn k) = down_on l0 domn k"
    using l1[OF k] by (auto simp: down_on_def)
  show "hm_ison l2 i = (if i < Suc k then hm_ison domn i else hm_ison l0 i)" if i: "i < 64" for i
    using l1[OF i] l1[OF k] L[OF i] i k unfolding l2_def
    by (cases "i = k") (auto simp: hm_ison_reset less_Suc_eq)
qed

lemma start_fh_loop:
  assumes "n \<le> 64"
  shows "start_fh_inv psm phb psf lh0 ls0 n
    (for_hosts n (start_fh_host psm phb psf) (False, False, lh0, ls0))"
proof (rule for_hosts_inv[where I = "start_fh_inv psm phb psf lh0 ls0"])
  show "start_fh_inv psm phb psf lh0 ls0 0 (False, False, lh0, ls0)"
    by (simp add: start_fh_inv_def degraded_def)
next
  fix k s
  assume "k < n" and inv: "start_fh_inv psm phb psf lh0 ls0 k s"
  then have k: "k < 64" using assms by simp
  obtain hd sd lh ls where s: "s = (hd, sd, lh, ls)" by (metis prod_cases4)
  have H: "hm_ison lh i = (if i < k then hm_ison (hb_hbdomain phb) i else hm_ison lh0 i)" if "i < 64" for i
    using inv s that by (simp add: start_fh_inv_def)
  have S: "hm_ison ls i = (if i < k then hm_ison (sf_sfdomain psf) i else hm_ison ls0 i)" if "i < 64" for i
    using inv s that by (simp add: start_fh_inv_def)
  have flags: "hd = degraded k (sm_current_liveset psm) lh0 (hb_hbdomain phb)"
      "sd = degraded k (sm_current_liveset psm) ls0 (sf_sfdomain psf)"
    using inv s by (simp_all add: start_fh_inv_def)
  note hh = start_fh_step_half[where l = lh and domn = "hb_hbdomain phb" and ?l0.0 = lh0, OF k H]
  note ss = start_fh_step_half[where l = ls and domn = "sf_sfdomain psf" and ?l0.0 = ls0, OF k S]
  show "start_fh_inv psm phb psf lh0 ls0 (Suc k) (start_fh_host psm phb psf k s)"
    using hh ss unfolding s start_fh_inv_def start_fh_host_def
    by (simp only: prod.case Let_def degraded_Suc flags split: if_split) auto
qed

definition fh_running :: "sm_phase \<Rightarrow> bool" where
  "fh_running p \<longleftrightarrow> p \<in> {SM_PHASE_FHREADY, SM_PHASE_FH1, SM_PHASE_FH1DONE, SM_PHASE_FH2, SM_PHASE_FH2DONE}"

lemma start_fh_result:
  assumes "num_host c \<le> 64"
  shows "smv_need_fh (d_smv (start_fh c force d)) \<longleftrightarrow>
      smv_need_fh (d_smv d) \<or> (\<not> fh_running (smv_phase (d_smv d)) \<and>
        (degraded (num_host c) (sm_current_liveset (d_sm d)) (smv_last_hbdomain (d_smv d)) (hb_hbdomain (d_hb d))
         \<or> (degraded (num_host c) (sm_current_liveset (d_sm d)) (smv_last_sfdomain (d_smv d)) (sf_sfdomain (d_sf d))
             \<and> \<not> smv_SR2 (d_smv d))
         \<or> (force \<and> smv_phase (d_smv d) = SM_PHASE_STARTED)))"
    and "i < num_host c \<Longrightarrow> hm_ison (smv_last_hbdomain (d_smv (start_fh c force d))) i
           = hm_ison (hb_hbdomain (d_hb d)) i"
    and "i < num_host c \<Longrightarrow> hm_ison (smv_last_sfdomain (d_smv (start_fh c force d))) i
           = hm_ison (sf_sfdomain (d_sf d)) i"
proof -
  obtain hd sd lh ls where loop: "for_hosts (num_host c) (start_fh_host (d_sm d) (d_hb d) (d_sf d))
      (False, False, smv_last_hbdomain (d_smv d), smv_last_sfdomain (d_smv d)) = (hd, sd, lh, ls)"
    by (metis prod_cases4)
  note inv = start_fh_loop[OF assms, of "d_sm d" "d_hb d" "d_sf d" "smv_last_hbdomain (d_smv d)"
      "smv_last_sfdomain (d_smv d)", unfolded loop start_fh_inv_def prod.case]
  show "smv_need_fh (d_smv (start_fh c force d)) \<longleftrightarrow>
      smv_need_fh (d_smv d) \<or> (\<not> fh_running (smv_phase (d_smv d)) \<and>
        (degraded (num_host c) (sm_current_liveset (d_sm d)) (smv_last_hbdomain (d_smv d)) (hb_hbdomain (d_hb d))
         \<or> (degraded (num_host c) (sm_current_liveset (d_sm d)) (smv_last_sfdomain (d_smv d)) (sf_sfdomain (d_sf d))
             \<and> \<not> smv_SR2 (d_smv d))
         \<or> (force \<and> smv_phase (d_smv d) = SM_PHASE_STARTED)))"
    using inv by (auto simp: start_fh_def loop Let_def fh_running_def)
  show "i < num_host c \<Longrightarrow> hm_ison (smv_last_hbdomain (d_smv (start_fh c force d))) i
           = hm_ison (hb_hbdomain (d_hb d)) i"
    and "i < num_host c \<Longrightarrow> hm_ison (smv_last_sfdomain (d_smv (start_fh c force d))) i
           = hm_ison (sf_sfdomain (d_sf d)) i"
    using inv assms by (auto simp: start_fh_def loop Let_def)
qed

text \<open>
  A loss on the heartbeat that concerns live hosts only is always noticed: when some
  host disappears from the heartbeat domain and every host that disappears belongs to the
  live set, the fault handler is requested, unless it already runs in a phase that will
  look again.
\<close>

lemma start_fh_notices_live_loss:
  assumes n: "num_host c \<le> 64" and i: "i < num_host c"
    and down: "down_on (smv_last_hbdomain (d_smv d)) (hb_hbdomain (d_hb d)) i"
    and live: "\<And>j. j < num_host c \<Longrightarrow> down_on (smv_last_hbdomain (d_smv d)) (hb_hbdomain (d_hb d)) j
                 \<Longrightarrow> hm_ison (sm_current_liveset (d_sm d)) j"
    and phase: "\<not> fh_running (smv_phase (d_smv d))"
  shows "smv_need_fh (d_smv (start_fh c force d))"
proof -
  obtain j where "last_host (num_host c) (down_on (smv_last_hbdomain (d_smv d)) (hb_hbdomain (d_hb d))) = Some j"
    using i down last_host_None by blast
  moreover from this have "hm_ison (sm_current_liveset (d_sm d)) j"
    using live[of j] by (simp add: last_host_Some)
  ultimately have "degraded (num_host c) (sm_current_liveset (d_sm d)) (smv_last_hbdomain (d_smv d)) (hb_hbdomain (d_hb d))"
    by (simp add: degraded_def)
  with phase show ?thesis by (simp add: start_fh_result(1)[OF n])
qed

text \<open>
  C40. A loss is missed when a host outside the live set with a higher number disappears in
  the same scan: the flag the loop set for the live host is overwritten, no fault handling
  is requested, and the scan has already forgotten that the host was there, so later scans
  do not notice it either.
\<close>

theorem start_fh_overwrites_degradation:
  assumes n: "num_host c \<le> 64" and ij: "i < j" "j < num_host c"
    and down: "down_on (smv_last_hbdomain (d_smv d)) (hb_hbdomain (d_hb d)) i"
      "down_on (smv_last_hbdomain (d_smv d)) (hb_hbdomain (d_hb d)) j"
    and last: "\<And>k. j < k \<Longrightarrow> k < num_host c \<Longrightarrow> \<not> down_on (smv_last_hbdomain (d_smv d)) (hb_hbdomain (d_hb d)) k"
    and live: "hm_ison (sm_current_liveset (d_sm d)) i" "\<not> hm_ison (sm_current_liveset (d_sm d)) j"
    and sf: "\<And>k. k < num_host c \<Longrightarrow> \<not> down_on (smv_last_sfdomain (d_smv d)) (sf_sfdomain (d_sf d)) k"
    and quiet: "\<not> smv_need_fh (d_smv d)"
  shows "\<not> smv_need_fh (d_smv (start_fh c False d))
    \<and> \<not> hm_ison (smv_last_hbdomain (d_smv (start_fh c False d))) i"
proof -
  have "last_host (num_host c) (down_on (smv_last_hbdomain (d_smv d)) (hb_hbdomain (d_hb d))) = Some j"
    using ij down last by (auto simp: last_host_Some)
  moreover have "last_host (num_host c) (down_on (smv_last_sfdomain (d_smv d)) (sf_sfdomain (d_sf d))) = None"
    using sf by (simp add: last_host_None)
  ultimately show ?thesis
    using quiet live start_fh_result(1)[OF n, of False d] start_fh_result(2)[OF n, of i False d] ij down
    by (auto simp: degraded_def down_on_def)
qed

text \<open>The pool of the witnesses: hosts 0, 1 live, host 2 seen on the heartbeat but not live.\<close>

definition watching_daemon :: "nat list \<Rightarrow> daemon" where
  "watching_daemon up =
     (let d = init_daemon (default_config 3 0) in
      d\<lparr>d_sm := (d_sm d)\<lparr>sm_current_liveset := hm_of [0, 1]\<rparr>,
        d_hb := (d_hb d)\<lparr>hb_hbdomain := hm_of up\<rparr>,
        d_smv := (d_smv d)\<lparr>smv_last_hbdomain := hm_of [0, 1, 2], smv_phase := SM_PHASE_STARTED\<rparr>\<rparr>)"

lemma watching_daemon_sel:
  "hb_hbdomain (d_hb (watching_daemon up)) = hm_of up"
  "smv_last_hbdomain (d_smv (watching_daemon up)) = hm_of [0, 1, 2]"
  "sm_current_liveset (d_sm (watching_daemon up)) = hm_of [0, 1]"
  "smv_phase (d_smv (watching_daemon up)) = SM_PHASE_STARTED"
  "\<not> smv_need_fh (d_smv (watching_daemon up))"
  "smv_last_sfdomain (d_smv (watching_daemon up)) = hm_init_reset"
  by (simp_all add: watching_daemon_def init_daemon_def init_smv_def Let_def)

lemma start_fh_notices_live_loss_example:
  "smv_need_fh (d_smv (start_fh (default_config 3 0) False (watching_daemon [0, 2])))"
  by (rule start_fh_notices_live_loss[where i = 1])
     (auto simp: watching_daemon_sel down_on_def hm_ison_of fh_running_def)

theorem start_fh_overwrites_degradation_witness:
  "\<not> smv_need_fh (d_smv (start_fh (default_config 3 0) False (watching_daemon [0])))"
  by (rule conjunct1[OF start_fh_overwrites_degradation[where i = 1 and j = 2]])
     (auto simp: watching_daemon_sel down_on_def hm_ison_of)

end
