(* ===== verification/Heartbeat.thy ===== *)
theory Heartbeat
  imports SmBase StateFile
begin

text \<open>
  The heartbeat, \<^verbatim>\<open>daemon/heartbeat.c\<close>: composing and sending a packet
  (\<open>send_hb\<close>), validating and absorbing one (\<open>receive_hb\<close>), the heartbeat domain
  (\<open>update_hbdomain\<close>), and one round of each of its two threads.
\<close>

definition HB_SIG :: u32 where "HB_SIG = 0x68616878"           \<comment> \<open>'hahx'\<close>
definition HB_PACKET_SIZE :: int where "HB_PACKET_SIZE = 744"

section \<open>Fault points\<close>

text \<open>
  The first point is always queried, then those of the delay chain until one is on; the
  second component is the delay in milliseconds, which only makes the caller sleep.
\<close>

definition hb_check_fist :: "ha_config \<Rightarrow> string \<Rightarrow> daemon \<Rightarrow> bool \<times> u32 \<times> daemon" where
  "hb_check_fist c fistpoint d =
     (case d_fist_on fistpoint d of (isolated, d1) \<Rightarrow>
      case d_fist_on ''hb.time.<T1'' d1 of
        (True, d2) \<Rightarrow> (isolated, (cfg_T1 c - cfg_t1 c) * ONE_SEC * 3 div 4, d2)
      | (False, d2) \<Rightarrow> (case d_fist_on ''hb.time.=T1'' d2 of
        (True, d3) \<Rightarrow> (isolated, (cfg_T1 c - cfg_t1 c) * ONE_SEC, d3)
      | (False, d3) \<Rightarrow> (case d_fist_on ''hb.time.>T1<Wh'' d3 of
        (True, d4) \<Rightarrow> (isolated, (cfg_Wh c + cfg_T1 c - 2 * cfg_t1 c) * ONE_SEC div 2, d4)
      | (False, d4) \<Rightarrow> (case d_fist_on ''hb.time.2Wh'' d4 of
        (True, d5) \<Rightarrow> (isolated, 2 * (cfg_Wh c - cfg_t1 c) * ONE_SEC, d5)
      | (False, d5) \<Rightarrow> (isolated, 0, d5)))))"

definition hb_check_fist_sticky :: "ha_config \<Rightarrow> daemon \<Rightarrow> u32 \<times> daemon" where
  "hb_check_fist_sticky c d =
     (case d_fist_on ''hb.time.<T1.sticky'' d of
        (True, d1) \<Rightarrow> ((cfg_T1 c - cfg_t1 c) * ONE_SEC * 3 div 4, d1)
      | (False, d1) \<Rightarrow> (case d_fist_on ''hb.time.=T1/2+t1.sticky'' d1 of
        (True, d2) \<Rightarrow> (cfg_T1 c * ONE_SEC div 2, d2)
      | (False, d2) \<Rightarrow> (0, d2)))"

lemma hb_check_fist_quiet [simp]:
  "fist_quiet (d_fist d) \<Longrightarrow> hb_check_fist c n d = (False, 0, d)"
  "fist_quiet (d_fist d) \<Longrightarrow> hb_check_fist_sticky c d = (0, d)"
  by (simp_all add: hb_check_fist_def hb_check_fist_sticky_def)

section \<open>Sending\<close>

definition compose_packet :: "ha_config \<Rightarrow> clock \<Rightarrow> u32 \<Rightarrow> daemon \<Rightarrow> hb_packet" where
  "compose_packet c now sq d = \<lparr>
     pkt_signature = HB_SIG, pkt_checksum = 0, pkt_sequence = sq,
     pkt_size = word_of_int HB_PACKET_SIZE,
     pkt_generation_uuid = gen_UUID c, pkt_host_uuid = my_UUID c,
     pkt_host_index = of_nat (my_index c),
     pkt_current_liveset = sm_current_liveset (d_sm d),
     pkt_proposed_liveset = sm_proposed_liveset (d_sm d),
     pkt_hbdomain = hb_hbdomain (d_hb d), pkt_sfdomain = sf_sfdomain (d_sf d),
     pkt_time_since_last_HB_receipt =
       for_hosts (num_host c) (\<lambda>i a. a(i := elapsed now (hb_time_last_HB (d_hb d) i))) (\<lambda>_. 0),
     pkt_time_since_last_SF_update =
       for_hosts (num_host c) (\<lambda>i a. a(i := elapsed now (sf_time_last_SF (d_sf d) i))) (\<lambda>_. 0),
     pkt_time_since_xapi_restart = elapsed now (xm_time_Xapi_restart (d_xm d)),
     pkt_sm_phase = sm_phase_of (d_sm d), pkt_err_string = xm_err_string (d_xm d),
     pkt_SF_access = sf_access (d_sf d), pkt_SF_corrupted = sf_corrupted (d_sf d),
     pkt_SF_accelerate = hb_SF_accelerate (d_hb d),
     pkt_fence_request = hb_fence_request (d_hb d), pkt_SR2 = sm_SR2 (d_sm d),
     pkt_joining = hb_join (d_hb d)\<rparr>"

definition send_hb :: "ha_config \<Rightarrow> bool \<Rightarrow> clock \<Rightarrow> daemon \<Rightarrow> daemon" where
  "send_hb c by_sm now d =
     (if \<not> hb_enable_send (d_hb d) then d
      else
       let me = my_index c;
           sq = hbv_sequence (d_hbv d) me + 1;
           d1 = upd_hbv (\<lambda>v. v\<lparr>hbv_sequence := (hbv_sequence v)(me := sq)\<rparr>) d;
           pkt = compose_packet c now sq d1;
           d2 = with_hb by_sm (\<lambda>h. h\<lparr>hb_sm_phase := (hb_sm_phase h)(me := sm_phase_of (d_sm d1))\<rparr>) d1;
           (isolated, delay, d3) = hb_check_fist c ''hb.isolate'' d2;
           (lost, d4) = (if isolated then (True, d3) else d_fist_on ''hb.send.lostpacket'' d3)
       in if lost then d4
          else for_hosts (num_host c) (\<lambda>i s. if i \<noteq> me then s\<lparr>d_sent := d_sent s @ [(i, pkt)]\<rparr> else s) d4)"

text \<open>\<open>count\<close> packets, 100 ms apart; at least one.\<close>

fun hb_send_more :: "ha_config \<Rightarrow> bool \<Rightarrow> (nat \<Rightarrow> clock) \<Rightarrow> nat \<Rightarrow> daemon \<Rightarrow> daemon" where
  "hb_send_more c by_sm now 0 d = d"
| "hb_send_more c by_sm now (Suc k) d = send_hb c by_sm (now (Suc k)) (hb_send_more c by_sm now k d)"

definition hb_send_hb_now :: "ha_config \<Rightarrow> bool \<Rightarrow> (nat \<Rightarrow> clock) \<Rightarrow> int \<Rightarrow> daemon \<Rightarrow> daemon" where
  "hb_send_hb_now c by_sm now count d =
     hb_send_more c by_sm now (nat (count - 1)) (send_hb c by_sm (now 0) d)"

definition HB_SFACCELARATION_REQUEST_RETRY :: int where
  "HB_SFACCELARATION_REQUEST_RETRY = 3"

definition hb_SF_accelerate_req :: "ha_config \<Rightarrow> bool \<Rightarrow> (nat \<Rightarrow> clock) \<Rightarrow> daemon \<Rightarrow> daemon" where
  "hb_SF_accelerate_req c by_sm now d =
     hb_send_hb_now c by_sm now HB_SFACCELARATION_REQUEST_RETRY
       (with_hb by_sm (\<lambda>h. h\<lparr>hb_SF_accelerate := True\<rparr>) (sf_accelerate d))"

definition hb_SF_cancel_accelerate :: "ha_config \<Rightarrow> bool \<Rightarrow> (nat \<Rightarrow> clock) \<Rightarrow> daemon \<Rightarrow> daemon" where
  "hb_SF_cancel_accelerate c by_sm now d =
     hb_send_hb_now c by_sm now HB_SFACCELARATION_REQUEST_RETRY
       (with_hb by_sm (\<lambda>h. h\<lparr>hb_SF_accelerate := False\<rparr>) (sf_cancel_acceleration c d))"

section \<open>Receiving\<close>

text \<open>
  A host index of 64 or more makes the code read past its table; here the table is a total
  function, whatever it holds there.
\<close>

definition is_valid_hb :: "ha_config \<Rightarrow> hb_packet \<Rightarrow> int \<Rightarrow> bool" where
  "is_valid_hb c pkt recvd =
     (if recvd \<noteq> HB_PACKET_SIZE then False
      else if pkt_signature pkt \<noteq> HB_SIG then False
      else if pkt_size pkt \<noteq> word_of_int HB_PACKET_SIZE then False
      else if uuid_comp (pkt_generation_uuid pkt) (gen_UUID c) then False
      else if uuid_comp (pkt_host_uuid pkt) (host_UUID c (unat (pkt_host_index pkt))) then False
      else True)"

definition newer_sequence :: "u32 \<Rightarrow> u32 \<Rightarrow> bool" where
  "newer_sequence seen sq \<longleftrightarrow> seen < sq \<or> seen - sq > 0x80000000"

definition absorb_sm :: "nat \<Rightarrow> hb_packet \<Rightarrow> com_data_sm \<Rightarrow> com_data_sm" where
  "absorb_sm fm pkt s =
     (let s1 = (if pkt_SR2 pkt then s\<lparr>sm_SR2 := pkt_SR2 pkt\<rparr> else s)
      in s1\<lparr>sm_sf_access := hm_set_boolean (sm_sf_access s1) fm (pkt_SF_access pkt),
            sm_sf_corrupted := hm_set_boolean (sm_sf_corrupted s1) fm (pkt_SF_corrupted pkt)\<rparr>)"

definition absorb_hb :: "ha_config \<Rightarrow> clock \<Rightarrow> nat \<Rightarrow> hb_packet \<Rightarrow> com_data_hb \<Rightarrow> com_data_hb" where
  "absorb_hb c now fm pkt h =
     (let me = my_index c;
          h1 = h\<lparr>hb_time_last_HB := (hb_time_last_HB h)(fm := now)\<rparr>;
          own = for_hosts MAX_HOST_NUM (\<lambda>i a. a(i := elapsed now (hb_time_last_HB h1 i)))
                  (raw_time_since_last_HB_receipt (hb_raw h1 me));
          h2 = h1\<lparr>hb_raw := (hb_raw h1)(me := (hb_raw h1 me)\<lparr>raw_time_since_last_HB_receipt := own\<rparr>)\<rparr>;
          r = (hb_raw h2 fm)\<lparr>raw_current_liveset := pkt_current_liveset pkt,
                 raw_proposed_liveset := pkt_proposed_liveset pkt,
                 raw_hbdomain := pkt_hbdomain pkt, raw_sfdomain := pkt_sfdomain pkt,
                 raw_time_since_last_HB_receipt := pkt_time_since_last_HB_receipt pkt,
                 raw_time_since_last_SF_update := pkt_time_since_last_SF_update pkt,
                 raw_time_since_xapi_restart := pkt_time_since_xapi_restart pkt\<rparr>
      in h2\<lparr>hb_raw := (hb_raw h2)(fm := r),
            hb_notjoining := hm_set_boolean (hb_notjoining h2) fm (\<not> pkt_joining pkt),
            hb_sm_phase := (hb_sm_phase h2)(fm := pkt_sm_phase pkt),
            hb_err_string := (hb_err_string h2)(fm := pkt_err_string pkt)\<rparr>)"

text \<open>After the checks: fencing requests, State-File acceleration, and the update.\<close>

definition absorb_packet :: "ha_config \<Rightarrow> clock \<Rightarrow> nat \<Rightarrow> hb_packet \<Rightarrow> daemon \<Rightarrow> daemon" where
  "absorb_packet c now fm pkt d =
     (let d1 = (if pkt_SF_accelerate pkt then sf_accelerate d else sf_cancel_acceleration c d);
          d2 = upd_hb (absorb_hb c now fm pkt) (upd_sm (absorb_sm fm pkt) d1);
          d3 = unlock_sm False (unlock_hb False d2)
      in if pkt_sm_phase pkt = SM_PHASE_FHREADY then start_fh c True d3 else d3)"

definition fence_wanted :: "ha_config \<Rightarrow> nat \<Rightarrow> hb_packet \<Rightarrow> bool" where
  "fence_wanted c fm pkt \<longleftrightarrow> pkt_fence_request pkt \<and> hm_ison (pkt_current_liveset pkt) fm
     \<and> \<not> hm_ison (pkt_proposed_liveset pkt) (my_index c)"

definition receive_valid :: "ha_config \<Rightarrow> clock \<Rightarrow> hb_packet \<Rightarrow> daemon \<Rightarrow> daemon" where
  "receive_valid c now pkt d =
     (let fm = unat (pkt_host_index pkt) in
      if newer_sequence (hbv_sequence (d_hbv d) fm) (pkt_sequence pkt) then
        (let d1 = upd_hbv (\<lambda>v. v\<lparr>hbv_sequence := (hbv_sequence v)(fm := pkt_sequence pkt)\<rparr>) d
         in if \<not> hm_ison (pkt_current_liveset pkt) fm \<and> hm_ison (sm_current_liveset (d_sm d1)) fm
            then d1
            else (let d2 = (if fence_wanted c fm pkt
                            then self_fence MTC_ERROR_HB_FENCEREQUESTED d1 else d1)
                  in if d_fenced d2 \<noteq> None then d2 else absorb_packet c now fm pkt d2))
      else d)"

text \<open>\<open>recvfrom\<close>: nothing there, an error, or a packet and its length.\<close>

datatype hb_recv = RecvAgain | RecvError | RecvPacket int hb_packet

definition receive_hb :: "ha_config \<Rightarrow> clock \<Rightarrow> hb_recv \<Rightarrow> daemon \<Rightarrow> daemon" where
  "receive_hb c now r d =
     (if r = RecvAgain then d
      else if r = RecvError \<and> \<not> hbv_recvfrom_failed (d_hbv d)
      then upd_hbv (\<lambda>v. v\<lparr>hbv_recvfrom_failed := True\<rparr>) d
      else
       let d1 = upd_hbv (\<lambda>v. v\<lparr>hbv_recvfrom_failed := False\<rparr>) d
       in if \<not> hb_enable_receive (d_hb d1) then d1
          else (case hb_check_fist c ''hb.isolate'' d1 of (isolated, _, d2) \<Rightarrow>
            if isolated then d2
            else (case d_fist_on ''hb.receive.lostpacket'' d2 of (lost, d3) \<Rightarrow>
              if lost then d3
              else (case r of
                 RecvPacket recvd pkt \<Rightarrow>
                   if is_valid_hb c pkt recvd then receive_valid c now pkt d3 else d3
               | _ \<Rightarrow> d3))))"

section \<open>The heartbeat domain\<close>

text \<open>State of the loop: the object, the sequence numbers, and whether anything changed.\<close>

definition update_hbdomain_host :: "ha_config \<Rightarrow> clock \<Rightarrow> com_data_sm \<Rightarrow> bool \<Rightarrow> nat
  \<Rightarrow> com_data_hb \<times> (nat \<Rightarrow> u32) \<times> bool \<Rightarrow> com_data_hb \<times> (nat \<Rightarrow> u32) \<times> bool" where
  "update_hbdomain_host c now psm join_block i = (\<lambda>(h, sq, changed).
     if i = my_index c then (h\<lparr>hb_hbdomain := hm_set (hb_hbdomain h) i\<rparr>, sq, changed)
     else if hb_time_last_HB h i \<ge> 0 \<and> now - hb_time_last_HB h i < ms_of (cfg_T1 c) then
       (if hm_ison (hb_hbdomain h) i then
          (if hb_sm_phase h i \<ge> SM_PHASE_FHREADY \<and> sm_phase_of psm \<ge> SM_PHASE_FHREADY
              \<and> \<not> hm_ison (raw_hbdomain (hb_raw h i)) (my_index c)
           then (h\<lparr>hb_hbdomain := hm_reset (hb_hbdomain h) i\<rparr>, sq, True)
           else (h, sq, changed))
        else if \<not> join_block
        then (h\<lparr>hb_hbdomain := hm_set (hb_hbdomain h) i\<rparr>, sq, True)
        else (h, sq, changed))
     else
       (let sq' = sq(i := 0)
        in if \<not> hm_ison (hb_hbdomain h) i then (h, sq', changed)
           else (h\<lparr>hb_hbdomain := hm_reset (hb_hbdomain h) i\<rparr>, sq', True)))"

definition update_hbdomain :: "ha_config \<Rightarrow> clock \<Rightarrow> daemon \<Rightarrow> bool \<times> daemon" where
  "update_hbdomain c now d =
     (case for_hosts (num_host c) (update_hbdomain_host c now (d_sm d) (smv_join_block (d_smv d)))
             (d_hb d, hbv_sequence (d_hbv d), False) of
        (h, sq, changed) \<Rightarrow>
          (changed, unlock_hb False
             (upd_hbv (\<lambda>v. v\<lparr>hbv_sequence := sq\<rparr>) (d\<lparr>d_hb := h\<rparr>))))"

section \<open>The two threads\<close>

text \<open>\<open>now\<close>, \<open>now1\<close>, \<open>now2\<close>: the clock at the domain update, the receipt and after it;
  \<open>None\<close> when \<open>select\<close> reports nothing. The result holds \<open>last\<close> and \<open>term\<close>.\<close>

definition hb_receive_round :: "ha_config \<Rightarrow> clock \<Rightarrow> clock \<Rightarrow> clock \<Rightarrow> hb_recv option \<Rightarrow> clock \<Rightarrow> daemon
  \<Rightarrow> clock \<times> bool \<times> daemon" where
  "hb_receive_round c now now1 now2 sel start d =
     (case update_hbdomain c now d of (changed, d1) \<Rightarrow>
        let d2 = (if changed then start_fh c False d1 else d1);
            d3 = (case sel of Some r \<Rightarrow> receive_hb c now1 r d2 | None \<Rightarrow> d2)
        in if d_fenced d3 \<noteq> None then (start, True, d3)
           else if now2 - start < ms_of (cfg_t1 c) then (start, False, d3)
           else (let d4 = (case hbv_watchdog (d_hbv d3) of
                    Some w \<Rightarrow> d3\<lparr>d_wd := d_wd d3 @ [WdSet w (cfg_Wh c)]\<rparr> | None \<Rightarrow> d3)
                 in (now2, hbv_terminate (d_hbv d4), d4)))"

definition hb_send_round :: "ha_config \<Rightarrow> clock \<Rightarrow> clock \<Rightarrow> daemon \<Rightarrow> bool \<times> daemon" where
  "hb_send_round c start now d =
     (let d1 = send_hb c False start (snd (hb_check_fist_sticky c d));
          lat = to_s32 (now - start);
          d2 = with_hb False (\<lambda>h. h\<lparr>hb_time_last_HB := (hb_time_last_HB h)(my_index c := now),
                 hb_latency := lat,
                 hb_latency_max := (if hb_latency_max h < 0 then lat else max (hb_latency_max h) lat),
                 hb_latency_min := (if hb_latency_min h < 0 then lat else min (hb_latency_min h) lat)\<rparr>) d1
      in (hbv_terminate (d_hbv d2), d2))"

section \<open>What sending leaves alone\<close>

lemma d_fist_on_phase: "d_fist_on nm d = (b, d') \<Longrightarrow> d_hb d' = d_hb d \<and> d_sm d' = d_sm d"
  by (auto simp: d_fist_on_def split: prod.splits)

lemma hb_check_fist_phase: "hb_check_fist c nm d = (b, l, d') \<Longrightarrow> d_hb d' = d_hb d \<and> d_sm d' = d_sm d"
  by (auto simp: hb_check_fist_def dest!: d_fist_on_phase split: prod.splits bool.splits)

lemma send_hb_phase:
  "d_sm (send_hb c b now d) = d_sm d"
  "hb_sm_phase (d_hb (send_hb c b now d)) =
     (if hb_enable_send (d_hb d) then (hb_sm_phase (d_hb d))(my_index c := sm_phase_of (d_sm d)) else hb_sm_phase (d_hb d))"
proof -
  have loop: "d_sm (for_hosts n (\<lambda>i s. if i \<noteq> me then s\<lparr>d_sent := d_sent s @ [(i, pkt)]\<rparr> else s) e) = d_sm e"
    "d_hb (for_hosts n (\<lambda>i s. if i \<noteq> me then s\<lparr>d_sent := d_sent s @ [(i, pkt)]\<rparr> else s) e) = d_hb e" for n me pkt e
    by (rule for_hosts_frame, simp)+
  define e where "e = with_hb b (\<lambda>h. h\<lparr>hb_sm_phase := (hb_sm_phase h)(my_index c := sm_phase_of (d_sm d))\<rparr>)
      (upd_hbv (\<lambda>v. v\<lparr>hbv_sequence := (hbv_sequence v)(my_index c := hbv_sequence (d_hbv d) (my_index c) + 1)\<rparr>) d)"
  have e: "d_sm e = d_sm d" "hb_sm_phase (d_hb e) = (hb_sm_phase (d_hb d))(my_index c := sm_phase_of (d_sm d))"
    by (simp_all add: with_hb_def e_def)
  obtain iso dl d3 where f: "hb_check_fist c ''hb.isolate'' e = (iso, dl, d3)" by (metis prod_cases3)
  obtain ls d4 where g: "d_fist_on ''hb.send.lostpacket'' d3 = (ls, d4)" by fastforce
  note f' = hb_check_fist_phase[OF f] and g' = d_fist_on_phase[OF g]
  show "d_sm (send_hb c b now d) = d_sm d"
    using e f f' g g' by (cases "hb_enable_send (d_hb d)"; cases iso) (simp_all add: send_hb_def Let_def loop e_def)
  show "hb_sm_phase (d_hb (send_hb c b now d)) =
     (if hb_enable_send (d_hb d) then (hb_sm_phase (d_hb d))(my_index c := sm_phase_of (d_sm d)) else hb_sm_phase (d_hb d))"
    using e f f' g g' by (cases "hb_enable_send (d_hb d)"; cases iso) (simp_all add: send_hb_def Let_def loop e_def)
qed

lemma send_hb_now_sm [simp]: "d_sm (hb_send_hb_now c b now k d) = d_sm d"
proof -
  have "d_sm (hb_send_more c b now m e) = d_sm e" for m e
    by (induction m) (simp_all add: send_hb_phase)
  then show ?thesis by (simp add: hb_send_hb_now_def send_hb_phase)
qed

end
