(* ===== verification/HeartbeatProps.thy ===== *)
theory HeartbeatProps
  imports Heartbeat StateFileProps
begin

text \<open>
  What the heartbeat guarantees: the serial-number test, the membership rule of the
  heartbeat domain, that a packet carries the sender's state into the receiver's objects,
  and when a packet can fence the receiver.
\<close>

section \<open>Sequence numbers\<close>

text \<open>
  C36. A packet up to \<open>2^31 - 1\<close> numbers ahead of the last one seen is always accepted, also
  across the wrap-around of the 32-bit counter. A packet that is \<open>k\<close> numbers old is
  rejected, except when \<open>k\<close> exceeds the last number seen: just after the counter has
  wrapped, packets from before the wrap are taken for new ones.
\<close>

theorem newer_sequence_window:
  fixes seen :: u32
  assumes "0 < k" and "k < 2 ^ 31"
  shows "newer_sequence seen (seen + of_nat k)
    \<and> (newer_sequence seen (seen - of_nat k) \<longleftrightarrow> unat seen < k)"
proof -
  have k: "unat (of_nat k :: u32) = k"
    using assms by (simp add: unat_of_nat)
  let ?k = "of_nat k :: u32"
  have lt: "unat seen < 4294967296" using unsigned_less[of seen, where 'a = nat] by simp
  have plus: "unat (seen + ?k) = (unat seen + k) mod 4294967296"
    by (simp add: unat_word_ariths k)
  have minus: "unat (seen - ?k) = (if k \<le> unat seen then unat seen - k else unat seen + 4294967296 - k)"
    using assms lt by (simp add: unat_sub_if' k)
  have "seen < seen + ?k \<or> seen - (seen + ?k) > 0x80000000"
  proof (cases "unat seen + k < 4294967296")
    case True
    then have "seen < seen + ?k" using assms by (simp add: word_less_nat_alt plus)
    then show ?thesis ..
  next
    case False
    have "unat (0 - ?k) = 4294967296 - k"
      using assms k unat_sub_if'[of "0 :: u32" ?k] by simp
    then have "seen - (seen + ?k) > 0x80000000"
      using assms by (simp add: word_less_nat_alt)
    then show ?thesis ..
  qed
  moreover have "seen - (seen - ?k) > 0x80000000 \<longleftrightarrow> False"
    using assms k by (simp add: word_less_nat_alt)
  moreover have "seen < seen - ?k \<longleftrightarrow> unat seen < k"
    using assms lt by (auto simp: word_less_nat_alt minus)
  ultimately show ?thesis by (simp add: newer_sequence_def)
qed

theorem newer_sequence_window_witness:
  "newer_sequence 4294967295 (4294967295 + of_nat 3) \<and> newer_sequence 1 (1 - of_nat 2)"
  using newer_sequence_window[of 3 4294967295] newer_sequence_window[of 2 1] by simp

section \<open>The heartbeat domain\<close>

definition heard :: "ha_config \<Rightarrow> clock \<Rightarrow> com_data_hb \<Rightarrow> nat \<Rightarrow> bool" where
  "heard c now h i \<longleftrightarrow> hb_time_last_HB h i \<ge> 0 \<and> now - hb_time_last_HB h i < ms_of (cfg_T1 c)"

text \<open>The membership the scan gives host \<open>i\<close>.\<close>

definition hbdomain_rule :: "ha_config \<Rightarrow> clock \<Rightarrow> com_data_sm \<Rightarrow> bool \<Rightarrow> com_data_hb \<Rightarrow> nat \<Rightarrow> bool" where
  "hbdomain_rule c now psm join_block h i \<longleftrightarrow>
     i = my_index c \<or>
     (heard c now h i \<and>
      (if hm_ison (hb_hbdomain h) i
       then \<not> (hb_sm_phase h i \<ge> SM_PHASE_FHREADY \<and> sm_phase_of psm \<ge> SM_PHASE_FHREADY
               \<and> \<not> hm_ison (raw_hbdomain (hb_raw h i)) (my_index c))
       else \<not> join_block))"

definition hbdomain_inv :: "ha_config \<Rightarrow> clock \<Rightarrow> com_data_sm \<Rightarrow> bool \<Rightarrow> com_data_hb \<Rightarrow> nat
  \<Rightarrow> com_data_hb \<times> (nat \<Rightarrow> u32) \<times> bool \<Rightarrow> bool" where
  "hbdomain_inv c now psm jb h0 k = (\<lambda>(h, sq, changed).
     (\<exists>dm. h = h0\<lparr>hb_hbdomain := dm\<rparr>)
     \<and> (\<forall>i<64. hm_ison (hb_hbdomain h) i =
          (if i < k then hbdomain_rule c now psm jb h0 i else hm_ison (hb_hbdomain h0) i))
     \<and> (changed \<longleftrightarrow> (\<exists>i<k. i \<noteq> my_index c
          \<and> hbdomain_rule c now psm jb h0 i \<noteq> hm_ison (hb_hbdomain h0) i)))"

lemma update_hbdomain_step:
  assumes k: "k < 64" and inv: "hbdomain_inv c now psm jb h0 k s"
  shows "hbdomain_inv c now psm jb h0 (Suc k) (update_hbdomain_host c now psm jb k s)"
proof -
  obtain h sq ch where s: "s = (h, sq, ch)" by (metis prod_cases3)
  obtain dm where h: "h = h0\<lparr>hb_hbdomain := dm\<rparr>"
    using inv s by (auto simp: hbdomain_inv_def)
  have mem: "hm_ison dm i = (if i < k then hbdomain_rule c now psm jb h0 i
        else hm_ison (hb_hbdomain h0) i)" if "i < 64" for i
    using inv that by (simp add: hbdomain_inv_def s h)
  have ch: "ch \<longleftrightarrow> (\<exists>i<k. i \<noteq> my_index c \<and> hbdomain_rule c now psm jb h0 i \<noteq> hm_ison (hb_hbdomain h0) i)"
    using inv by (simp add: hbdomain_inv_def s)
  have old: "hm_ison dm k = hm_ison (hb_hbdomain h0) k"
    using mem[OF k] by simp
  let ?new = "hbdomain_rule c now psm jb h0 k"
  define F where "F \<longleftrightarrow> hb_sm_phase h0 k \<ge> SM_PHASE_FHREADY \<and> sm_phase_of psm \<ge> SM_PHASE_FHREADY
      \<and> \<not> hm_ison (raw_hbdomain (hb_raw h0 k)) (my_index c)"
  define dm' where "dm' = (if ?new then (if k = my_index c \<or> \<not> hm_ison dm k then hm_set dm k else dm)
                     else (if hm_ison dm k then hm_reset dm k else dm))"
  define ch' where "ch' \<longleftrightarrow> ch \<or> (k \<noteq> my_index c \<and> ?new \<noteq> hm_ison dm k)"
  have "\<exists>sq'. update_hbdomain_host c now psm jb k (h, sq, ch) = (h0\<lparr>hb_hbdomain := dm'\<rparr>, sq', ch')"
    unfolding dm'_def ch'_def update_hbdomain_host_def hbdomain_rule_def heard_def[symmetric]
      F_def[symmetric] h prod.case old[symmetric]
    by (cases "k = my_index c"; cases "heard c now h0 k"; cases "hm_ison dm k"; cases F; cases jb)
       (auto simp: heard_def F_def)
  then obtain sq' where step: "update_hbdomain_host c now psm jb k (h, sq, ch)
      = (h0\<lparr>hb_hbdomain := dm'\<rparr>, sq', ch')" ..
  have "hm_ison dm' i = (if i = k then ?new else hm_ison dm i)" if "i < 64" for i
    using that k hm_ison_set[OF k that, of dm] hm_ison_reset[OF k that, of dm] unfolding dm'_def
    by (cases "i = k"; cases ?new; cases "hm_ison dm k") auto
  then have "\<forall>i<64. hm_ison dm' i = (if i < Suc k then hbdomain_rule c now psm jb h0 i
      else hm_ison (hb_hbdomain h0) i)"
    using mem by (simp add: less_Suc_eq)
  moreover have "ch' \<longleftrightarrow> (\<exists>i<Suc k. i \<noteq> my_index c
      \<and> hbdomain_rule c now psm jb h0 i \<noteq> hm_ison (hb_hbdomain h0) i)"
    unfolding ch'_def ch old Ex_less_Suc by blast
  ultimately show ?thesis
    unfolding s step hbdomain_inv_def prod.case by auto
qed

lemma update_hbdomain_loop:
  assumes "num_host c \<le> 64"
  shows "hbdomain_inv c now psm jb h0 (num_host c)
    (for_hosts (num_host c) (update_hbdomain_host c now psm jb) (h0, sq, False))"
proof (rule for_hosts_inv[where I = "hbdomain_inv c now psm jb h0"])
  show "hbdomain_inv c now psm jb h0 0 (h0, sq, False)"
    by (auto simp: hbdomain_inv_def intro: exI[of _ "hb_hbdomain h0"])
qed (use assms in \<open>auto intro: update_hbdomain_step\<close>)

text \<open>
  C29. The heartbeat domain after a scan: the local host is in it; a peer not heard from
  within \<open>T1\<close> is not; a peer heard from stays, unless both are in the fault handler and
  the peer does not see the local host, and enters only while joining is not blocked. The
  scan reports a change exactly when some peer entered or left.
\<close>

theorem update_hbdomain_membership:
  assumes n: "num_host c \<le> 64" and run: "update_hbdomain c now d = (changed, d')"
  shows "(\<forall>i. i \<ge> num_host c \<or> hm_ison (hb_hbdomain (d_hb d')) i
            = hbdomain_rule c now (d_sm d) (smv_join_block (d_smv d)) (d_hb d) i)
    \<and> (changed \<longleftrightarrow> (\<exists>i<num_host c. i \<noteq> my_index c
          \<and> hm_ison (hb_hbdomain (d_hb d')) i \<noteq> hm_ison (hb_hbdomain (d_hb d)) i))"
proof -
  obtain h sq ch where loop: "for_hosts (num_host c)
      (update_hbdomain_host c now (d_sm d) (smv_join_block (d_smv d)))
      (d_hb d, hbv_sequence (d_hbv d), False) = (h, sq, ch)" by (metis prod_cases3)
  have out: "hb_hbdomain (d_hb d') = hb_hbdomain h" "changed = ch"
    using run by (auto simp: update_hbdomain_def loop)
  have inv: "hbdomain_inv c now (d_sm d) (smv_join_block (d_smv d)) (d_hb d) (num_host c) (h, sq, ch)"
    using update_hbdomain_loop[OF n, of now "d_sm d" "smv_join_block (d_smv d)" "d_hb d"
        "hbv_sequence (d_hbv d)"] loop by simp
  show ?thesis
    unfolding out using inv n by (auto simp: hbdomain_inv_def)
qed

theorem update_hbdomain_membership_witness:
  "case update_hbdomain (default_config 3 0) 100 (init_daemon (default_config 3 0)) of
     (changed, d') \<Rightarrow> hm_ison (hb_hbdomain (d_hb d')) 0 \<and> \<not> hm_ison (hb_hbdomain (d_hb d')) 2"
proof -
  obtain ch d' where run: "update_hbdomain (default_config 3 0) 100 (init_daemon (default_config 3 0)) = (ch, d')"
    by fastforce
  show ?thesis
    using conjunct1[OF update_hbdomain_membership[OF _ run], THEN spec, of 0]
      conjunct1[OF update_hbdomain_membership[OF _ run], THEN spec, of 2] unfolding run
    by (simp add: hbdomain_rule_def heard_def init_daemon_def init_com_hb_def)
qed

section \<open>Fencing on request\<close>

lemma start_fh_frame [simp]:
  "d_fenced (start_fh c force d) = d_fenced d" "d_sm (start_fh c force d) = d_sm d"
  "d_exit (start_fh c force d) = d_exit d" "d_sent (start_fh c force d) = d_sent d"
  "hb_raw (d_hb (start_fh c force d)) = hb_raw (d_hb d)"
  "hb_time_last_HB (d_hb (start_fh c force d)) = hb_time_last_HB (d_hb d)"
  "hb_sm_phase (d_hb (start_fh c force d)) = hb_sm_phase (d_hb d)"
  "hb_notjoining (d_hb (start_fh c force d)) = hb_notjoining (d_hb d)"
  "hb_err_string (d_hb (start_fh c force d)) = hb_err_string (d_hb d)"
  by (simp_all add: start_fh_def Let_def split: prod.split)

lemma sf_accelerate_frame [simp]:
  "d_fenced (sf_accelerate d) = d_fenced d" "d_fenced (sf_cancel_acceleration c d) = d_fenced d"
  "d_hb (sf_accelerate d) = d_hb d" "d_hb (sf_cancel_acceleration c d) = d_hb d"
  "d_sm (sf_accelerate d) = d_sm d" "d_sm (sf_cancel_acceleration c d) = d_sm d"
  by (simp_all add: sf_accelerate_def sf_cancel_acceleration_def)

lemma absorb_packet_fenced [simp]: "d_fenced (absorb_packet c now fm pkt d) = d_fenced d"
  by (simp add: absorb_packet_def Let_def)

text \<open>
  C4. A host fences itself over the heartbeat exactly when receiving is enabled, fencing is
  armed, and a valid packet that is newer than the last one asks for it, from a host that
  is in its own live set and whose proposed live set leaves the local host out. Old
  packets, invalid packets and packets of hosts that are still booting never fence.
\<close>

theorem receive_fences_iff_requested:
  assumes "d_fenced d = None" and "fist_quiet (d_fist d)"
  shows "d_fenced (receive_hb c now r d) \<noteq> None \<longleftrightarrow>
    (case r of RecvPacket recvd pkt \<Rightarrow>
        hb_enable_receive (d_hb d) \<and> is_valid_hb c pkt recvd
        \<and> newer_sequence (hbv_sequence (d_hbv d) (unat (pkt_host_index pkt))) (pkt_sequence pkt)
        \<and> fence_wanted c (unat (pkt_host_index pkt)) pkt
        \<and> smv_fencing (d_smv d) = FENCING_ARMED
     | _ \<Rightarrow> False)"
  using assms
  by (cases r) (auto simp: receive_hb_def receive_valid_def self_fence_def fence_wanted_def Let_def)

section \<open>From one host to another\<close>

lemma for_hosts_elapsed:
  "for_hosts n (\<lambda>i a. a(i := elapsed now (f i))) a = (\<lambda>i. if i < n then elapsed now (f i) else a i)"
  by (rule for_hosts_array)

lemma absorb_packet_rows:
  "hb_raw (d_hb (absorb_packet c now fm pkt d)) = hb_raw (absorb_hb c now fm pkt (d_hb d))"
  "hb_time_last_HB (d_hb (absorb_packet c now fm pkt d)) = hb_time_last_HB (absorb_hb c now fm pkt (d_hb d))"
  "hb_sm_phase (d_hb (absorb_packet c now fm pkt d)) = hb_sm_phase (absorb_hb c now fm pkt (d_hb d))"
  "hb_notjoining (d_hb (absorb_packet c now fm pkt d)) = hb_notjoining (absorb_hb c now fm pkt (d_hb d))"
  "hb_err_string (d_hb (absorb_packet c now fm pkt d)) = hb_err_string (absorb_hb c now fm pkt (d_hb d))"
  by (simp_all add: absorb_packet_def Let_def)

lemma start_fh_keeps_rows:
  "sm_SR2 (d_sm (start_fh c b d)) = sm_SR2 (d_sm d)" "sm_sf_access (d_sm (start_fh c b d)) = sm_sf_access (d_sm d)"
  "sm_sf_corrupted (d_sm (start_fh c b d)) = sm_sf_corrupted (d_sm d)"
  "hbv_sequence (d_hbv (start_fh c b d)) = hbv_sequence (d_hbv d)"
  "sfv_accelerate_count (d_sfv (start_fh c b d)) = sfv_accelerate_count (d_sfv d)"
  "sfv_interval_ms (d_sfv (start_fh c b d)) = sfv_interval_ms (d_sfv d)"
  by (simp_all add: start_fh_def Let_def split: prod.split)

lemma absorb_packet_rest:
  "sm_SR2 (d_sm (absorb_packet c now fm pkt d)) = sm_SR2 (absorb_sm fm pkt (d_sm d))"
  "sm_sf_access (d_sm (absorb_packet c now fm pkt d)) = sm_sf_access (absorb_sm fm pkt (d_sm d))"
  "sm_sf_corrupted (d_sm (absorb_packet c now fm pkt d)) = sm_sf_corrupted (absorb_sm fm pkt (d_sm d))"
  "hbv_sequence (d_hbv (absorb_packet c now fm pkt d)) = hbv_sequence (d_hbv d)"
  "sfv_accelerate_count (d_sfv (absorb_packet c now fm pkt d)) =
     sfv_accelerate_count (d_sfv (if pkt_SF_accelerate pkt then sf_accelerate d else sf_cancel_acceleration c d))"
  "sfv_interval_ms (d_sfv (absorb_packet c now fm pkt d)) =
     sfv_interval_ms (d_sfv (if pkt_SF_accelerate pkt then sf_accelerate d else sf_cancel_acceleration c d))"
  by (simp_all add: absorb_packet_def start_fh_keeps_rows Let_def sf_accelerate_def sf_cancel_acceleration_def)

text \<open>
  C30. End to end over the network: a packet host A composes, when B receives it complete and
  in order, and it asks for no fencing, leaves in B all that A put into it: A's row in B's heartbeat object holds A's live sets,
  domains, elapsed times of heartbeats and State-File updates and its Xapi restart time; its
  phase, error text, joining flag, State-File access and corruption are noted, Survival Rule-2 is taken over, the
  acceleration of the State-File follows the packet, A counts as heard at the time of receipt with the
  number of the packet, B's own row has the new ages of all hosts, and the rows of the others stay.
\<close>

theorem packet_travels:
  assumes pkt: "pkt = compose_packet ca t sq da"
    and pool: "num_host ca = num_host cb" "gen_UUID ca = gen_UUID cb" "host_UUID ca = host_UUID cb"
      "my_index ca < 64" "my_index ca \<noteq> my_index cb"
    and rcv: "hb_enable_receive (d_hb db)" "fist_quiet (d_fist db)" "d_fenced db = None"
    and fresh: "newer_sequence (hbv_sequence (d_hbv db) (my_index ca)) sq"
    and known: "hm_ison (sm_current_liveset (d_sm da)) (my_index ca)
                \<or> \<not> hm_ison (sm_current_liveset (d_sm db)) (my_index ca)"
    and nofence: "\<not> hb_fence_request (d_hb da)"
  shows "let db' = receive_hb cb now (RecvPacket 744 pkt) db; A = my_index ca;
             row = hb_raw (d_hb db') A in
      hb_time_last_HB (d_hb db') A = now
    \<and> raw_current_liveset row = sm_current_liveset (d_sm da)
    \<and> raw_proposed_liveset row = sm_proposed_liveset (d_sm da)
    \<and> raw_hbdomain row = hb_hbdomain (d_hb da) \<and> raw_sfdomain row = sf_sfdomain (d_sf da)
    \<and> (\<forall>j. j \<ge> num_host ca \<or> raw_time_since_last_HB_receipt row j
                            = elapsed t (hb_time_last_HB (d_hb da) j))
    \<and> (\<forall>j. j \<ge> num_host ca \<or> raw_time_since_last_SF_update row j
                            = elapsed t (sf_time_last_SF (d_sf da) j))
    \<and> raw_time_since_xapi_restart row = elapsed t (xm_time_Xapi_restart (d_xm da))
    \<and> hb_sm_phase (d_hb db') A = sm_phase_of (d_sm da)
    \<and> hb_err_string (d_hb db') A = xm_err_string (d_xm da)
    \<and> hm_ison (hb_notjoining (d_hb db')) A = (\<not> hb_join (d_hb da))
    \<and> sm_SR2 (d_sm db') = (sm_SR2 (d_sm db) \<or> sm_SR2 (d_sm da))
    \<and> hm_ison (sm_sf_access (d_sm db')) A = sf_access (d_sf da)
    \<and> hm_ison (sm_sf_corrupted (d_sm db')) A = sf_corrupted (d_sf da)
    \<and> hbv_sequence (d_hbv db') A = sq
    \<and> sfv_accelerate_count (d_sfv db') = sfv_accelerate_count (d_sfv
        (if hb_SF_accelerate (d_hb da) then sf_accelerate db else sf_cancel_acceleration cb db))
    \<and> sfv_interval_ms (d_sfv db') = sfv_interval_ms (d_sfv
        (if hb_SF_accelerate (d_hb da) then sf_accelerate db else sf_cancel_acceleration cb db))
    \<and> (\<forall>j. j \<ge> 64 \<or> raw_time_since_last_HB_receipt (hb_raw (d_hb db') (my_index cb)) j
                   = elapsed now (hb_time_last_HB (d_hb db') j))
    \<and> (\<forall>j. j = A \<or> hb_time_last_HB (d_hb db') j = hb_time_last_HB (d_hb db) j
        \<and> hb_sm_phase (d_hb db') j = hb_sm_phase (d_hb db) j
        \<and> (j = my_index cb \<or> hb_raw (d_hb db') j = hb_raw (d_hb db) j))"
proof -
  let ?A = "my_index ca"
  have A: "unat (pkt_host_index pkt) = ?A"
    using pool(4) by (simp add: pkt compose_packet_def unat_of_nat)
  have valid: "is_valid_hb cb pkt 744"
    using pool A by (simp add: is_valid_hb_def HB_PACKET_SIZE_def pkt compose_packet_def)
  have fields: "pkt_sequence pkt = sq" "pkt_current_liveset pkt = sm_current_liveset (d_sm da)"
      "\<not> pkt_fence_request pkt"
    using nofence by (simp_all add: pkt compose_packet_def)
  let ?d1 = "upd_hbv (\<lambda>v. v\<lparr>hbv_sequence := (hbv_sequence v)(?A := sq)\<rparr>)
               (upd_hbv (\<lambda>v. v\<lparr>hbv_recvfrom_failed := False\<rparr>) db)"
  have res: "receive_hb cb now (RecvPacket 744 pkt) db = absorb_packet cb now ?A pkt ?d1"
    using rcv fresh known valid A fields
    by (auto simp: receive_hb_def receive_valid_def fence_wanted_def Let_def)
  have acc: "sfv_accelerate_count (d_sfv (sf_accelerate ?d1)) = sfv_accelerate_count (d_sfv (sf_accelerate db))"
      "sfv_interval_ms (d_sfv (sf_accelerate ?d1)) = sfv_interval_ms (d_sfv (sf_accelerate db))"
      "sfv_accelerate_count (d_sfv (sf_cancel_acceleration cb ?d1)) = sfv_accelerate_count (d_sfv (sf_cancel_acceleration cb db))"
      "sfv_interval_ms (d_sfv (sf_cancel_acceleration cb ?d1)) = sfv_interval_ms (d_sfv (sf_cancel_acceleration cb db))"
    by (simp_all add: sf_accelerate_def sf_cancel_acceleration_def)
  show ?thesis
    unfolding res Let_def absorb_packet_rows absorb_packet_rest
    using pool(5) pool(4) acc by (simp add: absorb_hb_def absorb_sm_def Let_def pkt compose_packet_def for_hosts_elapsed
        hm_ison_set_boolean not_le disj_imp MAX_HOST_NUM_def)
qed

text \<open>
  A heartbeat of any peer that does not itself ask for State-File acceleration ends the
  acceleration the local host has asked for.
\<close>

lemma peer_heartbeat_ends_acceleration:
  assumes "sfv_SF_access (d_sfv d)" and "\<not> pkt_SF_accelerate pkt"
  shows "sfv_accelerate_count (d_sfv (absorb_packet c now fm pkt (sf_accelerate d))) = 0
    \<and> sfv_interval_ms (d_sfv (absorb_packet c now fm pkt (sf_accelerate d))) = uint (cfg_t2 c * 1000)"
  using assms
  by (simp add: absorb_packet_def Let_def sf_accelerate_def sf_cancel_acceleration_def start_fh_def
      split: prod.split)

section \<open>Concrete runs\<close>

text \<open>Host 1 of a pool of three, fenced-capable, receiving; and a packet of host 0 against it.\<close>

definition receiver :: daemon where
  "receiver = (let d = init_daemon (default_config 3 1) in
     d\<lparr>d_hb := (d_hb d)\<lparr>hb_enable_receive := True\<rparr>,
       d_smv := (d_smv d)\<lparr>smv_fencing := FENCING_ARMED\<rparr>\<rparr>)"

definition sender :: daemon where
  "sender = (let d = init_daemon (default_config 3 0) in
     d\<lparr>d_sm := (d_sm d)\<lparr>sm_current_liveset := hm_of [0, 1], sm_proposed_liveset := hm_of [0]\<rparr>,
       d_hb := (d_hb d)\<lparr>hb_fence_request := True\<rparr>\<rparr>)"

lemma receiver_sel:
  "hb_enable_receive (d_hb receiver)" "fist_quiet (d_fist receiver)" "d_fenced receiver = None"
  "hbv_sequence (d_hbv receiver) = (\<lambda>_. 0)" "smv_fencing (d_smv receiver) = FENCING_ARMED"
  "\<not> hm_ison (sm_current_liveset (d_sm receiver)) i"
  by (simp_all add: receiver_def Let_def init_daemon_def init_com_hb_def fist_on_initial_quiet
      init_hbv_def init_smv_def init_com_sm_def)

theorem receive_fences_iff_requested_witness:
  "d_fenced (receive_hb (default_config 3 1) 50
     (RecvPacket 744 (compose_packet (default_config 3 0) 40 1 sender)) receiver) \<noteq> None"
  using receive_fences_iff_requested[OF receiver_sel(3,2)]
  by (simp add: receiver_sel is_valid_hb_def HB_PACKET_SIZE_def compose_packet_def newer_sequence_def
      fence_wanted_def sender_def Let_def hm_ison_of)

theorem packet_travels_witness:
  "hb_time_last_HB (d_hb (receive_hb (default_config 3 1) 50
     (RecvPacket 744 (compose_packet (default_config 3 0) 40 1 (init_daemon (default_config 3 0))))
     receiver)) 0 = 50"
  using packet_travels[OF refl, where ca = "default_config 3 0" and cb = "default_config 3 1" and sq = 1
      and da = "init_daemon (default_config 3 0)" and db = receiver and now = 50 and t = 40]
  by (simp add: receiver_sel newer_sequence_def init_daemon_def init_com_hb_def Let_def)

lemma peer_heartbeat_ends_acceleration_example:
  "sfv_accelerate_count (d_sfv (absorb_packet (default_config 3 1) 50 0
     (compose_packet (default_config 3 0) 40 1 sender)
     (sf_accelerate (upd_sfv (\<lambda>v. v\<lparr>sfv_SF_access := True\<rparr>) receiver)))) = 0"
  by (rule conjunct1[OF peer_heartbeat_ends_acceleration])
     (simp_all add: compose_packet_def sender_def Let_def init_daemon_def init_com_hb_def)

end
