(* ===== verification/LockMgr.thy ===== *)
theory LockMgr
  imports Heartbeat
begin

text \<open>
  The lock manager, \<^verbatim>\<open>daemon/lock_mgr.c\<close>: one pass of its thread over the lock
  rows of the State-File object, and the two operations the script service calls. The
  thread works on a cached copy of the State-File and state-manager objects
  (\<open>lmv_sf\<close>, \<open>lmv_sm\<close>), which the release callbacks refresh.
\<close>

section \<open>Tests on the cached objects\<close>

definition is_equal_or_prior_to_this_node :: "ha_config \<Rightarrow> nat \<Rightarrow> bool" where
  "is_equal_or_prior_to_this_node c node_index \<longleftrightarrow> my_index c \<ge> node_index"

definition is_online :: "lm_var \<Rightarrow> nat \<Rightarrow> bool" where
  "is_online v node_index \<longleftrightarrow> hm_ison (sm_current_liveset (lmv_sm v)) node_index"

definition am_i_ready_to_request :: "ha_config \<Rightarrow> lm_var \<Rightarrow> bool" where
  "am_i_ready_to_request c v \<longleftrightarrow>
     all_hosts (num_host c) (\<lambda>i.
       if is_online v i then \<not> hm_ison (sf_lm_grant (lmv_sf v) i) (my_index c) else True)
     \<and> all_hosts (num_host c) (\<lambda>i.
       if \<not> is_equal_or_prior_to_this_node c i \<and> is_online v i
       then \<not> hm_ison (sf_lm_grant (lmv_sf v) (my_index c)) i else True)"

definition is_locked :: "ha_config \<Rightarrow> lm_var \<Rightarrow> nat \<Rightarrow> bool" where
  "is_locked c v node_index \<longleftrightarrow>
     (if is_online v node_index then True else False)
     \<and> all_hosts (num_host c) (\<lambda>i.
       if is_online v i then hm_ison (sf_lm_grant (lmv_sf v) i) node_index else True)"

text \<open>\<open>None\<close> is \<open>INVALID_NODE\<close>.\<close>

definition get_lock_node :: "ha_config \<Rightarrow> lm_var \<Rightarrow> nat option" where
  "get_lock_node c v = first_host (num_host c) (is_locked c v)"

definition is_requesting :: "lm_var \<Rightarrow> nat \<Rightarrow> bool" where
  "is_requesting v node_index \<longleftrightarrow> lmv_pending_request v \<or> sf_lm_request (lmv_sf v) node_index"

section \<open>One pass of the thread\<close>

text \<open>Cancelling the grants whose request is gone, in the row of the local host.\<close>

definition lm_cancel_grants :: "ha_config \<Rightarrow> lm_var \<Rightarrow> com_data_sf \<Rightarrow> com_data_sf" where
  "lm_cancel_grants c v psf = for_hosts (num_host c) (\<lambda>i s.
     if \<not> sf_lm_request (lmv_sf v) i \<or> \<not> is_online v i
     then s\<lparr>sf_lm_grant := (sf_lm_grant s)(my_index c := hm_reset (sf_lm_grant s (my_index c)) i)\<rparr>
     else s) psf"

definition lm_process_requests :: "ha_config \<Rightarrow> lm_var \<times> com_data_sf \<Rightarrow> lm_var \<times> com_data_sf" where
  "lm_process_requests c = (\<lambda>(v, psf).
     let (v1, psf1) =
           (if lmv_pending_request v \<and> am_i_ready_to_request c v
            then (v\<lparr>lmv_pending_request := False\<rparr>,
                  psf\<lparr>sf_lm_request := (sf_lm_request psf)(my_index c := True)\<rparr>)
            else (v, psf))
     in if lmv_cancel_request v1
        then (v1\<lparr>lmv_pending_request := False, lmv_cancel_request := False\<rparr>,
              psf1\<lparr>sf_lm_request := (sf_lm_request psf1)(my_index c := False)\<rparr>)
        else (v1, psf1))"

definition lm_grant_others :: "ha_config \<Rightarrow> lm_var \<Rightarrow> com_data_sf \<Rightarrow> com_data_sf" where
  "lm_grant_others c v psf = for_hosts (num_host c) (\<lambda>i s.
     if sf_lm_request (lmv_sf v) i \<and> is_online v i
        \<and> (\<not> sf_lm_request s (my_index c) \<or> is_equal_or_prior_to_this_node c i)
     then s\<lparr>sf_lm_grant := (sf_lm_grant s)(my_index c := hm_set (sf_lm_grant s (my_index c)) i)\<rparr>
     else s) psf"

definition lock_mgr_pass :: "ha_config \<Rightarrow> daemon \<Rightarrow> daemon" where
  "lock_mgr_pass c d =
     (let v = d_lmv d in
      if lmv_terminate v then d
      else if \<not> sf_access (lmv_sf v) \<or> \<not> is_online v (my_index c) then d
      else
       let psf1 = lm_cancel_grants c v (d_sf d);
           (v2, psf2) = lm_process_requests c (v, psf1);
           psf3 = lm_grant_others c v2 psf2;
           v3 = v2\<lparr>lmv_first_cleanup_done := True, lmv_sf := psf3\<rparr>
       in unlock_sf False (d\<lparr>d_lmv := v3, d_sf := psf3\<rparr>))"

section \<open>Requesting and cancelling\<close>

text \<open>
  Both operations wait on a condition variable. The other threads are a list of events,
  one per wake-up; \<open>None\<close> means that the call is still waiting when the list ends. The
  clock is only used for the packets that announce the acceleration.
\<close>

fun lm_wait_first_cleanup :: "(daemon \<Rightarrow> daemon) list \<Rightarrow> daemon
  \<Rightarrow> ((daemon \<Rightarrow> daemon) list \<times> daemon) option" where
  "lm_wait_first_cleanup [] d =
     (if lmv_first_cleanup_done (d_lmv d) then Some ([], d) else None)"
| "lm_wait_first_cleanup (e # es) d =
     (if lmv_first_cleanup_done (d_lmv d) then Some (e # es, d) else lm_wait_first_cleanup es (e d))"

text \<open>The second component is the last value of \<open>index\<close>.\<close>

fun lm_wait_lock :: "ha_config \<Rightarrow> (daemon \<Rightarrow> daemon) list \<Rightarrow> daemon \<Rightarrow> (nat option \<times> daemon) option" where
  "lm_wait_lock c [] d =
     (case get_lock_node c (d_lmv d) of Some i \<Rightarrow> Some (Some i, d) | None \<Rightarrow> None)"
| "lm_wait_lock c (e # es) d =
     (case get_lock_node c (d_lmv d) of
        Some i \<Rightarrow> Some (Some i, d)
      | None \<Rightarrow>
          (let d1 = e d in
           if \<not> is_requesting (d_lmv d1) (my_index c) \<or> \<not> sf_access (lmv_sf (d_lmv d1))
           then Some (None, d1) else lm_wait_lock c es d1))"

definition lm_request_lock :: "ha_config \<Rightarrow> uuid \<Rightarrow> (nat \<Rightarrow> clock) \<Rightarrow> (daemon \<Rightarrow> daemon) list \<Rightarrow> daemon
  \<Rightarrow> (bool \<times> daemon) option" where
  "lm_request_lock c uuidMaster now evs d =
     (case lm_wait_first_cleanup evs d of
        None \<Rightarrow> None
      | Some (evs1, d1) \<Rightarrow>
          (case get_lock_node c (d_lmv d1) of
             Some i \<Rightarrow> (if i = my_index c then Some (True, sf_set_master uuidMaster d1)
                        else Some (False, d1))
           | None \<Rightarrow>
               (let d2 = hb_SF_accelerate_req c False now
                           (upd_lmv (\<lambda>v. v\<lparr>lmv_pending_request := True\<rparr>) d1)
                in case lm_wait_lock c evs1 d2 of
                     None \<Rightarrow> None
                   | Some (index, d3) \<Rightarrow>
                       (let d4 = hb_SF_cancel_accelerate c False now d3
                        in if index = Some (my_index c)
                           then Some (True, sf_set_master uuidMaster d4)
                           else Some (False, upd_lmv (\<lambda>v. v\<lparr>lmv_cancel_request := True\<rparr>) d4)))))"

fun lm_wait_cancel :: "(daemon \<Rightarrow> daemon) list \<Rightarrow> daemon \<Rightarrow> daemon option" where
  "lm_wait_cancel [] d = (if lmv_cancel_request (d_lmv d) then None else Some d)"
| "lm_wait_cancel (e # es) d = (if lmv_cancel_request (d_lmv d) then lm_wait_cancel es (e d) else Some d)"

definition lm_cancel_lock :: "(daemon \<Rightarrow> daemon) list \<Rightarrow> daemon \<Rightarrow> daemon option" where
  "lm_cancel_lock evs d = lm_wait_cancel evs (upd_lmv (\<lambda>v. v\<lparr>lmv_cancel_request := True\<rparr>) d)"

section \<open>The row of the local host after a pass\<close>

lemma lm_cancel_grants_keeps [simp]:
  "sf_lm_request (lm_cancel_grants c v s) = sf_lm_request s"
  "j \<noteq> my_index c \<Longrightarrow> sf_lm_grant (lm_cancel_grants c v s) j = sf_lm_grant s j"
  "sf_access (lm_cancel_grants c v s) = sf_access s"
  unfolding lm_cancel_grants_def by (rule for_hosts_frame; simp)+

lemma lm_cancel_grants_row:
  assumes "num_host c \<le> 64" and "j < 64"
  shows "hm_ison (sf_lm_grant (lm_cancel_grants c v s) (my_index c)) j \<longleftrightarrow>
    hm_ison (sf_lm_grant s (my_index c)) j
    \<and> \<not> (j < num_host c \<and> (\<not> sf_lm_request (lmv_sf v) j \<or> \<not> is_online v j))"
  unfolding lm_cancel_grants_def
  by (rule for_hosts_inv[where I = "\<lambda>k t. hm_ison (sf_lm_grant t (my_index c)) j \<longleftrightarrow>
        hm_ison (sf_lm_grant s (my_index c)) j
        \<and> \<not> (j < k \<and> (\<not> sf_lm_request (lmv_sf v) j \<or> \<not> is_online v j))"])
     (use assms in \<open>auto simp: hm_ison_reset less_Suc_eq\<close>)

lemma lm_grant_others_keeps [simp]:
  "sf_lm_request (lm_grant_others c v s) = sf_lm_request s"
  "j \<noteq> my_index c \<Longrightarrow> sf_lm_grant (lm_grant_others c v s) j = sf_lm_grant s j"
  "sf_access (lm_grant_others c v s) = sf_access s"
  unfolding lm_grant_others_def by (rule for_hosts_frame; simp)+

lemma lm_grant_others_row:
  assumes "num_host c \<le> 64" and "j < 64"
  shows "hm_ison (sf_lm_grant (lm_grant_others c v s) (my_index c)) j \<longleftrightarrow>
    hm_ison (sf_lm_grant s (my_index c)) j
    \<or> (j < num_host c \<and> sf_lm_request (lmv_sf v) j \<and> is_online v j
       \<and> (\<not> sf_lm_request s (my_index c) \<or> is_equal_or_prior_to_this_node c j))"
proof -
  have "sf_lm_request (lm_grant_others c v s) = sf_lm_request s
    \<and> (hm_ison (sf_lm_grant (lm_grant_others c v s) (my_index c)) j \<longleftrightarrow>
    hm_ison (sf_lm_grant s (my_index c)) j
    \<or> (j < num_host c \<and> sf_lm_request (lmv_sf v) j \<and> is_online v j
       \<and> (\<not> sf_lm_request s (my_index c) \<or> is_equal_or_prior_to_this_node c j)))"
    unfolding lm_grant_others_def
    by (rule for_hosts_inv[where I = "\<lambda>k t. sf_lm_request t = sf_lm_request s
        \<and> (hm_ison (sf_lm_grant t (my_index c)) j \<longleftrightarrow>
        hm_ison (sf_lm_grant s (my_index c)) j
        \<or> (j < k \<and> sf_lm_request (lmv_sf v) j \<and> is_online v j
           \<and> (\<not> sf_lm_request s (my_index c) \<or> is_equal_or_prior_to_this_node c j)))"])
       (use assms in \<open>auto simp: hm_ison_set less_Suc_eq\<close>)
  then show ?thesis by blast
qed

lemma lm_process_requests_cases:
  assumes "lm_process_requests c (v, s) = (v', s')"
  shows "sf_lm_grant s' = sf_lm_grant s"
    and "j \<noteq> my_index c \<Longrightarrow> sf_lm_request s' j = sf_lm_request s j"
    and "sf_lm_request s' (my_index c) \<longleftrightarrow> \<not> lmv_cancel_request v \<and>
           ((lmv_pending_request v \<and> am_i_ready_to_request c v) \<or> sf_lm_request s (my_index c))"
    and "lmv_sf v' = lmv_sf v" "lmv_sm v' = lmv_sm v" "\<not> lmv_cancel_request v'"
    and "lmv_pending_request v' \<longleftrightarrow> lmv_pending_request v \<and> \<not> am_i_ready_to_request c v
           \<and> \<not> lmv_cancel_request v"
    and "sf_access s' = sf_access s"
  using assms by (auto simp: lm_process_requests_def Let_def split: if_splits)

end
