(* ===== verification/LockProps.thy ===== *)
theory LockProps
  imports LockMgr StateFileProps
begin

text \<open>
  The lock manager as a protocol between hosts. First one pass of \<open>lock_mgr\<close> is shown
  to implement two Boolean equations on the local row (\<open>lm_next_request\<close>,
  \<open>lm_next_grant\<close>). Then the hosts are put together: each has its row, the row of it
  that is in the State-File, and its copies of the rows of the others, which may be
  arbitrarily old. Mutual exclusion is an invariant of the reachable states as long as a
  request is only withdrawn after it was granted; two traces show what happens otherwise.
\<close>

section \<open>The equations of a pass\<close>

definition lm_ready :: "nat \<Rightarrow> (nat \<Rightarrow> bool) \<Rightarrow> nat \<Rightarrow> (nat \<Rightarrow> nat \<Rightarrow> bool) \<Rightarrow> bool" where
  "lm_ready n on me gr \<longleftrightarrow> all_hosts n (\<lambda>i. on i \<longrightarrow> \<not> gr i me)
     \<and> all_hosts n (\<lambda>i. me < i \<and> on i \<longrightarrow> \<not> gr me i)"

definition lm_next_request :: "nat \<Rightarrow> (nat \<Rightarrow> bool) \<Rightarrow> nat \<Rightarrow> bool \<Rightarrow> bool \<Rightarrow> (nat \<Rightarrow> bool)
  \<Rightarrow> (nat \<Rightarrow> nat \<Rightarrow> bool) \<Rightarrow> bool" where
  "lm_next_request n on me pend canc rq gr \<longleftrightarrow> \<not> canc \<and> ((pend \<and> lm_ready n on me gr) \<or> rq me)"

definition lm_next_grant :: "(nat \<Rightarrow> bool) \<Rightarrow> nat \<Rightarrow> bool \<Rightarrow> (nat \<Rightarrow> bool) \<Rightarrow> (nat \<Rightarrow> nat \<Rightarrow> bool)
  \<Rightarrow> nat \<Rightarrow> bool" where
  "lm_next_grant on me rq' rq gr j \<longleftrightarrow> rq j \<and> on j \<and> (gr me j \<or> \<not> rq' \<or> j \<le> me)"

text \<open>The rows of an object, as Boolean functions.\<close>

definition rows_request :: "com_data_sf \<Rightarrow> nat \<Rightarrow> bool" where
  "rows_request s = sf_lm_request s"

definition rows_grant :: "com_data_sf \<Rightarrow> nat \<Rightarrow> nat \<Rightarrow> bool" where
  "rows_grant s i j = hm_ison (sf_lm_grant s i) j"

definition lm_active :: "ha_config \<Rightarrow> daemon \<Rightarrow> bool" where
  "lm_active c d \<longleftrightarrow> \<not> lmv_terminate (d_lmv d) \<and> sf_access (lmv_sf (d_lmv d))
     \<and> is_online (d_lmv d) (my_index c)"

text \<open>The cache is up to date in the lock rows (the last release refreshed it).\<close>

definition lm_synced :: "daemon \<Rightarrow> bool" where
  "lm_synced d \<longleftrightarrow> rows_request (lmv_sf (d_lmv d)) = rows_request (d_sf d)
     \<and> rows_grant (lmv_sf (d_lmv d)) = rows_grant (d_sf d)"

lemma lm_synced_unlock: "lm_synced (unlock_sf b d)"
  by (simp add: lm_synced_def rows_request_def rows_grant_def fun_eq_iff)

lemma am_i_ready_lm_ready:
  "am_i_ready_to_request c v = lm_ready (num_host c) (is_online v) (my_index c) (rows_grant (lmv_sf v))"
  by (auto simp: am_i_ready_to_request_def lm_ready_def rows_grant_def
      is_equal_or_prior_to_this_node_def)

text \<open>
  One pass computes, for the row of the local host, exactly the two equations, leaves every
  other row alone, answers a cancellation, and hands its result to its own cache.
\<close>

lemma lock_mgr_pass_rows:
  assumes n: "num_host c \<le> 64" and sync: "lm_synced d" and act: "lm_active c d"
  defines "v \<equiv> d_lmv d" and "d' \<equiv> lock_mgr_pass c d" and "me \<equiv> my_index c"
  shows "rows_request (d_sf d') me = lm_next_request (num_host c) (is_online v) me
           (lmv_pending_request v) (lmv_cancel_request v) (rows_request (d_sf d)) (rows_grant (d_sf d))
    \<and> (\<forall>j. j \<ge> num_host c \<or> rows_grant (d_sf d') me j =
         lm_next_grant (is_online v) me (rows_request (d_sf d') me) (rows_request (d_sf d))
           (rows_grant (d_sf d)) j)
    \<and> (\<forall>i. i = me \<or> rows_request (d_sf d') i = rows_request (d_sf d) i
              \<and> rows_grant (d_sf d') i = rows_grant (d_sf d) i)
    \<and> \<not> lmv_cancel_request (d_lmv d') \<and> lm_synced d'"
proof -
  obtain v2 s2 where pr: "lm_process_requests c (v, lm_cancel_grants c v (d_sf d)) = (v2, s2)"
    by fastforce
  note p = lm_process_requests_cases[OF pr]
  let ?s3 = "lm_grant_others c v2 s2"
  have d': "d' = unlock_sf False (d\<lparr>d_lmv := v2\<lparr>lmv_first_cleanup_done := True, lmv_sf := ?s3\<rparr>, d_sf := ?s3\<rparr>)"
    using act pr by (simp add: d'_def lock_mgr_pass_def lm_active_def v_def Let_def)
  have sf': "sf_lm_request (d_sf d') = sf_lm_request s2" "sf_lm_grant (d_sf d') = sf_lm_grant ?s3"
    "lmv_cancel_request (d_lmv d') = lmv_cancel_request v2"
    by (simp_all add: d')
  have S: "sf_lm_request (lmv_sf v) = rows_request (d_sf d)" "rows_grant (lmv_sf v) = rows_grant (d_sf d)"
    using sync by (simp_all add: lm_synced_def rows_request_def v_def)
  have req: "rows_request (d_sf d') me = lm_next_request (num_host c) (is_online v) me
       (lmv_pending_request v) (lmv_cancel_request v) (rows_request (d_sf d)) (rows_grant (d_sf d))"
    using p(3) S by (simp add: rows_request_def sf' lm_next_request_def am_i_ready_lm_ready me_def)
  have gr: "rows_grant (d_sf d') me j = lm_next_grant (is_online v) me (rows_request (d_sf d') me)
      (rows_request (d_sf d)) (rows_grant (d_sf d)) j" if "j < num_host c" for j
  proof -
    have "j < 64" using that n by simp
    show ?thesis
      using that p(4,5) S
      unfolding rows_grant_def rows_request_def sf' me_def lm_next_grant_def
        lm_grant_others_row[OF n \<open>j < 64\<close>] p(1) lm_cancel_grants_row[OF n \<open>j < 64\<close>]
      by (auto simp: is_equal_or_prior_to_this_node_def is_online_def rows_request_def rows_grant_def)
  qed
  have "rows_request (d_sf d') i = rows_request (d_sf d) i \<and> rows_grant (d_sf d') i = rows_grant (d_sf d) i"
    if "i \<noteq> me" for i
    using that p(1) p(2)[of i] by (simp add: rows_request_def rows_grant_def sf' me_def fun_eq_iff)
  moreover have "\<not> lmv_cancel_request (d_lmv d')"
    using p(6) by (simp add: sf')
  moreover have "lm_synced d'"
    unfolding d' by (rule lm_synced_unlock)
  ultimately show ?thesis
    using req gr by (meson not_le)
qed

text \<open>A lock manager that may run, on host 0 of three, with hosts 0 and 1 online.\<close>

definition lm_daemon :: "ha_config \<Rightarrow> daemon" where
  "lm_daemon c = (let d = init_daemon c; sf = (d_sf d)\<lparr>sf_access := True\<rparr> in
     d\<lparr>d_sf := sf, d_lmv := (d_lmv d)\<lparr>lmv_sf := sf,
         lmv_sm := (d_sm d)\<lparr>sm_current_liveset := hm_of [0, 1]\<rparr>,
         lmv_pending_request := True\<rparr>\<rparr>)"

lemma lm_daemon_active:
  "lm_synced (lm_daemon (default_config 3 0))" "lm_active (default_config 3 0) (lm_daemon (default_config 3 0))"
  by (simp_all add: lm_daemon_def lm_synced_def rows_request_def rows_grant_def fun_eq_iff
      lm_active_def is_online_def hm_ison_of Let_def init_daemon_def init_lmv_def)

section \<open>A requesting host grants to no host of lower priority\<close>

definition own_row_safe :: "ha_config \<Rightarrow> daemon \<Rightarrow> bool" where
  "own_row_safe c d \<longleftrightarrow> (rows_request (d_sf d) (my_index c) \<longrightarrow>
     (\<forall>j<num_host c. my_index c < j \<longrightarrow> \<not> (rows_grant (d_sf d) (my_index c) j \<and> is_online (d_lmv d) j)))"

lemma lm_next_safe:
  assumes safe: "rq me \<Longrightarrow> \<not> (gr me j \<and> on j)"
    and rq': "lm_next_request n on me pend canc rq gr" and j: "me < j" "j < n"
  shows "\<not> lm_next_grant on me True rq gr j"
proof -
  have "\<not> (gr me j \<and> on j)"
    using rq' safe j by (auto simp: lm_next_request_def lm_ready_def)
  then show ?thesis using j by (auto simp: lm_next_grant_def)
qed

lemma is_online_lmv_sm: "lmv_sm v' = lmv_sm v \<Longrightarrow> is_online v' = is_online v"
  by (simp add: is_online_def fun_eq_iff)

lemma lock_mgr_pass_lmv_sm: "lmv_sm (d_lmv (lock_mgr_pass c d)) = lmv_sm (d_lmv d)"
  by (auto simp: lock_mgr_pass_def Let_def lm_process_requests_def split: prod.splits if_splits)

text \<open>
  The invariant the lock rests on: a host whose request flag is set holds out no grant to
  an online host of lower priority, and every pass of the lock manager preserves this.
\<close>

lemma lock_mgr_pass_safe:
  assumes n: "num_host c \<le> 64" and sync: "lm_synced d" and safe: "own_row_safe c d"
  shows "own_row_safe c (lock_mgr_pass c d)"
proof (cases "lm_active c d")
  case False
  then have "lock_mgr_pass c d = d"
    by (auto simp: lm_active_def lock_mgr_pass_def Let_def)
  with safe show ?thesis by simp
next
  case True
  let ?d' = "lock_mgr_pass c d" and ?me = "my_index c"
  note eqs = lock_mgr_pass_rows[OF n sync True]
  have on: "is_online (d_lmv ?d') = is_online (d_lmv d)"
    by (rule is_online_lmv_sm[OF lock_mgr_pass_lmv_sm])
  show ?thesis
    unfolding own_row_safe_def on
  proof (intro impI allI)
    fix j
    assume r: "rows_request (d_sf ?d') ?me" and j: "j < num_host c" "?me < j"
    have "\<not> lm_next_grant (is_online (d_lmv d)) ?me True (rows_request (d_sf d)) (rows_grant (d_sf d)) j"
      using safe r eqs j by (intro lm_next_safe) (auto simp: own_row_safe_def)
    then show "\<not> (rows_grant (d_sf ?d') ?me j \<and> is_online (d_lmv d) j)"
      using eqs r j by (metis not_le)
  qed
qed

lemma lock_mgr_pass_safe_example:
  "own_row_safe (default_config 3 0) (lock_mgr_pass (default_config 3 0) (lm_daemon (default_config 3 0)))"
  by (rule lock_mgr_pass_safe[OF _ lm_daemon_active(1)])
     (simp_all add: own_row_safe_def lm_daemon_def Let_def init_daemon_def rows_request_def init_com_sf_lm)

section \<open>Hosts, file and views\<close>

text \<open>
  \<open>v_req i j\<close> and \<open>v_gr i j k\<close> are host \<open>i\<close>'s copies of the row of host \<open>j\<close>;
  its own row it always sees. \<open>p_hold i\<close>: the script on host \<open>i\<close> was told that it has
  the lock and has not cancelled it.
\<close>

record lp_state =
  p_req :: "nat \<Rightarrow> bool"
  p_gr :: "nat \<Rightarrow> nat \<Rightarrow> bool"
  f_req :: "nat \<Rightarrow> bool"
  f_gr :: "nat \<Rightarrow> nat \<Rightarrow> bool"
  v_req :: "nat \<Rightarrow> nat \<Rightarrow> bool"
  v_gr :: "nat \<Rightarrow> nat \<Rightarrow> nat \<Rightarrow> bool"
  p_pend :: "nat \<Rightarrow> bool"
  p_canc :: "nat \<Rightarrow> bool"
  p_hold :: "nat \<Rightarrow> bool"

definition see_req :: "lp_state \<Rightarrow> nat \<Rightarrow> nat \<Rightarrow> bool" where
  "see_req s i j = (if j = i then p_req s i else v_req s i j)"

definition see_gr :: "lp_state \<Rightarrow> nat \<Rightarrow> nat \<Rightarrow> nat \<Rightarrow> bool" where
  "see_gr s i j k = (if j = i then p_gr s i k else v_gr s i j k)"

definition lp_init :: lp_state where
  "lp_init = \<lparr>p_req = (\<lambda>_. False), p_gr = (\<lambda>_ _. False), f_req = (\<lambda>_. False), f_gr = (\<lambda>_ _. False),
     v_req = (\<lambda>_ _. False), v_gr = (\<lambda>_ _ _. False), p_pend = (\<lambda>_. False),
     p_canc = (\<lambda>_. False), p_hold = (\<lambda>_. False)\<rparr>"

text \<open>The host that has the lock, as host \<open>i\<close> sees it; \<open>i\<close> takes itself for the holder.\<close>

definition lp_looks :: "nat \<Rightarrow> (nat \<Rightarrow> bool) \<Rightarrow> lp_state \<Rightarrow> nat \<Rightarrow> nat \<Rightarrow> bool" where
  "lp_looks n on s i k \<longleftrightarrow> on k \<and> all_hosts n (\<lambda>j. on j \<longrightarrow> see_gr s i j k)"

definition lp_locked :: "nat \<Rightarrow> (nat \<Rightarrow> bool) \<Rightarrow> lp_state \<Rightarrow> nat \<Rightarrow> bool" where
  "lp_locked n on s i \<longleftrightarrow> lp_looks n on s i i \<and> all_hosts i (\<lambda>k. \<not> lp_looks n on s i k)"

text \<open>
  The actions: the script asks, gives up or cancels, or is told it has the lock; the lock
  manager runs a pass; the State-File thread writes the local row or reads one.
\<close>

datatype lp_action = Ask nat | Acquire nat | Drop nat | Pass nat | PutRow nat | GetRow nat nat

text \<open>
  \<open>careful\<close> is the discipline: a host drops its request only while it holds the lock, and
  the lock is taken as acquired only while the request is standing.
\<close>

fun lp_guard :: "nat \<Rightarrow> (nat \<Rightarrow> bool) \<Rightarrow> bool \<Rightarrow> lp_action \<Rightarrow> lp_state \<Rightarrow> bool" where
  "lp_guard n on careful (Ask i) s \<longleftrightarrow> i < n \<and> on i"
| "lp_guard n on careful (Acquire i) s \<longleftrightarrow> i < n \<and> lp_locked n on s i
     \<and> (careful \<longrightarrow> p_req s i \<and> \<not> p_canc s i)"
| "lp_guard n on careful (Drop i) s \<longleftrightarrow> i < n \<and> on i \<and> (careful \<longrightarrow> p_hold s i)"
| "lp_guard n on careful (Pass i) s \<longleftrightarrow> i < n \<and> on i"
| "lp_guard n on careful (PutRow i) s \<longleftrightarrow> i < n"
| "lp_guard n on careful (GetRow i j) s \<longleftrightarrow> i < n \<and> j < n \<and> i \<noteq> j"

fun lp_effect :: "nat \<Rightarrow> (nat \<Rightarrow> bool) \<Rightarrow> lp_action \<Rightarrow> lp_state \<Rightarrow> lp_state" where
  "lp_effect n on (Ask i) s = s\<lparr>p_pend := (p_pend s)(i := True)\<rparr>"
| "lp_effect n on (Acquire i) s = s\<lparr>p_hold := (p_hold s)(i := True)\<rparr>"
| "lp_effect n on (Drop i) s = s\<lparr>p_canc := (p_canc s)(i := True), p_hold := (p_hold s)(i := False)\<rparr>"
| "lp_effect n on (Pass i) s =
     (let rq' = lm_next_request n on i (p_pend s i) (p_canc s i) (see_req s i) (see_gr s i)
      in s\<lparr>p_req := (p_req s)(i := rq'),
           p_gr := (p_gr s)(i := for_hosts n (\<lambda>j g.
                     g(j := lm_next_grant on i rq' (see_req s i) (see_gr s i) j)) (p_gr s i)),
           p_pend := (p_pend s)(i := p_pend s i \<and> \<not> lm_ready n on i (see_gr s i) \<and> \<not> p_canc s i),
           p_canc := (p_canc s)(i := False)\<rparr>)"
| "lp_effect n on (PutRow i) s = s\<lparr>f_req := (f_req s)(i := p_req s i), f_gr := (f_gr s)(i := p_gr s i)\<rparr>"
| "lp_effect n on (GetRow i j) s =
     s\<lparr>v_req := (v_req s)(i := (v_req s i)(j := f_req s j)),
       v_gr := (v_gr s)(i := (v_gr s i)(j := f_gr s j))\<rparr>"

inductive lp_reach :: "nat \<Rightarrow> (nat \<Rightarrow> bool) \<Rightarrow> bool \<Rightarrow> lp_state \<Rightarrow> lp_state \<Rightarrow> bool"
  for n on careful s0 where
  start: "lp_reach n on careful s0 s0"
| act: "lp_reach n on careful s0 s \<Longrightarrow> lp_guard n on careful a s \<Longrightarrow> lp_reach n on careful s0 (lp_effect n on a s)"

text \<open>
  How a pool starts: nothing is requested, withdrawn or held. Grants may be left over, as every
  daemon starts with a full row of them, but only such as the file and the copy of the host they
  are for have as well.
\<close>

definition lp_start :: "nat \<Rightarrow> (nat \<Rightarrow> bool) \<Rightarrow> lp_state \<Rightarrow> bool" where
  "lp_start n on s \<longleftrightarrow> (\<forall>i. \<not> p_hold s i \<and> \<not> p_canc s i) \<and> (\<forall>i<n. \<not> p_req s i \<and> \<not> f_req s i)
     \<and> (\<forall>i<n. \<forall>j<n. \<not> v_req s i j)
     \<and> (\<forall>i<n. \<forall>j<n. i \<noteq> j \<and> on i \<and> on j \<longrightarrow> (p_gr s j i \<longrightarrow> f_gr s j i) \<and> (f_gr s j i \<longrightarrow> v_gr s i j i))"

section \<open>Mutual exclusion\<close>

text \<open>
  A request travels from the requester's row to the file, to the grantor's copy, to its
  grant, to the file and back to the requester's copy. At most one change of the request
  is under way: along this chain the values are those of the request up to some point, and
  the opposite after it.
\<close>

definition lp_chain :: "lp_state \<Rightarrow> nat \<Rightarrow> nat \<Rightarrow> bool" where
  "lp_chain s i j \<longleftrightarrow>
     (if p_req s i
      then (v_gr s i j i \<longrightarrow> f_gr s j i) \<and> (f_gr s j i \<longrightarrow> p_gr s j i)
           \<and> (p_gr s j i \<longrightarrow> v_req s j i) \<and> (v_req s j i \<longrightarrow> f_req s i)
      else (f_req s i \<longrightarrow> v_req s j i) \<and> (v_req s j i \<longrightarrow> p_gr s j i)
           \<and> (p_gr s j i \<longrightarrow> f_gr s j i) \<and> (f_gr s j i \<longrightarrow> v_gr s i j i))"

definition lp_chains :: "nat \<Rightarrow> (nat \<Rightarrow> bool) \<Rightarrow> lp_state \<Rightarrow> bool" where
  "lp_chains n on s \<longleftrightarrow> (\<forall>i<n. \<forall>j<n. on i \<and> on j \<and> i \<noteq> j \<longrightarrow> lp_chain s i j)"

definition lp_granted :: "nat \<Rightarrow> (nat \<Rightarrow> bool) \<Rightarrow> lp_state \<Rightarrow> bool" where
  "lp_granted n on s \<longleftrightarrow> (\<forall>i<n. p_hold s i \<or> p_canc s i \<longrightarrow>
     on i \<and> p_req s i \<and> (\<forall>j<n. on j \<longrightarrow> see_gr s i j i))"

definition lp_prior :: "nat \<Rightarrow> (nat \<Rightarrow> bool) \<Rightarrow> lp_state \<Rightarrow> bool" where
  "lp_prior n on s \<longleftrightarrow> (\<forall>i<n. on i \<and> p_req s i \<longrightarrow> (\<forall>k<n. i < k \<and> on k \<longrightarrow> \<not> p_gr s i k))"

definition lp_inv :: "nat \<Rightarrow> (nat \<Rightarrow> bool) \<Rightarrow> lp_state \<Rightarrow> bool" where
  "lp_inv n on s \<longleftrightarrow> lp_chains n on s \<and> lp_granted n on s \<and> lp_prior n on s
     \<and> (\<forall>i. \<not> (p_hold s i \<and> p_canc s i))"

lemma lp_chain_granted:
  "lp_chain s i j \<Longrightarrow> p_req s i \<Longrightarrow> v_gr s i j i \<Longrightarrow>
     f_gr s j i \<and> p_gr s j i \<and> v_req s j i \<and> f_req s i"
  by (auto simp: lp_chain_def)

lemma lp_chain_idle:
  "lp_chain s i j \<Longrightarrow> \<not> p_req s i \<Longrightarrow> \<not> v_gr s i j i \<Longrightarrow>
     \<not> f_gr s j i \<and> \<not> p_gr s j i \<and> \<not> v_req s j i \<and> \<not> f_req s i"
  by (auto simp: lp_chain_def)

lemma lp_inv_start: "lp_start n on s \<Longrightarrow> lp_inv n on s"
  by (simp add: lp_start_def lp_inv_def lp_chains_def lp_chain_def lp_granted_def lp_prior_def)

lemma lp_inv_put:
  assumes inv: "lp_inv n on s"
  shows "lp_inv n on (lp_effect n on (PutRow i) s)"
proof -
  define s' where "s' = lp_effect n on (PutRow i) s"
  have f: "f_req s' = (f_req s)(i := p_req s i)" "f_gr s' = (f_gr s)(i := p_gr s i)"
    and k: "p_req s' = p_req s" "p_gr s' = p_gr s" "v_req s' = v_req s" "v_gr s' = v_gr s"
      "p_hold s' = p_hold s" "p_canc s' = p_canc s"
    by (simp_all add: s'_def)
  have "lp_chain s' a b" if "lp_chain s a b" "a \<noteq> b" for a b
    using that unfolding lp_chain_def f k by (cases "a = i"; cases "b = i") (auto split: if_splits)
  then have "lp_chains n on s'"
    using inv unfolding lp_inv_def lp_chains_def by blast
  moreover have "lp_granted n on s' = lp_granted n on s" "lp_prior n on s' = lp_prior n on s"
    unfolding lp_granted_def lp_prior_def see_gr_def k by (rule refl)+
  ultimately show ?thesis
    using inv unfolding lp_inv_def k s'_def[symmetric] by blast
qed

lemma lp_inv_get:
  assumes inv: "lp_inv n on s" and ij: "i < n" "j < n" "i \<noteq> j"
  shows "lp_inv n on (lp_effect n on (GetRow i j) s)"
proof -
  define s' where "s' = lp_effect n on (GetRow i j) s"
  have v: "\<And>a b. v_req s' a b = (if a = i \<and> b = j then f_req s j else v_req s a b)"
      "\<And>a b c. v_gr s' a b c = (if a = i \<and> b = j then f_gr s j c else v_gr s a b c)"
    and k: "p_req s' = p_req s" "p_gr s' = p_gr s" "f_req s' = f_req s" "f_gr s' = f_gr s"
      "p_hold s' = p_hold s" "p_canc s' = p_canc s"
    by (simp_all add: s'_def)
  have chain: "lp_chain s a b" if "a < n" "b < n" "on a" "on b" "a \<noteq> b" for a b
    using inv that by (simp add: lp_inv_def lp_chains_def)
  have "lp_chain s' a b" if "lp_chain s a b" "a \<noteq> b" for a b
    using that ij unfolding lp_chain_def v k
    by (cases "a = i \<and> b = j"; cases "b = i \<and> a = j") (auto split: if_splits)
  then have "lp_chains n on s'"
    using inv unfolding lp_inv_def lp_chains_def by blast
  moreover have "lp_granted n on s'"
    unfolding lp_granted_def
  proof (intro allI impI)
    fix m
    assume m: "m < n" "p_hold s' m \<or> p_canc s' m"
    then have g: "on m" "p_req s m" "\<And>b. b < n \<Longrightarrow> on b \<Longrightarrow> see_gr s m b m"
      using inv unfolding k lp_inv_def lp_granted_def by blast+
    have "f_gr s j m" if "m = i" "on j"
      using lp_chain_granted[OF chain[of i j]] g(1,2) g(3)[of j] ij that by (simp add: see_gr_def)
    then show "on m \<and> p_req s' m \<and> (\<forall>b<n. on b \<longrightarrow> see_gr s' m b m)"
      using g ij unfolding see_gr_def v k by auto
  qed
  moreover have "lp_prior n on s' = lp_prior n on s"
    unfolding lp_prior_def k by (rule refl)
  ultimately show ?thesis
    using inv unfolding lp_inv_def k s'_def[symmetric] by blast
qed

lemma lp_inv_pass:
  assumes inv: "lp_inv n on s" and i: "i < n" "on i"
  shows "lp_inv n on (lp_effect n on (Pass i) s)"
proof -
  define s' where "s' = lp_effect n on (Pass i) s"
  define rq' where "rq' = lm_next_request n on i (p_pend s i) (p_canc s i) (see_req s i) (see_gr s i)"
  have chains: "lp_chain s a b" if "a < n" "b < n" "on a" "on b" "a \<noteq> b" for a b
    using inv that by (simp add: lp_inv_def lp_chains_def)
  have req: "p_req s' = (p_req s)(i := rq')"
    and gr: "\<And>k. k < n \<Longrightarrow> p_gr s' i k = lm_next_grant on i rq' (see_req s i) (see_gr s i) k"
    and other: "\<And>m. m \<noteq> i \<Longrightarrow> p_gr s' m = p_gr s m"
    and same: "f_req s' = f_req s" "f_gr s' = f_gr s" "v_req s' = v_req s" "v_gr s' = v_gr s"
      "p_hold s' = p_hold s" "p_canc s' = (p_canc s)(i := False)"
    by (simp_all add: Let_def s'_def rq'_def for_hosts_array)
  have granted: "on a \<and> p_req s a \<and> (\<forall>j<n. on j \<longrightarrow> see_gr s a j a)"
    if "a < n" "p_hold s a \<or> p_canc s a" for a
    using inv that unfolding lp_inv_def lp_granted_def by blast
  have "lp_chain s' a b" if ab: "a < n" "b < n" "on a" "on b" "a \<noteq> b" for a b
  proof (cases "a = i")
    case True
    have b: "p_gr s' b = p_gr s b" using other ab True by simp
    show ?thesis
    proof (cases "rq' = p_req s i")
      case same_req: True
      then show ?thesis using chains[OF ab] by (simp add: lp_chain_def req same b True)
    next
      case changed: False
      show ?thesis
      proof (cases "p_req s i")
        case up: True
        then have "p_canc s i" using changed by (simp add: rq'_def lm_next_request_def see_req_def)
        then have "v_gr s i b i" using granted[of i] i ab True by (auto simp: see_gr_def)
        then show ?thesis
          using lp_chain_granted[OF chains[OF ab]] up changed True by (simp add: lp_chain_def req same b)
      next
        case low: False
        then have "lm_ready n on i (see_gr s i)"
          using changed by (simp add: rq'_def lm_next_request_def see_req_def)
        then have "\<not> v_gr s i b i" using ab True by (auto simp: lm_ready_def see_gr_def)
        then show ?thesis
          using lp_chain_idle[OF chains[OF ab]] low changed True by (simp add: lp_chain_def req same b)
      qed
    qed
  next
    case False
    show ?thesis
    proof (cases "b = i")
      case True
      have "p_gr s' i a \<longleftrightarrow> v_req s i a \<and> (p_gr s i a \<or> \<not> rq' \<or> a \<le> i)"
        using gr ab False by (simp add: lm_next_grant_def see_req_def see_gr_def)
      then show ?thesis
        using chains[OF ab] False True by (auto simp: lp_chain_def req same split: if_splits)
    next
      case bi: False
      then show ?thesis using chains[OF ab] False other by (simp add: lp_chain_def req same)
    qed
  qed
  then have "lp_chains n on s'" by (simp add: lp_chains_def)
  moreover have "lp_granted n on s'"
    unfolding lp_granted_def
  proof (intro allI impI)
    fix a
    assume a: "a < n" "p_hold s' a \<or> p_canc s' a"
    show "on a \<and> p_req s' a \<and> (\<forall>j<n. on j \<longrightarrow> see_gr s' a j a)"
    proof (cases "a = i")
      case True
      then have hold: "p_hold s i" using a same by simp
      then have nc: "\<not> p_canc s i" using inv by (auto simp: lp_inv_def)
      have g: "p_req s i" "\<And>j. j < n \<Longrightarrow> on j \<Longrightarrow> see_gr s i j i"
        using granted[of i] hold i by auto
      have "p_req s' i" using g nc by (simp add: req rq'_def lm_next_request_def see_req_def)
      moreover have "p_gr s' i i" using gr[OF i(1)] g i by (simp add: lm_next_grant_def see_req_def)
      moreover have "see_gr s' i j i" if "j < n" "on j" "j \<noteq> i" for j
        using g that by (simp add: see_gr_def same)
      ultimately show ?thesis using True i by (auto simp: see_gr_def)
    next
      case False
      then show ?thesis using granted[of a] a other[of a]
        by (auto simp: see_gr_def req same)
    qed
  qed
  moreover have "lp_prior n on s'"
    unfolding lp_prior_def
  proof (intro allI impI)
    fix a k
    assume a: "a < n" "on a \<and> p_req s' a" and k: "k < n" "a < k \<and> on k"
    show "\<not> p_gr s' a k"
    proof (cases "a = i")
      case True
      have "\<not> lm_next_grant on i True (see_req s i) (see_gr s i) k"
      proof (rule lm_next_safe[where n = n and pend = "p_pend s i" and canc = "p_canc s i"])
        show "\<not> (see_gr s i i k \<and> on k)" if "see_req s i i"
          using inv that i k True by (auto simp: lp_inv_def lp_prior_def see_req_def see_gr_def)
        show "lm_next_request n on i (p_pend s i) (p_canc s i) (see_req s i) (see_gr s i)"
          using a True req by (simp add: rq'_def)
      qed (use k True in auto)
      then show ?thesis using gr[OF k(1)] a True req by simp
    next
      case False
      then show ?thesis
        using inv a k other[of a] by (auto simp: lp_inv_def lp_prior_def req)
    qed
  qed
  moreover have "\<forall>a. \<not> (p_hold s' a \<and> p_canc s' a)"
    using inv by (simp add: lp_inv_def same)
  ultimately show ?thesis unfolding s'_def[symmetric] by (simp add: lp_inv_def)
qed

lemma lp_inv_ask: "lp_inv n on s \<Longrightarrow> lp_inv n on (lp_effect n on (Ask i) s)"
  by (simp add: lp_inv_def lp_chains_def lp_chain_def lp_granted_def lp_prior_def see_gr_def)

lemma lp_inv_acquire:
  assumes inv: "lp_inv n on s" and g: "lp_guard n on True (Acquire i) s"
  shows "lp_inv n on (lp_effect n on (Acquire i) s)"
proof -
  define s' where "s' = lp_effect n on (Acquire i) s"
  have k: "p_req s' = p_req s" "p_gr s' = p_gr s" "f_req s' = f_req s" "f_gr s' = f_gr s"
      "v_req s' = v_req s" "v_gr s' = v_gr s" "p_canc s' = p_canc s"
      "p_hold s' = (p_hold s)(i := True)"
    by (simp_all add: s'_def)
  have "lp_chains n on s' = lp_chains n on s" "lp_prior n on s' = lp_prior n on s"
    unfolding lp_chains_def lp_chain_def lp_prior_def k by (rule refl)+
  moreover have "lp_granted n on s'"
    unfolding lp_granted_def
  proof (intro allI impI)
    fix a
    assume a: "a < n" "p_hold s' a \<or> p_canc s' a"
    show "on a \<and> p_req s' a \<and> (\<forall>j<n. on j \<longrightarrow> see_gr s' a j a)"
    proof (cases "a = i")
      case True
      then show ?thesis using g by (auto simp: lp_locked_def lp_looks_def see_gr_def k)
    next
      case False
      then have "p_hold s a \<or> p_canc s a" using a by (simp add: k)
      then have "on a \<and> p_req s a \<and> (\<forall>j<n. on j \<longrightarrow> see_gr s a j a)"
        using inv a(1) unfolding lp_inv_def lp_granted_def by blast
      then show ?thesis by (simp add: see_gr_def k)
    qed
  qed
  ultimately show ?thesis using inv g unfolding s'_def[symmetric] by (auto simp: lp_inv_def k)
qed

lemma lp_inv_drop:
  assumes inv: "lp_inv n on s" and g: "lp_guard n on True (Drop i) s"
  shows "lp_inv n on (lp_effect n on (Drop i) s)"
proof -
  define s' where "s' = lp_effect n on (Drop i) s"
  have k: "p_req s' = p_req s" "p_gr s' = p_gr s" "f_req s' = f_req s" "f_gr s' = f_gr s"
      "v_req s' = v_req s" "v_gr s' = v_gr s" "p_canc s' = (p_canc s)(i := True)"
      "p_hold s' = (p_hold s)(i := False)"
    by (simp_all add: s'_def)
  have "lp_chains n on s' = lp_chains n on s" "lp_prior n on s' = lp_prior n on s"
    unfolding lp_chains_def lp_chain_def lp_prior_def k by (rule refl)+
  moreover have "lp_granted n on s'"
    unfolding lp_granted_def
  proof (intro allI impI)
    fix a
    assume a: "a < n" "p_hold s' a \<or> p_canc s' a"
    have "p_hold s a \<or> p_canc s a" using a g by (auto simp: k split: if_splits)
    then have "on a \<and> p_req s a \<and> (\<forall>j<n. on j \<longrightarrow> see_gr s a j a)"
      using inv a(1) unfolding lp_inv_def lp_granted_def by blast
    then show "on a \<and> p_req s' a \<and> (\<forall>j<n. on j \<longrightarrow> see_gr s' a j a)"
      by (simp add: see_gr_def k)
  qed
  ultimately show ?thesis using inv unfolding s'_def[symmetric] by (auto simp: lp_inv_def k)
qed

lemma lp_reach_inv: "lp_reach n on True s0 s \<Longrightarrow> lp_start n on s0 \<Longrightarrow> lp_inv n on s"
proof (induction rule: lp_reach.induct)
  case start
  then show ?case by (rule lp_inv_start)
next
  case (act s a)
  then show ?case
    by (cases a) (auto intro: lp_inv_pass lp_inv_put lp_inv_get lp_inv_ask lp_inv_acquire lp_inv_drop
        simp del: lp_effect.simps)
qed

lemma lp_mutual_exclusion:
  assumes "lp_reach n on True s0 s" and "lp_start n on s0" and "i < n" and "k < n" and "p_hold s i" and "p_hold s k"
  shows "i = k"
proof (rule ccontr)
  assume "i \<noteq> k"
  have wlog: False if "a < b" "a < n" "b < n" "p_hold s a" "p_hold s b" for a b
  proof -
    note inv = lp_reach_inv[OF assms(1,2)]
    have g: "on a" "on b" "p_req s a" "p_req s b" "see_gr s b a b"
      using inv that by (auto simp: lp_inv_def lp_granted_def)
    then have "p_gr s a b"
      using inv that lp_chain_granted[of s b a] by (auto simp: lp_inv_def lp_chains_def see_gr_def)
    moreover have "\<not> p_gr s a b"
      using inv that g by (auto simp: lp_inv_def lp_prior_def)
    ultimately show False by blast
  qed
  show False
    using wlog[of i k] wlog[of k i] assms \<open>i \<noteq> k\<close> by linarith
qed

section \<open>Traces\<close>

fun lp_run :: "nat \<Rightarrow> (nat \<Rightarrow> bool) \<Rightarrow> bool \<Rightarrow> lp_action list \<Rightarrow> lp_state \<Rightarrow> lp_state option" where
  "lp_run n on careful [] s = Some s"
| "lp_run n on careful (a # as) s =
     (if lp_guard n on careful a s then lp_run n on careful as (lp_effect n on a s) else None)"

lemma lp_run_reach:
  "lp_run n on careful as s = Some s' \<Longrightarrow> lp_reach n on careful s0 s \<Longrightarrow> lp_reach n on careful s0 s'"
  by (induction as arbitrary: s) (auto intro: lp_reach.act split: if_splits simp del: lp_effect.simps lp_guard.simps)

text \<open>Host 0 asks, host 1 grants, host 0 acquires.\<close>

definition grant_trace :: "lp_action list" where
  "grant_trace = [Ask 0, Pass 0, PutRow 0, GetRow 1 0, Pass 1, PutRow 1, GetRow 0 1, Pass 0, Acquire 0]"

text \<open>
  Host 1 asks, withdraws before the grant of host 0 reaches it, and asks again: host 0's old
  grant, still in the file, answers the new request, while host 0, which saw the
  withdrawal, has asked for the lock itself.
\<close>

definition withdraw_trace :: "lp_action list" where
  "withdraw_trace =
     [Ask 1, Pass 1, PutRow 1, GetRow 0 1, Pass 0, PutRow 0] @ 
     [Drop 1, Pass 1, PutRow 1, GetRow 0 1, Pass 0] @ 
     [Pass 1, Ask 1, Pass 1, GetRow 1 0, Pass 1, Acquire 1] @ 
     [Ask 0, Pass 0, PutRow 0, GetRow 1 0, Pass 1] @ 
     [PutRow 1, GetRow 0 1, Pass 0, Acquire 0]"

text \<open>
  The trace is replayed segment by segment on the twenty flags of two hosts that matter.
\<close>

definition lp_flags :: "lp_state \<Rightarrow> bool list" where
  "lp_flags s = [p_req s 0, p_req s 1, p_gr s 0 0, p_gr s 0 1, p_gr s 1 0,
     p_gr s 1 1, f_req s 0, f_req s 1, f_gr s 0 1, f_gr s 1 0,
     v_req s 0 1, v_req s 1 0, v_gr s 0 1 0, v_gr s 1 0 1, p_pend s 0,
     p_pend s 1, p_canc s 0, p_canc s 1, p_hold s 0, p_hold s 1]"

lemmas lp_replay = lp_flags_def lp_locked_def lp_looks_def lm_ready_def lm_next_request_def lm_next_grant_def
  see_req_def see_gr_def Let_def numeral_2_eq_2 All_less_Suc for_hosts_array

lemma lp_run_append:
  "lp_run n on careful (xs @ ys) s =
     (case lp_run n on careful xs s of None \<Rightarrow> None | Some t \<Rightarrow> lp_run n on careful ys t)"
  by (induction xs arbitrary: s) simp_all

abbreviation run2 :: "lp_action list \<Rightarrow> lp_state \<Rightarrow> lp_state option" where
  "run2 \<equiv> lp_run 2 (\<lambda>_. True) False"

lemma withdraw_segment1:
  assumes "lp_flags s = [False, False, False, False, False, False, False, False, False, False, False, False,
    False, False, False, False, False, False, False, False]"
  shows "\<exists>t. run2 [Ask 1, Pass 1, PutRow 1, GetRow 0 1, Pass 0, PutRow 0] s = Some t \<and>
    lp_flags t = [False, True, False, True, False, False, False, True, True, False, True, False, False,
    False, False, False, False, False, False, False]"
  using assms by (simp add: lp_replay)

lemma withdraw_segment2:
  assumes "lp_flags s = [False, True, False, True, False, False, False, True, True, False, True, False, False,
    False, False, False, False, False, False, False]"
  shows "\<exists>t. run2 [Drop 1, Pass 1, PutRow 1, GetRow 0 1, Pass 0] s = Some t \<and>
    lp_flags t = [False, False, False, False, False, True, False, False, True, False, False, False,
    False, False, False, False, False, False, False, False]"
  using assms by (simp add: lp_replay)

lemma withdraw_segment3:
  assumes "lp_flags s = [False, False, False, False, False, True, False, False, True, False, False, False,
    False, False, False, False, False, False, False, False]"
  shows "\<exists>t. run2 [Pass 1, Ask 1, Pass 1, GetRow 1 0, Pass 1, Acquire 1] s = Some t \<and>
    lp_flags t = [False, True, False, False, False, True, False, False, True, False, False, False, False,
    True, False, False, False, False, False, True]"
  using assms by (simp add: lp_replay)

lemma withdraw_segment4:
  assumes "lp_flags s = [False, True, False, False, False, True, False, False, True, False, False, False, False,
    True, False, False, False, False, False, True]"
  shows "\<exists>t. run2 [Ask 0, Pass 0, PutRow 0, GetRow 1 0, Pass 1] s = Some t \<and>
    lp_flags t = [True, True, False, False, True, True, True, False, False, False, False, True, False,
    False, False, False, False, False, False, True]"
  using assms by (simp add: lp_replay)

lemma withdraw_segment5:
  assumes "lp_flags s = [True, True, False, False, True, True, True, False, False, False, False, True, False,
    False, False, False, False, False, False, True]"
  shows "\<exists>t. run2 [PutRow 1, GetRow 0 1, Pass 0, Acquire 0] s = Some t \<and>
    lp_flags t = [True, True, True, False, True, True, True, True, False, True, True, True, True, False,
    False, False, False, False, True, True]"
  using assms by (simp add: lp_replay)

lemma withdraw_trace_run:
  assumes "lp_flags s0 = replicate 20 False"
  shows "\<exists>s. run2 withdraw_trace s0 = Some s \<and> p_hold s 0 \<and> p_hold s 1"
proof -
  obtain s1 where s1: "run2 [Ask 1, Pass 1, PutRow 1, GetRow 0 1, Pass 0, PutRow 0] s0 = Some s1" "lp_flags s1 = [False, True, False, True, False, False, False, True, True, False, True, False, False, False, False, False, False, False, False, False]"
    using withdraw_segment1[of s0] assms by (auto simp: eval_nat_numeral)
  obtain s2 where s2: "run2 [Drop 1, Pass 1, PutRow 1, GetRow 0 1, Pass 0] s1 = Some s2" "lp_flags s2 = [False, False, False, False, False, True, False, False, True, False, False, False, False, False, False, False, False, False, False, False]"
    using withdraw_segment2[OF s1(2)] by blast
  obtain s3 where s3: "run2 [Pass 1, Ask 1, Pass 1, GetRow 1 0, Pass 1, Acquire 1] s2 = Some s3" "lp_flags s3 = [False, True, False, False, False, True, False, False, True, False, False, False, False, True, False, False, False, False, False, True]"
    using withdraw_segment3[OF s2(2)] by blast
  obtain s4 where s4: "run2 [Ask 0, Pass 0, PutRow 0, GetRow 1 0, Pass 1] s3 = Some s4" "lp_flags s4 = [True, True, False, False, True, True, True, False, False, False, False, True, False, False, False, False, False, False, False, True]"
    using withdraw_segment4[OF s3(2)] by blast
  obtain s5 where s5: "run2 [PutRow 1, GetRow 0 1, Pass 0, Acquire 0] s4 = Some s5" "lp_flags s5 = [True, True, True, False, True, True, True, True, False, True, True, True, True, False, False, False, False, False, True, True]"
    using withdraw_segment5[OF s4(2)] by blast
  have "run2 withdraw_trace s0 = Some s5" "p_hold s5 0" "p_hold s5 1"
    using s1(1) s2(1) s3(1) s4(1) s5 unfolding withdraw_trace_def lp_run_append
    by (simp_all only: option.case lp_flags_def list.inject simp_thms)
  then show ?thesis by blast
qed

text \<open>
  After the start with full rows the first passes clear them, and both traces can follow.
\<close>

definition cleanup_trace :: "lp_action list" where
  "cleanup_trace = [Pass 0, Pass 1, PutRow 0, PutRow 1, GetRow 0 1, GetRow 1 0]"

definition full_flags :: "bool list" where
  "full_flags = [False, False, True, True, True, True, False, False, True, True,
     False, False, True, True, False, False, False, False, False, False]"

lemma lp_init_flags: "lp_flags lp_init = replicate 20 False"
  by (simp add: lp_flags_def lp_init_def eval_nat_numeral)

lemma cleanup_trace_run:
  assumes "lp_flags s = full_flags"
  shows "\<exists>t. lp_run 2 (\<lambda>_. True) careful cleanup_trace s = Some t \<and> lp_flags t = replicate 20 False"
  using assms by (simp add: lp_replay full_flags_def cleanup_trace_def eval_nat_numeral)

lemma grant_trace_run:
  assumes "lp_flags s = replicate 20 False"
  shows "\<exists>t. lp_run 2 (\<lambda>_. True) True grant_trace s = Some t \<and> p_hold t 0"
  using assms by (simp add: lp_replay grant_trace_def eval_nat_numeral)

section \<open>After a cancellation\<close>

lemma is_locked_rows:
  "is_locked c v i \<longleftrightarrow> is_online v i \<and>
     (\<forall>j<num_host c. is_online v j \<longrightarrow> rows_grant (lmv_sf v) j i)"
  by (auto simp: is_locked_def rows_grant_def)

text \<open>
  The pass that answers a cancellation of a held lock withdraws the request but, working
  on the old request, still leaves the host its own grant: until the grants of the others
  have lapsed the lock looks held, and \<open>lm_request_lock\<close> called in that window returns
  TRUE at once, with no request standing behind it.
\<close>

lemma cancelled_lock_is_reported_again:
  assumes c: "num_host c \<le> 64" "my_index c < num_host c"
    and sync: "lm_synced d" and act: "lm_active c d"
    and held: "rows_request (d_sf d) (my_index c)" "is_locked c (d_lmv d) (my_index c)"
    and low: "\<And>j. j < my_index c \<Longrightarrow> \<not> rows_request (d_sf d) j"
    and cancel: "lmv_cancel_request (d_lmv d)"
  defines "d' \<equiv> lock_mgr_pass c d"
  shows "\<not> rows_request (d_sf d') (my_index c)
    \<and> lm_request_lock c u now evs d' = Some (True, sf_set_master u d')"
proof -
  let ?me = "my_index c"
  have eqs: "rows_request (d_sf d') ?me = lm_next_request (num_host c) (is_online (d_lmv d)) ?me
       (lmv_pending_request (d_lmv d)) (lmv_cancel_request (d_lmv d)) (rows_request (d_sf d)) (rows_grant (d_sf d))"
    "\<And>j. j < num_host c \<Longrightarrow> rows_grant (d_sf d') ?me j =
       lm_next_grant (is_online (d_lmv d)) ?me (rows_request (d_sf d') ?me) (rows_request (d_sf d))
         (rows_grant (d_sf d)) j"
    "\<And>i. i \<noteq> ?me \<Longrightarrow> rows_grant (d_sf d') i = rows_grant (d_sf d) i" "lm_synced d'"
    using lock_mgr_pass_rows[OF c(1) sync act] by (auto simp: d'_def not_le[symmetric])
  have on: "is_online (d_lmv d') = is_online (d_lmv d)"
    unfolding d'_def by (rule is_online_lmv_sm[OF lock_mgr_pass_lmv_sm])
  have rq': "\<not> rows_request (d_sf d') ?me"
    using eqs(1) cancel by (simp add: lm_next_request_def)
  have me_on: "is_online (d_lmv d) ?me" using act by (simp add: lm_active_def)
  have view: "rows_grant (lmv_sf (d_lmv d')) = rows_grant (d_sf d')"
    "rows_grant (lmv_sf (d_lmv d)) = rows_grant (d_sf d)"
    using eqs(4) sync by (simp_all add: lm_synced_def)
  have "is_locked c (d_lmv d') ?me"
    unfolding is_locked_rows on view
  proof (intro conjI allI impI)
    fix j assume j: "j < num_host c" "is_online (d_lmv d) j"
    show "rows_grant (d_sf d') j ?me"
    proof (cases "j = ?me")
      case True
      then show ?thesis using eqs(2)[OF c(2)] held me_on by (simp add: lm_next_grant_def)
    next
      case False
      then show ?thesis using held j view by (simp add: is_locked_rows eqs(3))
    qed
  qed (rule me_on)
  moreover have "\<not> is_locked c (d_lmv d') i" if "i < ?me" for i
    using eqs(2)[of i] low[OF that] that c me_on by (auto simp: is_locked_rows on view lm_next_grant_def)
  ultimately have "get_lock_node c (d_lmv d') = Some ?me"
    using c by (simp add: get_lock_node_def first_host_Some)
  moreover have "lmv_first_cleanup_done (d_lmv d')"
    using act by (simp add: d'_def lock_mgr_pass_def lm_active_def Let_def split: prod.split)
  then have "lm_wait_first_cleanup evs d' = Some (evs, d')" by (cases evs) simp_all
  ultimately show ?thesis using rq' by (simp add: lm_request_lock_def)
qed

text \<open>Host 0 alone online, holding the lock and cancelling.\<close>

definition cancelling_daemon :: daemon where
  "cancelling_daemon = (let d = init_daemon (default_config 3 0);
       sf = (d_sf d)\<lparr>sf_access := True, sf_lm_request := (\<lambda>i. i = 0)\<rparr> in
     d\<lparr>d_sf := sf, d_lmv := (d_lmv d)\<lparr>lmv_sf := sf,
         lmv_sm := (d_sm d)\<lparr>sm_current_liveset := hm_of [0]\<rparr>,
         lmv_cancel_request := True\<rparr>\<rparr>)"

lemma cancelled_lock_is_reported_again_example:
  "\<not> rows_request (d_sf (lock_mgr_pass (default_config 3 0) cancelling_daemon)) 0"
proof -
  have "lm_synced cancelling_daemon" "lm_active (default_config 3 0) cancelling_daemon"
    "rows_request (d_sf cancelling_daemon) 0" "is_locked (default_config 3 0) (d_lmv cancelling_daemon) 0"
    "lmv_cancel_request (d_lmv cancelling_daemon)"
    by (auto simp: cancelling_daemon_def lm_synced_def rows_request_def rows_grant_def fun_eq_iff
        lm_active_def is_online_def hm_ison_of Let_def init_daemon_def init_lmv_def is_locked_def
        init_com_sf_lm)
  then show ?thesis
    using cancelled_lock_is_reported_again[of "default_config 3 0" cancelling_daemon] by simp
qed

text \<open>
  \<open>lm_cancel_lock\<close> returns as soon as the lock manager can run a pass, and the request
  is withdrawn by then.
\<close>

lemma lm_cancel_lock_returns:
  assumes "num_host c \<le> 64" and "lm_synced d" and "lm_active c d"
  shows "\<exists>d'. lm_cancel_lock [lock_mgr_pass c] d = Some d' \<and> \<not> rows_request (d_sf d') (my_index c)"
proof -
  let ?d1 = "upd_lmv (\<lambda>v. v\<lparr>lmv_cancel_request := True\<rparr>) d"
  have "lm_synced ?d1" "lm_active c ?d1"
    using assms(2,3) by (simp_all add: lm_synced_def lm_active_def is_online_def)
  note eqs = lock_mgr_pass_rows[OF assms(1) this]
  have "\<not> rows_request (d_sf (lock_mgr_pass c ?d1)) (my_index c)"
    using eqs by (simp add: lm_next_request_def)
  then show ?thesis
    using eqs by (simp add: lm_cancel_lock_def)
qed

lemma lm_cancel_lock_returns_example:
  "\<exists>d'. lm_cancel_lock [lock_mgr_pass (default_config 3 0)] (lm_daemon (default_config 3 0)) = Some d'
     \<and> \<not> rows_request (d_sf d') 0"
  using lm_cancel_lock_returns[OF _ lm_daemon_active] by simp

end
