(* ===== verification/LockPool.thy ===== *)
theory LockPool
  imports LockProps
begin

text \<open>
  The lock manager over a pool of daemons and one State-File: the steps are the code's
  (\<open>lock_mgr_pass\<close>, the flags \<open>lm_request_lock\<close> and \<open>lm_cancel_lock\<close> set, the element
  \<open>write_hostspecific\<close> composes, the row \<open>readsf\<close> publishes), and the abstraction maps them
  one to one to the protocol of \<open>LockProps\<close>. The live set is fixed and every host agrees on it. A pass, the
  composition of an element and the publication of a row each run under the lock of the
  State-File object, so each is one step.
\<close>

section \<open>The pool\<close>

record lk_pool =
  lk_d :: "nat \<Rightarrow> daemon"
  lk_file :: "nat \<Rightarrow> sf_host"
  lk_hold :: "nat \<Rightarrow> bool"

text \<open>What the protocol depends on in a daemon.\<close>

definition lock_part :: "daemon \<Rightarrow> ((nat \<Rightarrow> bool) \<times> (nat \<Rightarrow> hostmap) \<times> bool) \<times> lm_var" where
  "lock_part d = ((sf_lm_request (d_sf d), sf_lm_grant (d_sf d), sf_access (d_sf d)),
     (d_lmv d)\<lparr>lmv_sf := zero_com_sf\<lparr>sf_lm_request := sf_lm_request (lmv_sf (d_lmv d)),
       sf_lm_grant := sf_lm_grant (lmv_sf (d_lmv d)), sf_access := sf_access (lmv_sf (d_lmv d))\<rparr>,
       lmv_first_cleanup_done := True\<rparr>)"

text \<open>Each host that may run its lock manager, with an up-to-date cache.\<close>

definition lk_host_ok :: "nat \<Rightarrow> (nat \<Rightarrow> bool) \<Rightarrow> daemon \<Rightarrow> bool" where
  "lk_host_ok n on d \<longleftrightarrow> lm_synced d \<and> \<not> lmv_terminate (d_lmv d) \<and>
     sf_access (d_sf d) \<and> sf_access (lmv_sf (d_lmv d)) \<and>
     all_hosts n (\<lambda>j. is_online (d_lmv d) j = on j)"

definition lk_ok :: "nat \<Rightarrow> (nat \<Rightarrow> bool) \<Rightarrow> lk_pool \<Rightarrow> bool" where
  "lk_ok n on p \<longleftrightarrow> all_hosts n (\<lambda>i. lk_host_ok n on (lk_d p i))"

definition lk_config :: "nat \<Rightarrow> (nat \<Rightarrow> ha_config) \<Rightarrow> bool" where
  "lk_config n cfg \<longleftrightarrow> n \<le> 64 \<and> all_hosts n (\<lambda>i. num_host (cfg i) = n \<and> my_index (cfg i) = i)"

text \<open>
  \<open>careful\<close> as in the protocol: a request is only withdrawn by the holder, and the lock is
  only taken on a standing request.
\<close>

inductive lk_step :: "nat \<Rightarrow> (nat \<Rightarrow> ha_config) \<Rightarrow> (nat \<Rightarrow> bool) \<Rightarrow> bool \<Rightarrow> lk_pool \<Rightarrow> lk_pool \<Rightarrow> bool"
  for n cfg on careful where
  ask: "i < n \<Longrightarrow> on i \<Longrightarrow> lk_step n cfg on careful p
     (p\<lparr>lk_d := (lk_d p)(i := upd_lmv (\<lambda>v. v\<lparr>lmv_pending_request := True\<rparr>) (lk_d p i))\<rparr>)"
| acquire: "i < n \<Longrightarrow> get_lock_node (cfg i) (d_lmv (lk_d p i)) = Some i \<Longrightarrow>
     (careful \<Longrightarrow> sf_lm_request (d_sf (lk_d p i)) i \<and> \<not> lmv_cancel_request (d_lmv (lk_d p i))) \<Longrightarrow>
     lk_step n cfg on careful p
       (p\<lparr>lk_d := (lk_d p)(i := sf_set_master u (lk_d p i)), lk_hold := (lk_hold p)(i := True)\<rparr>)"
| withdraw: "i < n \<Longrightarrow> on i \<Longrightarrow> (careful \<Longrightarrow> lk_hold p i) \<Longrightarrow> lk_step n cfg on careful p
     (p\<lparr>lk_d := (lk_d p)(i := upd_lmv (\<lambda>v. v\<lparr>lmv_cancel_request := True\<rparr>) (lk_d p i)),
        lk_hold := (lk_hold p)(i := False)\<rparr>)"
| pass: "i < n \<Longrightarrow> on i \<Longrightarrow> lk_step n cfg on careful p
     (p\<lparr>lk_d := (lk_d p)(i := lock_mgr_pass (cfg i) (lk_d p i))\<rparr>)"
| put: "i < n \<Longrightarrow> lk_step n cfg on careful p
     (p\<lparr>lk_file := (lk_file p)(i := compose_element (cfg i) now (lk_d p i) (lk_file p i))\<rparr>)"
| get: "i < n \<Longrightarrow> j < n \<Longrightarrow> i \<noteq> j \<Longrightarrow> lk_step n cfg on careful p
     (p\<lparr>lk_d := (lk_d p)(i := with_sf False (publish_host (cfg i) psm v (lk_file p) j) (lk_d p i))\<rparr>)"
| other: "i < n \<Longrightarrow> lock_part d' = lock_part (lk_d p i) \<Longrightarrow>
     lk_step n cfg on careful p (p\<lparr>lk_d := (lk_d p)(i := d')\<rparr>)"

definition lk_reach :: "nat \<Rightarrow> (nat \<Rightarrow> ha_config) \<Rightarrow> (nat \<Rightarrow> bool) \<Rightarrow> bool \<Rightarrow> lk_pool \<Rightarrow> lk_pool \<Rightarrow> bool" where
  "lk_reach n cfg on careful = (lk_step n cfg on careful)\<^sup>*\<^sup>*"

section \<open>Abstraction\<close>

definition lk_abs :: "nat \<Rightarrow> lk_pool \<Rightarrow> lp_state" where
  "lk_abs n p = \<lparr>
     p_req = (\<lambda>i. i < n \<and> rows_request (d_sf (lk_d p i)) i),
     p_gr = (\<lambda>i k. i < n \<and> k < n \<and> rows_grant (d_sf (lk_d p i)) i k),
     f_req = (\<lambda>i. i < n \<and> u32_bool (h_lock_request (lk_file p i))),
     f_gr = (\<lambda>i k. i < n \<and> k < n \<and> hm_ison (h_lock_grant (lk_file p i)) k),
     v_req = (\<lambda>i j. i < n \<and> j < n \<and> i \<noteq> j \<and> rows_request (d_sf (lk_d p i)) j),
     v_gr = (\<lambda>i j k. i < n \<and> j < n \<and> k < n \<and> i \<noteq> j \<and> rows_grant (d_sf (lk_d p i)) j k),
     p_pend = (\<lambda>i. i < n \<and> lmv_pending_request (d_lmv (lk_d p i))),
     p_canc = (\<lambda>i. i < n \<and> lmv_cancel_request (d_lmv (lk_d p i))),
     p_hold = (\<lambda>i. i < n \<and> lk_hold p i)\<rparr>"

text \<open>
  How a pool starts. No lock is requested, withdrawn or held, in a daemon, in the file or
  in a copy of a row. Grants may be left over: a daemon starts with its own row full
  (\<open>lm_initialize_lm_fields\<close>), and writes that row before it is live. What is asked of a grant is that the file
  has it as well, and the copy of the host it is for: a host is only taken into the live set
  after its State-File update was seen, so the row it started with was read.
\<close>

definition lk_start :: "nat \<Rightarrow> (nat \<Rightarrow> bool) \<Rightarrow> lk_pool \<Rightarrow> bool" where
  "lk_start n on p \<longleftrightarrow> lk_ok n on p \<and>
     all_hosts n (\<lambda>i. \<not> lk_hold p i \<and> \<not> lmv_cancel_request (d_lmv (lk_d p i))
       \<and> \<not> u32_bool (h_lock_request (lk_file p i))
       \<and> all_hosts n (\<lambda>j. \<not> sf_lm_request (d_sf (lk_d p i)) j)
       \<and> all_hosts n (\<lambda>j. i \<noteq> j \<and> on i \<and> on j \<longrightarrow>
            (hm_ison (sf_lm_grant (d_sf (lk_d p j)) j) i \<longrightarrow> hm_ison (h_lock_grant (lk_file p j)) i)
          \<and> (hm_ison (h_lock_grant (lk_file p j)) i \<longrightarrow> hm_ison (sf_lm_grant (d_sf (lk_d p i)) j) i)))"

lemma lk_start_abs: "lk_start n on p \<Longrightarrow> lp_start n on (lk_abs n p)"
  by (simp add: lk_start_def lp_start_def lk_abs_def rows_request_def rows_grant_def)

lemma lk_abs_see:
  assumes "i < n"
  shows "see_req (lk_abs n p) i j \<longleftrightarrow> j < n \<and> rows_request (d_sf (lk_d p i)) j"
    and "see_gr (lk_abs n p) i j k \<longleftrightarrow> j < n \<and> k < n \<and> rows_grant (d_sf (lk_d p i)) j k"
  using assms by (auto simp: see_req_def see_gr_def lk_abs_def)

lemma lk_okD: "lk_ok n on p \<Longrightarrow> i < n \<Longrightarrow> lk_host_ok n on (lk_d p i)"
  by (simp add: lk_ok_def)

lemma lk_ok_upd:
  "lk_ok n on p \<Longrightarrow> lk_host_ok n on d' \<Longrightarrow> lk_ok n on (p\<lparr>lk_d := (lk_d p)(i := d')\<rparr>)"
  "lk_ok n on p \<Longrightarrow> lk_host_ok n on d' \<Longrightarrow> lk_ok n on (p\<lparr>lk_d := (lk_d p)(i := d'), lk_hold := h\<rparr>)"
  by (auto simp: lk_ok_def)

lemma lk_configD: "lk_config n cfg \<Longrightarrow> i < n \<Longrightarrow> num_host (cfg i) = n \<and> my_index (cfg i) = i \<and> n \<le> 64"
  by (simp add: lk_config_def)

section \<open>Each step is a step of the protocol\<close>

lemma lk_abs_upd:
  assumes "i < n" "lk_file q = lk_file p" "lk_hold q = lk_hold p" "\<And>j. j \<noteq> i \<Longrightarrow> lk_d q j = lk_d p j"
    "\<And>j. j < n \<Longrightarrow> rows_request (d_sf (lk_d q i)) j = rows_request (d_sf (lk_d p i)) j"
    "\<And>j k. j < n \<Longrightarrow> k < n \<Longrightarrow> rows_grant (d_sf (lk_d q i)) j k = rows_grant (d_sf (lk_d p i)) j k"
    "lmv_pending_request (d_lmv (lk_d q i)) = lmv_pending_request (d_lmv (lk_d p i))"
    "lmv_cancel_request (d_lmv (lk_d q i)) = lmv_cancel_request (d_lmv (lk_d p i))"
  shows "lk_abs n q = lk_abs n p"
proof -
  have "rows_request (d_sf (lk_d q j)) k = rows_request (d_sf (lk_d p j)) k" if "k < n" for j k
    using assms(4,5) that by (cases "j = i") auto
  moreover have "rows_grant (d_sf (lk_d q j)) k l = rows_grant (d_sf (lk_d p j)) k l" if "k < n" "l < n" for j k l
    using assms(4,6) that by (cases "j = i") auto
  moreover have "lmv_pending_request (d_lmv (lk_d q j)) = lmv_pending_request (d_lmv (lk_d p j))"
    "lmv_cancel_request (d_lmv (lk_d q j)) = lmv_cancel_request (d_lmv (lk_d p j))" for j
    using assms(4,7,8) by (cases "j = i"; auto)+
  ultimately show ?thesis using assms(2,3) unfolding lk_abs_def by (auto simp: fun_eq_iff)
qed

lemma lk_sees_lock:
  assumes ok: "lk_host_ok n on (lk_d p i)" and c: "lk_config n cfg" and i: "i < n" and k: "k < n"
  shows "is_locked (cfg i) (d_lmv (lk_d p i)) k \<longleftrightarrow> lp_looks n on (lk_abs n p) i k"
  using ok k lk_configD[OF c i] unfolding is_locked_rows lp_looks_def lk_abs_see[OF i] lk_host_ok_def lm_synced_def
  by auto

lemma lk_get_lock_node:
  assumes ok: "lk_host_ok n on (lk_d p i)" and c: "lk_config n cfg" and i: "i < n"
  shows "get_lock_node (cfg i) (d_lmv (lk_d p i)) = Some i \<longleftrightarrow> lp_locked n on (lk_abs n p) i"
  unfolding get_lock_node_def first_host_Some lp_locked_def all_hosts_iff
  using lk_sees_lock[OF ok c i] lk_configD[OF c i] i by (auto dest: less_trans)

lemma lk_abs_ask:
  "i < n \<Longrightarrow> lk_abs n (p\<lparr>lk_d := (lk_d p)(i := upd_lmv (\<lambda>v. v\<lparr>lmv_pending_request := True\<rparr>) (lk_d p i))\<rparr>)
     = lp_effect n on (Ask i) (lk_abs n p)"
  by (auto simp: lk_abs_def fun_eq_iff)

lemma lk_abs_withdraw:
  "i < n \<Longrightarrow> lk_abs n (p\<lparr>lk_d := (lk_d p)(i := upd_lmv (\<lambda>v. v\<lparr>lmv_cancel_request := True\<rparr>) (lk_d p i)),
        lk_hold := (lk_hold p)(i := False)\<rparr>) = lp_effect n on (Drop i) (lk_abs n p)"
  by (auto simp: lk_abs_def fun_eq_iff)

lemma sf_set_master_lock [simp]:
  "rows_request (d_sf (sf_set_master u d)) = rows_request (d_sf d)"
  "rows_grant (d_sf (sf_set_master u d)) = rows_grant (d_sf d)"
  "lmv_pending_request (d_lmv (sf_set_master u d)) = lmv_pending_request (d_lmv d)"
  "lmv_cancel_request (d_lmv (sf_set_master u d)) = lmv_cancel_request (d_lmv d)"
  by (simp_all add: sf_set_master_def with_sf_def rows_request_def rows_grant_def fun_eq_iff)

lemma lk_abs_acquire:
  "i < n \<Longrightarrow> lk_abs n (p\<lparr>lk_d := (lk_d p)(i := sf_set_master u (lk_d p i)), lk_hold := (lk_hold p)(i := True)\<rparr>)
     = lp_effect n on (Acquire i) (lk_abs n p)"
  by (auto simp: lk_abs_def fun_eq_iff)

lemma lk_abs_put:
  "i < n \<Longrightarrow> my_index (cfg i) = i \<Longrightarrow>
     lk_abs n (p\<lparr>lk_file := (lk_file p)(i := compose_element (cfg i) now (lk_d p i) (lk_file p i))\<rparr>)
     = lp_effect n on (PutRow i) (lk_abs n p)"
  by (auto simp: lk_abs_def fun_eq_iff compose_element_def rows_request_def rows_grant_def)

lemma publish_host_lock:
  "rows_request (publish_host c psm v hs j s) k =
     (if k = j \<and> j \<noteq> my_index c then u32_bool (h_lock_request (hs j)) else rows_request s k)"
  "rows_grant (publish_host c psm v hs j s) k l =
     (if k = j \<and> j \<noteq> my_index c then hm_ison (h_lock_grant (hs j)) l else rows_grant s k l)"
  "sf_access (publish_host c psm v hs j s) = sf_access s"
  by (auto simp: publish_host_def Let_def rows_request_def rows_grant_def)

lemma lk_abs_get:
  assumes "i < n" "j < n" "i \<noteq> j" "my_index (cfg i) = i"
  shows "lk_abs n (p\<lparr>lk_d := (lk_d p)(i := with_sf False (publish_host (cfg i) psm v (lk_file p) j) (lk_d p i))\<rparr>)
     = lp_effect n on (GetRow i j) (lk_abs n p)"
proof -
  have u: "rows_request (d_sf (unlock_sf b d)) = rows_request (d_sf d)" "rows_grant (d_sf (unlock_sf b d)) = rows_grant (d_sf d)" for b d
    by (simp_all add: rows_request_def rows_grant_def fun_eq_iff)
  show ?thesis using assms
    by (auto simp: lk_abs_def fun_eq_iff with_sf_def u publish_host_lock)
qed

lemma lock_mgr_pass_pending:
  assumes "lm_active c d" and "lm_synced d"
  shows "lmv_pending_request (d_lmv (lock_mgr_pass c d)) \<longleftrightarrow>
     lmv_pending_request (d_lmv d) \<and> \<not> lm_ready (num_host c) (is_online (d_lmv d)) (my_index c) (rows_grant (d_sf d))
     \<and> \<not> lmv_cancel_request (d_lmv d)"
proof -
  obtain v2 s2 where pr: "lm_process_requests c (d_lmv d, lm_cancel_grants c (d_lmv d) (d_sf d)) = (v2, s2)"
    by fastforce
  have "rows_grant (lmv_sf (d_lmv d)) = rows_grant (d_sf d)" using assms(2) by (simp add: lm_synced_def)
  then show ?thesis using lm_process_requests_cases(7)[OF pr] assms(1) pr
    by (simp add: lock_mgr_pass_def lm_active_def Let_def am_i_ready_lm_ready)
qed

lemma lm_next_cong:
  assumes "\<And>j. j < n \<Longrightarrow> on' j = on j" "me < n"
    "\<And>j k. j < n \<Longrightarrow> k < n \<Longrightarrow> gr' j k = gr j k" "\<And>j. j < n \<Longrightarrow> rq' j = rq j"
  shows "lm_ready n on' me gr' = lm_ready n on me gr"
    "lm_next_request n on' me pend canc rq' gr' = lm_next_request n on me pend canc rq gr"
    "j < n \<Longrightarrow> lm_next_grant on' me r rq' gr' j = lm_next_grant on me r rq gr j"
  using assms by (auto simp: lm_ready_def lm_next_request_def lm_next_grant_def)

lemma lk_abs_pass:
  assumes ok: "lk_host_ok n on (lk_d p i)" and c: "lk_config n cfg" and i: "i < n" "on i"
  shows "lk_abs n (p\<lparr>lk_d := (lk_d p)(i := lock_mgr_pass (cfg i) (lk_d p i))\<rparr>)
     = lp_effect n on (Pass i) (lk_abs n p)"
proof -
  define d where "d = lk_d p i"
  define d' where "d' = lock_mgr_pass (cfg i) d"
  let ?s = "lk_abs n p"
  have cfg: "num_host (cfg i) = n" "my_index (cfg i) = i" "n \<le> 64" using lk_configD[OF c i(1)] by auto
  have syn: "lm_synced d" and act: "lm_active (cfg i) d" and on: "\<And>j. j < n \<Longrightarrow> is_online (d_lmv d) j = on j"
    using ok i cfg by (simp_all add: lk_host_ok_def d_def lm_active_def)
  note rows = lock_mgr_pass_rows[OF _ syn act, unfolded cfg, OF cfg(3), folded d'_def]
  have see: "\<And>j. j < n \<Longrightarrow> rows_request (d_sf d) j = see_req ?s i j"
    "\<And>j k. j < n \<Longrightarrow> k < n \<Longrightarrow> rows_grant (d_sf d) j k = see_gr ?s i j k"
    using lk_abs_see[OF i(1)] by (simp_all add: d_def)
  define rq' where "rq' = lm_next_request n on i (p_pend ?s i) (p_canc ?s i) (see_req ?s i) (see_gr ?s i)"
  have flags: "p_pend ?s i = lmv_pending_request (d_lmv d)" "p_canc ?s i = lmv_cancel_request (d_lmv d)"
    using i by (simp_all add: lk_abs_def d_def)
  have ready: "lm_ready n (is_online (d_lmv d)) i (rows_grant (d_sf d)) = lm_ready n on i (see_gr ?s i)"
    by (rule lm_next_cong(1)[OF on i(1) see(2) see(1)])
  have req: "rows_request (d_sf d') i = rq'"
    unfolding rq'_def flags using rows lm_next_cong(2)[OF on i(1) see(2) see(1)] by simp
  have gr: "rows_grant (d_sf d') i k = lm_next_grant on i rq' (see_req ?s i) (see_gr ?s i) k" if "k < n" for k
  proof -
    have "rows_grant (d_sf d') i k = lm_next_grant (is_online (d_lmv d)) i (rows_request (d_sf d') i)
        (rows_request (d_sf d)) (rows_grant (d_sf d)) k"
      using rows that not_le by blast
    then have "rows_grant (d_sf d') i k = lm_next_grant (is_online (d_lmv d)) i rq' (rows_request (d_sf d)) (rows_grant (d_sf d)) k"
      unfolding req .
    also have "\<dots> = lm_next_grant on i rq' (see_req ?s i) (see_gr ?s i) k"
      by (rule lm_next_cong(3)[where n = n]) (use on i see that in simp_all)
    finally show ?thesis .
  qed
  have rest: "rows_request (d_sf d') j = rows_request (d_sf d) j" "rows_grant (d_sf d') j = rows_grant (d_sf d) j"
    if "j \<noteq> i" for j
    using rows that by auto
  have pend: "lmv_pending_request (d_lmv d') = (p_pend ?s i \<and> \<not> lm_ready n on i (see_gr ?s i) \<and> \<not> p_canc ?s i)"
    using lock_mgr_pass_pending[OF act syn] by (simp add: d'_def cfg flags ready)
  have canc: "\<not> lmv_cancel_request (d_lmv d')" using rows by simp
  have step: "lp_effect n on (Pass i) ?s = ?s\<lparr>p_req := (p_req ?s)(i := rq'),
      p_gr := (p_gr ?s)(i := (\<lambda>k. if k < n then lm_next_grant on i rq' (see_req ?s i) (see_gr ?s i) k else p_gr ?s i k)),
      p_pend := (p_pend ?s)(i := p_pend ?s i \<and> \<not> lm_ready n on i (see_gr ?s i) \<and> \<not> p_canc ?s i),
      p_canc := (p_canc ?s)(i := False)\<rparr>"
    by (simp add: Let_def rq'_def for_hosts_array)
  show ?thesis
    unfolding step d_def[symmetric] d'_def[symmetric]
    using i req gr rest pend canc
    by (auto simp: lk_abs_def fun_eq_iff d_def)
qed

section \<open>The caches stay up to date\<close>

lemma lk_host_ok_release:
  assumes "lk_host_ok n on d" "sf_access (f (d_sf d))"
  shows "lk_host_ok n on (with_sf b f d)"
  using assms lm_synced_unlock[of b "upd_sf f d"]
  by (auto simp: lk_host_ok_def with_sf_def is_online_def)

lemma lk_host_ok_pass:
  assumes ok: "lk_host_ok n on d" and "num_host c \<le> 64" "lm_active c d"
  shows "lk_host_ok n on (lock_mgr_pass c d)"
proof -
  have "lm_synced (lock_mgr_pass c d)"
    using lock_mgr_pass_rows[OF assms(2) _ assms(3)] ok by (simp add: lk_host_ok_def)
  moreover have "is_online (d_lmv (lock_mgr_pass c d)) = is_online (d_lmv d)"
    by (rule is_online_lmv_sm[OF lock_mgr_pass_lmv_sm])
  moreover obtain v2 s2 where pr: "lm_process_requests c (d_lmv d, lm_cancel_grants c (d_lmv d) (d_sf d)) = (v2, s2)"
    by fastforce
  have "lmv_terminate v2 = lmv_terminate (d_lmv d)"
    using pr by (auto simp: lm_process_requests_def Let_def split: if_splits)
  then have "sf_access (d_sf (lock_mgr_pass c d)) \<and> sf_access (lmv_sf (d_lmv (lock_mgr_pass c d)))
      \<and> \<not> lmv_terminate (d_lmv (lock_mgr_pass c d))"
    using lm_process_requests_cases(8)[OF pr] pr assms(3) ok
    by (simp add: lock_mgr_pass_def lm_active_def Let_def lk_host_ok_def)
  ultimately show ?thesis using ok by (simp add: lk_host_ok_def)
qed

lemma lock_part_eq:
  assumes "lock_part d' = lock_part d"
  shows "rows_request (d_sf d') = rows_request (d_sf d)" "rows_grant (d_sf d') = rows_grant (d_sf d)"
    "lmv_pending_request (d_lmv d') = lmv_pending_request (d_lmv d)"
    "lmv_cancel_request (d_lmv d') = lmv_cancel_request (d_lmv d)"
    "lk_host_ok n on d' = lk_host_ok n on d"
proof -
  let ?v = "d_lmv d" and ?v' = "d_lmv d'"
  have s: "sf_lm_request (d_sf d') = sf_lm_request (d_sf d)" "sf_lm_grant (d_sf d') = sf_lm_grant (d_sf d)"
    "sf_access (d_sf d') = sf_access (d_sf d)"
    using assms by (simp_all add: lock_part_def)
  have w: "snd (lock_part d') = snd (lock_part d)" using assms by simp
  have v: "lmv_pending_request ?v' = lmv_pending_request ?v" "lmv_cancel_request ?v' = lmv_cancel_request ?v"
    "lmv_terminate ?v' = lmv_terminate ?v" "lmv_sm ?v' = lmv_sm ?v"
    using arg_cong[OF w, of lmv_pending_request] arg_cong[OF w, of lmv_cancel_request]
      arg_cong[OF w, of lmv_terminate] arg_cong[OF w, of lmv_sm] by (simp_all add: lock_part_def)
  have "sf_lm_request (lmv_sf ?v') = sf_lm_request (lmv_sf ?v)" "sf_lm_grant (lmv_sf ?v') = sf_lm_grant (lmv_sf ?v)"
    "sf_access (lmv_sf ?v') = sf_access (lmv_sf ?v)"
    using arg_cong[OF w, of "\<lambda>v. sf_lm_request (lmv_sf v)"] arg_cong[OF w, of "\<lambda>v. sf_lm_grant (lmv_sf v)"]
      arg_cong[OF w, of "\<lambda>v. sf_access (lmv_sf v)"] by (simp_all add: lock_part_def)
  with s v show "rows_request (d_sf d') = rows_request (d_sf d)" "rows_grant (d_sf d') = rows_grant (d_sf d)"
    "lmv_pending_request ?v' = lmv_pending_request ?v" "lmv_cancel_request ?v' = lmv_cancel_request ?v"
    "lk_host_ok n on d' = lk_host_ok n on d"
    by (simp_all add: rows_request_def rows_grant_def lk_host_ok_def lm_synced_def is_online_def fun_eq_iff)
qed

section \<open>Simulation in both directions\<close>

inductive_cases lk_stepE: "lk_step n cfg on careful p q"

lemma lk_host_ok_flags:
  "lk_host_ok n on d \<Longrightarrow> lk_host_ok n on (upd_lmv (\<lambda>v. v\<lparr>lmv_pending_request := b\<rparr>) d)"
  "lk_host_ok n on d \<Longrightarrow> lk_host_ok n on (upd_lmv (\<lambda>v. v\<lparr>lmv_cancel_request := b\<rparr>) d)"
  by (simp_all add: lk_host_ok_def lm_synced_def is_online_def)

lemma lk_active:
  assumes "lk_host_ok n on d" "num_host c = n" "my_index c = i" "i < n" "on i"
  shows "lm_active c d"
  using assms by (simp add: lk_host_ok_def lm_active_def)

lemma lk_step_ok:
  assumes step: "lk_step n cfg on careful p q" and ok: "lk_ok n on p" and c: "lk_config n cfg"
  shows "lk_ok n on q"
  using step
proof cases
  case (ask i)
  show ?thesis unfolding ask(1) by (rule lk_ok_upd(1)[OF ok lk_host_ok_flags(1)[OF lk_okD[OF ok ask(2)]]])
next
  case (acquire i u)
  have "lk_host_ok n on (sf_set_master u (lk_d p i))"
    unfolding sf_set_master_def using lk_okD[OF ok acquire(2)] by (intro lk_host_ok_release) (simp_all add: lk_host_ok_def)
  then show ?thesis unfolding acquire(1) by (rule lk_ok_upd(2)[OF ok])
next
  case (withdraw i)
  show ?thesis unfolding withdraw(1) by (rule lk_ok_upd(2)[OF ok lk_host_ok_flags(2)[OF lk_okD[OF ok withdraw(2)]]])
next
  case (pass i)
  have "lk_host_ok n on (lock_mgr_pass (cfg i) (lk_d p i))"
    using lk_configD[OF c pass(2)] lk_active[OF lk_okD[OF ok pass(2)] _ _ pass(2,3), of "cfg i"]
    by (intro lk_host_ok_pass lk_okD[OF ok pass(2)]) simp_all
  then show ?thesis unfolding pass(1) by (rule lk_ok_upd(1)[OF ok])
next
  case (put i now)
  show ?thesis unfolding put(1) using ok by (simp add: lk_ok_def)
next
  case (get i j psm v)
  have "lk_host_ok n on (with_sf False (publish_host (cfg i) psm v (lk_file p) j) (lk_d p i))"
    using lk_okD[OF ok get(2)] by (intro lk_host_ok_release) (simp_all add: lk_host_ok_def publish_host_lock)
  then show ?thesis unfolding get(1) by (rule lk_ok_upd(1)[OF ok])
next
  case (other i d')
  have "lk_host_ok n on d'" unfolding lock_part_eq(5)[OF other(3)] by (rule lk_okD[OF ok other(2)])
  then show ?thesis unfolding other(1) by (rule lk_ok_upd(1)[OF ok])
qed

lemma lk_step_simulates:
  assumes step: "lk_step n cfg on careful p q" and ok: "lk_ok n on p" and c: "lk_config n cfg"
  shows "lk_abs n q = lk_abs n p \<or>
    (\<exists>a. lp_guard n on careful a (lk_abs n p) \<and> lk_abs n q = lp_effect n on a (lk_abs n p))"
  using step
proof cases
  case (ask i)
  have "lp_guard n on careful (Ask i) (lk_abs n p)" using ask by simp
  then show ?thesis unfolding ask(1) using lk_abs_ask[OF ask(2)] by blast
next
  case (acquire i u)
  have "lp_guard n on careful (Acquire i) (lk_abs n p)"
    using acquire(2-) lk_get_lock_node[OF lk_okD[OF ok acquire(2)] c acquire(2)]
    by (auto simp: lk_abs_def rows_request_def)
  then show ?thesis unfolding acquire(1) using lk_abs_acquire[OF acquire(2)] by blast
next
  case (withdraw i)
  have "lp_guard n on careful (Drop i) (lk_abs n p)" using withdraw(2-) by (simp add: lk_abs_def)
  then show ?thesis unfolding withdraw(1) using lk_abs_withdraw[OF withdraw(2)] by blast
next
  case (pass i)
  have "lp_guard n on careful (Pass i) (lk_abs n p)" using pass by simp
  then show ?thesis unfolding pass(1) using lk_abs_pass[OF lk_okD[OF ok pass(2)] c pass(2,3)] by blast
next
  case (put i now)
  have "lp_guard n on careful (PutRow i) (lk_abs n p)" "my_index (cfg i) = i" using put lk_configD[OF c] by auto
  then show ?thesis unfolding put(1) using lk_abs_put[OF put(2)] by blast
next
  case (get i j psm v)
  have "lp_guard n on careful (GetRow i j) (lk_abs n p)" "my_index (cfg i) = i" using get lk_configD[OF c] by auto
  then show ?thesis unfolding get(1) using lk_abs_get[OF get(2-4)] by blast
next
  case (other i d')
  note same = lock_part_eq[OF other(3)]
  show ?thesis unfolding other(1)
    by (rule disjI1, rule lk_abs_upd[OF other(2)]) (simp_all add: same)
qed

lemma lk_matchI:
  "lk_abs n q = s \<Longrightarrow> lk_step n cfg on careful p q \<Longrightarrow> \<exists>q. lk_step n cfg on careful p q \<and> lk_abs n q = s"
  by blast

lemma lk_step_matches:
  assumes g: "lp_guard n on careful a (lk_abs n p)" and ok: "lk_ok n on p" and c: "lk_config n cfg"
  shows "\<exists>q. lk_step n cfg on careful p q \<and> lk_abs n q = lp_effect n on a (lk_abs n p)"
proof (cases a)
  case (Ask i)
  then have i: "i < n" "on i" using g by auto
  show ?thesis unfolding Ask by (rule lk_matchI[OF lk_abs_ask[OF i(1)]], rule lk_step.ask[where on = on, OF i])
next
  case (Acquire i)
  then have i: "i < n" "lp_locked n on (lk_abs n p) i" using g by auto
  have l: "get_lock_node (cfg i) (d_lmv (lk_d p i)) = Some i"
    using lk_get_lock_node[OF lk_okD[OF ok i(1)] c i(1)] i(2) by simp
  have r: "careful \<Longrightarrow> sf_lm_request (d_sf (lk_d p i)) i \<and> \<not> lmv_cancel_request (d_lmv (lk_d p i))"
    using g Acquire by (auto simp: lk_abs_def rows_request_def)
  show ?thesis unfolding Acquire by (rule lk_matchI[OF lk_abs_acquire[OF i(1)]], rule lk_step.acquire[where on = on and cfg = cfg and p = p, OF i(1) l r])
next
  case (Drop i)
  then have i: "i < n" "on i" and h: "careful \<Longrightarrow> lk_hold p i" using g by (auto simp: lk_abs_def)
  show ?thesis unfolding Drop by (rule lk_matchI[OF lk_abs_withdraw[OF i(1)]], rule lk_step.withdraw[where on = on and p = p, OF i h])
next
  case (Pass i)
  then have i: "i < n" "on i" using g by auto
  show ?thesis unfolding Pass
    by (rule lk_matchI[OF lk_abs_pass[OF lk_okD[OF ok i(1)] c i]], rule lk_step.pass[where on = on, OF i])
next
  case (PutRow i)
  then have i: "i < n" "my_index (cfg i) = i" using g lk_configD[OF c] by auto
  show ?thesis unfolding PutRow by (rule lk_matchI[OF lk_abs_put[of i n cfg, OF i]], rule lk_step.put[OF i(1)])
next
  case (GetRow i j)
  then have i: "i < n" "j < n" "i \<noteq> j" "my_index (cfg i) = i" using g lk_configD[OF c] by auto
  show ?thesis unfolding GetRow by (rule lk_matchI[OF lk_abs_get[of i n j cfg, OF i]], rule lk_step.get[OF i(1-3)])
qed

lemma lk_reach_abs:
  assumes "lk_reach n cfg on careful p q" "lk_config n cfg" "lk_start n on p"
  shows "lk_ok n on q \<and> lp_reach n on careful (lk_abs n p) (lk_abs n q)"
  using assms(1) unfolding lk_reach_def
proof (induction rule: rtranclp_induct)
  case base
  then show ?case using assms(3) by (simp add: lk_start_def lp_reach.start)
next
  case (step q r)
  then show ?case
    using lk_step_ok[OF step(2) _ assms(2)] lk_step_simulates[OF step(2) _ assms(2)] lp_reach.act by metis
qed

lemma lk_run:
  assumes c: "lk_config n cfg"
  shows "lp_run n on careful as (lk_abs n p) = Some s \<Longrightarrow> lk_ok n on p \<Longrightarrow>
    \<exists>q. lk_reach n cfg on careful p q \<and> lk_abs n q = s"
proof (induction as arbitrary: p)
  case Nil
  then show ?case by (auto simp: lk_reach_def)
next
  case (Cons a as)
  then have g: "lp_guard n on careful a (lk_abs n p)"
    and run: "lp_run n on careful as (lp_effect n on a (lk_abs n p)) = Some s"
    by (simp_all split: if_splits)
  obtain p' where p': "lk_step n cfg on careful p p'" "lk_abs n p' = lp_effect n on a (lk_abs n p)"
    using lk_step_matches[OF g Cons.prems(2) c] by blast
  from Cons.IH[of p'] run p' lk_step_ok[OF p'(1) Cons.prems(2) c]
  obtain q where "lk_reach n cfg on careful p' q" "lk_abs n q = s" by auto
  then show ?case using p'(1) by (auto simp: lk_reach_def intro: converse_rtranclp_into_rtranclp)
qed

section \<open>What the lock guarantees\<close>

text \<open>
  C28. The pool of daemons implements the lock protocol: from a start of the pool, whatever the
  hosts do (passes, elements written and read late or never, requests and cancellations,
  anything else that leaves the lock rows alone), the state of the pool maps to a state that the
  protocol reaches from the image of the start, and every cache that a release refreshed is up to date.
\<close>

theorem lock_pool_refines_protocol:
  assumes "lk_reach n cfg on careful p q" "lk_config n cfg" "lk_start n on p"
  shows "lk_ok n on q \<and> lp_start n on (lk_abs n p) \<and> lp_reach n on careful (lk_abs n p) (lk_abs n q)"
  using lk_reach_abs[OF assms] lk_start_abs[OF assms(3)] by blast






text \<open>
  Two hosts online: with empty rows, and as they start, with their own row full, written to the
  file and read by the other.
\<close>

definition pool_daemon :: "hostmap \<Rightarrow> nat \<Rightarrow> daemon" where
  "pool_daemon row i = (let d = init_daemon (default_config 2 i);
       sf = (d_sf d)\<lparr>sf_access := True, sf_lm_grant := \<lambda>_. row\<rparr> in
     d\<lparr>d_sf := sf, d_lmv := (d_lmv d)\<lparr>lmv_sf := sf,
         lmv_sm := (d_sm d)\<lparr>sm_current_liveset := hm_of [0, 1]\<rparr>\<rparr>\<rparr>)"

definition quiet_pool :: lk_pool where
  "quiet_pool = \<lparr>lk_d = pool_daemon hm_init_reset, lk_file = blank_host, lk_hold = (\<lambda>_. False)\<rparr>"

definition booted_pool :: lk_pool where
  "booted_pool = \<lparr>lk_d = pool_daemon hm_init_set,
     lk_file = (\<lambda>i. compose_element (default_config 2 i) 0 (pool_daemon hm_init_set i) (blank_host i)),
     lk_hold = (\<lambda>_. False)\<rparr>"

text \<open>The own row of \<open>booted_pool\<close> is the one the daemon starts with.\<close>

lemma booted_row: "sf_lm_grant (d_sf (lk_d booted_pool i)) i = sf_lm_grant (d_sf (init_daemon (default_config 2 i))) i"
  by (simp add: booted_pool_def pool_daemon_def init_daemon_def init_com_sf_lm Let_def)

lemma pool_daemon_ok: "lk_host_ok 2 (\<lambda>_. True) (pool_daemon row i)"
  by (auto simp: lk_host_ok_def pool_daemon_def Let_def lm_synced_def rows_request_def rows_grant_def
      fun_eq_iff is_online_def hm_ison_of init_daemon_def init_lmv_def less_2_cases_iff)

lemma pool_daemon_sel:
  "sf_lm_request (d_sf (pool_daemon row i)) j = False" "sf_lm_grant (d_sf (pool_daemon row i)) j = row"
  "lmv_pending_request (d_lmv (pool_daemon row i)) = False" "lmv_cancel_request (d_lmv (pool_daemon row i)) = False"
  by (simp_all add: pool_daemon_def Let_def init_daemon_def init_lmv_def init_com_sf_lm)

lemma pool_config: "lk_config 2 (default_config 2)"
  by (simp add: lk_config_def)

lemma quiet_pool_abs: "lk_ok 2 (\<lambda>_. True) quiet_pool" "lk_abs 2 quiet_pool = lp_init"
proof -
  show "lk_ok 2 (\<lambda>_. True) quiet_pool" using pool_daemon_ok by (simp add: lk_ok_def quiet_pool_def)
  show "lk_abs 2 quiet_pool = lp_init"
    by (simp add: lk_abs_def lp_init_def quiet_pool_def pool_daemon_sel rows_request_def rows_grant_def
        blank_host_def u32_bool_def fun_eq_iff)
qed

lemma booted_pool_start: "lk_start 2 (\<lambda>_. True) booted_pool" "lp_flags (lk_abs 2 booted_pool) = full_flags"
proof -
  have "lk_ok 2 (\<lambda>_. True) booted_pool" using pool_daemon_ok by (simp add: lk_ok_def booted_pool_def)
  then show "lk_start 2 (\<lambda>_. True) booted_pool"
    by (simp add: lk_start_def booted_pool_def pool_daemon_sel compose_element_def)
  show "lp_flags (lk_abs 2 booted_pool) = full_flags"
    by (simp add: lp_flags_def full_flags_def lk_abs_def booted_pool_def pool_daemon_sel compose_element_def
        rows_request_def rows_grant_def)
qed

lemma booted_pool_run:
  assumes "\<And>s. lp_flags s = replicate 20 False \<Longrightarrow> \<exists>t. lp_run 2 (\<lambda>_. True) careful as s = Some t \<and> P t"
  shows "\<exists>q. lk_reach 2 (default_config 2) (\<lambda>_. True) careful booted_pool q \<and> P (lk_abs 2 q)"
proof -
  obtain s where s: "lp_run 2 (\<lambda>_. True) careful cleanup_trace (lk_abs 2 booted_pool) = Some s" "lp_flags s = replicate 20 False"
    using cleanup_trace_run[OF booted_pool_start(2)] by blast
  obtain t where t: "lp_run 2 (\<lambda>_. True) careful as s = Some t" "P t" using assms[OF s(2)] by blast
  have run: "lp_run 2 (\<lambda>_. True) careful (cleanup_trace @ as) (lk_abs 2 booted_pool) = Some t"
    using s(1) t(1) by (simp add: lp_run_append)
  have ok: "lk_ok 2 (\<lambda>_. True) booted_pool" using booted_pool_start(1) by (simp add: lk_start_def)
  show ?thesis using lk_run[OF pool_config run ok] t(2) by blast
qed

theorem lock_pool_refines_protocol_witness:
  "\<exists>q. lk_hold q 0 \<and> lp_reach 2 (\<lambda>_. True) True (lk_abs 2 booted_pool) (lk_abs 2 q)"
proof -
  obtain q where q: "lk_reach 2 (default_config 2) (\<lambda>_. True) True booted_pool q" "p_hold (lk_abs 2 q) 0"
    using booted_pool_run[of True grant_trace "\<lambda>t. p_hold t 0"] grant_trace_run by blast
  then show ?thesis
    using lock_pool_refines_protocol[OF q(1) pool_config booted_pool_start(1)] by (auto simp: lk_abs_def)
qed


text \<open>A disciplined run that ends with the lock: host 0 asks, host 1 grants.\<close>

lemma booted_pool_grants:
  "\<exists>q. lk_reach 2 (default_config 2) (\<lambda>_. True) True booted_pool q \<and> lk_hold q 0"
proof -
  obtain q where "lk_reach 2 (default_config 2) (\<lambda>_. True) True booted_pool q" "p_hold (lk_abs 2 q) 0"
    using booted_pool_run[of True grant_trace "\<lambda>t. p_hold t 0"] grant_trace_run by blast
  then show ?thesis by (auto simp: lk_abs_def)
qed

text \<open>
  C39. The discipline is necessary: when a host withdraws a request that has not been granted
  yet, as the losing side of \<open>lm_request_lock\<close> does, and asks again, the readiness test
  does not protect it, and two hosts of the pool can be told that they have the lock at once.
\<close>

theorem withdrawn_request_breaks_exclusion:
  "\<exists>q. lk_reach 2 (default_config 2) (\<lambda>_. True) False quiet_pool q \<and> lk_hold q 0 \<and> lk_hold q 1"
proof -
  obtain s where s: "lp_run 2 (\<lambda>_. True) False withdraw_trace lp_init = Some s" "p_hold s 0" "p_hold s 1"
    using withdraw_trace_run[OF lp_init_flags] by blast
  with lk_run[OF pool_config, of "\<lambda>_. True" False withdraw_trace quiet_pool s] quiet_pool_abs
  show ?thesis by (auto simp: lk_abs_def)
qed

end
