(* ===== verification/SmFault.thy ===== *)
theory SmFault
  imports Heartbeat SmPartition "HOL-Library.Monad_Syntax"
begin

text \<open>
  The fault handler of \<^verbatim>\<open>daemon/sm.c\<close>: the rendezvous between its phases, the
  waits for a stable state and a consistent view, the merger that picks a fully connected
  partition when no consistent view comes about, the survival rule, and the handler
  itself. The state-manager thread runs alone between two waits; the bursts of heartbeats
  it sends are not interleaved with other threads.
\<close>

definition APPROACHING_TIMEOUT_FACTOR :: u32 where "APPROACHING_TIMEOUT_FACTOR = 25"
definition FH_MINIMUM_SLEEP_BEFORE_FO :: u32 where "FH_MINIMUM_SLEEP_BEFORE_FO = 10"
definition HB_ACCELERATION_COUNT_RENDEZVOUS :: int where "HB_ACCELERATION_COUNT_RENDEZVOUS = 3"
definition HB_ACCELERATION_COUNT_JOIN :: int where "HB_ACCELERATION_COUNT_JOIN = 3"

section \<open>Rendezvous\<close>

text \<open>Every live host that is visible is in one of the two phases.\<close>

definition rendezvous_met :: "ha_config \<Rightarrow> sm_phase \<Rightarrow> sm_phase \<Rightarrow> bool \<Rightarrow> bool \<Rightarrow> daemon \<Rightarrow> bool" where
  "rendezvous_met c p1 p2 on_heartbeat on_statefile d \<longleftrightarrow>
     all_hosts (num_host c) (\<lambda>i. hm_ison (sm_current_liveset (d_sm d)) i \<longrightarrow>
       \<not> (on_heartbeat \<and> hm_ison (hb_hbdomain (d_hb d)) i
          \<and> \<not> (hb_sm_phase (d_hb d) i = p1 \<or> hb_sm_phase (d_hb d) i = p2))
       \<and> \<not> (on_statefile \<and> hm_ison (sf_sfdomain (d_sf d)) i
          \<and> \<not> (sf_sm_phase (d_sf d) i = p1 \<or> sf_sm_phase (d_sf d) i = p2)))"

text \<open>The loop waits for a signal after every look, the successful one included.\<close>

partial_function (option) rendezvous_loop ::
  "ha_config \<Rightarrow> sm_phase \<Rightarrow> sm_phase \<Rightarrow> bool \<Rightarrow> bool \<Rightarrow> sm_st \<Rightarrow> sm_st option" where
  "rendezvous_loop c p1 p2 on_heartbeat on_statefile st =
     (let met = rendezvous_met c p1 p2 on_heartbeat on_statefile (st_d st)
      in Option.bind (sm_wait_signals_sm_hb_sf True True True (- 1) st) (\<lambda>(_, st1).
           if met then Some st1
           else rendezvous_loop c p1 p2 on_heartbeat on_statefile st1))"

definition rendezvous_wait :: "ha_config \<Rightarrow> sm_phase \<Rightarrow> sm_phase \<Rightarrow> bool \<Rightarrow> bool \<Rightarrow> sm_st \<Rightarrow> sm_st option" where
  "rendezvous_wait c p1 p2 on_heartbeat on_statefile st =
     (let now = (\<lambda>_. st_now st);
          st1 = (if on_heartbeat
                 then st_upd (hb_send_hb_now c True now HB_ACCELERATION_COUNT_RENDEZVOUS) st else st);
          st2 = (if on_statefile then st_upd (hb_SF_accelerate_req c True now) st1 else st1)
      in Option.bind (rendezvous_loop c p1 p2 on_heartbeat on_statefile st2) (\<lambda>st3.
           Some (if on_statefile
                 then st_upd (hb_SF_cancel_accelerate c True (\<lambda>_. st_now st3)) st3 else st3)))"

definition rendezvous :: "ha_config \<Rightarrow> sm_phase \<Rightarrow> sm_phase \<Rightarrow> sm_phase \<Rightarrow> bool \<Rightarrow> bool \<Rightarrow> sm_st
  \<Rightarrow> sm_st option" where
  "rendezvous c phase1 phase2 phase3 on_heartbeat on_statefile st =
     Option.bind (rendezvous_wait c phase1 phase2 on_heartbeat on_statefile
                    (st_upd (set_sm_phase phase1) st)) (\<lambda>st1.
       rendezvous_wait c phase2 phase3 on_heartbeat on_statefile (st_upd (set_sm_phase phase2) st1))"

section \<open>Stable state\<close>

text \<open>A host that is about to time out, and has not been heard since the wait began.\<close>

definition approaching :: "u32 \<Rightarrow> clock \<Rightarrow> clock \<Rightarrow> clock \<Rightarrow> bool" where
  "approaching T start now heard_at \<longleftrightarrow>
     heard_at \<ge> 0 \<and> now - heard_at > uint (T * 10 * APPROACHING_TIMEOUT_FACTOR)
     \<and> now - heard_at > now - start"

definition state_stable :: "ha_config \<Rightarrow> clock \<Rightarrow> clock \<Rightarrow> daemon \<Rightarrow> bool" where
  "state_stable c start now d \<longleftrightarrow> all_hosts (num_host c) (\<lambda>i.
     \<not> (hm_ison (hb_hbdomain (d_hb d)) i
        \<and> approaching (cfg_T1 c) start now (hb_time_last_HB (d_hb d) i))
     \<and> \<not> (hm_ison (sf_sfdomain (d_sf d)) i
        \<and> approaching (cfg_T2 c) start now (sf_time_last_SF (d_sf d) i)))"

partial_function (option) stable_loop :: "ha_config \<Rightarrow> clock \<Rightarrow> sm_st \<Rightarrow> sm_st option" where
  "stable_loop c start st =
     (if state_stable c start (st_now st) (st_d st) then Some st
      else Option.bind (sm_wait_signals_sm_hb_sf False True True (- 1) st)
             (\<lambda>(_, st1). stable_loop c start st1))"

definition wait_until_HBSF_state_stable :: "ha_config \<Rightarrow> sm_st \<Rightarrow> sm_st option" where
  "wait_until_HBSF_state_stable c st = stable_loop c (st_now st) st"

section \<open>Consistent view\<close>

text \<open>The views compared: the local domains and the four copies of a peer's domains.\<close>

definition view_agrees :: "hostmap \<Rightarrow> hostmap \<Rightarrow> hostmap \<Rightarrow> com_data_hb \<Rightarrow> com_data_sf \<Rightarrow> nat \<Rightarrow> bool" where
  "view_agrees live my_hb my_sf phb psf i \<longleftrightarrow>
     (let remote_hb = hm_inter (raw_hbdomain (hb_raw phb i)) live;
          remote_sf = hm_inter (raw_sfdomain (sf_raw psf i)) live;
          remote_hb_onsf = hm_inter (raw_hbdomain (sf_raw psf i)) live;
          remote_sf_onhb = hm_inter (raw_sfdomain (hb_raw phb i)) live
      in \<not> ((hm_ison my_hb i \<and> hm_differs my_hb remote_hb)
          \<or> (hm_ison my_sf i \<and> hm_differs my_sf remote_sf)
          \<or> (hm_ison my_sf i \<and> hm_differs my_hb remote_hb_onsf)
          \<or> (hm_ison my_hb i \<and> hm_differs my_sf remote_sf_onhb)))"

definition mask_peer_rows :: "nat \<Rightarrow> nat \<Rightarrow> com_data_hb \<times> com_data_sf \<Rightarrow> com_data_hb \<times> com_data_sf" where
  "mask_peer_rows n i = (\<lambda>(phb, psf).
     (phb\<lparr>hb_raw := (hb_raw phb)(i := (hb_raw phb i)\<lparr>
            raw_hbdomain := hm_mask_unconfig n (raw_hbdomain (hb_raw phb i)),
            raw_sfdomain := hm_mask_unconfig n (raw_sfdomain (hb_raw phb i))\<rparr>)\<rparr>,
      psf\<lparr>sf_raw := (sf_raw psf)(i := (sf_raw psf i)\<lparr>
            raw_hbdomain := hm_mask_unconfig n (raw_hbdomain (sf_raw psf i)),
            raw_sfdomain := hm_mask_unconfig n (raw_sfdomain (sf_raw psf i))\<rparr>)\<rparr>))"

text \<open>One look: the scan stops at the first peer that disagrees.\<close>

definition consistent_host :: "ha_config \<Rightarrow> hostmap \<Rightarrow> hostmap \<Rightarrow> hostmap \<Rightarrow> nat
  \<Rightarrow> bool \<times> com_data_hb \<times> com_data_sf \<Rightarrow> bool \<times> com_data_hb \<times> com_data_sf" where
  "consistent_host c live my_hb my_sf i = (\<lambda>(ok, phb, psf).
     if ok \<and> i \<noteq> my_index c \<and> hm_ison live i
     then (case mask_peer_rows (num_host c) i (phb, psf) of
             (phb1, psf1) \<Rightarrow> (view_agrees live my_hb my_sf phb1 psf1 i, phb1, psf1))
     else (ok, phb, psf))"

definition consistent_look :: "ha_config \<Rightarrow> daemon \<Rightarrow> bool \<times> hostmap \<times> hostmap \<times> daemon" where
  "consistent_look c d =
     (let live = sm_current_liveset (d_sm d);
          phb = (d_hb d)\<lparr>hb_hbdomain := hm_mask_unconfig (num_host c) (hb_hbdomain (d_hb d))\<rparr>;
          psf = (d_sf d)\<lparr>sf_sfdomain := hm_mask_unconfig (num_host c) (sf_sfdomain (d_sf d))\<rparr>;
          my_hb = hm_inter (hb_hbdomain phb) live;
          my_sf = hm_inter (sf_sfdomain psf) live;
          (ok, phb1, psf1) = for_hosts (num_host c) (consistent_host c live my_hb my_sf) (True, phb, psf)
      in (ok, my_hb, my_sf, unlock_hb True (unlock_sf True (d\<lparr>d_hb := phb1, d_sf := psf1\<rparr>))))"

text \<open>The result: whether the views agreed before the timeout, and the last local views.\<close>

partial_function (option) consistent_loop :: "ha_config \<Rightarrow> clock \<Rightarrow> clock \<Rightarrow> sm_st
  \<Rightarrow> (bool \<times> hostmap \<times> hostmap \<times> sm_st) option" where
  "consistent_loop c timeout start st =
     (case consistent_look c (st_d st) of (ok, my_hb, my_sf, d1) \<Rightarrow>
        let st1 = st_upd (\<lambda>_. d1) st
        in if ok then Some (True, my_hb, my_sf, st1)
           else if st_now st1 - start \<ge> timeout then Some (False, my_hb, my_sf, st1)
           else Option.bind (mssleep 100 st1) (\<lambda>st2.
                Option.bind (sm_wait_signals_sm_hb_sf True True True (- 1) st2) (\<lambda>(_, st3).
                  consistent_loop c timeout start st3)))"

section \<open>The merger\<close>

text \<open>
  When the views do not agree in time, the handler computes the domain every host would
  agree on: \<open>doms i\<close> is host \<open>i\<close>'s heartbeat domain as read from the State-File.
\<close>

definition merge_rows :: "ha_config \<Rightarrow> hostmap \<Rightarrow> hostmap \<Rightarrow> hostmap
  \<Rightarrow> com_data_hb \<times> com_data_sf \<Rightarrow> com_data_hb \<times> com_data_sf" where
  "merge_rows c live my_hb my_sf = (\<lambda>(phb, psf).
     let me = my_index c;
         phb1 = phb\<lparr>hb_raw := (hb_raw phb)(me := (hb_raw phb me)\<lparr>raw_hbdomain := my_hb, raw_sfdomain := my_sf\<rparr>)\<rparr>;
         psf1 = psf\<lparr>sf_raw := (sf_raw psf)(me := (sf_raw psf me)\<lparr>raw_hbdomain := my_hb, raw_sfdomain := my_sf\<rparr>)\<rparr>
     in for_hosts (num_host c) (\<lambda>i (h, f).
          (h\<lparr>hb_raw := (hb_raw h)(i := (hb_raw h i)\<lparr>
               raw_hbdomain := hm_inter (raw_hbdomain (hb_raw h i)) live,
               raw_sfdomain := hm_inter (raw_sfdomain (hb_raw h i)) live\<rparr>)\<rparr>,
           f\<lparr>sf_raw := (sf_raw f)(i := (sf_raw f i)\<lparr>
               raw_hbdomain := hm_inter (raw_hbdomain (sf_raw f i)) live,
               raw_sfdomain := hm_inter (raw_sfdomain (sf_raw f i)) live\<rparr>)\<rparr>)) (phb1, psf1))"

text \<open>Hosts that have lost the State-File leave the local State-File domain.\<close>

definition merge_lost_sf :: "ha_config \<Rightarrow> hostmap \<times> com_data_hb \<times> com_data_sf
  \<Rightarrow> hostmap \<times> com_data_hb \<times> com_data_sf" where
  "merge_lost_sf c = for_hosts (num_host c) (\<lambda>i (my_sf, h, f).
     if i = my_index c then (my_sf, h, f)
     else if is_empty_liveset c (raw_sfdomain (sf_raw f i))
             \<or> is_empty_liveset c (raw_sfdomain (hb_raw h i))
     then (hm_reset my_sf i,
           h\<lparr>hb_raw := (hb_raw h)(my_index c := (hb_raw h (my_index c))\<lparr>
               raw_sfdomain := hm_reset (raw_sfdomain (hb_raw h (my_index c))) i\<rparr>)\<rparr>,
           f\<lparr>sf_sfdomain := hm_reset (sf_sfdomain f) i,
             sf_raw := (sf_raw f)(my_index c := (sf_raw f (my_index c))\<lparr>
               raw_sfdomain := hm_reset (raw_sfdomain (sf_raw f (my_index c))) i\<rparr>)\<rparr>)
     else (my_sf, h, f))"

text \<open>Removing a host: its own domain is emptied and it leaves every other domain.\<close>

definition merge_remove :: "nat \<Rightarrow> nat \<Rightarrow> (nat \<Rightarrow> hostmap) \<times> hostmap \<Rightarrow> (nat \<Rightarrow> hostmap) \<times> hostmap" where
  "merge_remove n i = (\<lambda>(doms, removed).
     (for_hosts n (\<lambda>j a. a(j := hm_reset (a j) i)) (doms(i := hm_init_reset)), hm_set removed i))"

definition merge_no_sf :: "nat \<Rightarrow> hostmap \<Rightarrow> (nat \<Rightarrow> hostmap) \<Rightarrow> (nat \<Rightarrow> hostmap) \<times> hostmap" where
  "merge_no_sf n my_sf doms = for_hosts n (\<lambda>i s. if \<not> hm_ison my_sf i then merge_remove n i s else s)
     (doms, hm_init_reset)"

text \<open>The remaining host with the least score; on a tie the one with the higher number.\<close>

definition merge_select_step :: "ha_config \<Rightarrow> (nat \<Rightarrow> u32) \<Rightarrow> (nat \<Rightarrow> hostmap) \<Rightarrow> hostmap \<Rightarrow> nat
  \<Rightarrow> nat option \<times> int \<Rightarrow> nat option \<times> int" where
  "merge_select_step c w doms removed i = (\<lambda>(selected, minimum).
     if hm_ison removed i then (selected, minimum)
     else if selected = None \<or> get_partition_score c (doms i) w < minimum
     then (Some i, get_partition_score c (doms i) w) else (selected, minimum))"

definition merge_select :: "ha_config \<Rightarrow> (nat \<Rightarrow> u32) \<Rightarrow> (nat \<Rightarrow> hostmap) \<Rightarrow> hostmap \<Rightarrow> nat option" where
  "merge_select c w doms removed =
     fst (fold (merge_select_step c w doms removed) (rev [0..<num_host c]) (None, - 1))"

text \<open>\<open>while (TRUE)\<close>: drop the selected host until what is left is complete.\<close>

partial_function (option) merge_loop :: "ha_config \<Rightarrow> (nat \<Rightarrow> u32) \<Rightarrow> (nat \<Rightarrow> hostmap) \<Rightarrow> hostmap
  \<Rightarrow> ((nat \<Rightarrow> hostmap) \<times> hostmap) option" where
  "merge_loop c w doms removed =
     (case merge_select c w doms removed of
        None \<Rightarrow> Some (doms, removed)
      | Some i \<Rightarrow>
          if is_all_hosts_up c (hm_union (doms i) removed) then Some (doms, removed)
          else (case merge_remove (num_host c) i (doms, removed) of (doms1, removed1) \<Rightarrow>
                  merge_loop c w doms1 removed1))"

definition merge_views :: "ha_config \<Rightarrow> hostmap \<Rightarrow> hostmap \<Rightarrow> hostmap
  \<Rightarrow> com_data_hb \<times> com_data_sf \<Rightarrow> (com_data_hb \<times> com_data_sf) option" where
  "merge_views c live my_hb my_sf hf =
     (case merge_lost_sf c (my_sf, merge_rows c live my_hb my_sf hf) of (my_sf1, h, f) \<Rightarrow>
      case merge_no_sf (num_host c) my_sf1 (\<lambda>i. raw_hbdomain (sf_raw f i)) of (doms0, removed0) \<Rightarrow>
      Option.bind (merge_loop c (sf_weight f) doms0 removed0) (\<lambda>(doms1, removed1).
        let f1 = f\<lparr>sf_raw := (\<lambda>i. (sf_raw f i)\<lparr>raw_hbdomain := doms1 i\<rparr>)\<rparr>;
            (h2, f2) = for_hosts (num_host c) (\<lambda>i (h, f).
              (h\<lparr>hb_raw := (hb_raw h)(i := (hb_raw h i)\<lparr>
                   raw_hbdomain := hm_inter (raw_hbdomain (hb_raw h i)) live,
                   raw_sfdomain := hm_inter (raw_sfdomain (hb_raw h i)) live\<rparr>)\<rparr>,
               f\<lparr>sf_raw := (sf_raw f)(i := (sf_raw f i)\<lparr>
                   raw_hbdomain := hm_inter (raw_hbdomain (sf_raw f i)) live,
                   raw_sfdomain := hm_inter (raw_sfdomain (sf_raw f i)) live\<rparr>)\<rparr>)) (h, f1)
        in Some (h2\<lparr>hb_hbdomain := raw_hbdomain (sf_raw f2 (my_index c))\<rparr>,
                 f2\<lparr>sf_sfdomain := my_sf1\<rparr>)))"

text \<open>The objects the survival rule works on are copies, merged when the views differ.\<close>

definition wait_until_all_hosts_have_consistent_view :: "ha_config \<Rightarrow> clock \<Rightarrow> sm_st
  \<Rightarrow> (bool \<times> sm_st) option" where
  "wait_until_all_hosts_have_consistent_view c timeout st =
     Option.bind (consistent_loop c timeout (st_now st) st) (\<lambda>(ok, my_hb, my_sf, st1).
       let d = st_d st1; hf = (d_hb d, d_sf d)
       in Option.bind (if ok then Some hf
                       else merge_views c (sm_current_liveset (d_sm d)) my_hb my_sf hf) (\<lambda>(h, f).
            Some (True, st_upd (upd_smv (\<lambda>v. v\<lparr>smv_stable_hb := h, smv_stable_sf := f\<rparr>)) st1)))"

section \<open>The survival rule\<close>

definition survives_by_SR2 :: "ha_config \<Rightarrow> hostmap \<Rightarrow> com_data_hb \<Rightarrow> com_data_sf \<Rightarrow> bool" where
  "survives_by_SR2 c hbd phb psf \<longleftrightarrow> all_hosts (num_host c) (\<lambda>i.
     let has_sf = (if i = my_index c then sf_access psf else hm_ison (raw_sfdomain (hb_raw phb i)) i);
         excluded = hm_ison (sf_excluded psf) i;
         in_hbd = hm_ison hbd i
     in \<not> ((in_hbd \<and> has_sf) \<or> (\<not> in_hbd \<and> \<not> excluded)))"

text \<open>Taking a host out of the proposed live set and of the domains it is still in.\<close>

definition survival_remove :: "bool \<Rightarrow> hostmap \<Rightarrow> hostmap \<Rightarrow> nat \<Rightarrow> daemon \<Rightarrow> daemon" where
  "survival_remove sr2 hbd sfd i d =
     (if \<not> hm_ison hbd i \<or> \<not> (if sr2 then True else hm_ison sfd i) then
        let d1 = upd_sm (\<lambda>s. s\<lparr>sm_proposed_liveset := hm_reset (sm_proposed_liveset s) i\<rparr>) d;
            d2 = (if hm_ison (hb_hbdomain (d_hb d1)) i
                  then upd_smv (\<lambda>v. v\<lparr>smv_fh_sleep_extend := True\<rparr>)
                         (upd_hb (\<lambda>h. h\<lparr>hb_hbdomain := hm_reset (hb_hbdomain h) i\<rparr>) d1)
                  else d1)
        in (if hm_ison (sf_sfdomain (d_sf d2)) i
            then upd_smv (\<lambda>v. v\<lparr>smv_fh_sleep_extend := True\<rparr>)
                   (upd_sf (\<lambda>s. s\<lparr>sf_sfdomain := hm_reset (sf_sfdomain s) i\<rparr>) d2)
            else d2)
      else d)"

definition test_Survival_Rule :: "ha_config \<Rightarrow> daemon \<Rightarrow> bool \<times> daemon" where
  "test_Survival_Rule c d =
     (let n = num_host c;
          phb = (smv_stable_hb (d_smv d))\<lparr>hb_hbdomain := hm_mask_unconfig n (hb_hbdomain (smv_stable_hb (d_smv d)))\<rparr>;
          psf = (smv_stable_sf (d_smv d))\<lparr>sf_sfdomain := hm_mask_unconfig n (sf_sfdomain (smv_stable_sf (d_smv d)))\<rparr>;
          d1 = upd_smv (\<lambda>v. v\<lparr>smv_stable_hb := phb, smv_stable_sf := psf,
                 smv_last_hbdomain := hb_hbdomain phb, smv_last_sfdomain := sf_sfdomain psf\<rparr>) d;
          live = sm_current_liveset (d_sm d);
          hbd = hm_inter (hb_hbdomain phb) live;
          sfd = hm_inter (sf_sfdomain psf) live;
          winner1 = (if hm_subseteq sfd hbd \<and> \<not> is_empty_liveset c sfd then True
                     else am_I_in_largest_partition c phb psf (sf_weight psf));
          sr2 = (if winner1 then smv_SR2 (d_smv d1) else survives_by_SR2 c hbd phb psf);
          d2 = (if winner1 then d1
                else upd_smv (\<lambda>v. v\<lparr>smv_SR2 := sr2\<rparr>)
                       (if sr2 then upd_sm (\<lambda>s. s\<lparr>sm_SR2 := True\<rparr>) d1 else d1));
          winner = (winner1 \<or> sr2);
          d3 = upd_smv (\<lambda>v. v\<lparr>smv_fh_sleep_extend := False\<rparr>) d2;
          d4 = (if winner \<and> smv_fencing (d_smv d3) = FENCING_ARMED
                then unlock_hb True (unlock_sf True (for_hosts n (survival_remove sr2 hbd sfd) d3))
                else d3)
      in (winner, unlock_sm True d4))"

section \<open>The fault handler\<close>

text \<open>
  The 32-bit part of the sleep in the last phase, then the whole of it: what is left of
  the watchdog time since the end of phase 3, and never less than ten seconds.
\<close>

definition fh_sleep_base :: "ha_config \<Rightarrow> u32" where
  "fh_sleep_base c = (u32_max (cfg_Wh c) (cfg_Ws c) - u32_min (cfg_T1 c) (cfg_T2 c)
     + u32_max (cfg_t1 c) (cfg_t2 c)) * ONE_SEC"

definition fh_sleep_time :: "ha_config \<Rightarrow> bool \<Rightarrow> clock \<Rightarrow> clock \<Rightarrow> int" where
  "fh_sleep_time c longer p3_start p4_start =
     max (uint (fh_sleep_base c) - (p4_start - p3_start)
          + uint ((if longer then u32_min (cfg_T1 c) (cfg_T2 c) else 0) * ONE_SEC))
         (uint (FH_MINIMUM_SLEEP_BEFORE_FO * ONE_SEC))"

definition fh_degrading :: "daemon \<Rightarrow> bool" where
  "fh_degrading d \<longleftrightarrow> \<not> hm_subseteq (sm_current_liveset (d_sm d)) (sm_proposed_liveset (d_sm d))"

definition fh_shrink_liveset :: "daemon \<Rightarrow> daemon" where
  "fh_shrink_liveset d =
     (if smv_fencing (d_smv d) = FENCING_ARMED
      then cancel_fence_request (with_sm True (\<lambda>s. s\<lparr>sm_current_liveset :=
             hm_inter (sm_current_liveset s) (sm_proposed_liveset s)\<rparr>) d)
      else d)"

definition fh_phase4 :: "ha_config \<Rightarrow> clock \<Rightarrow> sm_st \<Rightarrow> sm_st option" where
  "fh_phase4 c p3_start st =
     (if fh_degrading (st_d st) then
        (let st1 = (if smv_fencing (d_smv (st_d st)) = FENCING_ARMED
                    then st_upd fence_request st else st);
             sleep_time = fh_sleep_time c (smv_fh_sleep_extend (d_smv (st_d st1))) p3_start (st_now st1)
         in Option.bind (mssleep sleep_time st1) (\<lambda>st2. Some (st_upd fh_shrink_liveset st2)))
      else Some st)"

text \<open>The two fault points of phase 3; the second only sleeps.\<close>

definition fh_fist :: "ha_config \<Rightarrow> sm_st \<Rightarrow> sm_st option" where
  "fh_fist c st =
     (case d_fist_on ''sm.fence_in_FH3'' (st_d st) of (fence, d1) \<Rightarrow>
        let d2 = (if fence then self_fence MTC_ERROR_SM_SURVIVALRULE_FAILED d1 else d1)
        in if d_fenced d2 \<noteq> None then Some (st_upd (\<lambda>_. d2) st)
           else (case d_fist_on ''sm.sleep_in_FH3'' d2 of (slp, d3) \<Rightarrow>
                   if slp then mssleep (uint (u32_max (cfg_Wh c) (cfg_Ws c) * 2 * ONE_SEC)) (st_upd (\<lambda>_. d3) st)
                   else Some (st_upd (\<lambda>_. d3) st)))"

text \<open>After a self-fence nothing more runs.\<close>

definition unless_fenced :: "(sm_st \<Rightarrow> sm_st option) \<Rightarrow> sm_st \<Rightarrow> sm_st option" where
  "unless_fenced f st = (if d_fenced (st_d st) \<noteq> None then Some st else f st)"

definition fh_phase3 :: "ha_config \<Rightarrow> sm_st \<Rightarrow> sm_st option" where
  "fh_phase3 c st =
     (case test_Survival_Rule c (st_d st) of (survive, d1) \<Rightarrow>
        unless_fenced (fh_fist c)
          (st_upd (\<lambda>_. if \<not> survive then self_fence MTC_ERROR_SM_SURVIVALRULE_FAILED d1 else d1) st))"

definition fault_handler :: "ha_config \<Rightarrow> sm_st \<Rightarrow> sm_st option" where
  "fault_handler c st0 =
     do {
       let st = st_upd (upd_smv (\<lambda>v. v\<lparr>smv_join_block := True\<rparr>)) st0;
       st1 \<leftarrow> rendezvous c SM_PHASE_FHREADY SM_PHASE_FH1 SM_PHASE_FH1DONE True False st;
       st2 \<leftarrow> wait_until_HBSF_state_stable c st1;
       let st3 = st_upd (\<lambda>d. snd (commit_weight d)) st2;
       st4 \<leftarrow> rendezvous c SM_PHASE_FH1DONE SM_PHASE_FH2 SM_PHASE_FH2DONE True True st3;
       (ok, st5) \<leftarrow> wait_until_all_hosts_have_consistent_view c
                     (uint (u32_max (cfg_T1 c) (cfg_T2 c) * ONE_SEC)) st4;
       let st6 = (if ok then st5 else st_upd (self_fence MTC_ERROR_SM_FAULTHANDLER_TIMEOUT) st5);
       unless_fenced (\<lambda>st6. do {
         st7 \<leftarrow> rendezvous c SM_PHASE_FH2DONE SM_PHASE_FH3 SM_PHASE_FH3DONE True False st6;
         let p3_start = st_now st7;
         st8 \<leftarrow> fh_phase3 c st7;
         unless_fenced (\<lambda>st8. do {
           st9 \<leftarrow> rendezvous c SM_PHASE_FH3DONE SM_PHASE_FH4 SM_PHASE_FH4DONE True False st8;
           st10 \<leftarrow> fh_phase4 c p3_start st9;
           st11 \<leftarrow> rendezvous c SM_PHASE_FH4DONE SM_PHASE_STARTED SM_PHASE_FHREADY True False st10;
           Some (st_upd (upd_smv (\<lambda>v. v\<lparr>smv_join_block := False\<rparr>)) st11)
         }) st8
       }) st6
     }"

end
