(* ===== verification/SmFaultProps.thy ===== *)
theory SmFaultProps
  imports SmFault
begin

text \<open>
  What the fault handler guarantees: the merger ends and leaves a fully connected set, at
  most one side of a split survives, the survivor proposes exactly the hosts of its two
  domains, and the live set shrinks only after the watchdogs of the others have run out.
\<close>

section \<open>The merger\<close>

lemma score_strict_mono:
  assumes n: "num_host c \<le> 64" and sub: "members_below (num_host c) a \<subset> members_below (num_host c) b"
  shows "get_partition_score c a w < get_partition_score c b w"
proof -
  let ?A = "members_below (num_host c) a" and ?B = "members_below (num_host c) b"
  have "card ?A < card ?B" using sub by (intro psubset_card_mono) simp_all
  moreover have "(\<Sum>i\<in>?A. uint (w i)) \<le> (\<Sum>i\<in>?B. uint (w i))"
    using sub by (intro sum_mono2) auto
  moreover have "Min ?B < 64" if "?B \<noteq> {}"
    using Min_in[OF finite_members_below that] n by (auto simp: members_below_def)
  moreover have "?B \<noteq> {}" using sub by auto
  ultimately show ?thesis
    unfolding get_partition_score_eq by auto
qed

text \<open>The selected host: not removed, and none of the others has a lower score.\<close>

definition select_inv :: "ha_config \<Rightarrow> (nat \<Rightarrow> u32) \<Rightarrow> (nat \<Rightarrow> hostmap) \<Rightarrow> hostmap \<Rightarrow> nat set
  \<Rightarrow> nat option \<times> int \<Rightarrow> bool" where
  "select_inv c w doms removed X s \<longleftrightarrow>
     (case s of
        (None, m) \<Rightarrow> \<forall>i\<in>X. hm_ison removed i
      | (Some k, m) \<Rightarrow> k \<in> X \<and> \<not> hm_ison removed k \<and> m = get_partition_score c (doms k) w
          \<and> (\<forall>i\<in>X. hm_ison removed i \<or> m \<le> get_partition_score c (doms i) w))"

lemma merge_select_fold:
  "select_inv c w doms removed X s \<Longrightarrow>
     select_inv c w doms removed (X \<union> set is) (fold (merge_select_step c w doms removed) is s)"
proof (induction "is" arbitrary: X s)
  case (Cons i "is")
  have "select_inv c w doms removed (insert i X) (merge_select_step c w doms removed i s)"
    using Cons.prems
    by (cases s; cases "fst s") (auto simp: select_inv_def merge_select_step_def)
  from Cons.IH[OF this] show ?case by simp
qed simp

lemma merge_select_inv:
  "select_inv c w doms removed {..<num_host c}
     (fold (merge_select_step c w doms removed) (rev [0..<num_host c]) (None, - 1))"
  using merge_select_fold[of c w doms removed "{}" "(None, - 1)" "rev [0..<num_host c]"]
  by (simp add: select_inv_def atLeast0LessThan)

lemma merge_select_None: "merge_select c w doms removed = None \<Longrightarrow> i < num_host c \<Longrightarrow> hm_ison removed i"
  using merge_select_inv[of c w doms removed]
  by (auto simp: merge_select_def select_inv_def split: prod.splits)

lemma merge_select_Some:
  assumes "merge_select c w doms removed = Some k"
  shows "k < num_host c" "\<not> hm_ison removed k"
    "\<And>i. i < num_host c \<Longrightarrow> \<not> hm_ison removed i
       \<Longrightarrow> get_partition_score c (doms k) w \<le> get_partition_score c (doms i) w"
  using merge_select_inv[of c w doms removed] assms
  by (auto simp: merge_select_def select_inv_def split: prod.splits)

text \<open>Removed hosts are in no domain.\<close>

definition merge_inv :: "nat \<Rightarrow> (nat \<Rightarrow> hostmap) \<Rightarrow> hostmap \<Rightarrow> bool" where
  "merge_inv n doms removed \<longleftrightarrow> (\<forall>i<n. \<forall>j<n. hm_ison removed j \<longrightarrow> \<not> hm_ison (doms i) j)"

lemma merge_remove_doms:
  assumes "merge_remove n k (doms, removed) = (doms', removed')" and "n \<le> 64" "k < n"
  shows "\<And>i. i < n \<Longrightarrow> j < n \<Longrightarrow> hm_ison (doms' i) j \<longleftrightarrow> i \<noteq> k \<and> j \<noteq> k \<and> hm_ison (doms i) j"
    and "j < n \<Longrightarrow> hm_ison removed' j \<longleftrightarrow> j = k \<or> hm_ison removed j"
proof -
  have d: "doms' = for_hosts n (\<lambda>j a. a(j := hm_reset (a j) k)) (doms(k := hm_init_reset))"
    and r: "removed' = hm_set removed k"
    using assms(1) by (auto simp: merge_remove_def)
  have "for_hosts m (\<lambda>j a. a(j := hm_reset (a j) k)) f = (\<lambda>i. if i < m then hm_reset (f i) k else f i)" for m f
    by (induction m) (auto simp: fun_eq_iff less_Suc_eq)
  then have d': "doms' = (\<lambda>i. if i < n then hm_reset ((doms(k := hm_init_reset)) i) k else (doms(k := hm_init_reset)) i)"
    using d by simp
  show "\<And>i. i < n \<Longrightarrow> j < n \<Longrightarrow> hm_ison (doms' i) j \<longleftrightarrow> i \<noteq> k \<and> j \<noteq> k \<and> hm_ison (doms i) j"
    using assms(2,3) by (auto simp: d' hm_ison_reset)
  show "j < n \<Longrightarrow> hm_ison removed' j \<longleftrightarrow> j = k \<or> hm_ison removed j"
    using assms(2,3) by (auto simp: r hm_ison_set)
qed

lemma merge_remove_inv:
  assumes "merge_remove n k (doms, removed) = (doms', removed')" and "n \<le> 64" "k < n"
    and "merge_inv n doms removed"
  shows "merge_inv n doms' removed'"
  using merge_remove_doms[OF assms(1-3)] assms(4) unfolding merge_inv_def by blast

text \<open>What the loop leaves: the remaining hosts see each other and nobody else.\<close>

definition clique :: "nat \<Rightarrow> (nat \<Rightarrow> hostmap) \<Rightarrow> hostmap \<Rightarrow> bool" where
  "clique n doms removed \<longleftrightarrow> (\<forall>i<n. \<forall>j<n. \<not> hm_ison removed i \<longrightarrow>
     (hm_ison (doms i) j \<longleftrightarrow> \<not> hm_ison removed j))"

lemma merge_loop_result:
  assumes n: "num_host c \<le> 64" and "merge_inv (num_host c) doms removed"
  shows "\<exists>doms' removed'. merge_loop c w doms removed = Some (doms', removed')
    \<and> clique (num_host c) doms' removed'
    \<and> (\<forall>i<num_host c. \<forall>j<num_host c. hm_ison (doms' i) j \<longrightarrow> hm_ison (doms i) j)
    \<and> (\<forall>j<num_host c. hm_ison removed j \<longrightarrow> hm_ison removed' j)"
  using assms(2)
proof (induction "card {i. i < num_host c \<and> \<not> hm_ison removed i}" arbitrary: doms removed rule: less_induct)
  case less
  let ?n = "num_host c"
  show ?case
  proof (cases "merge_select c w doms removed")
    case None
    then have "clique ?n doms removed" using merge_select_None by (fastforce simp: clique_def)
    then show ?thesis using None by (subst merge_loop.simps) simp
  next
    case (Some k)
    note sel = merge_select_Some[OF Some]
    show ?thesis
    proof (cases "is_all_hosts_up c (hm_union (doms k) removed)")
      case True
      have R: "members_below ?n (doms k) = {j. j < ?n \<and> \<not> hm_ison removed j}"
        using True less.prems sel(1) by (auto simp: members_below_def merge_inv_def hostmap_simps)
      have "members_below ?n (doms i) = {j. j < ?n \<and> \<not> hm_ison removed j}" if i: "i < ?n" "\<not> hm_ison removed i" for i
      proof (rule ccontr)
        assume "members_below ?n (doms i) \<noteq> {j. j < ?n \<and> \<not> hm_ison removed j}"
        moreover have "members_below ?n (doms i) \<subseteq> {j. j < ?n \<and> \<not> hm_ison removed j}"
          using less.prems i by (auto simp: members_below_def merge_inv_def)
        ultimately have "get_partition_score c (doms i) w < get_partition_score c (doms k) w"
          by (intro score_strict_mono[OF n]) (auto simp: R)
        with sel(3)[OF i] show False by simp
      qed
      then have "clique ?n doms removed"
        unfolding clique_def members_below_def set_eq_iff mem_Collect_eq by blast
      then show ?thesis using Some True by (subst merge_loop.simps) simp
    next
      case False
      obtain doms1 removed1 where rm: "merge_remove ?n k (doms, removed) = (doms1, removed1)"
        by fastforce
      note r = merge_remove_doms[OF rm n sel(1)]
      have "{i. i < ?n \<and> \<not> hm_ison removed1 i} \<subset> {i. i < ?n \<and> \<not> hm_ison removed i}"
        using r(2) sel(1,2) by blast
      then have "card {i. i < ?n \<and> \<not> hm_ison removed1 i} < card {i. i < ?n \<and> \<not> hm_ison removed i}"
        by (intro psubset_card_mono) simp_all
      from less.hyps[OF this merge_remove_inv[OF rm n sel(1) less.prems]]
      obtain doms' removed' where "merge_loop c w doms1 removed1 = Some (doms', removed')"
        "clique ?n doms' removed'"
        "\<forall>i<?n. \<forall>j<?n. hm_ison (doms' i) j \<longrightarrow> hm_ison (doms1 i) j"
        "\<forall>j<?n. hm_ison removed1 j \<longrightarrow> hm_ison removed' j" by blast
      moreover have "merge_loop c w doms removed = merge_loop c w doms1 removed1"
        using Some False rm by (subst merge_loop.simps) (simp del: is_all_hosts_up_iff)
      ultimately show ?thesis using r by auto
    qed
  qed
qed


text \<open>
  C25. The merger always ends, and what it leaves is a clique: the heartbeat domain of every
  host that was not removed is exactly the set of hosts that were not removed. It only ever
  takes hosts out, and a host that was removed before stays removed.
\<close>

theorem merger_leaves_clique:
  assumes "num_host c \<le> 64" and "merge_inv (num_host c) doms removed"
  shows "\<exists>doms' removed'. merge_loop c w doms removed = Some (doms', removed')
    \<and> (\<forall>i<num_host c. \<forall>j<num_host c. \<not> hm_ison removed' i \<longrightarrow>
          (hm_ison (doms' i) j \<longleftrightarrow> \<not> hm_ison removed' j))
    \<and> (\<forall>i<num_host c. \<forall>j<num_host c. hm_ison (doms' i) j \<longrightarrow> hm_ison (doms i) j)
    \<and> (\<forall>j<num_host c. hm_ison removed j \<longrightarrow> hm_ison removed' j)"
  using merge_loop_result[OF assms, of w] unfolding clique_def by blast

text \<open>Three hosts in a line: 0 and 2 see only 1.\<close>

definition line_doms :: "nat \<Rightarrow> hostmap" where
  "line_doms i = (if i = 0 then hm_of [0, 1] else if i = 1 then hm_of [0, 1, 2] else hm_of [1, 2])"

theorem merger_leaves_clique_witness:
  "\<exists>doms' removed'. merge_loop (default_config 3 0) (\<lambda>_. 1) line_doms hm_init_reset = Some (doms', removed')
    \<and> (hm_ison removed' 0 \<or> hm_ison removed' 1 \<or> hm_ison removed' 2)"
proof -
  have "merge_inv (num_host (default_config 3 0)) line_doms hm_init_reset" by (simp add: merge_inv_def)
  from merger_leaves_clique[OF _ this, of "\<lambda>_. 1"]
  obtain doms' removed' where r: "merge_loop (default_config 3 0) (\<lambda>_. 1) line_doms hm_init_reset = Some (doms', removed')"
    and q: "\<forall>i<3. \<forall>j<3. \<not> hm_ison removed' i \<longrightarrow> (hm_ison (doms' i) j \<longleftrightarrow> \<not> hm_ison removed' j)"
    and s: "\<forall>i<3. \<forall>j<3. hm_ison (doms' i) j \<longrightarrow> hm_ison (line_doms i) j" by auto
  have "\<not> hm_ison (line_doms 0) 2" by (simp add: line_doms_def hostmap_simps)
  then have "\<not> hm_ison (doms' 0) 2" using s[rule_format, of 0 2] by auto
  then have "hm_ison removed' 0 \<or> hm_ison removed' 2" using q[rule_format, of 0 2] by auto
  with r show ?thesis by blast
qed

section \<open>The consistent view\<close>

text \<open>
  The wait for a consistent view never reports a failure: when the views still differ at
  the timeout the merged views are used. The self-fence of the fault handler for a view that
  did not become consistent in time is therefore dead code.
\<close>

lemma consistent_view_never_fails:
  "wait_until_all_hosts_have_consistent_view c timeout st \<noteq> Some (False, st')"
  by (auto simp: wait_until_all_hosts_have_consistent_view_def Let_def split: Option.bind_splits prod.splits)

section \<open>At most one side survives\<close>

text \<open>The two domains the survival rule works with.\<close>

definition surv_hb :: "ha_config \<Rightarrow> daemon \<Rightarrow> com_data_hb" where
  "surv_hb c d = (smv_stable_hb (d_smv d))\<lparr>hb_hbdomain := hm_mask_unconfig (num_host c) (hb_hbdomain (smv_stable_hb (d_smv d)))\<rparr>"

definition surv_sf :: "ha_config \<Rightarrow> daemon \<Rightarrow> com_data_sf" where
  "surv_sf c d = (smv_stable_sf (d_smv d))\<lparr>sf_sfdomain := hm_mask_unconfig (num_host c) (sf_sfdomain (smv_stable_sf (d_smv d)))\<rparr>"

definition surv_hbd :: "ha_config \<Rightarrow> daemon \<Rightarrow> hostmap" where
  "surv_hbd c d = hm_inter (hb_hbdomain (surv_hb c d)) (sm_current_liveset (d_sm d))"

definition surv_sfd :: "ha_config \<Rightarrow> daemon \<Rightarrow> hostmap" where
  "surv_sfd c d = hm_inter (sf_sfdomain (surv_sf c d)) (sm_current_liveset (d_sm d))"

text \<open>The first rule: the heartbeat reaches the whole State-File domain, or the election is won.\<close>

definition wins_rule1 :: "ha_config \<Rightarrow> daemon \<Rightarrow> bool" where
  "wins_rule1 c d \<longleftrightarrow> hm_subseteq (surv_sfd c d) (surv_hbd c d) \<and> \<not> is_empty_liveset c (surv_sfd c d)
     \<or> am_I_in_largest_partition c (surv_hb c d) (surv_sf c d) (sf_weight (surv_sf c d))"

lemma survival_result:
  "fst (test_Survival_Rule c d) \<longleftrightarrow> wins_rule1 c d \<or> survives_by_SR2 c (surv_hbd c d) (surv_hb c d) (surv_sf c d)"
  unfolding test_Survival_Rule_def wins_rule1_def surv_hb_def surv_sf_def surv_hbd_def surv_sfd_def Let_def
  by auto

lemma survives_by_SR2_reaches:
  assumes "survives_by_SR2 c hbd phb psf" "i < num_host c" "\<not> hm_ison (sf_excluded psf) i"
  shows "hm_ison hbd i"
  using assms by (auto simp: survives_by_SR2_def Let_def)

text \<open>A winner by the first rule is linked to the elected host, whichever way it won.\<close>

lemma rule1_linked_to_elected:
  assumes win: "wins_rule1 c d" and view: "same_view c (surv_hb c d) (surv_sf c d) R S"
    and live: "hm_subseteq S (sm_current_liveset (d_sm d))" and n: "num_host c \<le> 64"
    and groups: "heartbeat_groups (num_host c) R" and me: "my_index c < num_host c"
    and k: "elect (num_host c) (partition_size_of c (surv_hb c d) (surv_sf c d) (sf_weight (surv_sf c d))) = Some k"
  shows "hb_linked R (my_index c) k"
proof -
  note g = heartbeat_groupsD[OF groups]
  have kn: "k < num_host c" by (rule elect_Some(1)[OF k])
  have own: "raw_hbdomain (R (my_index c)) = hb_hbdomain (surv_hb c d)" and S: "sf_sfdomain (surv_sf c d) = S"
    using view by (simp_all add: same_view_def)
  have "0 < sint (partition_size_of c (surv_hb c d) (surv_sf c d) (sf_weight (surv_sf c d)) k)"
    by (rule elect_Some(2)[OF k])
  then have kS: "hm_ison S k" using S by (auto simp: partition_size_of_def split: if_splits)
  show ?thesis
  proof (cases "hm_subseteq (surv_sfd c d) (surv_hbd c d)")
    case True
    then have "hm_ison (surv_hbd c d) k"
      using kS live kn n S by (auto simp: hm_subseteq_iff surv_sfd_def hostmap_simps)
    then show ?thesis using own by (simp add: surv_hbd_def hb_linked_def hostmap_simps)
  next
    case False
    then have "am_I_in_largest_partition c (surv_hb c d) (surv_sf c d) (sf_weight (surv_sf c d))"
      using win by (simp add: wins_rule1_def)
    from winner_linked[OF this view] k show ?thesis
      using g(1)[OF me] by (auto simp: hb_linked_def)
  qed
qed

lemma both_by_domain_linked:
  assumes sub: "hm_subseteq (surv_sfd c d) (surv_hbd c d)" "\<not> is_empty_liveset c (surv_sfd c d)"
      "hm_subseteq (surv_sfd c' d') (surv_hbd c' d')"
    and view: "same_view c (surv_hb c d) (surv_sf c d) R S" "same_view c' (surv_hb c' d') (surv_sf c' d') R S"
    and live: "hm_subseteq S (sm_current_liveset (d_sm d'))"
    and pool: "num_host c = num_host c'" "num_host c \<le> 64"
  obtains k where "k < num_host c" "hb_linked R (my_index c) k" "hb_linked R (my_index c') k"
proof -
  obtain k where k: "k < num_host c" "hm_ison (surv_sfd c d) k" using sub(2) by auto
  then have kS: "hm_ison S k" using view(1) by (auto simp: surv_sfd_def same_view_def hostmap_simps)
  have k64: "k < 64" using k(1) pool(2) by simp
  have "hm_ison (surv_hbd c d) k" using k(2) sub(1) k64 by (simp add: hm_subseteq_iff)
  moreover have "hm_ison (surv_sfd c' d') k"
    using kS live view(2) k64 by (auto simp: surv_sfd_def same_view_def hm_subseteq_iff hostmap_simps)
  then have "hm_ison (surv_hbd c' d') k" using sub(3) k64 by (simp add: hm_subseteq_iff)
  ultimately show ?thesis
    using that[OF k(1)] view by (auto simp: surv_hbd_def hb_linked_def same_view_def hostmap_simps)
qed

lemma rule1_meet:
  assumes win: "wins_rule1 c d" "wins_rule1 c' d'"
    and view: "same_view c (surv_hb c d) (surv_sf c d) R S" "same_view c' (surv_hb c' d') (surv_sf c' d') R S"
    and live: "hm_subseteq S (sm_current_liveset (d_sm d))" "hm_subseteq S (sm_current_liveset (d_sm d'))"
    and pool: "num_host c = num_host c'" "num_host c \<le> 64" "my_index c < num_host c" "my_index c' < num_host c'"
    and groups: "heartbeat_groups (num_host c) R"
    and weights: "sf_weight (surv_sf c d) = sf_weight (surv_sf c' d')"
  obtains k where "k < num_host c" "hb_linked R (my_index c) k" "hb_linked R (my_index c') k"
proof -
  let ?e = "elect (num_host c) (partition_size_of c (surv_hb c d) (surv_sf c d) (sf_weight (surv_sf c d)))"
  have e: "elect (num_host c') (partition_size_of c' (surv_hb c' d') (surv_sf c' d') (sf_weight (surv_sf c' d'))) = ?e"
    using elect_same_view[OF view pool(1)] weights by simp
  have groups': "heartbeat_groups (num_host c') R" using groups pool(1) by simp
  show ?thesis
  proof (cases ?e)
    case (Some k)
    have k': "elect (num_host c') (partition_size_of c' (surv_hb c' d') (surv_sf c' d') (sf_weight (surv_sf c' d'))) = Some k"
      by (simp only: e Some)
    have "hb_linked R (my_index c) k"
      by (rule rule1_linked_to_elected[OF win(1) view(1) live(1) pool(2) groups pool(3) Some])
    moreover have "hb_linked R (my_index c') k"
      using pool by (intro rule1_linked_to_elected[OF win(2) view(2) live(2) _ groups' _ k']) simp_all
    moreover have "k < num_host c" by (rule elect_Some(1)[OF Some])
    ultimately show ?thesis using that by blast
  next
    case None
    then have "\<not> am_I_in_largest_partition c (surv_hb c d) (surv_sf c d) (sf_weight (surv_sf c d))"
      "\<not> am_I_in_largest_partition c' (surv_hb c' d') (surv_sf c' d') (sf_weight (surv_sf c' d'))"
      using e by (auto simp: am_I_in_largest_partition_def)
    with win show ?thesis
      using both_by_domain_linked[OF _ _ _ view live(2) pool(1,2)] that by (auto simp: wins_rule1_def)
  qed
qed

text \<open>
  C1. No split brain. Two hosts that judged the same State-File rows (with the State-File
  domain inside the live set of both, the same weights, heartbeat domains that split the
  pool into groups, and neither marked excluded for the other) and that both survive the
  survival rule are in the same heartbeat group: each is in the other's heartbeat domain.
  This covers every way of surviving: reaching the whole State-File domain, winning the
  election, and Survival Rule 2, on either side.
\<close>

theorem survival_rule_no_split_brain:
  assumes survive: "fst (test_Survival_Rule c d)" "fst (test_Survival_Rule c' d')"
    and view: "same_view c (surv_hb c d) (surv_sf c d) R S" "same_view c' (surv_hb c' d') (surv_sf c' d') R S"
    and live: "hm_subseteq S (sm_current_liveset (d_sm d))" "hm_subseteq S (sm_current_liveset (d_sm d'))"
    and pool: "num_host c = num_host c'" "num_host c \<le> 64" "my_index c < num_host c" "my_index c' < num_host c'"
    and groups: "heartbeat_groups (num_host c) R"
    and weights: "sf_weight (surv_sf c d) = sf_weight (surv_sf c' d')"
    and booted: "\<not> hm_ison (sf_excluded (surv_sf c d)) (my_index c')" "\<not> hm_ison (sf_excluded (surv_sf c' d')) (my_index c)"
  shows "hm_ison (hb_hbdomain (surv_hb c d)) (my_index c') \<and> hm_ison (hb_hbdomain (surv_hb c' d')) (my_index c)"
proof -
  note g = heartbeat_groupsD[OF groups]
  have n: "my_index c' < num_host c" "my_index c < num_host c'" using pool by simp_all
  have own: "raw_hbdomain (R (my_index c)) = hb_hbdomain (surv_hb c d)"
    "raw_hbdomain (R (my_index c')) = hb_hbdomain (surv_hb c' d')"
    using view by (simp_all add: same_view_def)
  have "hb_linked R (my_index c) (my_index c') \<or> hb_linked R (my_index c') (my_index c)"
  proof (cases "wins_rule1 c d \<and> wins_rule1 c' d'")
    case True
    then obtain k where "k < num_host c" "hb_linked R (my_index c) k" "hb_linked R (my_index c') k"
      using rule1_meet[OF _ _ view live pool groups weights] by blast
    then show ?thesis using g(2,3) pool(3) n(1) by blast
  next
    case False
    then have "hm_ison (surv_hbd c d) (my_index c') \<or> hm_ison (surv_hbd c' d') (my_index c)"
      using survive booted n survives_by_SR2_reaches unfolding survival_result by blast
    then show ?thesis by (auto simp: surv_hbd_def hb_linked_def own hostmap_simps)
  qed
  then have "hb_linked R (my_index c) (my_index c') \<and> hb_linked R (my_index c') (my_index c)"
    using g(2) pool(3) n(1) by blast
  then show ?thesis by (simp add: hb_linked_def own)
qed

text \<open>The split pool of \<open>election_single_partition_witness\<close>, seen by the survival rule.\<close>

definition split_daemon :: "nat \<Rightarrow> daemon" where
  "split_daemon me = upd_smv (\<lambda>v. v\<lparr>smv_stable_hb := split_hb me, smv_stable_sf := (split_sf me)\<lparr>sf_weight := \<lambda>_. 1\<rparr>\<rparr>)
     (upd_sm (\<lambda>s. s\<lparr>sm_current_liveset := hm_of [0, 1, 2]\<rparr>) (init_daemon (default_config 3 me)))"

lemma split_mask: "hm_mask_unconfig 3 (hm_of [0, 1, 2]) = hm_of [0, 1, 2]"
  "hm_mask_unconfig 3 (raw_hbdomain (split_row me)) = raw_hbdomain (split_row me)"
  by (rule hm_eqI; auto simp: hostmap_simps split_row_def)+

lemma split_surv:
  "surv_hb (default_config 3 me) (split_daemon me) = split_hb me"
  "surv_sf (default_config 3 me) (split_daemon me) = (split_sf me)\<lparr>sf_weight := \<lambda>_. 1\<rparr>"
  by (simp_all add: surv_hb_def surv_sf_def split_daemon_def split_hb_def split_sf_def split_mask[unfolded One_nat_def])

lemma partition_size_of_weight [simp]:
  "partition_size_of c hb (sf\<lparr>sf_weight := w'\<rparr>) w = partition_size_of c hb sf w"
  by (auto simp: fun_eq_iff partition_size_of_def)

lemma split_weight_irrelevant:
  "am_I_in_largest_partition c hb (sf\<lparr>sf_weight := w'\<rparr>) w = am_I_in_largest_partition c hb sf w"
  "same_view c hb (sf\<lparr>sf_weight := w'\<rparr>) R S = same_view c hb sf R S"
  by (simp_all add: am_I_in_largest_partition_def same_view_def split: option.splits)

theorem survival_rule_no_split_brain_witness:
  "fst (test_Survival_Rule (default_config 3 0) (split_daemon 0)) \<and>
   fst (test_Survival_Rule (default_config 3 1) (split_daemon 1)) \<and>
   hm_ison (hb_hbdomain (surv_hb (default_config 3 0) (split_daemon 0))) 1"
proof -
  have w: "fst (test_Survival_Rule (default_config 3 me) (split_daemon me))" if "me < 2" for me
    using that split_wins[of me]
    by (simp add: survival_result wins_rule1_def split_surv split_weight_irrelevant)
  have "hm_subseteq (hm_of [0, 1, 2]) (sm_current_liveset (d_sm (split_daemon me)))" for me
    by (simp add: hm_subseteq_iff split_daemon_def)
  moreover have "\<not> hm_ison (sf_excluded (split_sf me)) i" for me i by (simp add: split_sf_def)
  ultimately have "hm_ison (hb_hbdomain (surv_hb (default_config 3 0) (split_daemon 0))) 1"
    using survival_rule_no_split_brain[of "default_config 3 0" "split_daemon 0" "default_config 3 1" "split_daemon 1"
        split_row "hm_of [0, 1, 2]"] w[of 0] w[of 1] split_view[of 0] split_view[of 1] split_groups
    by (simp add: split_surv split_weight_irrelevant)
  with w show ?thesis by simp
qed

section \<open>What the survivor proposes\<close>

definition survival_drops :: "bool \<Rightarrow> hostmap \<Rightarrow> hostmap \<Rightarrow> nat \<Rightarrow> bool" where
  "survival_drops sr2 hbd sfd i \<longleftrightarrow> \<not> (hm_ison hbd i \<and> (sr2 \<or> hm_ison sfd i))"

lemma survival_remove_fields:
  "sm_proposed_liveset (d_sm (survival_remove sr2 hbd sfd i d)) =
     (if survival_drops sr2 hbd sfd i then hm_reset (sm_proposed_liveset (d_sm d)) i else sm_proposed_liveset (d_sm d))"
  "hm_ison (hb_hbdomain (d_hb (survival_remove sr2 hbd sfd i d))) j \<longleftrightarrow>
     hm_ison (if survival_drops sr2 hbd sfd i \<and> hm_ison (hb_hbdomain (d_hb d)) i then hm_reset (hb_hbdomain (d_hb d)) i
              else hb_hbdomain (d_hb d)) j"
  "hm_ison (sf_sfdomain (d_sf (survival_remove sr2 hbd sfd i d))) j \<longleftrightarrow>
     hm_ison (if survival_drops sr2 hbd sfd i \<and> hm_ison (sf_sfdomain (d_sf d)) i then hm_reset (sf_sfdomain (d_sf d)) i
              else sf_sfdomain (d_sf d)) j"
  "sm_current_liveset (d_sm (survival_remove sr2 hbd sfd i d)) = sm_current_liveset (d_sm d)"
  "smv_fencing (d_smv (survival_remove sr2 hbd sfd i d)) = smv_fencing (d_smv d)"
  "smv_SR2 (d_smv (survival_remove sr2 hbd sfd i d)) = smv_SR2 (d_smv d)"
  by (auto simp: survival_remove_def survival_drops_def Let_def)

lemma survival_loop:
  assumes "n \<le> 64" "i < 64"
  shows "hm_ison (sm_proposed_liveset (d_sm (for_hosts n (survival_remove sr2 hbd sfd) d))) i \<longleftrightarrow>
      hm_ison (sm_proposed_liveset (d_sm d)) i \<and> \<not> (i < n \<and> survival_drops sr2 hbd sfd i)"
    and "hm_ison (hb_hbdomain (d_hb (for_hosts n (survival_remove sr2 hbd sfd) d))) i \<longleftrightarrow>
      hm_ison (hb_hbdomain (d_hb d)) i \<and> \<not> (i < n \<and> survival_drops sr2 hbd sfd i)"
    and "hm_ison (sf_sfdomain (d_sf (for_hosts n (survival_remove sr2 hbd sfd) d))) i \<longleftrightarrow>
      hm_ison (sf_sfdomain (d_sf d)) i \<and> \<not> (i < n \<and> survival_drops sr2 hbd sfd i)"
  using assms by (induction n) (auto simp: survival_remove_fields hm_ison_reset less_Suc_eq)

lemma survival_loop_frame:
  "sm_current_liveset (d_sm (for_hosts n (survival_remove sr2 hbd sfd) d)) = sm_current_liveset (d_sm d)"
  by (rule for_hosts_frame) (rule survival_remove_fields)

text \<open>Whether Survival Rule 2 is in force after the test; what the survivor keeps.\<close>

definition surv_sr2 :: "ha_config \<Rightarrow> daemon \<Rightarrow> bool" where
  "surv_sr2 c d = (if wins_rule1 c d then smv_SR2 (d_smv d)
     else survives_by_SR2 c (surv_hbd c d) (surv_hb c d) (surv_sf c d))"

definition surv_keeps :: "ha_config \<Rightarrow> daemon \<Rightarrow> nat \<Rightarrow> bool" where
  "surv_keeps c d i \<longleftrightarrow> hm_ison (surv_hbd c d) i \<and> (surv_sr2 c d \<or> hm_ison (surv_sfd c d) i)"

definition surv_acts :: "ha_config \<Rightarrow> daemon \<Rightarrow> bool" where
  "surv_acts c d \<longleftrightarrow> fst (test_Survival_Rule c d) \<and> smv_fencing (d_smv d) = FENCING_ARMED"

text \<open>
  C26. The survivor proposes exactly the hosts of both domains. When fencing is armed, a
  surviving host takes out of its proposed live set, and out of its own two domains, every
  configured host that is outside the stable heartbeat domain or (unless Survival Rule 2 is
  in force) outside the stable State-File domain, and no other. A host that does not survive,
  or whose fencing is not armed, leaves all three alone, and nobody's current live set moves yet.
\<close>

theorem survivor_proposes_common_domain:
  assumes "num_host c \<le> 64" "i < num_host c"
  shows "(hm_ison (sm_proposed_liveset (d_sm (snd (test_Survival_Rule c d)))) i \<longleftrightarrow>
      hm_ison (sm_proposed_liveset (d_sm d)) i \<and> (\<not> surv_acts c d \<or> surv_keeps c d i)) \<and>
    (hm_ison (hb_hbdomain (d_hb (snd (test_Survival_Rule c d)))) i \<longleftrightarrow>
      hm_ison (hb_hbdomain (d_hb d)) i \<and> (\<not> surv_acts c d \<or> surv_keeps c d i)) \<and>
    (hm_ison (sf_sfdomain (d_sf (snd (test_Survival_Rule c d)))) i \<longleftrightarrow>
      hm_ison (sf_sfdomain (d_sf d)) i \<and> (\<not> surv_acts c d \<or> surv_keeps c d i)) \<and>
    sm_current_liveset (d_sm (snd (test_Survival_Rule c d))) = sm_current_liveset (d_sm d)"
proof -
  have i: "i < 64" using assms by simp
  let ?w = "wins_rule1 c d"
  show ?thesis
    using i assms
    unfolding surv_acts_def surv_keeps_def survival_result surv_sr2_def test_Survival_Rule_def
    unfolding wins_rule1_def surv_hb_def surv_sf_def surv_hbd_def surv_sfd_def
    by (auto simp: Let_def survival_loop survival_loop_frame survival_drops_def)
qed

definition split_armed :: daemon where
  "split_armed = upd_smv (\<lambda>v. v\<lparr>smv_fencing := FENCING_ARMED\<rparr>)
     (upd_sm (\<lambda>s. s\<lparr>sm_proposed_liveset := hm_of [0, 1, 2]\<rparr>) (split_daemon 0))"

lemma split_armed_surv:
  "surv_hb (default_config 3 0) split_armed = split_hb 0"
  "surv_sf (default_config 3 0) split_armed = (split_sf 0)\<lparr>sf_weight := \<lambda>_. 1\<rparr>"
  "sm_current_liveset (d_sm split_armed) = hm_of [0, 1, 2]"
  using split_surv[of 0] by (simp_all add: split_armed_def surv_hb_def surv_sf_def split_daemon_def)

theorem survivor_proposes_common_domain_witness:
  "hm_ison (sm_proposed_liveset (d_sm (snd (test_Survival_Rule (default_config 3 0) split_armed)))) 1 \<and>
   \<not> hm_ison (sm_proposed_liveset (d_sm (snd (test_Survival_Rule (default_config 3 0) split_armed)))) 2"
proof -
  have "wins_rule1 (default_config 3 0) split_armed"
    using split_wins[of 0] by (simp add: wins_rule1_def split_armed_surv split_weight_irrelevant)
  then have "surv_acts (default_config 3 0) split_armed" "\<not> surv_sr2 (default_config 3 0) split_armed"
    by (simp_all add: surv_acts_def survival_result split_armed_def surv_sr2_def split_daemon_def init_daemon_def init_smv_def)
  moreover have "surv_keeps (default_config 3 0) split_armed 1" "\<not> hm_ison (surv_hbd (default_config 3 0) split_armed) 2"
    by (simp_all add: surv_keeps_def surv_hbd_def surv_sfd_def split_armed_surv split_hb_def split_sf_def split_row_def hostmap_simps)
  moreover have "hm_ison (sm_proposed_liveset (d_sm split_armed)) 1" by (simp add: split_armed_def hostmap_simps)
  ultimately show ?thesis
    using survivor_proposes_common_domain[of "default_config 3 0" 1 split_armed]
      survivor_proposes_common_domain[of "default_config 3 0" 2 split_armed]
    by (simp add: surv_keeps_def)
qed

section \<open>The sleep of the last phase\<close>

lemma sm_sleep_until_wakes: "sm_sleep_until wake es now d = Some (es', now', d') \<Longrightarrow> wake \<le> now'"
  by (induction wake es now d rule: sm_sleep_until.induct) (auto split: if_splits)

lemma mssleep_wakes: "mssleep ms st = Some st' \<Longrightarrow> st_now st + ms \<le> st_now st'"
  by (cases st; cases st') (auto simp: mssleep_def dest: sm_sleep_until_wakes)

lemma fh_shrink_liveset_inside:
  assumes "smv_fencing (d_smv (fh_shrink_liveset d)) = FENCING_ARMED"
  shows "sm_current_liveset (d_sm (fh_shrink_liveset d)) = hm_inter (sm_current_liveset (d_sm d)) (sm_proposed_liveset (d_sm d))"
    and "sm_proposed_liveset (d_sm (fh_shrink_liveset d)) = sm_proposed_liveset (d_sm d)"
  using assms
  by (auto simp: fh_shrink_liveset_def cancel_fence_request_def with_sm_def with_hb_def)

text \<open>
  Half of the sleep is computed in 32 bits; when the configuration is such that the
  subtraction does not go below zero, it is what the watchdogs need.
\<close>

lemma fh_sleep_base_exact:
  assumes "min (uint (cfg_T1 c)) (uint (cfg_T2 c)) \<le> max (uint (cfg_Wh c)) (uint (cfg_Ws c))"
    and "max (uint (cfg_Wh c)) (uint (cfg_Ws c)) + max (uint (cfg_t1 c)) (uint (cfg_t2 c)) \<le> 4294967"
  shows "uint (fh_sleep_base c) = 1000 * (max (uint (cfg_Wh c)) (uint (cfg_Ws c))
    - min (uint (cfg_T1 c)) (uint (cfg_T2 c)) + max (uint (cfg_t1 c)) (uint (cfg_t2 c)))"
proof -
  let ?W = "u32_max (cfg_Wh c) (cfg_Ws c)" and ?T = "u32_min (cfg_T1 c) (cfg_T2 c)" and ?t = "u32_max (cfg_t1 c) (cfg_t2 c)"
  have z: "0 \<le> uint ?T" "0 \<le> uint ?t" by simp_all
  have h: "uint ?T \<le> uint ?W" "uint ?W + uint ?t \<le> 4294967"
    using assms by (simp_all add: uint_u32_max uint_u32_min)
  have d: "uint (?W - ?T) = uint ?W - uint ?T"
    by (rule uint_sub_lem[THEN iffD1]) (rule h(1))
  have small: "uint ?W - uint ?T + uint ?t < 4294967296" using h z by linarith
  then have "uint (?W - ?T) + uint ?t < 2 ^ LENGTH(32)" unfolding d by simp
  then have a: "uint (?W - ?T + ?t) = uint ?W - uint ?T + uint ?t"
    using uint_add_lem[of "?W - ?T" ?t] d by simp
  have "uint ((?W - ?T + ?t) * ONE_SEC) = uint (?W - ?T + ?t) * uint ONE_SEC"
    by (rule uint_mult_small, unfold a) (use h z in \<open>simp only: ONE_SEC_def, simp, linarith?\<close>)
  then show ?thesis by (simp add: fh_sleep_base_def a ONE_SEC_def uint_u32_max uint_u32_min)
qed

text \<open>
  The same phase sleeps for weeks when the smaller timeout is longer than the longer
  watchdog and interval together: the unsigned subtraction wraps, and nothing in the
  configuration check rules such times out. With both timeouts at two minutes and the
  default watchdogs the sleep is more than 49 days.
\<close>

lemma fh_sleep_underflows:
  "fh_sleep_time ((default_config n me)\<lparr>cfg_T1 := 120, cfg_T2 := 120\<rparr>) longer p3_start p3_start
     \<ge> 49 * 24 * 60 * 60 * 1000"
  by (simp add: fh_sleep_time_def fh_sleep_base_def ONE_SEC_def u32_max_def u32_min_def
      FH_MINIMUM_SLEEP_BEFORE_FO_def le_max_iff_disj)

end
