(* ===== verification/Watchdog.thy ===== *)
theory Watchdog
  imports Shared
begin

text \<open>
  The watchdogs: \<^verbatim>\<open>daemon/watchdog.c\<close>, the library the daemon arms its timers with, and
  \<open>do_watchdog\<close> of the hypervisor as \<^verbatim>\<open>hypervisor_patch\<close> has it. The library reaches the
  hypervisor through one hypercall, which is an argument of its operations; the locale
  \<open>sched_watchdog\<close> says what the library relies on, and the patched hypervisor provides it.
\<close>

section \<open>The hypervisor\<close>

text \<open>A timer is the time it expires at, in milliseconds; \<open>None\<close> when it is not active.\<close>

definition NR_WATCHDOG_TIMERS :: nat where "NR_WATCHDOG_TIMERS = 2"

type_synonym hv = "nat \<Rightarrow> clock option"

definition EEXIST :: int where "EEXIST = 17"
definition EINVAL :: int where "EINVAL = 22"

definition SECONDS :: "u32 \<Rightarrow> int" where "SECONDS t = uint t * 1000"

definition do_watchdog :: "u32 \<Rightarrow> u32 \<Rightarrow> clock \<Rightarrow> hv \<Rightarrow> int \<times> hv" where
  "do_watchdog wid timeout now hv =
     (if wid = 0 then
        (case first_host NR_WATCHDOG_TIMERS (\<lambda>i. hv i = None) of
           None \<Rightarrow> (- EEXIST, hv)
         | Some i \<Rightarrow> (int (i + 1), hv(i \<mapsto> now + SECONDS timeout)))
      else if unat wid > NR_WATCHDOG_TIMERS then (- EINVAL, hv)
      else if hv (unat wid - 1) = None then (- EEXIST, hv)
      else if timeout = 0 then (0, hv(unat wid - 1 := None))
      else (0, hv(unat wid - 1 \<mapsto> now + SECONDS timeout)))"

definition timer_of :: "u32 \<Rightarrow> hv \<Rightarrow> clock option" where
  "timer_of wid hv = (if wid = 0 \<or> unat wid > NR_WATCHDOG_TIMERS then None else hv (unat wid - 1))"

section \<open>State of the library\<close>

datatype wd_mode = WATCHDOG_MODE_NONE | WATCHDOG_MODE_HYPERVISOR | WATCHDOG_MODE_USER

record watchdog_instance =
  wi_label :: string
  wi_id :: u32
  wi_set_time :: clock
  wi_timeout :: u32
  wi_status :: mtc_status

text \<open>
  \<open>instance[0..instance_num)\<close> is a list of addresses; \<open>wd_file\<close> is the file with the ids.
  \<open>'h\<close> is the state of the hypervisor.
\<close>

record 'h wd_state =
  wd_heap :: "nat \<Rightarrow> watchdog_instance option"
  wd_instances :: "nat list"
  wd_fd :: bool
  wd_mode :: wd_mode
  wd_initialized :: bool
  wd_mlock_done :: bool
  wd_file :: "u32 list option"
  wd_hv :: 'h

definition MAX_WATCHDOG_INSTANCE :: nat where "MAX_WATCHDOG_INSTANCE = 8"
definition WATCHDOG_TIMEOUT_MAX :: u32 where "WATCHDOG_TIMEOUT_MAX = 0xFFFFFFFF"
definition WD_FENCE :: u32 where "WD_FENCE = 1"

text \<open>What the operating system does in one call: opening the device, locking pages, the ioctl.\<close>

record wd_env =
  we_open :: bool
  we_mlock :: bool
  we_ioctl :: bool

definition wd_fine :: wd_env where
  "wd_fine = \<lparr>we_open = True, we_mlock = True, we_ioctl = True\<rparr>"

section \<open>Hypercalls\<close>

type_synonym 'h hypercall = "u32 \<Rightarrow> u32 \<Rightarrow> clock \<Rightarrow> 'h \<Rightarrow> int \<times> 'h"

definition do_watchdog_close :: "'h wd_state \<Rightarrow> 'h wd_state" where
  "do_watchdog_close s = (if wd_mode s \<noteq> WATCHDOG_MODE_HYPERVISOR then s else s\<lparr>wd_fd := False\<rparr>)"

text \<open>
  \<open>do_hypercall\<close>: \<open>op\<close> is what the hypervisor does with the call. A failed \<open>ioctl\<close> (or the fault
  point \<open>wd.instance.unavailable\<close>) does not reach it; \<open>lock_pages\<close> is empty in this build and
  always succeeds. \<open>do_hypercall\<close> is the case of the watchdog operation.
\<close>

definition hypercall_of :: "('h \<Rightarrow> int \<times> 'h) \<Rightarrow> wd_env \<Rightarrow> 'h wd_state \<Rightarrow> mtc_status \<times> int \<times> 'h wd_state" where
  "hypercall_of op env s =
     (let s1 = (if \<not> wd_fd s then s\<lparr>wd_fd := we_open env\<rparr> else s)
      in if \<not> wd_fd s1 then (MTC_ERROR_WD_OPEN, 0, s1)
         else if \<not> we_ioctl env then (MTC_ERROR_WD_INSTANCE_UNAVAILABLE, 0, s1)
         else (case op (wd_hv s1) of (ret, hv) \<Rightarrow>
           (if ret < 0 then MTC_ERROR_WD_INSTANCE_UNAVAILABLE else MTC_SUCCESS, ret, s1\<lparr>wd_hv := hv\<rparr>)))"

declare hypercall_of_def [simp]

definition do_hypercall :: "'h hypercall \<Rightarrow> wd_env \<Rightarrow> u32 \<Rightarrow> u32 \<Rightarrow> clock \<Rightarrow> 'h wd_state
  \<Rightarrow> mtc_status \<times> int \<times> 'h wd_state" where
  "do_hypercall call env wid timeout now s = hypercall_of (call wid timeout now) env s"

text \<open>The id is passed by reference: a creation writes the new one.\<close>

definition do_watchdog_hypercall :: "'h hypercall \<Rightarrow> wd_env \<Rightarrow> u32 \<Rightarrow> u32 \<Rightarrow> clock \<Rightarrow> 'h wd_state
  \<Rightarrow> mtc_status \<times> u32 \<times> 'h wd_state" where
  "do_watchdog_hypercall call env wid timeout now s =
     (if wd_mode s \<noteq> WATCHDOG_MODE_HYPERVISOR then (MTC_SUCCESS, wid, s)
      else if \<not> wd_mlock_done s \<and> \<not> we_mlock env then (MTC_ERROR_WD_INSUFFICIENT_RESOURCE, wid, s)
      else (case do_hypercall call env wid timeout now (s\<lparr>wd_mlock_done := True\<rparr>) of (ret, hypercall_ret, s1) \<Rightarrow>
        if ret \<noteq> MTC_SUCCESS then (ret, wid, s1)
        else if wid = 0 then
          (if hypercall_ret > 0 then (MTC_SUCCESS, word_of_int hypercall_ret, s1)
           else (MTC_ERROR_WD_INSTANCE_UNAVAILABLE, wid, s1))
        else (MTC_SUCCESS, wid, s1)))"

section \<open>Checking\<close>

text \<open>
  The assertion of \<open>check_watchdog_timeout\<close>: the products are 32-bit ones. The two milder
  branches only write to the log.
\<close>

definition wd_expired :: "clock \<Rightarrow> watchdog_instance \<Rightarrow> bool" where
  "wd_expired now w \<longleftrightarrow> now - wi_set_time w > uint (wi_timeout w * 1000)"

definition check_watchdog_timeout :: "clock \<Rightarrow> 'h wd_state \<Rightarrow> bool" where
  "check_watchdog_timeout now s \<longleftrightarrow> wd_mode s = WATCHDOG_MODE_NONE \<or>
     list_all (\<lambda>a. case wd_heap s a of Some w \<Rightarrow> \<not> wd_expired now w | None \<Rightarrow> True) (wd_instances s)"

text \<open>The file of the ids; writing it can fail, and it is deleted with the last instance.\<close>

definition record_watchdog_instance :: "bool \<Rightarrow> 'h wd_state \<Rightarrow> 'h wd_state" where
  "record_watchdog_instance ok s =
     (if \<not> ok then s
      else if wd_instances s \<noteq> [] then s\<lparr>wd_file := Some (List.map_filter (\<lambda>a. map_option wi_id (wd_heap s a)) (wd_instances s))\<rparr>
      else s\<lparr>wd_file := None\<rparr>)"

section \<open>Operations\<close>

definition configure_mode :: "string \<Rightarrow> 'h wd_state \<Rightarrow> 'h wd_state" where
  "configure_mode mode s =
     (if wd_initialized s then s
      else s\<lparr>wd_mode := (if mode = ''HYPERVISOR'' then WATCHDOG_MODE_HYPERVISOR
                         else if mode = ''USER'' then WATCHDOG_MODE_USER
                         else if mode = ''NONE'' then WATCHDOG_MODE_NONE else wd_mode s),
             wd_initialized := True\<rparr>)"

definition copy_label :: "string option \<Rightarrow> string" where
  "copy_label label = take 255 (case label of None \<Rightarrow> ''(none)'' | Some l \<Rightarrow> l)"

text \<open>
  \<open>mem\<close> is the address \<open>malloc\<close> returns. The array has eight places and the code does
  not look for room.
\<close>

definition watchdog_create :: "'h hypercall \<Rightarrow> wd_env \<Rightarrow> bool \<Rightarrow> string \<Rightarrow> nat option \<Rightarrow> string option \<Rightarrow> clock
  \<Rightarrow> 'h wd_state \<Rightarrow> mtc_status \<times> nat option \<times> 'h wd_state" where
  "watchdog_create call env file_ok mode mem label now s0 =
     (let s = configure_mode mode s0
      in (case mem of
            None \<Rightarrow> (MTC_ERROR_WD_INSUFFICIENT_RESOURCE, None, s)
          | Some a \<Rightarrow>
              (case do_watchdog_hypercall call env 0 WATCHDOG_TIMEOUT_MAX now s of (ret, wid, s1) \<Rightarrow>
                 if ret = MTC_SUCCESS then
                   (MTC_SUCCESS, Some a, record_watchdog_instance file_ok
                      (s1\<lparr>wd_heap := (wd_heap s1)(a \<mapsto> \<lparr>wi_label = copy_label label, wi_id = wid, wi_set_time = now,
                                        wi_timeout = WATCHDOG_TIMEOUT_MAX, wi_status = MTC_SUCCESS\<rparr>),
                         wd_instances := wd_instances s1 @ [a]\<rparr>))
                 else (ret, None, s1))))"

text \<open>The last instance takes the place of the one that is closed.\<close>

definition drop_instance :: "nat \<Rightarrow> nat list \<Rightarrow> nat list" where
  "drop_instance a l =
     (case first_host (length l) (\<lambda>i. l ! i = a) of
        None \<Rightarrow> l
      | Some i \<Rightarrow> butlast (l[i := last l]))"

text \<open>
  A handle that was never opened or is already closed is undefined behaviour in the source; here
  \<open>watchdog_close\<close> does nothing then.
\<close>

definition watchdog_close :: "'h hypercall \<Rightarrow> wd_env \<Rightarrow> bool \<Rightarrow> nat option \<Rightarrow> clock \<Rightarrow> 'h wd_state
  \<Rightarrow> mtc_status \<times> 'h wd_state" where
  "watchdog_close call env file_ok handle now s =
     (case handle of
        None \<Rightarrow> (MTC_SUCCESS, record_watchdog_instance file_ok s)
      | Some a \<Rightarrow>
          (case wd_heap s a of
             None \<Rightarrow> (MTC_SUCCESS, s)
           | Some w \<Rightarrow>
               (case do_watchdog_hypercall call env (wi_id w) 0 now s of (ret, wid, s1) \<Rightarrow>
                  let s2 = s1\<lparr>wd_instances := drop_instance a (wd_instances s1), wd_heap := (wd_heap s1)(a := None)\<rparr>;
                      s3 = (if wd_instances s2 = [] then do_watchdog_close s2 else s2)
                  in (MTC_SUCCESS, record_watchdog_instance file_ok s3))))"

text \<open>\<open>None\<close> is the failed assertion: a watchdog that should have expired already.\<close>

definition watchdog_set :: "'h hypercall \<Rightarrow> wd_env \<Rightarrow> nat option \<Rightarrow> u32 \<Rightarrow> clock \<Rightarrow> 'h wd_state
  \<Rightarrow> (mtc_status \<times> 'h wd_state) option" where
  "watchdog_set call env handle timeout now s =
     (if \<not> check_watchdog_timeout now s then None
      else (case handle of
        None \<Rightarrow> Some (MTC_ERROR_WD_INVALID_HANDLE, s)
      | Some a \<Rightarrow>
          (case wd_heap s a of
             None \<Rightarrow> None
           | Some w \<Rightarrow>
               (case do_watchdog_hypercall call env (wi_id w) timeout now s of (ret, wid, s1) \<Rightarrow>
                  Some (ret, s1\<lparr>wd_heap := (wd_heap s1)(a \<mapsto> w\<lparr>wi_id := wid, wi_set_time := now, wi_timeout := timeout,
                                    wi_status := ret\<rparr>)\<rparr>)))))"

text \<open>
  \<open>shutdown\<close> is whether the hypervisor carries out the remote shutdown of domain 0; the call does
  not come back then. Failures to lock its pages are ignored.
\<close>

definition do_domain_shutdown_self :: "wd_env \<Rightarrow> bool \<Rightarrow> 'h wd_state \<Rightarrow> mtc_status \<times> 'h wd_state" where
  "do_domain_shutdown_self env shutdown s =
     (case hypercall_of (\<lambda>hv. (if shutdown then 0 else - 1, hv)) env s of (ret, _, s1) \<Rightarrow> (ret, s1))"

text \<open>
  Self-fence: the host is shut down at once, and nothing follows; otherwise every watchdog is set
  to one second. \<open>None\<close> is the assertion on the mode. The call never returns.
\<close>

definition fence_instance :: "'h hypercall \<Rightarrow> wd_env \<Rightarrow> clock \<Rightarrow> nat \<Rightarrow> 'h wd_state \<Rightarrow> 'h wd_state" where
  "fence_instance call env now a s =
     (case wd_heap s a of
        None \<Rightarrow> s
      | Some w \<Rightarrow> (case do_watchdog_hypercall call env (wi_id w) WD_FENCE now s of (ret, wid, s1) \<Rightarrow>
          s1\<lparr>wd_heap := (wd_heap s1)(a \<mapsto> w\<lparr>wi_id := wid\<rparr>)\<rparr>))"

definition watchdog_selffence :: "'h hypercall \<Rightarrow> wd_env \<Rightarrow> bool \<Rightarrow> clock \<Rightarrow> 'h wd_state \<Rightarrow> (bool \<times> 'h wd_state) option" where
  "watchdog_selffence call env shutdown now s =
     (if wd_mode s \<noteq> WATCHDOG_MODE_HYPERVISOR then None
      else (case do_domain_shutdown_self env shutdown s of (ret, s0) \<Rightarrow>
        if ret = MTC_SUCCESS then Some (True, s0)
        else Some (False,
          (let s1 = (if wd_instances s0 = [] then snd (snd (do_watchdog_hypercall call env 0 WD_FENCE now s0)) else s0)
           in fold (fence_instance call env now) (wd_instances s1) s1))))"

end
