(* ===== verification/WatchdogProps.thy ===== *)
theory WatchdogProps
  imports Watchdog
begin

text \<open>
  What the watchdog library guarantees over a hypervisor that keeps to the contract
  \<open>sched_watchdog\<close>: the timer of a handle is the one its last \<open>watchdog_set\<close> started,
  whatever happens to other handles, and a self-fence leaves no host running for more than
  a second. The patched hypervisor keeps to the contract.
\<close>

section \<open>The contract of the hypervisor\<close>

locale sched_watchdog =
  fixes call :: "'h hypercall" and tm :: "u32 \<Rightarrow> 'h \<Rightarrow> clock option"
  assumes create: "call 0 t now hv = (r, hv') \<Longrightarrow> 0 < r \<Longrightarrow>
      word_of_int r \<noteq> (0 :: u32) \<and> tm (word_of_int r) hv = None \<and>
      tm (word_of_int r) hv' = Some (now + SECONDS t) \<and> (\<forall>i. i \<noteq> word_of_int r \<longrightarrow> tm i hv' = tm i hv)"
    and no_create: "call 0 t now hv = (r, hv') \<Longrightarrow> r \<le> 0 \<Longrightarrow> hv' = hv"
    and start: "i \<noteq> 0 \<Longrightarrow> tm i hv \<noteq> None \<Longrightarrow> t \<noteq> 0 \<Longrightarrow> call i t now hv = (r, hv') \<Longrightarrow>
      0 \<le> r \<and> tm i hv' = Some (now + SECONDS t) \<and> (\<forall>k. k \<noteq> i \<longrightarrow> tm k hv' = tm k hv)"
    and stop: "i \<noteq> 0 \<Longrightarrow> tm i hv \<noteq> None \<Longrightarrow> call i 0 now hv = (r, hv') \<Longrightarrow>
      0 \<le> r \<and> tm i hv' = None \<and> (\<forall>k. k \<noteq> i \<longrightarrow> tm k hv' = tm k hv)"
    and unknown: "i \<noteq> 0 \<Longrightarrow> tm i hv = None \<Longrightarrow> call i t now hv = (r, hv') \<Longrightarrow> r < 0 \<and> hv' = hv"

section \<open>The library on such a hypervisor\<close>

text \<open>The instances are those on the heap, each with an active timer of its own.\<close>

definition wd_ok :: "(u32 \<Rightarrow> 'h \<Rightarrow> clock option) \<Rightarrow> 'h wd_state \<Rightarrow> bool" where
  "wd_ok tm s \<longleftrightarrow> wd_mode s = WATCHDOG_MODE_HYPERVISOR \<and> wd_initialized s \<and> distinct (wd_instances s) \<and>
     set (wd_instances s) = dom (wd_heap s) \<and>
     (\<forall>a w. wd_heap s a = Some w \<longrightarrow> wi_id w \<noteq> 0 \<and> tm (wi_id w) (wd_hv s) \<noteq> None) \<and>
     (\<forall>a b w v. wd_heap s a = Some w \<longrightarrow> wd_heap s b = Some v \<longrightarrow> wi_id w = wi_id v \<longrightarrow> a = b)"

text \<open>An operation on another handle than \<open>a\<close>; a handle is never given a timeout of 0.\<close>

inductive wd_step :: "'h hypercall \<Rightarrow> nat \<Rightarrow> 'h wd_state \<Rightarrow> 'h wd_state \<Rightarrow> bool" for call a where
  ws_create: "watchdog_create call env file_ok mode mem label now s = (r, h, s') \<Longrightarrow>
    (\<forall>b. mem = Some b \<longrightarrow> wd_heap s b = None) \<Longrightarrow> wd_step call a s s'"
| ws_set: "watchdog_set call env (Some b) t now s = Some (r, s') \<Longrightarrow> b \<noteq> a \<Longrightarrow> t \<noteq> 0 \<Longrightarrow> wd_step call a s s'"
| ws_close: "watchdog_close call env file_ok (Some b) now s = (r, s') \<Longrightarrow> b \<noteq> a \<Longrightarrow> wd_step call a s s'"

lemma drop_instance_set:
  assumes "distinct l"
  shows "set (drop_instance a l) = set l - {a}" and "distinct (drop_instance a l)"
proof -
  have "set (drop_instance a l) = set l - {a} \<and> distinct (drop_instance a l)"
  proof (cases "first_host (length l) (\<lambda>i. l ! i = a)")
    case None
    then have "a \<notin> set l" by (auto simp: first_host_None in_set_conv_nth)
    then show ?thesis using None assms by (simp add: drop_instance_def)
  next
    case (Some i)
    then have i: "i < length l" "l ! i = a" by (auto simp: first_host_Some)
    obtain ys z where l: "l = ys @ [z]" using i by (metis append_butlast_last_id length_0_conv less_zeroE)
    have z: "l ! length ys = z" "last l = z" by (simp_all add: l)
    show ?thesis
    proof (cases "i = length ys")
      case True
      then show ?thesis using Some assms i z by (auto simp: drop_instance_def l)
    next
      case False
      then have iy: "i < length ys" "ys ! i = a" using i by (auto simp: l nth_append)
      have d: "drop_instance a l = ys[i := z]" using Some iy by (simp add: drop_instance_def l list_update_append)
      have "distinct ys" "z \<notin> set ys" using assms by (auto simp: l)
      then have "set (ys[i := z]) = insert z (set ys - {a})" "distinct (ys[i := z])"
        using iy by (auto simp: set_update_distinct distinct_list_update)
      then show ?thesis using d \<open>z \<notin> set ys\<close> iy by (auto simp: l)
    qed
  qed
  then show "set (drop_instance a l) = set l - {a}" "distinct (drop_instance a l)" by simp_all
qed

lemma record_watchdog_instance_frame [simp]:
  "wd_heap (record_watchdog_instance b s) = wd_heap s" "wd_instances (record_watchdog_instance b s) = wd_instances s"
  "wd_mode (record_watchdog_instance b s) = wd_mode s" "wd_initialized (record_watchdog_instance b s) = wd_initialized s"
  "wd_hv (record_watchdog_instance b s) = wd_hv s"
  by (simp_all add: record_watchdog_instance_def)

lemma do_watchdog_close_frame [simp]:
  "wd_heap (do_watchdog_close s) = wd_heap s" "wd_instances (do_watchdog_close s) = wd_instances s"
  "wd_mode (do_watchdog_close s) = wd_mode s" "wd_initialized (do_watchdog_close s) = wd_initialized s"
  "wd_hv (do_watchdog_close s) = wd_hv s"
  by (simp_all add: do_watchdog_close_def)

lemma do_watchdog_hypercall_frame:
  assumes "do_watchdog_hypercall call env i t now s = (r, k, s')"
  shows "wd_heap s' = wd_heap s" "wd_instances s' = wd_instances s" "wd_mode s' = wd_mode s"
    "wd_initialized s' = wd_initialized s" "i \<noteq> 0 \<Longrightarrow> k = i"
  using assms by (auto simp: do_watchdog_hypercall_def do_hypercall_def Let_def split: if_splits prod.splits)

lemma do_watchdog_hypercall_hv:
  assumes "do_watchdog_hypercall call env i t now s = (r, k, s')" and "wd_mode s = WATCHDOG_MODE_HYPERVISOR"
  shows "(r \<noteq> MTC_SUCCESS \<and> wd_hv s' = wd_hv s) \<or>
    (\<exists>ret. call i t now (wd_hv s) = (ret, wd_hv s') \<and> (r = MTC_SUCCESS \<longleftrightarrow> 0 \<le> ret \<and> (i = 0 \<longrightarrow> 0 < ret)) \<and>
       (r = MTC_SUCCESS \<and> i = 0 \<longrightarrow> k = word_of_int ret))"
  using assms by (auto simp: do_watchdog_hypercall_def do_hypercall_def Let_def split: if_splits prod.splits)

context sched_watchdog
begin

text \<open>A hypercall on the timer of one instance leaves the other timers alone.\<close>

lemma hypercall_on_instance:
  assumes run: "do_watchdog_hypercall call env i t now s = (r, k, s')" and mode: "wd_mode s = WATCHDOG_MODE_HYPERVISOR"
    and i: "i \<noteq> 0" "tm i (wd_hv s) \<noteq> None"
  shows "\<forall>j. j \<noteq> i \<longrightarrow> tm j (wd_hv s') = tm j (wd_hv s)"
    and "t \<noteq> 0 \<Longrightarrow> tm i (wd_hv s') \<noteq> None"
    and "t \<noteq> 0 \<Longrightarrow> r = MTC_SUCCESS \<Longrightarrow> tm i (wd_hv s') = Some (now + SECONDS t)"
proof -
  note hv = do_watchdog_hypercall_hv[OF run mode]
  show "\<forall>j. j \<noteq> i \<longrightarrow> tm j (wd_hv s') = tm j (wd_hv s)"
    using hv start[OF i] stop[OF i] by (cases "t = 0") (metis (no_types, lifting))+
  show "t \<noteq> 0 \<Longrightarrow> tm i (wd_hv s') \<noteq> None"
    using hv start[OF i] i(2) by (metis (no_types, lifting) option.distinct(1))
  show "t \<noteq> 0 \<Longrightarrow> r = MTC_SUCCESS \<Longrightarrow> tm i (wd_hv s') = Some (now + SECONDS t)"
    using hv start[OF i] by blast
qed

lemma set_ok:
  assumes ok: "wd_ok tm s" and run: "watchdog_set call env (Some a) t now s = Some (r, s')" and t: "t \<noteq> 0"
  shows "wd_ok tm s'"
    and "b \<noteq> a \<Longrightarrow> wd_heap s b = Some w \<Longrightarrow> wd_heap s' b = Some w \<and> tm (wi_id w) (wd_hv s') = tm (wi_id w) (wd_hv s)"
    and "r = MTC_SUCCESS \<Longrightarrow> \<exists>w. wd_heap s' a = Some w \<and> tm (wi_id w) (wd_hv s') = Some (now + SECONDS t)"
proof -
  obtain w k s1 where w: "wd_heap s a = Some w" and h: "do_watchdog_hypercall call env (wi_id w) t now s = (r, k, s1)"
    and s': "s' = s1\<lparr>wd_heap := (wd_heap s1)(a \<mapsto> w\<lparr>wi_id := k, wi_set_time := now, wi_timeout := t, wi_status := r\<rparr>)\<rparr>"
    using run by (auto simp: watchdog_set_def split: if_splits option.splits prod.splits)
  have wid: "wi_id w \<noteq> 0" "tm (wi_id w) (wd_hv s) \<noteq> None" and mode: "wd_mode s = WATCHDOG_MODE_HYPERVISOR"
    and uniq: "\<And>b v. wd_heap s b = Some v \<Longrightarrow> wi_id v = wi_id w \<Longrightarrow> b = a"
    using ok w by (auto simp: wd_ok_def)
  note f = do_watchdog_hypercall_frame[OF h] and hc = hypercall_on_instance[OF h mode wid]
  have k: "k = wi_id w" using f(5) wid by simp
  show "wd_ok tm s'"
    using ok f k w hc(1) hc(2)[OF t] wid uniq unfolding s' wd_ok_def
    by (auto split: if_splits) (metis option.distinct(1))+
  show "b \<noteq> a \<Longrightarrow> wd_heap s b = Some v \<Longrightarrow> wd_heap s' b = Some v \<and> tm (wi_id v) (wd_hv s') = tm (wi_id v) (wd_hv s)" for v
    using f hc(1) uniq by (auto simp: s')
  show "r = MTC_SUCCESS \<Longrightarrow> \<exists>w. wd_heap s' a = Some w \<and> tm (wi_id w) (wd_hv s') = Some (now + SECONDS t)"
    using hc(3)[OF t] k by (simp add: s')
qed

lemma close_ok:
  assumes ok: "wd_ok tm s" and run: "watchdog_close call env fo (Some a) now s = (r, s')"
  shows "wd_ok tm s'"
    and "b \<noteq> a \<Longrightarrow> wd_heap s b = Some v \<Longrightarrow> wd_heap s' b = Some v \<and> tm (wi_id v) (wd_hv s') = tm (wi_id v) (wd_hv s)"
proof -
  have both: "wd_ok tm s' \<and> (\<forall>b v. b \<noteq> a \<longrightarrow> wd_heap s b = Some v \<longrightarrow>
      wd_heap s' b = Some v \<and> tm (wi_id v) (wd_hv s') = tm (wi_id v) (wd_hv s))"
  proof (cases "wd_heap s a")
    case None
    then show ?thesis using run ok by (simp add: watchdog_close_def)
  next
    case (Some w)
    obtain q k s1 where h: "do_watchdog_hypercall call env (wi_id w) 0 now s = (q, k, s1)" by (metis prod_cases3)
    have wid: "wi_id w \<noteq> 0" "tm (wi_id w) (wd_hv s) \<noteq> None" and mode: "wd_mode s = WATCHDOG_MODE_HYPERVISOR"
      and uniq: "\<And>b v. wd_heap s b = Some v \<Longrightarrow> wi_id v = wi_id w \<Longrightarrow> b = a"
      and inst: "distinct (wd_instances s)" "set (wd_instances s) = dom (wd_heap s)"
      using ok Some by (auto simp: wd_ok_def)
    note f = do_watchdog_hypercall_frame[OF h] and hc = hypercall_on_instance[OF h mode wid]
    have s': "wd_heap s' = (wd_heap s)(a := None)" "wd_instances s' = drop_instance a (wd_instances s)"
      "wd_mode s' = wd_mode s" "wd_initialized s' = wd_initialized s" "wd_hv s' = wd_hv s1"
      using run Some h f(1-4) by (auto simp: watchdog_close_def Let_def split: if_splits)
    have others: "tm (wi_id v) (wd_hv s') = tm (wi_id v) (wd_hv s)" if "b \<noteq> a" "wd_heap s b = Some v" for b v
      using hc(1) uniq that by (auto simp: s')
    have "wd_ok tm s'"
      unfolding wd_ok_def
    proof (intro conjI allI impI)
      show "wd_mode s' = WATCHDOG_MODE_HYPERVISOR" "wd_initialized s'" using ok by (simp_all add: s' wd_ok_def)
      show "distinct (wd_instances s')" "set (wd_instances s') = dom (wd_heap s')"
        using drop_instance_set[OF inst(1)] inst(2) by (auto simp: s')
      show "wi_id v \<noteq> 0" "tm (wi_id v) (wd_hv s') \<noteq> None" if "wd_heap s' b = Some v" for b v
        using that ok others by (auto simp: s'(1) wd_ok_def split: if_splits)
      show "b = d" if "wd_heap s' b = Some v" "wd_heap s' d = Some u" "wi_id v = wi_id u" for b d v u
        using that ok by (auto simp: s' wd_ok_def split: if_splits)
    qed
    then show ?thesis using others by (auto simp: s'(1))
  qed
  then show "wd_ok tm s'"
    and "b \<noteq> a \<Longrightarrow> wd_heap s b = Some v \<Longrightarrow> wd_heap s' b = Some v \<and> tm (wi_id v) (wd_hv s') = tm (wi_id v) (wd_hv s)"
    by blast+
qed

lemma create_ok:
  assumes ok: "wd_ok tm s" and run: "watchdog_create call env fo mode mem label now s = (r, h, s')"
    and fresh: "\<forall>b. mem = Some b \<longrightarrow> wd_heap s b = None"
  shows "wd_ok tm s'"
    and "wd_heap s b = Some v \<Longrightarrow> wd_heap s' b = Some v \<and> tm (wi_id v) (wd_hv s') = tm (wi_id v) (wd_hv s)"
proof -
  have cm: "configure_mode mode s = s" using ok by (simp add: configure_mode_def wd_ok_def)
  have both: "wd_ok tm s' \<and> (\<forall>b v. wd_heap s b = Some v \<longrightarrow>
      wd_heap s' b = Some v \<and> tm (wi_id v) (wd_hv s') = tm (wi_id v) (wd_hv s))"
  proof (cases mem)
    case None
    then show ?thesis using run ok cm by (simp add: watchdog_create_def)
  next
    case (Some c)
    obtain q k s1 where h: "do_watchdog_hypercall call env 0 WATCHDOG_TIMEOUT_MAX now s = (q, k, s1)" by (metis prod_cases3)
    note f = do_watchdog_hypercall_frame[OF h] and hv = do_watchdog_hypercall_hv[OF h]
    have m: "wd_mode s = WATCHDOG_MODE_HYPERVISOR" using ok by (simp add: wd_ok_def)
    show ?thesis
    proof (cases "q = MTC_SUCCESS")
      case False
      then have "wd_hv s1 = wd_hv s" using hv[OF m] no_create by (metis linorder_not_less order_less_imp_le)
      then show ?thesis using run Some cm h False f ok by (auto simp: watchdog_create_def Let_def wd_ok_def)
    next
      case True
      then obtain ret where call: "call 0 WATCHDOG_TIMEOUT_MAX now (wd_hv s) = (ret, wd_hv s1)" "0 < ret" "k = word_of_int ret"
        using hv[OF m] by auto
      note new = create[OF call(1,2), folded call(3)]
      let ?w = "\<lparr>wi_label = copy_label label, wi_id = k, wi_set_time = now, wi_timeout = WATCHDOG_TIMEOUT_MAX, wi_status = MTC_SUCCESS\<rparr>"
      have s': "wd_heap s' = (wd_heap s)(c \<mapsto> ?w)" "wd_instances s' = wd_instances s @ [c]"
        "wd_mode s' = wd_mode s" "wd_initialized s' = wd_initialized s" "wd_hv s' = wd_hv s1"
        using run Some cm h True f by (auto simp: watchdog_create_def Let_def)
      have c: "wd_heap s c = None" using fresh Some by simp
      have old: "wi_id v \<noteq> k" "tm (wi_id v) (wd_hv s1) = tm (wi_id v) (wd_hv s)" if "wd_heap s b = Some v" for b v
      proof -
        have "tm (wi_id v) (wd_hv s) \<noteq> None" using that ok by (simp add: wd_ok_def)
        then show "wi_id v \<noteq> k" using new by metis
        then show "tm (wi_id v) (wd_hv s1) = tm (wi_id v) (wd_hv s)" using new by simp
      qed
      have "wd_ok tm s'"
        unfolding wd_ok_def
      proof (intro conjI allI impI)
        show "wd_mode s' = WATCHDOG_MODE_HYPERVISOR" "wd_initialized s'" using ok by (simp_all add: s' wd_ok_def)
        show "distinct (wd_instances s')" "set (wd_instances s') = dom (wd_heap s')"
          using ok c by (auto simp: s' wd_ok_def)
        show "wi_id v \<noteq> 0" "tm (wi_id v) (wd_hv s') \<noteq> None" if "wd_heap s' b = Some v" for b v
          using that ok new old by (auto simp: s'(1,5) wd_ok_def split: if_splits)
        show "b = d" if "wd_heap s' b = Some v" "wd_heap s' d = Some u" "wi_id v = wi_id u" for b d v u
        proof (cases "b = c \<or> d = c")
          case True
          then show ?thesis using that old(1)[of b v] old(1)[of d u] by (auto simp: s' split: if_splits)
        next
          case False
          then show ?thesis using that ok by (auto simp: s' wd_ok_def)
        qed
      qed
      then show ?thesis using old c by (auto simp: s'(1,5))
    qed
  qed
  then show "wd_ok tm s'"
    and "wd_heap s b = Some v \<Longrightarrow> wd_heap s' b = Some v \<and> tm (wi_id v) (wd_hv s') = tm (wi_id v) (wd_hv s)"
    by blast+
qed

lemma step_ok:
  assumes "wd_step call a s s'" and "wd_ok tm s" and "wd_heap s a = Some w"
  shows "wd_ok tm s' \<and> wd_heap s' a = Some w \<and> tm (wi_id w) (wd_hv s') = tm (wi_id w) (wd_hv s)"
  using assms(1)
proof cases
  case (ws_create env file_ok mode mem label now r h)
  then show ?thesis using create_ok(1)[OF assms(2) ws_create] create_ok(2)[OF assms(2) ws_create assms(3)] by simp
next
  case (ws_set env b t now r)
  then show ?thesis using set_ok(1,2)[OF assms(2)] assms(3) by metis
next
  case (ws_close env file_ok b now r)
  then show ?thesis using close_ok[OF assms(2)] assms(3) by metis
qed

lemma steps_ok:
  assumes "(wd_step call a)\<^sup>*\<^sup>* s s'" and "wd_ok tm s" and "wd_heap s a = Some w"
  shows "wd_ok tm s' \<and> wd_heap s' a = Some w \<and> tm (wi_id w) (wd_hv s') = tm (wi_id w) (wd_hv s)"
  using assms(1)
proof (induction rule: rtranclp_induct)
  case base
  then show ?case using assms(2,3) by simp
next
  case (step y z)
  then show ?case using step_ok[OF step.hyps(2)] by simp
qed

text \<open>Fencing: after the loop every instance has at most a second left.\<close>

lemma fence_instance_ok:
  assumes ok: "wd_ok tm s" and fine: "we_open env" "we_mlock env" "we_ioctl env"
  shows "wd_ok tm (fence_instance call env now a s)"
    and "wd_instances (fence_instance call env now a s) = wd_instances s"
    and "wd_heap (fence_instance call env now a s) b = wd_heap s b"
    and "wd_heap s a = Some w \<Longrightarrow> tm (wi_id w) (wd_hv (fence_instance call env now a s)) = Some (now + 1000)"
    and "wd_heap s b = Some v \<Longrightarrow> b \<noteq> a \<Longrightarrow>
      tm (wi_id v) (wd_hv (fence_instance call env now a s)) = tm (wi_id v) (wd_hv s)"
proof -
  have all: "wd_ok tm (fence_instance call env now a s) \<and> wd_instances (fence_instance call env now a s) = wd_instances s \<and>
     (\<forall>b. wd_heap (fence_instance call env now a s) b = wd_heap s b) \<and>
     (\<forall>w. wd_heap s a = Some w \<longrightarrow> tm (wi_id w) (wd_hv (fence_instance call env now a s)) = Some (now + 1000)) \<and>
     (\<forall>b v. wd_heap s b = Some v \<longrightarrow> b \<noteq> a \<longrightarrow>
        tm (wi_id v) (wd_hv (fence_instance call env now a s)) = tm (wi_id v) (wd_hv s))"
  proof (cases "wd_heap s a")
    case None
    then show ?thesis using ok by (simp add: fence_instance_def)
  next
    case (Some w)
    obtain q k s1 where h: "do_watchdog_hypercall call env (wi_id w) WD_FENCE now s = (q, k, s1)" by (metis prod_cases3)
    have wid: "wi_id w \<noteq> 0" "tm (wi_id w) (wd_hv s) \<noteq> None" and mode: "wd_mode s = WATCHDOG_MODE_HYPERVISOR"
      and uniq: "\<And>b v. wd_heap s b = Some v \<Longrightarrow> wi_id v = wi_id w \<Longrightarrow> b = a"
      using ok Some by (auto simp: wd_ok_def)
    note f = do_watchdog_hypercall_frame[OF h] and hc = hypercall_on_instance[OF h mode wid]
    have t: "WD_FENCE \<noteq> 0" "SECONDS WD_FENCE = 1000" by (simp_all add: WD_FENCE_def SECONDS_def)
    have q: "q = MTC_SUCCESS"
    proof -
      obtain ret hv' where c: "call (wi_id w) WD_FENCE now (wd_hv s) = (ret, hv')" by fastforce
      then have "0 \<le> ret" using start[OF wid t(1)] by blast
      then show ?thesis using h fine mode c wid(1)
        by (auto simp: do_watchdog_hypercall_def do_hypercall_def Let_def split: if_splits)
    qed
    have k: "k = wi_id w" using f(5) wid by simp
    have hp: "wd_heap (fence_instance call env now a s) = wd_heap s" and hv: "wd_hv (fence_instance call env now a s) = wd_hv s1"
      and rest: "wd_instances (fence_instance call env now a s) = wd_instances s" "wd_mode (fence_instance call env now a s) = wd_mode s"
        "wd_initialized (fence_instance call env now a s) = wd_initialized s"
      using Some h f k by (auto simp: fence_instance_def fun_upd_idem_iff)
    have "wd_ok tm (fence_instance call env now a s)"
      unfolding wd_ok_def hp hv rest
      using ok hc(1) hc(2)[OF t(1)] unfolding wd_ok_def by (metis)
    moreover have "tm (wi_id v) (wd_hv s1) = tm (wi_id v) (wd_hv s)" if "wd_heap s b = Some v" "b \<noteq> a" for b v
      using hc(1) uniq that by blast
    ultimately show ?thesis using hp rest(1) hc(3)[OF t(1) q] Some by (simp add: hv t(2))
  qed
  then show "wd_ok tm (fence_instance call env now a s)"
    "wd_instances (fence_instance call env now a s) = wd_instances s"
    "wd_heap (fence_instance call env now a s) b = wd_heap s b"
    "wd_heap s a = Some w \<Longrightarrow> tm (wi_id w) (wd_hv (fence_instance call env now a s)) = Some (now + 1000)"
    "wd_heap s b = Some v \<Longrightarrow> b \<noteq> a \<Longrightarrow>
      tm (wi_id v) (wd_hv (fence_instance call env now a s)) = tm (wi_id v) (wd_hv s)"
    by simp_all
qed

end

section \<open>The patched hypervisor\<close>

lemma unat_pred_inj: "i \<noteq> 0 \<Longrightarrow> k \<noteq> 0 \<Longrightarrow> unat i - 1 = unat k - 1 \<Longrightarrow> i = k" for i k :: u32
proof -
  assume "i \<noteq> 0" "k \<noteq> 0" and eq: "unat i - 1 = unat k - 1"
  then have "0 < unat i" "0 < unat k" by (simp_all add: unat_gt_0)
  with eq have "unat i = unat k" by linarith
  then show ?thesis by (simp add: word_unat_eq_iff)
qed

lemma do_watchdog_create:
  assumes "do_watchdog 0 t now hv = (r, hv')" and "0 < r"
  shows "word_of_int r \<noteq> (0 :: u32) \<and> timer_of (word_of_int r) hv = None \<and>
      timer_of (word_of_int r) hv' = Some (now + SECONDS t) \<and>
      (\<forall>i. i \<noteq> word_of_int r \<longrightarrow> timer_of i hv' = timer_of i hv)"
proof -
  obtain k where k: "k < 2" "hv k = None" "r = int (k + 1)" "hv' = hv(k \<mapsto> now + SECONDS t)"
    using assms by (auto simp: do_watchdog_def EEXIST_def NR_WATCHDOG_TIMERS_def first_host_Some split: option.splits)
  have u: "unat (word_of_int r :: u32) = k + 1"
    using k(1,3) by (cases "k = 0") (auto simp: less_2_cases_iff)
  then have nz: "(word_of_int r :: u32) \<noteq> 0" by auto
  have other: "unat i - 1 \<noteq> k" if "i \<noteq> word_of_int r" "i \<noteq> 0" for i :: u32
    using unat_pred_inj[OF that(2) nz] that(1) u by auto
  show ?thesis
    using k u nz other by (auto simp: timer_of_def NR_WATCHDOG_TIMERS_def)
qed

lemma do_watchdog_other:
  assumes "i \<noteq> 0" and "timer_of i hv \<noteq> None" and "do_watchdog i t now hv = (r, hv')"
  shows "0 \<le> r \<and> timer_of i hv' = (if t = 0 then None else Some (now + SECONDS t))
    \<and> (\<forall>k. k \<noteq> i \<longrightarrow> timer_of k hv' = timer_of k hv)"
proof -
  have i: "unat i \<le> 2" "hv (unat i - 1) \<noteq> None" using assms(1,2) by (auto simp: timer_of_def NR_WATCHDOG_TIMERS_def split: if_splits)
  have hv': "r = 0" "hv' = hv(unat i - 1 := (if t = 0 then None else Some (now + SECONDS t)))"
    using assms i by (auto simp: do_watchdog_def NR_WATCHDOG_TIMERS_def split: if_splits)
  have other: "unat k - 1 \<noteq> unat i - 1" if "k \<noteq> i" "k \<noteq> 0" for k :: u32
    using unat_pred_inj[OF that(2) assms(1)] that(1) by auto
  show ?thesis
    using assms(1) i(1) hv' other by (auto simp: timer_of_def NR_WATCHDOG_TIMERS_def)
qed

interpretation xen: sched_watchdog do_watchdog timer_of
proof unfold_locales
  show "do_watchdog 0 t now hv = (r, hv') \<Longrightarrow> 0 < r \<Longrightarrow>
      word_of_int r \<noteq> (0 :: u32) \<and> timer_of (word_of_int r) hv = None \<and>
      timer_of (word_of_int r) hv' = Some (now + SECONDS t) \<and>
      (\<forall>i. i \<noteq> word_of_int r \<longrightarrow> timer_of i hv' = timer_of i hv)" for t now hv r hv'
    by (rule do_watchdog_create)
  show "do_watchdog 0 t now hv = (r, hv') \<Longrightarrow> r \<le> 0 \<Longrightarrow> hv' = hv" for t now hv r hv'
    by (auto simp: do_watchdog_def split: option.splits)
  show "0 \<le> r \<and> timer_of i hv' = Some (now + SECONDS t) \<and> (\<forall>k. k \<noteq> i \<longrightarrow> timer_of k hv' = timer_of k hv)"
    if "i \<noteq> 0" "timer_of i hv \<noteq> None" "t \<noteq> 0" "do_watchdog i t now hv = (r, hv')" for i hv t now r hv'
    using do_watchdog_other[OF that(1,2,4)] that(3) by simp
  show "0 \<le> r \<and> timer_of i hv' = None \<and> (\<forall>k. k \<noteq> i \<longrightarrow> timer_of k hv' = timer_of k hv)"
    if "i \<noteq> 0" "timer_of i hv \<noteq> None" "do_watchdog i 0 now hv = (r, hv')" for i hv now r hv'
    using do_watchdog_other[OF that] by simp
  show "r < 0 \<and> hv' = hv" if "i \<noteq> 0" "timer_of i hv = None" "do_watchdog i t now hv = (r, hv')" for i hv t now r hv'
    using that by (auto simp: do_watchdog_def timer_of_def EINVAL_def EEXIST_def split: if_splits)
qed

section \<open>Guarantees\<close>

text \<open>
  C7. A host that stops setting a watchdog is reset: once \<open>watchdog_set\<close> has succeeded, the
  hypervisor's timer of that handle expires exactly \<open>timeout\<close> seconds later, whatever
  watchdogs are created, set or closed in between, as long as this one is neither set nor
  closed; and the state stays consistent.
\<close>

theorem watchdog_stays_armed:
  assumes "wd_ok timer_of s" and "timeout \<noteq> 0"
    and "watchdog_set do_watchdog env (Some a) timeout now s = Some (MTC_SUCCESS, s1)"
    and "(wd_step do_watchdog a)\<^sup>*\<^sup>* s1 s2"
  shows "wd_ok timer_of s2 \<and>
    (\<exists>w. wd_heap s2 a = Some w \<and> timer_of (wi_id w) (wd_hv s2) = Some (now + SECONDS timeout))"
  using xen.set_ok(1,3)[OF assms(1,3,2)] xen.steps_ok[OF assms(4)] by metis

text \<open>
  C12. A self-fence of a daemon that has a watchdog and whose device answers leaves no host
  running: either the hypervisor shuts the domain down at once, or every watchdog of the
  daemon has expired a second later.
\<close>

theorem selffence_resets:
  assumes "wd_ok timer_of s" and "wd_instances s \<noteq> []"
    and "we_open env" "we_mlock env" "we_ioctl env"
    and "watchdog_selffence do_watchdog env shutdown now s = Some (down, s')"
  shows "down \<or> (\<forall>a w. wd_heap s' a = Some w \<longrightarrow> timer_of (wi_id w) (wd_hv s') = Some (now + 1000))
    \<and> dom (wd_heap s') \<noteq> {}"
proof (cases shutdown)
  case True
  then have "fst (do_domain_shutdown_self env shutdown s) = MTC_SUCCESS"
    using assms(3,5) by (simp add: do_domain_shutdown_self_def)
  then show ?thesis using assms(6) by (auto simp: watchdog_selffence_def split: if_splits prod.splits)
next
  case False
  define s0 where "s0 = s\<lparr>wd_fd := True\<rparr>"
  have ok0: "wd_ok timer_of s0" using assms(1) by (simp add: s0_def wd_ok_def)
  have down: "do_domain_shutdown_self env shutdown s = (MTC_ERROR_WD_INSTANCE_UNAVAILABLE, s0)"
    using False assms(3,5) by (cases s) (simp add: do_domain_shutdown_self_def s0_def)
  have loop: "wd_ok timer_of (fold (fence_instance do_watchdog env now) l t) \<and>
      wd_heap (fold (fence_instance do_watchdog env now) l t) = wd_heap t \<and>
      (\<forall>a w. wd_heap t a = Some w \<longrightarrow> a \<in> set l \<or> timer_of (wi_id w) (wd_hv t) = Some (now + 1000) \<longrightarrow>
         timer_of (wi_id w) (wd_hv (fold (fence_instance do_watchdog env now) l t)) = Some (now + 1000))"
    if "wd_ok timer_of t" for l t
    using that
  proof (induction l arbitrary: t)
    case (Cons b l)
    let ?t = "fence_instance do_watchdog env now b t"
    note f = xen.fence_instance_ok[OF Cons.prems assms(3,4,5), where now = now and a = b]
    have hp: "wd_heap ?t = wd_heap t" using f(3) by (auto simp: fun_eq_iff)
    have keep: "timer_of (wi_id w) (wd_hv ?t) = Some (now + 1000)"
      if "wd_heap t a = Some w" "a = b \<or> timer_of (wi_id w) (wd_hv t) = Some (now + 1000)" for a w
      using that f(4)[of w] f(5)[of a w] by (cases "a = b") auto
    show ?case using Cons.IH[OF f(1)] hp keep by auto
  qed simp
  have s': "s' = fold (fence_instance do_watchdog env now) (wd_instances s) s0" "\<not> down"
    using assms(2,6) down by (auto simp: watchdog_selffence_def s0_def split: if_splits)
  have d: "set (wd_instances s) = dom (wd_heap s)" "wd_heap s0 = wd_heap s"
    using assms(1) by (simp_all add: wd_ok_def s0_def)
  note l = loop[OF ok0, of "wd_instances s", folded s'(1)]
  have "timer_of (wi_id w) (wd_hv s') = Some (now + 1000)" if "wd_heap s' a = Some w" for a w
  proof -
    have a: "wd_heap s a = Some w" using that l d by simp
    then have "a \<in> set (wd_instances s)" using d by (simp add: domI)
    with a l d(2) show ?thesis by metis
  qed
  moreover have "dom (wd_heap s') \<noteq> {}" using l d assms(2) by (metis set_empty2)
  ultimately show ?thesis by blast
qed

text \<open>One watchdog, created at time 0.\<close>

definition wd_zero :: "hv wd_state" where
  "wd_zero = \<lparr>wd_heap = (\<lambda>_. None), wd_instances = [], wd_fd = False, wd_mode = WATCHDOG_MODE_HYPERVISOR,
     wd_initialized = True, wd_mlock_done = False, wd_file = None, wd_hv = (\<lambda>_. None)\<rparr>"

definition wd_one :: "hv wd_state" where
  "wd_one = snd (snd (watchdog_create do_watchdog wd_fine True ''HYPERVISOR'' (Some 5) (Some ''heartbeat'') 0 wd_zero))"

lemma first_of_two: "first_host 2 (\<lambda>i. True) = Some 0"
  by (simp add: first_host_Some)

lemma wd_one_create: "watchdog_create do_watchdog wd_fine True ''HYPERVISOR'' (Some 5) (Some ''heartbeat'') 0 wd_zero
    = (MTC_SUCCESS, Some 5, wd_one)"
  by (simp add: wd_one_def watchdog_create_def wd_zero_def configure_mode_def do_watchdog_hypercall_def do_hypercall_def
      wd_fine_def do_watchdog_def NR_WATCHDOG_TIMERS_def first_of_two record_watchdog_instance_def Let_def)

lemma wd_one_ok: "wd_ok timer_of wd_one"
proof -
  have "wd_ok timer_of wd_zero" by (simp add: wd_ok_def wd_zero_def)
  then show ?thesis by (rule xen.create_ok(1)[OF _ wd_one_create]) (simp add: wd_zero_def)
qed

lemma wd_one_sel: "wd_instances wd_one = [5]" "wd_mode wd_one = WATCHDOG_MODE_HYPERVISOR"
  "\<exists>w. wd_heap wd_one 5 = Some w \<and> wi_id w = 1 \<and> wi_set_time w = 0 \<and> wi_timeout w = WATCHDOG_TIMEOUT_MAX"
  "wd_hv wd_one 0 = Some (SECONDS WATCHDOG_TIMEOUT_MAX)" "wd_mlock_done wd_one" "wd_fd wd_one"
  by (simp_all add: wd_one_def watchdog_create_def wd_zero_def configure_mode_def do_watchdog_hypercall_def do_hypercall_def
      wd_fine_def do_watchdog_def NR_WATCHDOG_TIMERS_def first_of_two record_watchdog_instance_def Let_def)

lemma wd_one_set: "\<exists>s. watchdog_set do_watchdog wd_fine (Some 5) 30 1000 wd_one = Some (MTC_SUCCESS, s)"
proof -
  obtain w where w: "wd_heap wd_one 5 = Some w" "wi_id w = 1" "wi_set_time w = 0" "wi_timeout w = WATCHDOG_TIMEOUT_MAX"
    using wd_one_sel(3) by blast
  have "check_watchdog_timeout 1000 wd_one"
    using w wd_one_sel(1) by (simp add: check_watchdog_timeout_def wd_expired_def WATCHDOG_TIMEOUT_MAX_def)
  moreover have "\<exists>k s. do_watchdog_hypercall do_watchdog wd_fine (wi_id w) 30 1000 wd_one = (MTC_SUCCESS, k, s)"
    using w wd_one_sel(2,4,5,6)
    by (simp add: do_watchdog_hypercall_def do_hypercall_def do_watchdog_def wd_fine_def NR_WATCHDOG_TIMERS_def Let_def)
  ultimately show ?thesis using w by (auto simp: watchdog_set_def)
qed

theorem watchdog_stays_armed_witness:
  "\<exists>s w. watchdog_set do_watchdog wd_fine (Some 5) 30 1000 wd_one = Some (MTC_SUCCESS, s) \<and>
     wd_heap s 5 = Some w \<and> timer_of (wi_id w) (wd_hv s) = Some 31000"
proof -
  obtain s where run: "watchdog_set do_watchdog wd_fine (Some 5) 30 1000 wd_one = Some (MTC_SUCCESS, s)"
    using wd_one_set by blast
  show ?thesis
    using watchdog_stays_armed[OF wd_one_ok _ run rtranclp.rtrancl_refl] run by (auto simp: SECONDS_def)
qed

theorem selffence_resets_witness:
  "\<exists>s w. watchdog_selffence do_watchdog wd_fine False 7 wd_one = Some (False, s) \<and>
     wd_heap s 5 = Some w \<and> timer_of (wi_id w) (wd_hv s) = Some 1007"
proof -
  have e: "we_open wd_fine" "we_mlock wd_fine" "we_ioctl wd_fine" by (simp_all add: wd_fine_def)
  have l: "wd_instances wd_one \<noteq> []" by (simp add: wd_one_sel)
  define s0 where "s0 = wd_one\<lparr>wd_fd := True\<rparr>"
  have down: "do_domain_shutdown_self wd_fine False wd_one = (MTC_ERROR_WD_INSTANCE_UNAVAILABLE, s0)"
    using e by (cases wd_one) (simp add: do_domain_shutdown_self_def s0_def)
  have ok0: "wd_ok timer_of s0" using wd_one_ok by (simp add: s0_def wd_ok_def)
  define s where "s = fence_instance do_watchdog wd_fine 7 5 s0"
  have run: "watchdog_selffence do_watchdog wd_fine False 7 wd_one = Some (False, s)"
    using down by (simp add: watchdog_selffence_def wd_one_sel s_def s0_def)
  have h: "wd_heap s = wd_heap wd_one"
    using xen.fence_instance_ok(3)[OF ok0 e, of 7 5] by (simp add: s_def s0_def fun_eq_iff)
  obtain w where "wd_heap s 5 = Some w" using wd_one_sel(3) h by auto
  then show ?thesis
    using selffence_resets[OF wd_one_ok l e run] run by auto
qed

text \<open>
  A watchdog whose stopping hypercall fails is forgotten all the same: \<open>watchdog_close\<close>
  reports success, and the timer of the hypervisor runs on with nobody left to set it.
\<close>

lemma close_forgets_running_timer:
  assumes ok: "wd_ok timer_of s" and a: "wd_heap s a = Some w"
    and fail: "\<not> we_ioctl env" and run: "watchdog_close do_watchdog env fo (Some a) now s = (r, s')"
  shows "r = MTC_SUCCESS \<and> wd_heap s' a = None \<and> timer_of (wi_id w) (wd_hv s') = timer_of (wi_id w) (wd_hv s)
    \<and> timer_of (wi_id w) (wd_hv s') \<noteq> None"
proof -
  obtain q k s1 where h: "do_watchdog_hypercall do_watchdog env (wi_id w) 0 now s = (q, k, s1)" by (metis prod_cases3)
  have "wd_hv s1 = wd_hv s"
    using h fail by (auto simp: do_watchdog_hypercall_def do_hypercall_def Let_def split: if_splits)
  then show ?thesis
    using run a h ok by (auto simp: watchdog_close_def Let_def wd_ok_def split: if_splits)
qed

end
