(* ===== verification/FaultWatchdogs.thy ===== *)
theory FaultWatchdogs
  imports SmFaultProps WatchdogProps
begin

text \<open>
  The last phase of the fault handler against the watchdogs: what \<open>fh_phase4\<close> does to the
  live set, how long it sleeps before, and that a timer which a host set before it fell
  silent has expired by then.
\<close>

section \<open>The two channels\<close>

text \<open>The timeout, the interval and the watchdog of the heartbeat and of the State-File.\<close>

definition channels :: "ha_config \<Rightarrow> (u32 \<times> u32 \<times> u32) list" where
  "channels c = [(cfg_T1 c, cfg_t1 c, cfg_Wh c), (cfg_T2 c, cfg_t2 c, cfg_Ws c)]"

text \<open>A configuration for which the 32-bit arithmetic of the sleep is exact.\<close>

definition sleep_fits :: "ha_config \<Rightarrow> bool" where
  "sleep_fits c \<longleftrightarrow> min (uint (cfg_T1 c)) (uint (cfg_T2 c)) \<le> max (uint (cfg_Wh c)) (uint (cfg_Ws c))
     \<and> max (uint (cfg_Wh c)) (uint (cfg_Ws c)) + max (uint (cfg_t1 c)) (uint (cfg_t2 c)) \<le> 4294967"

lemma fh_sleep_time_exact:
  assumes "sleep_fits c"
  shows "fh_sleep_time c longer p3_start p4_start = max (1000 * (max (uint (cfg_Wh c)) (uint (cfg_Ws c))
      - min (uint (cfg_T1 c)) (uint (cfg_T2 c)) + max (uint (cfg_t1 c)) (uint (cfg_t2 c))
      + (if longer then min (uint (cfg_T1 c)) (uint (cfg_T2 c)) else 0)) - (p4_start - p3_start)) 10000"
proof -
  have fits: "min (uint (cfg_T1 c)) (uint (cfg_T2 c)) \<le> max (uint (cfg_Wh c)) (uint (cfg_Ws c))"
    "max (uint (cfg_Wh c)) (uint (cfg_Ws c)) + max (uint (cfg_t1 c)) (uint (cfg_t2 c)) \<le> 4294967"
    using assms by (simp_all add: sleep_fits_def)
  have "0 \<le> max (uint (cfg_t1 c)) (uint (cfg_t2 c))" by (simp add: le_max_iff_disj)
  then have "uint (u32_min (cfg_T1 c) (cfg_T2 c)) \<le> 4294967" using fits by (simp only: uint_u32_min)
  then have "uint (u32_min (cfg_T1 c) (cfg_T2 c) * ONE_SEC) = 1000 * min (uint (cfg_T1 c)) (uint (cfg_T2 c))"
    using ms_of_small[of "u32_min (cfg_T1 c) (cfg_T2 c)"] by (simp add: ms_of_def uint_u32_min)
  then have "uint ((if longer then u32_min (cfg_T1 c) (cfg_T2 c) else 0) * ONE_SEC)
      = 1000 * (if longer then min (uint (cfg_T1 c)) (uint (cfg_T2 c)) else 0)" by simp
  moreover have "uint (FH_MINIMUM_SLEEP_BEFORE_FO * ONE_SEC) = 10000"
    by (simp add: FH_MINIMUM_SLEEP_BEFORE_FO_def ONE_SEC_def)
  ultimately show ?thesis
    using fh_sleep_base_exact[OF fits] unfolding fh_sleep_time_def by (simp only: distrib_left) (simp only: diff_add_eq)
qed

section \<open>What the phase does\<close>

lemma fence_request_keeps: "smv_fh_sleep_extend (d_smv (fence_request d)) = smv_fh_sleep_extend (d_smv d)"
  by (simp add: fence_request_def with_hb_def)

text \<open>The state the phase sleeps from, and the state it ends with after the sleep.\<close>

lemma fh_phase4_degrading:
  assumes "fh_phase4 c p3_start st = Some st'" and "fh_degrading (st_d st)"
  shows "\<exists>st2. mssleep (fh_sleep_time c (smv_fh_sleep_extend (d_smv (st_d st))) p3_start (st_now st))
        (if smv_fencing (d_smv (st_d st)) = FENCING_ARMED then st_upd fence_request st else st) = Some st2
      \<and> st' = st_upd fh_shrink_liveset st2"
  using assms by (auto simp: fh_phase4_def Let_def bind_eq_Some_conv fence_request_keeps split: if_splits)

lemma fh_shrink_liveset_exact:
  "sm_current_liveset (d_sm (fh_shrink_liveset d)) =
     (if smv_fencing (d_smv d) = FENCING_ARMED
      then hm_inter (sm_current_liveset (d_sm d)) (sm_proposed_liveset (d_sm d)) else sm_current_liveset (d_sm d))"
  by (simp add: fh_shrink_liveset_def cancel_fence_request_def with_sm_def with_hb_def)

text \<open>
  C3. The last phase changes nothing when the proposed live set has every live host. Otherwise it
  sleeps until the longer watchdog plus the longer interval, less the smaller timeout, has
  passed since phase 3 began, the smaller timeout more when a host that is still heard was
  taken out, and never less than ten seconds; then, if the fencing is armed at that time, the live set
  is cut to exactly what it has in common with the proposed one, and otherwise it stays as it is.
  When it is cut, the watchdog of a host that fell silent has run out: a timer that the
  host set for the watchdog of a channel, at most an interval after it was last heard on it, when it
  was last heard a timeout before phase 3 (or any time before it, if the sleep is extended), is due, whatever
  the host did to its other watchdogs. (One clock for all hosts, and the times so that the 32-bit arithmetic fits.)
\<close>

theorem liveset_shrinks_after_watchdogs:
  assumes run: "fh_phase4 c p3_start st = Some st'" and config: "sleep_fits c"
    and channel: "(T, t, W) \<in> set (channels c)"
    and silent: "heard + (if smv_fh_sleep_extend (d_smv (st_d st)) then 0 else 1000 * uint T) \<le> p3_start"
      "last_set \<le> heard + 1000 * uint t"
    and timer: "wd_ok timer_of s" "W \<noteq> 0"
      "watchdog_set do_watchdog env (Some a) W last_set s = Some (MTC_SUCCESS, s1)"
      "(wd_step do_watchdog a)\<^sup>*\<^sup>* s1 s2"
  shows "if fh_degrading (st_d st) then
      \<exists>st2 due w. mssleep (max (1000 * (max (uint (cfg_Wh c)) (uint (cfg_Ws c))
             - min (uint (cfg_T1 c)) (uint (cfg_T2 c)) + max (uint (cfg_t1 c)) (uint (cfg_t2 c))
             + (if smv_fh_sleep_extend (d_smv (st_d st)) then min (uint (cfg_T1 c)) (uint (cfg_T2 c)) else 0))
             - (st_now st - p3_start)) 10000)
          (if smv_fencing (d_smv (st_d st)) = FENCING_ARMED then st_upd fence_request st else st) = Some st2
        \<and> st_now st' = st_now st2
        \<and> sm_current_liveset (d_sm (st_d st')) =
            (if smv_fencing (d_smv (st_d st2)) = FENCING_ARMED
             then hm_inter (sm_current_liveset (d_sm (st_d st2))) (sm_proposed_liveset (d_sm (st_d st2)))
             else sm_current_liveset (d_sm (st_d st2)))
        \<and> wd_heap s2 a = Some w \<and> timer_of (wi_id w) (wd_hv s2) = Some due \<and> due \<le> st_now st'
    else st' = st"
proof (cases "fh_degrading (st_d st)")
  case False
  then show ?thesis using run by (simp add: fh_phase4_def)
next
  case True
  let ?ext = "smv_fh_sleep_extend (d_smv (st_d st))"
  let ?sl = "fh_sleep_time c ?ext p3_start (st_now st)"
  let ?st1 = "if smv_fencing (d_smv (st_d st)) = FENCING_ARMED then st_upd fence_request st else st"
  obtain st2 where z: "mssleep ?sl ?st1 = Some st2" "st' = st_upd fh_shrink_liveset st2"
    using fh_phase4_degrading[OF run True] by blast
  obtain w where w: "wd_heap s2 a = Some w" "timer_of (wi_id w) (wd_hv s2) = Some (last_set + SECONDS W)"
    using xen.set_ok(1,3)[OF timer(1,3,2)] xen.steps_ok[OF timer(4)] by metis
  have "st_now ?st1 = st_now st" by simp
  then have wake: "st_now st + ?sl \<le> st_now st'" using mssleep_wakes[OF z(1)] z(2) by simp
  have "p3_start + 1000 * (max (uint (cfg_Wh c)) (uint (cfg_Ws c))
      - min (uint (cfg_T1 c)) (uint (cfg_T2 c)) + max (uint (cfg_t1 c)) (uint (cfg_t2 c))
      + (if ?ext then min (uint (cfg_T1 c)) (uint (cfg_T2 c)) else 0)) \<le> st_now st + ?sl"
    unfolding fh_sleep_time_exact[OF config] by linarith
  moreover have "uint W \<le> max (uint (cfg_Wh c)) (uint (cfg_Ws c))" "uint t \<le> max (uint (cfg_t1 c)) (uint (cfg_t2 c))"
    "min (uint (cfg_T1 c)) (uint (cfg_T2 c)) \<le> uint T"
    using channel by (auto simp: channels_def)
  ultimately have "last_set + SECONDS W \<le> st_now st'"
    using wake silent unfolding SECONDS_def by (cases ?ext) auto
  moreover have "sm_current_liveset (d_sm (st_d st')) =
            (if smv_fencing (d_smv (st_d st2)) = FENCING_ARMED
             then hm_inter (sm_current_liveset (d_sm (st_d st2))) (sm_proposed_liveset (d_sm (st_d st2)))
             else sm_current_liveset (d_sm (st_d st2)))" "st_now st' = st_now st2"
    using fh_shrink_liveset_exact[of "st_d st2"] by (simp_all add: z(2))
  ultimately show ?thesis
    using True w z(1) unfolding fh_sleep_time_exact[OF config] by auto
qed

definition shrinking :: daemon where
  "shrinking = upd_smv (\<lambda>v. v\<lparr>smv_fencing := FENCING_ARMED\<rparr>)
     (upd_sm (\<lambda>s. s\<lparr>sm_current_liveset := hm_of [0, 1], sm_proposed_liveset := hm_of [0]\<rparr>) (init_daemon (default_config 2 0)))"

text \<open>
  Host 1 set its watchdog at one second, was not heard again, and phase 3 begins at 31 seconds.
\<close>

theorem liveset_shrinks_after_watchdogs_witness:
  "\<exists>st' s1. fh_phase4 (default_config 2 0) 31000 ([(60000, id)], 31500, shrinking) = Some st'
     \<and> watchdog_set do_watchdog wd_fine (Some 5) 30 1000 wd_one = Some (MTC_SUCCESS, s1)
     \<and> (\<exists>w due. wd_heap s1 5 = Some w \<and> timer_of (wi_id w) (wd_hv s1) = Some due \<and> due \<le> st_now st')"
proof -
  have deg: "fh_degrading (st_d ([(60000, id)], 31500, shrinking))"
    by (auto simp: fh_degrading_def shrinking_def hm_subseteq_iff hostmap_simps intro!: exI[of _ "1::nat"])
  have fits: "sleep_fits (default_config 2 0)" by (simp add: sleep_fits_def)
  have ext: "\<not> smv_fh_sleep_extend (d_smv shrinking)" by (simp add: shrinking_def init_daemon_def init_smv_def)
  have "fh_phase4 (default_config 2 0) 31000 ([(60000, id)], 31500, shrinking) \<noteq> None"
    using deg ext
    by (simp add: fh_phase4_def Let_def mssleep_def fence_request_keeps fh_sleep_time_exact[OF fits])
  then obtain st' where r: "fh_phase4 (default_config 2 0) 31000 ([(60000, id)], 31500, shrinking) = Some st'" by blast
  obtain s1 where set: "watchdog_set do_watchdog wd_fine (Some 5) 30 1000 wd_one = Some (MTC_SUCCESS, s1)"
    using wd_one_set by blast
  have "(30, 4, 30) \<in> set (channels (default_config 2 0))" by (simp add: channels_def)
  from liveset_shrinks_after_watchdogs[OF r fits this, of 1000 1000, OF _ _ wd_one_ok _ set rtranclp.rtrancl_refl]
  show ?thesis using r set deg ext by auto
qed

end
