(* ===== verification/SmStart.thy ===== *)
theory SmStart
  imports SmFault
begin

text \<open>
  Starting and joining (\<^verbatim>\<open>daemon/sm.c\<close>): the waits of the state-manager thread
  before a host comes online, the start criteria, the join handshake of a starting host,
  and the thread from its first step to the loop that serves fault-handling requests.
\<close>

section \<open>Waiting\<close>

text \<open>
  \<open>do body while (sm_wait_signals_sm_hb_sf(\<dots>, timeout))\<close>: the body either has a result or
  goes on waiting; \<open>None\<close> as the result means that the wait timed out.
\<close>

partial_function (option) sm_poll :: "(sm_st \<Rightarrow> ('r option \<times> sm_st) option) \<Rightarrow> bool \<Rightarrow> bool \<Rightarrow> bool
  \<Rightarrow> (sm_st \<Rightarrow> int) \<Rightarrow> sm_st \<Rightarrow> ('r option \<times> sm_st) option" where
  "sm_poll body s h f timeout st =
     Option.bind (body st) (\<lambda>(r, st1).
       case r of
         Some x \<Rightarrow> Some (Some x, st1)
       | None \<Rightarrow> Option.bind (sm_wait_signals_sm_hb_sf s h f (timeout st1) st1) (\<lambda>(signaled, st2).
                   if signaled then sm_poll body s h f timeout st2 else Some (None, st2)))"

text \<open>What is left of a time that runs from \<open>start\<close>; never negative.\<close>

definition time_left :: "int \<Rightarrow> clock \<Rightarrow> clock \<Rightarrow> int" where
  "time_left span start now = (let to = span - (now - start) in if to < 0 then 0 else to)"

definition since_start :: "int \<Rightarrow> sm_st \<Rightarrow> int" where
  "since_start span st = time_left span (smv_start_time (d_smv (st_d st))) (st_now st)"

text \<open>A wait for a condition on the objects.\<close>

definition poll_test :: "(daemon \<Rightarrow> bool) \<Rightarrow> sm_st \<Rightarrow> (unit option \<times> sm_st) option" where
  "poll_test P st = Some (if P (st_d st) then Some () else None, st)"

definition wait_all_hosts_up_on_heartbeat :: "ha_config \<Rightarrow> int \<Rightarrow> sm_st \<Rightarrow> sm_st option" where
  "wait_all_hosts_up_on_heartbeat c timeout st =
     map_option snd (sm_poll (poll_test (\<lambda>d. is_all_hosts_up c (hb_hbdomain (d_hb d))))
       False True False (since_start timeout) st)"

definition wait_all_hosts_up_on_statefile :: "ha_config \<Rightarrow> int \<Rightarrow> sm_st \<Rightarrow> sm_st option" where
  "wait_all_hosts_up_on_statefile c timeout st =
     map_option snd (sm_poll (poll_test (\<lambda>d. is_all_hosts_up c (sf_sfdomain (d_sf d))))
       False False True (since_start timeout) st)"

definition recognized_down :: "ha_config \<Rightarrow> daemon \<Rightarrow> bool" where
  "recognized_down c d \<longleftrightarrow> all_hosts (num_host c) (\<lambda>i.
     \<not> (i \<noteq> my_index c \<and>
        ((hm_ison (hb_hbdomain (d_hb d)) i \<and> hm_ison (raw_current_liveset (hb_raw (d_hb d) i)) (my_index c)) \<or>
         (hm_ison (sf_sfdomain (d_sf d)) i \<and> hm_ison (raw_current_liveset (sf_raw (d_sf d) i)) (my_index c)))))"

text \<open>The pool state is the one read before the wait.\<close>

definition boot_time :: "ha_config \<Rightarrow> u32 \<Rightarrow> u32" where
  "boot_time c pool_state = (if pool_state = SF_STATE_INIT then cfg_Tenable c else cfg_Tboot c)"

definition wait_all_hosts_recognize_I_was_down :: "ha_config \<Rightarrow> sm_st \<Rightarrow> (mtc_status \<times> sm_st) option" where
  "wait_all_hosts_recognize_I_was_down c st =
     map_option (\<lambda>(r, st1). (if r \<noteq> None then MTC_SUCCESS else MTC_ERROR_SM_BOOT_TIMEOUT, st1))
       (sm_poll (poll_test (recognized_down c)) False True True
          (since_start (uint (boot_time c (get_pool_state (st_d st)) * ONE_SEC))) st)"

definition all_hosts_booted :: "ha_config \<Rightarrow> daemon \<Rightarrow> bool" where
  "all_hosts_booted c d \<longleftrightarrow> all_hosts (num_host c) (\<lambda>i.
     \<not> (i \<noteq> my_index c \<and> hm_ison (hb_hbdomain (d_hb d)) i
        \<and> \<not> hm_ison (raw_proposed_liveset (hb_raw (d_hb d) i)) (my_index c)))"

definition wait_until_all_hosts_booted :: "ha_config \<Rightarrow> int \<Rightarrow> sm_st \<Rightarrow> (bool \<times> sm_st) option" where
  "wait_until_all_hosts_booted c timeout st =
     map_option (\<lambda>(r, st1). (r \<noteq> None, st1))
       (sm_poll (poll_test (all_hosts_booted c)) False True False (since_start timeout) st)"

section \<open>Forming a live set\<close>

text \<open>Only the first host of the live set is asked whether its live set has the local host.\<close>

definition am_I_in_new_liveset :: "ha_config \<Rightarrow> hostmap \<Rightarrow> daemon \<Rightarrow> hostmap option" where
  "am_I_in_new_liveset c liveset d =
     (case first_host (num_host c) (hm_ison liveset) of
        Some i \<Rightarrow> (let l = raw_current_liveset (sf_raw (d_sf d) i)
                    in if hm_ison l (my_index c) then Some l else None)
      | None \<Rightarrow> None)"

definition form_new_liveset :: "hostmap \<Rightarrow> daemon \<Rightarrow> daemon" where
  "form_new_liveset l d =
     with_hb True (\<lambda>h. h\<lparr>hb_join := False\<rparr>)
       (with_sm True (\<lambda>s. s\<lparr>sm_proposed_liveset := l, sm_current_liveset := l\<rparr>) d)"

section \<open>Start criteria\<close>

definition SYNCHRONIZED_BOOT_TIMEOUT_EXTENDER :: "ha_config \<Rightarrow> u32" where
  "SYNCHRONIZED_BOOT_TIMEOUT_EXTENDER c = u32_max (cfg_t1 c) (cfg_t2 c) * 3"

text \<open>
  \<open>start_flags\<close> is three Booleans: the pool state and the excluded flag, read once before
  the loop, and whether there is no live set to join, judged on the copies of each round.
\<close>

definition sfdomain_nonstarting :: "ha_config \<Rightarrow> com_data_sf \<Rightarrow> hostmap" where
  "sfdomain_nonstarting c sf = hm_mask_unconfig (num_host c) (hm_diff (sf_sfdomain sf) (sf_starting sf))"

definition empty_liveset :: "ha_config \<Rightarrow> com_data_sm \<Rightarrow> com_data_hb \<Rightarrow> com_data_sf \<Rightarrow> bool" where
  "empty_liveset c sm hb sf \<longleftrightarrow> is_empty_liveset c (sfdomain_nonstarting c sf)
     \<and> \<not> (sm_SR2 sm \<and> is_all_hosts_up c (hm_union (hb_hbdomain hb) (sf_excluded sf)))"

text \<open>All configured hosts visible: propose them all and wait for the same of every host.\<close>

definition start_with_all :: "ha_config \<Rightarrow> bool \<Rightarrow> com_data_hb \<Rightarrow> sm_st \<Rightarrow> (mtc_status option \<times> sm_st) option" where
  "start_with_all c pool_init hb st =
     (let st1 = st_upd (with_sm True (\<lambda>s. s\<lparr>sm_proposed_liveset := hb_hbdomain hb\<rparr>)) st
      in Option.bind (wait_until_all_hosts_booted c
             (uint (((if pool_init then cfg_Tenable c else cfg_Tboot c)
                      + SYNCHRONIZED_BOOT_TIMEOUT_EXTENDER c) * ONE_SEC)) st1) (\<lambda>(booted, st2).
           if booted then
             (let st3 = st_upd (\<lambda>d. form_new_liveset (sm_proposed_liveset (d_sm d)) d) st2;
                  st4 = (if pool_init then st_upd (sf_set_pool_state True SF_STATE_ACTIVE) st3 else st3)
              in Some (Some MTC_SUCCESS, st4))
           else Some (None, st2)))"

text \<open>Joining an existing live set: the hosts with State-File access, all seen on the heartbeat.\<close>

definition join_existing :: "ha_config \<Rightarrow> com_data_hb \<Rightarrow> com_data_sf \<Rightarrow> sm_st \<Rightarrow> mtc_status option \<times> sm_st" where
  "join_existing c hb sf st =
     (case am_I_in_new_liveset c (sfdomain_nonstarting c sf) (st_d st) of
        Some l \<Rightarrow> (Some MTC_SUCCESS, st_upd (form_new_liveset l) st)
      | None \<Rightarrow>
          (let hbd = hm_mask_unconfig (num_host c) (hb_hbdomain hb);
               sfd = hm_mask_unconfig (num_host c) (sf_sfdomain sf);
               l = hm_mask_unconfig (num_host c) (hm_diff sfd (sf_starting sf))
           in if hm_subseteq sfd hbd
              then (Some MTC_SUCCESS, st_upd (with_sm True (\<lambda>s.
                      s\<lparr>sm_proposed_liveset := l, sm_current_liveset := l\<rparr>)) st)
              else (None, st)))"

text \<open>One round of the loop.\<close>

definition start_round :: "ha_config \<Rightarrow> bool \<Rightarrow> sm_st \<Rightarrow> (mtc_status option \<times> sm_st) option" where
  "start_round c pool_init st =
     (let sm = d_sm (st_d st); hb = d_hb (st_d st); sf = d_sf (st_d st)
      in if \<not> sf_access sf then Some (Some MTC_ERROR_SM_NOSTATEFILE, st)
         else if empty_liveset c sm hb sf then
           (if is_all_hosts_up c (hb_hbdomain hb) \<and> is_all_hosts_up c (sf_sfdomain sf)
            then start_with_all c pool_init hb st else Some (None, st))
         else if pool_init then Some (Some MTC_ERROR_SM_INVALID_POOL_STATE, st)
         else Some (join_existing c hb sf st))"

text \<open>
  After the time-out: the flags and the domains are those of the last round (\<open>snap\<close>), the
  election and the question to the first host look at the objects as they are by then.
\<close>

definition start_timeout :: "ha_config \<Rightarrow> bool \<Rightarrow> bool \<Rightarrow> daemon \<Rightarrow> sm_st \<Rightarrow> mtc_status \<times> sm_st" where
  "start_timeout c pool_init excluded snap st =
     (if pool_init then (MTC_ERROR_SM_BOOT_TIMEOUT, st)
      else if \<not> empty_liveset c (d_sm snap) (d_hb snap) (d_sf snap) then
        (case am_I_in_new_liveset c (sfdomain_nonstarting c (d_sf snap)) (st_d st) of
           Some l \<Rightarrow> (MTC_SUCCESS, st_upd (form_new_liveset l) st)
         | None \<Rightarrow> (MTC_ERROR_SM_JOIN_FAILED, st))
      else if excluded \<and> \<not> is_all_hosts_up c (sf_excluded (d_sf snap))
      then (MTC_ERROR_SM_BOOT_BLOCKED_BY_EXCLUDED, st)
      else if am_I_in_largest_partition c (d_hb (st_d st)) (d_sf (st_d st)) (sf_weight (d_sf (st_d st)))
      then (MTC_SUCCESS, st_upd (form_new_liveset (hm_diff (hb_hbdomain (d_hb snap)) (hb_notjoining (d_hb snap)))) st)
      else (MTC_ERROR_SM_BOOT_FAILED, st))"

partial_function (option) start_loop :: "ha_config \<Rightarrow> u32 \<Rightarrow> bool \<Rightarrow> sm_st \<Rightarrow> (mtc_status \<times> sm_st) option" where
  "start_loop c pool_state excluded st =
     (let snap = st_d st; pool_init = (pool_state = SF_STATE_INIT)
      in Option.bind (start_round c pool_init st) (\<lambda>(r, st1).
           case r of
             Some status \<Rightarrow> Some (status, st1)
           | None \<Rightarrow>
               Option.bind (sm_wait_signals_sm_hb_sf True True True
                   (since_start (uint (boot_time c pool_state * ONE_SEC)) st1) st1) (\<lambda>(signaled, st2).
                 if signaled then start_loop c pool_state excluded st2
                 else Some (start_timeout c pool_init excluded snap st2))))"

definition test_Start_Criteria :: "ha_config \<Rightarrow> sm_st \<Rightarrow> (mtc_status \<times> sm_st) option" where
  "test_Start_Criteria c st =
     (let pool_state = get_pool_state (st_d st); excluded = get_excluded_flag (my_index c) (st_d st)
      in if pool_state = SF_STATE_INIT \<or> pool_state = SF_STATE_ACTIVE
         then start_loop c pool_state excluded st
         else Some (if pool_state = SF_STATE_NONE then MTC_ERROR_SM_NOSTATEFILE
                    else MTC_ERROR_SM_INVALID_POOL_STATE, st))"

section \<open>Joining\<close>

definition join_acked :: "ha_config \<Rightarrow> daemon \<Rightarrow> bool" where
  "join_acked c d \<longleftrightarrow> all_hosts (num_host c) (\<lambda>i.
     \<not> (i \<noteq> my_index c \<and> hm_ison (sm_current_liveset (d_sm d)) i
        \<and> \<not> hm_ison (raw_proposed_liveset (hb_raw (d_hb d) i)) (my_index c)))"

definition join_finish :: "ha_config \<Rightarrow> bool \<Rightarrow> daemon \<Rightarrow> daemon" where
  "join_finish c joined d =
     (let d1 = upd_hb (\<lambda>h. h\<lparr>hb_join := False\<rparr>) d;
          d2 = (if joined
                then upd_smv (\<lambda>v. v\<lparr>smv_SR2 := sm_SR2 (d_sm d1)\<rparr>)
                       (upd_sm (\<lambda>s. s\<lparr>sm_current_liveset := hm_set (sm_current_liveset s) (my_index c)\<rparr>) d1)
                else upd_sm (\<lambda>s. s\<lparr>sm_proposed_liveset := hm_reset (sm_proposed_liveset s) (my_index c)\<rparr>) d1)
      in unlock_sm True (unlock_hb True d2))"

definition sm_join :: "ha_config \<Rightarrow> sm_st \<Rightarrow> (mtc_status \<times> sm_st) option" where
  "sm_join c st =
     (if \<not> hb_join (d_hb (st_d st)) then Some (MTC_SUCCESS, st)
      else
       let st1 = st_upd (with_sm True (\<lambda>s. s\<lparr>sm_proposed_liveset := hm_set (sm_proposed_liveset s) (my_index c)\<rparr>)) st;
           st2 = st_upd (hb_send_hb_now c True (\<lambda>_. st_now st1) HB_ACCELERATION_COUNT_JOIN) st1;
           start = st_now st2
       in Option.bind (sm_poll (poll_test (join_acked c)) True True False
              (\<lambda>s. time_left (uint (cfg_Tboot c * ONE_SEC)) start (st_now s)) st2) (\<lambda>(r, st3).
            Some (if r \<noteq> None then MTC_SUCCESS else MTC_ERROR_SM_JOIN_FAILED,
                  st_upd (join_finish c (r \<noteq> None)) st3)))"

section \<open>The thread\<close>

text \<open>From the first step to the online state: the status of the abort, or \<open>MTC_SUCCESS\<close>.\<close>

definition sm_clear_excluded :: "ha_config \<Rightarrow> daemon \<Rightarrow> daemon" where
  "sm_clear_excluded c d =
     (if get_excluded_flag (my_index c) d then sf_set_excluded c True False d else d)"

definition sm_go_online :: "ha_config \<Rightarrow> sm_st \<Rightarrow> sm_st" where
  "sm_go_online c st =
     st_upd (\<lambda>d. set_sm_phase SM_PHASE_STARTED (arm_fencing (start_xapi_monitor (clear_statefile_starting
       (hb_send_hb_now c True (\<lambda>_. st_now st) HB_ACCELERATION_COUNT_JOIN d))))) st"

definition sm_abort_st :: "mtc_status \<Rightarrow> sm_st \<Rightarrow> mtc_status \<times> sm_st" where
  "sm_abort_st status st = (status, st_upd (sm_abort True status) st)"

definition sm_startup :: "ha_config \<Rightarrow> sm_st \<Rightarrow> (mtc_status \<times> sm_st) option" where
  "sm_startup c st0 =
     do {
       let st = st_upd (\<lambda>d. start_heartbeat (start_statefile (snd (commit_weight d)))) st0;
       let st = st_upd (upd_smv (\<lambda>v. v\<lparr>smv_start_time := st_now st\<rparr>)) st;
       st1 \<leftarrow> wait_all_hosts_up_on_heartbeat c (ms_of (cfg_T1 c)) st;
       st2 \<leftarrow> wait_all_hosts_up_on_statefile c (ms_of (cfg_T2 c)) st1;
       (status, st3) \<leftarrow> wait_all_hosts_recognize_I_was_down c st2;
       if status \<noteq> MTC_SUCCESS then Some (sm_abort_st status st3)
       else do {
         (status, st4) \<leftarrow> test_Start_Criteria c (st_upd set_heartbeat_join st3);
         if status \<noteq> MTC_SUCCESS then Some (sm_abort_st status st4)
         else do {
           (status, st5) \<leftarrow> sm_join c (st_upd (sm_clear_excluded c) st4);
           if status \<noteq> MTC_SUCCESS then Some (sm_abort_st status st5)
           else Some (MTC_SUCCESS, sm_go_online c st5)
         }
       }
     }"

text \<open>\<open>wait_fh_event\<close> while the other threads run; then rounds until termination is requested.\<close>

fun sm_wait_fh :: "sm_env \<Rightarrow> clock \<Rightarrow> daemon \<Rightarrow> (bool \<times> sm_st) option" where
  "sm_wait_fh [] now d = map_option (\<lambda>(b, d1). (b, ([], now, d1))) (wait_fh_event d)"
| "sm_wait_fh ((t, e) # es) now d =
     (case wait_fh_event d of
        Some (b, d1) \<Rightarrow> Some (b, ((t, e) # es, now, d1))
      | None \<Rightarrow> sm_wait_fh es t (e d))"

partial_function (option) sm_steady :: "ha_config \<Rightarrow> sm_st \<Rightarrow> sm_st option" where
  "sm_steady c st =
     (if smv_terminate (d_smv (st_d st)) then Some st
      else Option.bind (sm_wait_fh (st_env st) (st_now st) (st_d st)) (\<lambda>(b, st1).
             Option.bind (if b then fault_handler c st1 else Some st1) (\<lambda>st2.
               if d_fenced (st_d st2) \<noteq> None then Some st2 else sm_steady c st2)))"

definition sm_thread :: "ha_config \<Rightarrow> sm_st \<Rightarrow> (mtc_status \<times> sm_st) option" where
  "sm_thread c st = Option.bind (sm_startup c st) (\<lambda>(status, st1).
     if status = MTC_SUCCESS then map_option (Pair MTC_SUCCESS) (sm_steady c st1) else Some (status, st1))"

end
