(* ===== verification/FaultSteps.thy ===== *)
theory FaultSteps
  imports SmStart HeartbeatProps
begin

text \<open>
  What the state-manager thread does while it handles a fault, as steps of one host: the
  look of a rendezvous, the change to the next phase, the survival rule and the self-fence
  (in phase \<open>FH3\<close> only), the cut of the live set (in phase \<open>FH4\<close> only), and the work in
  between, which touches none of these. Every run of \<open>fault_handler\<close> consists of such
  steps and of what the other threads do meanwhile, and it goes once round the ring of
  phases.
\<close>

section \<open>The ring of phases\<close>

definition fh_ring :: "sm_phase list" where
  "fh_ring = [SM_PHASE_STARTED, SM_PHASE_FHREADY, SM_PHASE_FH1, SM_PHASE_FH1DONE, SM_PHASE_FH2,
     SM_PHASE_FH2DONE, SM_PHASE_FH3, SM_PHASE_FH3DONE, SM_PHASE_FH4, SM_PHASE_FH4DONE]"

definition ring_phase :: "nat \<Rightarrow> sm_phase" where
  "ring_phase k = fh_ring ! (k mod 10)"

lemma fh_ring_distinct: "distinct fh_ring" and fh_ring_length: "length fh_ring = 10"
  by (simp_all add: fh_ring_def)

lemma ring_phase_eq_iff: "ring_phase a = ring_phase b \<longleftrightarrow> a mod 10 = b mod 10"
  unfolding ring_phase_def by (rule nth_eq_iff_index_eq[OF fh_ring_distinct]) (simp_all add: fh_ring_length)

lemma ring_phase_started: "ring_phase k = SM_PHASE_STARTED \<longleftrightarrow> k mod 10 = 0"
  using ring_phase_eq_iff[of k 0] by (simp add: ring_phase_def fh_ring_def)

lemma ring_phase_round:
  assumes "ring_phase k = SM_PHASE_STARTED"
  shows "ring_phase (k + 1) = SM_PHASE_FHREADY" "ring_phase (k + 2) = SM_PHASE_FH1"
    "ring_phase (k + 3) = SM_PHASE_FH1DONE" "ring_phase (k + 4) = SM_PHASE_FH2"
    "ring_phase (k + 5) = SM_PHASE_FH2DONE" "ring_phase (k + 6) = SM_PHASE_FH3"
    "ring_phase (k + 7) = SM_PHASE_FH3DONE" "ring_phase (k + 8) = SM_PHASE_FH4"
    "ring_phase (k + 9) = SM_PHASE_FH4DONE" "ring_phase (k + 10) = SM_PHASE_STARTED"
    "ring_phase (k + 11) = SM_PHASE_FHREADY"
proof -
  have "ring_phase (k + i) = ring_phase i" for i
    using assms by (simp add: ring_phase_eq_iff ring_phase_started mod_add_left_eq[symmetric, of k])
  note r = this
  show "ring_phase (k + 1) = SM_PHASE_FHREADY" "ring_phase (k + 2) = SM_PHASE_FH1"
    "ring_phase (k + 3) = SM_PHASE_FH1DONE" "ring_phase (k + 4) = SM_PHASE_FH2"
    "ring_phase (k + 5) = SM_PHASE_FH2DONE" "ring_phase (k + 6) = SM_PHASE_FH3"
    "ring_phase (k + 7) = SM_PHASE_FH3DONE" "ring_phase (k + 8) = SM_PHASE_FH4"
    "ring_phase (k + 9) = SM_PHASE_FH4DONE" "ring_phase (k + 10) = SM_PHASE_STARTED"
    "ring_phase (k + 11) = SM_PHASE_FHREADY"
    unfolding r by (simp_all add: ring_phase_def fh_ring_def)
qed

section \<open>The steps of the thread\<close>

text \<open>
  Work that leaves the phase, what the host knows of the phases of the others, its live sets
  and its fate alone.
\<close>

definition fh_keeps :: "ha_config \<Rightarrow> daemon \<Rightarrow> daemon \<Rightarrow> bool" where
  "fh_keeps c d d' \<longleftrightarrow> sm_phase_of (d_sm d') = sm_phase_of (d_sm d)
     \<and> (\<forall>j. j \<noteq> my_index c \<longrightarrow> hb_sm_phase (d_hb d') j = hb_sm_phase (d_hb d) j)
     \<and> sm_current_liveset (d_sm d') = sm_current_liveset (d_sm d)
     \<and> sm_proposed_liveset (d_sm d') = sm_proposed_liveset (d_sm d)
     \<and> d_fenced d' = d_fenced d"

text \<open>
  The state of a host: the phases it has gone through, counted along the ring; whether the
  rendezvous of the current one is met; and the daemon.
\<close>

type_synonym fh_pos = "nat \<times> bool \<times> daemon"

inductive fh_act :: "ha_config \<Rightarrow> fh_pos \<Rightarrow> fh_pos \<Rightarrow> bool" for c where
  look: "rendezvous_met c (ring_phase k) (ring_phase (Suc k)) True sf d \<Longrightarrow> fh_act c (k, m, d) (k, True, d)"
| advance: "fh_act c (k, True, d) (Suc k, False, set_sm_phase (ring_phase (Suc k)) d)"
| decide: "ring_phase k = SM_PHASE_FH3 \<Longrightarrow> fh_act c (k, m, d) (k, m, snd (test_Survival_Rule c d))"
| fence: "ring_phase k = SM_PHASE_FH3 \<Longrightarrow> fh_act c (k, m, d) (k, m, self_fence MTC_ERROR_SM_SURVIVALRULE_FAILED d)"
| cut: "ring_phase k = SM_PHASE_FH4 \<Longrightarrow> fh_act c (k, m, d) (k, m, fh_shrink_liveset d)"
| work: "fh_keeps c d d' \<Longrightarrow> fh_act c (k, m, d) (k, m, d')"

text \<open>The thread runs while the other threads do the events \<open>E\<close>.\<close>

inductive fh_run :: "ha_config \<Rightarrow> (daemon \<Rightarrow> daemon) set \<Rightarrow> fh_pos \<Rightarrow> fh_pos \<Rightarrow> bool" for c E where
  act: "fh_act c x y \<Longrightarrow> fh_run c E x y"
| event: "e \<in> E \<Longrightarrow> fh_run c E (k, m, d) (k, m, e d)"

text \<open>A computation of the thread that goes from one position to another by such steps.\<close>

definition fh_goes :: "ha_config \<Rightarrow> (daemon \<Rightarrow> daemon) set \<Rightarrow> nat \<times> bool \<Rightarrow> sm_st \<Rightarrow> nat \<times> bool \<Rightarrow> sm_st \<Rightarrow> bool" where
  "fh_goes c E = (\<lambda>(k, m) st (k', m') st'. snd ` set (st_env st) \<subseteq> E \<longrightarrow>
     snd ` set (st_env st') \<subseteq> E \<and> (fh_run c E)\<^sup>*\<^sup>* (k, m, st_d st) (k', m', st_d st'))"

named_theorems goes

lemma goes_refl [goes]: "fh_goes c E p st p st"
  by (auto simp: fh_goes_def split: prod.splits)

lemma goes_trans: "fh_goes c E p st q st1 \<Longrightarrow> fh_goes c E q st1 r st2 \<Longrightarrow> fh_goes c E p st r st2"
  by (auto simp: fh_goes_def split: prod.splits)

lemma goes_step:
  "fh_act c (k, m, st_d st) (k', m', f (st_d st)) \<Longrightarrow> fh_goes c E (k, m) st (k', m') (st_upd f st)"
  by (auto simp: fh_goes_def intro: fh_run.act)

lemma goes_work: "fh_keeps c (st_d st) (f (st_d st)) \<Longrightarrow> fh_goes c E p st p (st_upd f st)"
  by (cases p) (simp add: goes_step fh_act.work)

lemma goes_look:
  "rendezvous_met c (ring_phase k) (ring_phase (Suc k)) True sf (st_d st) \<Longrightarrow> fh_goes c E (k, m) st (k, True) st"
  by (auto simp: fh_goes_def intro: fh_run.act fh_act.look)

lemma goes_event: "fh_goes c E p ((t, e) # es, now, d) p (es, t, e d)"
  by (auto simp: fh_goes_def intro: fh_run.event split: prod.splits)

lemma goes_const: "fh_goes c E p st p (st_upd f st) \<Longrightarrow> fh_goes c E p st p (st_upd (\<lambda>_. f (st_d st)) st)"
  by (cases st) simp

section \<open>Work\<close>

lemma keeps_refl [simp]: "fh_keeps c d d"
  by (simp add: fh_keeps_def)

lemma keeps_trans: "fh_keeps c a b \<Longrightarrow> fh_keeps c b d \<Longrightarrow> fh_keeps c a d"
  by (simp add: fh_keeps_def)

lemma keeps_smv [simp]: "fh_keeps c d (upd_smv f d)" "fh_keeps c d (d\<lparr>d_smv := v\<rparr>)"
  by (simp_all add: fh_keeps_def)

lemma keeps_fist: "d_fist_on nm d = (b, d') \<Longrightarrow> fh_keeps c d d'"
  by (auto simp: d_fist_on_def fh_keeps_def split: prod.splits)

lemma check_fist_fenced: "hb_check_fist c nm d = (b, l, d') \<Longrightarrow> d_fenced d' = d_fenced d"
proof -
  have "d_fist_on nm d = (b, d') \<Longrightarrow> d_fenced d' = d_fenced d" for nm d b d'
    by (auto simp: d_fist_on_def split: prod.splits)
  then show "hb_check_fist c nm d = (b, l, d') \<Longrightarrow> d_fenced d' = d_fenced d"
    by (auto simp: hb_check_fist_def split: prod.splits bool.splits)
qed

lemma send_hb_fenced: "d_fenced (send_hb c b now d) = d_fenced d"
proof -
  have loop: "d_fenced (for_hosts n (\<lambda>i s. if i \<noteq> me then s\<lparr>d_sent := d_sent s @ [(i, pkt)]\<rparr> else s) e) = d_fenced e"
    for n me pkt e
    by (rule for_hosts_frame) simp
  define e where "e = with_hb b (\<lambda>h. h\<lparr>hb_sm_phase := (hb_sm_phase h)(my_index c := sm_phase_of (d_sm d))\<rparr>)
      (upd_hbv (\<lambda>v. v\<lparr>hbv_sequence := (hbv_sequence v)(my_index c := hbv_sequence (d_hbv d) (my_index c) + 1)\<rparr>) d)"
  have e: "d_fenced e = d_fenced d" by (simp add: with_hb_def e_def)
  obtain iso dl d3 where f: "hb_check_fist c ''hb.isolate'' e = (iso, dl, d3)" by (metis prod_cases3)
  obtain ls d4 where g: "d_fist_on ''hb.send.lostpacket'' d3 = (ls, d4)" by fastforce
  then have "d_fenced d4 = d_fenced d3" using keeps_fist[OF g, of c] by (simp add: fh_keeps_def)
  then show ?thesis
    using e f g check_fist_fenced[OF f]
    by (cases "hb_enable_send (d_hb d)"; cases iso) (simp_all add: send_hb_def Let_def loop e_def)
qed

lemma keeps_send_hb: "fh_keeps c d (send_hb c b now d)"
  by (simp add: fh_keeps_def send_hb_phase send_hb_fenced)

lemma keeps_send_hb_now: "fh_keeps c d (hb_send_hb_now c b now n d)"
proof -
  have "fh_keeps c e (hb_send_more c b now m e)" for m e
    by (induction m) (auto intro: keeps_trans keeps_send_hb)
  then show ?thesis unfolding hb_send_hb_now_def using keeps_send_hb keeps_trans by blast
qed

lemma keeps_accelerate:
  "fh_keeps c d (hb_SF_accelerate_req c b now d)" "fh_keeps c d (hb_SF_cancel_accelerate c b now d)"
proof -
  have "fh_keeps c d (with_hb b (\<lambda>h. h\<lparr>hb_SF_accelerate := True\<rparr>) (sf_accelerate d))"
    "fh_keeps c d (with_hb b (\<lambda>h. h\<lparr>hb_SF_accelerate := False\<rparr>) (sf_cancel_acceleration c d))"
    by (simp_all add: fh_keeps_def with_hb_def sf_accelerate_def sf_cancel_acceleration_def)
  then show "fh_keeps c d (hb_SF_accelerate_req c b now d)" "fh_keeps c d (hb_SF_cancel_accelerate c b now d)"
    unfolding hb_SF_accelerate_req_def hb_SF_cancel_accelerate_def
    using keeps_send_hb_now keeps_trans by blast+
qed

lemma keeps_small:
  "fh_keeps c d (snd (commit_weight d))" "fh_keeps c d (fence_request d)"
  "sm_phase_of (d_sm d) = ph \<Longrightarrow> fh_keeps c d (set_sm_phase ph d)"
  by (simp_all add: fh_keeps_def commit_weight_def fence_request_def with_sm_def with_hb_def set_sm_phase_def)

lemma keeps_consistent_look: "consistent_look c d = (ok, hb, sf, d') \<Longrightarrow> fh_keeps c d d'"
proof -
  have loop: "hb_sm_phase (fst (snd (for_hosts n (consistent_host c live my_hb my_sf) s))) = hb_sm_phase (fst (snd s))"
    for n live my_hb my_sf s
    by (rule for_hosts_frame) (auto simp: consistent_host_def mask_peer_rows_def split: prod.splits)
  have phases: "hb_sm_phase h = hb_sm_phase phb"
    if "for_hosts n (consistent_host c live my_hb my_sf) (True, phb, psf) = (ok, h, f)" for n live my_hb my_sf phb psf ok h f
    using loop[of n live my_hb my_sf "(True, phb, psf)"] that by simp
  show "consistent_look c d = (ok, hb, sf, d') \<Longrightarrow> fh_keeps c d d'"
    by (auto simp: consistent_look_def Let_def fh_keeps_def split: prod.splits dest!: phases)
qed

section \<open>Waiting\<close>

lemma check_sigs_keeps: "check_sigs s h f d = (b, d') \<Longrightarrow> fh_keeps c d d'"
  by (auto simp: check_sigs_def Let_def)

lemma goes_wait_loop:
  "sm_wait_loop s h f timeout start es now d = Some (r, st') \<Longrightarrow> fh_goes c E p (es, now, d) p st'"
proof (induction s h f timeout start es now d arbitrary: st' rule: sm_wait_loop.induct)
  case (1 s h f timeout start now d)
  then show ?case
    using goes_work[of c "([], now, d)" "\<lambda>d. snd (check_sigs s h f d)" E p] check_sigs_keeps[of s h f d _ _ c]
    by (auto split: prod.splits bool.splits if_splits)
next
  case (2 s h f timeout start t e es now d)
  obtain b d1 where k: "check_sigs s h f d = (b, d1)" by fastforce
  have w: "fh_goes c E p ((t, e) # es, now, d) p ((t, e) # es, now, d1)"
    using goes_work[of c "((t, e) # es, now, d)" "\<lambda>_. d1" E p] check_sigs_keeps[OF k] by simp
  show ?case
  proof (cases "b \<or> \<not> (timeout < 0 \<or> now - start < timeout)")
    case True
    then show ?thesis using 2(2) k w by (auto split: bool.splits)
  next
    case False
    then have "fh_goes c E p (es, t, e d1) p st'"
      using 2 k by (cases st') (auto split: bool.splits)
    then show ?thesis by (rule goes_trans[OF goes_trans[OF w goes_event]])
  qed
qed

lemma goes_wait:
  "sm_wait_signals_sm_hb_sf s h f timeout st = Some (r, st') \<Longrightarrow> fh_goes c E p st p st'"
  by (cases st) (auto simp: sm_wait_signals_sm_hb_sf_def goes_refl goes_wait_loop split: if_splits)

lemma goes_sleep: "mssleep ms st = Some st' \<Longrightarrow> fh_goes c E p st p st'"
proof -
  have "sm_sleep_until wake es now d = Some st' \<Longrightarrow> fh_goes c E p (es, now, d) p st'" for wake es now d
    by (induction wake es now d arbitrary: st' rule: sm_sleep_until.induct)
       (auto simp: goes_refl split: if_splits intro: goes_trans[OF goes_event])
  then show "mssleep ms st = Some st' \<Longrightarrow> fh_goes c E p st p st'"
    by (cases st) (simp add: mssleep_def)
qed

lemma goes_wait_fh:
  assumes "sm_wait_fh es now d = Some (b, st')" and "ring_phase k = SM_PHASE_STARTED"
  shows "fh_goes c E (k, True) (es, now, d) (k + 1, False) st' \<and> sm_phase_of (d_sm (st_d st')) = SM_PHASE_FHREADY"
proof -
  have fh: "fh_goes c E (k, True) (es, now, d) (k + 1, False) (es, now, d1) \<and> sm_phase_of (d_sm d1) = SM_PHASE_FHREADY"
    if "wait_fh_event d = Some (b, d1)" for es now d d1 b
  proof -
    let ?v = "\<lambda>v. v\<lparr>smv_need_fh := False, smv_phase := SM_PHASE_FHREADY\<rparr>"
    have "d1 = set_sm_phase SM_PHASE_FHREADY (upd_smv ?v d)"
      using that by (simp add: wait_fh_event_def Let_def split: if_splits)
    moreover have "fh_goes c E (k, True) (es, now, d) (k, True) (es, now, upd_smv ?v d)"
      using goes_work[of c "(es, now, d)" "upd_smv ?v"] by simp
    moreover have "fh_goes c E (k, True) (es, now, upd_smv ?v d) (k + 1, False) (es, now, set_sm_phase SM_PHASE_FHREADY (upd_smv ?v d))"
      using goes_step[where f = "set_sm_phase SM_PHASE_FHREADY" and st = "(es, now, upd_smv ?v d)" and k = k and c = c]
        fh_act.advance[of c k "upd_smv ?v d"] ring_phase_round(1)[OF assms(2)] by simp
    ultimately show ?thesis by (auto simp: set_sm_phase_def intro: goes_trans)
  qed
  show ?thesis
    using assms(1)
  proof (induction es now d rule: sm_wait_fh.induct)
    case (1 now d)
    then show ?case using fh by auto
  next
    case (2 t e es now d)
    then show ?case using fh by (auto split: option.splits prod.splits intro: goes_trans[OF goes_event])
  qed
qed

section \<open>A rendezvous\<close>

lemma goes_rendezvous_loop:
  assumes "rendezvous_loop c (ring_phase k) (ring_phase (Suc k)) True sf st = Some st'"
  shows "fh_goes c E (k, m) st (k, True) st'"
proof -
  have "p1 = ring_phase k \<longrightarrow> p2 = ring_phase (Suc k) \<longrightarrow> on_hb \<longrightarrow> fh_goes c E (k, m) st (k, True) st'"
    if "rendezvous_loop c p1 p2 on_hb sf st = Some st'" for c p1 p2 on_hb sf st st'
    using that
  proof (rule rendezvous_loop.raw_induct[rotated])
    fix loop :: "ha_config \<Rightarrow> sm_phase \<Rightarrow> sm_phase \<Rightarrow> bool \<Rightarrow> bool \<Rightarrow> sm_st \<Rightarrow> sm_st option"
    fix c p1 p2 on_hb sf st st'
    assume IH: "\<And>c p1 p2 on_hb sf st st'. loop c p1 p2 on_hb sf st = Some st' \<Longrightarrow>
        p1 = ring_phase k \<longrightarrow> p2 = ring_phase (Suc k) \<longrightarrow> on_hb \<longrightarrow> fh_goes c E (k, m) st (k, True) st'"
      and step: "(let met = rendezvous_met c p1 p2 on_hb sf (st_d st)
        in Option.bind (sm_wait_signals_sm_hb_sf True True True (- 1) st) (\<lambda>(_, st1).
             if met then Some st1 else loop c p1 p2 on_hb sf st1)) = Some st'"
    show "p1 = ring_phase k \<longrightarrow> p2 = ring_phase (Suc k) \<longrightarrow> on_hb \<longrightarrow> fh_goes c E (k, m) st (k, True) st'"
    proof (intro impI)
      assume p: "p1 = ring_phase k" "p2 = ring_phase (Suc k)" "on_hb"
      obtain b st1 where w: "sm_wait_signals_sm_hb_sf True True True (- 1) st = Some (b, st1)"
        and rest: "(if rendezvous_met c p1 p2 on_hb sf (st_d st) then Some st1 else loop c p1 p2 on_hb sf st1) = Some st'"
        using step by (auto simp: Let_def bind_eq_Some_conv)
      show "fh_goes c E (k, m) st (k, True) st'"
      proof (cases "rendezvous_met c p1 p2 on_hb sf (st_d st)")
        case True
        then have "fh_goes c E (k, m) st (k, True) st" using p by (auto intro: goes_look)
        with goes_wait[OF w] True rest show ?thesis by (auto intro: goes_trans)
      next
        case False
        then show ?thesis using goes_trans[OF goes_wait[OF w]] IH[of c p1 p2 on_hb sf st1 st'] p rest by auto
      qed
    qed
  qed
  from this[OF assms] show ?thesis by simp
qed

lemma goes_rendezvous_wait:
  assumes "rendezvous_wait c (ring_phase k) (ring_phase (Suc k)) True sf st = Some st'"
  shows "fh_goes c E (k, m) st (k, True) st'"
proof -
  let ?st1 = "st_upd (hb_send_hb_now c True (\<lambda>_. st_now st) HB_ACCELERATION_COUNT_RENDEZVOUS) st"
  let ?st2 = "if sf then st_upd (hb_SF_accelerate_req c True (\<lambda>_. st_now st)) ?st1 else ?st1"
  obtain st3 where loop: "rendezvous_loop c (ring_phase k) (ring_phase (Suc k)) True sf ?st2 = Some st3"
    and st': "st' = (if sf then st_upd (hb_SF_cancel_accelerate c True (\<lambda>_. st_now st3)) st3 else st3)"
    using assms by (auto simp: rendezvous_wait_def Let_def bind_eq_Some_conv)
  have "fh_goes c E (k, m) st (k, m) ?st1" by (rule goes_work) (rule keeps_send_hb_now)
  moreover have "fh_goes c E (k, m) ?st1 (k, m) ?st2" by (auto intro: goes_work keeps_accelerate goes_refl)
  moreover have "fh_goes c E (k, True) st3 (k, True) st'" unfolding st' by (auto intro: goes_work keeps_accelerate goes_refl)
  ultimately show ?thesis using goes_rendezvous_loop[OF loop] by (blast intro: goes_trans)
qed

lemma goes_advance:
  "ring_phase (Suc k) = ph \<Longrightarrow> fh_goes c E (k, True) st (Suc k, False) (st_upd (set_sm_phase ph) st)"
  by (rule goes_step) (auto intro: fh_act.advance)

text \<open>
  A rendezvous takes the host from a phase whose rendezvous is met (or from its own first
  phase) two phases on; its two waits compare with the phases that come next on the ring.
\<close>

lemma goes_rendezvous:
  assumes "rendezvous c (ring_phase (k + 1)) (ring_phase (k + 2)) (ring_phase (k + 3)) True sf st = Some st'"
    and "p = (k, True) \<or> p = (k + 1, m) \<and> sm_phase_of (d_sm (st_d st)) = ring_phase (k + 1)"
  shows "fh_goes c E p st (k + 2, True) st'"
proof -
  obtain st1 where w1: "rendezvous_wait c (ring_phase (k + 1)) (ring_phase (Suc (k + 1))) True sf
        (st_upd (set_sm_phase (ring_phase (k + 1))) st) = Some st1"
    and w2: "rendezvous_wait c (ring_phase (k + 2)) (ring_phase (Suc (k + 2))) True sf
        (st_upd (set_sm_phase (ring_phase (k + 2))) st1) = Some st'"
    using assms(1) by (auto simp: rendezvous_def bind_eq_Some_conv eval_nat_numeral)
  have "\<exists>m. fh_goes c E p st (k + 1, m) (st_upd (set_sm_phase (ring_phase (k + 1))) st)"
    using assms(2) goes_advance[of k "ring_phase (k + 1)" c E st]
    by (auto intro: goes_work keeps_small)
  moreover have "fh_goes c E (k + 1, True) st1 (k + 2, False) (st_upd (set_sm_phase (ring_phase (k + 2))) st1)"
    using goes_advance[of "k + 1" "ring_phase (k + 2)" c E st1] by simp
  ultimately show ?thesis
    using goes_rendezvous_wait[OF w1] goes_rendezvous_wait[OF w2] by (blast intro: goes_trans)
qed

lemma goes_next_rendezvous:
  assumes "rendezvous c p1 p2 p3 True sf st = Some st'"
    and "ring_phase a1 = p1" "ring_phase a2 = p2" "ring_phase a3 = p3" and "a1 = Suc k" "a2 = Suc a1" "a3 = Suc a2"
  shows "fh_goes c E (k, True) st (a2, True) st'"
  using goes_rendezvous[of c k sf st st' "(k, True)" False E] assms by (auto simp: eval_nat_numeral)

section \<open>The waits of the phases\<close>

lemma goes_stable:
  assumes "wait_until_HBSF_state_stable c st = Some st'"
  shows "fh_goes c E p st p st'"
proof -
  have "fh_goes c E p st p st'" if "stable_loop c' start st = Some st'" for c' start st st'
    using that
  proof (rule stable_loop.raw_induct[rotated])
    fix loop :: "ha_config \<Rightarrow> clock \<Rightarrow> sm_st \<Rightarrow> sm_st option"
    fix c' start st st'
    assume IH: "\<And>c' start st st'. loop c' start st = Some st' \<Longrightarrow> fh_goes c E p st p st'"
      and step: "(if state_stable c' start (st_now st) (st_d st) then Some st
        else Option.bind (sm_wait_signals_sm_hb_sf False True True (- 1) st) (\<lambda>(_, st1). loop c' start st1)) = Some st'"
    show "fh_goes c E p st p st'"
    proof (cases "state_stable c' start (st_now st) (st_d st)")
      case True
      then show ?thesis using step by (simp add: goes_refl)
    next
      case False
      then obtain b st1 where w: "sm_wait_signals_sm_hb_sf False True True (- 1) st = Some (b, st1)"
        and rest: "loop c' start st1 = Some st'"
        using step by (auto simp: bind_eq_Some_conv)
      show ?thesis by (rule goes_trans[OF goes_wait[OF w] IH[OF rest]])
    qed
  qed
  then show ?thesis using assms by (simp add: wait_until_HBSF_state_stable_def)
qed

lemma goes_consistent_loop:
  assumes "consistent_loop c timeout start st = Some res"
  shows "fh_goes c E p st p (snd (snd (snd res)))"
proof -
  have "c' = c \<longrightarrow> fh_goes c E p st p (snd (snd (snd res)))"
    if "consistent_loop c' timeout start st = Some res" for c' timeout start st res
    using that
  proof (rule consistent_loop.raw_induct[rotated])
    fix loop :: "ha_config \<Rightarrow> clock \<Rightarrow> clock \<Rightarrow> sm_st \<Rightarrow> (bool \<times> hostmap \<times> hostmap \<times> sm_st) option"
    fix c' timeout start st and res :: "bool \<times> hostmap \<times> hostmap \<times> sm_st"
    assume IH: "\<And>c' timeout start st res. loop c' timeout start st = Some res \<Longrightarrow>
        c' = c \<longrightarrow> fh_goes c E p st p (snd (snd (snd res)))"
      and step: "(case consistent_look c' (st_d st) of (ok, my_hb, my_sf, d1) \<Rightarrow>
        let st1 = st_upd (\<lambda>_. d1) st
        in if ok then Some (True, my_hb, my_sf, st1)
           else if st_now st1 - start \<ge> timeout then Some (False, my_hb, my_sf, st1)
           else Option.bind (mssleep 100 st1) (\<lambda>st2.
                Option.bind (sm_wait_signals_sm_hb_sf True True True (- 1) st2) (\<lambda>(_, st3).
                  loop c' timeout start st3))) = Some res"
    show "c' = c \<longrightarrow> fh_goes c E p st p (snd (snd (snd res)))"
    proof
      assume c': "c' = c"
      obtain ok my_hb my_sf d1 where look: "consistent_look c (st_d st) = (ok, my_hb, my_sf, d1)"
        by (metis prod_cases4)
      have w: "fh_goes c E p st p (st_upd (\<lambda>_. d1) st)"
        by (rule goes_work) (rule keeps_consistent_look[OF look])
      show "fh_goes c E p st p (snd (snd (snd res)))"
      proof (cases "ok \<or> st_now st - start \<ge> timeout")
        case True
        then show ?thesis using step look w c' by (auto simp: Let_def split: if_splits)
      next
        case False
        then obtain st2 b st3 where s: "mssleep 100 (st_upd (\<lambda>_. d1) st) = Some st2"
          and wt: "sm_wait_signals_sm_hb_sf True True True (- 1) st2 = Some (b, st3)"
          and rest: "loop c' timeout start st3 = Some res"
          using step look c' by (auto simp: Let_def bind_eq_Some_conv)
        show ?thesis using goes_trans[OF w goes_trans[OF goes_sleep[OF s] goes_trans[OF goes_wait[OF wt]]]] IH[OF rest] c' by simp
      qed
    qed
  qed
  from this[OF assms] show ?thesis by simp
qed

lemma goes_consistent:
  assumes "wait_until_all_hosts_have_consistent_view c timeout st = Some (ok, st')"
  shows "ok \<and> fh_goes c E p st p st'"
proof -
  let ?snap = "\<lambda>h f. upd_smv (\<lambda>v. v\<lparr>smv_stable_hb := h, smv_stable_sf := f\<rparr>)"
  obtain x where x: "consistent_loop c timeout (st_now st) st = Some x"
    using assms by (cases "consistent_loop c timeout (st_now st) st")
      (simp_all add: wait_until_all_hosts_have_consistent_view_def)
  obtain b my_hb my_sf st1 where x': "x = (b, my_hb, my_sf, st1)" by (metis prod_cases4)
  define hf where "hf = (let d = st_d st1; hf = (d_hb d, d_sf d)
      in if b then Some hf else merge_views c (sm_current_liveset (d_sm d)) my_hb my_sf hf)"
  have "Option.bind hf (\<lambda>(h, f). Some (True, st_upd (?snap h f) st1)) = Some (ok, st')"
    using assms x x' by (simp add: wait_until_all_hosts_have_consistent_view_def Let_def hf_def)
  then obtain h f where st': "ok" "st' = st_upd (?snap h f) st1"
    by (cases hf) (auto split: prod.splits)
  have "fh_goes c E p st1 p st'" unfolding st'(2) by (rule goes_work) simp
  then show ?thesis using goes_consistent_loop[OF x, of E p] st'(1) x' by (auto intro: goes_trans)
qed

section \<open>The handler\<close>

lemma goes_fist:
  assumes "fh_fist c st = Some st'" and k: "ring_phase k = SM_PHASE_FH3"
  shows "fh_goes c E (k, m) st (k, m) st'"
proof -
  obtain fence d1 where f: "d_fist_on ''sm.fence_in_FH3'' (st_d st) = (fence, d1)" by fastforce
  let ?d2 = "if fence then self_fence MTC_ERROR_SM_SURVIVALRULE_FAILED d1 else d1"
  have "fh_goes c E (k, m) st (k, m) (st_upd (\<lambda>_. d1) st)"
    by (rule goes_work) (rule keeps_fist[OF f])
  moreover have "fh_goes c E (k, m) (st_upd (\<lambda>_. d1) st) (k, m) (st_upd (\<lambda>_. ?d2) st)"
    using goes_step[of c k m "st_upd (\<lambda>_. d1) st" k m "\<lambda>_. ?d2"] fh_act.fence[OF k, of c m d1] fh_act.work[of c d1 d1 k m]
    by (cases st; cases fence) simp_all
  ultimately have fenced: "fh_goes c E (k, m) st (k, m) (st_upd (\<lambda>_. ?d2) st)" by (rule goes_trans)
  show ?thesis
  proof (cases "d_fenced ?d2 = None")
    case False
    then show ?thesis using assms(1) f fenced by (auto simp: fh_fist_def Let_def)
  next
    case True
    obtain slp d3 where g: "d_fist_on ''sm.sleep_in_FH3'' ?d2 = (slp, d3)" by fastforce
    have "fh_goes c E (k, m) (st_upd (\<lambda>_. ?d2) st) (k, m) (st_upd (\<lambda>_. d3) (st_upd (\<lambda>_. ?d2) st))"
      by (rule goes_work) (use keeps_fist[OF g] in simp)
    then have slept: "fh_goes c E (k, m) (st_upd (\<lambda>_. ?d2) st) (k, m) (st_upd (\<lambda>_. d3) st)"
      by (cases st) simp
    show ?thesis
      using assms(1) True goes_trans[OF fenced slept] unfolding fh_fist_def f Let_def prod.case g
      by (auto split: if_splits intro: goes_trans goes_sleep)
  qed
qed

lemma goes_phase3:
  assumes "fh_phase3 c st = Some st'" and k: "ring_phase k = SM_PHASE_FH3"
  shows "fh_goes c E (k, m) st (k, m) st'"
proof -
  obtain survive d1 where t: "test_Survival_Rule c (st_d st) = (survive, d1)" by fastforce
  let ?d2 = "if \<not> survive then self_fence MTC_ERROR_SM_SURVIVALRULE_FAILED d1 else d1"
  have "fh_goes c E (k, m) st (k, m) (st_upd (\<lambda>_. d1) st)"
    by (rule goes_step) (use fh_act.decide[OF k, of c m "st_d st"] t in simp)
  moreover have "fh_goes c E (k, m) (st_upd (\<lambda>_. d1) st) (k, m) (st_upd (\<lambda>_. ?d2) st)"
    using goes_step[of c k m "st_upd (\<lambda>_. d1) st" k m "\<lambda>_. ?d2"] fh_act.fence[OF k, of c m d1] fh_act.work[of c d1 d1 k m]
    by (cases st; cases survive) simp_all
  ultimately have "fh_goes c E (k, m) st (k, m) (st_upd (\<lambda>_. ?d2) st)" by (rule goes_trans)
  moreover have "unless_fenced (fh_fist c) (st_upd (\<lambda>_. ?d2) st) = Some st'"
    using assms(1) t by (simp add: fh_phase3_def)
  ultimately show ?thesis
    by (auto simp: unless_fenced_def split: if_splits intro: goes_trans goes_fist[OF _ k])
qed

lemma goes_phase4:
  assumes "fh_phase4 c p3_start st = Some st'" and k: "ring_phase k = SM_PHASE_FH4"
  shows "fh_goes c E (k, m) st (k, m) st'"
proof (cases "fh_degrading (st_d st)")
  case False
  then show ?thesis using assms(1) by (simp add: fh_phase4_def goes_refl)
next
  case True
  let ?st1 = "if smv_fencing (d_smv (st_d st)) = FENCING_ARMED then st_upd fence_request st else st"
  obtain ms st2 where s: "mssleep ms ?st1 = Some st2" and st': "st' = st_upd fh_shrink_liveset st2"
    using assms(1) True unfolding fh_phase4_def Let_def by (auto simp: bind_eq_Some_conv)
  have "fh_goes c E (k, m) st (k, m) ?st1" by (auto intro: goes_work keeps_small goes_refl)
  moreover have "fh_goes c E (k, m) st2 (k, m) st'" unfolding st' by (rule goes_step) (rule fh_act.cut[OF k])
  ultimately show ?thesis using goes_sleep[OF s] by (blast intro: goes_trans)
qed

text \<open>
  One round of the handler: it goes round the ring once, unless the host has fenced itself
  on the way.
\<close>

lemma fault_handler_goes:
  assumes run: "fault_handler c st = Some st'" and k: "ring_phase k = SM_PHASE_STARTED"
    and ready: "sm_phase_of (d_sm (st_d st)) = SM_PHASE_FHREADY"
  shows "\<exists>k' m'. fh_goes c E (k + 1, m) st (k', m') st' \<and> k' \<le> k + 10
    \<and> (d_fenced (st_d st') = None \<longrightarrow> k' = k + 10 \<and> m')"
proof -
  note ring = ring_phase_round[OF k]
  let ?st = "st_upd (upd_smv (\<lambda>v. v\<lparr>smv_join_block := True\<rparr>)) st"
  define tail8 where "tail8 p3_start st8 = do {
      st9 \<leftarrow> rendezvous c SM_PHASE_FH3DONE SM_PHASE_FH4 SM_PHASE_FH4DONE True False st8;
      st10 \<leftarrow> fh_phase4 c p3_start st9;
      st11 \<leftarrow> rendezvous c SM_PHASE_FH4DONE SM_PHASE_STARTED SM_PHASE_FHREADY True False st10;
      Some (st_upd (upd_smv (\<lambda>v. v\<lparr>smv_join_block := False\<rparr>)) st11) }" for p3_start st8
  define tail6 where "tail6 st6 = do {
      st7 \<leftarrow> rendezvous c SM_PHASE_FH2DONE SM_PHASE_FH3 SM_PHASE_FH3DONE True False st6;
      let p3_start = st_now st7;
      st8 \<leftarrow> fh_phase3 c st7;
      unless_fenced (tail8 p3_start) st8 }" for st6
  obtain st1 st2 st4 ok st5 where
    r1: "rendezvous c SM_PHASE_FHREADY SM_PHASE_FH1 SM_PHASE_FH1DONE True False ?st = Some st1"
    and w2: "wait_until_HBSF_state_stable c st1 = Some st2"
    and r4: "rendezvous c SM_PHASE_FH1DONE SM_PHASE_FH2 SM_PHASE_FH2DONE True True
        (st_upd (\<lambda>d. snd (commit_weight d)) st2) = Some st4"
    and w5: "wait_until_all_hosts_have_consistent_view c
        (uint (u32_max (cfg_T1 c) (cfg_T2 c) * ONE_SEC)) st4 = Some (ok, st5)"
    and t6: "unless_fenced tail6 (if ok then st5 else st_upd (self_fence MTC_ERROR_SM_FAULTHANDLER_TIMEOUT) st5) = Some st'"
    using run unfolding fault_handler_def Let_def tail6_def tail8_def
    by (auto simp: bind_eq_Some_conv simp del: split_paired_All split_paired_Ex)
  have g1: "fh_goes c E (k + 1, m) st (k + 1, m) ?st" by (rule goes_work) simp
  have g2: "fh_goes c E (k + 1, m) ?st (k + 2, True) st1"
    by (rule goes_rendezvous) (use r1 ready ring in simp_all)
  have g3: "fh_goes c E (k + 2, True) st1 (k + 2, True) st2" by (rule goes_stable[OF w2])
  have g4: "fh_goes c E (k + 2, True) st2 (k + 2, True) (st_upd (\<lambda>d. snd (commit_weight d)) st2)"
    by (rule goes_work) (rule keeps_small)
  have g5: "fh_goes c E (k + 2, True) (st_upd (\<lambda>d. snd (commit_weight d)) st2) (k + 4, True) st4"
    by (rule goes_next_rendezvous[OF r4 ring(3) ring(4) ring(5)]) simp_all
  have ok: "ok" and g6: "fh_goes c E (k + 4, True) st4 (k + 4, True) st5"
    using goes_consistent[OF w5, of E "(k + 4, True)"] by simp_all
  have to5: "fh_goes c E (k + 1, m) st (k + 4, True) st5"
    using g1 g2 g3 g4 g5 g6 by (meson goes_trans)
  show ?thesis
  proof (cases "d_fenced (st_d st5) = None")
    case False
    then show ?thesis using t6 ok to5 by (intro exI[of _ "k + 4"] exI[of _ True]) (auto simp: unless_fenced_def)
  next
    case True
    then obtain st7 st8 where r7: "rendezvous c SM_PHASE_FH2DONE SM_PHASE_FH3 SM_PHASE_FH3DONE True False st5 = Some st7"
      and p3: "fh_phase3 c st7 = Some st8" and t8: "unless_fenced (tail8 (st_now st7)) st8 = Some st'"
      using t6 ok unfolding unless_fenced_def tail6_def
      by (auto simp: bind_eq_Some_conv Let_def simp del: split_paired_All split_paired_Ex)
    have g7: "fh_goes c E (k + 4, True) st5 (k + 6, True) st7"
      by (rule goes_next_rendezvous[OF r7 ring(5) ring(6) ring(7)]) simp_all
    have g8: "fh_goes c E (k + 6, True) st7 (k + 6, True) st8" by (rule goes_phase3[OF p3 ring(6)])
    have to8: "fh_goes c E (k + 1, m) st (k + 6, True) st8"
      using to5 g7 g8 by (meson goes_trans)
    show ?thesis
    proof (cases "d_fenced (st_d st8) = None")
      case False
      then show ?thesis using t8 to8 by (intro exI[of _ "k + 6"] exI[of _ True]) (auto simp: unless_fenced_def)
    next
      case True
      then obtain st9 st10 st11 where
        r9: "rendezvous c SM_PHASE_FH3DONE SM_PHASE_FH4 SM_PHASE_FH4DONE True False st8 = Some st9"
        and p4: "fh_phase4 c (st_now st7) st9 = Some st10"
        and r11: "rendezvous c SM_PHASE_FH4DONE SM_PHASE_STARTED SM_PHASE_FHREADY True False st10 = Some st11"
        and st': "st' = st_upd (upd_smv (\<lambda>v. v\<lparr>smv_join_block := False\<rparr>)) st11"
        using t8 unfolding unless_fenced_def tail8_def
        by (auto simp: bind_eq_Some_conv simp del: split_paired_All split_paired_Ex)
      have g9: "fh_goes c E (k + 6, True) st8 (k + 8, True) st9"
        by (rule goes_next_rendezvous[OF r9 ring(7) ring(8) ring(9)]) simp_all
      have g10: "fh_goes c E (k + 8, True) st9 (k + 8, True) st10" by (rule goes_phase4[OF p4 ring(8)])
      have g11: "fh_goes c E (k + 8, True) st10 (k + 10, True) st11"
        by (rule goes_next_rendezvous[OF r11 ring(9) ring(10) ring(11)]) simp_all
      have g12: "fh_goes c E (k + 10, True) st11 (k + 10, True) st'" unfolding st' by (rule goes_work) simp
      have "fh_goes c E (k + 1, m) st (k + 10, True) st'"
        using to8 g9 g10 g11 g12 by (meson goes_trans)
      then show ?thesis by blast
    qed
  qed
qed

text \<open>From the stable state, through the wait for the event, to the end of the handler.\<close>

lemma fault_round_goes:
  assumes "sm_wait_fh (st_env st) (st_now st) (st_d st) = Some (True, st1)" and "fault_handler c st1 = Some st'"
    and "ring_phase k = SM_PHASE_STARTED"
  shows "\<exists>k' m'. (fh_run c (snd ` set (st_env st)))\<^sup>*\<^sup>* (k, True, st_d st) (k', m', st_d st') \<and> k' \<le> k + 10
    \<and> (d_fenced (st_d st') = None \<longrightarrow> k' = k + 10 \<and> m')"
proof -
  let ?E = "snd ` set (st_env st)"
  note w = goes_wait_fh[OF assms(1,3), of c ?E]
  from fault_handler_goes[OF assms(2,3) conjunct2[OF w], of ?E False]
  obtain k' m' where h: "fh_goes c ?E (k + 1, False) st1 (k', m') st'" "k' \<le> k + 10"
    "d_fenced (st_d st') = None \<longrightarrow> k' = k + 10 \<and> m'"
    by (elim exE conjE) (rule that)
  have "fh_goes c ?E (k, True) (st_env st, st_now st, st_d st) (k', m') st'"
    by (rule goes_trans[OF conjunct1[OF w] h(1)])
  then have "(fh_run c ?E)\<^sup>*\<^sup>* (k, True, st_d st) (k', m', st_d st')" by (simp add: fh_goes_def)
  then show ?thesis using h(2,3) by (intro exI[of _ k'] exI[of _ m']) simp
qed

end
