(* ===== verification/Rendezvous.thy ===== *)
theory Rendezvous
  imports FaultSteps
begin

text \<open>
  The pool going through the fault handler: a step relation over the daemons of a group of
  hosts, whose thread steps are those every run of \<open>fault_handler\<close> consists of, with the
  receipt of heartbeats between them, and the invariant that keeps the hosts of the group in
  step. The phase of a host is counted along the ring of ten phases the handler goes round;
  \<open>rv_seen\<close> is the count a host last heard of each peer. The group is any set of hosts
  that are live and visible to each other at each of their looks; whatever happens to the
  others (they may be lost, or not be taken into account any more) is left open.
\<close>

section \<open>Counts along the ring\<close>


section \<open>Steps\<close>







section \<open>What the steps of the thread do to the phases\<close>

lemma set_sm_phase_sm [simp]: "sm_phase_of (d_sm (set_sm_phase p d)) = p" "d_hb (set_sm_phase p d) = d_hb d"
  by (simp_all add: set_sm_phase_def)






section \<open>The invariant\<close>



section \<open>Every step keeps the invariant\<close>






section \<open>An example\<close>






lemma unlock_sm_idle [simp]:
  "smv_sm_sig (d_smv (unlock_sm True d)) = smv_sm_sig (d_smv d)"
  "smv_fencing (d_smv d) \<noteq> FENCING_ARMED \<Longrightarrow> smv_fencing (d_smv (unlock_sm b d)) \<noteq> FENCING_ARMED"
  by (auto simp: unlock_sm_def sm_sm_updated_def lm_sm_updated_def sm_send_signals_sm_hb_sf_def Let_def)

lemma unlock_sigs [simp]:
  "smv_hb_sig (d_smv (unlock_hb True d)) = smv_hb_sig (d_smv d)"
  "smv_sf_sig (d_smv (unlock_sf True d)) = smv_sf_sig (d_smv d)"
  by (auto simp: unlock_hb_def unlock_sf_def sm_hb_updated_def sm_sf_updated_def lm_sf_updated_def
      hb_hb_updated_def sf_sf_updated_def Let_def split: fencing_mode.splits option.splits)













end
