(* ===== verification/SmWait.thy ===== *)
theory SmWait
  imports SmStart
begin

text \<open>
  The waits of the state-manager thread against the other threads. Their interference is
  described by a relation the events respect, as in rely-guarantee reasoning: the locale
  \<open>interference\<close> gives, for every such relation, what holds after a wait and after a
  polling loop, and under which bound on the time of the last event they return.
\<close>

lemma bind_SomeE:
  assumes "Option.bind x g = Some y" obtains v where "x = Some v" "g v = Some y"
  using assms by (cases x) auto

section \<open>The events that are left\<close>

definition env_respects :: "(daemon \<Rightarrow> daemon \<Rightarrow> bool) \<Rightarrow> sm_env \<Rightarrow> bool" where
  "env_respects R es \<longleftrightarrow> (\<forall>(t, e) \<in> set es. \<forall>d. R d (e d))"

lemma env_respects_simps [simp]:
  "env_respects R []" "env_respects R ((t, e) # es) \<longleftrightarrow> (\<forall>d. R d (e d)) \<and> env_respects R es"
  by (auto simp: env_respects_def)

text \<open>The clock reaches \<open>T\<close>, and no reading is beyond it.\<close>

fun env_reaches :: "clock \<Rightarrow> clock \<Rightarrow> sm_env \<Rightarrow> bool" where
  "env_reaches T now [] \<longleftrightarrow> now = T"
| "env_reaches T now ((t, e) # es) \<longleftrightarrow> now \<le> T \<and> env_reaches T t es"

lemma env_reaches_le: "env_reaches T now es \<Longrightarrow> now \<le> T"
  by (cases "(T, now, es)" rule: env_reaches.cases) auto

abbreviation st_reaches :: "clock \<Rightarrow> sm_st \<Rightarrow> bool" where
  "st_reaches T st \<equiv> env_reaches T (st_now st) (st_env st)"

text \<open>What a wait uses up when it is signaled: an event, or a pending signal.\<close>

definition pending_signals :: "daemon \<Rightarrow> nat" where
  "pending_signals d = of_bool (smv_sm_sig (d_smv d)) + of_bool (smv_hb_sig (d_smv d)) + of_bool (smv_sf_sig (d_smv d))"

definition sm_fuel :: "sm_st \<Rightarrow> nat" where
  "sm_fuel st = 4 * length (st_env st) + pending_signals (st_d st)"

lemma pending_signals_le: "pending_signals d \<le> 3"
  by (simp add: pending_signals_def of_bool_def)

lemma check_sigs_fuel:
  "check_sigs s h f d = (signaled, d1) \<Longrightarrow>
     (if signaled then pending_signals d1 < pending_signals d else pending_signals d1 = pending_signals d)"
  by (auto simp: check_sigs_def pending_signals_def Let_def of_bool_def)

lemma with_sm_fuel [simp]: "pending_signals (with_sm True g d) = pending_signals d"
  by (simp add: pending_signals_def with_sm_def unlock_sm_def sm_sm_updated_def lm_sm_updated_def Let_def)

lemma sm_wait_loop_fuel:
  "sm_wait_loop s h f timeout start es now d = Some (signaled, st') \<Longrightarrow>
   (if signaled then sm_fuel st' < sm_fuel (es, now, d) else sm_fuel st' \<le> sm_fuel (es, now, d))"
proof (induction s h f timeout start es now d rule: sm_wait_loop.induct)
  case (1 s h f timeout start now d)
  then show ?case
    using check_sigs_fuel[of s h f d]
    by (auto simp: sm_fuel_def split: prod.splits bool.splits if_splits)
next
  case (2 s h f timeout start t e es now d)
  obtain sg d1 where cs: "check_sigs s h f d = (sg, d1)" by fastforce
  note fuel = check_sigs_fuel[OF cs]
  show ?case
  proof (cases "sg \<or> \<not> (timeout < 0 \<or> now - start < timeout)")
    case True
    then show ?thesis using 2(2) fuel cs by (auto simp: sm_fuel_def split: bool.splits if_splits)
  next
    case False
    then have "if signaled then sm_fuel st' < sm_fuel (es, t, e d1) else sm_fuel st' \<le> sm_fuel (es, t, e d1)"
      using 2 cs by auto
    moreover have "sm_fuel (es, t, e d1) \<le> sm_fuel ((t, e) # es, now, d)"
      using pending_signals_le[of "e d1"] by (simp add: sm_fuel_def)
    ultimately show ?thesis by (auto split: if_splits)
  qed
qed

lemma sm_wait_fuel:
  "sm_wait_signals_sm_hb_sf s h f timeout st = Some (signaled, st') \<Longrightarrow>
   (if signaled then sm_fuel st' < sm_fuel st else sm_fuel st' \<le> sm_fuel st)"
  by (cases st) (auto simp: sm_wait_signals_sm_hb_sf_def dest!: sm_wait_loop_fuel split: if_split_asm)

text \<open>A wait returns when the clock gets beyond its end.\<close>

lemma sm_wait_loop_returns:
  "env_reaches T now es \<Longrightarrow> 0 \<le> timeout \<Longrightarrow> start + timeout \<le> T \<Longrightarrow>
   \<exists>signaled st'. sm_wait_loop s h f timeout start es now d = Some (signaled, st') \<and> st_reaches T st'"
proof (induction s h f timeout start es now d rule: sm_wait_loop.induct)
  case (1 s h f timeout start now d)
  then show ?case by (auto split: prod.split bool.split)
next
  case (2 s h f timeout start t e es now d)
  obtain sg d1 where cs: "check_sigs s h f d = (sg, d1)" by fastforce
  show ?case
    using 2 cs by (auto split: bool.split)
qed

lemma sm_wait_returns:
  assumes "st_reaches T st" and "0 \<le> timeout" and "st_now st + timeout \<le> T"
  obtains signaled st' where "sm_wait_signals_sm_hb_sf s h f timeout st = Some (signaled, st')"
    and "st_reaches T st'" and "signaled \<Longrightarrow> sm_fuel st' < sm_fuel st" and "sm_fuel st' \<le> sm_fuel st"
proof -
  have "\<exists>signaled st'. sm_wait_signals_sm_hb_sf s h f timeout st = Some (signaled, st') \<and> st_reaches T st'"
    using assms sm_wait_loop_returns
    by (cases st) (auto simp: sm_wait_signals_sm_hb_sf_def)
  then show ?thesis using that sm_wait_fuel by (metis order_less_imp_le)
qed

section \<open>Waiting among events that respect a relation\<close>

locale interference =
  fixes R :: "daemon \<Rightarrow> daemon \<Rightarrow> bool"
  assumes R_refl: "R d d"
    and R_trans: "R d d1 \<Longrightarrow> R d1 d2 \<Longrightarrow> R d d2"
    and R_signals: "R d (snd (check_sigs s h f d))"
begin

lemma loop_respects:
  "sm_wait_loop s h f timeout start es now d = Some (signaled, es', now', d') \<Longrightarrow> env_respects R es
   \<Longrightarrow> R d d' \<and> env_respects R es'"
proof (induction s h f timeout start es now d rule: sm_wait_loop.induct)
  case (1 s h f timeout start now d)
  then show ?case
    using R_signals[of d s h f] by (auto split: prod.splits bool.splits if_splits)
next
  case (2 s h f timeout start t e es now d)
  obtain sg d1 where cs: "check_sigs s h f d = (sg, d1)" by fastforce
  then have R1: "R d d1" using R_signals[of d s h f] by simp
  have R2: "R d (e d1)" using 2(3) R1 by (auto intro: R_trans)
  show ?case
    using 2 cs R1 R2 by (auto split: bool.splits if_splits dest: R_trans)
qed

lemma wait_respects:
  assumes "sm_wait_signals_sm_hb_sf s h f timeout st = Some (signaled, st')" and "env_respects R (st_env st)"
  shows "R (st_d st) (st_d st') \<and> env_respects R (st_env st')"
  using assms loop_respects R_refl
  by (cases st; cases st') (fastforce simp: sm_wait_signals_sm_hb_sf_def split: if_splits)

lemma poll_respects:
  assumes "sm_poll (poll_test P) s h f timeout st = Some (r, st')" and "env_respects R (st_env st)"
  shows "R (st_d st) (st_d st') \<and> env_respects R (st_env st') \<and> (r \<noteq> None \<longrightarrow> P (st_d st'))"
proof -
  have "body = poll_test P \<longrightarrow> env_respects R (st_env st) \<longrightarrow>
      R (st_d st) (st_d (snd res)) \<and> env_respects R (st_env (snd res)) \<and> (fst res \<noteq> None \<longrightarrow> P (st_d (snd res)))"
    if "sm_poll body s h f timeout st = Some res" for body st res
    using that
  proof (rule sm_poll.raw_induct[rotated])
    fix poll :: "(sm_st \<Rightarrow> (unit option \<times> sm_st) option) \<Rightarrow> bool \<Rightarrow> bool \<Rightarrow> bool
      \<Rightarrow> (sm_st \<Rightarrow> int) \<Rightarrow> sm_st \<Rightarrow> (unit option \<times> sm_st) option"
    fix body s h f timeout st and res :: "unit option \<times> sm_st"
    assume IH: "\<And>body s h f timeout st res. poll body s h f timeout st = Some res \<Longrightarrow>
        body = poll_test P \<longrightarrow> env_respects R (st_env st) \<longrightarrow>
        R (st_d st) (st_d (snd res)) \<and> env_respects R (st_env (snd res)) \<and> (fst res \<noteq> None \<longrightarrow> P (st_d (snd res)))"
      and step: "Option.bind (body st) (\<lambda>(r, st1). case r of Some x \<Rightarrow> Some (Some x, st1)
        | None \<Rightarrow> Option.bind (sm_wait_signals_sm_hb_sf s h f (timeout st1) st1) (\<lambda>(signaled, st2).
            if signaled then poll body s h f timeout st2 else Some (None, st2))) = Some res"
    show "body = poll_test P \<longrightarrow> env_respects R (st_env st) \<longrightarrow>
        R (st_d st) (st_d (snd res)) \<and> env_respects R (st_env (snd res)) \<and> (fst res \<noteq> None \<longrightarrow> P (st_d (snd res)))"
    proof (intro impI)
      assume body: "body = poll_test P" and env: "env_respects R (st_env st)"
      show "R (st_d st) (st_d (snd res)) \<and> env_respects R (st_env (snd res)) \<and> (fst res \<noteq> None \<longrightarrow> P (st_d (snd res)))"
      proof (cases "P (st_d st)")
        case True
        then show ?thesis using step body env R_refl by (auto simp: poll_test_def)
      next
        case False
        then obtain signaled st2 where w: "sm_wait_signals_sm_hb_sf s h f (timeout st) st = Some (signaled, st2)"
          using step body by (auto simp: poll_test_def bind_eq_Some_conv)
        note resp = wait_respects[OF w env]
        show ?thesis
          using step body w False resp IH[of body s h f timeout st2 res] R_trans
          by (auto simp: poll_test_def split: if_splits)
      qed
    qed
  qed
  from this[OF assms(1)] assms(2) show ?thesis by simp
qed

text \<open>
  A polling loop returns when the time limit, as it is computed in every round, stays before
  the time of the last event.
\<close>

lemma poll_returns:
  assumes "st_reaches T st" and "env_respects R (st_env st)"
    and limit: "\<And>st'. R (st_d st) (st_d st') \<Longrightarrow> st_now st' \<le> T \<Longrightarrow>
        0 \<le> timeout st' \<and> st_now st' + timeout st' \<le> T"
  shows "\<exists>r st'. sm_poll (poll_test P) s h f timeout st = Some (r, st') \<and> st_reaches T st' \<and> sm_fuel st' \<le> sm_fuel st"
  using assms
proof (induction "sm_fuel st" arbitrary: st rule: less_induct)
  case less
  show ?case
  proof (cases "P (st_d st)")
    case True
    then show ?thesis using less.prems(1) by (subst sm_poll.simps) (simp add: poll_test_def)
  next
    case False
    have now: "0 \<le> timeout st \<and> st_now st + timeout st \<le> T"
      by (rule less.prems(3)) (rule R_refl, rule env_reaches_le, rule less.prems(1))
    then obtain signaled st2 where w: "sm_wait_signals_sm_hb_sf s h f (timeout st) st = Some (signaled, st2)"
      and reach: "st_reaches T st2" and fuel: "signaled \<Longrightarrow> sm_fuel st2 < sm_fuel st" "sm_fuel st2 \<le> sm_fuel st"
      by (metis sm_wait_returns[OF less.prems(1)])
    note resp = wait_respects[OF w less.prems(2)]
    have step: "sm_poll (poll_test P) s h f timeout st =
        (if signaled then sm_poll (poll_test P) s h f timeout st2 else Some (None, st2))"
      using False w by (subst sm_poll.simps) (simp add: poll_test_def)
    show ?thesis
    proof (cases signaled)
      case True
      have "\<exists>r st'. sm_poll (poll_test P) s h f timeout st2 = Some (r, st') \<and> st_reaches T st' \<and> sm_fuel st' \<le> sm_fuel st2"
      proof (rule less.hyps[OF fuel(1)[OF True] reach])
        show "env_respects R (st_env st2)" using resp by simp
        show "0 \<le> timeout st' \<and> st_now st' + timeout st' \<le> T" if "R (st_d st2) (st_d st')" "st_now st' \<le> T" for st'
          using that resp less.prems(3) R_trans by blast
      qed
      then show ?thesis using step True fuel(2) by (metis order_trans)
    next
      case False
      then show ?thesis using step reach fuel(2) by simp
    qed
  qed
qed

end

end
