(* ===== verification/SmWorker.thy ===== *)
theory SmWorker
  imports SmFault
begin

text \<open>
  The worker thread of the state manager (\<^verbatim>\<open>daemon/sm.c\<close>): every
  \<open>SM_WORKER_INTERVAL\<close> it checks the pool state, brings the State-File domain up to date,
  acts as the join agent for starting hosts, and looks for the end of Survival Rule 2.
  The worker is not the state-manager thread, so its releases of a lock signal that thread.
\<close>

section \<open>The State-File domain\<close>

text \<open>
  The strings the function fills for the log are left out. \<open>join_block\<close> is
  \<open>smvar.join_block\<close>; a pass that is not \<open>writable\<close> only finds out whether
  something would change.
\<close>

definition update_sfdomain_host :: "ha_config \<Rightarrow> clock \<Rightarrow> bool \<Rightarrow> bool \<Rightarrow> nat
  \<Rightarrow> bool \<times> com_data_sf \<Rightarrow> bool \<times> com_data_sf" where
  "update_sfdomain_host c now join_block writable i = (\<lambda>(changed, sf).
     if i = my_index c \<and> \<not> sf_enable_write sf then
       (if hm_ison (sf_sfdomain sf) i
        then (True, if writable then sf\<lparr>sf_sfdomain := hm_reset (sf_sfdomain sf) i\<rparr> else sf)
        else (changed, sf))
     else if 0 \<le> sf_time_last_SF sf i \<and> now - sf_time_last_SF sf i < ms_of (cfg_T2 c) then
       (if hm_ison (sf_sfdomain sf) i then (changed, sf)
        else if \<not> join_block
        then (True, if writable then sf\<lparr>sf_sfdomain := hm_set (sf_sfdomain sf) i\<rparr> else sf)
        else (changed, sf))
     else
       (let sf1 = (if i = my_index c \<and> writable then sf\<lparr>sf_access := False\<rparr> else sf)
        in if \<not> hm_ison (sf_sfdomain sf1) i then (changed, sf1)
           else (True, if writable then sf1\<lparr>sf_sfdomain := hm_reset (sf_sfdomain sf1) i\<rparr> else sf1)))"

definition update_sfdomain_sub :: "ha_config \<Rightarrow> clock \<Rightarrow> bool \<Rightarrow> daemon \<Rightarrow> bool \<times> daemon" where
  "update_sfdomain_sub c now writable d =
     (case for_hosts (num_host c) (update_sfdomain_host c now (smv_join_block (d_smv d)) writable)
             (False, d_sf d) of
        (changed, sf) \<Rightarrow> (changed, if writable then unlock_sf False (d\<lparr>d_sf := sf\<rparr>) else d))"

definition update_sfdomain :: "ha_config \<Rightarrow> clock \<Rightarrow> daemon \<Rightarrow> bool \<times> daemon" where
  "update_sfdomain c now d =
     (case update_sfdomain_sub c now False d of
        (changed, d1) \<Rightarrow> if changed then update_sfdomain_sub c now True d1 else (changed, d1))"

section \<open>The join agent\<close>

text \<open>
  Host \<open>i\<close> asks to join: it is heard, its live set does not have it yet, its proposed one
  has. The loop keeps the proposed live set and the hosts that join in this round.
\<close>

definition asks_to_join :: "ha_config \<Rightarrow> com_data_hb \<Rightarrow> nat \<Rightarrow> bool" where
  "asks_to_join c hb i \<longleftrightarrow> i \<noteq> my_index c \<and> hm_ison (hb_hbdomain hb) i
     \<and> \<not> hm_ison (raw_current_liveset (hb_raw hb i)) i \<and> hm_ison (raw_proposed_liveset (hb_raw hb i)) i"

definition thinks_it_is_in :: "ha_config \<Rightarrow> com_data_hb \<Rightarrow> nat \<Rightarrow> bool" where
  "thinks_it_is_in c hb i \<longleftrightarrow> i \<noteq> my_index c \<and> hm_ison (hb_hbdomain hb) i
     \<and> hm_ison (raw_current_liveset (hb_raw hb i)) i"

definition all_acked :: "ha_config \<Rightarrow> com_data_sm \<Rightarrow> com_data_hb \<Rightarrow> hostmap \<Rightarrow> nat \<Rightarrow> bool" where
  "all_acked c sm hb proposed i \<longleftrightarrow> all_hosts (num_host c) (\<lambda>k.
     \<not> (hm_ison (sm_current_liveset sm) k \<and>
        (if k = my_index c then \<not> hm_ison proposed i
         else \<not> hm_ison (raw_proposed_liveset (hb_raw hb k)) i)))"

definition join_agent_host :: "ha_config \<Rightarrow> bool \<Rightarrow> com_data_sm \<Rightarrow> com_data_hb \<Rightarrow> com_data_sf \<Rightarrow> nat
  \<Rightarrow> hostmap \<times> hostmap \<Rightarrow> hostmap \<times> hostmap" where
  "join_agent_host c join_block sm hb sf i = (\<lambda>(proposed, joining).
     if asks_to_join c hb i then
       (let proposed1 = (if \<not> join_block \<and> (hm_ison (sf_sfdomain sf) i \<or> sm_SR2 sm) \<and> \<not> hm_ison proposed i
                         then hm_set proposed i else proposed)
        in if \<not> hm_ison (sm_current_liveset sm) i \<and> all_acked c sm hb proposed1 i
           then (proposed1, hm_set joining i) else (proposed1, joining))
     else if thinks_it_is_in c hb i \<and> \<not> hm_ison (sm_current_liveset sm) i
     then (hm_set proposed i, hm_set joining i)
     else (proposed, joining))"

definition join_agent :: "ha_config \<Rightarrow> bool \<Rightarrow> com_data_sm \<Rightarrow> com_data_hb \<Rightarrow> com_data_sf \<Rightarrow> hostmap \<times> hostmap" where
  "join_agent c join_block sm hb sf =
     (if \<not> is_empty_liveset c (sm_current_liveset sm)
      then for_hosts (num_host c) (join_agent_host c join_block sm hb sf) (sm_proposed_liveset sm, hm_init_reset)
      else (sm_proposed_liveset sm, hm_init_reset))"

definition process_join_request :: "ha_config \<Rightarrow> clock \<Rightarrow> daemon \<Rightarrow> daemon" where
  "process_join_request c now d =
     (case join_agent c (smv_join_block (d_smv d)) (d_sm d) (d_hb d) (d_sf d) of
        (proposed, joining) \<Rightarrow>
          let d1 = with_sm False (\<lambda>s. s\<lparr>sm_proposed_liveset := proposed,
                     sm_current_liveset := hm_union (sm_current_liveset s) joining\<rparr>) d
          in if \<not> is_empty_liveset c joining
             then hb_send_hb_now c False (\<lambda>_. now) HB_ACCELERATION_COUNT_JOIN d1 else d1)"

section \<open>The end of Survival Rule 2\<close>

definition SR2_recovered :: "ha_config \<Rightarrow> com_data_hb \<Rightarrow> com_data_sf \<Rightarrow> bool" where
  "SR2_recovered c hb sf \<longleftrightarrow> all_hosts (num_host c) (\<lambda>i.
     if i = my_index c then sf_access sf
     else if hm_ison (hb_hbdomain hb) i then hm_ison (raw_sfdomain (hb_raw hb i)) i
     else hm_ison (sf_excluded sf) i)"

definition surviving_by_SR2 :: "ha_config \<Rightarrow> daemon \<Rightarrow> daemon" where
  "surviving_by_SR2 c d =
     (let d1 = sf_watchdog_set c d
      in if SR2_recovered c (d_hb d1) (d_sf d1)
         then unlock_sm False (upd_smv (\<lambda>v. v\<lparr>smv_SR2 := False\<rparr>) (upd_sm (\<lambda>s. s\<lparr>sm_SR2 := False\<rparr>) d1))
         else d1)"

section \<open>The thread\<close>

text \<open>One round after the sleep, at one reading of the clock; aborting does not return.\<close>

definition sm_worker_round :: "ha_config \<Rightarrow> clock \<Rightarrow> daemon \<Rightarrow> daemon" where
  "sm_worker_round c now d =
     (case check_pool_state d of
        (returned, d1) \<Rightarrow>
          if \<not> returned then d1
          else (case update_sfdomain c now d1 of (changed, d2) \<Rightarrow>
            let d3 = (if changed then start_fh c False d2 else d2);
                d4 = process_join_request c now d3
            in if smv_SR2 (d_smv d4) then surviving_by_SR2 c d4 else d4))"

end
