(* ===== verification/SmWorkerProps.thy ===== *)
theory SmWorkerProps
  imports SmWorker
begin

text \<open>
  What the worker thread of the state manager guarantees: the State-File domain is exactly
  the set of hosts with a fresh update, and a host enters the live set only with the
  agreement of every live host, or after it is in already.
\<close>

section \<open>The State-File domain\<close>

definition sf_fresh :: "ha_config \<Rightarrow> clock \<Rightarrow> com_data_sf \<Rightarrow> nat \<Rightarrow> bool" where
  "sf_fresh c now sf i \<longleftrightarrow> 0 \<le> sf_time_last_SF sf i \<and> now - sf_time_last_SF sf i < ms_of (cfg_T2 c)"

definition sf_writing :: "ha_config \<Rightarrow> com_data_sf \<Rightarrow> nat \<Rightarrow> bool" where
  "sf_writing c sf i \<longleftrightarrow> i = my_index c \<longrightarrow> sf_enable_write sf"

definition sf_member :: "ha_config \<Rightarrow> clock \<Rightarrow> bool \<Rightarrow> com_data_sf \<Rightarrow> nat \<Rightarrow> bool" where
  "sf_member c now join_block sf i \<longleftrightarrow> sf_writing c sf i \<and> sf_fresh c now sf i
     \<and> (hm_ison (sf_sfdomain sf) i \<or> \<not> join_block)"

definition sfdomain_inv :: "ha_config \<Rightarrow> clock \<Rightarrow> bool \<Rightarrow> bool \<Rightarrow> com_data_sf \<Rightarrow> nat
  \<Rightarrow> bool \<times> com_data_sf \<Rightarrow> bool" where
  "sfdomain_inv c now join_block writable sf0 k = (\<lambda>(changed, sf).
     changed = (\<exists>i<k. sf_member c now join_block sf0 i \<noteq> hm_ison (sf_sfdomain sf0) i) \<and>
     (\<exists>domn. sf = sf0\<lparr>sf_sfdomain := domn, sf_access := sf_access sf0 \<and>
          \<not> (my_index c < k \<and> writable \<and> sf_enable_write sf0 \<and> \<not> sf_fresh c now sf0 (my_index c))\<rparr> \<and>
        (\<forall>i<64. hm_ison domn i =
          (if i < k \<and> writable then sf_member c now join_block sf0 i else hm_ison (sf_sfdomain sf0) i))))"

definition sfdomain_bit :: "bool \<Rightarrow> bool \<Rightarrow> hostmap \<Rightarrow> nat \<Rightarrow> hostmap" where
  "sfdomain_bit writable b domn i =
     (if writable \<and> hm_ison domn i \<noteq> b then (if b then hm_set domn i else hm_reset domn i) else domn)"

lemma hm_ison_sfdomain_bit:
  "h < 64 \<Longrightarrow> i < 64 \<Longrightarrow>
   hm_ison (sfdomain_bit w b domn i) h = (if h = i \<and> w then b else hm_ison domn h)"
  by (auto simp: sfdomain_bit_def hm_ison_set hm_ison_reset)

lemma update_sfdomain_host_eq:
  "update_sfdomain_host c now jb w i (changed, sf) =
     (changed \<or> sf_member c now jb sf i \<noteq> hm_ison (sf_sfdomain sf) i,
      sf\<lparr>sf_sfdomain := sfdomain_bit w (sf_member c now jb sf i) (sf_sfdomain sf) i,
         sf_access := sf_access sf \<and> \<not> (i = my_index c \<and> w \<and> sf_enable_write sf \<and> \<not> sf_fresh c now sf i)\<rparr>)"
proof -
  have fr: "(0 \<le> sf_time_last_SF sf i \<and> now - sf_time_last_SF sf i < ms_of (cfg_T2 c)) = sf_fresh c now sf i"
    by (simp add: sf_fresh_def)
  show ?thesis
    unfolding update_sfdomain_host_def fr sf_member_def sf_writing_def sfdomain_bit_def prod.case Let_def
    by (cases "sf_fresh c now sf i"; cases "hm_ison (sf_sfdomain sf) i"; cases w; cases jb;
        cases "i = my_index c"; cases "sf_enable_write sf") simp_all
qed

lemma update_sfdomain_step:
  assumes k: "k < 64" and inv: "sfdomain_inv c now jb w sf0 k (changed, sf)"
  shows "sfdomain_inv c now jb w sf0 (Suc k) (update_sfdomain_host c now jb w k (changed, sf))"
proof -
  obtain domn acc where sf: "sf = sf0\<lparr>sf_sfdomain := domn, sf_access := acc\<rparr>"
    and acc: "acc = (sf_access sf0 \<and>
          \<not> (my_index c < k \<and> w \<and> sf_enable_write sf0 \<and> \<not> sf_fresh c now sf0 (my_index c)))"
    and bits: "\<And>i. i < 64 \<Longrightarrow> hm_ison domn i =
        (if i < k \<and> w then sf_member c now jb sf0 i else hm_ison (sf_sfdomain sf0) i)"
    using inv by (auto simp: sfdomain_inv_def)
  have ch: "changed = (\<exists>i<k. sf_member c now jb sf0 i \<noteq> hm_ison (sf_sfdomain sf0) i)"
    using inv by (simp add: sfdomain_inv_def)
  have wk: "hm_ison domn k = hm_ison (sf_sfdomain sf0) k" using bits[OF k] by simp
  have m: "sf_member c now jb sf k = sf_member c now jb sf0 k"
    by (simp add: sf_member_def sf_writing_def sf_fresh_def sf wk)
  let ?D = "sfdomain_bit w (sf_member c now jb sf0 k) domn k"
  let ?A = "acc \<and> \<not> (k = my_index c \<and> w \<and> sf_enable_write sf0 \<and> \<not> sf_fresh c now sf0 k)"
  have step: "update_sfdomain_host c now jb w k (changed, sf) =
      (changed \<or> sf_member c now jb sf0 k \<noteq> hm_ison (sf_sfdomain sf0) k,
       sf0\<lparr>sf_sfdomain := ?D, sf_access := ?A\<rparr>)"
    unfolding update_sfdomain_host_eq m by (simp add: sf wk sf_fresh_def)
  have A: "?A = (sf_access sf0 \<and>
      \<not> (my_index c < Suc k \<and> w \<and> sf_enable_write sf0 \<and> \<not> sf_fresh c now sf0 (my_index c)))"
    by (auto simp: acc less_Suc_eq)
  have D: "hm_ison ?D i = (if i < Suc k \<and> w then sf_member c now jb sf0 i else hm_ison (sf_sfdomain sf0) i)"
    if i: "i < 64" for i
    using bits[OF i] i k by (auto simp: hm_ison_sfdomain_bit less_Suc_eq)
  have C: "(changed \<or> sf_member c now jb sf0 k \<noteq> hm_ison (sf_sfdomain sf0) k)
      = (\<exists>i<Suc k. sf_member c now jb sf0 i \<noteq> hm_ison (sf_sfdomain sf0) i)"
    unfolding ch less_Suc_eq by blast
  have "\<forall>i<64. hm_ison ?D i = (if i < Suc k \<and> w then sf_member c now jb sf0 i else hm_ison (sf_sfdomain sf0) i)"
    using D by blast
  then show ?thesis
    unfolding step sfdomain_inv_def prod.case C A by blast
qed

lemma update_sfdomain_loop:
  assumes "n \<le> 64"
  shows "sfdomain_inv c now jb w sf0 n (for_hosts n (update_sfdomain_host c now jb w) (False, sf0))"
proof (rule for_hosts_inv[where I = "sfdomain_inv c now jb w sf0"])
  show "sfdomain_inv c now jb w sf0 0 (False, sf0)"
    unfolding sfdomain_inv_def by (simp, intro exI[of _ "sf_sfdomain sf0"]) simp
next
  fix k s
  assume "k < n" "sfdomain_inv c now jb w sf0 k s"
  then show "sfdomain_inv c now jb w sf0 (Suc k) (update_sfdomain_host c now jb w k s)"
    using assms update_sfdomain_step[of k c now jb w sf0 "fst s" "snd s"] by simp
qed

definition sfdomain_stale :: "ha_config \<Rightarrow> clock \<Rightarrow> daemon \<Rightarrow> bool" where
  "sfdomain_stale c now d \<longleftrightarrow> (\<exists>i<num_host c.
     sf_member c now (smv_join_block (d_smv d)) (d_sf d) i \<noteq> hm_ison (sf_sfdomain (d_sf d)) i)"

lemma update_sfdomain_sub_result:
  assumes n: "num_host c \<le> 64"
  shows "fst (update_sfdomain_sub c now w d) = sfdomain_stale c now d"
    and "\<not> w \<Longrightarrow> snd (update_sfdomain_sub c now w d) = d"
    and "w \<Longrightarrow> i < num_host c \<Longrightarrow> hm_ison (sf_sfdomain (d_sf (snd (update_sfdomain_sub c now w d)))) i
           = sf_member c now (smv_join_block (d_smv d)) (d_sf d) i"
    and "w \<Longrightarrow> sf_access (d_sf (snd (update_sfdomain_sub c now w d))) = (sf_access (d_sf d) \<and>
           \<not> (my_index c < num_host c \<and> sf_enable_write (d_sf d) \<and> \<not> sf_fresh c now (d_sf d) (my_index c)))"
proof -
  obtain changed sf where loop: "for_hosts (num_host c)
      (update_sfdomain_host c now (smv_join_block (d_smv d)) w) (False, d_sf d) = (changed, sf)"
    by fastforce
  note inv = update_sfdomain_loop[OF n, of c now "smv_join_block (d_smv d)" w "d_sf d",
      unfolded loop sfdomain_inv_def prod.case]
  then obtain domn acc where sf: "sf = (d_sf d)\<lparr>sf_sfdomain := domn, sf_access := acc\<rparr>"
    and acc: "acc = (sf_access (d_sf d) \<and> \<not> (my_index c < num_host c \<and> w \<and> sf_enable_write (d_sf d)
                \<and> \<not> sf_fresh c now (d_sf d) (my_index c)))"
    and bits: "\<forall>i<64. hm_ison domn i = (if i < num_host c \<and> w
        then sf_member c now (smv_join_block (d_smv d)) (d_sf d) i else hm_ison (sf_sfdomain (d_sf d)) i)"
    by blast
  have sub: "update_sfdomain_sub c now w d = (changed, if w then unlock_sf False (d\<lparr>d_sf := sf\<rparr>) else d)"
    unfolding update_sfdomain_sub_def loop by simp
  show "fst (update_sfdomain_sub c now w d) = sfdomain_stale c now d"
    unfolding sub using inv by (simp add: sfdomain_stale_def)
  show "\<not> w \<Longrightarrow> snd (update_sfdomain_sub c now w d) = d"
    unfolding sub by simp
  show "w \<Longrightarrow> i < num_host c \<Longrightarrow> hm_ison (sf_sfdomain (d_sf (snd (update_sfdomain_sub c now w d)))) i
           = sf_member c now (smv_join_block (d_smv d)) (d_sf d) i"
    unfolding sub using bits n by (simp add: sf)
  show "w \<Longrightarrow> sf_access (d_sf (snd (update_sfdomain_sub c now w d))) = (sf_access (d_sf d) \<and>
           \<not> (my_index c < num_host c \<and> sf_enable_write (d_sf d) \<and> \<not> sf_fresh c now (d_sf d) (my_index c)))"
    unfolding sub by (simp add: sf acc)
qed

lemma update_sfdomain_eq:
  assumes "num_host c \<le> 64"
  shows "update_sfdomain c now d =
    (if sfdomain_stale c now d then (True, snd (update_sfdomain_sub c now True d)) else (False, d))"
  using update_sfdomain_sub_result(1)[OF assms, of now False d]
    update_sfdomain_sub_result(2)[OF assms, where w = False and now = now and d = d]
    update_sfdomain_sub_result(1)[OF assms, of now True d]
  by (cases "update_sfdomain_sub c now False d"; cases "update_sfdomain_sub c now True d")
     (simp add: update_sfdomain_def)

text \<open>
  C13. The State-File domain holds exactly the hosts with a State-File update younger than T2,
  where the local host also has to be writing and a host that is not yet in the domain only
  enters while joins are not blocked; the result says whether a host changed sides. The local
  access flag is cleared together with such a change only: when the local host is stale but
  already outside the domain, and nobody else changed, the flag stays set.
\<close>

theorem update_sfdomain_membership:
  assumes "num_host c \<le> 64" and "my_index c < num_host c" and "update_sfdomain c now d = (changed, d1)"
  shows "(changed \<longleftrightarrow> (\<exists>i<num_host c. hm_ison (sf_sfdomain (d_sf d1)) i \<noteq> hm_ison (sf_sfdomain (d_sf d)) i))
    \<and> (i < num_host c \<longrightarrow> (hm_ison (sf_sfdomain (d_sf d1)) i \<longleftrightarrow>
         (i = my_index c \<longrightarrow> sf_enable_write (d_sf d)) \<and> sf_fresh c now (d_sf d) i
         \<and> (hm_ison (sf_sfdomain (d_sf d)) i \<or> \<not> smv_join_block (d_smv d))))
    \<and> (sf_access (d_sf d1) \<longleftrightarrow> sf_access (d_sf d) \<and>
         \<not> (changed \<and> sf_enable_write (d_sf d) \<and> \<not> sf_fresh c now (d_sf d) (my_index c)))"
proof (cases "sfdomain_stale c now d")
  case True
  then have d1: "changed" "d1 = snd (update_sfdomain_sub c now True d)"
    using assms(3) by (simp_all add: update_sfdomain_eq[OF assms(1)])
  show ?thesis
    unfolding d1(2) using True d1(1) update_sfdomain_sub_result(3,4)[OF assms(1), where w = True and now = now and d = d] assms(2)
    by (auto simp: sfdomain_stale_def sf_member_def sf_writing_def)
next
  case False
  then have "\<not> changed" "d1 = d"
    using assms(3) by (simp_all add: update_sfdomain_eq[OF assms(1)])
  with False show ?thesis
    by (auto simp: sfdomain_stale_def sf_member_def sf_writing_def)
qed

section \<open>The join agent\<close>

text \<open>Whom the local host has acknowledged after the round, and who comes in.\<close>

definition acks :: "ha_config \<Rightarrow> bool \<Rightarrow> com_data_sm \<Rightarrow> com_data_hb \<Rightarrow> com_data_sf \<Rightarrow> nat \<Rightarrow> bool" where
  "acks c jb sm hb sf i \<longleftrightarrow> hm_ison (sm_proposed_liveset sm) i
     \<or> (asks_to_join c hb i \<and> \<not> jb \<and> (hm_ison (sf_sfdomain sf) i \<or> sm_SR2 sm))
     \<or> (thinks_it_is_in c hb i \<and> \<not> hm_ison (sm_current_liveset sm) i)"

definition agreed :: "ha_config \<Rightarrow> bool \<Rightarrow> com_data_sm \<Rightarrow> com_data_hb \<Rightarrow> com_data_sf \<Rightarrow> nat \<Rightarrow> bool" where
  "agreed c jb sm hb sf i \<longleftrightarrow> (\<forall>k<num_host c. hm_ison (sm_current_liveset sm) k \<longrightarrow>
     (if k = my_index c then acks c jb sm hb sf i else hm_ison (raw_proposed_liveset (hb_raw hb k)) i))"

definition comes_in :: "ha_config \<Rightarrow> bool \<Rightarrow> com_data_sm \<Rightarrow> com_data_hb \<Rightarrow> com_data_sf \<Rightarrow> nat \<Rightarrow> bool" where
  "comes_in c jb sm hb sf i \<longleftrightarrow> \<not> hm_ison (sm_current_liveset sm) i \<and>
     (asks_to_join c hb i \<and> agreed c jb sm hb sf i \<or> thinks_it_is_in c hb i)"

definition join_agent_inv :: "ha_config \<Rightarrow> bool \<Rightarrow> com_data_sm \<Rightarrow> com_data_hb \<Rightarrow> com_data_sf \<Rightarrow> nat
  \<Rightarrow> hostmap \<times> hostmap \<Rightarrow> bool" where
  "join_agent_inv c jb sm hb sf n = (\<lambda>(p, j). \<forall>i<64.
     hm_ison p i = (if i < n then acks c jb sm hb sf i else hm_ison (sm_proposed_liveset sm) i) \<and>
     hm_ison j i = (i < n \<and> comes_in c jb sm hb sf i))"

lemma asks_not_in: "asks_to_join c hb i \<Longrightarrow> \<not> thinks_it_is_in c hb i"
  by (simp add: asks_to_join_def thinks_it_is_in_def)

lemma join_agent_step:
  assumes n: "n < 64" and inv: "join_agent_inv c jb sm hb sf n (p, j)"
  shows "join_agent_inv c jb sm hb sf (Suc n) (join_agent_host c jb sm hb sf n (p, j))"
proof -
  have P: "hm_ison p i = (if i < n then acks c jb sm hb sf i else hm_ison (sm_proposed_liveset sm) i)"
   and J: "hm_ison j i = (i < n \<and> comes_in c jb sm hb sf i)" if "i < 64" for i
    using inv that by (simp_all add: join_agent_inv_def)
  have pn: "hm_ison p n = hm_ison (sm_proposed_liveset sm) n" using P[OF n] by simp
  obtain p' j' where step: "join_agent_host c jb sm hb sf n (p, j) = (p', j')" by fastforce
  define p1 where "p1 = (if \<not> jb \<and> (hm_ison (sf_sfdomain sf) n \<or> sm_SR2 sm) \<and> \<not> hm_ison p n then hm_set p n else p)"
  have p1n: "hm_ison p1 n = acks c jb sm hb sf n" if "asks_to_join c hb n"
    using that n pn asks_not_in[OF that] by (auto simp: p1_def acks_def hm_ison_set)
  have ag: "all_acked c sm hb p1 n = agreed c jb sm hb sf n" if "asks_to_join c hb n"
    using p1n[OF that] by (auto simp: all_acked_def agreed_def)
  have new: "hm_ison p' n = acks c jb sm hb sf n \<and> hm_ison j' n = comes_in c jb sm hb sf n"
  proof (cases "asks_to_join c hb n")
    case True
    have "p' = p1" "j' = (if comes_in c jb sm hb sf n then hm_set j n else j)"
      using step ag[OF True] True asks_not_in[OF True]
      by (auto simp: join_agent_host_def p1_def[symmetric] Let_def comes_in_def split: if_splits)
    then show ?thesis using p1n[OF True] J[OF n] n by (simp add: hm_ison_set)
  next
    case False
    then show ?thesis using step pn J[OF n] n
      by (auto simp: join_agent_host_def acks_def comes_in_def hm_ison_set split: if_splits)
  qed
  have old: "hm_ison p' i = hm_ison p i \<and> hm_ison j' i = hm_ison j i" if "i < 64" "i \<noteq> n" for i
    using step that n by (auto simp: join_agent_host_def Let_def hm_ison_set split: if_splits)
  show ?thesis
    unfolding step join_agent_inv_def prod.case
    using new old P J by (auto simp: less_Suc_eq)
qed

lemma join_agent_result:
  assumes n: "num_host c \<le> 64" and i: "i < num_host c" and agent: "join_agent c jb sm hb sf = (p, j)"
    and ne: "\<not> is_empty_liveset c (sm_current_liveset sm)"
  shows "hm_ison p i = acks c jb sm hb sf i" and "hm_ison j i = comes_in c jb sm hb sf i"
proof -
  have "join_agent_inv c jb sm hb sf (num_host c)
      (for_hosts (num_host c) (join_agent_host c jb sm hb sf) (sm_proposed_liveset sm, hm_init_reset))"
  proof (rule for_hosts_inv[where I = "join_agent_inv c jb sm hb sf"])
    show "join_agent_inv c jb sm hb sf 0 (sm_proposed_liveset sm, hm_init_reset)"
      by (simp add: join_agent_inv_def)
  next
    fix k s
    assume "k < num_host c" "join_agent_inv c jb sm hb sf k s"
    then show "join_agent_inv c jb sm hb sf (Suc k) (join_agent_host c jb sm hb sf k s)"
      using n join_agent_step[of k c jb sm hb sf "fst s" "snd s"] by simp
  qed
  then have "join_agent_inv c jb sm hb sf (num_host c) (p, j)"
    using agent ne unfolding join_agent_def by (metis (full_types))
  then show "hm_ison p i = acks c jb sm hb sf i" "hm_ison j i = comes_in c jb sm hb sf i"
    using n i by (simp_all add: join_agent_inv_def)
qed

lemma process_join_request_sm:
  "sm_current_liveset (d_sm (process_join_request c now d)) = hm_union (sm_current_liveset (d_sm d))
      (snd (join_agent c (smv_join_block (d_smv d)) (d_sm d) (d_hb d) (d_sf d)))"
  "sm_proposed_liveset (d_sm (process_join_request c now d)) =
      fst (join_agent c (smv_join_block (d_smv d)) (d_sm d) (d_hb d) (d_sf d))"
  by (auto simp: process_join_request_def Let_def with_sm_def split: prod.split)

text \<open>
  C9. The join agent of a host with a live set: a host enters it
  exactly when it is heard on the heartbeat and either has the live set that contains it
  already, or asks to join and every live host, the local one included, has acknowledged
  it. The local acknowledgement of a host that asks needs its State-File access (or
  Survival Rule 2) and joins that are not blocked. Nobody leaves the live set or the
  proposed one.
\<close>

theorem process_join_request_exact:
  assumes n: "num_host c \<le> 64" and i: "i < num_host c"
    and ne: "\<not> is_empty_liveset c (sm_current_liveset (d_sm d))"
    and d1: "d1 = process_join_request c now d"
  shows "(hm_ison (sm_current_liveset (d_sm d1)) i \<longleftrightarrow>
      hm_ison (sm_current_liveset (d_sm d)) i \<or>
      (i \<noteq> my_index c \<and> hm_ison (hb_hbdomain (d_hb d)) i \<and>
        (hm_ison (raw_current_liveset (hb_raw (d_hb d) i)) i \<or>
         hm_ison (raw_proposed_liveset (hb_raw (d_hb d) i)) i \<and>
         (\<forall>k<num_host c. hm_ison (sm_current_liveset (d_sm d)) k \<longrightarrow>
            (if k = my_index c then hm_ison (sm_proposed_liveset (d_sm d1)) i
             else hm_ison (raw_proposed_liveset (hb_raw (d_hb d) k)) i)))))
    \<and> (hm_ison (sm_proposed_liveset (d_sm d1)) i \<longleftrightarrow>
      hm_ison (sm_proposed_liveset (d_sm d)) i \<or>
      (i \<noteq> my_index c \<and> hm_ison (hb_hbdomain (d_hb d)) i \<and>
        (if hm_ison (raw_current_liveset (hb_raw (d_hb d) i)) i
         then \<not> hm_ison (sm_current_liveset (d_sm d)) i
         else hm_ison (raw_proposed_liveset (hb_raw (d_hb d) i)) i \<and> \<not> smv_join_block (d_smv d)
              \<and> (hm_ison (sf_sfdomain (d_sf d)) i \<or> sm_SR2 (d_sm d)))))"
proof -
  obtain p j where agent: "join_agent c (smv_join_block (d_smv d)) (d_sm d) (d_hb d) (d_sf d) = (p, j)"
    by fastforce
  note res = join_agent_result[OF n i agent ne]
  show ?thesis
    unfolding d1 process_join_request_sm agent prod.sel hm_ison_union res comes_in_def agreed_def
    by (intro conjI; unfold acks_def asks_to_join_def thinks_it_is_in_def) (blast, auto)
qed

definition asking_row :: "nat \<Rightarrow> raw_data" where
  "asking_row i = init_raw\<lparr>raw_current_liveset := (if i = 2 then hm_init_reset else hm_of [0, 1]),
     raw_proposed_liveset := hm_of [0, 1, 2]\<rparr>"

definition agent_daemon :: daemon where
  "agent_daemon =
     (let d = init_daemon (default_config 3 0) in
      d\<lparr>d_sm := (d_sm d)\<lparr>sm_current_liveset := hm_of [0, 1], sm_proposed_liveset := hm_of [0, 1]\<rparr>,
        d_hb := (d_hb d)\<lparr>hb_hbdomain := hm_of [0, 1, 2], hb_raw := asking_row\<rparr>,
        d_sf := (d_sf d)\<lparr>sf_sfdomain := hm_of [0, 1, 2]\<rparr>\<rparr>)"

lemma agent_daemon_sel:
  "sm_current_liveset (d_sm agent_daemon) = hm_of [0, 1]" "sm_proposed_liveset (d_sm agent_daemon) = hm_of [0, 1]"
  "hb_hbdomain (d_hb agent_daemon) = hm_of [0, 1, 2]" "hb_raw (d_hb agent_daemon) = asking_row"
  "sf_sfdomain (d_sf agent_daemon) = hm_of [0, 1, 2]" "smv_join_block (d_smv agent_daemon) = False"
  by (simp_all add: agent_daemon_def init_daemon_def init_smv_def Let_def)

theorem process_join_request_exact_witness:
  "hm_ison (sm_current_liveset (d_sm (process_join_request (default_config 3 0) 0 agent_daemon))) 2"
proof -
  have ne: "\<not> is_empty_liveset (default_config 3 0) (sm_current_liveset (d_sm agent_daemon))"
    by (auto simp: agent_daemon_sel hm_ison_of intro!: exI[of _ 0])
  show ?thesis
    using process_join_request_exact[where c = "default_config 3 0" and i = 2 and d = agent_daemon, OF _ _ ne refl]
    by (simp add: agent_daemon_sel hm_ison_of asking_row_def)
qed

theorem update_sfdomain_membership_witness:
  "hm_ison (sf_sfdomain (d_sf (snd (update_sfdomain (default_config 3 0) 5
      (agent_daemon\<lparr>d_sf := (d_sf agent_daemon)\<lparr>sf_time_last_SF := (\<lambda>_. 1)\<rparr>\<rparr>))))) 2"
proof -
  obtain changed d1 where u: "update_sfdomain (default_config 3 0) 5
      (agent_daemon\<lparr>d_sf := (d_sf agent_daemon)\<lparr>sf_time_last_SF := (\<lambda>_. 1)\<rparr>\<rparr>) = (changed, d1)"
    by fastforce
  show ?thesis
    using update_sfdomain_membership[where c = "default_config 3 0" and i = 2, OF _ _ u]
    by (simp add: u agent_daemon_sel hm_ison_of sf_fresh_def ms_of_small)
qed

end
