(* ===== verification/SmStartProps.thy ===== *)
theory SmStartProps
  imports SmWait SmWorkerProps
begin

text \<open>
  What starting and joining guarantee: the start criteria are decided in bounded time, a
  pool in the state INIT only starts with all its hosts, a pool in the state ACTIVE starts
  on one of four grounds, and a host joins only when every live host has acknowledged it.
\<close>

declare split_paired_Ex [simp del] split_paired_All [simp del]

section \<open>What the other threads do while a host starts\<close>

text \<open>
  The time the daemon was started does not change, and only the state-manager thread takes
  hosts out of the proposed live set.
\<close>

definition startup_rely :: "daemon \<Rightarrow> daemon \<Rightarrow> bool" where
  "startup_rely d d' \<longleftrightarrow> smv_start_time (d_smv d') = smv_start_time (d_smv d) \<and>
     (\<forall>i<64. hm_ison (sm_proposed_liveset (d_sm d)) i \<longrightarrow> hm_ison (sm_proposed_liveset (d_sm d')) i)"

interpretation startup: interference startup_rely
  by unfold_locales (auto simp: startup_rely_def check_sigs_def Let_def)

text \<open>The worker thread keeps to it.\<close>

lemma same_sm_startup:
  "smv_start_time (d_smv d') = smv_start_time (d_smv d) \<Longrightarrow>
   sm_proposed_liveset (d_sm d') = sm_proposed_liveset (d_sm d) \<Longrightarrow> startup_rely d d'"
  by (simp add: startup_rely_def)

lemma for_hosts_sent: "d_smv (for_hosts n (\<lambda>i s. if i \<noteq> me then s\<lparr>d_sent := d_sent s @ [(i, pkt)]\<rparr> else s) e) = d_smv e"
  by (rule for_hosts_frame) simp

lemma hb_check_fist_smv: "hb_check_fist c nm d = (b, l, d') \<Longrightarrow> d_smv d' = d_smv d"
  by (auto simp: hb_check_fist_def d_fist_on_def split: prod.splits bool.splits)

lemma send_hb_smv: "smv_start_time (d_smv (send_hb c b now d)) = smv_start_time (d_smv d)"
proof -
  let ?d1 = "upd_hbv (\<lambda>v. v\<lparr>hbv_sequence := (hbv_sequence v)(my_index c := hbv_sequence (d_hbv d) (my_index c) + 1)\<rparr>) d"
  define e where "e = with_hb b (\<lambda>h. h\<lparr>hb_sm_phase := (hb_sm_phase h)(my_index c := sm_phase_of (d_sm ?d1))\<rparr>) ?d1"
  have e: "smv_start_time (d_smv e) = smv_start_time (d_smv d)"
    by (simp add: e_def with_hb_def)
  obtain iso dl d3 where f: "hb_check_fist c ''hb.isolate'' e = (iso, dl, d3)" by (metis prod_cases3)
  obtain ls d4 where g: "d_fist_on ''hb.send.lostpacket'' d3 = (ls, d4)" by fastforce
  have "d_smv d4 = d_smv d3" "d_smv d3 = d_smv e"
    using g hb_check_fist_smv[OF f] by (auto simp: d_fist_on_def split: prod.splits)
  then show ?thesis
    using e f g by (cases "hb_enable_send (d_hb d)"; cases iso; cases ls)
      (simp_all add: send_hb_def Let_def for_hosts_sent e_def)
qed

lemma send_hb_now_smv: "smv_start_time (d_smv (hb_send_hb_now c b now k d)) = smv_start_time (d_smv d)"
proof -
  have "smv_start_time (d_smv (hb_send_more c b now m e)) = smv_start_time (d_smv e)" for m e
    by (induction m) (simp_all add: send_hb_smv)
  then show ?thesis by (simp add: hb_send_hb_now_def send_hb_smv)
qed

lemma start_fh_startup: "startup_rely d (start_fh c force d)"
  by (rule same_sm_startup) (auto simp: start_fh_def Let_def split: prod.split)

lemma update_sfdomain_startup: "startup_rely d (snd (update_sfdomain c now d))"
  by (rule same_sm_startup)
     (auto simp: update_sfdomain_def update_sfdomain_sub_def split: prod.split)

lemma join_agent_grows:
  assumes "n \<le> 64"
  shows "\<forall>i<64. hm_ison p i \<longrightarrow> hm_ison (fst (for_hosts n (join_agent_host c jb sm hb sf) (p, j))) i"
  using assms
proof (induction n)
  case (Suc n)
  obtain p' j' where loop: "for_hosts n (join_agent_host c jb sm hb sf) (p, j) = (p', j')" by fastforce
  have "\<forall>i<64. hm_ison p' i \<longrightarrow> hm_ison (fst (join_agent_host c jb sm hb sf n (p', j'))) i"
    using Suc.prems by (auto simp: join_agent_host_def Let_def hm_ison_set)
  then show ?case using Suc loop by simp
qed simp

lemma process_join_startup:
  assumes "num_host c \<le> 64"
  shows "startup_rely d (process_join_request c now d)"
proof -
  have "smv_start_time (d_smv (process_join_request c now d)) = smv_start_time (d_smv d)"
    by (auto simp: process_join_request_def Let_def send_hb_now_smv with_sm_def split: prod.split)
  moreover have "\<forall>i<64. hm_ison (sm_proposed_liveset (d_sm d)) i \<longrightarrow>
      hm_ison (fst (join_agent c (smv_join_block (d_smv d)) (d_sm d) (d_hb d) (d_sf d))) i"
    using join_agent_grows[OF assms] by (simp add: join_agent_def del: is_empty_liveset_iff)
  ultimately show ?thesis
    by (simp add: startup_rely_def process_join_request_sm)
qed

lemma worker_startup:
  assumes "num_host c \<le> 64"
  shows "startup_rely d (sm_worker_round c now d)"
proof -
  obtain b d1 where p: "check_pool_state d = (b, d1)" by fastforce
  have 1: "startup_rely d d1"
    using p by (intro same_sm_startup)
      (auto simp: check_pool_state_def sm_abort_def with_hb_def with_sf_def main_terminate_def Let_def split: if_splits)
  obtain ch d2 where u: "update_sfdomain c now d1 = (ch, d2)" by fastforce
  have 2: "startup_rely d1 d2" using update_sfdomain_startup[of d1 c now] u by simp
  define d3 where "d3 = (if ch then start_fh c False d2 else d2)"
  have 3: "startup_rely d2 d3" by (simp add: d3_def start_fh_startup startup.R_refl)
  have 4: "startup_rely d3 (process_join_request c now d3)" by (rule process_join_startup[OF assms])
  have 5: "startup_rely e (surviving_by_SR2 c e)" for e
    by (rule same_sm_startup) (auto simp: surviving_by_SR2_def sf_watchdog_set_def Let_def split: option.split)
  have "sm_worker_round c now d = (if b then (let d4 = process_join_request c now d3
      in if smv_SR2 (d_smv d4) then surviving_by_SR2 c d4 else d4) else d1)"
    by (simp add: sm_worker_round_def p u d3_def)
  moreover have D: "startup_rely d (process_join_request c now d3)"
    using 1 2 3 4 startup.R_trans by blast
  ultimately show ?thesis
    using 1 startup.R_trans[OF D 5] by (auto simp: Let_def)
qed

section \<open>The start criteria are decided\<close>

definition start_span :: "ha_config \<Rightarrow> u32 \<Rightarrow> int" where
  "start_span c pool_state = uint (boot_time c pool_state * ONE_SEC)"

definition synchronized_span :: "ha_config \<Rightarrow> u32 \<Rightarrow> int" where
  "synchronized_span c pool_state =
     uint ((boot_time c pool_state + SYNCHRONIZED_BOOT_TIMEOUT_EXTENDER c) * ONE_SEC)"

lemma since_start_limit:
  assumes "smv_start_time (d_smv (st_d st)) + span \<le> T" and "st_now st \<le> T"
  shows "0 \<le> since_start span st \<and> st_now st + since_start span st \<le> T"
  using assms by (simp add: since_start_def time_left_def Let_def)

lemma start_with_all_returns:
  assumes "st_reaches T st" "env_respects startup_rely (st_env st)"
    and "smv_start_time (d_smv (st_d st)) + synchronized_span c pool_state \<le> T"
  shows "\<exists>r st'. start_with_all c (pool_state = SF_STATE_INIT) hb st = Some (r, st') \<and>
    (r = None \<longrightarrow> st_reaches T st' \<and> env_respects startup_rely (st_env st')
       \<and> smv_start_time (d_smv (st_d st')) = smv_start_time (d_smv (st_d st)) \<and> sm_fuel st' \<le> sm_fuel st)"
proof -
  define st1 where "st1 = st_upd (with_sm True (\<lambda>s. s\<lparr>sm_proposed_liveset := hb_hbdomain hb\<rparr>)) st"
  have st1: "st_now st1 = st_now st" "st_env st1 = st_env st" "sm_fuel st1 = sm_fuel st"
    "smv_start_time (d_smv (st_d st1)) = smv_start_time (d_smv (st_d st))"
    by (simp_all add: st1_def sm_fuel_def) (simp add: with_sm_def)
  have "\<exists>r st'. sm_poll (poll_test (all_hosts_booted c)) False True False (since_start (synchronized_span c pool_state)) st1
      = Some (r, st') \<and> st_reaches T st' \<and> sm_fuel st' \<le> sm_fuel st1"
    by (rule startup.poll_returns)
       (use assms st1 in \<open>auto simp: startup_rely_def intro!: since_start_limit\<close>)
  then obtain r st2 where poll: "sm_poll (poll_test (all_hosts_booted c)) False True False
      (since_start (synchronized_span c pool_state)) st1 = Some (r, st2)"
    and st2: "st_reaches T st2" "sm_fuel st2 \<le> sm_fuel st1" by blast
  note resp = startup.poll_respects[OF poll]
  have w: "wait_until_all_hosts_booted c (uint (((if pool_state = SF_STATE_INIT then cfg_Tenable c else cfg_Tboot c)
                      + SYNCHRONIZED_BOOT_TIMEOUT_EXTENDER c) * ONE_SEC)) st1 = Some (r \<noteq> None, st2)"
    using poll by (simp add: wait_until_all_hosts_booted_def synchronized_span_def boot_time_def)
  show ?thesis
    using st2 st1 resp assms(2) w
    by (cases r) (auto simp: start_with_all_def Let_def st1_def[symmetric] startup_rely_def)
qed

lemma join_existing_None: "join_existing c hb sf st = (None, st') \<Longrightarrow> st' = st"
  by (simp add: join_existing_def Let_def split: option.split_asm if_split_asm)

lemma start_round_returns:
  assumes "st_reaches T st" "env_respects startup_rely (st_env st)"
    and "smv_start_time (d_smv (st_d st)) + synchronized_span c pool_state \<le> T"
  shows "\<exists>r st'. start_round c (pool_state = SF_STATE_INIT) st = Some (r, st') \<and>
    (r = None \<longrightarrow> st_reaches T st' \<and> env_respects startup_rely (st_env st')
       \<and> smv_start_time (d_smv (st_d st')) = smv_start_time (d_smv (st_d st)) \<and> sm_fuel st' \<le> sm_fuel st)"
proof -
  define ok where "ok r st' \<longleftrightarrow> (r = None \<longrightarrow> st_reaches T st' \<and> env_respects startup_rely (st_env st')
       \<and> smv_start_time (d_smv (st_d st')) = smv_start_time (d_smv (st_d st)) \<and> sm_fuel st' \<le> sm_fuel st)"
    for r :: "mtc_status option" and st'
  obtain r0 st0 where 0: "start_with_all c (pool_state = SF_STATE_INIT) (d_hb (st_d st)) st = Some (r0, st0)" "ok r0 st0"
    using start_with_all_returns[OF assms, of "d_hb (st_d st)"] unfolding ok_def by blast
  obtain r1 st1 where 1: "join_existing c (d_hb (st_d st)) (d_sf (st_d st)) st = (r1, st1)" by (metis surj_pair)
  have 2: "ok None st" "ok (Some s) x" for s x using assms by (simp_all add: ok_def)
  have 3: "ok r1 st1" using 1 2 join_existing_None[of c "d_hb (st_d st)" "d_sf (st_d st)" st st1] by (cases r1) simp_all
  have "\<exists>r st'. start_round c (pool_state = SF_STATE_INIT) st = Some (r, st') \<and> ok r st'"
    unfolding start_round_def Let_def 0 1 using 0(2) 2 3 by (simp split: if_split del: split_paired_Ex)
  then show ?thesis unfolding ok_def .
qed

lemma start_loop_returns:
  assumes "st_reaches T st" "env_respects startup_rely (st_env st)"
    and "smv_start_time (d_smv (st_d st)) + synchronized_span c pool_state \<le> T"
    and "smv_start_time (d_smv (st_d st)) + start_span c pool_state \<le> T"
  shows "\<exists>status st'. start_loop c pool_state excluded st = Some (status, st')"
  using assms
proof (induction "sm_fuel st" arbitrary: st rule: less_induct)
  case less
  obtain r st1 where round: "start_round c (pool_state = SF_STATE_INIT) st = Some (r, st1)"
    and st1: "r = None \<Longrightarrow> st_reaches T st1 \<and> env_respects startup_rely (st_env st1)
       \<and> smv_start_time (d_smv (st_d st1)) = smv_start_time (d_smv (st_d st)) \<and> sm_fuel st1 \<le> sm_fuel st"
    using start_round_returns[OF less.prems(1,2,3)] by blast
  show ?case
  proof (cases r)
    case (Some status)
    then show ?thesis using round by (cases st1) (subst start_loop.simps, simp add: Let_def)
  next
    case None
    note st1 = st1[OF None]
    let ?to = "since_start (start_span c pool_state) st1"
    have "0 \<le> ?to" "st_now st1 + ?to \<le> T"
      using since_start_limit[of st1 "start_span c pool_state" T] st1 less.prems(4) env_reaches_le by auto
    then obtain signaled st2 where w: "sm_wait_signals_sm_hb_sf True True True ?to st1 = Some (signaled, st2)"
      and reach: "st_reaches T st2" and fuel: "signaled \<Longrightarrow> sm_fuel st2 < sm_fuel st1"
      using st1 by (metis sm_wait_returns)
    have resp: "startup_rely (st_d st1) (st_d st2) \<and> env_respects startup_rely (st_env st2)"
      using startup.wait_respects[OF w] st1 by blast
    show ?thesis
    proof (cases signaled)
      case True
      then have "\<exists>status st'. start_loop c pool_state excluded st2 = Some (status, st')"
        using less.hyps[of st2] fuel st1 reach resp less.prems(3,4) by (auto simp: startup_rely_def)
      then show ?thesis using round None w True
        by (subst start_loop.simps) (simp add: Let_def start_span_def)
    next
      case False
      moreover obtain status st3 where "start_timeout c (pool_state = SF_STATE_INIT) excluded (st_d st) st2 = (status, st3)"
        by (metis surj_pair)
      ultimately have "start_loop c pool_state excluded st = Some (status, st3)" using round None w
        by (subst start_loop.simps) (simp add: Let_def start_span_def)
      then show ?thesis by blast
    qed
  qed
qed

text \<open>
  C10. The start criteria are decided: while the other threads leave the start time alone and
  the clock gets beyond both time limits (the boot time, and the longer one of the
  synchronised start), the test returns.
\<close>

theorem start_criteria_decided:
  assumes "st_reaches T st" and "env_respects startup_rely (st_env st)"
    and "smv_start_time (d_smv (st_d st)) + start_span c (get_pool_state (st_d st)) \<le> T"
    and "smv_start_time (d_smv (st_d st)) + synchronized_span c (get_pool_state (st_d st)) \<le> T"
  shows "\<exists>status st'. test_Start_Criteria c st = Some (status, st')"
  using start_loop_returns[OF assms(1,2,4,3), of "get_excluded_flag (my_index c) (st_d st)"]
  by (cases st) (auto simp: test_Start_Criteria_def Let_def)

definition starting_daemon :: daemon where
  "starting_daemon = (let d = init_daemon (default_config 3 0) in
     d\<lparr>d_sf := (d_sf d)\<lparr>sf_pool_state := SF_STATE_INIT\<rparr>\<rparr>)"

lemma starting_daemon_sel:
  "get_pool_state starting_daemon = SF_STATE_INIT" "smv_start_time (d_smv starting_daemon) = - 1"
  by (simp_all add: starting_daemon_def get_pool_state_def init_daemon_def init_smv_def Let_def)

theorem start_criteria_decided_witness:
  "\<exists>status st'. test_Start_Criteria (default_config 3 0)
     ([(200000, sm_worker_round (default_config 3 0) 200000)], 0, starting_daemon) = Some (status, st')"
  by (rule start_criteria_decided[where T = 200000])
     (simp_all add: starting_daemon_sel start_span_def synchronized_span_def boot_time_def worker_startup
        SYNCHRONIZED_BOOT_TIMEOUT_EXTENDER_def u32_max_def ONE_SEC_def)

section \<open>The grounds of a start\<close>

definition all_in :: "ha_config \<Rightarrow> daemon \<Rightarrow> bool" where
  "all_in c d \<longleftrightarrow> (\<forall>i<num_host c. hm_ison (sm_current_liveset (d_sm d)) i)"

text \<open>A live set that has the local host was published in the State-File.\<close>

definition invited :: "ha_config \<Rightarrow> daemon \<Rightarrow> bool" where
  "invited c d \<longleftrightarrow> hm_ison (sm_current_liveset (d_sm d)) (my_index c) \<and>
     (\<exists>i<num_host c. sm_current_liveset (d_sm d) = raw_current_liveset (sf_raw (d_sf d) i))"

text \<open>The live set is the hosts with State-File access that are online; all are heard.\<close>

definition may_join :: "ha_config \<Rightarrow> daemon \<Rightarrow> bool" where
  "may_join c d \<longleftrightarrow> (\<forall>i<num_host c.
     (hm_ison (sf_sfdomain (d_sf d)) i \<longrightarrow> hm_ison (hb_hbdomain (d_hb d)) i) \<and>
     (hm_ison (sm_current_liveset (d_sm d)) i \<longleftrightarrow>
        hm_ison (sf_sfdomain (d_sf d)) i \<and> \<not> hm_ison (sf_starting (d_sf d)) i))"

definition elected :: "ha_config \<Rightarrow> daemon \<Rightarrow> bool" where
  "elected c d \<longleftrightarrow> am_I_in_largest_partition c (d_hb d) (d_sf d) (sf_weight (d_sf d))"

lemma election_hbdomain:
  "hb_hbdomain hb = hb_hbdomain hb' \<Longrightarrow> am_I_in_largest_partition c hb sf w = am_I_in_largest_partition c hb' sf w"
  unfolding am_I_in_largest_partition_def partition_size_of_def by (simp only:)

lemma form_new_liveset_sel [simp]:
  "sm_current_liveset (d_sm (form_new_liveset l d)) = l" "sm_proposed_liveset (d_sm (form_new_liveset l d)) = l"
  "d_sf (form_new_liveset l d) = d_sf d" "hb_hbdomain (d_hb (form_new_liveset l d)) = hb_hbdomain (d_hb d)"
  "hb_join (d_hb (form_new_liveset l d)) = False"
  by (simp_all add: form_new_liveset_def with_sm_def with_hb_def)

lemma am_I_in_new_liveset_invited:
  "am_I_in_new_liveset c l d = Some l' \<Longrightarrow> invited c (form_new_liveset l' d)"
  by (auto simp: am_I_in_new_liveset_def invited_def Let_def first_host_Some split: option.splits if_splits)

definition started_well :: "ha_config \<Rightarrow> bool \<Rightarrow> daemon \<Rightarrow> bool" where
  "started_well c pool_init d \<longleftrightarrow>
     (if pool_init then all_in c d \<and> sf_pool_state (d_sf d) = SF_STATE_ACTIVE \<and> sf_mod_pool_state (d_sf d)
      else all_in c d \<or> invited c d \<or> may_join c d \<or> elected c d)"

lemma wait_booted_Some:
  "wait_until_all_hosts_booted c to st = Some (b, st') \<Longrightarrow>
   \<exists>x. sm_poll (poll_test (all_hosts_booted c)) False True False (since_start to) st = Some (x, st')"
  by (auto simp: wait_until_all_hosts_booted_def)

lemma start_with_all_outcome:
  assumes n: "num_host c \<le> 64" and env: "env_respects startup_rely (st_env st)"
    and up: "is_all_hosts_up c (hb_hbdomain hb)"
    and run: "start_with_all c pool_init hb st = Some (r, st')"
  shows "(r = None \<longrightarrow> env_respects startup_rely (st_env st')) \<and>
    (r \<noteq> None \<longrightarrow> started_well c pool_init (st_d st'))"
proof -
  define st1 where "st1 = st_upd (with_sm True (\<lambda>s. s\<lparr>sm_proposed_liveset := hb_hbdomain hb\<rparr>)) st"
  have st1: "st_env st1 = st_env st" "sm_proposed_liveset (d_sm (st_d st1)) = hb_hbdomain hb"
    by (simp_all add: st1_def with_sm_def)
  obtain b st2 where w: "wait_until_all_hosts_booted c (uint (((if pool_init then cfg_Tenable c else cfg_Tboot c)
        + SYNCHRONIZED_BOOT_TIMEOUT_EXTENDER c) * ONE_SEC)) st1 = Some (b, st2)"
    using run unfolding start_with_all_def Let_def st1_def[symmetric] by (auto simp: bind_eq_Some_conv)
  then obtain x where poll: "sm_poll (poll_test (all_hosts_booted c)) False True False
      (since_start (uint (((if pool_init then cfg_Tenable c else cfg_Tboot c)
        + SYNCHRONIZED_BOOT_TIMEOUT_EXTENDER c) * ONE_SEC))) st1 = Some (x, st2)"
    using wait_booted_Some by blast
  have resp: "startup_rely (st_d st1) (st_d st2)" "env_respects startup_rely (st_env st2)"
    using startup.poll_respects[OF poll] env st1 by simp_all
  then have all: "hm_ison (sm_proposed_liveset (d_sm (st_d st2))) i" if "i < num_host c" for i
    using that n up st1 by (simp add: startup_rely_def)
  have out: "(r, st') = (if b then (Some MTC_SUCCESS, if pool_init
       then st_upd (sf_set_pool_state True SF_STATE_ACTIVE) (st_upd (\<lambda>d. form_new_liveset (sm_proposed_liveset (d_sm d)) d) st2)
       else st_upd (\<lambda>d. form_new_liveset (sm_proposed_liveset (d_sm d)) d) st2) else (None, st2))"
    using run w unfolding start_with_all_def Let_def st1_def[symmetric] by (auto split: if_splits)
  show ?thesis
    using out resp(2) all by (auto simp: started_well_def all_in_def sf_set_pool_state_def with_sf_def split: if_splits)
qed

lemma join_existing_outcome:
  assumes n: "num_host c \<le> 64" and run: "join_existing c (d_hb (st_d st)) (d_sf (st_d st)) st = (Some s, st')"
  shows "started_well c False (st_d st')"
proof (cases "am_I_in_new_liveset c (sfdomain_nonstarting c (d_sf (st_d st))) (st_d st)")
  case (Some l)
  then show ?thesis
    using run am_I_in_new_liveset_invited[OF Some] by (auto simp: join_existing_def started_well_def)
next
  case None
  let ?d = "st_d st"
  let ?l = "hm_mask_unconfig (num_host c) (hm_diff (hm_mask_unconfig (num_host c) (sf_sfdomain (d_sf ?d))) (sf_starting (d_sf ?d)))"
  have sub: "hm_subseteq (hm_mask_unconfig (num_host c) (sf_sfdomain (d_sf ?d))) (hm_mask_unconfig (num_host c) (hb_hbdomain (d_hb ?d)))"
    and st': "st' = st_upd (with_sm True (\<lambda>s. s\<lparr>sm_proposed_liveset := ?l, sm_current_liveset := ?l\<rparr>)) st"
    using run None by (auto simp: join_existing_def Let_def split: if_splits)
  have "may_join c (st_d st')"
    unfolding may_join_def st' using n sub
    by (auto simp: with_sm_def hm_ison_mask hm_ison_diff hm_subseteq_iff)
  then show ?thesis by (simp add: started_well_def)
qed

lemma start_round_outcome:
  assumes n: "num_host c \<le> 64" and env: "env_respects startup_rely (st_env st)"
    and run: "start_round c pool_init st = Some (r, st')"
  shows "(r = None \<longrightarrow> env_respects startup_rely (st_env st')) \<and>
    (r = Some MTC_SUCCESS \<longrightarrow> started_well c pool_init (st_d st'))"
proof -
  define all_up where "all_up = (is_all_hosts_up c (hb_hbdomain (d_hb (st_d st))) \<and> is_all_hosts_up c (sf_sfdomain (d_sf (st_d st))))"
  obtain r1 st1 where j: "join_existing c (d_hb (st_d st)) (d_sf (st_d st)) st = (r1, st1)" by (metis surj_pair)
  have J: "r1 = None \<longrightarrow> env_respects startup_rely (st_env st1)"
    using env j join_existing_None[of c "d_hb (st_d st)" "d_sf (st_d st)" st st1] by auto
  consider (early) "r \<noteq> None" "r \<noteq> Some MTC_SUCCESS" | (wait) "r = None" "st' = st"
    | (all) "all_up" "start_with_all c pool_init (d_hb (st_d st)) st = Some (r, st')"
    | (join) "\<not> pool_init" "r = r1" "st' = st1"
    using run unfolding start_round_def Let_def all_up_def[symmetric] j
    by (auto split: if_splits)
  then show ?thesis
  proof cases
    case early
    then show ?thesis by blast
  next
    case wait
    then show ?thesis using env by simp
  next
    case all
    show ?thesis
      using start_with_all_outcome[OF n env _ all(2)] all(1) by (auto simp: all_up_def simp del: is_all_hosts_up_iff)
  next
    case join
    then show ?thesis using J join_existing_outcome[OF n] j by (cases r1) auto
  qed
qed

lemma start_timeout_outcome:
  assumes "start_timeout c pool_init excluded snap st = (MTC_SUCCESS, st')"
  shows "started_well c pool_init (st_d st')"
proof -
  have init: "\<not> pool_init" using assms by (auto simp: start_timeout_def)
  show ?thesis
  proof (cases "empty_liveset c (d_sm snap) (d_hb snap) (d_sf snap)")
    case False
    then obtain l where l: "am_I_in_new_liveset c (sfdomain_nonstarting c (d_sf snap)) (st_d st) = Some l"
      and st': "st' = st_upd (form_new_liveset l) st"
      using assms init by (auto simp: start_timeout_def split: option.splits)
    then show ?thesis using am_I_in_new_liveset_invited[OF l] init by (simp add: started_well_def)
  next
    case True
    then have win: "am_I_in_largest_partition c (d_hb (st_d st)) (d_sf (st_d st)) (sf_weight (d_sf (st_d st)))"
      and st': "st' = st_upd (form_new_liveset (hm_diff (hb_hbdomain (d_hb snap)) (hb_notjoining (d_hb snap)))) st"
      using assms init by (auto simp: start_timeout_def simp del: is_all_hosts_up_iff split: if_splits)
    have "elected c (st_d st')"
      using win election_hbdomain[of "d_hb (st_d st')" "d_hb (st_d st)" c "d_sf (st_d st)"]
      by (simp add: elected_def st')
    then show ?thesis using init by (simp add: started_well_def)
  qed
qed

lemma start_loop_outcome:
  assumes run: "start_loop c pool_state excluded st = Some (MTC_SUCCESS, st')"
    and n: "num_host c \<le> 64" and env: "env_respects startup_rely (st_env st)"
  shows "started_well c (pool_state = SF_STATE_INIT) (st_d st')"
proof -
  have "num_host c \<le> 64 \<longrightarrow> env_respects startup_rely (st_env st) \<longrightarrow> fst res = MTC_SUCCESS \<longrightarrow>
      started_well c (pool_state = SF_STATE_INIT) (st_d (snd res))"
    if "start_loop c pool_state excluded st = Some res" for c pool_state excluded st res
    using that
  proof (rule start_loop.raw_induct[rotated])
    fix loop :: "ha_config \<Rightarrow> u32 \<Rightarrow> bool \<Rightarrow> sm_st \<Rightarrow> (mtc_status \<times> sm_st) option"
    fix c pool_state excluded st and res :: "mtc_status \<times> sm_st"
    assume IH: "\<And>c pool_state excluded st res. loop c pool_state excluded st = Some res \<Longrightarrow>
        num_host c \<le> 64 \<longrightarrow> env_respects startup_rely (st_env st) \<longrightarrow> fst res = MTC_SUCCESS \<longrightarrow>
        started_well c (pool_state = SF_STATE_INIT) (st_d (snd res))"
      and step: "(let snap = st_d st; pool_init = (pool_state = SF_STATE_INIT)
        in Option.bind (start_round c pool_init st) (\<lambda>(r, st1). case r of Some status \<Rightarrow> Some (status, st1)
        | None \<Rightarrow> Option.bind (sm_wait_signals_sm_hb_sf True True True
            (since_start (uint (boot_time c pool_state * ONE_SEC)) st1) st1) (\<lambda>(signaled, st2).
              if signaled then loop c pool_state excluded st2
              else Some (start_timeout c pool_init excluded snap st2)))) = Some res"
    show "num_host c \<le> 64 \<longrightarrow> env_respects startup_rely (st_env st) \<longrightarrow> fst res = MTC_SUCCESS \<longrightarrow>
        started_well c (pool_state = SF_STATE_INIT) (st_d (snd res))"
    proof (intro impI)
      assume n: "num_host c \<le> 64" and env: "env_respects startup_rely (st_env st)" and ok: "fst res = MTC_SUCCESS"
      obtain r st1 where round: "start_round c (pool_state = SF_STATE_INIT) st = Some (r, st1)"
        by (rule bind_SomeE[OF step[unfolded Let_def]]) (metis surj_pair)
      note out = start_round_outcome[OF n env round]
      show "started_well c (pool_state = SF_STATE_INIT) (st_d (snd res))"
      proof (cases r)
        case (Some status)
        then show ?thesis using step round out ok by (simp add: Let_def) (metis fst_conv snd_conv)
      next
        case None
        obtain signaled st2 where w: "sm_wait_signals_sm_hb_sf True True True
            (since_start (uint (boot_time c pool_state * ONE_SEC)) st1) st1 = Some (signaled, st2)"
          by (rule bind_SomeE[OF step[unfolded Let_def round bind.simps prod.case None option.case]])
             (metis surj_pair)
        have env2: "env_respects startup_rely (st_env st2)"
          using startup.wait_respects[OF w] out None by simp
        have res: "(if signaled then loop c pool_state excluded st2
            else Some (start_timeout c (pool_state = SF_STATE_INIT) excluded (st_d st) st2)) = Some res"
          using step[unfolded Let_def round bind.simps prod.case None option.case w] .
        show ?thesis
        proof (cases signaled)
          case True
          then show ?thesis using res IH[of c pool_state excluded st2 res] n env2 ok by simp
        next
          case False
          then show ?thesis
            using res ok start_timeout_outcome[of c "pool_state = SF_STATE_INIT" excluded "st_d st" st2 "snd res"]
            by (cases res) simp
        qed
      qed
    qed
  qed
  from this[OF run] n env show ?thesis by simp
qed

text \<open>
  C8. A host meets the start criteria on one of these grounds only. In a pool in the state
  INIT: every configured host is in its live set, and the change of the pool state to ACTIVE
  is on its way; an INIT pool never starts with a subset. In a pool in the state ACTIVE:
  every configured host is in its live set, or the live set is one that a host with the
  State-File has published and that has the local host, or it is the set of the online
  hosts with the State-File, all of them heard on the heartbeat (the host goes on to join
  it), or the local host is in the winning partition of the election.
\<close>

theorem start_criteria_grounds:
  assumes "test_Start_Criteria c st = Some (MTC_SUCCESS, st')"
    and "num_host c \<le> 64" and "env_respects startup_rely (st_env st)"
  shows "(if get_pool_state (st_d st) = SF_STATE_INIT
    then all_in c (st_d st') \<and> sf_pool_state (d_sf (st_d st')) = SF_STATE_ACTIVE \<and> sf_mod_pool_state (d_sf (st_d st'))
    else get_pool_state (st_d st) = SF_STATE_ACTIVE \<and>
      (all_in c (st_d st') \<or> invited c (st_d st') \<or> may_join c (st_d st') \<or> elected c (st_d st')))"
proof -
  have "start_loop c (get_pool_state (st_d st)) (get_excluded_flag (my_index c) (st_d st)) st = Some (MTC_SUCCESS, st')"
    and "get_pool_state (st_d st) = SF_STATE_INIT \<or> get_pool_state (st_d st) = SF_STATE_ACTIVE"
    using assms(1) by (auto simp: test_Start_Criteria_def Let_def split: if_splits)
  then show ?thesis
    using start_loop_outcome[OF _ assms(2,3)] by (fastforce simp: started_well_def split: if_splits)
qed

text \<open>An INIT pool of one host with both domains up starts at once.\<close>

definition lone_daemon :: daemon where
  "lone_daemon = (let d = init_daemon (default_config 1 0) in
     d\<lparr>d_sf := (d_sf d)\<lparr>sf_pool_state := SF_STATE_INIT, sf_access := True, sf_sfdomain := hm_of [0],
                        sf_starting := hm_of [0]\<rparr>,
       d_hb := (d_hb d)\<lparr>hb_hbdomain := hm_of [0]\<rparr>\<rparr>)"

lemma lone_daemon_sel:
  "get_pool_state lone_daemon = SF_STATE_INIT" "sf_access (d_sf lone_daemon)"
  "sf_sfdomain (d_sf lone_daemon) = hm_of [0]" "sf_starting (d_sf lone_daemon) = hm_of [0]"
  "hb_hbdomain (d_hb lone_daemon) = hm_of [0]" "sm_SR2 (d_sm lone_daemon) = False"
  by (simp_all add: lone_daemon_def get_pool_state_def init_daemon_def init_com_sm_def Let_def)

definition lone_config :: ha_config where "lone_config = default_config 1 0"

lemma lone_config_sel [simp]: "num_host lone_config = 1" "my_index lone_config = 0"
  by (simp_all add: lone_config_def)

lemma lone_daemon_round:
  "\<exists>st'. start_round lone_config True ([], 0, lone_daemon) = Some (Some MTC_SUCCESS, st')"
proof -
  have e: "empty_liveset lone_config (d_sm lone_daemon) (d_hb lone_daemon) (d_sf lone_daemon)"
    by (simp add: empty_liveset_def lone_daemon_sel sfdomain_nonstarting_def hm_ison_mask hm_ison_diff)
  have up: "is_all_hosts_up lone_config (hb_hbdomain (d_hb lone_daemon)) \<and> is_all_hosts_up lone_config (sf_sfdomain (d_sf lone_daemon))"
    by (simp add: lone_daemon_sel hm_ison_of)
  have p: "sm_poll (poll_test (all_hosts_booted lone_config)) False True False to st = Some (Some (), st)" for to st
    by (subst sm_poll.simps) (simp add: poll_test_def all_hosts_booted_def)
  have "\<exists>st'. start_with_all lone_config True hb st = Some (Some MTC_SUCCESS, st')" for hb st
    by (simp add: start_with_all_def wait_until_all_hosts_booted_def p Let_def)
  then show ?thesis
    using e up lone_daemon_sel(2) unfolding start_round_def Let_def by (simp del: is_all_hosts_up_iff)
qed

lemma lone_daemon_starts: "\<exists>st'. test_Start_Criteria lone_config ([], 0, lone_daemon) = Some (MTC_SUCCESS, st')"
proof -
  obtain st' where "start_round lone_config True ([], 0, lone_daemon) = Some (Some MTC_SUCCESS, st')"
    using lone_daemon_round by blast
  then have "start_loop lone_config SF_STATE_INIT e ([], 0, lone_daemon) = Some (MTC_SUCCESS, st')" for e
    by (subst start_loop.simps) (simp add: Let_def)
  then show ?thesis
    by (auto simp: test_Start_Criteria_def Let_def lone_daemon_sel)
qed

theorem start_criteria_grounds_witness:
  "\<exists>st'. test_Start_Criteria lone_config ([], 0, lone_daemon) = Some (MTC_SUCCESS, st')
     \<and> hm_ison (sm_current_liveset (d_sm (st_d st'))) 0"
proof -
  obtain st' where run: "test_Start_Criteria lone_config ([], 0, lone_daemon) = Some (MTC_SUCCESS, st')"
    using lone_daemon_starts by blast
  then show ?thesis
    using start_criteria_grounds[OF run] by (auto simp: lone_daemon_sel all_in_def simp del: split_paired_Ex)
qed

section \<open>Joining\<close>

interpretation anyone: interference "\<lambda>_ _. True"
  by unfold_locales simp_all

lemma respects_anyone [simp]: "env_respects (\<lambda>_ _. True) es"
  by (simp add: env_respects_def)

lemma join_finish_sel:
  "hb_join (d_hb (join_finish c joined d)) = False" "hb_raw (d_hb (join_finish c joined d)) = hb_raw (d_hb d)"
  "sm_current_liveset (d_sm (join_finish c joined d)) =
     (if joined then hm_set (sm_current_liveset (d_sm d)) (my_index c) else sm_current_liveset (d_sm d))"
  "sm_proposed_liveset (d_sm (join_finish c joined d)) =
     (if joined then sm_proposed_liveset (d_sm d) else hm_reset (sm_proposed_liveset (d_sm d)) (my_index c))"
  by (simp_all add: join_finish_def Let_def)

text \<open>
  C11. A host that has asked to join gets an answer once the clock is beyond the boot time
  from the request, whatever the other threads do: either every host of its live set has
  acknowledged it, and the local host is in the live set, or the request is withdrawn from
  the proposed live set. The join flag is down in both cases.
\<close>

theorem join_handshake:
  assumes "valid_config c" and "hb_join (d_hb (st_d st))" and "st_reaches T st"
    and "st_now st + uint (cfg_Tboot c * ONE_SEC) \<le> T"
  shows "\<exists>status st'. sm_join c st = Some (status, st') \<and> \<not> hb_join (d_hb (st_d st')) \<and>
    (if status = MTC_SUCCESS
     then hm_ison (sm_current_liveset (d_sm (st_d st'))) (my_index c) \<and>
       (\<forall>i<num_host c. i \<noteq> my_index c \<and> hm_ison (sm_current_liveset (d_sm (st_d st'))) i \<longrightarrow>
          hm_ison (raw_proposed_liveset (hb_raw (d_hb (st_d st')) i)) (my_index c))
     else status = MTC_ERROR_SM_JOIN_FAILED \<and> \<not> hm_ison (sm_proposed_liveset (d_sm (st_d st'))) (my_index c))"
proof -
  note cfg = valid_configD[OF assms(1)]
  define st1 where "st1 = st_upd (with_sm True (\<lambda>s. s\<lparr>sm_proposed_liveset := hm_set (sm_proposed_liveset s) (my_index c)\<rparr>)) st"
  define st2 where "st2 = st_upd (hb_send_hb_now c True (\<lambda>_. st_now st1) HB_ACCELERATION_COUNT_JOIN) st1"
  define to where "to = (\<lambda>s. time_left (uint (cfg_Tboot c * ONE_SEC)) (st_now st2) (st_now s))"
  have st2: "st_now st2 = st_now st" "st_env st2 = st_env st" by (simp_all add: st1_def st2_def)
  have "\<exists>r st'. sm_poll (poll_test (join_acked c)) True True False to st2 = Some (r, st') \<and> st_reaches T st' \<and> sm_fuel st' \<le> sm_fuel st2"
    by (rule anyone.poll_returns) (use assms(3,4) st2 in \<open>auto simp: to_def time_left_def Let_def\<close>)
  then obtain r st3 where poll: "sm_poll (poll_test (join_acked c)) True True False to st2 = Some (r, st3)"
    by blast
  have acked: "r \<noteq> None \<longrightarrow> join_acked c (st_d st3)"
    using anyone.poll_respects[OF poll] by simp
  have run: "sm_join c st = Some (if r \<noteq> None then MTC_SUCCESS else MTC_ERROR_SM_JOIN_FAILED, st_upd (join_finish c (r \<noteq> None)) st3)"
    using assms(2) poll unfolding sm_join_def Let_def to_def st1_def[symmetric] st2_def[symmetric] by simp
  show ?thesis
    unfolding run using acked cfg by (auto simp: join_finish_sel join_acked_def hm_ison_set hm_ison_reset)
qed

theorem join_handshake_witness:
  "\<exists>status st'. sm_join (default_config 3 0) ([(100000, id)], 0, set_heartbeat_join starting_daemon) = Some (status, st')"
  using join_handshake[where c = "default_config 3 0" and T = 100000
      and st = "([(100000, id)], 0, set_heartbeat_join starting_daemon)"]
  by (auto simp: valid_config_def MAX_HOST_NUM_def set_heartbeat_join_def with_hb_def ONE_SEC_def simp del: split_paired_Ex)

end
