(* ===== verification/Com.thy ===== *)
theory Com
  imports HaTypes
begin

text \<open>
  The common object manager \<^verbatim>\<open>daemon/com.c\<close>: a table of named, reference-counted objects
  with a reader/writer lock each, and callbacks that run when a writer lets go. Every
  function is one or more critical sections of \<open>com_mutex\<close>; each section is a function
  here, and a wait for the reader/writer lock is the point between two of them. The build
  of the Makefile has assertions on, so a failed one stops the process.
\<close>

section \<open>Data\<close>

type_synonym addr = nat
type_synonym thread = nat

datatype lock_state =
  LOCK_STATE_NONE | LOCK_STATE_READER_ACQUIREING | LOCK_STATE_READER_ACQUIRED
| LOCK_STATE_WRITER_ACQUIREING | LOCK_STATE_WRITER_ACQUIRED

record thread_id_record =
  tr_lock_state :: lock_state
  tr_changed_time :: clock
  tr_thread_id :: thread

definition THREAD_ID_RECORD_NUM :: nat where "THREAD_ID_RECORD_NUM = 16"

text \<open>
  The state of a \<open>pthread_rwlock_t\<close>: the threads that hold it. Locking is possible
  (\<open>Some\<close>) or blocks (\<open>None\<close>).
\<close>

datatype rwlock = RwRead "thread list" | RwWrite thread

definition pthread_rwlock_wrlock :: "thread \<Rightarrow> rwlock \<Rightarrow> rwlock option" where
  "pthread_rwlock_wrlock t rw = (if rw = RwRead [] then Some (RwWrite t) else None)"

definition pthread_rwlock_rdlock :: "thread \<Rightarrow> rwlock \<Rightarrow> rwlock option" where
  "pthread_rwlock_rdlock t rw = (case rw of RwRead ts \<Rightarrow> Some (RwRead (t # ts)) | RwWrite _ \<Rightarrow> None)"

definition pthread_rwlock_unlock :: "thread \<Rightarrow> rwlock \<Rightarrow> rwlock" where
  "pthread_rwlock_unlock t rw = (case rw of RwRead ts \<Rightarrow> RwRead (remove1 t ts) | RwWrite _ \<Rightarrow> RwRead [])"

text \<open>A callback is known by the number of its function, with the handle it was registered for.\<close>

type_synonym callback = nat

record com_object =
  co_object_id :: string
  co_size :: u32
  co_buffer :: "u8 list option"
  co_callbacks :: "(addr \<times> callback) list"
  co_rwlock :: rwlock
  co_in_use :: u32
  co_ref_count :: u32
  co_checksum :: u32
  co_records :: "thread_id_record list"

text \<open>
  The chain of a bucket is the list of the addresses of its objects; a handle is the address
  of its object while it is allocated, with its magic in place.
\<close>

record com_state =
  cs_table :: "nat \<Rightarrow> addr list"
  cs_objects :: "addr \<Rightarrow> com_object option"
  cs_handles :: "addr \<Rightarrow> addr option"

datatype com_stop = ComExit mtc_status | ComAbort

type_synonym 'a com_result = "com_stop + 'a"

definition put_object :: "addr \<Rightarrow> com_object \<Rightarrow> com_state \<Rightarrow> com_state" where
  "put_object a ob s = s\<lparr>cs_objects := (cs_objects s)(a \<mapsto> ob)\<rparr>"

section \<open>Helpers\<close>

definition calc_checksum_object_buffer :: "com_object \<Rightarrow> u32" where
  "calc_checksum_object_buffer ob =
     (case co_buffer ob of
        None \<Rightarrow> 0
      | Some buf \<Rightarrow> fold (\<lambda>b checksum. checksum XOR ucast b) (take (unat (co_size ob)) buf) 0)"

definition HASH_TABLE_SIZE :: nat where "HASH_TABLE_SIZE = 1024"
definition HASH_TABLE_PLACE_CONSTANT :: u32 where "HASH_TABLE_PLACE_CONSTANT = 137"
definition HASH_TABLE_PRIME_NUMBER :: u32 where "HASH_TABLE_PRIME_NUMBER = 1021"

text \<open>\<open>(MTC_U32)*c\<close> of a signed \<open>char\<close> extends the sign.\<close>

definition char_u32 :: "char \<Rightarrow> u32" where
  "char_u32 c = scast (of_char c :: u8)"

definition calc_hash :: "string \<Rightarrow> u32" where
  "calc_hash object_id =
     fold (\<lambda>c h. h * HASH_TABLE_PLACE_CONSTANT + char_u32 c) object_id 0 mod HASH_TABLE_PRIME_NUMBER"

abbreviation bucket :: "string \<Rightarrow> nat" where
  "bucket object_id \<equiv> unat (calc_hash object_id)"

text \<open>The object a valid handle stands for; both assertions on handles fail otherwise.\<close>

definition handle_object :: "com_state \<Rightarrow> addr \<Rightarrow> (addr \<times> com_object) option" where
  "handle_object s h = (case cs_handles s h of None \<Rightarrow> None
     | Some a \<Rightarrow> (case cs_objects s a of None \<Rightarrow> None | Some ob \<Rightarrow> Some (a, ob)))"

definition object_safe_to_delete :: "com_object \<Rightarrow> bool" where
  "object_safe_to_delete ob \<longleftrightarrow> co_ref_count ob = 0 \<and> co_in_use ob = 0 \<and> co_callbacks ob = []"

text \<open>\<open>new_object_buffer\<close>; the flag says whether the allocation succeeds.\<close>

definition new_object_buffer :: "bool \<Rightarrow> u32 \<Rightarrow> u8 list \<Rightarrow> com_object \<Rightarrow> bool \<times> com_object" where
  "new_object_buffer ok sz buf ob =
     (if \<not> ok then (False, ob\<lparr>co_size := 0, co_buffer := None\<rparr>)
      else (True, ob\<lparr>co_size := sz, co_buffer := Some (take (unat sz) buf)\<rparr>))"

definition new_object :: "bool \<Rightarrow> string \<Rightarrow> u32 \<Rightarrow> u8 list option \<Rightarrow> com_object option" where
  "new_object ok object_id sz buffer =
     (let ob = \<lparr>co_object_id = object_id, co_size = 0, co_buffer = None, co_callbacks = [],
            co_rwlock = RwRead [], co_in_use = 0, co_ref_count = 0, co_checksum = 0,
            co_records = replicate THREAD_ID_RECORD_NUM
              \<lparr>tr_lock_state = LOCK_STATE_NONE, tr_changed_time = 0, tr_thread_id = 0\<rparr>\<rparr>;
          (ok1, ob1) = (case buffer of Some buf \<Rightarrow> new_object_buffer ok sz buf ob | None \<Rightarrow> (ok, ob))
      in if \<not> ok1 then None else Some (ob1\<lparr>co_checksum := calc_checksum_object_buffer ob1\<rparr>))"

definition find_common_object :: "com_state \<Rightarrow> string \<Rightarrow> addr option" where
  "find_common_object s object_id =
     List.find (\<lambda>a. map_option co_object_id (cs_objects s a) = Some object_id) (cs_table s (bucket object_id))"

definition insert_common_object :: "addr \<Rightarrow> com_object \<Rightarrow> com_state \<Rightarrow> com_state" where
  "insert_common_object a ob s =
     put_object a ob (s\<lparr>cs_table := (cs_table s)(bucket (co_object_id ob) := a # cs_table s (bucket (co_object_id ob)))\<rparr>)"

text \<open>The first entry with the name leaves the chain.\<close>

definition delete_common_object :: "string \<Rightarrow> com_state \<Rightarrow> addr option \<times> com_state" where
  "delete_common_object object_id s =
     (case find_common_object s object_id of
        None \<Rightarrow> (None, s)
      | Some a \<Rightarrow> (Some a, s\<lparr>cs_table := (cs_table s)(bucket object_id := remove1 a (cs_table s (bucket object_id)))\<rparr>))"

definition insert_callback_list_item :: "addr \<Rightarrow> callback \<Rightarrow> com_object \<Rightarrow> com_object" where
  "insert_callback_list_item h func ob = ob\<lparr>co_callbacks := (h, func) # co_callbacks ob\<rparr>"

fun delete_first :: "callback \<Rightarrow> (addr \<times> callback) list \<Rightarrow> (addr \<times> callback) list option" where
  "delete_first func [] = None"
| "delete_first func ((h, f) # items) =
     (if f = func then Some items else map_option (Cons (h, f)) (delete_first func items))"

definition delete_callback_list_item :: "callback \<Rightarrow> com_object \<Rightarrow> com_object option" where
  "delete_callback_list_item func ob = map_option (\<lambda>items. ob\<lparr>co_callbacks := items\<rparr>) (delete_first func (co_callbacks ob))"

definition acquiring :: "lock_state \<Rightarrow> bool" where
  "acquiring st \<longleftrightarrow> st = LOCK_STATE_READER_ACQUIREING \<or> st = LOCK_STATE_WRITER_ACQUIREING"

text \<open>\<open>None\<close> is the failed assertion: the table is full, or the thread has no record.\<close>

definition set_thread_id_record :: "thread \<Rightarrow> clock \<Rightarrow> lock_state \<Rightarrow> com_object \<Rightarrow> com_object option" where
  "set_thread_id_record self now st ob =
     (let rs = co_records ob in
      if acquiring st
      then map_option (\<lambda>i. ob\<lparr>co_records := rs[i := \<lparr>tr_lock_state = st, tr_changed_time = now, tr_thread_id = self\<rparr>]\<rparr>)
             (first_host (length rs) (\<lambda>i. tr_lock_state (rs ! i) = LOCK_STATE_NONE))
      else map_option (\<lambda>i. ob\<lparr>co_records := rs[i := (rs ! i)\<lparr>tr_lock_state := st, tr_changed_time := now\<rparr>]\<rparr>)
             (first_host (length rs) (\<lambda>i. tr_lock_state (rs ! i) \<noteq> LOCK_STATE_NONE \<and> tr_thread_id (rs ! i) = self)))"

definition record_or_abort :: "thread \<Rightarrow> clock \<Rightarrow> lock_state \<Rightarrow> com_object \<Rightarrow> com_object com_result" where
  "record_or_abort self now st ob = (case set_thread_id_record self now st ob of None \<Rightarrow> Inl ComAbort | Some ob1 \<Rightarrow> Inr ob1)"

section \<open>Locks\<close>

text \<open>The first section of \<open>com_writer_lock\<close> and \<open>com_reader_lock\<close>: announce the wait.\<close>

definition com_lock_enter :: "lock_state \<Rightarrow> thread \<Rightarrow> clock \<Rightarrow> addr \<Rightarrow> com_state \<Rightarrow> com_state com_result" where
  "com_lock_enter st self now h s =
     (case handle_object s h of
        None \<Rightarrow> Inl ComAbort
      | Some (a, ob) \<Rightarrow> map_sum id (\<lambda>ob1. put_object a ob1 s)
          (record_or_abort self now st (ob\<lparr>co_in_use := co_in_use ob + 1\<rparr>)))"

text \<open>
  The second section, entered with the lock (\<open>lock\<close> is \<open>pthread_rwlock_wrlock\<close> or
  \<open>pthread_rwlock_rdlock\<close>; \<open>None\<close> while it blocks); \<open>ok\<close> is false when the pthread call
  fails or the fault point \<open>com.pthread\<close> is on. The buffer is handed out.
\<close>

definition com_lock_acquired :: "lock_state \<Rightarrow> (thread \<Rightarrow> rwlock \<Rightarrow> rwlock option) \<Rightarrow> bool \<Rightarrow> thread \<Rightarrow> clock
  \<Rightarrow> addr \<Rightarrow> com_state \<Rightarrow> (u8 list option \<times> com_state) com_result option" where
  "com_lock_acquired st lock ok self now h s =
     (case handle_object s h of
        None \<Rightarrow> Some (Inl ComAbort)
      | Some (a, ob) \<Rightarrow> map_option (\<lambda>rw.
          case record_or_abort self now st (ob\<lparr>co_rwlock := rw\<rparr>) of
            Inl stop \<Rightarrow> Inl stop
          | Inr ob1 \<Rightarrow> if \<not> ok then Inl (ComExit MTC_ERROR_COM_PTHREAD) else Inr (co_buffer ob1, put_object a ob1 s))
          (lock self (co_rwlock ob)))"

definition com_writer_lock_enter :: "thread \<Rightarrow> clock \<Rightarrow> addr \<Rightarrow> com_state \<Rightarrow> com_state com_result" where
  "com_writer_lock_enter = com_lock_enter LOCK_STATE_WRITER_ACQUIREING"

definition com_writer_lock_acquired where
  "com_writer_lock_acquired = com_lock_acquired LOCK_STATE_WRITER_ACQUIRED pthread_rwlock_wrlock"

definition com_reader_lock_enter :: "thread \<Rightarrow> clock \<Rightarrow> addr \<Rightarrow> com_state \<Rightarrow> com_state com_result" where
  "com_reader_lock_enter = com_lock_enter LOCK_STATE_READER_ACQUIREING"

definition com_reader_lock_acquired where
  "com_reader_lock_acquired = com_lock_acquired LOCK_STATE_READER_ACQUIRED pthread_rwlock_rdlock"

text \<open>
  What the callbacks do to the buffer is an argument (\<open>cb\<close>): they are code of the modules
  that registered them. The calls are returned in the order they are made.
\<close>

definition run_callbacks :: "(callback \<Rightarrow> addr \<Rightarrow> u8 list option \<Rightarrow> u8 list option) \<Rightarrow> com_object
  \<Rightarrow> (callback \<times> addr) list \<times> com_object" where
  "run_callbacks cb ob =
     (map (\<lambda>(h, f). (f, h)) (co_callbacks ob),
      ob\<lparr>co_buffer := fold (\<lambda>(h, f). cb f h) (co_callbacks ob) (co_buffer ob)\<rparr>)"

definition leave_lock :: "bool \<Rightarrow> thread \<Rightarrow> clock \<Rightarrow> com_object \<Rightarrow> com_object com_result" where
  "leave_lock ok self now ob =
     (case record_or_abort self now LOCK_STATE_NONE (ob\<lparr>co_in_use := co_in_use ob - 1\<rparr>) of
        Inl stop \<Rightarrow> Inl stop
      | Inr ob1 \<Rightarrow> if \<not> ok then Inl (ComExit MTC_ERROR_COM_PTHREAD)
                  else Inr (ob1\<lparr>co_rwlock := pthread_rwlock_unlock self (co_rwlock ob1)\<rparr>))"

definition com_writer_unlock :: "(callback \<Rightarrow> addr \<Rightarrow> u8 list option \<Rightarrow> u8 list option) \<Rightarrow> bool \<Rightarrow> thread \<Rightarrow> clock
  \<Rightarrow> addr \<Rightarrow> com_state \<Rightarrow> ((callback \<times> addr) list \<times> com_state) com_result" where
  "com_writer_unlock cb ok self now h s =
     (case handle_object s h of
        None \<Rightarrow> Inl ComAbort
      | Some (a, ob) \<Rightarrow>
          (case run_callbacks cb ob of (calls, ob1) \<Rightarrow>
             map_sum id (\<lambda>ob2. (calls, put_object a ob2 s))
               (leave_lock ok self now (ob1\<lparr>co_checksum := calc_checksum_object_buffer ob1\<rparr>))))"

definition com_reader_unlock :: "bool \<Rightarrow> thread \<Rightarrow> clock \<Rightarrow> addr \<Rightarrow> com_state \<Rightarrow> com_state com_result" where
  "com_reader_unlock ok self now h s =
     (case handle_object s h of
        None \<Rightarrow> Inl ComAbort
      | Some (a, ob) \<Rightarrow>
          if co_checksum ob \<noteq> calc_checksum_object_buffer ob then Inl ComAbort
          else map_sum id (\<lambda>ob1. put_object a ob1 s) (leave_lock ok self now ob))"

section \<open>Creating and opening\<close>

text \<open>
  The results of \<open>malloc\<close> are arguments: the address of the new object and of the new
  handle (\<open>None\<close> when there is no memory), and whether the smaller blocks were got.
\<close>

record com_alloc =
  al_object :: "addr option"
  al_blocks :: bool
  al_handle :: "addr option"

definition com_create_new :: "com_alloc \<Rightarrow> bool \<Rightarrow> string \<Rightarrow> u32 \<Rightarrow> u8 list option \<Rightarrow> com_state
  \<Rightarrow> (addr \<times> com_state) com_result" where
  "com_create_new al ok object_id sz buffer s =
     (case (al_object al, new_object (al_blocks al) object_id sz buffer) of
        (Some a, Some ob) \<Rightarrow>
          (if \<not> ok then Inl (ComExit MTC_ERROR_COM_PTHREAD)
           else (let s1 = insert_common_object a ob s
                 in (case al_handle al of
                       None \<Rightarrow> Inl (ComExit MTC_ERROR_COM_INSUFFICIENT_RESOURCE)
                     | Some h \<Rightarrow> Inr (h, put_object a (ob\<lparr>co_ref_count := co_ref_count ob + 1\<rparr>)
                                  (s1\<lparr>cs_handles := (cs_handles s1)(h \<mapsto> a)\<rparr>)))))
      | _ \<Rightarrow> Inl (ComExit MTC_ERROR_COM_INSUFFICIENT_RESOURCE))"

definition com_create_existing :: "com_alloc \<Rightarrow> thread \<Rightarrow> clock \<Rightarrow> addr \<Rightarrow> com_state \<Rightarrow> (addr \<times> com_state) com_result" where
  "com_create_existing al self now a s =
     (case (al_handle al, cs_objects s a) of
        (Some h, Some ob) \<Rightarrow>
          map_sum id (\<lambda>ob1. (h, put_object a ob1 (s\<lparr>cs_handles := (cs_handles s)(h \<mapsto> a)\<rparr>)))
            (record_or_abort self now LOCK_STATE_WRITER_ACQUIREING
               (ob\<lparr>co_ref_count := co_ref_count ob + 1, co_in_use := co_in_use ob + 1\<rparr>))
      | _ \<Rightarrow> Inl (ComExit MTC_ERROR_COM_INSUFFICIENT_RESOURCE))"

text \<open>
  The first section; the Boolean says whether the object existed and the call goes on.
\<close>

definition com_create_enter :: "com_alloc \<Rightarrow> bool \<Rightarrow> thread \<Rightarrow> clock \<Rightarrow> string \<Rightarrow> u32 \<Rightarrow> u8 list option \<Rightarrow> com_state
  \<Rightarrow> (bool \<times> addr \<times> com_state) com_result" where
  "com_create_enter al ok self now object_id sz buffer s =
     (case find_common_object s object_id of
        Some a \<Rightarrow> map_sum id (\<lambda>(h, s1). (True, h, s1)) (com_create_existing al self now a s)
      | None \<Rightarrow> map_sum id (\<lambda>(h, s1). (False, h, s1)) (com_create_new al ok object_id sz buffer s))"

text \<open>Between the sections, without the mutex: is there data to fill in?\<close>

definition com_create_fills :: "u8 list option \<Rightarrow> addr \<Rightarrow> com_state \<Rightarrow> bool" where
  "com_create_fills buffer h s \<longleftrightarrow> buffer \<noteq> None \<and>
     (case handle_object s h of Some (a, ob) \<Rightarrow> co_buffer ob = None | None \<Rightarrow> False)"

text \<open>
  The section that fills the object, entered with the writer lock; after every callback the
  checksum is compared, so a callback that changes the data stops the process. The record
  of the thread was set in the same section, so leaving finds it whether the lock or the
  record is released first.
\<close>

fun run_checked :: "(callback \<Rightarrow> addr \<Rightarrow> u8 list option \<Rightarrow> u8 list option) \<Rightarrow> (addr \<times> callback) list
  \<Rightarrow> com_object \<Rightarrow> com_object option" where
  "run_checked cb [] ob = Some ob"
| "run_checked cb ((h, f) # items) ob =
     (let ob1 = ob\<lparr>co_buffer := cb f h (co_buffer ob)\<rparr>
      in if co_checksum ob1 = calc_checksum_object_buffer ob1 then run_checked cb items ob1 else None)"

definition fill_object :: "(callback \<Rightarrow> addr \<Rightarrow> u8 list option \<Rightarrow> u8 list option) \<Rightarrow> bool \<Rightarrow> u32 \<Rightarrow> u8 list
  \<Rightarrow> com_object \<Rightarrow> com_object com_result" where
  "fill_object cb blocks sz buf ob =
     (case new_object_buffer blocks sz buf ob of (got, ob1) \<Rightarrow>
        if \<not> got then Inl (ComExit MTC_ERROR_COM_INSUFFICIENT_RESOURCE)
        else (case run_checked cb (co_callbacks ob1) (ob1\<lparr>co_checksum := calc_checksum_object_buffer ob1\<rparr>) of
                None \<Rightarrow> Inl ComAbort
              | Some ob2 \<Rightarrow> Inr ob2))"

definition fill_section :: "(callback \<Rightarrow> addr \<Rightarrow> u8 list option \<Rightarrow> u8 list option) \<Rightarrow> bool \<Rightarrow> bool \<Rightarrow> bool \<Rightarrow> thread
  \<Rightarrow> clock \<Rightarrow> u32 \<Rightarrow> u8 list \<Rightarrow> com_object \<Rightarrow> com_object com_result" where
  "fill_section cb blocks ok_lock ok_unlock self now sz buf ob =
     (case record_or_abort self now LOCK_STATE_WRITER_ACQUIRED ob of
        Inl stop \<Rightarrow> Inl stop
      | Inr ob1 \<Rightarrow>
          if \<not> ok_lock then Inl (ComExit MTC_ERROR_COM_PTHREAD)
          else (case fill_object cb blocks sz buf ob1 of
                  Inl stop \<Rightarrow> Inl stop
                | Inr ob2 \<Rightarrow> leave_lock ok_unlock self now ob2))"

definition com_create_fill :: "(callback \<Rightarrow> addr \<Rightarrow> u8 list option \<Rightarrow> u8 list option) \<Rightarrow> bool \<Rightarrow> bool \<Rightarrow> bool \<Rightarrow> thread
  \<Rightarrow> clock \<Rightarrow> u32 \<Rightarrow> u8 list \<Rightarrow> addr \<Rightarrow> com_state \<Rightarrow> com_state com_result option" where
  "com_create_fill cb blocks ok_lock ok_unlock self now sz buf h s =
     (case handle_object s h of
        None \<Rightarrow> Some (Inl ComAbort)
      | Some (a, ob) \<Rightarrow> map_option (\<lambda>rw.
          map_sum id (\<lambda>ob1. put_object a ob1 s)
            (fill_section cb blocks ok_lock ok_unlock self now sz buf (ob\<lparr>co_rwlock := rw\<rparr>)))
          (pthread_rwlock_wrlock self (co_rwlock ob)))"

text \<open>The section when there is nothing to fill in; the lock was not taken.\<close>

definition com_create_leave :: "thread \<Rightarrow> clock \<Rightarrow> addr \<Rightarrow> com_state \<Rightarrow> com_state com_result" where
  "com_create_leave self now h s =
     (case handle_object s h of
        None \<Rightarrow> Inl ComAbort
      | Some (a, ob) \<Rightarrow> map_sum id (\<lambda>ob1. put_object a (ob1\<lparr>co_in_use := co_in_use ob1 - 1\<rparr>) s)
          (record_or_abort self now LOCK_STATE_NONE ob))"

text \<open>\<open>com_open\<close> is a creation without data.\<close>

definition com_open_enter :: "com_alloc \<Rightarrow> bool \<Rightarrow> thread \<Rightarrow> clock \<Rightarrow> string \<Rightarrow> com_state \<Rightarrow> (bool \<times> addr \<times> com_state) com_result" where
  "com_open_enter al ok self now object_id s = com_create_enter al ok self now object_id 0 None s"

section \<open>Closing\<close>

definition com_close :: "addr \<Rightarrow> com_state \<Rightarrow> (mtc_status \<times> com_state) com_result" where
  "com_close h s =
     (case handle_object s h of
        None \<Rightarrow> Inl ComAbort
      | Some (a, ob) \<Rightarrow>
          (let ob1 = (if co_ref_count ob \<noteq> 0 then ob\<lparr>co_ref_count := co_ref_count ob - 1\<rparr> else ob);
               s1 = put_object a ob1 s
           in if object_safe_to_delete ob1 then
                (case delete_common_object (co_object_id ob1) s1 of
                   (None, _) \<Rightarrow> Inl ComAbort
                 | (Some _, s2) \<Rightarrow> Inr (MTC_SUCCESS, s2\<lparr>cs_objects := (cs_objects s2)(a := None),
                                                      cs_handles := (cs_handles s2)(h := None)\<rparr>))
              else Inr (MTC_SUCCESS, s1\<lparr>cs_handles := (cs_handles s1)(h := None)\<rparr>)))"

section \<open>Callbacks\<close>

text \<open>The flag says whether there is memory for the list item.\<close>

definition com_register_callback :: "bool \<Rightarrow> addr \<Rightarrow> callback option \<Rightarrow> com_state \<Rightarrow> (mtc_status \<times> com_state) com_result" where
  "com_register_callback ok h func s =
     (case handle_object s h of
        None \<Rightarrow> Inl ComAbort
      | Some (a, ob) \<Rightarrow>
          (case func of
             None \<Rightarrow> Inl ComAbort
           | Some f \<Rightarrow> if \<not> ok then Inl (ComExit MTC_ERROR_COM_INSUFFICIENT_RESOURCE)
                      else Inr (MTC_SUCCESS, put_object a (insert_callback_list_item h f ob) s)))"

definition com_deregister_callback :: "addr \<Rightarrow> callback option \<Rightarrow> com_state \<Rightarrow> (mtc_status \<times> com_state) com_result" where
  "com_deregister_callback h func s =
     (case handle_object s h of
        None \<Rightarrow> Inl ComAbort
      | Some (a, ob) \<Rightarrow>
          (case func of
             None \<Rightarrow> Inl ComAbort
           | Some f \<Rightarrow> (case delete_callback_list_item f ob of
                         None \<Rightarrow> Inl ComAbort
                       | Some ob1 \<Rightarrow> Inr (MTC_SUCCESS, put_object a ob1 s))))"

end
