(* ===== verification/ComProps.thy ===== *)
theory ComProps
  imports Com "HOL-Library.Multiset"
begin

text \<open>
  The common object manager with any number of threads: every interleaving of its critical
  sections keeps the table, the reference counts, the thread records and the locks
  consistent, so an object is never freed while a thread waits for it or holds it.
\<close>

section \<open>The threads\<close>

text \<open>Where a thread is with an object, between two critical sections.\<close>

datatype com_pc = Idle | Creating | Filling | WaitW | WaitR | HoldW | HoldR

record com_run =
  run_s :: com_state
  run_pc :: "addr \<Rightarrow> thread \<Rightarrow> com_pc"

definition at_pc :: "com_run \<Rightarrow> thread \<Rightarrow> addr \<Rightarrow> com_pc \<Rightarrow> com_state \<Rightarrow> com_run" where
  "at_pc r t a p s = \<lparr>run_s = s, run_pc = (run_pc r)(a := (run_pc r a)(t := p))\<rparr>"

text \<open>
  \<open>malloc\<close> returns addresses that are not in use, and not more than \<open>2 ^ 32\<close> handles fit
  in memory. A thread uses a valid handle of the object, and does not lock an object it
  already waits for or holds.
\<close>

definition fresh_alloc :: "com_alloc \<Rightarrow> com_state \<Rightarrow> bool" where
  "fresh_alloc al s \<longleftrightarrow> (\<forall>a. al_object al = Some a \<longrightarrow> cs_objects s a = None) \<and>
     (\<forall>h. al_handle al = Some h \<longrightarrow> cs_handles s h = None \<and> card (dom (cs_handles s)) + 1 < 2 ^ 32)"

inductive com_step :: "com_run \<Rightarrow> com_run \<Rightarrow> bool" where
  step_create_new: "fresh_alloc al (run_s r) \<Longrightarrow>
    com_create_enter al ok t now object_id sz buffer (run_s r) = Inr (False, h, s') \<Longrightarrow>
    com_step r (r\<lparr>run_s := s'\<rparr>)"
| step_create_old: "fresh_alloc al (run_s r) \<Longrightarrow>
    com_create_enter al ok t now object_id sz buffer (run_s r) = Inr (True, h, s') \<Longrightarrow>
    cs_handles s' h = Some a \<Longrightarrow> run_pc r a t = Idle \<Longrightarrow> com_step r (at_pc r t a Creating s')"
| step_create_test: "run_pc r a t = Creating \<Longrightarrow> cs_handles (run_s r) h = Some a \<Longrightarrow>
    com_create_fills buffer h (run_s r) \<Longrightarrow> com_step r (at_pc r t a Filling (run_s r))"
| step_create_fill: "run_pc r a t = Filling \<Longrightarrow> cs_handles (run_s r) h = Some a \<Longrightarrow>
    com_create_fill cb blocks ok1 ok2 t now sz buf h (run_s r) = Some (Inr s') \<Longrightarrow> com_step r (at_pc r t a Idle s')"
| step_create_leave: "run_pc r a t = Creating \<Longrightarrow> cs_handles (run_s r) h = Some a \<Longrightarrow>
    com_create_leave t now h (run_s r) = Inr s' \<Longrightarrow> com_step r (at_pc r t a Idle s')"
| step_wlock_enter: "run_pc r a t = Idle \<Longrightarrow> cs_handles (run_s r) h = Some a \<Longrightarrow>
    com_writer_lock_enter t now h (run_s r) = Inr s' \<Longrightarrow> com_step r (at_pc r t a WaitW s')"
| step_wlock: "run_pc r a t = WaitW \<Longrightarrow> cs_handles (run_s r) h = Some a \<Longrightarrow>
    com_writer_lock_acquired ok t now h (run_s r) = Some (Inr (buf, s')) \<Longrightarrow> com_step r (at_pc r t a HoldW s')"
| step_write: "run_pc r a t = HoldW \<Longrightarrow> cs_objects (run_s r) a = Some ob \<Longrightarrow>
    com_step r (r\<lparr>run_s := put_object a (ob\<lparr>co_buffer := buf\<rparr>) (run_s r)\<rparr>)"
| step_wunlock: "run_pc r a t = HoldW \<Longrightarrow> cs_handles (run_s r) h = Some a \<Longrightarrow>
    com_writer_unlock cb ok t now h (run_s r) = Inr (calls, s') \<Longrightarrow> com_step r (at_pc r t a Idle s')"
| step_rlock_enter: "run_pc r a t = Idle \<Longrightarrow> cs_handles (run_s r) h = Some a \<Longrightarrow>
    com_reader_lock_enter t now h (run_s r) = Inr s' \<Longrightarrow> com_step r (at_pc r t a WaitR s')"
| step_rlock: "run_pc r a t = WaitR \<Longrightarrow> cs_handles (run_s r) h = Some a \<Longrightarrow>
    com_reader_lock_acquired ok t now h (run_s r) = Some (Inr (buf, s')) \<Longrightarrow> com_step r (at_pc r t a HoldR s')"
| step_runlock: "run_pc r a t = HoldR \<Longrightarrow> cs_handles (run_s r) h = Some a \<Longrightarrow>
    com_reader_unlock ok t now h (run_s r) = Inr s' \<Longrightarrow> com_step r (at_pc r t a Idle s')"
| step_close: "com_close h (run_s r) = Inr (st, s') \<Longrightarrow> com_step r (r\<lparr>run_s := s'\<rparr>)"
| step_register: "com_register_callback ok h func (run_s r) = Inr (st, s') \<Longrightarrow> com_step r (r\<lparr>run_s := s'\<rparr>)"
| step_deregister: "com_deregister_callback h func (run_s r) = Inr (st, s') \<Longrightarrow> com_step r (r\<lparr>run_s := s'\<rparr>)"

definition com_start :: com_run where
  "com_start = \<lparr>run_s = \<lparr>cs_table = (\<lambda>_. []), cs_objects = (\<lambda>_. None), cs_handles = (\<lambda>_. None)\<rparr>,
     run_pc = (\<lambda>_ _. Idle)\<rparr>"

definition com_reachable :: "com_run \<Rightarrow> bool" where
  "com_reachable r \<longleftrightarrow> com_step\<^sup>*\<^sup>* com_start r"

section \<open>Thread records\<close>

definition owners :: "com_object \<Rightarrow> thread multiset" where
  "owners ob = image_mset tr_thread_id (filter_mset (\<lambda>x. tr_lock_state x \<noteq> LOCK_STATE_NONE) (mset (co_records ob)))"

lemma owners_size: "size (owners ob) \<le> length (co_records ob)"
  by (simp add: owners_def) (metis size_filter_mset_lesseq size_mset)

lemma owners_update:
  assumes "i < length (co_records ob)" and "ob' = ob\<lparr>co_records := (co_records ob)[i := x]\<rparr>"
  shows "owners ob' + (if tr_lock_state (co_records ob ! i) = LOCK_STATE_NONE then {#} else {#tr_thread_id (co_records ob ! i)#})
       = owners ob + (if tr_lock_state x = LOCK_STATE_NONE then {#} else {#tr_thread_id x#})"
proof -
  have m: "mset (co_records ob') + {#co_records ob ! i#} = mset (co_records ob) + {#x#}"
    using assms by (simp add: mset_update nth_mem_mset)
  have "image_mset tr_thread_id (filter_mset (\<lambda>x. tr_lock_state x \<noteq> LOCK_STATE_NONE) (mset (co_records ob') + {#co_records ob ! i#}))
      = image_mset tr_thread_id (filter_mset (\<lambda>x. tr_lock_state x \<noteq> LOCK_STATE_NONE) (mset (co_records ob) + {#x#}))"
    by (simp only: m)
  then show ?thesis by (auto simp: owners_def split: if_splits)
qed

lemma set_record_frame:
  assumes "set_thread_id_record t now st ob = Some ob'"
  shows "co_object_id ob' = co_object_id ob" "co_ref_count ob' = co_ref_count ob" "co_in_use ob' = co_in_use ob"
    "co_rwlock ob' = co_rwlock ob" "co_callbacks ob' = co_callbacks ob" "co_buffer ob' = co_buffer ob"
    "co_checksum ob' = co_checksum ob" "co_size ob' = co_size ob" "length (co_records ob') = length (co_records ob)"
  using assms by (auto simp: set_thread_id_record_def Let_def split: if_splits)

lemma set_record_owners:
  assumes "set_thread_id_record t now st ob = Some ob'"
  shows "owners ob' = (if acquiring st then add_mset t (owners ob)
      else if st = LOCK_STATE_NONE then owners ob - {#t#} else owners ob)"
proof (cases "acquiring st")
  case True
  then obtain i where i: "i < length (co_records ob)" "tr_lock_state (co_records ob ! i) = LOCK_STATE_NONE"
    and ob': "ob' = ob\<lparr>co_records := (co_records ob)[i := \<lparr>tr_lock_state = st, tr_changed_time = now, tr_thread_id = t\<rparr>]\<rparr>"
    using assms by (auto simp: set_thread_id_record_def Let_def first_host_Some)
  show ?thesis
    using owners_update[OF i(1) ob'] i(2) True by (auto simp: acquiring_def)
next
  case False
  then obtain i where i: "i < length (co_records ob)" "tr_lock_state (co_records ob ! i) \<noteq> LOCK_STATE_NONE"
      "tr_thread_id (co_records ob ! i) = t"
    and ob': "ob' = ob\<lparr>co_records := (co_records ob)[i := (co_records ob ! i)\<lparr>tr_lock_state := st, tr_changed_time := now\<rparr>]\<rparr>"
    using assms by (auto simp: set_thread_id_record_def Let_def first_host_Some)
  show ?thesis
    using owners_update[OF i(1) ob'] i(2,3) False by (cases "st = LOCK_STATE_NONE") (auto, metis add_mset_remove_trivial)
qed

lemma record_or_abort_Inr: "record_or_abort t now st ob = Inr ob' \<longleftrightarrow> set_thread_id_record t now st ob = Some ob'"
  by (auto simp: record_or_abort_def split: option.splits)

section \<open>The invariant\<close>

definition active :: "(thread \<Rightarrow> com_pc) \<Rightarrow> thread set" where
  "active pc = {t. pc t \<noteq> Idle}"

definition rw_ok :: "(thread \<Rightarrow> com_pc) \<Rightarrow> rwlock \<Rightarrow> bool" where
  "rw_ok pc rw = (case rw of
     RwWrite w \<Rightarrow> (\<forall>t. pc t = HoldW \<longleftrightarrow> t = w) \<and> (\<forall>t. pc t \<noteq> HoldR)
   | RwRead ts \<Rightarrow> distinct ts \<and> (\<forall>t. pc t = HoldR \<longleftrightarrow> t \<in> set ts) \<and> (\<forall>t. pc t \<noteq> HoldW))"

definition object_ok :: "(thread \<Rightarrow> com_pc) \<Rightarrow> com_object \<Rightarrow> bool" where
  "object_ok pc ob \<longleftrightarrow> finite (active pc) \<and> owners ob = mset_set (active pc) \<and>
     co_in_use ob = of_nat (card (active pc)) \<and> length (co_records ob) = THREAD_ID_RECORD_NUM \<and> rw_ok pc (co_rwlock ob)"

definition com_inv :: "com_run \<Rightarrow> bool" where
  "com_inv r \<longleftrightarrow>
     (\<forall>b. distinct (cs_table (run_s r) b)) \<and>
     (\<forall>b a. a \<in> set (cs_table (run_s r) b) \<longleftrightarrow> (\<exists>ob. cs_objects (run_s r) a = Some ob \<and> bucket (co_object_id ob) = b)) \<and>
     (\<forall>a b oa ob. cs_objects (run_s r) a = Some oa \<longrightarrow> cs_objects (run_s r) b = Some ob \<longrightarrow>
        co_object_id oa = co_object_id ob \<longrightarrow> a = b) \<and>
     finite (dom (cs_handles (run_s r))) \<and> card (dom (cs_handles (run_s r))) < 2 ^ 32 \<and>
     (\<forall>h a. cs_handles (run_s r) h = Some a \<longrightarrow> cs_objects (run_s r) a \<noteq> None) \<and>
     (\<forall>a ob. cs_objects (run_s r) a = Some ob \<longrightarrow>
        co_ref_count ob = of_nat (card {h. cs_handles (run_s r) h = Some a}) \<and> object_ok (run_pc r a) ob) \<and>
     (\<forall>a t. cs_objects (run_s r) a = None \<longrightarrow> run_pc r a t = Idle)"

lemma com_invD:
  assumes "com_inv r"
  shows "distinct (cs_table (run_s r) b)"
    and "a \<in> set (cs_table (run_s r) b) \<longleftrightarrow> (\<exists>ob. cs_objects (run_s r) a = Some ob \<and> bucket (co_object_id ob) = b)"
    and "cs_objects (run_s r) a = Some oa \<Longrightarrow> cs_objects (run_s r) a' = Some ob \<Longrightarrow> co_object_id oa = co_object_id ob \<Longrightarrow> a = a'"
    and "finite (dom (cs_handles (run_s r)))" and "card (dom (cs_handles (run_s r))) < 2 ^ 32"
    and "cs_handles (run_s r) h = Some a \<Longrightarrow> \<exists>ob. cs_objects (run_s r) a = Some ob"
    and "cs_objects (run_s r) a = Some ob \<Longrightarrow> co_ref_count ob = of_nat (card {h. cs_handles (run_s r) h = Some a})"
    and "cs_objects (run_s r) a = Some ob \<Longrightarrow> object_ok (run_pc r a) ob"
    and "cs_objects (run_s r) a = None \<Longrightarrow> run_pc r a t = Idle"
  using assms unfolding com_inv_def by blast+

text \<open>A section that works on one object.\<close>

lemma com_inv_put:
  assumes inv: "com_inv r" and ob: "cs_objects (run_s r) a = Some ob"
    and same: "co_object_id ob' = co_object_id ob" "co_ref_count ob' = co_ref_count ob"
    and ok: "object_ok pc ob'"
  shows "com_inv \<lparr>run_s = put_object a ob' (run_s r), run_pc = (run_pc r)(a := pc)\<rparr>"
proof -
  note I = com_invD[OF inv]
  show ?thesis
    unfolding com_inv_def put_object_def
    using I ob same ok by (auto split: if_splits) 
qed

section \<open>The sections of the locks\<close>

lemma active_upd:
  "p \<noteq> Idle \<Longrightarrow> active (pc(t := p)) = insert t (active pc)"
  "active (pc(t := Idle)) = active pc - {t}"
  by (auto simp: active_def)

lemma rw_pass:
  assumes "rw_ok pc rw" and "pc t \<noteq> HoldW" "pc t \<noteq> HoldR" "p \<noteq> HoldW" "p \<noteq> HoldR"
  shows "rw_ok (pc(t := p)) rw"
  using assms by (auto simp: rw_ok_def split: rwlock.splits)

lemma object_ok_enter:
  assumes ok: "object_ok pc ob" and t: "pc t = Idle" and p: "p \<in> {Creating, WaitW, WaitR}"
    and ob': "owners ob' = add_mset t (owners ob)" "co_in_use ob' = co_in_use ob + 1"
      "co_rwlock ob' = co_rwlock ob" "length (co_records ob') = length (co_records ob)"
  shows "object_ok (pc(t := p)) ob'"
proof -
  have new: "t \<notin> active pc" and fin: "finite (active pc)" using t ok by (auto simp: active_def object_ok_def)
  have "rw_ok (pc(t := p)) (co_rwlock ob)"
    using ok t p by (intro rw_pass) (auto simp: object_ok_def)
  then show ?thesis
    using ok ob' new fin p active_upd(1)[of p pc t] by (auto simp: object_ok_def)
qed

lemma object_ok_move:
  assumes ok: "object_ok pc ob" and t: "pc t \<noteq> Idle" and p: "p \<noteq> Idle"
    and ob': "owners ob' = owners ob" "co_in_use ob' = co_in_use ob" "length (co_records ob') = length (co_records ob)"
    and rw: "rw_ok (pc(t := p)) (co_rwlock ob')"
  shows "object_ok (pc(t := p)) ob'"
proof -
  have "active (pc(t := p)) = active pc" using t p by (auto simp: active_def)
  then show ?thesis using ok ob' rw by (simp add: object_ok_def)
qed

lemma object_ok_leave:
  assumes ok: "object_ok pc ob" and t: "pc t \<noteq> Idle"
    and ob': "owners ob' = owners ob - {#t#}" "co_in_use ob' = co_in_use ob - 1"
      "length (co_records ob') = length (co_records ob)"
    and rw: "rw_ok (pc(t := Idle)) (co_rwlock ob')"
  shows "object_ok (pc(t := Idle)) ob'"
proof -
  have mem: "t \<in> active pc" and fin: "finite (active pc)" using t ok by (auto simp: active_def object_ok_def)
  have "mset_set (active pc - {t}) = mset_set (active pc) - {#t#}"
    using mset_set_Diff[OF fin, of "{t}"] mem by simp
  moreover have "(of_nat (card (active pc - {t})) :: u32) = of_nat (card (active pc)) - 1"
    using card_Suc_Diff1[OF fin mem] by (metis add_diff_cancel_left' of_nat_Suc)
  ultimately show ?thesis
    using ok ob' rw fin active_upd(2)[of pc t] by (simp add: object_ok_def)
qed

lemma rw_lock:
  assumes ok: "rw_ok pc rw" and t: "pc t \<noteq> HoldW" "pc t \<noteq> HoldR"
  shows "pthread_rwlock_wrlock t rw = Some rw' \<Longrightarrow> rw_ok (pc(t := HoldW)) rw'"
    and "pthread_rwlock_rdlock t rw = Some rw' \<Longrightarrow> rw_ok (pc(t := HoldR)) rw'"
  using assms
  by (auto simp: rw_ok_def pthread_rwlock_wrlock_def pthread_rwlock_rdlock_def split: rwlock.splits if_splits)

lemma rw_unlock:
  assumes ok: "rw_ok pc rw" and t: "pc t = HoldW \<or> pc t = HoldR"
  shows "rw_ok (pc(t := Idle)) (pthread_rwlock_unlock t rw)"
  using assms by (auto simp: rw_ok_def pthread_rwlock_unlock_def split: rwlock.splits)

lemma leave_lock_Inr:
  assumes "leave_lock ok t now ob = Inr ob'"
  shows "owners ob' = owners ob - {#t#}" "co_in_use ob' = co_in_use ob - 1"
    "length (co_records ob') = length (co_records ob)" "co_rwlock ob' = pthread_rwlock_unlock t (co_rwlock ob)"
    "co_object_id ob' = co_object_id ob" "co_ref_count ob' = co_ref_count ob"
proof -
  obtain ob1 where r: "set_thread_id_record t now LOCK_STATE_NONE (ob\<lparr>co_in_use := co_in_use ob - 1\<rparr>) = Some ob1"
    and ob': "ob' = ob1\<lparr>co_rwlock := pthread_rwlock_unlock t (co_rwlock ob1)\<rparr>"
    using assms by (auto simp: leave_lock_def record_or_abort_def split: option.splits if_splits)
  note f = set_record_frame[OF r]
  have own: "owners (ob\<lparr>co_in_use := x\<rparr>) = owners ob" "owners (ob1\<lparr>co_rwlock := y\<rparr>) = owners ob1" for x y
    by (simp_all add: owners_def)
  show "owners ob' = owners ob - {#t#}" "co_in_use ob' = co_in_use ob - 1"
    "length (co_records ob') = length (co_records ob)" "co_rwlock ob' = pthread_rwlock_unlock t (co_rwlock ob)"
    "co_object_id ob' = co_object_id ob" "co_ref_count ob' = co_ref_count ob"
    using f set_record_owners[OF r] by (simp_all add: ob' own acquiring_def)
qed

lemma owners_cong: "co_records ob' = co_records ob \<Longrightarrow> owners ob' = owners ob"
  by (simp add: owners_def)

text \<open>The section on an object, seen from the run.\<close>

lemma handle_object_Some:
  "handle_object s h = Some (a, ob) \<longleftrightarrow> cs_handles s h = Some a \<and> cs_objects s a = Some ob"
  by (auto simp: handle_object_def split: option.splits)

lemma inv_at_pc:
  assumes inv: "com_inv r" and ob: "cs_objects (run_s r) a = Some ob"
    and same: "co_object_id ob' = co_object_id ob" "co_ref_count ob' = co_ref_count ob"
    and ok: "object_ok ((run_pc r a)(t := p)) ob'"
  shows "com_inv (at_pc r t a p (put_object a ob' (run_s r)))"
  unfolding at_pc_def by (rule com_inv_put[OF inv ob same ok])

lemma inv_enter:
  assumes inv: "com_inv r" and t: "run_pc r a t = Idle" and h: "cs_handles (run_s r) h = Some a"
    and run: "com_lock_enter st t now h (run_s r) = Inr s'" and st: "acquiring st" and p: "p \<in> {WaitW, WaitR}"
  shows "com_inv (at_pc r t a p s')"
proof -
  obtain ob ob1 where ob: "cs_objects (run_s r) a = Some ob"
    and rec: "set_thread_id_record t now st (ob\<lparr>co_in_use := co_in_use ob + 1\<rparr>) = Some ob1"
    and s': "s' = put_object a ob1 (run_s r)"
    using run h by (auto simp: com_lock_enter_def handle_object_def record_or_abort_def split: option.splits)
  note f = set_record_frame[OF rec]
  have "owners ob1 = add_mset t (owners ob)"
    using set_record_owners[OF rec] st owners_cong[of "ob\<lparr>co_in_use := co_in_use ob + 1\<rparr>" ob] by simp
  then show ?thesis
    unfolding s' using f p
    by (intro inv_at_pc[OF inv ob] object_ok_enter[OF com_invD(8)[OF inv ob] t]) auto
qed

lemma inv_acquired:
  assumes inv: "com_inv r" and h: "cs_handles (run_s r) h = Some a"
    and run: "com_lock_acquired st lock ok t now h (run_s r) = Some (Inr (buf, s'))"
    and st: "\<not> acquiring st" "st \<noteq> LOCK_STATE_NONE"
    and t: "run_pc r a t \<in> {WaitW, WaitR}" and p: "p \<noteq> Idle"
    and rw: "\<And>rw rw'. rw_ok (run_pc r a) rw \<Longrightarrow> lock t rw = Some rw' \<Longrightarrow> rw_ok ((run_pc r a)(t := p)) rw'"
  shows "com_inv (at_pc r t a p s')"
proof -
  obtain ob rw ob1 where ob: "cs_objects (run_s r) a = Some ob" and l: "lock t (co_rwlock ob) = Some rw"
    and rec: "set_thread_id_record t now st (ob\<lparr>co_rwlock := rw\<rparr>) = Some ob1"
    and s': "s' = put_object a ob1 (run_s r)"
    using run h by (auto simp: com_lock_acquired_def handle_object_def record_or_abort_def split: option.splits if_splits sum.splits)
  note f = set_record_frame[OF rec] and okob = com_invD(8)[OF inv ob]
  have own: "owners ob1 = owners ob"
    using set_record_owners[OF rec] st owners_cong[of "ob\<lparr>co_rwlock := rw\<rparr>" ob] by simp
  have "rw_ok ((run_pc r a)(t := p)) (co_rwlock ob1)"
    using rw[OF _ l] okob f by (simp add: object_ok_def)
  then show ?thesis
    unfolding s' using f t p own
    by (intro inv_at_pc[OF inv ob] object_ok_move[OF okob]) auto
qed

lemma inv_leave:
  assumes inv: "com_inv r" and ob: "cs_objects (run_s r) a = Some ob" and t: "run_pc r a t = HoldW \<or> run_pc r a t = HoldR"
    and ob1: "co_records ob1 = co_records ob" "co_rwlock ob1 = co_rwlock ob" "co_in_use ob1 = co_in_use ob"
      "co_object_id ob1 = co_object_id ob" "co_ref_count ob1 = co_ref_count ob"
    and l: "leave_lock ok t now ob1 = Inr ob2"
  shows "com_inv (at_pc r t a Idle (put_object a ob2 (run_s r)))"
proof -
  note f = leave_lock_Inr[OF l] and okob = com_invD(8)[OF inv ob]
  have rw: "rw_ok ((run_pc r a)(t := Idle)) (co_rwlock ob2)"
    using rw_unlock[of "run_pc r a" "co_rwlock ob" t] okob t f ob1 by (simp add: object_ok_def)
  have "owners ob2 = owners ob - {#t#}" using f owners_cong[OF ob1(1)] by simp
  then show ?thesis
    using f ob1 t rw by (intro inv_at_pc[OF inv ob] object_ok_leave[OF okob]) auto
qed

section \<open>The table\<close>

lemma map_sum_Inr [simp]: "map_sum f g x = Inr y \<longleftrightarrow> (\<exists>z. x = Inr z \<and> g z = y)"
  by (cases x) auto

lemma find_common_Some: "find_common_object s i = Some a \<Longrightarrow> \<exists>ob. cs_objects s a = Some ob \<and> co_object_id ob = i"
  by (auto simp: find_common_object_def find_Some_iff)

lemma find_common_None:
  assumes "com_inv r" and "find_common_object (run_s r) i = None" and "cs_objects (run_s r) a = Some ob"
  shows "co_object_id ob \<noteq> i"
proof
  assume "co_object_id ob = i"
  then have "a \<in> set (cs_table (run_s r) (bucket i))" using com_invD(2)[OF assms(1)] assms(3) by blast
  then show False using assms(2,3) \<open>co_object_id ob = i\<close> by (auto simp: find_common_object_def find_None_iff)
qed

lemma find_common_eq:
  assumes inv: "com_inv r" and ob: "cs_objects (run_s r) a = Some ob"
  shows "find_common_object (run_s r) (co_object_id ob) = Some a"
proof (cases "find_common_object (run_s r) (co_object_id ob)")
  case None
  then show ?thesis using find_common_None[OF inv None ob] by simp
next
  case (Some a')
  then show ?thesis using find_common_Some[OF Some] com_invD(3)[OF inv ob] by auto
qed

lemma handles_card:
  assumes "finite (dom H)" and "H h = None"
  shows "{k. (H(h \<mapsto> a)) k = Some b} = (if b = a then insert h {k. H k = Some b} else {k. H k = Some b})"
    and "finite {k. H k = Some b}" and "card {k. H k = Some b} \<le> card (dom H)"
    and "card (dom (H(h \<mapsto> a))) = card (dom H) + 1"
  using assms by (auto simp: card_insert_if intro: finite_subset[of _ "dom H"] card_mono)

lemma new_object_sel:
  assumes "new_object ok i sz buf = Some ob"
  shows "co_object_id ob = i" "co_ref_count ob = 0" "object_ok (\<lambda>_. Idle) ob"
proof -
  have r: "co_object_id ob = i \<and> co_ref_count ob = 0 \<and> co_in_use ob = 0 \<and> co_rwlock ob = RwRead [] \<and>
      co_records ob = replicate THREAD_ID_RECORD_NUM \<lparr>tr_lock_state = LOCK_STATE_NONE, tr_changed_time = 0, tr_thread_id = 0\<rparr>"
    using assms by (auto simp: new_object_def new_object_buffer_def Let_def split: option.splits if_splits)
  then show "co_object_id ob = i" "co_ref_count ob = 0" by simp_all
  have "owners ob = {#}" using r by (simp add: owners_def mset_filter[symmetric] del: mset_replicate mset_filter)
  then show "object_ok (\<lambda>_. Idle) ob" using r by (simp add: object_ok_def active_def rw_ok_def)
qed

lemma run_put: "r\<lparr>run_s := s'\<rparr> = \<lparr>run_s = s', run_pc = run_pc r\<rparr>"
  by (cases r) simp

lemma inv_create_new:
  assumes inv: "com_inv r" and fresh: "fresh_alloc al (run_s r)"
    and run: "com_create_enter al ok t now i sz buf (run_s r) = Inr (False, h, s')"
  shows "com_inv (r\<lparr>run_s := s'\<rparr>)"
proof -
  note I = com_invD[OF inv]
  obtain a ob where none: "find_common_object (run_s r) i = None" and al: "al_object al = Some a" "al_handle al = Some h"
    and new: "new_object (al_blocks al) i sz buf = Some ob"
    and s': "s' = put_object a (ob\<lparr>co_ref_count := co_ref_count ob + 1\<rparr>)
        ((insert_common_object a ob (run_s r))\<lparr>cs_handles := (cs_handles (insert_common_object a ob (run_s r)))(h \<mapsto> a)\<rparr>)"
    using run by (auto simp: com_create_enter_def com_create_new_def Let_def split: option.splits if_splits sum.splits)
  note N = new_object_sel[OF new]
  have a: "cs_objects (run_s r) a = None" and h: "cs_handles (run_s r) h = None"
    and room: "card (dom (cs_handles (run_s r))) + 1 < 2 ^ 32"
    using fresh al by (auto simp: fresh_alloc_def)
  note H = handles_card[OF I(4) h]
  have noh: "{k. cs_handles (run_s r) k = Some a} = {}" using I(6) a by fastforce
  have idle: "run_pc r a = (\<lambda>_. Idle)" using I(9)[OF a] by blast
  let ?ob = "ob\<lparr>co_ref_count := co_ref_count ob + 1\<rparr>"
  have okn: "object_ok (run_pc r a) ?ob"
    using N(3) idle by (simp add: object_ok_def owners_def)
  have sel: "cs_objects s' = (cs_objects (run_s r))(a \<mapsto> ?ob)" "cs_handles s' = (cs_handles (run_s r))(h \<mapsto> a)"
    "cs_table s' = (cs_table (run_s r))(bucket i := a # cs_table (run_s r) (bucket i))"
    using N by (simp_all add: s' insert_common_object_def put_object_def)
  have notin: "a \<notin> set (cs_table (run_s r) b)" for b using I(2) a by auto
  have uniq: "co_object_id oa \<noteq> i" if "cs_objects (run_s r) b = Some oa" for b oa
    using find_common_None[OF inv none that] .
  show ?thesis
    unfolding com_inv_def run_put com_run.select_convs sel
  proof (intro conjI allI impI)
    show "distinct (((cs_table (run_s r))(bucket i := a # cs_table (run_s r) (bucket i))) b)" for b
      using I(1) notin by simp
    show "a' \<in> set (((cs_table (run_s r))(bucket i := a # cs_table (run_s r) (bucket i))) b) \<longleftrightarrow>
        (\<exists>ob'. ((cs_objects (run_s r))(a \<mapsto> ?ob)) a' = Some ob' \<and> bucket (co_object_id ob') = b)" for b a'
      using I(2) notin N(1) by auto
    show "x = y" if "((cs_objects (run_s r))(a \<mapsto> ?ob)) x = Some oa" "((cs_objects (run_s r))(a \<mapsto> ?ob)) y = Some oy"
      "co_object_id oa = co_object_id oy" for x y oa oy
      using that I(3)[of x oa y oy] uniq[of x oa] uniq[of y oy] N(1) by (auto split: if_splits)
    show "finite (dom ((cs_handles (run_s r))(h \<mapsto> a)))" using I(4) by simp
    show "card (dom ((cs_handles (run_s r))(h \<mapsto> a))) < 2 ^ 32" unfolding H(4) using room .
    show "((cs_objects (run_s r))(a \<mapsto> ?ob)) x \<noteq> None" if "((cs_handles (run_s r))(h \<mapsto> a)) k = Some x" for k x
      using that I(6) by (auto split: if_splits)
    show "co_ref_count ob' = of_nat (card {k. ((cs_handles (run_s r))(h \<mapsto> a)) k = Some x})"
      if "((cs_objects (run_s r))(a \<mapsto> ?ob)) x = Some ob'" for x ob'
      unfolding H(1) using that I(7) N(2) noh by (auto split: if_splits)
    show "object_ok (run_pc r x) ob'" if "((cs_objects (run_s r))(a \<mapsto> ?ob)) x = Some ob'" for x ob'
      using that I(8) okn by (auto split: if_splits)
    show "run_pc r x t = Idle" if "((cs_objects (run_s r))(a \<mapsto> ?ob)) x = None" for x t
      using that I(9) by (auto split: if_splits)
  qed
qed

lemma inv_create_old:
  assumes inv: "com_inv r" and fresh: "fresh_alloc al (run_s r)"
    and run: "com_create_enter al ok t now i sz buf (run_s r) = Inr (True, h, s')"
    and a': "cs_handles s' h = Some a" and t: "run_pc r a t = Idle"
  shows "com_inv (at_pc r t a Creating s')"
proof -
  note I = com_invD[OF inv]
  obtain b ob ob1 where ob: "cs_objects (run_s r) b = Some ob" and al: "al_handle al = Some h"
    and rec: "set_thread_id_record t now LOCK_STATE_WRITER_ACQUIREING
        (ob\<lparr>co_ref_count := co_ref_count ob + 1, co_in_use := co_in_use ob + 1\<rparr>) = Some ob1"
    and s': "s' = put_object b ob1 ((run_s r)\<lparr>cs_handles := (cs_handles (run_s r))(h \<mapsto> b)\<rparr>)"
    using run by (auto simp: com_create_enter_def com_create_existing_def record_or_abort_def split: option.splits sum.splits)
  have ba: "b = a" using a' by (simp add: s' put_object_def)
  have h: "cs_handles (run_s r) h = None" and room: "card (dom (cs_handles (run_s r))) + 1 < 2 ^ 32"
    using fresh al by (auto simp: fresh_alloc_def)
  note H = handles_card[OF I(4) h] and f = set_record_frame[OF rec] and ob = ob[unfolded ba]
  have own: "owners ob1 = add_mset t (owners ob)"
    using set_record_owners[OF rec] owners_cong[of "ob\<lparr>co_ref_count := co_ref_count ob + 1, co_in_use := co_in_use ob + 1\<rparr>" ob]
    by (simp add: acquiring_def)
  have okn: "object_ok ((run_pc r a)(t := Creating)) ob1"
    using f own by (intro object_ok_enter[OF I(8)[OF ob] t]) auto
  have sel: "cs_objects s' = (cs_objects (run_s r))(a \<mapsto> ob1)" "cs_handles s' = (cs_handles (run_s r))(h \<mapsto> a)"
    "cs_table s' = cs_table (run_s r)"
    by (simp_all add: s' put_object_def ba)
  have cnt: "co_ref_count ob1 = of_nat (card (insert h {k. cs_handles (run_s r) k = Some a}))"
    using I(7)[OF ob] f H(2) h by (simp add: card_insert_if)
  show ?thesis
    unfolding com_inv_def at_pc_def com_run.simps sel H(1,4)
    using I ob okn cnt room f by (auto split: if_splits)
qed

lemma fill_object_frame:
  assumes "fill_object cb blocks sz buf ob = Inr ob'"
  shows "co_records ob' = co_records ob" "co_rwlock ob' = co_rwlock ob" "co_in_use ob' = co_in_use ob"
    "co_object_id ob' = co_object_id ob" "co_ref_count ob' = co_ref_count ob"
proof -
  have frame: "co_records x' = co_records x \<and> co_rwlock x' = co_rwlock x \<and> co_in_use x' = co_in_use x
      \<and> co_object_id x' = co_object_id x \<and> co_ref_count x' = co_ref_count x"
    if "run_checked cb items x = Some x'" for items x x'
    using that by (induction cb items x rule: run_checked.induct) (auto simp: Let_def split: if_splits)
  show "co_records ob' = co_records ob" "co_rwlock ob' = co_rwlock ob" "co_in_use ob' = co_in_use ob"
    "co_object_id ob' = co_object_id ob" "co_ref_count ob' = co_ref_count ob"
    using assms by (auto simp: fill_object_def new_object_buffer_def dest!: frame split: if_splits option.splits)
qed

lemma fill_section_Inr:
  assumes "fill_section cb blocks ok1 ok2 t now sz buf ob = Inr ob'"
  obtains ob1 ob4 where "set_thread_id_record t now LOCK_STATE_WRITER_ACQUIRED ob = Some ob1"
    and "fill_object cb blocks sz buf ob1 = Inr ob4" and "leave_lock ok2 t now ob4 = Inr ob'"
  using assms by (auto simp: fill_section_def record_or_abort_Inr split: sum.splits if_splits)

lemma inv_create_fill:
  assumes inv: "com_inv r" and t: "run_pc r a t = Filling" and h: "cs_handles (run_s r) h = Some a"
    and run: "com_create_fill cb blocks ok1 ok2 t now sz buf h (run_s r) = Some (Inr s')"
  shows "com_inv (at_pc r t a Idle s')"
proof -
  obtain ob where ob: "cs_objects (run_s r) a = Some ob" using com_invD(6)[OF inv h] by blast
  then obtain rw ob5 where l: "pthread_rwlock_wrlock t (co_rwlock ob) = Some rw"
    and fill: "fill_section cb blocks ok1 ok2 t now sz buf (ob\<lparr>co_rwlock := rw\<rparr>) = Inr ob5"
    and s': "s' = put_object a ob5 (run_s r)"
    using run h by (auto simp: com_create_fill_def handle_object_def)
  obtain ob1 ob4 where rec: "set_thread_id_record t now LOCK_STATE_WRITER_ACQUIRED (ob\<lparr>co_rwlock := rw\<rparr>) = Some ob1"
    and fo: "fill_object cb blocks sz buf ob1 = Inr ob4" and leave: "leave_lock ok2 t now ob4 = Inr ob5"
    by (rule fill_section_Inr[OF fill])
  note f = set_record_frame[OF rec] and okob = com_invD(8)[OF inv ob] and o4 = fill_object_frame[OF fo]
  have own: "owners ob1 = owners ob"
    using set_record_owners[OF rec] owners_cong[of "ob\<lparr>co_rwlock := rw\<rparr>" ob] by (simp add: acquiring_def)
  have ok1: "object_ok ((run_pc r a)(t := HoldW)) ob1"
    using f t own l okob by (intro object_ok_move[OF okob]) (auto simp: object_ok_def intro!: rw_lock(1))
  let ?r1 = "at_pc r t a HoldW (put_object a ob1 (run_s r))"
  have inv1: "com_inv ?r1" by (rule inv_at_pc[OF inv ob _ _ ok1]) (use f in auto)
  have "com_inv (at_pc ?r1 t a Idle (put_object a ob5 (run_s ?r1)))"
    by (rule inv_leave[OF inv1 _ _ _ _ _ _ _ leave, where ob = ob1])
       (use o4 in \<open>auto simp: at_pc_def put_object_def\<close>)
  moreover have "at_pc ?r1 t a Idle (put_object a ob5 (run_s ?r1)) = at_pc r t a Idle s'"
    by (auto simp: at_pc_def put_object_def s')
  ultimately show ?thesis by simp
qed

lemma inv_create_leave:
  assumes inv: "com_inv r" and t: "run_pc r a t = Creating" and h: "cs_handles (run_s r) h = Some a"
    and run: "com_create_leave t now h (run_s r) = Inr s'"
  shows "com_inv (at_pc r t a Idle s')"
proof -
  obtain ob ob1 where ob: "cs_objects (run_s r) a = Some ob"
    and rec: "set_thread_id_record t now LOCK_STATE_NONE ob = Some ob1"
    and s': "s' = put_object a (ob1\<lparr>co_in_use := co_in_use ob1 - 1\<rparr>) (run_s r)"
    using run h by (auto simp: com_create_leave_def handle_object_def record_or_abort_Inr split: option.splits)
  note f = set_record_frame[OF rec] and okob = com_invD(8)[OF inv ob]
  have own: "owners (ob1\<lparr>co_in_use := co_in_use ob1 - 1\<rparr>) = owners ob - {#t#}"
    using set_record_owners[OF rec] by (simp add: acquiring_def owners_def)
  have rw: "rw_ok ((run_pc r a)(t := Idle)) (co_rwlock ob)"
    using okob t by (intro rw_pass) (auto simp: object_ok_def)
  show ?thesis
    unfolding s' using f t own rw by (intro inv_at_pc[OF inv ob] object_ok_leave[OF okob]) auto
qed

lemma unat_small: "n < 2 ^ 32 \<Longrightarrow> unat (of_nat n :: u32) = n"
  by (simp add: unat_of_nat)

lemma inv_close:
  assumes inv: "com_inv r" and run: "com_close h (run_s r) = Inr (st, s')"
  shows "com_inv (r\<lparr>run_s := s'\<rparr>)"
proof -
  note I = com_invD[OF inv]
  obtain a ob where h: "cs_handles (run_s r) h = Some a" and ob: "cs_objects (run_s r) a = Some ob"
    using run by (auto simp: com_close_def handle_object_def split: option.splits)
  note okob = I(8)[OF ob]
  let ?H = "cs_handles (run_s r)" and ?K = "{k. cs_handles (run_s r) k = Some a}"
  have finK: "finite ?K" and leK: "card ?K \<le> card (dom ?H)" and hK: "h \<in> ?K"
    using h I(4) by (auto intro: finite_subset[of _ "dom ?H"] card_mono)
  have posK: "0 < card ?K" using finK hK card_gt_0_iff by blast
  have less: "card ?K < 2 ^ 32" using leK I(5) by simp
  have un: "unat (co_ref_count ob) = card ?K"
    using I(7)[OF ob] less by (simp add: unat_small)
  then have nz: "co_ref_count ob \<noteq> 0" using posK by (metis less_irrefl unat_0)
  define ob1 where "ob1 = ob\<lparr>co_ref_count := co_ref_count ob - 1\<rparr>"
  have ref1: "co_ref_count ob1 = of_nat (card (?K - {h}))"
    using card_Suc_Diff1[OF finK hK] I(7)[OF ob] by (simp add: ob1_def) (metis add_diff_cancel_left' of_nat_Suc)
  have ok1: "object_ok (run_pc r a) ob1"
    using okob by (simp add: object_ok_def ob1_def owners_def)
  have domH: "dom (?H(h := None)) = dom ?H - {h}" by auto
  have cardH: "card (dom (?H(h := None))) < 2 ^ 32" "finite (dom (?H(h := None)))"
    unfolding domH using I(4,5) by (auto intro: le_less_trans[OF card_mono[of "dom ?H"]])
  have KH: "{k. (?H(h := None)) k = Some x} = (if x = a then ?K - {h} else {k. ?H k = Some x})" for x
    using h by auto
  show ?thesis
  proof (cases "object_safe_to_delete ob1")
    case False
    have s': "cs_objects s' = (cs_objects (run_s r))(a \<mapsto> ob1)" "cs_handles s' = ?H(h := None)" "cs_table s' = cs_table (run_s r)"
      using run h ob nz False by (auto simp: com_close_def handle_object_def ob1_def Let_def put_object_def split: if_splits)
    show ?thesis
      unfolding com_inv_def run_put com_run.select_convs s' KH
      using I ob ok1 ref1 cardH by (auto simp: ob1_def split: if_splits)
  next
    case True
    have id: "co_object_id ob1 = co_object_id ob" by (simp add: ob1_def)
    have "find_common_object (put_object a ob1 (run_s r)) i = find_common_object (run_s r) i" for i
      using ob by (auto simp: find_common_object_def put_object_def ob1_def intro!: arg_cong[where f = "\<lambda>P. List.find P _"])
    then have fnd: "find_common_object (put_object a ob1 (run_s r)) (co_object_id ob1) = Some a"
      using find_common_eq[OF inv ob] id by simp
    have s': "cs_objects s' = (cs_objects (run_s r))(a := None)" "cs_handles s' = ?H(h := None)"
      "cs_table s' = (cs_table (run_s r))(bucket (co_object_id ob) := remove1 a (cs_table (run_s r) (bucket (co_object_id ob))))"
      using run h ob nz True fnd
      by (auto simp: com_close_def handle_object_def delete_common_object_def Let_def put_object_def ob1_def[symmetric] id split: if_splits)
    have K0: "?K - {h} = {}"
    proof -
      have "(of_nat (card (?K - {h})) :: u32) = 0" using True ref1 by (simp add: object_safe_to_delete_def)
      moreover have "card (?K - {h}) < 2 ^ 32" using less card_mono[OF finK, of "?K - {h}"] by fastforce
      ultimately have "card (?K - {h}) = 0" using unat_small[of "card (?K - {h})"] by simp
      then show ?thesis using finK by simp
    qed
    have idle: "run_pc r a t = Idle" for t
    proof -
      have "size (owners ob) \<le> 16" using owners_size[of ob] okob by (simp add: object_ok_def THREAD_ID_RECORD_NUM_def)
      then have c: "card (active (run_pc r a)) \<le> 16" using okob by (simp add: object_ok_def)
      moreover have "(of_nat (card (active (run_pc r a))) :: u32) = 0"
        using True okob by (simp add: object_safe_to_delete_def ob1_def object_ok_def)
      ultimately have "card (active (run_pc r a)) = 0"
        using unat_small[of "card (active (run_pc r a))"] by simp
      then have "active (run_pc r a) = {}" using okob by (simp add: object_ok_def)
      then show ?thesis by (auto simp: active_def)
    qed
    have noh: "?H k \<noteq> Some a" if "k \<noteq> h" for k using K0 that by blast
    show ?thesis
      unfolding com_inv_def run_put com_run.select_convs s' KH
    proof (intro conjI allI impI cardH)
      show "distinct (((cs_table (run_s r))(bucket (co_object_id ob) := remove1 a (cs_table (run_s r) (bucket (co_object_id ob))))) b)" for b
        using I(1) by (simp add: distinct_remove1)
      show "x \<in> set (((cs_table (run_s r))(bucket (co_object_id ob) := remove1 a (cs_table (run_s r) (bucket (co_object_id ob))))) b) \<longleftrightarrow>
          (\<exists>o'. ((cs_objects (run_s r))(a := None)) x = Some o' \<and> bucket (co_object_id o') = b)" for b x
        using I(1,2) ob by (auto simp: set_remove1_eq)
      show "x = y" if "((cs_objects (run_s r))(a := None)) x = Some ox" "((cs_objects (run_s r))(a := None)) y = Some oy"
        "co_object_id ox = co_object_id oy" for x y ox oy
        using that I(3)[of x ox y oy] by (auto split: if_splits)
      show "((cs_objects (run_s r))(a := None)) x \<noteq> None" if "(?H(h := None)) k = Some x" for k x
        using that I(6) noh by (auto split: if_splits)
      show "co_ref_count o' = of_nat (card (if x = a then ?K - {h} else {k. ?H k = Some x}))"
        if "((cs_objects (run_s r))(a := None)) x = Some o'" for x o'
        using that I(7) by (auto split: if_splits)
      show "object_ok (run_pc r x) o'" if "((cs_objects (run_s r))(a := None)) x = Some o'" for x o'
        using that I(8) by (auto split: if_splits)
      show "run_pc r x t = Idle" if "((cs_objects (run_s r))(a := None)) x = None" for x t
        using that I(9) idle by (auto split: if_splits)
    qed
  qed
qed

lemma inv_data:
  assumes inv: "com_inv r" and ob: "cs_objects (run_s r) a = Some ob"
    and ob': "co_object_id ob' = co_object_id ob" "co_ref_count ob' = co_ref_count ob" "co_in_use ob' = co_in_use ob"
      "co_records ob' = co_records ob" "co_rwlock ob' = co_rwlock ob"
  shows "com_inv (r\<lparr>run_s := put_object a ob' (run_s r)\<rparr>)"
proof -
  have "object_ok (run_pc r a) ob'"
    using com_invD(8)[OF inv ob] ob' owners_cong[of ob' ob] by (simp add: object_ok_def)
  from com_inv_put[OF inv ob ob'(1,2) this] show ?thesis by (simp add: run_put)
qed

lemma com_step_inv:
  assumes "com_step r r'" and inv: "com_inv r"
  shows "com_inv r'"
  using assms(1)
proof cases
  case (step_create_new al ok t now object_id sz buffer h s')
  then show ?thesis using inv_create_new[OF inv] by simp
next
  case (step_create_old al ok t now object_id sz buffer h s' a)
  then show ?thesis using inv_create_old[OF inv] by blast
next
  case (step_create_test a t h buffer)
  then obtain ob where ob: "cs_objects (run_s r) a = Some ob" using com_invD(6)[OF inv] by blast
  have "object_ok ((run_pc r a)(t := Filling)) ob"
    using com_invD(8)[OF inv ob] step_create_test
    by (intro object_ok_move) (auto simp: object_ok_def intro!: rw_pass)
  then have "com_inv (at_pc r t a Filling (put_object a ob (run_s r)))" by (intro inv_at_pc[OF inv ob]) simp_all
  moreover have "put_object a ob (run_s r) = run_s r" using ob by (simp add: put_object_def fun_upd_idem)
  ultimately show ?thesis using step_create_test by simp
next
  case (step_create_fill a t h cb blocks ok1 ok2 now sz buf s')
  then show ?thesis using inv_create_fill[OF inv] by blast
next
  case (step_create_leave a t h now s')
  then show ?thesis using inv_create_leave[OF inv] by blast
next
  case (step_wlock_enter a t h now s')
  then show ?thesis unfolding com_writer_lock_enter_def
    using inv_enter[OF inv step_wlock_enter(2,3)] by (simp add: acquiring_def)
next
  case (step_wlock a t h ok now buf s')
  then show ?thesis unfolding com_writer_lock_acquired_def step_wlock(1)
    by (intro inv_acquired[OF inv step_wlock(3)]) (auto simp: acquiring_def intro: rw_lock(1))
next
  case (step_write a t ob buf)
  then show ?thesis using inv_data[OF inv step_write(3), of "ob\<lparr>co_buffer := buf\<rparr>"] by simp
next
  case (step_wunlock a t h cb ok now calls s')
  then obtain ob ob2 where ob: "cs_objects (run_s r) a = Some ob" and s': "s' = put_object a ob2 (run_s r)"
    and l: "leave_lock ok t now ((snd (run_callbacks cb ob))\<lparr>co_checksum := calc_checksum_object_buffer (snd (run_callbacks cb ob))\<rparr>) = Inr ob2"
    by (auto simp: com_writer_unlock_def handle_object_def split: option.splits prod.splits)
  show ?thesis
    unfolding step_wunlock(1) s' by (rule inv_leave[OF inv ob _ _ _ _ _ _ l]) (use step_wunlock in \<open>simp_all add: run_callbacks_def\<close>)
next
  case (step_rlock_enter a t h now s')
  then show ?thesis unfolding com_reader_lock_enter_def
    using inv_enter[OF inv step_rlock_enter(2,3)] by (simp add: acquiring_def)
next
  case (step_rlock a t h ok now buf s')
  then show ?thesis unfolding com_reader_lock_acquired_def step_rlock(1)
    by (intro inv_acquired[OF inv step_rlock(3)]) (auto simp: acquiring_def intro: rw_lock(2))
next
  case (step_runlock a t h ok now s')
  then obtain ob ob2 where ob: "cs_objects (run_s r) a = Some ob" and s': "s' = put_object a ob2 (run_s r)"
    and l: "leave_lock ok t now ob = Inr ob2"
    by (auto simp: com_reader_unlock_def handle_object_def split: option.splits if_splits)
  show ?thesis
    unfolding step_runlock(1) s' by (rule inv_leave[OF inv ob _ _ _ _ _ _ l]) (use step_runlock in simp_all)
next
  case (step_close h st s')
  then show ?thesis using inv_close[OF inv] by simp
next
  case (step_register ok h func st s')
  then obtain a ob f where ob: "cs_objects (run_s r) a = Some ob" and s': "s' = put_object a (insert_callback_list_item h f ob) (run_s r)"
    by (auto simp: com_register_callback_def handle_object_def split: option.splits if_splits)
  show ?thesis unfolding step_register(1) s' by (rule inv_data[OF inv ob]) (simp_all add: insert_callback_list_item_def)
next
  case (step_deregister h func st s')
  then obtain a ob f ob1 where ob: "cs_objects (run_s r) a = Some ob" and d: "delete_callback_list_item f ob = Some ob1"
    and s': "s' = put_object a ob1 (run_s r)"
    by (auto simp: com_deregister_callback_def handle_object_def split: option.splits if_splits)
  show ?thesis unfolding step_deregister(1) s'
    by (rule inv_data[OF inv ob]) (use d in \<open>auto simp: delete_callback_list_item_def\<close>)
qed

lemma com_start_inv: "com_inv com_start"
  by (simp add: com_inv_def com_start_def)

lemma com_reachable_inv: "com_reachable r \<Longrightarrow> com_inv r"
  unfolding com_reachable_def by (induction rule: rtranclp_induct) (auto intro: com_start_inv com_step_inv)

text \<open>
  C6. Whatever the interleaving of the threads: an object that a thread waits for, holds or
  fills is allocated and found under its name, and its \<open>in_use\<close> is the number of such
  threads, at most 16; a writer excludes every other holder; and the reference count is the
  number of open handles, every one of which leads to an object.
\<close>

theorem com_object_in_use:
  assumes "com_reachable r" and "run_pc r a t \<noteq> Idle"
  shows "\<exists>ob. cs_objects (run_s r) a = Some ob \<and> find_common_object (run_s r) (co_object_id ob) = Some a
    \<and> unat (co_in_use ob) = card {u. run_pc r a u \<noteq> Idle} \<and> card {u. run_pc r a u \<noteq> Idle} \<le> 16
    \<and> unat (co_ref_count ob) = card {h. cs_handles (run_s r) h = Some a}
    \<and> (run_pc r a t = HoldW \<longrightarrow> (\<forall>u. u \<noteq> t \<longrightarrow> run_pc r a u \<noteq> HoldW \<and> run_pc r a u \<noteq> HoldR))"
proof -
  have inv: "com_inv r" by (rule com_reachable_inv[OF assms(1)])
  note I = com_invD[OF inv]
  obtain ob where ob: "cs_objects (run_s r) a = Some ob" using I(9)[of a t] assms(2) by blast
  note ok = I(8)[OF ob]
  have c: "card (active (run_pc r a)) \<le> 16"
    using owners_size[of ob] ok by (simp add: object_ok_def THREAD_ID_RECORD_NUM_def)
  have "unat (co_in_use ob) = card {u. run_pc r a u \<noteq> Idle}"
    using ok c unat_small[of "card (active (run_pc r a))"] by (simp add: object_ok_def active_def)
  moreover have "card {h. cs_handles (run_s r) h = Some a} \<le> card (dom (cs_handles (run_s r)))"
    using I(4) by (auto intro: card_mono)
  then have "unat (co_ref_count ob) = card {h. cs_handles (run_s r) h = Some a}"
    using I(7)[OF ob] I(5) unat_small by simp
  moreover have "run_pc r a t = HoldW \<longrightarrow> (\<forall>u. u \<noteq> t \<longrightarrow> run_pc r a u \<noteq> HoldW \<and> run_pc r a u \<noteq> HoldR)"
    using ok by (auto simp: object_ok_def rw_ok_def split: rwlock.splits)
  ultimately show ?thesis
    using ob find_common_eq[OF inv ob] c by (auto simp: active_def)
qed

text \<open>A thread creates an object and waits for its writer lock.\<close>

definition one_alloc :: com_alloc where
  "one_alloc = \<lparr>al_object = Some 7, al_blocks = True, al_handle = Some 1\<rparr>"

definition one_object :: com_object where
  "one_object = (the (new_object True ''sm'' 1 (Some [5])))\<lparr>co_ref_count := 1\<rparr>"

definition one_state :: com_state where
  "one_state = \<lparr>cs_table = (\<lambda>_. [])(bucket ''sm'' := [7]), cs_objects = [7 \<mapsto> one_object], cs_handles = [1 \<mapsto> 7]\<rparr>"

lemma one_create:
  "com_create_enter one_alloc True 0 0 ''sm'' 1 (Some [5]) (run_s com_start) = Inr (False, 1, one_state)"
  by (auto simp: com_create_enter_def com_create_new_def find_common_object_def com_start_def one_alloc_def one_state_def
      one_object_def new_object_def new_object_buffer_def insert_common_object_def put_object_def Let_def)

lemma one_state_handle: "cs_handles one_state 1 = Some 7"
  by (simp add: one_state_def)

lemma one_lock: "\<exists>s. com_writer_lock_enter 0 0 1 one_state = Inr s"
  by (auto simp: com_writer_lock_enter_def com_lock_enter_def handle_object_def one_state_def one_object_def
      new_object_def new_object_buffer_def record_or_abort_def set_thread_id_record_def acquiring_def Let_def
      THREAD_ID_RECORD_NUM_def first_host_def List.find_def numeral_eq_Suc upt_rec split: option.split)

theorem com_object_in_use_witness: "\<exists>r. com_reachable r \<and> card {u. run_pc r 7 u \<noteq> Idle} \<le> 16 \<and> run_pc r 7 0 = WaitW"
proof -
  obtain s where lock: "com_writer_lock_enter 0 0 1 one_state = Inr s" using one_lock by blast
  let ?r1 = "com_start\<lparr>run_s := one_state\<rparr>"
  have "com_step com_start ?r1"
    by (rule step_create_new[OF _ one_create]) (simp add: fresh_alloc_def com_start_def)
  moreover have "com_step ?r1 (at_pc ?r1 0 7 WaitW s)"
    by (rule step_wlock_enter[where h = 1 and now = 0]) (simp_all add: lock com_start_def one_state_handle del: One_nat_def)
  ultimately have reach: "com_reachable (at_pc ?r1 0 7 WaitW s)"
    unfolding com_reachable_def by (blast intro: rtranclp.rtrancl_refl rtranclp.rtrancl_into_rtrancl)
  define r where "r = at_pc ?r1 0 7 WaitW s"
  have pc: "run_pc r 7 0 = WaitW" by (simp add: r_def at_pc_def)
  then have "run_pc r 7 0 \<noteq> Idle" by simp
  then have "card {u. run_pc r 7 u \<noteq> Idle} \<le> 16"
    using com_object_in_use[of r 7 0] reach unfolding r_def by blast
  then show ?thesis using reach pc unfolding r_def by blast
qed

section \<open>Callbacks\<close>

text \<open>
  Modules that register one after the other are called in the opposite order when a writer
  lets go, each with its own handle. This is the order the releases of the common objects
  in the daemon are modelled with.
\<close>

lemma callbacks_last_first:
  assumes "com_writer_unlock cb ok t now h s = Inr (calls, s')" and "handle_object s h = Some (a, ob)"
    and "co_callbacks ob = fold (\<lambda>(k, f) l. (k, f) # l) registered []"
  shows "calls = rev (map (\<lambda>(k, f). (f, k)) registered)"
proof -
  have "fold (\<lambda>(k, f) l. (k, f) # l) registered l = rev registered @ l" for l :: "(addr \<times> callback) list"
    by (induction registered arbitrary: l) auto
  then show ?thesis
    using assms by (auto simp: com_writer_unlock_def run_callbacks_def rev_map)
qed

text \<open>
  A module that closes its handle without taking its callback back leaves a callback with a
  handle that is no longer valid: the next release of the object by another module calls it.
\<close>

lemma closed_handle_is_called_back:
  assumes "handle_object s h = Some (a, ob)" and "com_register_callback True h (Some f) s = Inr (st, s1)"
    and "com_close h s1 = Inr (st', s2)"
  shows "cs_handles s2 h = None \<and> (\<exists>ob2. cs_objects s2 a = Some ob2 \<and> (h, f) \<in> set (co_callbacks ob2))"
  using assms
  by (auto simp: com_register_callback_def com_close_def handle_object_def put_object_def insert_callback_list_item_def
      object_safe_to_delete_def Let_def split: option.splits if_splits)

end
