(* ===== verification/Config.thy ===== *)
theory Config
  imports HaTypes
begin

text \<open>
  Reading the config file: \<^verbatim>\<open>lib/config.c\<close>. The tree the XML parser returns is an argument,
  and so are \<open>getaddrinfo\<close> for numeric addresses and the order \<open>qsort\<close> leaves equal
  elements in. The result is the \<open>HA_CONFIG\<close> structure or the status of the first error.
\<close>

section \<open>Data\<close>

text \<open>
  An element: its name, its attributes, the text \<open>xmlNodeListGetString\<close> finds below it
  (\<open>None\<close> when there is none), and its children.
\<close>

datatype xml = Xml (xml_name: string) (xml_props: "(string \<times> string) list") (xml_text: "string option")
  (xml_children: "xml list")

datatype sock_address = AF_INET string | AF_INET6 string | AF_OTHER int

definition MTC_UUID_SIZE :: nat where "MTC_UUID_SIZE = 32"
definition HEARTBEAT_INTERFACE_LEN :: nat where "HEARTBEAT_INTERFACE_LEN = 64"
definition STATEFILE_PATH_LEN :: nat where "STATEFILE_PATH_LEN = 4096 + 1"
definition WATCHDOG_MODE_LEN :: nat where "WATCHDOG_MODE_LEN = 16"

abbreviation NUL :: char where "NUL \<equiv> CHR 0x00"

text \<open>A \<open>MTC_UUID\<close> is 32 characters, not terminated; before it is set they are all \<open>NUL\<close>.\<close>

definition zero_uuid :: uuid where "zero_uuid = replicate MTC_UUID_SIZE NUL"

record host_info =
  hi_host_id :: uuid
  hi_sock_address :: "sock_address option"

record config =
  cf_version :: string
  cf_generation_uuid :: uuid
  cf_udp_port :: u32
  cf_host :: "host_info list"
  cf_heartbeat_interval :: u32
  cf_heartbeat_timeout :: u32
  cf_statefile_interval :: u32
  cf_statefile_timeout :: u32
  cf_heartbeat_watchdog_timeout :: u32
  cf_statefile_watchdog_timeout :: u32
  cf_boot_join_timeout :: u32
  cf_enable_join_timeout :: u32
  cf_xapi_healthcheck_interval :: u32
  cf_xapi_healthcheck_timeout :: u32
  cf_xapi_restart_attempts :: u32
  cf_xapi_restart_timeout :: u32
  cf_xapi_licensecheck_timeout :: u32
  cf_localhost_index :: u32
  cf_heartbeat_interface :: string
  cf_heartbeat_physical_interface :: string
  cf_statefile_path :: string
  cf_watchdog_mode :: string

text \<open>\<open>hostnum\<close> is the length of the list of hosts. The static structure starts as zeros.\<close>

definition zero_config :: config where
  "zero_config = \<lparr>cf_version = [], cf_generation_uuid = zero_uuid, cf_udp_port = 0, cf_host = [],
     cf_heartbeat_interval = 0, cf_heartbeat_timeout = 0, cf_statefile_interval = 0, cf_statefile_timeout = 0,
     cf_heartbeat_watchdog_timeout = 0, cf_statefile_watchdog_timeout = 0, cf_boot_join_timeout = 0,
     cf_enable_join_timeout = 0, cf_xapi_healthcheck_interval = 0, cf_xapi_healthcheck_timeout = 0,
     cf_xapi_restart_attempts = 0, cf_xapi_restart_timeout = 0, cf_xapi_licensecheck_timeout = 0,
     cf_localhost_index = 0, cf_heartbeat_interface = [], cf_heartbeat_physical_interface = [],
     cf_statefile_path = [], cf_watchdog_mode = []\<rparr>"

type_synonym 'a cf_result = "mtc_status + 'a"

definition set_default_value :: "config \<Rightarrow> config" where
  "set_default_value c = c\<lparr>cf_heartbeat_interval := 4, cf_heartbeat_timeout := 30, cf_statefile_interval := 4,
     cf_statefile_timeout := 30, cf_heartbeat_watchdog_timeout := 30, cf_statefile_watchdog_timeout := 45,
     cf_boot_join_timeout := 90, cf_enable_join_timeout := 90, cf_xapi_healthcheck_interval := 60,
     cf_xapi_healthcheck_timeout := 10, cf_xapi_restart_attempts := 1, cf_xapi_restart_timeout := 30,
     cf_xapi_licensecheck_timeout := 30\<rparr>"

section \<open>Strings and numbers\<close>

definition valid_version :: "string \<Rightarrow> bool" where
  "valid_version version \<longleftrightarrow> length version < 8 \<and> version = ''1.0''"

text \<open>The copy stops at the 33rd character; what was copied until then stays.\<close>

definition uuid_strcpy :: "string \<Rightarrow> mtc_status \<times> uuid" where
  "uuid_strcpy txt =
     (let cs = filter (\<lambda>c. c \<noteq> CHR ''-'') txt
      in if length cs > MTC_UUID_SIZE then (MTC_ERROR_CF_INVALID_FORMAT, take MTC_UUID_SIZE cs)
         else if length cs < MTC_UUID_SIZE
         then (MTC_ERROR_CF_INVALID_FORMAT, cs @ replicate (MTC_UUID_SIZE - length cs) NUL)
         else (MTC_SUCCESS, cs))"

text \<open>\<open>strncmp\<close> of the C library; a list that ends early ends with \<open>NUL\<close>.\<close>

fun strncmp :: "string \<Rightarrow> string \<Rightarrow> nat \<Rightarrow> int" where
  "strncmp a b 0 = 0"
| "strncmp a b (Suc n) =
     (let x = (case a of [] \<Rightarrow> NUL | c # _ \<Rightarrow> c); y = (case b of [] \<Rightarrow> NUL | c # _ \<Rightarrow> c)
      in if x \<noteq> y then of_char x - of_char y else if x = NUL then 0 else strncmp (tl a) (tl b) n)"

definition host_info_compar :: "host_info \<Rightarrow> host_info \<Rightarrow> int" where
  "host_info_compar h1 h2 = strncmp (hi_host_id h1) (hi_host_id h2) MTC_UUID_SIZE"

text \<open>
  \<open>strtol\<close> with base 10: white space, a sign, digits; no digits leave the end pointer at the
  start. The result is clamped to a 64-bit \<open>long\<close> and cut to \<open>MTC_U32\<close> by the caller.
\<close>

definition is_space :: "char \<Rightarrow> bool" where
  "is_space c \<longleftrightarrow> c = CHR '' '' \<or> (9 \<le> (of_char c :: nat) \<and> (of_char c :: nat) \<le> 13)"

definition is_digit :: "char \<Rightarrow> bool" where
  "is_digit c \<longleftrightarrow> 48 \<le> (of_char c :: nat) \<and> (of_char c :: nat) \<le> 57"

definition digits_value :: "string \<Rightarrow> int" where
  "digits_value ds = fold (\<lambda>c v. v * 10 + (of_char c - 48)) ds 0"

definition clamp_long :: "int \<Rightarrow> int" where
  "clamp_long v = (if v > 2 ^ 63 - 1 then 2 ^ 63 - 1 else if v < - (2 ^ 63) then - (2 ^ 63) else v)"

definition strtol :: "string \<Rightarrow> int \<times> string" where
  "strtol txt =
     (let rest = dropWhile is_space txt;
          (neg, body) = (case rest of
             c # cs \<Rightarrow> if c = CHR ''-'' then (True, cs) else if c = CHR ''+'' then (False, cs) else (False, rest)
           | [] \<Rightarrow> (False, []));
          ds = takeWhile is_digit body; v = digits_value ds
      in if ds = [] then (0, txt) else (clamp_long (if neg then - v else v), dropWhile is_digit body))"

definition copy_field :: "nat \<Rightarrow> string \<Rightarrow> string" where
  "copy_field len txt = (if length txt < len then txt else take (len - 1) txt)"

section \<open>Walking the tree\<close>

text \<open>A loop over children that stops at the first error.\<close>

fun walk :: "('x \<Rightarrow> 'c \<Rightarrow> 'e + 'c) \<Rightarrow> 'x list \<Rightarrow> 'c \<Rightarrow> 'e + 'c" where
  "walk f [] c = Inr c"
| "walk f (x # xs) c = (case f x c of Inl e \<Rightarrow> Inl e | Inr c1 \<Rightarrow> walk f xs c1)"

text \<open>
  The test of the result of \<open>uuid_strcpy\<close> is \<open>< 0\<close>, as the code has it. \<open>gai\<close> is
  \<open>getaddrinfo\<close> with numeric hosts (\<open>None\<close> when it fails).
\<close>

definition walk_host_child :: "(string \<Rightarrow> sock_address option) \<Rightarrow> xml \<Rightarrow> host_info \<Rightarrow> host_info cf_result" where
  "walk_host_child gai sub h =
     (if xml_name sub = ''HostID'' then
        (case xml_text sub of
           None \<Rightarrow> Inl MTC_ERROR_CF_INVALID_FORMAT
         | Some txt \<Rightarrow> (case uuid_strcpy txt of (ret, packed_uuid) \<Rightarrow>
             if ret < 0 then Inl MTC_ERROR_CF_INVALID_FORMAT else Inr (h\<lparr>hi_host_id := packed_uuid\<rparr>)))
      else if xml_name sub = ''IPaddress'' then
        (case xml_text sub of
           None \<Rightarrow> Inl MTC_ERROR_CF_INVALID_FORMAT
         | Some txt \<Rightarrow> (case gai txt of
             None \<Rightarrow> Inl MTC_ERROR_CF_INVALID_FORMAT
           | Some (AF_OTHER f) \<Rightarrow> Inl MTC_ERROR_CF_INVALID_FORMAT
           | Some sa \<Rightarrow> Inr (h\<lparr>hi_sock_address := Some sa\<rparr>)))
      else Inr h)"

definition zero_host_info :: host_info where
  "zero_host_info = \<lparr>hi_host_id = zero_uuid, hi_sock_address = None\<rparr>"

definition walk_host_config :: "(string \<Rightarrow> sock_address option) \<Rightarrow> xml \<Rightarrow> config \<Rightarrow> config cf_result" where
  "walk_host_config gai cur c =
     (if length (cf_host c) \<ge> MAX_HOST_NUM then Inl MTC_ERROR_CF_INVALID_FORMAT
      else (case walk (walk_host_child gai) (xml_children cur) zero_host_info of
              Inl e \<Rightarrow> Inl e
            | Inr h \<Rightarrow> Inr (c\<lparr>cf_host := cf_host c @ [h]\<rparr>)))"

text \<open>The table of names and the field each is stored in.\<close>

definition parameter_table :: "(string \<times> (u32 \<Rightarrow> config \<Rightarrow> config)) list" where
  "parameter_table =
     [(''HeartbeatInterval'', \<lambda>v c. c\<lparr>cf_heartbeat_interval := v\<rparr>),
      (''HeartbeatTimeout'', \<lambda>v c. c\<lparr>cf_heartbeat_timeout := v\<rparr>),
      (''StateFileInterval'', \<lambda>v c. c\<lparr>cf_statefile_interval := v\<rparr>),
      (''StateFileTimeout'', \<lambda>v c. c\<lparr>cf_statefile_timeout := v\<rparr>),
      (''HeartbeatWatchdogTimeout'', \<lambda>v c. c\<lparr>cf_heartbeat_watchdog_timeout := v\<rparr>),
      (''StateFileWatchdogTimeout'', \<lambda>v c. c\<lparr>cf_statefile_watchdog_timeout := v\<rparr>),
      (''BootJoinTimeout'', \<lambda>v c. c\<lparr>cf_boot_join_timeout := v\<rparr>),
      (''EnableJoinTimeout'', \<lambda>v c. c\<lparr>cf_enable_join_timeout := v\<rparr>),
      (''XapiHealthCheckInterval'', \<lambda>v c. c\<lparr>cf_xapi_healthcheck_interval := v\<rparr>),
      (''XapiHealthCheckTimeout'', \<lambda>v c. c\<lparr>cf_xapi_healthcheck_timeout := v\<rparr>),
      (''XapiRestartAttempts'', \<lambda>v c. c\<lparr>cf_xapi_restart_attempts := v\<rparr>),
      (''XapiRestartTimeout'', \<lambda>v c. c\<lparr>cf_xapi_restart_timeout := v\<rparr>),
      (''XapiLicenseCheckTimeout'', \<lambda>v c. c\<lparr>cf_xapi_licensecheck_timeout := v\<rparr>)]"

definition walk_parameter :: "xml \<Rightarrow> config \<Rightarrow> config cf_result" where
  "walk_parameter sub c =
     (case map_of parameter_table (xml_name sub) of
        None \<Rightarrow> Inr c
      | Some set_value \<Rightarrow>
          (case xml_text sub of
             None \<Rightarrow> Inl MTC_ERROR_CF_INVALID_FORMAT
           | Some txt \<Rightarrow> (case strtol txt of (v, endptr) \<Rightarrow>
               if endptr \<noteq> [] then Inl MTC_ERROR_CF_INVALID_FORMAT else Inr (set_value (word_of_int v) c))))"

definition walk_parameters_config :: "xml \<Rightarrow> config \<Rightarrow> config cf_result" where
  "walk_parameters_config cur c = walk walk_parameter (xml_children cur) c"

text \<open>
  The truncating branch of the physical interface puts its terminator in the last place of
  the other interface, which already has its own terminator there or before.
\<close>

definition walk_localhost_child :: "xml \<Rightarrow> config \<Rightarrow> config cf_result" where
  "walk_localhost_child sub c =
     (let field = (\<lambda>f. (case xml_text sub of None \<Rightarrow> Inl MTC_ERROR_CF_INVALID_FORMAT | Some txt \<Rightarrow> Inr (f txt)))
      in if xml_name sub = ''HostID'' then
           (case xml_text sub of
              None \<Rightarrow> Inl MTC_ERROR_CF_INVALID_FORMAT
            | Some txt \<Rightarrow> (case uuid_strcpy txt of (ret, host_id) \<Rightarrow>
                if ret \<noteq> MTC_SUCCESS then Inl MTC_ERROR_CF_INVALID_FORMAT
                else (case first_host (length (cf_host c))
                             (\<lambda>i. strncmp host_id (hi_host_id (cf_host c ! i)) MTC_UUID_SIZE = 0) of
                        None \<Rightarrow> Inl MTC_ERROR_CF_INVALID_FORMAT
                      | Some i \<Rightarrow> Inr (c\<lparr>cf_localhost_index := of_nat i\<rparr>))))
         else if xml_name sub = ''HeartbeatInterface'' then
           field (\<lambda>txt. c\<lparr>cf_heartbeat_interface := copy_field HEARTBEAT_INTERFACE_LEN txt\<rparr>)
         else if xml_name sub = ''HeartbeatPhysicalInterface'' then
           field (\<lambda>txt. c\<lparr>cf_heartbeat_physical_interface := copy_field HEARTBEAT_INTERFACE_LEN txt\<rparr>)
         else if xml_name sub = ''StateFile'' then
           field (\<lambda>txt. c\<lparr>cf_statefile_path := copy_field STATEFILE_PATH_LEN txt\<rparr>)
         else if xml_name sub = ''WatchdogMode'' then
           field (\<lambda>txt. c\<lparr>cf_watchdog_mode := copy_field WATCHDOG_MODE_LEN txt\<rparr>)
         else Inr c)"

definition walk_localhost :: "xml \<Rightarrow> config \<Rightarrow> config cf_result" where
  "walk_localhost cur c = walk walk_localhost_child (xml_children cur) c"

definition walk_common_child :: "(string \<Rightarrow> sock_address option) \<Rightarrow> xml \<Rightarrow> config \<Rightarrow> config cf_result" where
  "walk_common_child gai sub c =
     (if xml_name sub = ''GenerationUUID'' then
        (case xml_text sub of
           None \<Rightarrow> Inl MTC_ERROR_CF_INVALID_FORMAT
         | Some txt \<Rightarrow> (case uuid_strcpy txt of (ret, packed_uuid) \<Rightarrow>
             if ret \<noteq> MTC_SUCCESS then Inl MTC_ERROR_CF_INVALID_FORMAT else Inr (c\<lparr>cf_generation_uuid := packed_uuid\<rparr>)))
      else if xml_name sub = ''UDPport'' then
        (case xml_text sub of
           None \<Rightarrow> Inl MTC_ERROR_CF_INVALID_FORMAT
         | Some txt \<Rightarrow> (case strtol txt of (v, endptr) \<Rightarrow>
             let port = (word_of_int v :: u32) in
             if endptr \<noteq> [] \<or> port = 0 then Inl MTC_ERROR_CF_INVALID_FORMAT else Inr (c\<lparr>cf_udp_port := port\<rparr>)))
      else if xml_name sub = ''host'' then walk_host_config gai sub c
      else if xml_name sub = ''parameters'' then walk_parameters_config sub c
      else Inr c)"

text \<open>\<open>qsort\<close> is the C library's, for some order among equal elements.\<close>

definition walk_common_config :: "(string \<Rightarrow> sock_address option) \<Rightarrow> (host_info list \<Rightarrow> host_info list) \<Rightarrow> xml
  \<Rightarrow> config \<Rightarrow> config cf_result" where
  "walk_common_config gai qsort cur c =
     (case walk (walk_common_child gai) (xml_children cur) c of
        Inl e \<Rightarrow> Inl e
      | Inr c1 \<Rightarrow> Inr (c1\<lparr>cf_host := qsort (cf_host c1)\<rparr>))"

definition walk_local_config :: "xml \<Rightarrow> config \<Rightarrow> config cf_result" where
  "walk_local_config cur c =
     walk (\<lambda>sub c. if xml_name sub = ''localhost'' then walk_localhost sub c else Inr c) (xml_children cur) c"

text \<open>\<open>localhost_index\<close> is unsigned, so its second comparison never holds.\<close>

definition config_complete :: "config \<Rightarrow> bool" where
  "config_complete c \<longleftrightarrow> hd (cf_generation_uuid c) \<noteq> NUL \<and> cf_udp_port c \<noteq> 0 \<and> length (cf_host c) \<noteq> 0
     \<and> cf_heartbeat_interface c \<noteq> [] \<and> cf_statefile_path c \<noteq> []
     \<and> \<not> cf_localhost_index c \<ge> of_nat MAX_HOST_NUM"

definition walk_root_child :: "(string \<Rightarrow> sock_address option) \<Rightarrow> (host_info list \<Rightarrow> host_info list) \<Rightarrow> xml
  \<Rightarrow> config \<Rightarrow> config cf_result" where
  "walk_root_child gai qsort sub c =
     (if xml_name sub = ''common-config'' then walk_common_config gai qsort sub c
      else if xml_name sub = ''local-config'' then walk_local_config sub c else Inr c)"

text \<open>
  \<open>exists\<close> is whether the file is there, \<open>parsed\<close> the parser's tree, if any, and its root
  element, if any.
\<close>

definition interpret_config_file :: "(string \<Rightarrow> sock_address option) \<Rightarrow> (host_info list \<Rightarrow> host_info list)
  \<Rightarrow> bool \<Rightarrow> xml option option \<Rightarrow> config \<Rightarrow> config cf_result" where
  "interpret_config_file gai qsort exists parsed c0 =
     (if \<not> exists then Inl MTC_ERROR_CF_OPEN
      else
       let c = (set_default_value c0)\<lparr>cf_localhost_index := - 1\<rparr>
       in (case parsed of
             Some (Some cur) \<Rightarrow>
               (if xml_name cur \<noteq> ''xhad-config'' then Inl MTC_ERROR_CF_INVALID_FORMAT
                else (case map_of (xml_props cur) ''version'' of
                        None \<Rightarrow> Inl MTC_ERROR_CF_INVALID_FORMAT
                      | Some txt \<Rightarrow>
                          if \<not> valid_version txt then Inl MTC_ERROR_CF_INVALID_FORMAT
                          else (case walk (walk_root_child gai qsort) (xml_children cur) (c\<lparr>cf_version := txt\<rparr>) of
                                  Inl e \<Rightarrow> Inl e
                                | Inr c1 \<Rightarrow> if config_complete c1 then Inr c1 else Inl MTC_ERROR_CF_INVALID_FORMAT)))
           | _ \<Rightarrow> Inl MTC_ERROR_CF_INVALID_FORMAT))"

text \<open>What the rest of the daemon reads.\<close>

definition config_of :: "config \<Rightarrow> ha_config" where
  "config_of c = \<lparr>num_host = length (cf_host c), my_index = unat (cf_localhost_index c),
     cfg_t1 = cf_heartbeat_interval c, cfg_T1 = cf_heartbeat_timeout c, cfg_t2 = cf_statefile_interval c,
     cfg_T2 = cf_statefile_timeout c, cfg_Wh = cf_heartbeat_watchdog_timeout c,
     cfg_Ws = cf_statefile_watchdog_timeout c, cfg_Tboot = cf_boot_join_timeout c,
     cfg_Tenable = cf_enable_join_timeout c, cfg_tXapi = cf_xapi_healthcheck_interval c,
     cfg_TXapi = cf_xapi_healthcheck_timeout c, cfg_RestartXapi = cf_xapi_restart_attempts c,
     cfg_TRestartXapi = cf_xapi_restart_timeout c, cfg_Tlicense = cf_xapi_licensecheck_timeout c,
     gen_UUID = cf_generation_uuid c, host_UUID = (\<lambda>i. hi_host_id (cf_host c ! i))\<rparr>"

end
