(* ===== verification/ConfigProps.thy ===== *)
theory ConfigProps
  imports Config "HOL-Library.Multiset" "HOL-Library.List_Lexorder"
begin

text \<open>
  What a configuration that was accepted guarantees to the rest of the daemon, and why all
  hosts of a pool number the hosts in the same way.
\<close>

section \<open>Loops over children\<close>

lemma walk_inv:
  assumes "walk f xs c = Inr c'" and "I c" and "\<And>x a b. x \<in> set xs \<Longrightarrow> I a \<Longrightarrow> f x a = Inr b \<Longrightarrow> I b"
  shows "I c'"
  using assms by (induction f xs c rule: walk.induct) (auto split: sum.splits)

lemma walk_frame:
  assumes "walk f xs c = Inr c'" and "\<And>x a b. f x a = Inr b \<Longrightarrow> g b = g a"
  shows "g c' = g c"
  by (rule walk_inv[where I = "\<lambda>a. g a = g c", OF assms(1)]) (auto dest: assms(2))

section \<open>The order of host identifiers\<close>

lemma strncmp_sym: "strncmp a b n + strncmp b a n = 0"
  by (induction n arbitrary: a b) (auto simp: Let_def)

text \<open>The part of an identifier the comparison looks at, as a list the library can order.\<close>

fun id_key :: "string \<Rightarrow> nat \<Rightarrow> nat list" where
  "id_key a 0 = []"
| "id_key [] (Suc n) = []"
| "id_key (c # a) (Suc n) = (if c = NUL then [] else of_char c # id_key a n)"

lemma of_char_NUL [simp]: "of_char NUL = (0 :: nat)" "of_char NUL = (0 :: int)"
  by (simp_all add: of_char_def)

lemma of_char_int: "(of_char c :: int) = int (of_char c)"
  by (simp only: of_nat_of_char)

lemma strncmp_key: "id_key a n \<le> id_key b n \<Longrightarrow> strncmp a b n \<le> 0"
proof (induction a b n rule: strncmp.induct)
  case (2 a b n)
  then show ?case
    by (cases a; cases b) (auto simp: Let_def of_char_int split: if_splits)
qed simp

text \<open>What \<open>qsort\<close> promises: a permutation, in the order of the comparison.\<close>

definition qsort_spec :: "(host_info list \<Rightarrow> host_info list) \<Rightarrow> bool" where
  "qsort_spec qs \<longleftrightarrow> (\<forall>l. mset (qs l) = mset l \<and> sorted_wrt (\<lambda>a b. host_info_compar a b \<le> 0) (qs l))"

lemma qsort_specD:
  "qsort_spec qs \<Longrightarrow> mset (qs l) = mset l"
  "qsort_spec qs \<Longrightarrow> sorted_wrt (\<lambda>a b. host_info_compar a b \<le> 0) (qs l)"
  by (auto simp: qsort_spec_def)

definition key_sort :: "host_info list \<Rightarrow> host_info list" where
  "key_sort l = sort_key (\<lambda>h. id_key (hi_host_id h) MTC_UUID_SIZE) l"

lemma key_sort_spec: "qsort_spec key_sort"
proof -
  have "sorted_wrt (\<lambda>a b. host_info_compar a b \<le> 0) (key_sort l)" for l
  proof -
    have "sorted_wrt (\<lambda>a b. id_key (hi_host_id a) MTC_UUID_SIZE \<le> id_key (hi_host_id b) MTC_UUID_SIZE) (key_sort l)"
      using sorted_sort_key[of "\<lambda>h. id_key (hi_host_id h) MTC_UUID_SIZE" l]
      by (simp only: key_sort_def sorted_map)
    then show ?thesis by (rule sorted_wrt_mono_rel[rotated]) (simp add: host_info_compar_def strncmp_key)
  qed
  then show ?thesis by (simp add: qsort_spec_def key_sort_def)
qed

text \<open>Two sorted lists of the same elements are equal when the order tells the elements apart.\<close>

lemma sorted_wrt_unique:
  assumes "sorted_wrt R xs" and "sorted_wrt R ys" and "mset xs = mset ys"
    and "\<And>x y. x \<in> set xs \<Longrightarrow> y \<in> set xs \<Longrightarrow> R x y \<Longrightarrow> R y x \<Longrightarrow> x = y"
  shows "xs = ys"
  using assms
proof (induction xs arbitrary: ys)
  case (Cons x xs)
  then obtain y zs where ys: "ys = y # zs" by (cases ys) auto
  have sets: "insert y (set zs) = insert x (set xs)"
    using mset_eq_setD[OF Cons.prems(3)] ys by simp
  have "x = y"
  proof (rule ccontr)
    assume ne: "x \<noteq> y"
    then have "y \<in> set xs" "x \<in> set zs" using sets by auto
    then have "R x y" "R y x" using Cons.prems(1,2) ys by auto
    then show False using Cons.prems(4)[of x y] \<open>y \<in> set xs\<close> ne by simp
  qed
  moreover have "xs = zs"
    using Cons.prems ys \<open>x = y\<close> by (intro Cons.IH) auto
  ultimately show ?case using ys by simp
qed simp

definition unique_ids :: "host_info list \<Rightarrow> bool" where
  "unique_ids hs \<longleftrightarrow> list_all (\<lambda>x. list_all (\<lambda>y. host_info_compar x y = 0 \<longrightarrow> x = y) hs) hs"

lemma host_table_unique:
  assumes "qsort_spec qs1" and "qsort_spec qs2" and "mset l1 = mset l2" and "unique_ids (qs1 l1)"
  shows "qs1 l1 = qs2 l2"
proof (rule sorted_wrt_unique[OF qsort_specD(2)[OF assms(1)] qsort_specD(2)[OF assms(2)]])
  show "mset (qs1 l1) = mset (qs2 l2)" by (simp add: qsort_specD(1)[OF assms(1)] qsort_specD(1)[OF assms(2)] assms(3))
  fix x y
  assume xy: "x \<in> set (qs1 l1)" "y \<in> set (qs1 l1)" and "host_info_compar x y \<le> 0" "host_info_compar y x \<le> 0"
  then have "host_info_compar x y = 0"
    using strncmp_sym[of "hi_host_id y" "hi_host_id x" MTC_UUID_SIZE] by (simp add: host_info_compar_def)
  with xy assms(4) show "x = y" by (auto simp: unique_ids_def list_all_iff)
qed

section \<open>A concrete file\<close>

definition ex_gai :: "string \<Rightarrow> sock_address option" where
  "ex_gai ip = Some (AF_INET ip)"

definition ex_leaf :: "string \<Rightarrow> string \<Rightarrow> xml" where
  "ex_leaf nm txt = Xml nm [] (Some txt) []"

definition ex_host :: "string \<Rightarrow> string \<Rightarrow> xml" where
  "ex_host u ip = Xml ''host'' [] None [ex_leaf ''HostID'' u, ex_leaf ''IPaddress'' ip]"

definition uuid_a :: string where "uuid_a = ''aaaaaaaa-0000-0000-0000-000000000001''"
definition uuid_b :: string where "uuid_b = ''bbbbbbbb-0000-0000-0000-000000000002''"

definition ex_common :: "xml list \<Rightarrow> xml" where
  "ex_common hosts = Xml ''common-config'' [] None
     ([ex_leaf ''GenerationUUID'' uuid_a, ex_leaf ''UDPport'' ''694''] @ hosts
      @ [Xml ''parameters'' [] None [ex_leaf ''HeartbeatInterval'' ''5'']])"

definition ex_file :: xml where
  "ex_file = Xml ''xhad-config'' [(''version'', ''1.0'')] None
     [ex_common [ex_host uuid_b ''10.0.0.2'', ex_host uuid_a ''10.0.0.1''],
      Xml ''local-config'' [] None
        [Xml ''localhost'' [] None
           [ex_leaf ''HostID'' uuid_b, ex_leaf ''HeartbeatInterface'' ''xenbr0'', ex_leaf ''StateFile'' ''/dev/statefile'']]]"

definition right_of :: "'a cf_result \<Rightarrow> 'a \<Rightarrow> 'a" where
  "right_of r x = (case r of Inl e \<Rightarrow> x | Inr y \<Rightarrow> y)"

lemma right_of_Inr: "\<not> isl r \<Longrightarrow> r = Inr (right_of r x)"
  by (cases r) (auto simp: right_of_def)

lemma ex_file_read: "\<not> isl (interpret_config_file ex_gai key_sort True (Some (Some ex_file)) zero_config)"
  by code_simp

section \<open>What an accepted configuration guarantees\<close>

text \<open>
  The part of the guarantee that holds at every point of the walk: the number of hosts has
  its bound, the local index is unset or below that number, and every text fits its field.
\<close>

definition config_inv :: "string \<Rightarrow> config \<Rightarrow> bool" where
  "config_inv ver c \<longleftrightarrow> length (cf_host c) \<le> MAX_HOST_NUM \<and> cf_version c = ver
     \<and> (cf_localhost_index c = - 1 \<or> unat (cf_localhost_index c) < length (cf_host c))
     \<and> length (cf_heartbeat_interface c) < HEARTBEAT_INTERFACE_LEN
     \<and> length (cf_heartbeat_physical_interface c) < HEARTBEAT_INTERFACE_LEN
     \<and> length (cf_statefile_path c) < STATEFILE_PATH_LEN
     \<and> length (cf_watchdog_mode c) < WATCHDOG_MODE_LEN"

lemma copy_field_fits: "0 < len \<Longrightarrow> length (copy_field len txt) < len"
  by (auto simp: copy_field_def)

lemma field_lens [simp]: "0 < HEARTBEAT_INTERFACE_LEN" "0 < STATEFILE_PATH_LEN" "0 < WATCHDOG_MODE_LEN"
  by (simp_all add: HEARTBEAT_INTERFACE_LEN_def STATEFILE_PATH_LEN_def WATCHDOG_MODE_LEN_def)

lemma parameter_table_inv:
  "map_of parameter_table nm = Some f \<Longrightarrow> config_inv ver c \<Longrightarrow> config_inv ver (f v c)"
  by (auto simp: parameter_table_def config_inv_def split: if_splits)

lemma parameter_table_host: "map_of parameter_table nm = Some f \<Longrightarrow> cf_host (f v c) = cf_host c"
  by (auto simp: parameter_table_def split: if_splits)

lemma walk_parameter_inv: "config_inv ver c \<Longrightarrow> walk_parameter x c = Inr c' \<Longrightarrow> config_inv ver c'"
  by (auto simp: walk_parameter_def parameter_table_inv split: option.splits prod.splits if_splits)

lemma walk_parameter_host: "walk_parameter x c = Inr c' \<Longrightarrow> cf_host c' = cf_host c"
  by (auto simp: walk_parameter_def parameter_table_host split: option.splits prod.splits if_splits)

lemma walk_parameters_inv: "config_inv ver c \<Longrightarrow> walk_parameters_config x c = Inr c' \<Longrightarrow> config_inv ver c'"
  unfolding walk_parameters_config_def by (erule (1) walk_inv) (rule walk_parameter_inv)

lemma walk_parameters_host: "walk_parameters_config x c = Inr c' \<Longrightarrow> cf_host c' = cf_host c"
  unfolding walk_parameters_config_def by (erule walk_frame) (rule walk_parameter_host)

lemma walk_host_inv: "config_inv ver c \<Longrightarrow> walk_host_config gai x c = Inr c' \<Longrightarrow> config_inv ver c'"
  by (auto simp: walk_host_config_def config_inv_def split: if_splits sum.splits)

lemma walk_common_child_inv:
  "config_inv ver c \<Longrightarrow> walk_common_child gai x c = Inr c' \<Longrightarrow> config_inv ver c'"
  by (auto simp: walk_common_child_def Let_def intro: walk_host_inv walk_parameters_inv
        split: if_splits option.splits prod.splits)
     (auto simp: config_inv_def)

lemma walk_common_inv:
  assumes "config_inv ver c" and "walk_common_config gai qs x c = Inr c'" and "\<And>l. mset (qs l) = mset l"
  shows "config_inv ver c'"
proof -
  obtain c1 where c1: "walk (walk_common_child gai) (xml_children x) c = Inr c1"
    and c': "c' = c1\<lparr>cf_host := qs (cf_host c1)\<rparr>"
    using assms(2) by (auto simp: walk_common_config_def split: sum.splits)
  have "config_inv ver c1" using c1 assms(1) by (rule walk_inv) (rule walk_common_child_inv)
  then show ?thesis using mset_eq_length[OF assms(3)] by (simp add: config_inv_def c')
qed

lemma localhost_index_inv:
  assumes "config_inv ver c" and "first_host (length (cf_host c)) P = Some i"
  shows "config_inv ver (c\<lparr>cf_localhost_index := of_nat i\<rparr>)"
proof -
  have "i < length (cf_host c)" "length (cf_host c) \<le> 64"
    using assms by (auto simp: first_host_Some config_inv_def MAX_HOST_NUM_def)
  then have "unat (of_nat i :: u32) < length (cf_host c)" by (simp add: unat_of_nat)
  then show ?thesis using assms(1) by (simp add: config_inv_def)
qed

lemma walk_localhost_child_inv:
  "config_inv ver c \<Longrightarrow> walk_localhost_child x c = Inr c' \<Longrightarrow> config_inv ver c'"
  by (auto simp: walk_localhost_child_def Let_def localhost_index_inv split: if_splits option.splits prod.splits)
     (auto simp: config_inv_def copy_field_fits)

lemma walk_local_inv:
  assumes "config_inv ver c" and "walk_local_config x c = Inr c'"
  shows "config_inv ver c'"
  using assms(2,1) unfolding walk_local_config_def
proof (rule walk_inv)
  fix y a b assume "config_inv ver a"
    and "(if xml_name y = ''localhost'' then walk_localhost y a else Inr a) = Inr b"
  then show "config_inv ver b"
    by (auto simp: walk_localhost_def split: if_splits elim: walk_inv intro: walk_localhost_child_inv)
qed

lemma walk_root_child_inv:
  "config_inv ver c \<Longrightarrow> walk_root_child gai qs x c = Inr c' \<Longrightarrow> \<forall>l. mset (qs l) = mset l \<Longrightarrow> config_inv ver c'"
  by (auto simp: walk_root_child_def split: if_splits intro: walk_common_inv walk_local_inv)

lemma valid_version_iff: "valid_version v \<longleftrightarrow> v = ''1.0''"
  by (auto simp: valid_version_def)

text \<open>
  C34. A configuration file that is accepted, read into the zero-initialised structure,
  gives the daemon what its other modules take for granted: at least one and at most 64
  hosts, a local index below the number of hosts, a port, version 1.0, and texts shorter than
  their fields. The only hypothesis is that \<open>qsort\<close> permutes.
\<close>

theorem accepted_config_is_valid:
  assumes "interpret_config_file gai qs ex parsed zero_config = Inr c" and "\<forall>l. mset (qs l) = mset l"
  shows "valid_config (config_of c) \<and> 0 < num_host (config_of c) \<and> cf_version c = ''1.0'' \<and> cf_udp_port c \<noteq> 0
    \<and> length (cf_heartbeat_interface c) < 64 \<and> length (cf_heartbeat_physical_interface c) < 64
    \<and> length (cf_statefile_path c) < 4097 \<and> length (cf_watchdog_mode c) < 16"
proof -
  obtain cur where cur: "walk (walk_root_child gai qs) (xml_children cur)
      ((set_default_value zero_config)\<lparr>cf_localhost_index := - 1, cf_version := ''1.0''\<rparr>) = Inr c"
    and ok: "config_complete c"
    using assms(1)
    by (auto simp: interpret_config_file_def Let_def valid_version_iff split: if_splits option.splits sum.splits)
  have "config_inv ''1.0'' ((set_default_value zero_config)\<lparr>cf_localhost_index := - 1, cf_version := ''1.0''\<rparr>)"
    by (simp add: config_inv_def set_default_value_def zero_config_def)
  with cur have inv: "config_inv ''1.0'' c"
    by (rule walk_inv) (rule walk_root_child_inv[OF _ _ assms(2)])
  have "cf_localhost_index c \<noteq> - 1"
    using ok by (auto simp: config_complete_def MAX_HOST_NUM_def)
  then show ?thesis using inv ok
    by (auto simp: config_inv_def config_complete_def valid_config_def config_of_def HEARTBEAT_INTERFACE_LEN_def
          STATEFILE_PATH_LEN_def WATCHDOG_MODE_LEN_def)
qed

theorem accepted_config_is_valid_witness:
  "valid_config (config_of (right_of (interpret_config_file ex_gai key_sort True (Some (Some ex_file)) zero_config) zero_config))"
  using accepted_config_is_valid[OF right_of_Inr[OF ex_file_read]] qsort_specD(1)[OF key_sort_spec] by blast

text \<open>The second host of the sorted table is the local one.\<close>

lemma ex_file_config:
  "(case interpret_config_file ex_gai key_sort True (Some (Some ex_file)) zero_config of
      Inl e \<Rightarrow> False
    | Inr c \<Rightarrow> num_host (config_of c) = 2 \<and> my_index (config_of c) = 1 \<and> cfg_t1 (config_of c) = 5 \<and> cfg_T1 (config_of c) = 30)"
  by code_simp

section \<open>The host table\<close>

text \<open>Whether a child is accepted, and the row it adds, do not depend on what was read before.\<close>

definition host_row :: "(string \<Rightarrow> sock_address option) \<Rightarrow> xml \<Rightarrow> host_info" where
  "host_row gai x = projr (walk (walk_host_child gai) (xml_children x) zero_host_info)"

definition is_host :: "xml \<Rightarrow> bool" where
  "is_host x \<longleftrightarrow> xml_name x = ''host''"

definition child_ok :: "(string \<Rightarrow> sock_address option) \<Rightarrow> xml \<Rightarrow> bool" where
  "child_ok gai x \<longleftrightarrow> \<not> isl (walk_common_child gai x zero_config)"

lemma walk_isl:
  assumes "\<And>x c. x \<in> set xs \<Longrightarrow> isl (f x c) = P x"
  shows "isl (walk f xs c) = list_ex P xs"
  using assms
proof (induction xs arbitrary: c)
  case (Cons x xs)
  then show ?case using Cons.prems[of x c] by (cases "f x c") auto
qed simp

lemma walk_parameter_isl: "isl (walk_parameter x c) = isl (walk_parameter x zero_config)"
  by (auto simp: walk_parameter_def split: option.splits prod.splits)

lemma walk_parameters_isl: "isl (walk_parameters_config x c) = isl (walk_parameters_config x zero_config)"
  unfolding walk_parameters_config_def
  using walk_isl[of _ walk_parameter, OF walk_parameter_isl] by simp

lemma child_step:
  "\<not> isl (walk_common_child gai x c) \<longleftrightarrow> child_ok gai x \<and> (is_host x \<longrightarrow> length (cf_host c) < MAX_HOST_NUM)"
  using walk_parameters_isl[of x c]
  by (auto simp: child_ok_def walk_common_child_def is_host_def walk_host_config_def zero_config_def MAX_HOST_NUM_def Let_def
        split: option.splits prod.splits sum.splits)

lemma child_hosts:
  "walk_common_child gai x c = Inr c' \<Longrightarrow> cf_host c' = cf_host c @ map (host_row gai) (filter is_host [x])"
  by (auto simp: walk_common_child_def is_host_def walk_host_config_def host_row_def Let_def walk_parameters_host
        split: if_splits option.splits prod.splits sum.splits)

lemma children_hosts:
  "walk (walk_common_child gai) xs c = Inr c' \<Longrightarrow> cf_host c' = cf_host c @ map (host_row gai) (filter is_host xs)"
proof (induction xs arbitrary: c)
  case (Cons x xs)
  then show ?case using child_hosts[of gai x c] by (auto split: sum.splits)
qed simp

lemma children_accepted:
  "\<not> isl (walk (walk_common_child gai) xs c) \<longleftrightarrow>
     list_all (child_ok gai) xs \<and> (filter is_host xs = [] \<or> length (cf_host c) + length (filter is_host xs) \<le> MAX_HOST_NUM)"
proof (induction xs arbitrary: c)
  case (Cons x xs)
  show ?case
  proof (cases "walk_common_child gai x c")
    case (Inl e)
    then show ?thesis using child_step[of gai x c] by auto
  next
    case (Inr c1)
    then show ?thesis using child_step[of gai x c] child_hosts[OF Inr] Cons.IH[of c1] by auto
  qed
qed simp

text \<open>
  C33. All hosts of a pool number the hosts in the same way: when two files list the same
  elements of the common section in different orders, and no two hosts have the same
  identifier, both are accepted or neither, and the host tables are equal, whatever order
  the two \<open>qsort\<close>s leave equal elements in. The bitmaps of the heartbeat and of
  the State-File are indexed with these numbers.
\<close>

theorem host_table_order_independent:
  assumes "walk_common_config gai qs1 cur1 c = Inr c1" and "mset (xml_children cur2) = mset (xml_children cur1)"
    and "qsort_spec qs1" and "qsort_spec qs2" and "unique_ids (cf_host c1)"
  shows "\<exists>c2. walk_common_config gai qs2 cur2 c = Inr c2 \<and> cf_host c2 = cf_host c1"
proof -
  obtain d1 where d1: "walk (walk_common_child gai) (xml_children cur1) c = Inr d1"
    and c1: "c1 = d1\<lparr>cf_host := qs1 (cf_host d1)\<rparr>"
    using assms(1) by (auto simp: walk_common_config_def split: sum.splits)
  have filters: "mset (filter is_host (xml_children cur2)) = mset (filter is_host (xml_children cur1))"
    by (simp add: assms(2))
  have "\<not> isl (walk (walk_common_child gai) (xml_children cur1) c)" using d1 by simp
  then have "\<not> isl (walk (walk_common_child gai) (xml_children cur2) c)"
    using mset_eq_setD[OF assms(2)] mset_eq_length[OF filters] mset_eq_setD[OF filters]
    by (auto simp: children_accepted list_all_iff)
  then obtain d2 where d2: "walk (walk_common_child gai) (xml_children cur2) c = Inr d2"
    by (cases "walk (walk_common_child gai) (xml_children cur2) c") auto
  have "mset (cf_host d1) = mset (cf_host d2)"
    by (simp add: children_hosts[OF d1] children_hosts[OF d2] assms(2))
  then have "qs1 (cf_host d1) = qs2 (cf_host d2)"
    by (rule host_table_unique[OF assms(3,4)]) (use assms(5) c1 in simp)
  then show ?thesis by (simp add: walk_common_config_def d2 c1)
qed

lemma ex_common_read:
  "\<not> isl (walk_common_config ex_gai key_sort (ex_common [ex_host uuid_a ''10.0.0.1'', ex_host uuid_b ''10.0.0.2'']) zero_config)"
  "unique_ids (cf_host (right_of (walk_common_config ex_gai key_sort
     (ex_common [ex_host uuid_a ''10.0.0.1'', ex_host uuid_b ''10.0.0.2'']) zero_config) zero_config))"
  by code_simp+

theorem host_table_order_independent_witness:
  "\<exists>c2. walk_common_config ex_gai key_sort (ex_common [ex_host uuid_b ''10.0.0.2'', ex_host uuid_a ''10.0.0.1'']) zero_config
      = Inr c2
    \<and> cf_host c2 = cf_host (right_of (walk_common_config ex_gai key_sort
        (ex_common [ex_host uuid_a ''10.0.0.1'', ex_host uuid_b ''10.0.0.2'']) zero_config) zero_config)"
  by (rule host_table_order_independent[OF right_of_Inr[OF ex_common_read(1)] _ key_sort_spec key_sort_spec ex_common_read(2)])
     (simp add: ex_common_def)

section \<open>Identifiers that are not checked\<close>

text \<open>
  The status of \<open>uuid_strcpy\<close> is positive or zero, so the test of the host rows never
  finds an error: any text is taken as the identifier of a host.
\<close>

lemma any_host_id_accepted:
  "walk_host_child gai (Xml ''HostID'' ps (Some txt) cs) h = Inr (h\<lparr>hi_host_id := snd (uuid_strcpy txt)\<rparr>)"
  by (auto simp: walk_host_child_def uuid_strcpy_def Let_def split: prod.splits)

lemma short_host_id: "snd (uuid_strcpy ''a'') = CHR ''a'' # replicate 31 NUL"
  by (simp add: uuid_strcpy_def MTC_UUID_SIZE_def)

end
