(* ===== verification/Printing.thy ===== *)
theory Printing
  imports Config
begin

text \<open>
  The conversions of \<open>printf\<close> the programs use: decimal and hexadecimal numbers.
\<close>

fun digits :: "nat \<Rightarrow> string" where
  "digits n = (if n < 10 then [char_of (48 + n)] else digits (n div 10) @ [char_of (48 + n mod 10)])"

declare digits.simps [simp del]

text \<open>\<open>%d\<close>, also of an unsigned number.\<close>

definition print_int :: "int \<Rightarrow> string" where
  "print_int v = (if v < 0 then CHR ''-'' # digits (nat (- v)) else digits (nat v))"

definition print_u32 :: "u32 \<Rightarrow> string" where "print_u32 w = print_int (sint w)"

text \<open>\<open>%x\<close>.\<close>

fun hex_digits :: "nat \<Rightarrow> string" where
  "hex_digits n = (let d = n mod 16; ch = char_of (if d < 10 then 48 + d else 87 + d)
                   in if n < 16 then [ch] else hex_digits (n div 16) @ [ch])"

declare hex_digits.simps [simp del]

text \<open>\<open>%2d\<close>.\<close>

definition print_int2 :: "int \<Rightarrow> string" where
  "print_int2 v = (let ds = print_int v in replicate (2 - length ds) (CHR '' '') @ ds)"

end
