(* ===== verification/ErrorCodes.thy ===== *)
theory ErrorCodes
  imports HaTypes
begin

text \<open>
  The table of status codes (\<^verbatim>\<open>include/mtcerrno.def\<close>) and the exit codes of the
  commands they are mapped to (\<^verbatim>\<open>lib/error.c\<close>).
\<close>

section \<open>Exit codes\<close>

abbreviation "MTC_EXIT_SUCCESS \<equiv> (0 :: int)"
abbreviation "MTC_EXIT_INVALID_PARAMETER \<equiv> (1 :: int)"
abbreviation "MTC_EXIT_SYSTEM_ERROR \<equiv> (2 :: int)"
abbreviation "MTC_EXIT_TRANSIENT_SYSTEM_ERROR \<equiv> (3 :: int)"
abbreviation "MTC_EXIT_WATCHDOG_ERROR \<equiv> (4 :: int)"
abbreviation "MTC_EXIT_IMPROPER_LICENSE \<equiv> (5 :: int)"
abbreviation "MTC_EXIT_CAN_NOT_READ_CONFIG_FILE \<equiv> (6 :: int)"
abbreviation "MTC_EXIT_INVALID_CONFIG_FILE \<equiv> (7 :: int)"
abbreviation "MTC_EXIT_CAN_NOT_ACCESS_STATEFILE \<equiv> (8 :: int)"
abbreviation "MTC_EXIT_INVALID_STATE_FILE \<equiv> (9 :: int)"
abbreviation "MTC_EXIT_GENERATION_UUID_MISMATCH \<equiv> (10 :: int)"
abbreviation "MTC_EXIT_INVALID_POOL_STATE \<equiv> (11 :: int)"
abbreviation "MTC_EXIT_BOOTJOIN_TIMEOUT \<equiv> (12 :: int)"
abbreviation "MTC_EXIT_CAN_NOT_JOIN_EXISTING_LIVESET \<equiv> (13 :: int)"
abbreviation "MTC_EXIT_DAEMON_IS_NOT_PRESENT \<equiv> (14 :: int)"
abbreviation "MTC_EXIT_DAEMON_IS_PRESENT \<equiv> (15 :: int)"
abbreviation "MTC_EXIT_INVALID_ENVIRONMENT \<equiv> (16 :: int)"
abbreviation "MTC_EXIT_INVALID_LOCALHOST_STATE \<equiv> (17 :: int)"
abbreviation "MTC_EXIT_BOOT_BLOCKED_BY_EXCLUDED \<equiv> (18 :: int)"
abbreviation "MTC_EXIT_SET_EXCLUDED \<equiv> (19 :: int)"
abbreviation "MTC_EXIT_INTERNAL_BUG \<equiv> (127 :: int)"

text \<open>The status codes the other modules do not name.\<close>

abbreviation "MTC_ERROR_SC_INSUFFICIENT_RESOURCE \<equiv> (1600 :: mtc_status)"
abbreviation "MTC_ERROR_SC_SOCKET \<equiv> (1601 :: mtc_status)"
abbreviation "MTC_ERROR_SC_PTHREAD \<equiv> (1602 :: mtc_status)"
abbreviation "MTC_ERROR_SC_CONNECT_TO_DAEMON \<equiv> (1603 :: mtc_status)"
abbreviation "MTC_ERROR_SC_READ_ERROR \<equiv> (1604 :: mtc_status)"
abbreviation "MTC_ERROR_SC_WRITE_ERROR \<equiv> (1605 :: mtc_status)"
abbreviation "MTC_ERROR_SC_IMPROPER_DATA \<equiv> (1606 :: mtc_status)"
abbreviation "MTC_ERROR_HB_INSUFFICIENT_RESOURCE \<equiv> (1700 :: mtc_status)"
abbreviation "MTC_ERROR_HB_SOCKET \<equiv> (1701 :: mtc_status)"
abbreviation "MTC_ERROR_HB_PTHREAD \<equiv> (1702 :: mtc_status)"
abbreviation "MTC_ERROR_LOG_PTHREAD \<equiv> (1800 :: mtc_status)"
abbreviation "MTC_ERROR_SM_PTHREAD \<equiv> (1900 :: mtc_status)"
abbreviation "MTC_ERROR_SM_ENABLE_TIMEOUT \<equiv> (1907 :: mtc_status)"
abbreviation "MTC_ERROR_XAPIMON_PTHREAD \<equiv> (2001 :: mtc_status)"
abbreviation "MTC_ERROR_XAPIMON_PIPE \<equiv> (2002 :: mtc_status)"
abbreviation "MTC_ERROR_XAPIMON_FORK \<equiv> (2003 :: mtc_status)"
abbreviation "MTC_ERROR_LM_PTHREAD \<equiv> (2100 :: mtc_status)"
abbreviation "MTC_ERROR_BM_PTHREAD \<equiv> (2200 :: mtc_status)"

section \<open>The table\<close>

text \<open>Status and exit code, in the order of the file.\<close>

definition mtc_errtable :: "(mtc_status \<times> int) list" where
  "mtc_errtable =
     [(0, 0), (1, 0), (2, 0), (3, 0), (4, 0), (5, 0), (6, 0), (7, 0), (8, 0), (9, 0), (10, 0), (11, 0),
      (12, 0), (13, 0), (14, 0), (15, 0), (16, 0), (17, 0), (18, 0), (19, 0), (127, 0), (0, 0),
      (1100, 2), (1101, 15), (1102, 5), (1103, 1), (1200, 127), (1201, 7), (1202, 6), (1300, 3),
      (1301, 2), (1302, 127), (1303, 127), (1400, 3), (1401, 4), (1402, 4), (1403, 127), (1500, 3),
      (1501, 8), (1502, 8), (1503, 9), (1504, 9), (1505, 2), (1506, - 1), (1507, 10), (1508, 11),
      (1600, 3), (1601, 2), (1602, 2), (1603, 14), (1604, 3), (1605, 3), (1606, 127), (1607, 17),
      (1608, 1), (1609, 8), (1610, 11), (1700, 3), (1701, 2), (1702, 2), (1703, 2), (1800, 2), (1900, 2),
      (1901, 12), (1902, 8), (1903, 13), (1904, 2), (1905, 2), (1906, 11), (1907, 12), (1908, 18),
      (1909, 13), (1910, 11), (2000, 2), (2001, 2), (2002, 2), (2003, 2), (2100, 2), (2200, 2),
      (2300, 2), (2301, 2), (2302, 2), (2303, 1), (10000, 127)]"

text \<open>
  The first entry of the status counts. An exit code 0 in the table stands for the status
  itself; \<open>- 1\<close> is where the code asserts.
\<close>

definition status_to_exit :: "mtc_status \<Rightarrow> int" where
  "status_to_exit status =
     (case map_of mtc_errtable status of
        None \<Rightarrow> - 1
      | Some exit_code \<Rightarrow> if exit_code = - 1 then - 1 else if exit_code = 0 then status else exit_code)"

text \<open>The messages of the same table; a status that is not in it has none.\<close>

definition mtc_messages :: "(mtc_status \<times> string) list" where
  "mtc_messages =
    [(0, ''''), (1, ''Invalid parameter''), (2, ''Fatal system error''), (3, ''Transient system error''),
     (4, ''Watchdog error''), (5, ''Improper license''), (6, ''Config-file is inaccessible''),
     (7, ''Invalid config-file contents''), (8, ''State-File is inaccessible''),
     (9, ''Invalid State-File contents''), (10, ''Generation UUID mismatch''), (11, ''Invalid pool state''),
     (12, ''Join timeout during start''), (13, ''Join is not allowed''), (14, ''Daemon is not present''),
     (15, ''Daemon is (already) present''), (16, ''Invalid operation environment''),
     (17, ''Invalid local host state''), (18, ''Start failed''),
     (19, ''Exclude flag is set while the daemon is operating''), (127, ''Internal bug''), (0, ''''),
     (1100, ''System level failure''), (1101, ''Daemon is already present''), (1102, ''Improper license''),
     (1103, ''Invalid parameter''), (1200, ''Invalid parameter''), (1201, ''Invalid config-file format''),
     (1202, ''Could not open the config-file''), (1300, ''Insufficient resource''), (1301, ''Pthread error''),
     (1302, ''Callback does not exist''), (1303, ''Invalid handle''), (1400, ''Insufficient resource''),
     (1401, ''Could not open a watchdog instance''), (1402, ''No watchdog instance is available''),
     (1403, ''Invalid handle''), (1500, ''Insufficient resource''), (1501, ''Could not open the State-File''),
     (1502, ''Error in State-File access''), (1503, ''Corrupted State-File''),
     (1504, ''State-File version mismatch''), (1505, ''Pthread error''), (1506, ''''),
     (1507, ''Generation UUID mismatch''), (1508, ''Invalid pool state''), (1600, ''Insufficient resource''),
     (1601, ''Socket error''), (1602, ''Pthread error''), (1603, ''Could not connect to the daemon''),
     (1604, ''Could not read from the socket''), (1605, ''Could not write to the socket''),
     (1606, ''Wrong data received''), (1607, ''Invalid local host state''), (1608, ''Invalid parameter''),
     (1609, ''Could not access the State-File''), (1610, ''Invalid pool state''), (1700, ''Insufficient resource''),
     (1701, ''Socket error''), (1702, ''Pthread error''), (1703, ''Fence is requested''), (1800, ''Pthread error''),
     (1900, ''Pthread error''), (1901, ''Start timeout''), (1902, ''Could not access the State-File''),
     (1903, ''Could not join the existing liveset''), (1904, ''Fault handler timeout''),
     (1905, ''Survival rule failed''), (1906, ''Invalid pool state''), (1907, ''Start timeout''),
     (1908, ''Start failed''), (1909, ''Start failed''), (1910, ''Invalid pool state''),
     (2000, ''Xapi has gone offline''), (2001, ''Pthread error''), (2002, ''Pipe error''), (2003, ''Fork failed''),
     (2100, ''Pthread error''), (2200, ''Pthread error''), (2300, ''Could not open the Weight-file''),
     (2301, ''Could not lock the Weight-file''), (2302, ''Error in Weight-File access''),
     (2303, ''Too many classes are defined''), (10000, '''')]"

definition status_to_message :: "mtc_status \<Rightarrow> string" where
  "status_to_message status = (case map_of mtc_messages status of None \<Rightarrow> [] | Some message \<Rightarrow> message)"

section \<open>What the exit codes tell\<close>

lemma messages_of_table: "map fst mtc_messages = map fst mtc_errtable"
  by (simp add: mtc_messages_def mtc_errtable_def)

lemma errtable_exits:
  "list_all (\<lambda>(status, exit_code). status = 0 \<or> exit_code \<noteq> 0 \<or> (0 < status \<and> status < 128)) mtc_errtable"
  "list_all (\<lambda>(status, exit_code). exit_code < 128) mtc_errtable"
  by (simp_all add: mtc_errtable_def)

lemma status_to_exit_success: "status_to_exit status = MTC_EXIT_SUCCESS \<longleftrightarrow> status = MTC_SUCCESS"
proof -
  have "map_of mtc_errtable 0 = Some 0" by (simp add: mtc_errtable_def)
  then show ?thesis by (auto simp: status_to_exit_def split: option.splits if_splits)
qed

lemma status_to_exit_bound: "status_to_exit status < 128"
proof (cases "map_of mtc_errtable status")
  case (Some e)
  then have "e < 128" "e = 0 \<longrightarrow> status < 128"
    using map_of_SomeD[OF Some] errtable_exits by (fastforce simp: list_all_iff)+
  then show ?thesis by (simp add: status_to_exit_def Some)
qed (simp add: status_to_exit_def)

end
