(* ===== verification/HostWeight.thy ===== *)
theory HostWeight
  imports Shared Printing ErrorCodes
begin

text \<open>
  Host weights: the weight file (\<^verbatim>\<open>lib/weightio.c\<close>), the command that edits it
  (\<^verbatim>\<open>commands/weightctl.c\<close>) and the daemon that loads it
  (\<^verbatim>\<open>daemon/hostweight.c\<close>). The answers of \<open>read\<close> and \<open>write\<close> are
  arguments, an error is \<open>None\<close>; the file itself is a string.
\<close>

section \<open>The weight table\<close>

type_synonym hw_entry = "string \<times> u32"

definition MAX_HOST_WEIGHT_VALUE :: u32 where "MAX_HOST_WEIGHT_VALUE = 65535"
definition MAX_HOST_WEIGHT_CLASSNAME_LEN :: nat where "MAX_HOST_WEIGHT_CLASSNAME_LEN = 64 + 1"
definition MAX_HOST_WEIGHT_CLASS_NUM :: nat where "MAX_HOST_WEIGHT_CLASS_NUM = 16"
definition BUILTIN_HOST_WEIGHT_CLASSNAME :: string where "BUILTIN_HOST_WEIGHT_CLASSNAME = ''native''"
definition BUILTIN_HOST_WEIGHT_VALUE :: u32 where "BUILTIN_HOST_WEIGHT_VALUE = 1"

text \<open>\<open>BUFSIZ\<close> of the C library is 8192.\<close>

definition MAX_HOST_WEIGHT_FILE_LINELEN :: nat where
  "MAX_HOST_WEIGHT_FILE_LINELEN = MAX_HOST_WEIGHT_CLASSNAME_LEN + 8192"

definition MAX_HOST_WEIGHT_FILE_SIZE :: nat where
  "MAX_HOST_WEIGHT_FILE_SIZE = MAX_HOST_WEIGHT_CLASS_NUM * MAX_HOST_WEIGHT_FILE_LINELEN"

fun set_hostweight_table :: "hw_entry list \<Rightarrow> string \<Rightarrow> u32 \<Rightarrow> mtc_status \<times> hw_entry list" where
  "set_hostweight_table wtable classname weight =
     (case first_host (length wtable) (\<lambda>i. fst (wtable ! i) = classname) of
        Some i \<Rightarrow> (MTC_SUCCESS, wtable[i := (if weight = 0 then [] else classname, weight)])
      | None \<Rightarrow>
          if weight = 0 then (MTC_SUCCESS, wtable)
          else (case first_host (length wtable) (\<lambda>i. fst (wtable ! i) = []) of
                  Some i \<Rightarrow> (MTC_SUCCESS, wtable[i := (classname, weight)])
                | None \<Rightarrow> (MTC_ERROR_WEIGHT_TABLE_FULL, wtable)))"

section \<open>Reading the file\<close>

text \<open>The loop over \<open>read\<close>; an exhausted list is the end of the file.\<close>

fun read_weight_buf :: "string option list \<Rightarrow> string \<Rightarrow> string option" where
  "read_weight_buf [] buf = Some buf"
| "read_weight_buf (None # rs) buf = None"
| "read_weight_buf (Some ch # rs) buf =
     (let part = take (MAX_HOST_WEIGHT_FILE_SIZE - length buf) ch; buf1 = buf @ part
      in if part = [] then Some buf
         else if length buf1 \<ge> MAX_HOST_WEIGHT_FILE_SIZE then Some buf1
         else read_weight_buf rs buf1)"

text \<open>
  \<open>sscanf(str, "%s %d", ...)\<close>, when it finds both. \<open>%d\<close> takes what \<open>strtol\<close> takes
  and keeps the low 32 bits.
\<close>

definition scan_entry :: "string \<Rightarrow> hw_entry option" where
  "scan_entry str =
     (let s = dropWhile is_space str; classname = takeWhile (\<lambda>c. \<not> is_space c) s;
          rest = dropWhile (\<lambda>c. \<not> is_space c) s
      in if classname = [] then None
         else (case strtol rest of (v, endptr) \<Rightarrow>
                 if endptr = rest then None else Some (classname, word_of_int v)))"

definition accept_line :: "string \<Rightarrow> hw_entry option" where
  "accept_line line =
     (if length line < MAX_HOST_WEIGHT_FILE_LINELEN
      then (case scan_entry line of
              Some (classname, weight) \<Rightarrow>
                if length classname < MAX_HOST_WEIGHT_CLASSNAME_LEN then Some (classname, weight) else None
            | None \<Rightarrow> None)
      else None)"

abbreviation LF :: char where "LF \<equiv> CHR 0x0A"

lemma rest_shorter: "x \<in> set str \<Longrightarrow> length (dropWhile P str) - Suc 0 < length str"
  using length_dropWhile_le[of P str] by (cases str) auto

function read_entries :: "nat \<Rightarrow> string \<Rightarrow> hw_entry list \<Rightarrow> hw_entry list" where
  "read_entries sz str found =
     (let line = takeWhile (\<lambda>c. c \<noteq> LF) str; rest = dropWhile (\<lambda>c. c \<noteq> LF) str in
      case accept_line line of
        Some e \<Rightarrow> (if length found + 1 \<ge> sz then found @ [e]
                   else if rest = [] then found @ [e] else read_entries sz (tl rest) (found @ [e]))
      | None \<Rightarrow> (if rest = [] then found else read_entries sz (tl rest) found))"
  by pat_completeness auto
termination
  by (relation "measure (\<lambda>(sz, str, found). length str)") (auto simp: rest_shorter)

declare read_entries.simps [simp del]

text \<open>Text after a \<open>NUL\<close> is not looked at; the table is filled up with empty entries.\<close>

definition read_hostweight_file :: "string option list \<Rightarrow> nat \<Rightarrow> mtc_status \<times> hw_entry list" where
  "read_hostweight_file reads sz =
     (case read_weight_buf reads [] of
        None \<Rightarrow> (MTC_ERROR_WEIGHT_IO_ERROR, replicate sz ([], 0))
      | Some buf \<Rightarrow>
          if buf = [] then (MTC_SUCCESS, replicate sz ([], 0))
          else (let es = read_entries sz (takeWhile (\<lambda>c. c \<noteq> NUL) buf) []
                in (MTC_SUCCESS, es @ replicate (sz - length es) ([], 0))))"

section \<open>Writing the file\<close>

definition print_entry :: "hw_entry \<Rightarrow> string" where
  "print_entry e = fst e @ CHR '' '' # print_int (sint (snd e)) @ [LF]"

text \<open>
  The loop over \<open>write\<close> for one line: the answers are the numbers of bytes taken, when they
  are exhausted the rest of the line is taken at once. The result is what was written, and
  whether the line is complete.
\<close>

fun write_line :: "nat option list \<Rightarrow> string \<Rightarrow> bool \<times> string \<times> nat option list" where
  "write_line [] line = (True, line, [])"
| "write_line (None # ws) line = (False, [], ws)"
| "write_line (Some n # ws) line =
     (if n \<ge> length line then (True, line, ws)
      else (case write_line ws (drop n line) of (ok, out, ws1) \<Rightarrow> (ok, take n line @ out, ws1)))"

fun write_entries :: "nat option list \<Rightarrow> hw_entry list \<Rightarrow> mtc_status \<times> string" where
  "write_entries ws [] = (MTC_SUCCESS, [])"
| "write_entries ws (e # es) =
     (if fst e = [] then write_entries ws es
      else (case write_line ws (print_entry e) of
              (False, out, ws1) \<Rightarrow> (MTC_ERROR_WEIGHT_IO_ERROR, out)
            | (True, out, ws1) \<Rightarrow>
                (case write_entries ws1 es of (rs, others) \<Rightarrow> (rs, out @ others))))"

text \<open>The file is cut to length zero before, so what is written is the file.\<close>

definition write_hostweight_file :: "nat option list \<Rightarrow> hw_entry list \<Rightarrow> mtc_status \<times> string" where
  "write_hostweight_file ws wtable = write_entries ws wtable"

section \<open>The command\<close>

definition is_graph :: "char \<Rightarrow> bool" where
  "is_graph c \<longleftrightarrow> 33 \<le> (of_char c :: nat) \<and> (of_char c :: nat) \<le> 126"

definition cut_classname :: "string \<Rightarrow> string" where
  "cut_classname classname =
     (if length classname \<ge> MAX_HOST_WEIGHT_CLASSNAME_LEN
      then take (MAX_HOST_WEIGHT_CLASSNAME_LEN - 1) classname else classname)"

text \<open>
  \<open>weight_set\<close>: \<open>opened\<close> is the result of \<open>open_hostweight_file\<close>; the result is the exit code and the new file.
\<close>

definition weight_set :: "mtc_status \<Rightarrow> string option list \<Rightarrow> nat option list \<Rightarrow> string \<Rightarrow> u32 \<Rightarrow> string \<Rightarrow> int \<times> string" where
  "weight_set opened reads writes classname weight file =
     (if weight > MAX_HOST_WEIGHT_VALUE then (MTC_EXIT_INVALID_PARAMETER, file)
      else if classname = BUILTIN_HOST_WEIGHT_CLASSNAME then (MTC_EXIT_INVALID_PARAMETER, file)
      else if \<not> list_all is_graph classname then (MTC_EXIT_INVALID_PARAMETER, file)
      else if opened \<noteq> MTC_SUCCESS then (status_to_exit opened, file)
      else (case read_hostweight_file reads MAX_HOST_WEIGHT_CLASS_NUM of (rs1, wtable) \<Rightarrow>
              if rs1 \<noteq> MTC_SUCCESS then (status_to_exit rs1, file)
              else (case set_hostweight_table wtable (cut_classname classname) weight of (rs2, wtable1) \<Rightarrow>
                      if rs2 \<noteq> MTC_SUCCESS then (status_to_exit rs2, file)
                      else (case write_hostweight_file writes wtable1 of (rs3, out) \<Rightarrow> (status_to_exit rs3, out)))))"

text \<open>\<open>argv\<close> without the name of the command; \<open>atol\<close> is \<open>strtol\<close> without a check.\<close>

definition weightctl_main :: "mtc_status \<Rightarrow> string option list \<Rightarrow> nat option list \<Rightarrow> string list \<Rightarrow> string \<Rightarrow> int \<times> string" where
  "weightctl_main opened reads writes argv file =
     (case argv of
        [] \<Rightarrow> (MTC_EXIT_INVALID_PARAMETER, file)
      | cmd # args \<Rightarrow>
          if cmd = ''help'' then (MTC_EXIT_SUCCESS, file)
          else if cmd = ''set'' then
            (case args of
               [classname, weight] \<Rightarrow> weight_set opened reads writes classname (word_of_int (fst (strtol weight))) file
             | _ \<Rightarrow> (MTC_EXIT_INVALID_PARAMETER, file))
          else (MTC_EXIT_INVALID_PARAMETER, file))"

section \<open>The daemon\<close>

record hw_var =
  hw_error_reported :: bool
  hw_weight_table :: "hw_entry list"

definition hostweight_initialize0 :: "hw_var \<Rightarrow> hw_var" where
  "hostweight_initialize0 v = v\<lparr>hw_weight_table := replicate MAX_HOST_WEIGHT_CLASS_NUM ([], 0)\<rparr>"

definition calc_hostweight :: "hw_entry list \<Rightarrow> u32" where
  "calc_hostweight wtable =
     fold (\<lambda>e weight. if fst e = [] then weight else weight + snd e) wtable BUILTIN_HOST_WEIGHT_VALUE"

text \<open>Apart from its reports to the log (theory \<open>HostWeightReports\<close>), \<open>hostweight_update\<close> copies the table.\<close>

definition hostweight_update :: "hw_entry list \<Rightarrow> hw_var \<Rightarrow> mtc_status \<times> hw_var" where
  "hostweight_update newwtable v = (MTC_SUCCESS, v\<lparr>hw_weight_table := newwtable\<rparr>)"

definition hostweight_set_sm :: "hw_var \<Rightarrow> daemon \<Rightarrow> daemon" where
  "hostweight_set_sm v d = with_sm False (\<lambda>s. s\<lparr>sm_weight := calc_hostweight (hw_weight_table v)\<rparr>) d"

definition hostweight_reload :: "mtc_status \<Rightarrow> string option list \<Rightarrow> hw_var \<times> daemon
  \<Rightarrow> mtc_status \<times> hw_var \<times> daemon" where
  "hostweight_reload opened reads = (\<lambda>(v, d).
     if opened \<noteq> MTC_SUCCESS then (opened, v\<lparr>hw_error_reported := True\<rparr>, d)
     else (case read_hostweight_file reads MAX_HOST_WEIGHT_CLASS_NUM of (rs, newwtable) \<Rightarrow>
             if rs \<noteq> MTC_SUCCESS then (rs, v\<lparr>hw_error_reported := True\<rparr>, d)
             else (case hostweight_update newwtable (v\<lparr>hw_error_reported := False\<rparr>) of (rs1, v1) \<Rightarrow>
                     if rs1 \<noteq> MTC_SUCCESS then (rs1, v1, d)
                     else (rs1, v1, hostweight_set_sm v1 d))))"

definition hostweight_initialize :: "int \<Rightarrow> mtc_status \<Rightarrow> string option list \<Rightarrow> hw_var \<times> daemon
  \<Rightarrow> mtc_status \<times> hw_var \<times> daemon" where
  "hostweight_initialize phase opened reads = (\<lambda>(v, d).
     if phase = 0 then (MTC_SUCCESS, hostweight_initialize0 v, d)
     else if phase = 1 then hostweight_reload opened reads (v, d)
     else (MTC_SUCCESS, v, d))"

end
