(* ===== verification/HostWeightProps.thy ===== *)
theory HostWeightProps
  imports HostWeight
begin

text \<open>
  From the command to the survival rule: what \<open>weightctl set\<close> writes, the daemon reads
  back, and the weight it publishes is the sum of the table.
\<close>

section \<open>Numbers\<close>

lemma char_nat [simp]: "n < 256 \<Longrightarrow> (of_char (char_of n) :: nat) = n"
  by (simp add: take_bit_nat_eq_self)

lemma char_int [simp]: "n < 256 \<Longrightarrow> (of_char (char_of n) :: int) = int n"
  by (metis char_nat of_nat_of_char)

lemma digit_char: "k < 10 \<Longrightarrow> is_digit (char_of (48 + k :: nat))"
  by (simp add: is_digit_def)

lemma digits_digit: "c \<in> set (digits n) \<Longrightarrow> is_digit c"
proof (induction n rule: digits.induct)
  case (1 n)
  show ?case
  proof (cases "n < 10")
    case True
    then show ?thesis using 1 digit_char[of n] by (simp add: digits.simps[of n])
  next
    case False
    then show ?thesis using 1 digit_char[of "n mod 10"] by (auto simp: digits.simps[of n])
  qed
qed

lemma digits_not_Nil [simp]: "digits n \<noteq> []"
  by (simp add: digits.simps[of n])

lemma digits_value_snoc: "digits_value (ds @ [c]) = digits_value ds * 10 + (of_char c - 48)"
  by (simp add: digits_value_def)

lemma digits_value_digits: "digits_value (digits n) = int n"
proof (induction n rule: digits.induct)
  case (1 n)
  show ?case
  proof (cases "n < 10")
    case True
    then show ?thesis by (simp add: digits.simps[of n] digits_value_def)
  next
    case False
    then show ?thesis using 1 by (simp add: digits.simps[of n] digits_value_snoc) presburger
  qed
qed

lemma digits_length: "n < 10 ^ k \<Longrightarrow> 0 < k \<Longrightarrow> length (digits n) \<le> k"
proof (induction n arbitrary: k rule: digits.induct)
  case (1 n)
  show ?case
  proof (cases "n < 10")
    case True
    then show ?thesis using 1 by (simp add: digits.simps[of n])
  next
    case False
    obtain m where k: "k = Suc m" using "1.prems" by (cases k) auto
    then have m: "k = Suc m" "0 < m" using False "1.prems" by (cases m; simp)+
    then have "n div 10 < 10 ^ m" using 1 by (simp add: less_mult_imp_div_less mult.commute)
    then show ?thesis using 1(1)[OF False, of m] False m by (simp add: digits.simps[of n])
  qed
qed

lemma is_digit_not: "is_digit c \<Longrightarrow> \<not> is_space c" "is_digit c \<Longrightarrow> c \<noteq> CHR ''-''" "is_digit c \<Longrightarrow> c \<noteq> CHR ''+''"
  "is_digit c \<Longrightarrow> c \<noteq> LF" "is_digit c \<Longrightarrow> c \<noteq> NUL"
  by (auto simp: is_digit_def is_space_def)

lemma digits_run: "takeWhile is_digit (digits n) = digits n" "dropWhile is_digit (digits n) = []"
  by (simp_all add: takeWhile_eq_all_conv dropWhile_eq_Nil_conv digits_digit)

lemma strtol_print_after:
  assumes "- (2 ^ 31) \<le> v" and "v < 2 ^ 31" and "list_all is_space ws"
  shows "strtol (ws @ print_int v) = (v, [])"
proof -
  have clamp: "clamp_long v = v" using assms by (simp add: clamp_long_def)
  have sp: "\<not> is_space CHR ''-''" by (simp add: is_space_def)
  have ws: "dropWhile is_space (ws @ s) = dropWhile is_space s" for s
    using assms(3) by (simp add: dropWhile_append2 list_all_iff)
  show ?thesis
  proof (cases "v < 0")
    case True
    then show ?thesis
      by (simp add: strtol_def ws print_int_def sp digits_run digits_value_digits clamp Let_def)
  next
    case False
    obtain c cs where ds: "digits (nat v) = c # cs" by (cases "digits (nat v)") simp_all
    then have c: "is_digit c" using digits_digit[of c "nat v"] by simp
    show ?thesis using False digits_run[of "nat v"] digits_value_digits[of "nat v"] clamp
      by (simp add: strtol_def ws print_int_def ds is_digit_not[OF c] Let_def)
  qed
qed

lemma strtol_print:
  "- (2 ^ 31) \<le> v \<Longrightarrow> v < 2 ^ 31 \<Longrightarrow> strtol (CHR '' '' # print_int v) = (v, [])"
  using strtol_print_after[of v "'' ''"] by (simp add: is_space_def)

lemma print_int_chars: "c \<in> set (print_int v) \<Longrightarrow> c \<noteq> LF \<and> c \<noteq> NUL \<and> \<not> is_space c"
  by (auto simp: print_int_def is_digit_def is_space_def dest!: digits_digit split: if_splits)

section \<open>One line of the file\<close>

definition name_ok :: "string \<Rightarrow> bool" where
  "name_ok nm \<longleftrightarrow> nm \<noteq> [] \<and> length nm < MAX_HOST_WEIGHT_CLASSNAME_LEN \<and> list_all (\<lambda>c. \<not> is_space c \<and> c \<noteq> NUL) nm"

lemma sint_bound: "- (2 ^ 31) \<le> sint (w :: u32)" "sint (w :: u32) < 2 ^ 31"
  using sint_greater_eq[of w] sint_less[of w] by simp_all

lemma print_length: "length (print_int (sint (w :: u32))) \<le> 11"
proof -
  have "nat (sint w) < 10 ^ 10" "nat (- sint w) < 10 ^ 10" using sint_bound[of w] by simp_all
  then show ?thesis
    using digits_length[of "nat (sint w)" 10] digits_length[of "nat (- sint w)" 10] by (simp add: print_int_def)
qed

lemma name_ok_not_space: "name_ok nm \<Longrightarrow> c \<in> set nm \<Longrightarrow> \<not> is_space c"
  by (simp add: name_ok_def list_all_iff)

lemma accept_printed:
  assumes "name_ok nm"
  shows "accept_line (nm @ CHR '' '' # print_int (sint w)) = Some (nm, w)"
proof -
  have sp: "is_space CHR '' ''" by (simp add: is_space_def)
  obtain c cs where nm: "nm = c # cs" "\<not> is_space c" "\<forall>x \<in> set cs. \<not> is_space x"
    using assms by (cases nm) (auto simp: name_ok_def list_all_iff)
  have tw: "takeWhile (\<lambda>c. \<not> is_space c) (nm @ CHR '' '' # print_int (sint w)) = nm"
    and dw: "dropWhile (\<lambda>c. \<not> is_space c) (nm @ CHR '' '' # print_int (sint w)) = CHR '' '' # print_int (sint w)"
    using name_ok_not_space[OF assms] sp by (simp_all add: takeWhile_append dropWhile_append)
  have "length (nm @ CHR '' '' # print_int (sint w)) < MAX_HOST_WEIGHT_FILE_LINELEN"
    using assms print_length[of w]
    by (simp add: name_ok_def MAX_HOST_WEIGHT_FILE_LINELEN_def MAX_HOST_WEIGHT_CLASSNAME_LEN_def)
  moreover have "dropWhile is_space (nm @ CHR '' '' # print_int (sint w)) = nm @ CHR '' '' # print_int (sint w)"
    using nm by simp
  ultimately show ?thesis
    using assms tw dw
    by (simp add: accept_line_def scan_entry_def Let_def strtol_print[OF sint_bound] name_ok_def)
qed

lemma accepted_name: "accept_line line = Some e \<Longrightarrow> NUL \<notin> set line \<Longrightarrow> name_ok (fst e)"
  by (auto simp: accept_line_def scan_entry_def Let_def name_ok_def list_all_iff
        dest!: set_takeWhileD set_dropWhileD split: if_splits option.splits prod.splits)

lemma print_entry_line:
  assumes "name_ok nm"
  shows "takeWhile (\<lambda>c. c \<noteq> LF) (print_entry (nm, w) @ rest) = nm @ CHR '' '' # print_int (sint w)"
    and "dropWhile (\<lambda>c. c \<noteq> LF) (print_entry (nm, w) @ rest) = LF # rest"
proof -
  have nm: "c \<in> set nm \<Longrightarrow> c \<noteq> LF" for c
    using name_ok_not_space[OF assms, of c] by (auto simp: is_space_def)
  show "takeWhile (\<lambda>c. c \<noteq> LF) (print_entry (nm, w) @ rest) = nm @ CHR '' '' # print_int (sint w)"
    "dropWhile (\<lambda>c. c \<noteq> LF) (print_entry (nm, w) @ rest) = LF # rest"
    using nm print_int_chars
    by (simp_all add: print_entry_def takeWhile_append dropWhile_append)
qed

section \<open>The whole file\<close>

lemma accept_empty [simp]: "accept_line [] = None"
  by (simp add: accept_line_def scan_entry_def)

lemma read_entries_printed:
  assumes "list_all (\<lambda>e. name_ok (fst e)) es" and "length found + length es \<le> sz"
  shows "read_entries sz (concat (map print_entry es)) found = found @ es"
  using assms
proof (induction es arbitrary: found)
  case Nil
  then show ?case by (simp add: read_entries.simps[of sz "[]"])
next
  case (Cons e es)
  obtain nm w where e: "e = (nm, w)" by (cases e)
  have nm: "name_ok nm" using Cons.prems e by simp
  show ?case
    using Cons.prems Cons.IH[of "found @ [e]"] accept_printed[OF nm, of w]
      print_entry_line[OF nm, of w "concat (map print_entry es)"]
    by (subst read_entries.simps) (cases es; auto simp: e Let_def)
qed

lemma in_set_tl: "x \<in> set (tl xs) \<Longrightarrow> x \<in> set xs"
  by (cases xs) auto

lemma read_entries_ok:
  assumes "NUL \<notin> set str" and "length found \<le> sz - 1" and "0 < sz" and "list_all (\<lambda>e. name_ok (fst e)) found"
  shows "list_all (\<lambda>e. name_ok (fst e)) (read_entries sz str found) \<and> length (read_entries sz str found) \<le> sz"
  using assms
proof (induction sz str found rule: read_entries.induct)
  case (1 sz str found)
  have line: "NUL \<notin> set (takeWhile (\<lambda>c. c \<noteq> LF) str)" "NUL \<notin> set (tl (dropWhile (\<lambda>c. c \<noteq> LF) str))"
    using "1.prems"(1) by (auto dest!: in_set_tl set_takeWhileD set_dropWhileD)
  show ?case
  proof (cases "accept_line (takeWhile (\<lambda>c. c \<noteq> LF) str)")
    case None
    then show ?thesis using 1 line by (subst (1 2) read_entries.simps) (auto simp: Let_def)
  next
    case (Some e)
    then show ?thesis using 1 line accepted_name[OF Some line(1)]
      by (subst (1 2) read_entries.simps) (auto simp: Let_def)
  qed
qed

text \<open>The answers of \<open>read\<close> that hand out a file in any pieces.\<close>

definition delivers :: "string option list \<Rightarrow> string \<Rightarrow> bool" where
  "delivers reads file \<longleftrightarrow> None \<notin> set reads \<and> Some [] \<notin> set reads \<and> concat (map the reads) = file"

lemma read_weight_buf_delivers:
  assumes "None \<notin> set reads" and "Some [] \<notin> set reads" and "length buf < MAX_HOST_WEIGHT_FILE_SIZE"
  shows "read_weight_buf reads buf = Some (take MAX_HOST_WEIGHT_FILE_SIZE (buf @ concat (map the reads)))"
  using assms
proof (induction reads buf rule: read_weight_buf.induct)
  case (3 ch rs buf)
  then show ?case by (auto simp: Let_def take_Cons' split: if_splits)
qed auto

lemma read_hostweight_table:
  assumes "delivers reads file" and "0 < sz"
  shows "\<exists>es. read_hostweight_file reads sz = (MTC_SUCCESS, es @ replicate (sz - length es) ([], 0))
    \<and> list_all (\<lambda>e. name_ok (fst e)) es \<and> length es \<le> sz"
proof (cases "take MAX_HOST_WEIGHT_FILE_SIZE file = []")
  case True
  then show ?thesis
    using assms(1) read_weight_buf_delivers[of reads "[]"]
    by (auto simp: read_hostweight_file_def delivers_def MAX_HOST_WEIGHT_FILE_SIZE_def MAX_HOST_WEIGHT_CLASS_NUM_def
          MAX_HOST_WEIGHT_FILE_LINELEN_def intro!: exI[of _ "[]"])
next
  case False
  define es where "es = read_entries sz (takeWhile (\<lambda>c. c \<noteq> NUL) (take MAX_HOST_WEIGHT_FILE_SIZE file)) []"
  have "NUL \<notin> set (takeWhile (\<lambda>c. c \<noteq> NUL) (take MAX_HOST_WEIGHT_FILE_SIZE file))"
    by (auto dest: set_takeWhileD)
  then have "list_all (\<lambda>e. name_ok (fst e)) es \<and> length es \<le> sz"
    unfolding es_def using assms(2) by (intro read_entries_ok) simp_all
  moreover have "read_hostweight_file reads sz = (MTC_SUCCESS, es @ replicate (sz - length es) ([], 0))"
    using False assms(1) read_weight_buf_delivers[of reads "[]"]
    by (simp add: read_hostweight_file_def delivers_def es_def Let_def MAX_HOST_WEIGHT_FILE_SIZE_def
          MAX_HOST_WEIGHT_CLASS_NUM_def MAX_HOST_WEIGHT_FILE_LINELEN_def)
  ultimately show ?thesis by blast
qed

section \<open>The table as a map\<close>

abbreviation used_entries :: "hw_entry list \<Rightarrow> hw_entry list" where
  "used_entries t \<equiv> filter (\<lambda>e. fst e \<noteq> []) t"

definition weight_of :: "hw_entry list \<Rightarrow> string \<Rightarrow> u32 option" where
  "weight_of t = map_of (used_entries t)"

definition names_distinct :: "hw_entry list \<Rightarrow> bool" where
  "names_distinct t \<longleftrightarrow> distinct (map fst (used_entries t))"

lemma split_at:
  assumes "i < length t"
  shows "t = take i t @ t ! i # drop (Suc i) t" and "t[i := x] = take i t @ x # drop (Suc i) t"
  using assms by (simp_all add: id_take_nth_drop upd_conv_take_nth_drop)

text \<open>Replacing the entry of a name, or the first free entry, updates the map.\<close>

lemma weight_of_put:
  assumes "i < length t" and "names_distinct t" and "nm \<noteq> []" and "fst (t ! i) = nm \<or> (fst (t ! i) = [] \<and> weight_of t nm = None)"
  shows "weight_of (t[i := (if w = 0 then [] else nm, w)]) = (weight_of t)(nm := if w = 0 then None else Some w)
    \<and> names_distinct (t[i := (if w = 0 then [] else nm, w)])"
proof -
  let ?A = "used_entries (take i t)" and ?B = "used_entries (drop (Suc i) t)"
  have t: "used_entries t = ?A @ (if fst (t ! i) = [] then [] else [t ! i]) @ ?B"
    by (subst split_at(1)[OF assms(1)]) simp
  have t': "used_entries (t[i := (if w = 0 then [] else nm, w)]) = ?A @ (if w = 0 then [] else [(nm, w)]) @ ?B"
    by (subst split_at(2)[OF assms(1)]) (simp add: assms(3))
  have AB: "distinct (map fst (?A @ ?B))"
    using assms(2) unfolding names_distinct_def t by (auto split: if_splits)
  have fresh: "nm \<notin> fst ` set ?A" "nm \<notin> fst ` set ?B"
    using assms(2-4) unfolding names_distinct_def weight_of_def t
    by (auto simp: map_of_eq_None_iff split: if_splits)
  have "map_of ?A nm = None" "map_of ?B nm = None" using fresh by (simp_all add: map_of_eq_None_iff)
  then have "weight_of (t[i := (if w = 0 then [] else nm, w)]) = (weight_of t)(nm := if w = 0 then None else Some w)"
    unfolding weight_of_def t t' using assms(4)
    by (cases "t ! i") (auto simp: map_add_def fun_eq_iff split: option.splits)
  moreover have "names_distinct (t[i := (if w = 0 then [] else nm, w)])"
    unfolding names_distinct_def t' using AB fresh by auto
  ultimately show ?thesis by blast
qed

lemma weight_of_None: "nm \<noteq> [] \<Longrightarrow> weight_of t nm = None \<longleftrightarrow> (\<forall>i<length t. fst (t ! i) \<noteq> nm)"
  by (auto simp: weight_of_def map_of_eq_None_iff in_set_conv_nth image_iff) (metis nth_mem surjective_pairing prod.collapse)+

lemma set_hostweight_table_spec:
  assumes "names_distinct t" and "nm \<noteq> []" and "set_hostweight_table t nm w = (MTC_SUCCESS, t')"
  shows "weight_of t' = (weight_of t)(nm := if w = 0 then None else Some w) \<and> names_distinct t' \<and> length t' = length t"
proof (cases "first_host (length t) (\<lambda>i. fst (t ! i) = nm)")
  case (Some i)
  then have "i < length t" "fst (t ! i) = nm" by (simp_all add: first_host_Some)
  moreover have "t' = t[i := (if w = 0 then [] else nm, w)]" using assms(3) Some by simp
  ultimately show ?thesis using weight_of_put[of i t nm w] assms(1,2) by simp
next
  case None
  then have nm: "weight_of t nm = None" using assms(2) by (simp add: weight_of_None first_host_None)
  show ?thesis
  proof (cases "w = 0")
    case True
    then show ?thesis using assms None nm by auto
  next
    case False
    then obtain j where j: "first_host (length t) (\<lambda>i. fst (t ! i) = []) = Some j" and t': "t' = t[j := (nm, w)]"
      using assms(3) None by (auto split: option.splits)
    have "j < length t" "fst (t ! j) = []" using j by (simp_all add: first_host_Some)
    then show ?thesis using weight_of_put[of j t nm w] assms(1,2) nm False t' by simp
  qed
qed

lemma set_hostweight_table_names:
  assumes "list_all (\<lambda>e. fst e = [] \<or> name_ok (fst e)) t" and "nm = [] \<or> name_ok nm"
    and "set_hostweight_table t nm w = (rs, t')"
  shows "list_all (\<lambda>e. fst e = [] \<or> name_ok (fst e)) t'"
  using assms by (auto simp: list_all_iff dest!: set_update_subset_insert[THEN subsetD] split: option.splits if_splits)

section \<open>Writing\<close>

lemma write_line_complete: "write_line ws line = (True, out, ws') \<Longrightarrow> out = line"
  by (induction ws line arbitrary: out rule: write_line.induct) (auto split: if_splits prod.splits)

lemma write_entries_complete: "write_entries ws t = (MTC_SUCCESS, out) \<Longrightarrow> out = concat (map print_entry (used_entries t))"
proof (induction t arbitrary: ws out)
  case (Cons e t)
  then show ?case by (auto dest: write_line_complete split: if_splits prod.splits bool.splits)
qed simp

lemma print_entry_length: "name_ok (fst e) \<Longrightarrow> length (print_entry e) \<le> 77"
  using print_length[of "snd e"] by (simp add: print_entry_def name_ok_def MAX_HOST_WEIGHT_CLASSNAME_LEN_def)

lemma concat_length: "list_all (\<lambda>e. name_ok (fst e)) es \<Longrightarrow> length (concat (map print_entry es)) \<le> 77 * length es"
proof (induction es)
  case (Cons e es)
  then show ?case using print_entry_length[of e] by simp
qed simp

lemma printed_no_NUL: "list_all (\<lambda>e. name_ok (fst e)) es \<Longrightarrow> NUL \<notin> set (concat (map print_entry es))"
  by (induction es) (auto simp: print_entry_def name_ok_def list_all_iff dest: print_int_chars)

lemma read_printed:
  assumes "list_all (\<lambda>e. name_ok (fst e)) es" and "length es \<le> MAX_HOST_WEIGHT_CLASS_NUM"
    and "delivers reads (concat (map print_entry es))"
  shows "read_hostweight_file reads MAX_HOST_WEIGHT_CLASS_NUM
    = (MTC_SUCCESS, es @ replicate (MAX_HOST_WEIGHT_CLASS_NUM - length es) ([], 0))"
proof -
  let ?file = "concat (map print_entry es)"
  have "length ?file \<le> 77 * 16"
    using concat_length[OF assms(1)] assms(2) by (simp add: MAX_HOST_WEIGHT_CLASS_NUM_def)
  then have buf: "read_weight_buf reads [] = Some ?file"
    using assms(3) read_weight_buf_delivers[of reads "[]"]
    by (simp add: delivers_def MAX_HOST_WEIGHT_FILE_SIZE_def MAX_HOST_WEIGHT_CLASS_NUM_def
          MAX_HOST_WEIGHT_FILE_LINELEN_def MAX_HOST_WEIGHT_CLASSNAME_LEN_def)
  have "takeWhile (\<lambda>c. c \<noteq> NUL) ?file = ?file"
    using printed_no_NUL[OF assms(1)] unfolding takeWhile_eq_all_conv by blast
  moreover have "read_entries MAX_HOST_WEIGHT_CLASS_NUM ?file [] = es"
    using read_entries_printed[OF assms(1), of "[]" MAX_HOST_WEIGHT_CLASS_NUM] assms(2) by simp
  ultimately have "read_entries MAX_HOST_WEIGHT_CLASS_NUM (takeWhile (\<lambda>c. c \<noteq> NUL) ?file) [] = es" by (simp only:)
  moreover have "es = []" if "?file = []"
    using that by (cases es) (simp_all add: print_entry_def)
  ultimately show ?thesis
    using buf by (cases "?file = []") (auto simp: read_hostweight_file_def Let_def)
qed

text \<open>The daemon reads back what the command wrote, without the free entries between.\<close>

lemma weight_file_roundtrip:
  assumes "list_all (\<lambda>e. fst e = [] \<or> name_ok (fst e)) t" and "length t = MAX_HOST_WEIGHT_CLASS_NUM"
    and "write_hostweight_file ws t = (MTC_SUCCESS, file)" and "delivers reads file"
  shows "\<exists>n. read_hostweight_file reads MAX_HOST_WEIGHT_CLASS_NUM = (MTC_SUCCESS, used_entries t @ replicate n ([], 0))"
proof -
  have "list_all (\<lambda>e. name_ok (fst e)) (used_entries t)" using assms(1) by (auto simp: list_all_iff)
  moreover have "length (used_entries t) \<le> MAX_HOST_WEIGHT_CLASS_NUM" using assms(2) by (metis length_filter_le)
  moreover have "file = concat (map print_entry (used_entries t))"
    using assms(3) unfolding write_hostweight_file_def by (rule write_entries_complete)
  ultimately show ?thesis using read_printed[of "used_entries t" reads] assms(4) by blast
qed

section \<open>From the command to the daemon\<close>

lemma calc_hostweight_sum: "calc_hostweight t = 1 + sum_list (map snd (used_entries t))"
proof -
  have "fold (\<lambda>e w. if fst e = [] then w else w + snd e) t v = v + sum_list (map snd (used_entries t))" for v
    by (induction t arbitrary: v) (simp_all add: algebra_simps)
  then show ?thesis by (simp add: calc_hostweight_def BUILTIN_HOST_WEIGHT_VALUE_def)
qed

lemma graph_not_space: "is_graph c \<Longrightarrow> \<not> is_space c \<and> c \<noteq> NUL"
  by (auto simp: is_graph_def is_space_def)

lemma cut_classname_ok: "list_all is_graph nm \<Longrightarrow> nm \<noteq> [] \<Longrightarrow> name_ok (cut_classname nm)"
  by (auto simp: cut_classname_def name_ok_def list_all_iff MAX_HOST_WEIGHT_CLASSNAME_LEN_def
        dest!: graph_not_space dest: in_set_takeD)

text \<open>
  C15. From the command line to the survival rule: when \<open>weightctl set\<close> succeeds and the
  daemon then reloads, in whatever pieces both read the file, the weight of that class is
  the one given (or the class is gone, for weight 0), all other classes keep theirs, and the
  weight the daemon publishes for the election is one plus the sum of the table. The names
  in the old file must be distinct; the command itself never writes a name twice.
\<close>

theorem weight_command_reaches_daemon:
  assumes "delivers reads file" and "delivers reads' file'" and "nm \<noteq> []"
    and "names_distinct (snd (read_hostweight_file reads MAX_HOST_WEIGHT_CLASS_NUM))"
    and "weight_set MTC_SUCCESS reads ws nm w file = (MTC_EXIT_SUCCESS, file')"
    and "hostweight_reload MTC_SUCCESS reads' (v, d) = (rs, v', d')"
  shows "rs = MTC_SUCCESS
    \<and> weight_of (hw_weight_table v') = (weight_of (snd (read_hostweight_file reads MAX_HOST_WEIGHT_CLASS_NUM)))
        (cut_classname nm := if w = 0 then None else Some w)
    \<and> names_distinct (hw_weight_table v')
    \<and> sm_weight (d_sm d') = 1 + sum_list (map snd (used_entries (hw_weight_table v')))"
proof -
  obtain es where r: "read_hostweight_file reads MAX_HOST_WEIGHT_CLASS_NUM
      = (MTC_SUCCESS, es @ replicate (MAX_HOST_WEIGHT_CLASS_NUM - length es) ([], 0))"
    and es: "list_all (\<lambda>e. name_ok (fst e)) es" "length es \<le> MAX_HOST_WEIGHT_CLASS_NUM"
    using read_hostweight_table[OF assms(1), of MAX_HOST_WEIGHT_CLASS_NUM] by (auto simp: MAX_HOST_WEIGHT_CLASS_NUM_def)
  define t where "t = es @ replicate (MAX_HOST_WEIGHT_CLASS_NUM - length es) ([] :: string, 0 :: u32)"
  have t: "list_all (\<lambda>e. fst e = [] \<or> name_ok (fst e)) t" "length t = MAX_HOST_WEIGHT_CLASS_NUM"
    using es by (auto simp: t_def list_all_iff)
  note read = r[folded t_def]
  obtain t' where t': "set_hostweight_table t (cut_classname nm) w = (MTC_SUCCESS, t')"
    and written: "write_hostweight_file ws t' = (MTC_SUCCESS, file')" and graph: "list_all is_graph nm"
    using assms(5) read
    by (auto simp: weight_set_def status_to_exit_success split: if_splits prod.splits)
  have nm: "name_ok (cut_classname nm)" using cut_classname_ok[OF graph assms(3)] .
  then have "cut_classname nm \<noteq> []" by (simp add: name_ok_def)
  with assms(4) read t' have spec: "weight_of t' = (weight_of t)(cut_classname nm := if w = 0 then None else Some w)"
      "names_distinct t'" "length t' = MAX_HOST_WEIGHT_CLASS_NUM"
    using set_hostweight_table_spec[of t "cut_classname nm" w t'] t(2) by auto
  have "list_all (\<lambda>e. fst e = [] \<or> name_ok (fst e)) t'"
    using set_hostweight_table_names[OF t(1) _ t'] nm by blast
  then obtain n where "read_hostweight_file reads' MAX_HOST_WEIGHT_CLASS_NUM = (MTC_SUCCESS, used_entries t' @ replicate n ([], 0))"
    using weight_file_roundtrip[OF _ spec(3) written assms(2)] by blast
  then show ?thesis using assms(6) spec read
    by (auto simp: hostweight_reload_def hostweight_update_def hostweight_set_sm_def calc_hostweight_sum with_sm_def
          weight_of_def names_distinct_def split: prod.splits)
qed

definition ex_weights :: string where
  "ex_weights = concat (map print_entry [(''vm'', 3), (''ha'', 7)])"

definition ex_weights_new :: string where
  "ex_weights_new = concat (map print_entry [(''vm'', 3), (''ha'', 9)])"

lemma ex_delivers:
  "delivers [Some (take 3 ex_weights), Some (drop 3 ex_weights)] ex_weights" "delivers [Some ex_weights_new] ex_weights_new"
  by (simp_all add: delivers_def ex_weights_def ex_weights_new_def print_entry_def)

lemma ex_names: "name_ok ''vm''" "name_ok ''ha''" "is_graph CHR ''h''" "is_graph CHR ''a''"
  by (simp_all add: name_ok_def is_space_def is_graph_def MAX_HOST_WEIGHT_CLASSNAME_LEN_def)

lemma ex_read:
  "read_hostweight_file [Some (take 3 ex_weights), Some (drop 3 ex_weights)] MAX_HOST_WEIGHT_CLASS_NUM
     = (MTC_SUCCESS, [(''vm'', 3), (''ha'', 7)] @ replicate 14 ([], 0))"
  "read_hostweight_file [Some ex_weights_new] MAX_HOST_WEIGHT_CLASS_NUM
     = (MTC_SUCCESS, [(''vm'', 3), (''ha'', 9)] @ replicate 14 ([], 0))"
  using read_printed[OF _ _ ex_delivers(1)[unfolded ex_weights_def], folded ex_weights_def]
    read_printed[OF _ _ ex_delivers(2)[unfolded ex_weights_new_def], folded ex_weights_new_def]
  by (simp_all add: ex_names MAX_HOST_WEIGHT_CLASS_NUM_def)

lemma ex_set:
  "set_hostweight_table ([(''vm'', 3), (''ha'', 7)] @ replicate 14 ([], 0)) ''ha'' 9
     = (MTC_SUCCESS, [(''vm'', 3), (''ha'', 9)] @ replicate 14 ([], 0))"
  by code_simp

lemma write_free: "fst e = [] \<Longrightarrow> write_entries ws (replicate n e) = (MTC_SUCCESS, [])"
  by (induction n) simp_all

lemma ex_weights_set:
  "weight_set MTC_SUCCESS [Some (take 3 ex_weights), Some (drop 3 ex_weights)] [Some 2] ''ha'' 9 ex_weights
     = (MTC_EXIT_SUCCESS, ex_weights_new)"
proof -
  have "cut_classname ''ha'' = ''ha''" by (simp add: cut_classname_def MAX_HOST_WEIGHT_CLASSNAME_LEN_def)
  moreover have "write_hostweight_file [Some 2] ([(''vm'', 3), (''ha'', 9)] @ replicate 14 ([], 0)) = (MTC_SUCCESS, ex_weights_new)"
    by (simp add: write_hostweight_file_def write_free ex_weights_new_def print_entry_def)
  ultimately show ?thesis
    using ex_set by (simp add: weight_set_def ex_read ex_names MAX_HOST_WEIGHT_VALUE_def BUILTIN_HOST_WEIGHT_CLASSNAME_def
          status_to_exit_success del: set_hostweight_table.simps)
qed

lemma ex_distinct:
  "names_distinct (snd (read_hostweight_file [Some (take 3 ex_weights), Some (drop 3 ex_weights)] MAX_HOST_WEIGHT_CLASS_NUM))"
  by (simp add: ex_read names_distinct_def)

text \<open>The daemon that reloads this file publishes the weight 13.\<close>

theorem weight_command_reaches_daemon_witness:
  "\<forall>v d. sm_weight (d_sm (snd (snd (hostweight_reload MTC_SUCCESS [Some ex_weights_new] (v, d))))) = 13"
proof (intro allI)
  fix v d
  obtain rs v' d' where r: "hostweight_reload MTC_SUCCESS [Some ex_weights_new] (v, d) = (rs, v', d')"
    by (cases "hostweight_reload MTC_SUCCESS [Some ex_weights_new] (v, d)")
  then have "hw_weight_table v' = [(''vm'', 3), (''ha'', 9)] @ replicate 14 ([], 0)"
    by (auto simp: hostweight_reload_def hostweight_update_def ex_read)
  then show "sm_weight (d_sm (snd (snd (hostweight_reload MTC_SUCCESS [Some ex_weights_new] (v, d))))) = 13"
    using weight_command_reaches_daemon[OF ex_delivers _ ex_distinct ex_weights_set r] r by simp
qed

text \<open>A failed write leaves a shorter file: the old one is cut to length zero before.\<close>

lemma failed_write_loses_weights:
  "write_hostweight_file [Some 2, None] [(''vm'', 3), (''ha'', 9)] = (MTC_ERROR_WEIGHT_IO_ERROR, ''vm'')"
  by (simp add: write_hostweight_file_def print_entry_def)

end
