(* ===== verification/XapiMon.thy ===== *)
theory XapiMon
  imports SmBase StateFile
begin

text \<open>
  The monitor of Xapi: \<^verbatim>\<open>daemon/xapi_mon.c\<close>. The child processes are arguments: what
  \<open>fork\<close>, \<open>select\<close>, \<open>read\<close> and \<open>waitpid\<close> answer, and what the clock
  shows after it. A computation whose answers run out before it ends is \<open>None\<close>.
\<close>

definition XAPI_MAX_ERROR_STRING_LEN :: nat where "XAPI_MAX_ERROR_STRING_LEN = 100"
definition XAPIMON_MAX_FORK_ERR_RETRY :: nat where "XAPIMON_MAX_FORK_ERR_RETRY = 5"
definition ONE_DAY :: clock where "ONE_DAY = 24 * 60 * 60 * 1000"

text \<open>
  The variables of the thread: the failed forks in a row, and the two static ones of
  \<open>xapi_restart\<close>.
\<close>

record xm_var =
  xmv_fork_errcnt :: nat
  xmv_time_restarted :: clock
  xmv_restart_count :: nat

definition init_xmv :: xm_var where
  "init_xmv = \<lparr>xmv_fork_errcnt = 0, xmv_time_restarted = - ONE_DAY, xmv_restart_count = 0\<rparr>"

section \<open>Restarting Xapi\<close>

datatype wait_answer = Running | Exited int | WaitFailed

text \<open>
  \<open>wait_pid_timeout\<close>: each answer of \<open>waitpid\<close> with the time after the sleep that
  follows it. The result is \<open>Running\<close> for a timeout. A failing \<open>waitpid\<close> ends the
  loop as well and fails the assertion after it; the caller of this function takes
  \<open>WaitFailed\<close> for that.
\<close>

fun wait_pid_timeout :: "clock \<Rightarrow> clock \<Rightarrow> (wait_answer \<times> clock) list \<Rightarrow> clock \<Rightarrow> wait_answer option" where
  "wait_pid_timeout start_time timeout [] now = None"
| "wait_pid_timeout start_time timeout ((a, t) # es) now =
     (if a = Running \<and> now < start_time + timeout then wait_pid_timeout start_time timeout es t else Some a)"

text \<open>
  One attempt: the fork fails, or the answers of \<open>waitpid\<close> and the time when the restart
  is recorded. The deadline of every attempt counts from the beginning of the first.
\<close>

datatype restart_attempt = ForkFailed | Started "(wait_answer \<times> clock) list" clock

text \<open>
  The loop ends with a restart process that exited with 0, with no attempt left, or with the
  failed assertion of \<open>wait_pid_timeout\<close>, which aborts the daemon.
\<close>

datatype attempts_result = ExitedWithZero | NoAttemptLeft | WaitAborted

fun restart_loop :: "ha_config \<Rightarrow> clock \<Rightarrow> restart_attempt list \<Rightarrow> xm_var \<times> daemon
  \<Rightarrow> (attempts_result \<times> xm_var \<times> daemon) option" where
  "restart_loop c time_restarting [] (v, d) =
     (if xmv_restart_count v < unat (cfg_RestartXapi c) then None else Some (NoAttemptLeft, v, d))"
| "restart_loop c time_restarting (a # as) (v, d) =
     (if xmv_restart_count v < unat (cfg_RestartXapi c) then
        (let v1 = v\<lparr>xmv_restart_count := xmv_restart_count v + 1\<rparr> in
         case a of
           ForkFailed \<Rightarrow> restart_loop c time_restarting as (v1, d)
         | Started waits t \<Rightarrow>
             (case wait_pid_timeout time_restarting (uint (cfg_TRestartXapi c * ONE_SEC)) waits time_restarting of
                None \<Rightarrow> None
              | Some ans \<Rightarrow>
                  if ans = Exited 0
                  then Some (ExitedWithZero, v1\<lparr>xmv_time_restarted := t\<rparr>, upd_xm (\<lambda>x. x\<lparr>xm_time_Xapi_restart := - 1\<rparr>) d)
                  else if ans = WaitFailed then Some (WaitAborted, v1, d)
                  else restart_loop c time_restarting as (v1, d)))
      else Some (NoAttemptLeft, v, d))"

text \<open>
  What \<open>xapi_restart\<close> does: it returns after a restart; it ends in the self-fence; or an
  assertion fails and the daemon aborts: the one of \<open>wait_pid_timeout\<close>, or, when fencing
  is not armed, the one after the self-fence, which then returns.
\<close>

datatype restart_result = Restarted | Fenced | AssertionFailed

definition xapi_restart :: "ha_config \<Rightarrow> clock \<Rightarrow> restart_attempt list \<Rightarrow> xm_var \<times> daemon
  \<Rightarrow> (restart_result \<times> xm_var \<times> daemon) option" where
  "xapi_restart c now attempts = (\<lambda>(v, d).
     let d1 = upd_xm (\<lambda>x. x\<lparr>xm_time_Xapi_restart := now\<rparr>) d;
         v1 = (if xmv_time_restarted v < 0 \<or> now - xmv_time_restarted v > ONE_DAY
               then v\<lparr>xmv_restart_count := 0\<rparr> else v)
     in (case restart_loop c now attempts (v1, d1) of
           None \<Rightarrow> None
         | Some (ExitedWithZero, v2, d2) \<Rightarrow> Some (Restarted, v2, d2)
         | Some (WaitAborted, v2, d2) \<Rightarrow> Some (AssertionFailed, v2, d2)
         | Some (NoAttemptLeft, v2, d2) \<Rightarrow>
             (let d3 = self_fence MTC_ERROR_XAPIMON_XAPI_FAILED d2
              in Some (if smv_fencing (d_smv d2) = FENCING_ARMED then Fenced else AssertionFailed, v2, d3))))"

section \<open>The health check\<close>

text \<open>
  The loop that reads the pipe: data is appended as long as there is room, all of it is
  consumed; the end of the file, an error or the timeout of \<open>select\<close> end the loop.
\<close>

datatype pipe_answer = PipeData string | PipeEnd | PipeTimeout

fun read_pipe :: "pipe_answer list \<Rightarrow> string \<Rightarrow> string option" where
  "read_pipe [] err = None"
| "read_pipe (PipeData bytes # es) err =
     (let got = take (XAPI_MAX_ERROR_STRING_LEN + 1) bytes
      in if got = [] then Some err
         else if length err < XAPI_MAX_ERROR_STRING_LEN
         then read_pipe es (err @ take (XAPI_MAX_ERROR_STRING_LEN - length err) got)
         else read_pipe es err)"
| "read_pipe (PipeEnd # es) err = Some err"
| "read_pipe (PipeTimeout # es) err = Some err"

text \<open>
  The loop over \<open>waitid\<close>, with the time after each sleep. A check that takes too long is
  killed and counts as still running.
\<close>

datatype child_answer = ChildRunning | ChildExited int | ChildKilled | ChildError

fun wait_child :: "ha_config \<Rightarrow> clock \<Rightarrow> (child_answer \<times> clock) list \<Rightarrow> child_answer option" where
  "wait_child c start [] = None"
| "wait_child c start ((a, t) # es) =
     (if a = ChildRunning then
        (if t - start > uint (cfg_TXapi c * ONE_SEC) then Some ChildRunning else wait_child c start es)
      else Some a)"

text \<open>
  The fault points after the check: they delay, turn the answer into a hang, or put an error
  in its place. An inserted error changes the exit status only.
\<close>

definition xm_check_fist :: "ha_config \<Rightarrow> child_answer \<Rightarrow> string \<Rightarrow> daemon \<Rightarrow> child_answer \<times> string \<times> daemon" where
  "xm_check_fist c a err d =
     (case d_fist_on ''xm.time.<TXapi'' d of
        (True, d1) \<Rightarrow> (a, err, d1)
      | (False, d1) \<Rightarrow> (case d_fist_on ''xm.time.=TXapi'' d1 of
        (True, d2) \<Rightarrow> (a, err, d2)
      | (False, d2) \<Rightarrow> (case d_fist_on ''xm.time.>TXapi'' d2 of
        (True, d3) \<Rightarrow> (ChildRunning, err, d3)
      | (False, d3) \<Rightarrow> (case d_fist_on ''xm.xapi.error'' d3 of
        (True, d4) \<Rightarrow> (case a of ChildExited s \<Rightarrow> ChildExited (- 1) | _ \<Rightarrow> a,
                       ''XM(FIST): xm.xapi.error is inserted'', d4)
      | (False, d4) \<Rightarrow> (a, err, d4)))))"

text \<open>The healthy branch: the latencies, and no error.\<close>

definition xapi_healthy :: "clock \<Rightarrow> clock \<Rightarrow> com_data_xapimon \<Rightarrow> com_data_xapimon" where
  "xapi_healthy start now x =
     (let lat = now - start
      in x\<lparr>xm_latency := lat,
           xm_latency_max := (if xm_latency_max x < 0 then lat else max (xm_latency_max x) lat),
           xm_latency_min := (if xm_latency_min x < 0 then lat else min (xm_latency_min x) lat),
           xm_err_string := [], xm_time_healthcheck_start := - 1\<rparr>)"

definition xapi_unhealthy :: "string \<Rightarrow> com_data_xapimon \<Rightarrow> com_data_xapimon" where
  "xapi_unhealthy err x = x\<lparr>xm_err_string := err, xm_time_healthcheck_start := - 1\<rparr>"

text \<open>
  What one round meets: whether the check can be started, the answers of the pipe and of
  the child, the times at the start, after the check and at the restart, and the attempts.
\<close>

record xm_round_io =
  io_started :: bool
  io_pipe :: "pipe_answer list"
  io_child :: "(child_answer \<times> clock) list"
  io_start :: clock
  io_end :: clock
  io_restart :: clock
  io_attempts :: "restart_attempt list"

text \<open>
  One round of the thread after its sleep: the loop goes on, it is left or never comes back
  from the self-fence, or a failed assertion aborts the daemon. After the self-fence for
  failed forks the loop is left, whether or not fencing was armed.
\<close>

datatype round_result = GoesOn | Ends | Aborts

definition xapimon_round :: "ha_config \<Rightarrow> xm_round_io \<Rightarrow> xm_var \<times> daemon \<Rightarrow> (round_result \<times> xm_var \<times> daemon) option" where
  "xapimon_round c io = (\<lambda>(v, d).
     if \<not> xm_enable_monitor (d_xm d) then Some (GoesOn, v, d)
     else if \<not> io_started io then
       (let v1 = v\<lparr>xmv_fork_errcnt := xmv_fork_errcnt v + 1\<rparr>
        in if xmv_fork_errcnt v1 > XAPIMON_MAX_FORK_ERR_RETRY
           then Some (Ends, v1, self_fence MTC_ERROR_XAPIMON_XAPI_FAILED d)
           else Some (GoesOn, v1, d))
     else
       (let v1 = v\<lparr>xmv_fork_errcnt := 0\<rparr>;
            d1 = upd_xm (\<lambda>x. x\<lparr>xm_time_healthcheck_start := io_start io\<rparr>) d
        in (case read_pipe (io_pipe io) [] of
              None \<Rightarrow> None
            | Some err \<Rightarrow> (case wait_child c (io_start io) (io_child io) of
                None \<Rightarrow> None
              | Some a \<Rightarrow> (case xm_check_fist c a err d1 of (a1, err1, d2) \<Rightarrow>
                  if a1 = ChildExited 0
                  then Some (GoesOn, v1, upd_xm (xapi_healthy (io_start io) (io_end io)) d2)
                  else (case xapi_restart c (io_restart io) (io_attempts io) (v1, upd_xm (xapi_unhealthy err1) d2) of
                          None \<Rightarrow> None
                        | Some (Restarted, v2, d3) \<Rightarrow> Some (GoesOn, v2, d3)
                        | Some (Fenced, v2, d3) \<Rightarrow> Some (Ends, v2, d3)
                        | Some (AssertionFailed, v2, d3) \<Rightarrow> Some (Aborts, v2, d3)))))))"

end
