(* ===== verification/XapiMonProps.thy ===== *)
theory XapiMonProps
  imports XapiMon
begin

text \<open>
  What a round of the Xapi monitor leaves behind, and two limits of its timeouts: the
  deadline of a second restart attempt, and a health check that keeps writing.
\<close>

section \<open>Reading and waiting\<close>

lemma read_pipe_fits:
  "read_pipe es err = Some err' \<Longrightarrow> length err \<le> XAPI_MAX_ERROR_STRING_LEN \<Longrightarrow> length err' \<le> XAPI_MAX_ERROR_STRING_LEN"
  by (induction es err rule: read_pipe.induct) (auto simp: Let_def split: if_splits)

text \<open>
  A check that keeps its pipe filled is never timed out: the loop has no other way to end
  than an answer of \<open>select\<close> or \<open>read\<close> that carries no data.
\<close>

lemma read_pipe_flooded:
  "list_all (\<lambda>e. \<exists>b bs. e = PipeData (b # bs)) es \<Longrightarrow> read_pipe es err = None"
  by (induction es err rule: read_pipe.induct) (auto simp: Let_def)

lemma wait_pid_returns:
  assumes "\<exists>k. Suc k < length es \<and> start + timeout \<le> snd (es ! k)"
  shows "\<exists>ans. wait_pid_timeout start timeout es now = Some ans"
  using assms
proof (induction start timeout es now rule: wait_pid_timeout.induct)
  case (2 start timeout a t es now)
  then obtain k where k: "Suc k < length ((a, t) # es)" "start + timeout \<le> snd (((a, t) # es) ! k)" by blast
  show ?case
  proof (cases k)
    case 0
    then obtain b u es' where "es = (b, u) # es'" using k by (cases es) auto
    then show ?thesis using k 0 by simp
  next
    case (Suc j)
    then show ?thesis using 2 k by auto
  qed
qed simp

text \<open>
  The deadline of every attempt counts from the start of the first one: once it has passed,
  an attempt is given up at the second look, a tenth of the timeout after it was started.
\<close>

lemma late_attempt_gets_one_look:
  assumes "start + timeout \<le> t" and "0 < timeout"
  shows "wait_pid_timeout start timeout ((Running, t) # (a, t') # es) start = Some a"
  using assms by simp

section \<open>Restarting\<close>

text \<open>One of the attempts was started and the wait for it ended with this answer.\<close>

definition attempt_ends :: "ha_config \<Rightarrow> clock \<Rightarrow> restart_attempt list \<Rightarrow> wait_answer \<Rightarrow> bool" where
  "attempt_ends c start as ans \<longleftrightarrow> (\<exists>waits t. Started waits t \<in> set as
     \<and> wait_pid_timeout start (uint (cfg_TRestartXapi c * ONE_SEC)) waits start = Some ans)"

lemma attempt_ends_here:
  "wait_pid_timeout start (uint (cfg_TRestartXapi c * ONE_SEC)) waits start = Some ans \<Longrightarrow>
   attempt_ends c start (Started waits t # as) ans"
  by (auto simp: attempt_ends_def)

lemma attempt_ends_later: "attempt_ends c start as ans \<Longrightarrow> attempt_ends c start (a # as) ans"
  by (auto simp: attempt_ends_def)

lemma restart_loop_outcome:
  "restart_loop c start as (v, d) = Some (r, v', d') \<Longrightarrow>
     xmv_restart_count v \<le> xmv_restart_count v'
     \<and> xmv_restart_count v' \<le> max (xmv_restart_count v) (unat (cfg_RestartXapi c))
     \<and> (case r of
          ExitedWithZero \<Rightarrow> d' = upd_xm (\<lambda>x. x\<lparr>xm_time_Xapi_restart := - 1\<rparr>) d \<and> attempt_ends c start as (Exited 0)
        | NoAttemptLeft \<Rightarrow> d' = d \<and> unat (cfg_RestartXapi c) \<le> xmv_restart_count v'
        | WaitAborted \<Rightarrow> d' = d \<and> attempt_ends c start as WaitFailed)"
proof (induction as arbitrary: v)
  case Nil
  then show ?case by (auto split: if_splits)
next
  case (Cons a as)
  let ?v = "v\<lparr>xmv_restart_count := xmv_restart_count v + 1\<rparr>"
  show ?case
  proof (cases "xmv_restart_count v < unat (cfg_RestartXapi c)")
    case False
    then show ?thesis using Cons.prems by auto
  next
    case True
    show ?thesis
    proof (cases a)
      case ForkFailed
      then show ?thesis using Cons.prems Cons.IH[of ?v] True
        by (auto simp: Let_def intro: attempt_ends_later split: if_splits attempts_result.splits)
    next
      case (Started waits t)
      then obtain ans where ans: "wait_pid_timeout start (uint (cfg_TRestartXapi c * ONE_SEC)) waits start = Some ans"
        using Cons.prems True by (auto simp: Let_def split: option.splits)
      show ?thesis
      proof (cases "ans = Exited 0 \<or> ans = WaitFailed")
        case True
        then show ?thesis
          using Cons.prems \<open>xmv_restart_count v < unat (cfg_RestartXapi c)\<close> Started ans
          by (auto simp: Let_def attempt_ends_here)
      next
        case False
        then show ?thesis using Cons.prems Cons.IH[of ?v] True Started ans
          by (auto simp: Let_def intro: attempt_ends_later split: if_splits attempts_result.splits)
      qed
    qed
  qed
qed

lemma self_fence_xm [simp]: "d_xm (self_fence code d) = d_xm d"
  by (simp add: self_fence_def)

lemma xm_check_fist_quiet: "fist_quiet (d_fist d) \<Longrightarrow> xm_check_fist c a err d = (a, err, d)"
  by (simp add: xm_check_fist_def d_fist_on_def)

lemma xapi_restart_outcome:
  assumes "xapi_restart c now as (v, d) = Some (res, v', d')"
  shows "xm_err_string (d_xm d') = xm_err_string (d_xm d)
    \<and> xm_time_healthcheck_start (d_xm d') = xm_time_healthcheck_start (d_xm d)
    \<and> (case res of
         Restarted \<Rightarrow> xm_time_Xapi_restart (d_xm d') = - 1 \<and> d_fenced d' = d_fenced d \<and> attempt_ends c now as (Exited 0)
       | Fenced \<Rightarrow> smv_fencing (d_smv d) = FENCING_ARMED \<and> unat (cfg_RestartXapi c) \<le> xmv_restart_count v'
          \<and> d_fenced d' = Some MTC_ERROR_XAPIMON_XAPI_FAILED
       | AssertionFailed \<Rightarrow> d_fenced d' = d_fenced d \<and> (attempt_ends c now as WaitFailed
          \<or> smv_fencing (d_smv d) \<noteq> FENCING_ARMED \<and> unat (cfg_RestartXapi c) \<le> xmv_restart_count v'))"
proof -
  obtain v1 where r: "(case restart_loop c now as (v1, upd_xm (\<lambda>x. x\<lparr>xm_time_Xapi_restart := now\<rparr>) d) of
           None \<Rightarrow> None
         | Some (ExitedWithZero, v2, d2) \<Rightarrow> Some (Restarted, v2, d2)
         | Some (WaitAborted, v2, d2) \<Rightarrow> Some (AssertionFailed, v2, d2)
         | Some (NoAttemptLeft, v2, d2) \<Rightarrow>
              Some (if smv_fencing (d_smv d2) = FENCING_ARMED then Fenced else AssertionFailed, v2,
                    self_fence MTC_ERROR_XAPIMON_XAPI_FAILED d2)) = Some (res, v', d')"
    using assms unfolding xapi_restart_def Let_def case_prod_conv by blast
  then obtain lr d2 where l: "restart_loop c now as (v1, upd_xm (\<lambda>x. x\<lparr>xm_time_Xapi_restart := now\<rparr>) d) = Some (lr, v', d2)"
    by (auto split: option.splits prod.splits attempts_result.splits)
  show ?thesis
    using r restart_loop_outcome[OF l] unfolding l
    by (cases lr) (auto simp: self_fence_def split: if_splits)
qed

section \<open>One round\<close>

text \<open>
  C16. A round of the monitor in which the health check was started leaves no health check
  marked as running and an error text that fits its field. When the check exits with 0 the
  latency is recorded, the error is cleared and nothing is restarted. In every other case
  its text is recorded, and the round goes on only if a restart process has exited with 0
  in time, with the mark of the restart cleared; it ends only if fencing is armed, the
  attempts are used up and the host fences itself; and the daemon aborts only if
  \<open>waitpid\<close> failed on a restart process, or if the attempts are used up and fencing is not
  armed. There is no other way through a round.
\<close>

theorem xapi_round_outcome:
  assumes "xapimon_round c io (v, d) = Some (r, v', d')" and "xm_enable_monitor (d_xm d)" and "io_started io"
    and "fist_quiet (d_fist d)" and "read_pipe (io_pipe io) [] = Some err"
    and "wait_child c (io_start io) (io_child io) = Some a"
  shows "xm_time_healthcheck_start (d_xm d') = - 1 \<and> length (xm_err_string (d_xm d')) \<le> 100
    \<and> (if a = ChildExited 0
       then r = GoesOn \<and> xm_err_string (d_xm d') = [] \<and> xm_latency (d_xm d') = io_end io - io_start io
          \<and> xm_time_Xapi_restart (d_xm d') = xm_time_Xapi_restart (d_xm d) \<and> d_fenced d' = d_fenced d
       else xm_err_string (d_xm d') = err
          \<and> (case r of
               GoesOn \<Rightarrow> xm_time_Xapi_restart (d_xm d') = - 1 \<and> d_fenced d' = d_fenced d
                 \<and> attempt_ends c (io_restart io) (io_attempts io) (Exited 0)
             | Ends \<Rightarrow> smv_fencing (d_smv d) = FENCING_ARMED \<and> unat (cfg_RestartXapi c) \<le> xmv_restart_count v'
                 \<and> d_fenced d' = Some MTC_ERROR_XAPIMON_XAPI_FAILED
             | Aborts \<Rightarrow> d_fenced d' = d_fenced d \<and> (attempt_ends c (io_restart io) (io_attempts io) WaitFailed
                 \<or> smv_fencing (d_smv d) \<noteq> FENCING_ARMED \<and> unat (cfg_RestartXapi c) \<le> xmv_restart_count v')))"
proof -
  let ?d1 = "upd_xm (\<lambda>x. x\<lparr>xm_time_healthcheck_start := io_start io\<rparr>) d"
  have err: "length err \<le> 100"
    using read_pipe_fits[OF assms(5)] by (simp add: XAPI_MAX_ERROR_STRING_LEN_def)
  have fist: "xm_check_fist c a err ?d1 = (a, err, ?d1)"
    by (rule xm_check_fist_quiet) (use assms(4) in simp)
  show ?thesis
  proof (cases "a = ChildExited 0")
    case True
    then show ?thesis using assms fist by (auto simp: xapimon_round_def xapi_healthy_def Let_def)
  next
    case False
    then obtain res where res: "xapi_restart c (io_restart io) (io_attempts io)
        (v\<lparr>xmv_fork_errcnt := 0\<rparr>, upd_xm (xapi_unhealthy err) ?d1) = Some (res, v', d')"
      and go: "r = (case res of Restarted \<Rightarrow> GoesOn | Fenced \<Rightarrow> Ends | AssertionFailed \<Rightarrow> Aborts)"
      using assms fist by (auto simp: xapimon_round_def Let_def split: option.splits prod.splits restart_result.splits)
    show ?thesis using xapi_restart_outcome[OF res] False err go
      by (cases res) (auto simp: xapi_unhealthy_def)
  qed
qed

text \<open>
  The witness: the check exits with 1 after writing a text; the first restart process exits
  with 0 at its second look.
\<close>

definition ex_io :: xm_round_io where
  "ex_io = \<lparr>io_started = True, io_pipe = [PipeData ''xapi is sick'', PipeEnd], io_child = [(ChildExited 1, 0)],
     io_start = 1000, io_end = 1500, io_restart = 1600,
     io_attempts = [Started [(Running, 4600), (Exited 0, 7600)] 7600]\<rparr>"

definition ex_xm_daemon :: daemon where
  "ex_xm_daemon = upd_xm (\<lambda>x. x\<lparr>xm_enable_monitor := True\<rparr>) (init_daemon (default_config 2 0))"

lemma ex_xm_daemon_sel:
  "xm_enable_monitor (d_xm ex_xm_daemon)" "fist_quiet (d_fist ex_xm_daemon)"
  by (simp_all add: ex_xm_daemon_def init_daemon_def fist_on_initial_quiet)

lemma ex_io_answers:
  "io_started ex_io" "read_pipe (io_pipe ex_io) [] = Some ''xapi is sick''"
  "wait_child (default_config 2 0) (io_start ex_io) (io_child ex_io) = Some (ChildExited 1)"
  by (simp_all add: ex_io_def XAPI_MAX_ERROR_STRING_LEN_def)

lemma ex_io_run: "\<exists>v' d'. xapimon_round (default_config 2 0) ex_io (init_xmv, ex_xm_daemon) = Some (GoesOn, v', d')"
proof -
  have "xm_check_fist (default_config 2 0) (ChildExited 1) ''xapi is sick''
      (upd_xm (\<lambda>x. x\<lparr>xm_time_healthcheck_start := io_start ex_io\<rparr>) ex_xm_daemon)
    = (ChildExited 1, ''xapi is sick'', upd_xm (\<lambda>x. x\<lparr>xm_time_healthcheck_start := io_start ex_io\<rparr>) ex_xm_daemon)"
    by (rule xm_check_fist_quiet) (simp add: ex_xm_daemon_sel)
  moreover have "\<exists>v' d'. xapi_restart (default_config 2 0) (io_restart ex_io) (io_attempts ex_io)
      (init_xmv\<lparr>xmv_fork_errcnt := 0\<rparr>, d) = Some (Restarted, v', d')" for d
    by (simp add: xapi_restart_def ex_io_def init_xmv_def ONE_DAY_def default_config_def ONE_SEC_def Let_def)
  then obtain v' d' where "xapi_restart (default_config 2 0) (io_restart ex_io) (io_attempts ex_io)
      (init_xmv\<lparr>xmv_fork_errcnt := 0\<rparr>, upd_xm (xapi_unhealthy ''xapi is sick'')
        (upd_xm (\<lambda>x. x\<lparr>xm_time_healthcheck_start := io_start ex_io\<rparr>) ex_xm_daemon)) = Some (Restarted, v', d')"
    by blast
  ultimately show ?thesis
    by (simp add: xapimon_round_def ex_io_answers ex_xm_daemon_sel Let_def)
qed

theorem xapi_round_outcome_witness:
  "\<exists>v' d'. xapimon_round (default_config 2 0) ex_io (init_xmv, ex_xm_daemon) = Some (GoesOn, v', d')
    \<and> xm_err_string (d_xm d') = ''xapi is sick'' \<and> xm_time_Xapi_restart (d_xm d') = - 1"
  using ex_io_run xapi_round_outcome[OF _ ex_xm_daemon_sel(1) ex_io_answers(1) ex_xm_daemon_sel(2) ex_io_answers(2,3)]
  by fastforce

end
