(* ===== verification/BondMon.thy ===== *)
theory BondMon
  imports StateFile Config
begin

text \<open>
  The monitor of the bonded interface: \<^verbatim>\<open>daemon/bond_mon.c\<close>. The text of the
  status file of the kernel is an argument (\<open>None\<close> when it cannot be opened).
\<close>

datatype bond_status = BOND_STATUS_NOBOND | BOND_STATUS_ERR | BOND_STATUS_DEGRADED | BOND_STATUS_NOERR

text \<open>\<open>COM_DATA_BM\<close>, the flag that ends the thread, and the status it reported last.\<close>

record com_data_bm =
  bm_status :: bool
  bm_mtc_bond_status :: bond_status

record bm_var =
  bmv_terminate :: bool
  bmv_bond_status :: bond_status

definition init_com_bm :: com_data_bm where
  "init_com_bm = \<lparr>bm_status = False, bm_mtc_bond_status = BOND_STATUS_NOERR\<rparr>"

section \<open>The status file\<close>

definition MII_STATUS_LINE :: string where "MII_STATUS_LINE = ''MII Status:''"
definition MII_STATUS_UP :: string where "MII_STATUS_UP = ''up''"
definition INTERFACE_LINE :: string where "INTERFACE_LINE = ''Slave Interface:''"

definition chop :: "string \<Rightarrow> string" where
  "chop line = (if line \<noteq> [] \<and> last line = CHR 0x0A then butlast line else line)"

text \<open>\<open>fgets\<close> with a buffer of 256: at most 255 characters, up to the end of the line.\<close>

definition fgets_len :: "string \<Rightarrow> nat" where
  "fgets_len txt = min 255 (min (length txt) (length (takeWhile (\<lambda>c. c \<noteq> CHR 0x0A) txt) + 1))"

function fgets_lines :: "string \<Rightarrow> string list" where
  "fgets_lines txt = (if txt = [] then [] else take (fgets_len txt) txt # fgets_lines (drop (fgets_len txt) txt))"
  by pat_completeness auto
termination
  by (relation "measure length") (auto simp: fgets_len_def)

declare fgets_lines.simps [simp del]

text \<open>Comparison without regard to case, for ASCII.\<close>

definition to_lower :: "char \<Rightarrow> char" where
  "to_lower c = (if 65 \<le> (of_char c :: nat) \<and> (of_char c :: nat) \<le> 90 then char_of ((of_char c :: nat) + 32) else c)"

definition starts_with :: "string \<Rightarrow> string \<Rightarrow> bool" where
  "starts_with line p \<longleftrightarrow> map to_lower (take (length p) line) = map to_lower p"

fun strcasestr :: "string \<Rightarrow> string \<Rightarrow> bool" where
  "strcasestr [] p = (p = [])"
| "strcasestr (c # cs) p = (starts_with (c # cs) p \<or> strcasestr cs p)"

text \<open>One line: the interface the following lines are about, and the status so far.\<close>

definition bond_line :: "string \<Rightarrow> string \<Rightarrow> string \<times> bond_status \<Rightarrow> string \<times> bond_status" where
  "bond_line pif line0 = (\<lambda>(device, ret).
     let line = chop line0 in
     if starts_with line MII_STATUS_LINE then
       (if \<not> strcasestr (drop (length MII_STATUS_LINE) line) MII_STATUS_UP
           \<and> \<not> (ret = BOND_STATUS_ERR \<or> ret = BOND_STATUS_DEGRADED)
        then (device, if device = pif then BOND_STATUS_ERR else BOND_STATUS_DEGRADED) else (device, ret))
     else if starts_with line INTERFACE_LINE then (drop (length INTERFACE_LINE) line, ret)
     else (device, ret))"

definition bm_check_fist :: "daemon \<Rightarrow> bond_status option \<times> daemon" where
  "bm_check_fist d =
     (case d_fist_on ''bm.interface.down'' d of
        (True, d1) \<Rightarrow> (Some BOND_STATUS_ERR, d1)
      | (False, d1) \<Rightarrow> (case d_fist_on ''bm.interface.degraded'' d1 of
          (True, d2) \<Rightarrow> (Some BOND_STATUS_DEGRADED, d2)
        | (False, d2) \<Rightarrow> (None, d2)))"

definition check_bonding_status :: "string \<Rightarrow> string option \<Rightarrow> daemon \<Rightarrow> bond_status \<times> daemon" where
  "check_bonding_status pif status_file d =
     (case bm_check_fist d of
        (Some st, d1) \<Rightarrow> (st, d1)
      | (None, d1) \<Rightarrow>
          if pif = [] then (BOND_STATUS_NOBOND, d1)
          else (case status_file of
                  None \<Rightarrow> (BOND_STATUS_NOBOND, d1)
                | Some txt \<Rightarrow> (snd (fold (bond_line pif) (fgets_lines txt) (pif, BOND_STATUS_NOERR)), d1)))"

section \<open>The thread\<close>

text \<open>One round after the sleep; the loop ends when the flag is set.\<close>

definition bm_round :: "string \<Rightarrow> string option \<Rightarrow> bm_var \<times> com_data_bm \<times> daemon \<Rightarrow> bm_var \<times> com_data_bm \<times> daemon" where
  "bm_round pif status_file = (\<lambda>(v, b, d).
     case check_bonding_status pif status_file d of (st, d1) \<Rightarrow>
       (v\<lparr>bmv_bond_status := st, bmv_terminate := (bmv_terminate v \<or> st = BOND_STATUS_NOBOND)\<rparr>,
        b\<lparr>bm_status := (st = BOND_STATUS_DEGRADED \<or> st = BOND_STATUS_ERR), bm_mtc_bond_status := st\<rparr>, d1))"

section \<open>What the status means\<close>

text \<open>
  The first interface that is down decides: the bond itself gives an error, a slave a
  degradation, and nothing changes either again.
\<close>

lemma bond_line_keeps_failure:
  "ret = BOND_STATUS_ERR \<or> ret = BOND_STATUS_DEGRADED \<Longrightarrow> snd (fold (bond_line pif) ls (device, ret)) = ret"
proof (induction ls arbitrary: device)
  case (Cons l ls)
  have "\<exists>device'. bond_line pif l (device, ret) = (device', ret)"
    using Cons.prems by (auto simp: bond_line_def Let_def)
  then show ?case using Cons by auto
qed simp

lemma bond_up_slave_down:
  "snd (fold (bond_line ''bond0'') [''MII Status: up'', ''Slave Interface: eth0'', ''MII Status: down'']
     (''bond0'', BOND_STATUS_NOERR)) = BOND_STATUS_DEGRADED"
  by (simp add: bond_line_def chop_def starts_with_def to_lower_def MII_STATUS_LINE_def MII_STATUS_UP_def INTERFACE_LINE_def)

end
