(* ===== verification/ScFunc.thy ===== *)
theory ScFunc
  imports LockMgr BondMon HostWeight
begin

text \<open>
  The services the commands ask for: \<^verbatim>\<open>daemon/sc_func.c\<close> with the formats of
  \<^verbatim>\<open>include/script.h\<close>. A request body is its bytes; a response body is a value of a
  datatype with one constructor per structure of the source.
\<close>

section \<open>Formats\<close>

text \<open>
  What \<open>query_liveset\<close> reports of one host. The update time and the restart time are unsigned
  in the structure, the heartbeat time is signed.
\<close>

record ql_host =
  q_host_id :: uuid
  q_liveness :: bool
  q_master :: bool
  q_sf_access :: bool
  q_sf_corrupted :: bool
  q_excluded :: bool
  q_time_since_last_update_on_sf :: u32
  q_time_since_last_hb :: int
  q_time_since_xapi_restart :: u32
  q_hb_list_on_hb :: "nat \<Rightarrow> bool"
  q_sf_list_on_hb :: "nat \<Rightarrow> bool"
  q_hb_list_on_sf :: "nat \<Rightarrow> bool"
  q_sf_list_on_sf :: "nat \<Rightarrow> bool"
  q_xapi_err_string :: string

record query_liveset =
  q_status :: u32
  q_hostnum :: u32
  q_localhost_index :: u32
  q_sf_latency :: int
  q_sf_latency_max :: int
  q_sf_latency_min :: int
  q_hb_latency :: int
  q_hb_latency_max :: int
  q_hb_latency_min :: int
  q_xapi_latency :: int
  q_xapi_latency_max :: int
  q_xapi_latency_min :: int
  q_T1 :: u32
  q_T2 :: u32
  q_T3 :: u32
  q_Wh :: u32
  q_Ws :: u32
  q_sf_lost :: bool
  q_hb_approaching_timeout :: bool
  q_sf_approaching_timeout :: bool
  q_xapi_approaching_timeout :: bool
  q_bonding_error :: bool
  q_host :: "nat \<Rightarrow> ql_host"

datatype sc_response =
  ResNone | ResLiveset query_liveset | ResMaster mtc_status bool | ResRetval mtc_status
| ResPid int | ResHoststate u32 | ResLogmask u32 | ResPrivatelog bool | ResBuildid string string

text \<open>Sizes of the structures in bytes, with the padding of the compiler.\<close>

definition sizeof_query_liveset :: nat where "sizeof_query_liveset = 22 * 4 + 64 * (32 + 8 * 4 + 4 * 64 * 4 + 104)"
definition sizeof_propose_master :: nat where "sizeof_propose_master = 8"
definition sizeof_u32 :: nat where "sizeof_u32 = 4"
definition sizeof_buildid :: nat where "sizeof_buildid = 64 + 64"
definition sizeof_request_fist :: nat where "sizeof_request_fist = 64 + 1"

text \<open>The \<open>MTC_U32\<close> at the beginning of a body (little endian), and the fault point's name.\<close>

definition u32_body :: "u8 list \<Rightarrow> u32" where
  "u32_body body = word_rcat (rev (take 4 body))"

definition fist_name_body :: "u8 list \<Rightarrow> string" where
  "fist_name_body body = map (\<lambda>b. char_of (unat b)) (takeWhile (\<lambda>b. b \<noteq> 0) body)"

abbreviation "LIVESET_STATUS_STARTING \<equiv> (0 :: u32)"
abbreviation "LIVESET_STATUS_ONLINE \<equiv> (1 :: u32)"

text \<open>The daemon with the other static variables the services work on.\<close>

record sc_state =
  sc_d :: daemon
  sc_bm :: com_data_bm
  sc_hw :: hw_var
  sc_logmask :: u32
  sc_privatelogflag :: bool

abbreviation sc_upd :: "(daemon \<Rightarrow> daemon) \<Rightarrow> sc_state \<Rightarrow> sc_state" where
  "sc_upd f s \<equiv> s\<lparr>sc_d := f (sc_d s)\<rparr>"

text \<open>
  What the other threads do between the critical sections of one service: \<open>gap k\<close> stands after
  section \<open>k\<close> of the service.
\<close>

type_synonym sc_gap = "nat \<Rightarrow> sc_state \<Rightarrow> sc_state"

text \<open>
  A service gives the status, the length and the body of the response, and the state. It has no
  result when it waits for more than the other threads do, and when an assertion fails: the
  daemon is built with assertions, so a request or response buffer that is too small aborts it before
  the error code behind the assertion is returned.
\<close>

datatype sc_stop = Waiting | Aborted

type_synonym sc_result = "sc_stop + (mtc_status \<times> nat \<times> sc_response \<times> sc_state)"

section \<open>The state of the host\<close>

definition get_hoststate :: "daemon \<Rightarrow> u32" where
  "get_hoststate d =
     (if sm_phase_of (d_sm d) = SM_PHASE_STARTING \<or> sm_phase_of (d_sm d) = SM_PHASE_ABORTED
      then LIVESET_STATUS_STARTING else LIVESET_STATUS_ONLINE)"

section \<open>query\_liveset\<close>

definition zero_ql_host :: ql_host where
  "zero_ql_host = \<lparr>q_host_id = [], q_liveness = False, q_master = False, q_sf_access = False, q_sf_corrupted = False,
     q_excluded = False, q_time_since_last_update_on_sf = 0, q_time_since_last_hb = 0, q_time_since_xapi_restart = 0,
     q_hb_list_on_hb = (\<lambda>_. False), q_sf_list_on_hb = (\<lambda>_. False), q_hb_list_on_sf = (\<lambda>_. False),
     q_sf_list_on_sf = (\<lambda>_. False), q_xapi_err_string = []\<rparr>"

text \<open>The zeroed answer, with what the configuration gives.\<close>

definition ql_fill_conf :: "ha_config \<Rightarrow> query_liveset" where
  "ql_fill_conf c = \<lparr>q_status = 0, q_hostnum = of_nat (num_host c), q_localhost_index = of_nat (my_index c),
     q_sf_latency = 0, q_sf_latency_max = 0, q_sf_latency_min = 0, q_hb_latency = 0, q_hb_latency_max = 0,
     q_hb_latency_min = 0, q_xapi_latency = 0, q_xapi_latency_max = 0, q_xapi_latency_min = 0,
     q_T1 = cfg_T1 c * 1000, q_T2 = cfg_T2 c * 1000, q_T3 = cfg_TXapi c * 1000, q_Wh = cfg_Wh c * 1000,
     q_Ws = cfg_Ws c * 1000, q_sf_lost = False, q_hb_approaching_timeout = False, q_sf_approaching_timeout = False,
     q_xapi_approaching_timeout = False, q_bonding_error = False,
     q_host = for_hosts (num_host c) (\<lambda>i a. a(i := zero_ql_host\<lparr>q_host_id := host_UUID c i\<rparr>)) (\<lambda>_. zero_ql_host)\<rparr>"

abbreviation ql_upd_host :: "nat \<Rightarrow> (ql_host \<Rightarrow> ql_host) \<Rightarrow> query_liveset \<Rightarrow> query_liveset" where
  "ql_upd_host i f l \<equiv> l\<lparr>q_host := (q_host l)(i := f (q_host l i))\<rparr>"

definition ql_fill_sm :: "ha_config \<Rightarrow> com_data_sm \<Rightarrow> query_liveset \<Rightarrow> query_liveset" where
  "ql_fill_sm c sm l =
     (for_hosts (num_host c) (\<lambda>i. ql_upd_host i (\<lambda>h. h\<lparr>q_liveness := hm_ison (sm_current_liveset sm) i,
         q_sf_corrupted := hm_ison (sm_sf_corrupted sm) i\<rparr>))
       (l\<lparr>q_status := (if sm_phase_of sm = SM_PHASE_STARTING then LIVESET_STATUS_STARTING else LIVESET_STATUS_ONLINE)\<rparr>))
     \<lparr>q_sf_lost := sm_SR2 sm\<rparr>"

definition ql_row :: "nat \<Rightarrow> hostmap \<Rightarrow> nat \<Rightarrow> bool" where
  "ql_row n m = (\<lambda>hi. hi < n \<and> hm_ison m hi)"

text \<open>
  The part of one host that comes from the heartbeat. The comparison with half the timeout
  is unsigned.
\<close>

definition ql_hb_host :: "ha_config \<Rightarrow> clock \<Rightarrow> com_data_hb \<Rightarrow> nat \<Rightarrow> query_liveset \<Rightarrow> query_liveset" where
  "ql_hb_host c now hb i l =
     (let last_hb = (if hb_time_last_HB hb i < 0 then - 1 else to_s32 (now - hb_time_last_HB hb i));
          live = q_liveness (q_host l i);
          l1 = ql_upd_host i (\<lambda>h. h\<lparr>q_time_since_last_hb := last_hb\<rparr>) l;
          l2 = (if live \<and> i \<noteq> my_index c
                then ql_upd_host i (\<lambda>h. h\<lparr>q_hb_list_on_hb := ql_row (num_host c) (raw_hbdomain (hb_raw hb i)),
                       q_sf_list_on_hb := ql_row (num_host c) (raw_sfdomain (hb_raw hb i))\<rparr>) l1
                else l1);
          l3 = (if live \<and> last_hb \<ge> 0 \<and> word_of_int last_hb > q_T1 l div 2
                then l2\<lparr>q_hb_approaching_timeout := True\<rparr> else l2)
      in ql_upd_host i (\<lambda>h. h\<lparr>
           q_time_since_xapi_restart := (if raw_time_since_xapi_restart (hb_raw hb i) < 0 then - 1
              else word_of_int (last_hb + raw_time_since_xapi_restart (hb_raw hb i))),
           q_xapi_err_string := hb_err_string hb i\<rparr>) l3)"

definition ql_fill_hb :: "ha_config \<Rightarrow> clock \<Rightarrow> com_data_hb \<Rightarrow> query_liveset \<Rightarrow> query_liveset" where
  "ql_fill_hb c now hb l =
     (let l1 = l\<lparr>q_hb_latency := hb_latency hb, q_hb_latency_max := hb_latency_max hb, q_hb_latency_min := hb_latency_min hb\<rparr>;
          l2 = (if q_hb_latency_max l1 \<noteq> - 1 \<and> (word_of_int (q_hb_latency_max l1) :: u32) > q_T1 l1 div 2
                then l1\<lparr>q_hb_approaching_timeout := True\<rparr> else l1);
          l3 = for_hosts (num_host c) (ql_hb_host c now hb) l2
      in ql_upd_host (my_index c) (\<lambda>h. h\<lparr>q_hb_list_on_sf := ql_row (num_host c) (hb_hbdomain hb),
           q_hb_list_on_hb := ql_row (num_host c) (hb_hbdomain hb)\<rparr>) l3)"

text \<open>
  The part of one host that comes from the State-File. The update time is unsigned, so the
  test \<open>>= 0\<close> holds also for a host that has never written.
\<close>

definition ql_sf_host :: "ha_config \<Rightarrow> clock \<Rightarrow> com_data_sf \<Rightarrow> nat \<Rightarrow> query_liveset \<Rightarrow> query_liveset" where
  "ql_sf_host c now sf i l =
     (let live = q_liveness (q_host l i);
          acc = (if live then (if q_sf_lost l then (if i = my_index c then sf_access sf else q_sf_list_on_hb (q_host l i) i)
                               else True)
                 else False);
          upd = (if sf_time_last_SF sf i < 0 then - 1 else word_of_int (now - sf_time_last_SF sf i));
          l1 = ql_upd_host i (\<lambda>h. h\<lparr>q_master := (sf_master sf = q_host_id h), q_sf_access := acc,
                 q_excluded := hm_ison (sf_excluded sf) i, q_time_since_last_update_on_sf := upd\<rparr>) l;
          seen = hm_ison (sf_sfdomain sf) i;
          l2 = (if live \<and> i \<noteq> my_index c
                then ql_upd_host i (\<lambda>h. h\<lparr>q_hb_list_on_sf := (if seen then ql_row (num_host c) (raw_hbdomain (sf_raw sf i))
                                                               else (\<lambda>hi. \<not> hi < num_host c \<and> q_hb_list_on_sf h hi)),
                       q_sf_list_on_sf := (if seen then ql_row (num_host c) (raw_sfdomain (sf_raw sf i))
                                           else (\<lambda>hi. \<not> hi < num_host c \<and> q_sf_list_on_sf h hi))\<rparr>) l1
                else l1)
      in (if live \<and> \<not> q_sf_lost l \<and> upd > q_T2 l div 2 then l2\<lparr>q_sf_approaching_timeout := True\<rparr> else l2))"

definition ql_fill_sf :: "ha_config \<Rightarrow> clock \<Rightarrow> com_data_sf \<Rightarrow> query_liveset \<Rightarrow> query_liveset" where
  "ql_fill_sf c now sf l =
     (let l1 = l\<lparr>q_sf_latency := sf_latency sf, q_sf_latency_max := sf_latency_max sf, q_sf_latency_min := sf_latency_min sf\<rparr>;
          l2 = (if \<not> q_sf_lost l1 \<and> q_sf_latency_max l1 \<ge> 0 \<and> (word_of_int (q_sf_latency_max l1) :: u32) > q_T2 l1 div 2
                then l1\<lparr>q_sf_approaching_timeout := True\<rparr> else l1);
          l3 = for_hosts (num_host c) (ql_sf_host c now sf) l2
      in ql_upd_host (my_index c) (\<lambda>h. h\<lparr>q_sf_list_on_sf := ql_row (num_host c) (sf_sfdomain sf),
           q_sf_list_on_hb := ql_row (num_host c) (sf_sfdomain sf), q_sf_corrupted := sf_corrupted sf\<rparr>) l3)"

definition ql_fill_xapimon :: "ha_config \<Rightarrow> clock \<Rightarrow> com_data_xapimon \<Rightarrow> query_liveset \<Rightarrow> query_liveset" where
  "ql_fill_xapimon c now x l =
     (let l1 = l\<lparr>q_xapi_latency := xm_latency x, q_xapi_latency_max := xm_latency_max x, q_xapi_latency_min := xm_latency_min x\<rparr>;
          slow = (q_xapi_latency_max l1 \<ge> 0 \<and> (word_of_int (q_xapi_latency_max l1) :: u32) > q_T3 l1 div 2)
               \<or> (xm_time_healthcheck_start x \<ge> 0 \<and> now - xm_time_healthcheck_start x \<ge> uint (q_T3 l1 div 2));
          l2 = (if slow then l1\<lparr>q_xapi_approaching_timeout := True\<rparr> else l1)
      in ql_upd_host (my_index c) (\<lambda>h. h\<lparr>q_xapi_err_string := xm_err_string x,
           q_time_since_xapi_restart := (if xm_time_Xapi_restart x < 0 then - 1
                                         else word_of_int (now - xm_time_Xapi_restart x))\<rparr>) l2)"

definition ql_fill_bm :: "com_data_bm \<Rightarrow> query_liveset \<Rightarrow> query_liveset" where
  "ql_fill_bm bm l = l\<lparr>q_bonding_error :=
     (bm_mtc_bond_status bm = BOND_STATUS_ERR \<or> bm_mtc_bond_status bm = BOND_STATUS_DEGRADED)\<rparr>"

text \<open>The latencies are reset when the host is online, and the warnings go back to the state manager.\<close>

definition ql_reset_hb :: "bool \<Rightarrow> sc_state \<Rightarrow> sc_state" where
  "ql_reset_hb online = sc_upd (with_hb False (\<lambda>h. if online then h\<lparr>hb_latency_max := - 1, hb_latency_min := - 1\<rparr> else h))"

definition ql_reset_sf :: "bool \<Rightarrow> sc_state \<Rightarrow> sc_state" where
  "ql_reset_sf online = sc_upd (with_sf False (\<lambda>f. if online then f\<lparr>sf_latency_max := - 1, sf_latency_min := - 1\<rparr> else f))"

definition ql_reset_xapimon :: "bool \<Rightarrow> sc_state \<Rightarrow> sc_state" where
  "ql_reset_xapimon online = sc_upd (upd_xm (\<lambda>x. if online then x\<lparr>xm_latency_max := - 1, xm_latency_min := - 1\<rparr> else x))"

definition ql_write_back :: "query_liveset \<Rightarrow> sc_state \<Rightarrow> sc_state" where
  "ql_write_back l = sc_upd (with_sm False (\<lambda>m. m\<lparr>sm_hb_approaching_timeout := q_hb_approaching_timeout l,
     sm_sf_approaching_timeout := q_sf_approaching_timeout l, sm_xapi_approaching_timeout := q_xapi_approaching_timeout l\<rparr>))"

text \<open>
  The whole service: six critical sections, on the objects of the state manager, the heartbeat, the
  State-File, the Xapi monitor, the bond monitor and again the state manager. The report is not a
  snapshot: every object is read as the other threads have left it by then.
\<close>

definition script_service_do_query_liveset :: "ha_config \<Rightarrow> clock \<Rightarrow> sc_gap \<Rightarrow> nat \<Rightarrow> sc_state \<Rightarrow> sc_result" where
  "script_service_do_query_liveset c now gap res_len s =
     (if res_len < sizeof_query_liveset then Inl Aborted
      else
       (let l1 = ql_fill_sm c (d_sm (sc_d s)) (ql_fill_conf c);
            online = (q_status l1 = LIVESET_STATUS_ONLINE);
            s1 = gap 0 s;
            l2 = ql_fill_hb c now (d_hb (sc_d s1)) l1;
            s2 = gap 1 (ql_reset_hb online s1);
            l3 = ql_fill_sf c now (d_sf (sc_d s2)) l2;
            s3 = gap 2 (ql_reset_sf online s2);
            l4 = ql_fill_xapimon c now (d_xm (sc_d s3)) l3;
            s4 = gap 3 (ql_reset_xapimon online s3);
            l5 = ql_fill_bm (sc_bm s4) l4;
            s5 = gap 4 s4
        in Inr (MTC_SUCCESS, sizeof_query_liveset, ResLiveset l5, ql_write_back l5 s5)))"

section \<open>The master lock\<close>

text \<open>
  The events are what the other threads do while the service waits. A service that has to
  wait for more than they bring is \<open>Waiting\<close>.
\<close>

type_synonym sc_events = "(daemon \<Rightarrow> daemon) list"

definition script_service_do_propose_master :: "ha_config \<Rightarrow> (nat \<Rightarrow> clock) \<Rightarrow> sc_gap \<Rightarrow> sc_events \<Rightarrow> nat \<Rightarrow> sc_state
  \<Rightarrow> sc_result" where
  "script_service_do_propose_master c now gap evs res_len s =
     (if res_len < sizeof_propose_master then Inl Aborted
      else if get_hoststate (sc_d s) \<noteq> LIVESET_STATUS_ONLINE
      then Inr (MTC_SUCCESS, sizeof_propose_master, ResMaster MTC_ERROR_SC_INVALID_LOCALHOST_STATE False, s)
      else (case lm_request_lock c (my_UUID c) now evs (sc_d (gap 0 s)) of
              None \<Rightarrow> Inl Waiting
            | Some (accepted, d1) \<Rightarrow>
                Inr (MTC_SUCCESS, sizeof_propose_master, ResMaster MTC_SUCCESS accepted, (gap 0 s)\<lparr>sc_d := d1\<rparr>)))"

definition script_service_do_cancel_master :: "sc_gap \<Rightarrow> sc_events \<Rightarrow> nat \<Rightarrow> sc_state \<Rightarrow> sc_result" where
  "script_service_do_cancel_master gap evs res_len s =
     (if res_len < sizeof_u32 then Inl Aborted
      else if get_hoststate (sc_d s) \<noteq> LIVESET_STATUS_ONLINE
      then Inr (MTC_SUCCESS, sizeof_u32, ResRetval MTC_ERROR_SC_INVALID_LOCALHOST_STATE, s)
      else (case lm_cancel_lock evs (sc_d (gap 0 s)) of
              None \<Rightarrow> Inl Waiting
            | Some d1 \<Rightarrow> Inr (MTC_SUCCESS, sizeof_u32, ResRetval MTC_SUCCESS, (gap 0 s)\<lparr>sc_d := d1\<rparr>)))"

section \<open>Disarming\<close>

definition disarm_request :: "fencing_mode \<Rightarrow> fencing_mode" where
  "disarm_request f = (if f = FENCING_ARMED \<or> f = FENCING_NONE then FENCING_DISARM_REQUESTED else f)"

text \<open>One request: the writer section on the object, whose release runs the callbacks that disarm.\<close>

definition request_disarm_sm :: "sc_state \<Rightarrow> sc_state" where
  "request_disarm_sm = sc_upd (with_sm False (\<lambda>m. m\<lparr>sm_fencing := disarm_request (sm_fencing m)\<rparr>))"

definition request_disarm_hb :: "sc_state \<Rightarrow> sc_state" where
  "request_disarm_hb = sc_upd (with_hb False (\<lambda>h. h\<lparr>hb_fencing := disarm_request (hb_fencing h)\<rparr>))"

definition request_disarm_sf :: "sc_state \<Rightarrow> sc_state" where
  "request_disarm_sf = sc_upd (with_sf False (\<lambda>f. f\<lparr>sf_fencing := disarm_request (sf_fencing f)\<rparr>))"

text \<open>One of the three loops that wait for an object; an event stands for what happens in a \<open>sleep\<close>.\<close>

fun wait_disarmed :: "(daemon \<Rightarrow> fencing_mode) \<Rightarrow> sc_events \<Rightarrow> sc_state \<Rightarrow> (sc_events \<times> sc_state) option" where
  "wait_disarmed fencing [] s = (if fencing (sc_d s) = FENCING_DISARMED then Some ([], s) else None)"
| "wait_disarmed fencing (e # es) s =
     (if fencing (sc_d s) = FENCING_DISARMED then Some (e # es, s) else wait_disarmed fencing es (sc_upd e s))"

definition script_service_do_disarm_fencing :: "sc_gap \<Rightarrow> sc_events \<Rightarrow> nat \<Rightarrow> sc_state \<Rightarrow> sc_result" where
  "script_service_do_disarm_fencing gap evs res_len s =
     (if res_len < sizeof_u32 then Inl Aborted
      else if get_hoststate (sc_d s) \<noteq> LIVESET_STATUS_ONLINE
      then Inr (MTC_SUCCESS, sizeof_u32, ResRetval MTC_ERROR_SC_INVALID_LOCALHOST_STATE, s)
      else
        (let s1 = gap 1 (request_disarm_sm (gap 0 s));
             s2 = gap 2 (request_disarm_hb s1);
             s3 = gap 3 (request_disarm_sf s2)
         in (case wait_disarmed (\<lambda>d. sm_fencing (d_sm d)) evs s3 of
               None \<Rightarrow> Inl Waiting
             | Some (evs1, s4) \<Rightarrow> (case wait_disarmed (\<lambda>d. hb_fencing (d_hb d)) evs1 (gap 4 s4) of
                 None \<Rightarrow> Inl Waiting
               | Some (evs2, s5) \<Rightarrow> (case wait_disarmed (\<lambda>d. sf_fencing (d_sf d)) evs2 (gap 5 s5) of
                   None \<Rightarrow> Inl Waiting
                 | Some (evs3, s6) \<Rightarrow> Inr (MTC_SUCCESS, sizeof_u32, ResRetval MTC_SUCCESS, s6))))))"

section \<open>The pool state and the excluded flag\<close>

text \<open>
  The wait for the write: it ends when the stamp of the local host in the State-File object is
  later than the request, or when access is lost.
\<close>

fun wait_written :: "ha_config \<Rightarrow> clock \<Rightarrow> sc_events \<Rightarrow> daemon \<Rightarrow> (mtc_status \<times> daemon) option" where
  "wait_written c time_start [] d =
     (if \<not> sf_access (d_sf d) then Some (MTC_ERROR_SC_STATEFILE_ACCESS, d)
      else if sf_time_last_SF (d_sf d) (my_index c) > time_start then Some (MTC_SUCCESS, d) else None)"
| "wait_written c time_start (e # es) d =
     (if \<not> sf_access (d_sf d) then Some (MTC_ERROR_SC_STATEFILE_ACCESS, d)
      else if sf_time_last_SF (d_sf d) (my_index c) > time_start then Some (MTC_SUCCESS, d)
      else wait_written c time_start es (e d))"

definition script_service_do_set_pool_state :: "ha_config \<Rightarrow> clock \<Rightarrow> sc_gap \<Rightarrow> sc_events \<Rightarrow> nat \<Rightarrow> u8 list \<Rightarrow> nat \<Rightarrow> sc_state
  \<Rightarrow> sc_result" where
  "script_service_do_set_pool_state c time_start gap evs req_len req_body res_len s =
     (if req_len < sizeof_u32 then Inl Aborted
      else if res_len < sizeof_u32 then Inl Aborted
      else if \<not> sf_access (d_sf (sc_d s))
      then Inr (MTC_SUCCESS, sizeof_u32, ResRetval MTC_ERROR_SC_STATEFILE_ACCESS, s)
      else (let s1 = gap 1 (sc_upd (sf_set_pool_state False (u32_body req_body)) (gap 0 s))
            in case wait_written c time_start evs (sc_d s1) of
              None \<Rightarrow> Inl Waiting
            | Some (retval, d1) \<Rightarrow> Inr (MTC_SUCCESS, sizeof_u32, ResRetval retval, s1\<lparr>sc_d := d1\<rparr>)))"

definition do_set_clear_excluded_sub :: "ha_config \<Rightarrow> clock \<Rightarrow> sc_gap \<Rightarrow> sc_events \<Rightarrow> bool \<Rightarrow> sc_state
  \<Rightarrow> (mtc_status \<times> sc_state) option" where
  "do_set_clear_excluded_sub c time_start gap evs flag s =
     (if \<not> sf_access (d_sf (sc_d s)) then Some (MTC_ERROR_SC_STATEFILE_ACCESS, s)
      else if sf_pool_state (d_sf (sc_d s)) \<noteq> SF_STATE_ACTIVE then Some (MTC_ERROR_SC_INVALID_POOL_STATE, s)
      else (let s1 = gap 1 (sc_upd (sf_set_excluded c False flag) (gap 0 s))
            in map_option (\<lambda>(retval, d1). (retval, s1\<lparr>sc_d := d1\<rparr>)) (wait_written c time_start evs (sc_d s1))))"

text \<open>\<open>set_excluded\<close> and \<open>clear_excluded\<close> differ in the flag.\<close>

definition do_excluded :: "ha_config \<Rightarrow> clock \<Rightarrow> sc_gap \<Rightarrow> sc_events \<Rightarrow> bool \<Rightarrow> nat \<Rightarrow> sc_state \<Rightarrow> sc_result" where
  "do_excluded c time_start gap evs flag res_len s =
     (if res_len < sizeof_u32 then Inl Aborted
      else (case do_set_clear_excluded_sub c time_start gap evs flag s of
              None \<Rightarrow> Inl Waiting
            | Some (retval, s1) \<Rightarrow> Inr (MTC_SUCCESS, sizeof_u32, ResRetval retval, s1)))"

definition script_service_do_set_excluded :: "ha_config \<Rightarrow> clock \<Rightarrow> sc_gap \<Rightarrow> sc_events \<Rightarrow> nat \<Rightarrow> sc_state
  \<Rightarrow> sc_result" where
  "script_service_do_set_excluded c time_start gap evs = do_excluded c time_start gap evs True"

definition script_service_do_clear_excluded :: "ha_config \<Rightarrow> clock \<Rightarrow> sc_gap \<Rightarrow> sc_events \<Rightarrow> nat \<Rightarrow> sc_state
  \<Rightarrow> sc_result" where
  "script_service_do_clear_excluded c time_start gap evs = do_excluded c time_start gap evs False"

text \<open>
  After the response of a successful \<open>set_excluded\<close> the daemon exits at once and leaves its
  watchdogs running.
\<close>

definition script_service_check_after_set_excluded :: "u32 \<Rightarrow> nat \<Rightarrow> sc_response \<Rightarrow> bool" where
  "script_service_check_after_set_excluded ty res_len res_body \<longleftrightarrow>
     ty = 5 \<and> \<not> res_len < sizeof_u32 \<and> res_body = ResRetval MTC_SUCCESS"

section \<open>The simple services\<close>

definition script_service_do_pid :: "int \<Rightarrow> nat \<Rightarrow> sc_state \<Rightarrow> sc_result" where
  "script_service_do_pid pid res_len s =
     (if res_len < sizeof_u32 then Inl Aborted
      else Inr (MTC_SUCCESS, sizeof_u32, ResPid pid, s))"

definition script_service_do_hoststate :: "nat \<Rightarrow> sc_state \<Rightarrow> sc_result" where
  "script_service_do_hoststate res_len s =
     (if res_len < sizeof_u32 then Inl Aborted
      else Inr (MTC_SUCCESS, sizeof_u32, ResHoststate (get_hoststate (sc_d s)), s))"

definition script_service_do_getlogmask :: "nat \<Rightarrow> sc_state \<Rightarrow> sc_result" where
  "script_service_do_getlogmask res_len s =
     (if res_len < sizeof_u32 then Inl Aborted
      else Inr (MTC_SUCCESS, sizeof_u32, ResLogmask (sc_logmask s), s))"

definition script_service_do_setlogmask :: "nat \<Rightarrow> u8 list \<Rightarrow> nat \<Rightarrow> sc_state \<Rightarrow> sc_result" where
  "script_service_do_setlogmask req_len req_body res_len s =
     (if req_len < sizeof_u32 \<or> res_len < sizeof_u32 then Inl Aborted
      else (let m = sc_logmask s OR u32_body req_body
            in Inr (MTC_SUCCESS, sizeof_u32, ResLogmask m, s\<lparr>sc_logmask := m\<rparr>)))"

definition script_service_do_resetlogmask :: "nat \<Rightarrow> u8 list \<Rightarrow> nat \<Rightarrow> sc_state \<Rightarrow> sc_result" where
  "script_service_do_resetlogmask req_len req_body res_len s =
     (if req_len < sizeof_u32 \<or> res_len < sizeof_u32 then Inl Aborted
      else (let m = sc_logmask s AND NOT (u32_body req_body)
            in Inr (MTC_SUCCESS, sizeof_u32, ResLogmask m, s\<lparr>sc_logmask := m\<rparr>)))"

abbreviation "PRIVATELOG_CMD_NONE \<equiv> (0 :: u32)"
abbreviation "PRIVATELOG_CMD_ENABLE \<equiv> (1 :: u32)"
abbreviation "PRIVATELOG_CMD_DISABLE \<equiv> (2 :: u32)"

definition script_service_do_privatelog :: "nat \<Rightarrow> u8 list \<Rightarrow> nat \<Rightarrow> sc_state \<Rightarrow> sc_result" where
  "script_service_do_privatelog req_len req_body res_len s =
     (if req_len < sizeof_u32 \<or> res_len < sizeof_u32 then Inl Aborted
      else (let cmd = u32_body req_body;
                flag = (if cmd = PRIVATELOG_CMD_ENABLE then True
                        else if cmd = PRIVATELOG_CMD_DISABLE then False else sc_privatelogflag s)
            in Inr (MTC_SUCCESS, sizeof_u32, ResPrivatelog flag, s\<lparr>sc_privatelogflag := flag\<rparr>)))"

text \<open>\<open>dump\<close> is \<open>com_log_all_objects\<close>, which writes to the log only.\<close>

definition script_service_do_dumpcom :: "(u32 \<Rightarrow> mtc_status) \<Rightarrow> nat \<Rightarrow> u8 list \<Rightarrow> nat \<Rightarrow> sc_state \<Rightarrow> sc_result" where
  "script_service_do_dumpcom dump req_len req_body res_len s =
     (if req_len < sizeof_u32 \<or> res_len < sizeof_u32 then Inl Aborted
      else Inr (MTC_SUCCESS, sizeof_u32, ResRetval (dump (u32_body req_body)), s))"

text \<open>The build date and id are constants of the build.\<close>

definition script_service_do_buildid :: "string \<Rightarrow> string \<Rightarrow> nat \<Rightarrow> sc_state \<Rightarrow> sc_result" where
  "script_service_do_buildid build_date build_id res_len s =
     (if res_len < sizeof_buildid then Inl Aborted
      else Inr (MTC_SUCCESS, sizeof_buildid, ResBuildid (copy_field 64 build_date) (copy_field 64 build_id), s))"

definition script_service_do_fist :: "nat \<Rightarrow> u8 list \<Rightarrow> nat \<Rightarrow> sc_state \<Rightarrow> sc_result" where
  "script_service_do_fist req_len req_body res_len s =
     (if req_len < sizeof_request_fist \<or> res_len < sizeof_u32 then Inl Aborted
      else (case fist_set (fist_name_body req_body) (req_body ! 64 \<noteq> 0) (d_fist (sc_d s)) of
              Inl _ \<Rightarrow> Inr (MTC_SUCCESS, sizeof_u32, ResRetval MTC_ERROR_INVALID_PARAMETER, s)
            | Inr tab \<Rightarrow> Inr (MTC_SUCCESS, sizeof_u32, ResRetval MTC_SUCCESS, sc_upd (\<lambda>d. d\<lparr>d_fist := tab\<rparr>) s)))"

text \<open>\<open>opened\<close> and \<open>reads\<close> are what the weight file answers.\<close>

definition script_service_do_reload_host_weight :: "mtc_status \<Rightarrow> string option list \<Rightarrow> nat \<Rightarrow> sc_state \<Rightarrow> sc_result" where
  "script_service_do_reload_host_weight opened reads res_len s =
     (if res_len < sizeof_u32 then Inl Aborted
      else (case hostweight_reload opened reads (sc_hw s, sc_d s) of (rs, v, d1) \<Rightarrow>
              Inr (MTC_SUCCESS, sizeof_u32, ResRetval rs, s\<lparr>sc_hw := v, sc_d := d1\<rparr>)))"

end
