(* ===== verification/ScServer.thy ===== *)
theory ScServer
  imports ScFunc
begin

text \<open>
  The server behind the three sockets of the daemon: \<^verbatim>\<open>daemon/sc_sv.c\<close>. One
  connection is a list of answers of \<open>read\<close> and one of \<open>write\<close>; a timeout or a
  failure of \<open>select\<close> counts as a failed read or write.
\<close>

section \<open>Heads\<close>

record sc_head =
  hd_magic :: u32
  hd_response :: u32
  hd_type :: u32
  hd_length :: u32

definition SCRIPT_MAGIC :: u32 where "SCRIPT_MAGIC = 0xFAFBFCFD"
definition SCRIPT_TYPE_NUM :: nat where "SCRIPT_TYPE_NUM = 18"
definition SCRIPT_SOCKET_NUM :: nat where "SCRIPT_SOCKET_NUM = 3"
definition sizeof_head :: nat where "sizeof_head = 16"

text \<open>The bodies are unions of the structures, as large as the largest and aligned to four.\<close>

definition sizeof_request_body :: nat where "sizeof_request_body = 68"
definition sizeof_response_body :: nat where "sizeof_response_body = sizeof_query_liveset"

definition head_of_bytes :: "u8 list \<Rightarrow> sc_head" where
  "head_of_bytes bs = \<lparr>hd_magic = u32_body bs, hd_response = u32_body (drop 4 bs), hd_type = u32_body (drop 8 bs),
     hd_length = u32_body (drop 12 bs)\<rparr>"

definition check_head_valid :: "sc_head \<Rightarrow> mtc_status" where
  "check_head_valid head =
     (if hd_magic head \<noteq> SCRIPT_MAGIC then MTC_ERROR_SC_IMPROPER_DATA
      else if hd_response head \<noteq> 0 then MTC_ERROR_SC_IMPROPER_DATA
      else if unat (hd_type head) \<ge> SCRIPT_TYPE_NUM then MTC_ERROR_SC_IMPROPER_DATA
      else if unat (hd_length head) > sizeof_request_body then MTC_ERROR_SC_IMPROPER_DATA
      else MTC_SUCCESS)"

section \<open>Services and sockets\<close>

datatype service =
  QueryLiveset | ProposeMaster | DisarmFencing | SetPoolState | SetExcluded | ClearExcluded | Pid | Hoststate
| CancelMaster | Getlogmask | Setlogmask | Resetlogmask | Dumpcom | Buildid | Privatelog | FistService | ReloadHostWeight

text \<open>
  The two tables, one line per type from 0: the socket (\<open>0xffff\<close> for none) and the
  service.
\<close>

definition script_socket_table :: "(nat \<times> nat) list" where
  "script_socket_table =
     [(0, 0xffff), (1, 1), (2, 0), (3, 0), (4, 0), (5, 0), (6, 0), (7, 2), (8, 1), (9, 0), (10, 2), (11, 2), (12, 2),
      (13, 2), (14, 2), (15, 2), (16, 2), (17, 2)]"

definition script_func_table :: "(nat \<times> service option) list" where
  "script_func_table =
     [(0, None), (1, Some QueryLiveset), (2, Some ProposeMaster), (3, Some DisarmFencing), (4, Some SetPoolState),
      (5, Some SetExcluded), (6, Some ClearExcluded), (7, Some Pid), (8, Some Hoststate), (9, Some CancelMaster),
      (10, Some Getlogmask), (11, Some Setlogmask), (12, Some Resetlogmask), (13, Some Dumpcom), (14, Some Buildid),
      (15, Some Privatelog), (16, Some FistService), (17, Some ReloadHostWeight)]"

definition type_to_socket_index :: "nat \<Rightarrow> nat" where
  "type_to_socket_index ty = (case map_of script_socket_table ty of Some i \<Rightarrow> i | None \<Rightarrow> 0)"

definition type_to_func :: "nat \<Rightarrow> service option" where
  "type_to_func ty = (case map_of script_func_table ty of Some f \<Rightarrow> f | None \<Rightarrow> None)"

text \<open>The table of the thread of a socket, as \<open>create_threads\<close> fills it.\<close>

definition thread_func :: "nat \<Rightarrow> nat \<Rightarrow> service option" where
  "thread_func sock_index ty = (if type_to_socket_index ty = sock_index then type_to_func ty else None)"

text \<open>What the services meet outside: the clock, the other threads, and the weight file.\<close>

record sc_env =
  se_now :: clock
  se_pass :: "nat \<Rightarrow> clock"
  se_events :: sc_events
  se_gap :: sc_gap
  se_pid :: int
  se_dump :: "u32 \<Rightarrow> mtc_status"
  se_build_date :: string
  se_build_id :: string
  se_weight_opened :: mtc_status
  se_weight_reads :: "string option list"

fun call_service :: "ha_config \<Rightarrow> sc_env \<Rightarrow> service \<Rightarrow> nat \<Rightarrow> u8 list \<Rightarrow> nat \<Rightarrow> sc_state \<Rightarrow> sc_result" where
  "call_service c e QueryLiveset req_len body res_len s = script_service_do_query_liveset c (se_now e) (se_gap e) res_len s"
| "call_service c e ProposeMaster req_len body res_len s =
     script_service_do_propose_master c (se_pass e) (se_gap e) (se_events e) res_len s"
| "call_service c e DisarmFencing req_len body res_len s = script_service_do_disarm_fencing (se_gap e) (se_events e) res_len s"
| "call_service c e SetPoolState req_len body res_len s =
     script_service_do_set_pool_state c (se_now e) (se_gap e) (se_events e) req_len body res_len s"
| "call_service c e SetExcluded req_len body res_len s = script_service_do_set_excluded c (se_now e) (se_gap e) (se_events e) res_len s"
| "call_service c e ClearExcluded req_len body res_len s = script_service_do_clear_excluded c (se_now e) (se_gap e) (se_events e) res_len s"
| "call_service c e Pid req_len body res_len s = script_service_do_pid (se_pid e) res_len s"
| "call_service c e Hoststate req_len body res_len s = script_service_do_hoststate res_len s"
| "call_service c e CancelMaster req_len body res_len s = script_service_do_cancel_master (se_gap e) (se_events e) res_len s"
| "call_service c e Getlogmask req_len body res_len s = script_service_do_getlogmask res_len s"
| "call_service c e Setlogmask req_len body res_len s = script_service_do_setlogmask req_len body res_len s"
| "call_service c e Resetlogmask req_len body res_len s = script_service_do_resetlogmask req_len body res_len s"
| "call_service c e Dumpcom req_len body res_len s = script_service_do_dumpcom (se_dump e) req_len body res_len s"
| "call_service c e Buildid req_len body res_len s =
     script_service_do_buildid (se_build_date e) (se_build_id e) res_len s"
| "call_service c e Privatelog req_len body res_len s = script_service_do_privatelog req_len body res_len s"
| "call_service c e FistService req_len body res_len s = script_service_do_fist req_len body res_len s"
| "call_service c e ReloadHostWeight req_len body res_len s =
     script_service_do_reload_host_weight (se_weight_opened e) (se_weight_reads e) res_len s"

section \<open>One connection\<close>

text \<open>
  The loops around \<open>read\<close> and \<open>write\<close>. An answer list that ends stands for a peer
  that has nothing more to say, which the timeout of \<open>select\<close> turns into a failure.
\<close>

fun read_full :: "u8 list option list \<Rightarrow> nat \<Rightarrow> u8 list \<Rightarrow> (u8 list \<times> u8 list option list) option" where
  "read_full [] sz got = (if sz \<le> length got then Some (got, []) else None)"
| "read_full (r # rs) sz got =
     (if sz \<le> length got then Some (got, r # rs)
      else (case r of
              None \<Rightarrow> None
            | Some bs \<Rightarrow> (let part = take (sz - length got) bs
                          in if part = [] then None else read_full rs sz (got @ part))))"

fun write_full :: "nat option list \<Rightarrow> nat \<Rightarrow> bool" where
  "write_full [] sz = (sz = 0)"
| "write_full (w # ws) sz =
     (if sz = 0 then True else (case w of None \<Rightarrow> False | Some n \<Rightarrow> if n = 0 then False else write_full ws (sz - n)))"

text \<open>
  How a connection ends: closed without an answer, with the daemon aborted by a failed assertion,
  with an answer that could not be written, or answered; the last flag says that the daemon exits.
  \<open>None\<close> is a service that waits for ever.
\<close>

datatype served = Closed | Crashed | Unwritten sc_head sc_response | Answered sc_head sc_response bool

definition serve_request :: "ha_config \<Rightarrow> sc_env \<Rightarrow> nat \<Rightarrow> sc_head \<Rightarrow> u8 list \<Rightarrow> nat option list \<Rightarrow> sc_state
  \<Rightarrow> (served \<times> sc_state) option" where
  "serve_request c e sock head body writes s =
     (case thread_func sock (unat (hd_type head)) of
        None \<Rightarrow> Some (Closed, s)
      | Some f \<Rightarrow>
          (case call_service c e f (unat (hd_length head)) body sizeof_response_body s of
             Inl Waiting \<Rightarrow> None
           | Inl Aborted \<Rightarrow> Some (Crashed, s)
           | Inr (ret, len, res, s1) \<Rightarrow>
               if ret \<noteq> MTC_SUCCESS then Some (Closed, s1)
               else
                 (let rhead = \<lparr>hd_magic = SCRIPT_MAGIC, hd_response = 1, hd_type = hd_type head, hd_length = of_nat len\<rparr>
                  in if \<not> write_full writes (sizeof_head + len) then Some (Unwritten rhead res, s1)
                     else Some (Answered rhead res (script_service_check_after_set_excluded (hd_type head) len res), s1))))"

text \<open>The body is read over a zeroed buffer of the size of the union.\<close>

definition serve_connection :: "ha_config \<Rightarrow> sc_env \<Rightarrow> nat \<Rightarrow> u8 list option list \<Rightarrow> nat option list \<Rightarrow> sc_state
  \<Rightarrow> (served \<times> sc_state) option" where
  "serve_connection c e sock reads writes s =
     (case read_full reads sizeof_head [] of
        None \<Rightarrow> Some (Closed, s)
      | Some (hbytes, rs) \<Rightarrow>
          let head = head_of_bytes hbytes in
          if check_head_valid head \<noteq> MTC_SUCCESS then Some (Closed, s)
          else (case read_full rs (unat (hd_length head)) [] of
                  None \<Rightarrow> Some (Closed, s)
                | Some (body, _) \<Rightarrow>
                    serve_request c e sock head (body @ replicate (sizeof_request_body - length body) 0) writes s))"

end
