(* ===== verification/ScProps.thy ===== *)
theory ScProps
  imports ScServer
begin

text \<open>
  What the services promise to the commands: disarming leaves nothing that could reset the
  host, and the server answers a request with the structure its type asks for, or is aborted by it.
\<close>

section \<open>Disarming\<close>

lemma disarm_request_disarms: "disarm_request f = FENCING_DISARM_REQUESTED \<or> disarm_request f = FENCING_DISARMED"
  by (cases f) (simp_all add: disarm_request_def)

lemma wait_disarmed_at_once: "fencing (sc_d s) = FENCING_DISARMED \<Longrightarrow> wait_disarmed fencing es s = Some (es, s)"
  by (cases es) simp_all

text \<open>
  What a disarmed object implies: the static copy of the state manager is disarmed, the thread of the
  heartbeat or of the State-File has no watchdog. A step of another thread keeps the daemon
  disarmed when it arms no object again, leaves no disarmed object with a watchdog, and opens none
  behind one.
\<close>

definition sm_safe :: "daemon \<Rightarrow> bool" where
  "sm_safe d \<longleftrightarrow> (sm_fencing (d_sm d) = FENCING_DISARMED \<longrightarrow> smv_fencing (d_smv d) = FENCING_DISARMED)"

definition hb_safe :: "daemon \<Rightarrow> bool" where
  "hb_safe d \<longleftrightarrow> (hb_fencing (d_hb d) = FENCING_DISARMED \<longrightarrow> hbv_watchdog (d_hbv d) = None)"

definition sf_safe :: "daemon \<Rightarrow> bool" where
  "sf_safe d \<longleftrightarrow> (sf_fencing (d_sf d) = FENCING_DISARMED \<longrightarrow> sfv_watchdog (d_sfv d) = None)"

definition keeps_disarmed :: "(sc_state \<Rightarrow> sc_state) \<Rightarrow> bool" where
  "keeps_disarmed g \<longleftrightarrow> (\<forall>s. let d = sc_d s; d' = sc_d (g s) in
     (sm_fencing (d_sm d) = FENCING_DISARMED \<longrightarrow> sm_fencing (d_sm d') = FENCING_DISARMED)
   \<and> (hb_fencing (d_hb d) = FENCING_DISARMED \<longrightarrow> hb_fencing (d_hb d') = FENCING_DISARMED)
   \<and> (sf_fencing (d_sf d) = FENCING_DISARMED \<longrightarrow> sf_fencing (d_sf d') = FENCING_DISARMED)
   \<and> (sm_safe d \<longrightarrow> sm_safe d') \<and> (hb_safe d \<longrightarrow> hb_safe d') \<and> (sf_safe d \<longrightarrow> sf_safe d'))"

lemma keeps_disarmedD:
  assumes "keeps_disarmed g"
  shows "sm_fencing (d_sm (sc_d s)) = FENCING_DISARMED \<Longrightarrow> sm_fencing (d_sm (sc_d (g s))) = FENCING_DISARMED"
    "hb_fencing (d_hb (sc_d s)) = FENCING_DISARMED \<Longrightarrow> hb_fencing (d_hb (sc_d (g s))) = FENCING_DISARMED"
    "sf_fencing (d_sf (sc_d s)) = FENCING_DISARMED \<Longrightarrow> sf_fencing (d_sf (sc_d (g s))) = FENCING_DISARMED"
    "sm_safe (sc_d s) \<Longrightarrow> sm_safe (sc_d (g s))"
    "hb_safe (sc_d s) \<Longrightarrow> hb_safe (sc_d (g s))"
    "sf_safe (sc_d s) \<Longrightarrow> sf_safe (sc_d (g s))"
  using assms by (simp_all add: keeps_disarmed_def Let_def)

lemma keeps_disarmed_id: "keeps_disarmed (\<lambda>s. s)"
  by (simp add: keeps_disarmed_def Let_def)

lemma keeps_disarmed_comp: "keeps_disarmed f \<Longrightarrow> keeps_disarmed g \<Longrightarrow> keeps_disarmed (\<lambda>s. g (f s))"
  by (simp add: keeps_disarmed_def Let_def)

text \<open>
  The critical sections of the other threads are such steps, as long as they leave the fencing of the object
  alone or ask to disarm it.
\<close>

lemma unlock_hb_safe:
  "hb_safe (unlock_hb b (upd_hb f d))" if "hb_safe d" and "\<And>h. hb_fencing (f h) \<in> {hb_fencing h, FENCING_DISARM_REQUESTED}"
  using that(1) that(2)[of "d_hb d"]
  by (auto simp: hb_safe_def unlock_hb_def hb_hb_updated_def sm_hb_updated_def sm_send_signals_sm_hb_sf_def Let_def
        split: fencing_mode.splits option.splits)

lemma unlock_sf_safe:
  "sf_safe (unlock_sf b (upd_sf f d))" if "sf_safe d" and "\<And>x. sf_fencing (f x) \<in> {sf_fencing x, FENCING_DISARM_REQUESTED}"
  using that(1) that(2)[of "d_sf d"]
  by (auto simp: sf_safe_def unlock_sf_def sf_sf_updated_def sm_sf_updated_def lm_sf_updated_def
        sm_send_signals_sm_hb_sf_def Let_def split: fencing_mode.splits option.splits)

lemma unlock_sm_safe:
  "sm_safe (unlock_sm b (upd_sm f d))" if "sm_safe d" and "\<And>m. sm_fencing (f m) \<in> {sm_fencing m, FENCING_DISARM_REQUESTED}"
  using that(1) that(2)[of "d_sm d"]
  by (auto simp: sm_safe_def unlock_sm_def sm_sm_updated_def lm_sm_updated_def sm_send_signals_sm_hb_sf_def Let_def)

lemma keeps_disarmed_with:
  "(\<And>m. sm_fencing (f m) \<in> {sm_fencing m, FENCING_DISARM_REQUESTED}) \<Longrightarrow> keeps_disarmed (sc_upd (with_sm b f))"
  "(\<And>h. hb_fencing (f' h) \<in> {hb_fencing h, FENCING_DISARM_REQUESTED}) \<Longrightarrow> keeps_disarmed (sc_upd (with_hb b f'))"
  "(\<And>x. sf_fencing (f'' x) \<in> {sf_fencing x, FENCING_DISARM_REQUESTED}) \<Longrightarrow> keeps_disarmed (sc_upd (with_sf b f''))"
proof -
  show "keeps_disarmed (sc_upd (with_sm b f))" if f: "\<And>m. sm_fencing (f m) \<in> {sm_fencing m, FENCING_DISARM_REQUESTED}"
  proof -
    have same: "sm_fencing (f m) \<noteq> FENCING_DISARM_REQUESTED \<Longrightarrow> sm_fencing (f m) = sm_fencing m" for m
      using f[of m] by auto
    show ?thesis
      using unlock_sm_safe[OF _ f] by (auto simp: keeps_disarmed_def Let_def with_sm_def unlock_sm_fencing hb_safe_def sf_safe_def dest: same)
  qed
  show "keeps_disarmed (sc_upd (with_hb b f'))" if f: "\<And>h. hb_fencing (f' h) \<in> {hb_fencing h, FENCING_DISARM_REQUESTED}"
  proof -
    have same: "hb_fencing (f' h) \<noteq> FENCING_DISARM_REQUESTED \<Longrightarrow> hb_fencing (f' h) = hb_fencing h" for h
      using f[of h] by auto
    show ?thesis
      using unlock_hb_safe[OF _ f] by (auto simp: keeps_disarmed_def Let_def with_hb_def unlock_hb_fencing sm_safe_def sf_safe_def dest: same)
  qed
  show "keeps_disarmed (sc_upd (with_sf b f''))" if f: "\<And>x. sf_fencing (f'' x) \<in> {sf_fencing x, FENCING_DISARM_REQUESTED}"
  proof -
    have same: "sf_fencing (f'' x) \<noteq> FENCING_DISARM_REQUESTED \<Longrightarrow> sf_fencing (f'' x) = sf_fencing x" for x
      using f[of x] by auto
    show ?thesis
      using unlock_sf_safe[OF _ f] by (auto simp: keeps_disarmed_def Let_def with_sf_def unlock_sf_fencing sm_safe_def hb_safe_def dest: same)
  qed
qed

lemma keeps_disarmed_requests:
  "keeps_disarmed request_disarm_sm" "keeps_disarmed request_disarm_hb" "keeps_disarmed request_disarm_sf"
  unfolding request_disarm_sm_def request_disarm_hb_def request_disarm_sf_def
  by (rule keeps_disarmed_with; simp add: disarm_request_def)+

lemma requests_disarm:
  "sm_fencing (d_sm (sc_d (request_disarm_sm s))) = FENCING_DISARMED"
  "hb_fencing (d_hb (sc_d (request_disarm_hb s))) = FENCING_DISARMED"
  "sf_fencing (d_sf (sc_d (request_disarm_sf s))) = FENCING_DISARMED"
  using disarm_request_disarms
  by (auto simp: request_disarm_sm_def request_disarm_hb_def request_disarm_sf_def with_sm_def with_hb_def with_sf_def
        unlock_sm_fencing unlock_hb_fencing unlock_sf_fencing)

lemma hoststate_with [simp]:
  "get_hoststate d = LIVESET_STATUS_ONLINE \<longleftrightarrow> sm_phase_of (d_sm d) \<noteq> SM_PHASE_STARTING \<and> sm_phase_of (d_sm d) \<noteq> SM_PHASE_ABORTED"
  by (simp add: get_hoststate_def)

lemma disarm_fencing_runs:
  assumes "get_hoststate (sc_d s) = LIVESET_STATUS_ONLINE" and "4 \<le> res_len" and gap: "\<And>k. keeps_disarmed (gap k)"
  shows "script_service_do_disarm_fencing gap evs res_len s = Inr (MTC_SUCCESS, 4, ResRetval MTC_SUCCESS,
      gap 5 (gap 4 (gap 3 (request_disarm_sf (gap 2 (request_disarm_hb (gap 1 (request_disarm_sm (gap 0 s)))))))))"
proof -
  note keeps = keeps_disarmedD[OF gap] keeps_disarmedD[OF keeps_disarmed_requests(1)]
    keeps_disarmedD[OF keeps_disarmed_requests(2)] keeps_disarmedD[OF keeps_disarmed_requests(3)] requests_disarm
  show ?thesis
    using assms(1,2) by (simp add: script_service_do_disarm_fencing_def Let_def sizeof_u32_def wait_disarmed_at_once keeps)
qed

text \<open>
  C14. On a host in operation \<open>disarm_fencing\<close> answers success without waiting for
  another thread, whatever the other threads do between its sections as long as they do not arm the
  host again: the three objects are disarmed when it returns, the watchdogs of the heartbeat and of
  the State-File are closed unless that object was disarmed before, and from then on the state
  manager's self-fence does nothing.
\<close>

theorem disarm_fencing_disarms:
  assumes "get_hoststate (sc_d s) = LIVESET_STATUS_ONLINE" and "4 \<le> res_len" and "\<And>k. keeps_disarmed (gap k)"
  shows "\<exists>s'. script_service_do_disarm_fencing gap evs res_len s = Inr (MTC_SUCCESS, 4, ResRetval MTC_SUCCESS, s')
    \<and> sm_fencing (d_sm (sc_d s')) = FENCING_DISARMED \<and> hb_fencing (d_hb (sc_d s')) = FENCING_DISARMED
    \<and> sf_fencing (d_sf (sc_d s')) = FENCING_DISARMED
    \<and> (hb_fencing (d_hb (sc_d s)) \<noteq> FENCING_DISARMED \<longrightarrow> hbv_watchdog (d_hbv (sc_d s')) = None)
    \<and> (sf_fencing (d_sf (sc_d s)) \<noteq> FENCING_DISARMED \<longrightarrow> sfv_watchdog (d_sfv (sc_d s')) = None)
    \<and> (sm_fencing (d_sm (sc_d s)) \<noteq> FENCING_DISARMED \<longrightarrow> (\<forall>code. self_fence code (sc_d s') = sc_d s'))"
proof -
  define s' where "s' = gap 5 (gap 4 (gap 3 (request_disarm_sf (gap 2 (request_disarm_hb (gap 1 (request_disarm_sm (gap 0 s))))))))"
  note keeps = keeps_disarmedD[OF assms(3)] keeps_disarmedD[OF keeps_disarmed_requests(1)]
    keeps_disarmedD[OF keeps_disarmed_requests(2)] keeps_disarmedD[OF keeps_disarmed_requests(3)] requests_disarm
  have fencing: "sm_fencing (d_sm (sc_d s')) = FENCING_DISARMED" "hb_fencing (d_hb (sc_d s')) = FENCING_DISARMED"
    "sf_fencing (d_sf (sc_d s')) = FENCING_DISARMED"
    by (simp_all add: s'_def keeps)
  have "hb_safe (sc_d s) \<Longrightarrow> hb_safe (sc_d s')" "sf_safe (sc_d s) \<Longrightarrow> sf_safe (sc_d s')" "sm_safe (sc_d s) \<Longrightarrow> sm_safe (sc_d s')"
    by (simp_all add: s'_def keeps)
  moreover have "script_service_do_disarm_fencing gap evs res_len s = Inr (MTC_SUCCESS, 4, ResRetval MTC_SUCCESS, s')"
    unfolding s'_def by (rule disarm_fencing_runs[OF assms])
  ultimately show ?thesis
    using fencing by (auto simp: hb_safe_def sf_safe_def sm_safe_def self_fence_def)
qed

definition ex_sc_state :: sc_state where
  "ex_sc_state = \<lparr>sc_d = upd_sm (\<lambda>m. m\<lparr>sm_phase_of := SM_PHASE_STARTED, sm_current_liveset := hm_set hm_init_reset 0\<rparr>)
       (init_daemon (default_config 2 0)),
     sc_bm = init_com_bm, sc_hw = \<lparr>hw_error_reported = False, hw_weight_table = []\<rparr>, sc_logmask = 0,
     sc_privatelogflag = False\<rparr>"

lemma ex_sc_online: "get_hoststate (sc_d ex_sc_state) = LIVESET_STATUS_ONLINE"
  by (simp add: ex_sc_state_def)

text \<open>The witness has the heartbeat thread write its latency between two sections of the service.\<close>

definition ex_gap :: sc_gap where
  "ex_gap k = sc_upd (with_hb False (\<lambda>h. h\<lparr>hb_latency := int k\<rparr>))"

lemma ex_gap_keeps: "keeps_disarmed (ex_gap k)"
  unfolding ex_gap_def by (rule keeps_disarmed_with) simp

theorem disarm_fencing_disarms_witness:
  "\<exists>s'. script_service_do_disarm_fencing ex_gap [] 4 ex_sc_state = Inr (MTC_SUCCESS, 4, ResRetval MTC_SUCCESS, s')
    \<and> hb_fencing (d_hb (sc_d s')) = FENCING_DISARMED"
  using disarm_fencing_disarms[where gap = ex_gap and evs = "[]", OF ex_sc_online _ ex_gap_keeps, of 4] by auto

lemma query_liveset_answers:
  "sizeof_query_liveset \<le> res_len \<Longrightarrow>
     \<exists>l s'. script_service_do_query_liveset c now gap res_len s = Inr (MTC_SUCCESS, sizeof_query_liveset, ResLiveset l, s')"
  by (simp add: script_service_do_query_liveset_def Let_def)

section \<open>The server\<close>

text \<open>Which structure answers a service, and its size.\<close>

fun answers :: "service \<Rightarrow> sc_response \<Rightarrow> bool" where
  "answers QueryLiveset res = (case res of ResLiveset _ \<Rightarrow> True | _ \<Rightarrow> False)"
| "answers ProposeMaster res = (case res of ResMaster _ _ \<Rightarrow> True | _ \<Rightarrow> False)"
| "answers Pid res = (case res of ResPid _ \<Rightarrow> True | _ \<Rightarrow> False)"
| "answers Hoststate res = (case res of ResHoststate _ \<Rightarrow> True | _ \<Rightarrow> False)"
| "answers Getlogmask res = (case res of ResLogmask _ \<Rightarrow> True | _ \<Rightarrow> False)"
| "answers Setlogmask res = (case res of ResLogmask _ \<Rightarrow> True | _ \<Rightarrow> False)"
| "answers Resetlogmask res = (case res of ResLogmask _ \<Rightarrow> True | _ \<Rightarrow> False)"
| "answers Privatelog res = (case res of ResPrivatelog _ \<Rightarrow> True | _ \<Rightarrow> False)"
| "answers Buildid res = (case res of ResBuildid _ _ \<Rightarrow> True | _ \<Rightarrow> False)"
| "answers _ res = (case res of ResRetval _ \<Rightarrow> True | _ \<Rightarrow> False)"

fun size_of_answer :: "sc_response \<Rightarrow> nat" where
  "size_of_answer (ResLiveset _) = sizeof_query_liveset"
| "size_of_answer (ResMaster _ _) = sizeof_propose_master"
| "size_of_answer (ResBuildid _ _) = sizeof_buildid"
| "size_of_answer ResNone = 0"
| "size_of_answer _ = sizeof_u32"

definition answer_ok :: "nat \<Rightarrow> sc_head \<Rightarrow> sc_response \<Rightarrow> bool" where
  "answer_ok sock head res \<longleftrightarrow> hd_magic head = SCRIPT_MAGIC \<and> hd_response head = 1
     \<and> (case thread_func sock (unat (hd_type head)) of None \<Rightarrow> False | Some f \<Rightarrow> answers f res)
     \<and> unat (hd_length head) = size_of_answer res \<and> size_of_answer res \<le> sizeof_response_body"

lemmas sizeof_defs = sizeof_query_liveset_def sizeof_propose_master_def sizeof_u32_def sizeof_buildid_def
  sizeof_request_fist_def sizeof_response_body_def

lemmas service_defs = script_service_do_query_liveset_def script_service_do_propose_master_def
  script_service_do_cancel_master_def script_service_do_disarm_fencing_def script_service_do_set_pool_state_def
  script_service_do_set_excluded_def script_service_do_clear_excluded_def do_excluded_def script_service_do_pid_def
  script_service_do_hoststate_def script_service_do_getlogmask_def script_service_do_setlogmask_def
  script_service_do_resetlogmask_def script_service_do_privatelog_def script_service_do_dumpcom_def
  script_service_do_buildid_def script_service_do_fist_def script_service_do_reload_host_weight_def

lemma size_fits: "size_of_answer res \<le> sizeof_response_body"
  by (cases res) (simp_all add: sizeof_defs)

text \<open>The bytes a service takes from the request.\<close>

fun request_size :: "service \<Rightarrow> nat" where
  "request_size SetPoolState = sizeof_u32"
| "request_size Setlogmask = sizeof_u32"
| "request_size Resetlogmask = sizeof_u32"
| "request_size Dumpcom = sizeof_u32"
| "request_size Privatelog = sizeof_u32"
| "request_size FistService = sizeof_request_fist"
| "request_size _ = 0"

lemma service_aborts:
  "call_service c e f req_len body sizeof_response_body s = Inl Aborted \<longleftrightarrow> req_len < request_size f"
  by (cases f)
     (auto simp: service_defs sizeof_defs Let_def simp del: hoststate_with split: option.splits sum.splits prod.splits)

lemma service_outcome:
  assumes "call_service c e f req_len body sizeof_response_body s = Inr (ret, len, res, s1)"
  shows "ret = MTC_SUCCESS \<and> answers f res \<and> len = size_of_answer res"
  using assms
  by (cases f)
     (auto simp: service_defs sizeof_defs Let_def simp del: hoststate_with split: if_splits option.splits sum.splits prod.splits)

text \<open>The bytes that arrive are a valid head and its body, for a service that takes more than that body.\<close>

definition short_request :: "nat \<Rightarrow> u8 list option list \<Rightarrow> bool" where
  "short_request sock reads \<longleftrightarrow>
     (case read_full reads sizeof_head [] of
        None \<Rightarrow> False
      | Some (bytes, rs) \<Rightarrow>
          let head = head_of_bytes bytes
          in check_head_valid head = MTC_SUCCESS \<and> read_full rs (unat (hd_length head)) [] \<noteq> None
             \<and> (case thread_func sock (unat (hd_type head)) of
                   None \<Rightarrow> False | Some f \<Rightarrow> unat (hd_length head) < request_size f))"

lemma serve_request_outcome:
  assumes "serve_request c e sock head body writes s = Some (r, s')"
  shows "(r = Crashed) = (case thread_func sock (unat (hd_type head)) of
            None \<Rightarrow> False | Some f \<Rightarrow> unat (hd_length head) < request_size f)
    \<and> (case r of Closed \<Rightarrow> s' = s | Crashed \<Rightarrow> s' = s
       | Unwritten head res \<Rightarrow> answer_ok sock head res
       | Answered head res exits \<Rightarrow> answer_ok sock head res \<and> (exits = (hd_type head = 5 \<and> res = ResRetval MTC_SUCCESS)))"
proof (cases "thread_func sock (unat (hd_type head))")
  case None
  then show ?thesis using assms by (auto simp: serve_request_def)
next
  case (Some f)
  let ?call = "call_service c e f (unat (hd_length head)) body sizeof_response_body s"
  note aborts = service_aborts[of c e f "unat (hd_length head)" body s]
  show ?thesis
  proof (cases ?call)
    case (Inl why)
    then show ?thesis using assms Some aborts by (cases why) (auto simp: serve_request_def)
  next
    case (Inr out)
    then obtain ret len res s1 where call: "?call = Inr (ret, len, res, s1)" by (cases out) auto
    note out = service_outcome[OF call]
    have len: "unat (of_nat (size_of_answer res) :: u32) = size_of_answer res"
      using size_fits[of res] by (simp add: unat_of_nat sizeof_defs)
    have "res = ResRetval MTC_SUCCESS \<Longrightarrow> \<not> size_of_answer res < sizeof_u32" by simp
    then show ?thesis
      using assms Some call out aborts len size_fits[of res]
      by (auto simp: serve_request_def answer_ok_def script_service_check_after_set_excluded_def Let_def split: if_splits)
  qed
qed

text \<open>
  C18. A connection never gets an answer it did not ask for: the head of every answer has the
  magic number and the type of the request, the type belongs to the socket the request came
  in on, and the body is the structure of that type with its exact length, which fits the
  union. A connection that is closed without an answer (a short read, a bad head, a type of
  another socket) has changed nothing. The daemon exits exactly
  after the answer to a successful \<open>set_excluded\<close> was written, and it is aborted exactly by a request
  whose head announces, and whose bytes are, fewer than its service takes.
\<close>

theorem server_answers_match:
  assumes "serve_connection c e sock reads writes s = Some (r, s')"
  shows "(r = Crashed) = short_request sock reads
    \<and> (case r of Closed \<Rightarrow> s' = s | Crashed \<Rightarrow> s' = s
       | Unwritten head res \<Rightarrow> answer_ok sock head res
       | Answered head res exits \<Rightarrow> answer_ok sock head res \<and> (exits = (hd_type head = 5 \<and> res = ResRetval MTC_SUCCESS)))"
proof (cases "read_full reads sizeof_head []")
  case None
  then show ?thesis using assms by (auto simp: serve_connection_def short_request_def)
next
  case (Some hb)
  obtain bytes rs where hb: "hb = (bytes, rs)" by fastforce
  let ?head = "head_of_bytes bytes"
  show ?thesis
  proof (cases "check_head_valid ?head = MTC_SUCCESS \<and> read_full rs (unat (hd_length ?head)) [] \<noteq> None")
    case False
    then show ?thesis using assms Some hb
      by (auto simp: serve_connection_def short_request_def Let_def split: option.splits if_splits)
  next
    case True
    then obtain body rest where body: "read_full rs (unat (hd_length ?head)) [] = Some (body, rest)" by auto
    have "serve_request c e sock ?head (body @ replicate (sizeof_request_body - length body) 0) writes s = Some (r, s')"
      using assms Some hb True body by (simp add: serve_connection_def Let_def)
    from serve_request_outcome[OF this] show ?thesis
      using Some hb True body by (simp add: short_request_def Let_def)
  qed
qed

text \<open>Sixteen bytes, the head of \<open>setlogmask\<close> without a body, stop the daemon.\<close>

definition ex_short_request :: "u8 list" where
  "ex_short_request = [0xFD, 0xFC, 0xFB, 0xFA, 0, 0, 0, 0, 11, 0, 0, 0, 0, 0, 0, 0]"

lemma ex_short_request_head:
  "head_of_bytes ex_short_request = \<lparr>hd_magic = SCRIPT_MAGIC, hd_response = 0, hd_type = 11, hd_length = 0\<rparr>"
  by code_simp

lemma short_request_aborts:
  "serve_connection c e 2 [Some ex_short_request] writes s = Some (Crashed, s)" "short_request 2 [Some ex_short_request]"
proof -
  have r: "read_full [Some ex_short_request] sizeof_head [] = Some (ex_short_request, [])"
    by (simp add: ex_short_request_def sizeof_head_def Let_def)
  have none: "read_full [] 0 [] = Some ([], [])" by simp
  have f: "thread_func 2 11 = Some Setlogmask"
    by (simp add: thread_func_def type_to_socket_index_def type_to_func_def script_socket_table_def script_func_table_def)
  show "serve_connection c e 2 [Some ex_short_request] writes s = Some (Crashed, s)" "short_request 2 [Some ex_short_request]"
    by (simp_all add: serve_connection_def serve_request_def short_request_def r none f ex_short_request_head Let_def
        check_head_valid_def SCRIPT_TYPE_NUM_def sizeof_request_body_def script_service_do_setlogmask_def sizeof_u32_def
        del: read_full.simps)
qed

definition ex_request :: "u8 list" where
  "ex_request = [0xFD, 0xFC, 0xFB, 0xFA, 0, 0, 0, 0, 8, 0, 0, 0, 0, 0, 0, 0]"

definition ex_env :: sc_env where
  "ex_env = \<lparr>se_now = 0, se_pass = (\<lambda>_. 0), se_events = [], se_gap = (\<lambda>_ s. s), se_pid = 1, se_dump = (\<lambda>_. 0), se_build_date = [],
     se_build_id = [], se_weight_opened = 0, se_weight_reads = []\<rparr>"

lemma ex_request_head:
  "head_of_bytes ex_request = \<lparr>hd_magic = SCRIPT_MAGIC, hd_response = 0, hd_type = 8, hd_length = 0\<rparr>"
  by code_simp

lemma ex_connection:
  "\<exists>h. serve_connection (default_config 2 0) ex_env 1 [Some (take 5 ex_request), Some (drop 5 ex_request)] [Some 20] ex_sc_state
     = Some (Answered h (ResHoststate LIVESET_STATUS_ONLINE) False, ex_sc_state)"
proof -
  have r: "read_full [Some (take 5 ex_request), Some (drop 5 ex_request)] sizeof_head [] = Some (ex_request, [])"
    by (simp add: ex_request_def sizeof_head_def Let_def)
  have valid: "check_head_valid (head_of_bytes ex_request) = MTC_SUCCESS"
    by (simp add: ex_request_head check_head_valid_def SCRIPT_TYPE_NUM_def sizeof_request_body_def)
  have f: "thread_func 1 8 = Some Hoststate"
    by (simp add: thread_func_def type_to_socket_index_def type_to_func_def script_socket_table_def script_func_table_def)
  have "call_service (default_config 2 0) ex_env Hoststate 0 body sizeof_response_body ex_sc_state
      = Inr (MTC_SUCCESS, 4, ResHoststate LIVESET_STATUS_ONLINE, ex_sc_state)" for body
    using ex_sc_online by (simp add: script_service_do_hoststate_def sizeof_defs del: hoststate_with)
  then show ?thesis
    using r valid f by (simp add: serve_connection_def serve_request_def Let_def ex_request_head sizeof_head_def
          script_service_check_after_set_excluded_def)
qed

theorem server_answers_match_witness:
  "(\<exists>h. serve_connection (default_config 2 0) ex_env 1 [Some (take 5 ex_request), Some (drop 5 ex_request)] [Some 20] ex_sc_state
     = Some (Answered h (ResHoststate LIVESET_STATUS_ONLINE) False, ex_sc_state)
   \<and> answer_ok 1 h (ResHoststate LIVESET_STATUS_ONLINE))
   \<and> short_request 2 [Some ex_short_request]"
proof -
  obtain h where "serve_connection (default_config 2 0) ex_env 1 [Some (take 5 ex_request), Some (drop 5 ex_request)] [Some 20] ex_sc_state
     = Some (Answered h (ResHoststate LIVESET_STATUS_ONLINE) False, ex_sc_state)" using ex_connection by blast
  with server_answers_match[OF this] server_answers_match[OF short_request_aborts(1)[of "default_config 2 0" ex_env "[]" ex_sc_state]]
  show ?thesis by auto
qed

end
