(* ===== verification/ScReport.thy ===== *)
theory ScReport
  imports ScProps
begin

text \<open>
  The report of \<open>query_liveset\<close>, field by field: \<open>liveset_report\<close> says what the commands
  are told, as a function of the five objects, and the service of \<^verbatim>\<open>daemon/sc_func.c\<close> with its
  loops gives exactly that, each object as it is when the service reads it.
\<close>

section \<open>What the report has to say\<close>


definition since_last_sf :: "clock \<Rightarrow> com_data_sf \<Rightarrow> nat \<Rightarrow> u32" where
  "since_last_sf now sf i = (if sf_time_last_SF sf i < 0 then - 1 else word_of_int (now - sf_time_last_SF sf i))"



definition sf_warning :: "ha_config \<Rightarrow> clock \<Rightarrow> com_data_sm \<Rightarrow> com_data_sf \<Rightarrow> bool" where
  "sf_warning c now sm sf \<longleftrightarrow> (let half = (cfg_T2 c * 1000) div 2 in \<not> sm_SR2 sm \<and>
     (sf_latency_max sf \<ge> 0 \<and> word_of_int (sf_latency_max sf) > half
      \<or> some_host (num_host c) (\<lambda>i. hm_ison (sm_current_liveset sm) i \<and> since_last_sf now sf i > half)))"



section \<open>The loops of the service\<close>














text \<open>
  The update time is unsigned, so a live host that has not written yet counts as one whose
  last update is 49 days old: the State-File warning is raised for it.
\<close>

lemma never_written_host_warns:
  assumes "i < num_host c" and "hm_ison (sm_current_liveset sm) i" and "\<not> sm_SR2 sm" and "sf_time_last_SF sf i < 0"
  shows "sf_warning c now sm sf"
proof -
  have "unat ((cfg_T2 c * 1000) div 2) = unat (cfg_T2 c * 1000) div 2" by (simp add: unat_div)
  moreover have "unat (cfg_T2 c * 1000) < 2 ^ 32" using unsigned_less[of "cfg_T2 c * 1000"] by simp
  moreover have "unat (- 1 :: u32) = 4294967295" by (simp add: unsigned_minus_1_eq_mask mask_eq_exp_minus_1)
  ultimately have "(cfg_T2 c * 1000) div 2 < (- 1 :: u32)" by (simp add: word_less_nat_alt)
  then have "since_last_sf now sf i > (cfg_T2 c * 1000) div 2" using assms(4) by (simp add: since_last_sf_def)
  with assms(1-3) show ?thesis by (auto simp: sf_warning_def Let_def)
qed

section \<open>What the query does to the objects\<close>















end
