(* ===== verification/Logging.thy ===== *)
theory Logging
  imports Printing ErrorCodes
begin

text \<open>
  The log of the daemon: \<^verbatim>\<open>daemon/log.c\<close> with the flags of \<^verbatim>\<open>include/log.h\<close>. A message
  arrives formatted (that is the C library's part) and goes to the private file, to the system
  log, or to both. The two logs are values: the content of the file and the list of messages
  with their priority. The calls that take the lock of the file are one step each.
\<close>

section \<open>Flags\<close>

definition MTC_LOG_SYSLOG :: u32 where "MTC_LOG_SYSLOG = push_bit 16 1"
definition MTC_LOG_PRIVATELOG :: u32 where "MTC_LOG_PRIVATELOG = push_bit 17 1"
definition MTC_LOG_MASK_FH_TRACE :: u32 where "MTC_LOG_MASK_FH_TRACE = push_bit 20 1"
definition MTC_LOG_MASK_SYSLOG :: u32 where "MTC_LOG_MASK_SYSLOG = push_bit 24 1"
definition LOG_MASK_BASE :: nat where "LOG_MASK_BASE = 18"
definition LOG_MASK_BITS :: nat where "LOG_MASK_BITS = 32 - LOG_MASK_BASE"

text \<open>The names of the bits; C fills the array with null pointers.\<close>

definition LOG_MASK_NAMES :: "string option list" where
  "LOG_MASK_NAMES = map Some [''DUMPPACKET'', ''TRACE'', ''FH_TRACE'', ''LM_TRACE'', ''SCRIPT'', ''SC_WARNING'', ''SYSLOG'']
     @ replicate 7 None"

definition DEFAULT_LOG_MASK :: u32 where "DEFAULT_LOG_MASK = MTC_LOG_MASK_FH_TRACE"

unbundle bit_operations_syntax

text \<open>The priorities of the system log are 0 (emergency) to 7 (debug).\<close>

definition log_level :: "u32 \<Rightarrow> bool \<Rightarrow> u32" where
  "log_level pri syslog = (if syslog then pri OR MTC_LOG_SYSLOG else pri) OR MTC_LOG_PRIVATELOG"

definition MTC_LOG_EMERG :: u32 where "MTC_LOG_EMERG = log_level 0 True"
definition MTC_LOG_ALERT :: u32 where "MTC_LOG_ALERT = log_level 1 True"
definition MTC_LOG_CRIT :: u32 where "MTC_LOG_CRIT = log_level 2 True"
definition MTC_LOG_ERR :: u32 where "MTC_LOG_ERR = log_level 3 True"
definition MTC_LOG_WARNING :: u32 where "MTC_LOG_WARNING = log_level 4 False"
definition MTC_LOG_NOTICE :: u32 where "MTC_LOG_NOTICE = log_level 5 True"
definition MTC_LOG_INFO :: u32 where "MTC_LOG_INFO = log_level 6 False"
definition MTC_LOG_DEBUG :: u32 where "MTC_LOG_DEBUG = log_level 7 False"

lemmas level_defs = MTC_LOG_EMERG_def MTC_LOG_ALERT_def MTC_LOG_CRIT_def MTC_LOG_ERR_def MTC_LOG_WARNING_def
  MTC_LOG_NOTICE_def MTC_LOG_INFO_def MTC_LOG_DEBUG_def log_level_def MTC_LOG_SYSLOG_def MTC_LOG_PRIVATELOG_def

definition LOG_PRI :: "u32 \<Rightarrow> u32" where "LOG_PRI p = p AND 7"

section \<open>State\<close>

text \<open>\<open>lg_file\<close> is the content of the open file, \<open>None\<close> when it is not open.\<close>

record log_var =
  lg_logmask :: u32
  lg_privatelogflag :: bool
  lg_initialized :: bool
  lg_file :: "string option"
  lg_syslog :: "(u32 \<times> string) list"

definition init_log :: log_var where
  "init_log = \<lparr>lg_logmask = DEFAULT_LOG_MASK, lg_privatelogflag = True, lg_initialized = False, lg_file = None, lg_syslog = []\<rparr>"

definition vsyslog :: "u32 \<Rightarrow> string \<Rightarrow> log_var \<Rightarrow> log_var" where
  "vsyslog pri msg v = v\<lparr>lg_syslog := lg_syslog v @ [(pri, msg)]\<rparr>"

definition append_file :: "string \<Rightarrow> log_var \<Rightarrow> log_var" where
  "append_file out v = v\<lparr>lg_file := map_option (\<lambda>content. content @ out) (lg_file v)\<rparr>"

text \<open>\<open>found\<close> is what \<open>fopen\<close> opens for appending, with \<open>errno\<close> in \<open>Inl\<close> when it fails.\<close>

definition open_log :: "int + string \<Rightarrow> log_var \<Rightarrow> log_var" where
  "open_log found v =
     (case found of
        Inl errno \<Rightarrow> vsyslog 4 (''can't open local log file. (sys '' @ print_int errno @ '')'') (v\<lparr>lg_file := None\<rparr>)
      | Inr content \<Rightarrow> v\<lparr>lg_file := Some content\<rparr>)"

text \<open>\<open>sys\<close> is the result of \<open>pthread_rwlock_init\<close>.\<close>

definition log_initialize :: "int + string \<Rightarrow> int \<Rightarrow> log_var \<Rightarrow> mtc_status \<times> log_var" where
  "log_initialize found sys v =
     (let v1 = open_log found v
      in if sys \<noteq> 0
         then (MTC_ERROR_LOG_PTHREAD, vsyslog 3 (''can't initialize rwlock. (sys '' @ print_int sys @ '')'') v1)
         else (MTC_SUCCESS, v1\<lparr>lg_initialized := True\<rparr>))"

definition log_reopen :: "int + string \<Rightarrow> log_var \<Rightarrow> log_var" where
  "log_reopen found v = open_log found v"

definition log_terminate :: "log_var \<Rightarrow> log_var" where
  "log_terminate v = v\<lparr>lg_initialized := False, lg_file := None\<rparr>"

section \<open>Messages\<close>

text \<open>\<open>%02d\<close>, \<open>%04d\<close>, and the same of hexadecimal numbers.\<close>

definition pad0 :: "nat \<Rightarrow> string \<Rightarrow> string" where
  "pad0 n ds = replicate (n - length ds) (CHR ''0'') @ ds"

record log_time =
  tm_mon :: nat
  tm_mday :: int
  tm_hour :: int
  tm_min :: int
  tm_sec :: int
  tm_zone :: string
  tm_year :: int

definition monthnames :: "string list" where
  "monthnames = [''Jan'', ''Feb'', ''Mar'', ''Apr'', ''May'', ''Jun'', ''Jul'', ''Aug'', ''Sep'', ''Oct'', ''Nov'', ''Dec'']"

text \<open>The names of the priorities, in the table of \<^verbatim>\<open>syslog.h\<close> the first entry of each.\<close>

definition priority_name :: "u32 \<Rightarrow> string" where
  "priority_name p =
     [''emerg'', ''alert'', ''crit'', ''err'', ''warning'', ''notice'', ''info'', ''debug''] ! unat (LOG_PRI p)"

definition log_prefix :: "log_time \<Rightarrow> u32 \<Rightarrow> string" where
  "log_prefix tm priority =
     monthnames ! tm_mon tm @ '' '' @ pad0 2 (print_int (tm_mday tm)) @ '' '' @ pad0 2 (print_int (tm_hour tm)) @ '':''
       @ pad0 2 (print_int (tm_min tm)) @ '':'' @ pad0 2 (print_int (tm_sec tm)) @ '' '' @ tm_zone tm @ '' ''
       @ pad0 4 (print_int (1900 + tm_year tm)) @ '' ['' @ priority_name priority @ ''] ''"

definition log_message :: "log_time \<Rightarrow> u32 \<Rightarrow> string \<Rightarrow> log_var \<Rightarrow> log_var" where
  "log_message tm priority msg v =
     (if \<not> lg_initialized v then v
      else
        (let v1 = (if priority AND MTC_LOG_PRIVATELOG \<noteq> 0 \<and> lg_privatelogflag v
                   then append_file (log_prefix tm priority @ msg) v else v)
         in if lg_logmask v1 AND MTC_LOG_MASK_SYSLOG \<noteq> 0 \<or> priority AND MTC_LOG_SYSLOG \<noteq> 0
            then vsyslog (LOG_PRI priority) msg v1 else v1))"

definition log_both :: "log_time \<Rightarrow> u32 \<Rightarrow> string \<Rightarrow> log_var \<Rightarrow> log_var" where
  "log_both tm pri = log_message tm (pri OR MTC_LOG_SYSLOG OR MTC_LOG_PRIVATELOG)"

definition log_internal :: "log_time \<Rightarrow> u32 \<Rightarrow> string \<Rightarrow> log_var \<Rightarrow> log_var" where
  "log_internal tm pri = log_message tm ((pri AND NOT MTC_LOG_SYSLOG) OR MTC_LOG_PRIVATELOG)"

definition log_external :: "log_time \<Rightarrow> u32 \<Rightarrow> string \<Rightarrow> log_var \<Rightarrow> log_var" where
  "log_external tm pri = log_message tm ((pri AND NOT MTC_LOG_PRIVATELOG) OR MTC_LOG_SYSLOG)"

definition log_maskable_debug_message :: "log_time \<Rightarrow> u32 \<Rightarrow> string \<Rightarrow> log_var \<Rightarrow> log_var" where
  "log_maskable_debug_message tm mask_bit msg v =
     (if lg_logmask v AND mask_bit \<noteq> 0 then log_message tm MTC_LOG_DEBUG msg v else v)"

definition log_status :: "log_time \<Rightarrow> mtc_status \<Rightarrow> string \<Rightarrow> log_var \<Rightarrow> log_var" where
  "log_status tm status suffix =
     log_message tm MTC_LOG_ERR
       (status_to_message status @ '' ('' @ print_int status @ '')''
          @ (if suffix = [] then ''.'' else CHR '' '' # suffix @ ''.'') @ [CHR 0x0A])"

text \<open>One line per mask that has a name or is set.\<close>

definition log_logmask_line :: "u32 \<Rightarrow> nat \<Rightarrow> string option" where
  "log_logmask_line m i =
     (let on = bit m (i + LOG_MASK_BASE)
      in if LOG_MASK_NAMES ! i = None \<and> \<not> on then None
         else Some (''LOG:  '' @ (if on then ''ON '' else ''OFF'') @ '':'' @ pad0 2 (print_int (int (i + LOG_MASK_BASE))) @ ''(''
           @ (case LOG_MASK_NAMES ! i of Some name \<Rightarrow> name | None \<Rightarrow> ''UNKNOWN_MASK'') @ '')'' @ [CHR 0x0A]))"

definition log_logmask :: "log_time \<Rightarrow> log_var \<Rightarrow> log_var" where
  "log_logmask tm v =
     fold (\<lambda>i v. case log_logmask_line (lg_logmask v) i of None \<Rightarrow> v | Some msg \<Rightarrow> log_message tm MTC_LOG_INFO msg v)
       [0..<LOG_MASK_BITS]
       (log_message tm MTC_LOG_INFO (''LOG: logmask = '' @ hex_digits (unat (lg_logmask v)) @ [CHR 0x0A]) v)"

text \<open>The addresses \<open>backtrace\<close> finds, with the symbols when there are any.\<close>

definition log_backtrace :: "log_time \<Rightarrow> u32 \<Rightarrow> (string \<times> string option) list \<Rightarrow> log_var \<Rightarrow> log_var" where
  "log_backtrace tm priority frames v =
     (let v1 = log_message tm priority (''backtrace -------------'' @ [CHR 0x0A]) v
      in if frames = [] \<or> 10 < length frames then log_message tm priority ''Cannot get backtrace'' v1
         else log_message tm priority (''backtrace -------------'' @ [CHR 0x0A])
           (fold (\<lambda>(level, address, symbol). log_message tm priority
                (''  '' @ print_int2 (int level) @ '': ('' @ address @ '') ''
                   @ (case symbol of Some name \<Rightarrow> name | None \<Rightarrow> ''--'') @ [CHR 0x0A]))
              (zip [0..<length frames] frames) v1))"

definition log_thread_id :: "log_time \<Rightarrow> string \<Rightarrow> int \<Rightarrow> log_var \<Rightarrow> log_var" where
  "log_thread_id tm thread_name tid =
     log_message tm MTC_LOG_INFO (thread_name @ '': Thread ID = '' @ print_int tid @ [CHR 0x0A])"

section \<open>Dumps\<close>

definition MAX_COL :: nat where "MAX_COL = 16"

definition is_print :: "u8 \<Rightarrow> bool" where
  "is_print b \<longleftrightarrow> 32 \<le> b \<and> b < 127"

text \<open>A row has the number of the row, not the position of its first byte, in front.\<close>

definition dump_row :: "nat \<Rightarrow> u8 list \<Rightarrow> string" where
  "dump_row line row =
     [CHR 0x09] @ pad0 4 (hex_digits line) @ '': ''
       @ concat (map (\<lambda>b. pad0 2 (hex_digits (unat b)) @ '' '') row)
       @ replicate (3 * (MAX_COL - length row)) (CHR '' '')
       @ '': '' @ map (\<lambda>b. if is_print b then char_of (unat b) else CHR ''.'') row @ [CHR 0x0A]"

function dump_rows :: "nat \<Rightarrow> u8 list \<Rightarrow> string" where
  "dump_rows line data =
     (if data = [] then [] else dump_row line (take MAX_COL data) @ dump_rows (line + 1) (drop MAX_COL data))"
  by auto
termination
  by (relation "measure (\<lambda>(line, data). length data)") (auto simp: MAX_COL_def)

declare dump_rows.simps [simp del]

definition log_bin :: "u32 \<Rightarrow> u8 list \<Rightarrow> log_var \<Rightarrow> log_var" where
  "log_bin priority data v =
     (if lg_initialized v \<and> priority AND MTC_LOG_PRIVATELOG \<noteq> 0 \<and> lg_privatelogflag v
      then append_file (dump_rows 0 data) v else v)"

section \<open>Where messages go\<close>

lemma flag_bits:
  "p AND MTC_LOG_SYSLOG \<noteq> 0 \<longleftrightarrow> bit p 16" "p AND MTC_LOG_PRIVATELOG \<noteq> 0 \<longleftrightarrow> bit p 17"
  "p AND MTC_LOG_MASK_SYSLOG \<noteq> 0 \<longleftrightarrow> bit p 24"
  by (simp_all only: MTC_LOG_SYSLOG_def MTC_LOG_PRIVATELOG_def MTC_LOG_MASK_SYSLOG_def push_bit_of_1
      and_exp_eq_0_iff_not_bit not_not)

lemma flag_bit_simps [simp]:
  "bit MTC_LOG_SYSLOG n \<longleftrightarrow> n = 16" "bit MTC_LOG_PRIVATELOG n \<longleftrightarrow> n = 17"
  unfolding MTC_LOG_SYSLOG_def MTC_LOG_PRIVATELOG_def bit_push_bit_iff bit_1_iff by auto

lemma LOG_PRI_flags:
  "LOG_PRI (p OR MTC_LOG_SYSLOG) = LOG_PRI p" "LOG_PRI (p OR MTC_LOG_PRIVATELOG) = LOG_PRI p"
  "LOG_PRI (p AND NOT MTC_LOG_SYSLOG) = LOG_PRI p" "LOG_PRI (p AND NOT MTC_LOG_PRIVATELOG) = LOG_PRI p"
  "LOG_PRI (p OR MTC_LOG_SYSLOG OR MTC_LOG_PRIVATELOG) = LOG_PRI p"
proof -
  have seven: "bit (7 :: u32) n \<longleftrightarrow> n < 3" for n
    using bit_mask_iff[of 3 n, where 'a = u32] by (auto simp: mask_eq_exp_minus_1 min_def)
  show "LOG_PRI (p OR MTC_LOG_SYSLOG) = LOG_PRI p" "LOG_PRI (p OR MTC_LOG_PRIVATELOG) = LOG_PRI p"
    "LOG_PRI (p AND NOT MTC_LOG_SYSLOG) = LOG_PRI p" "LOG_PRI (p AND NOT MTC_LOG_PRIVATELOG) = LOG_PRI p"
    "LOG_PRI (p OR MTC_LOG_SYSLOG OR MTC_LOG_PRIVATELOG) = LOG_PRI p"
    by (auto simp: LOG_PRI_def seven bit_simps intro!: bit_word_eqI)
qed

text \<open>
  An internal message stays in the file unless the mask asks for the system log, an external
  one goes to the system log only, and one for both goes to both. After the end of the
  daemon's log nothing is written at all.
\<close>

lemma log_internal_stays:
  assumes "lg_initialized v" and "lg_privatelogflag v" and "\<not> bit (lg_logmask v) 24"
  shows "log_internal tm pri msg v = append_file (log_prefix tm pri @ msg) v"
  using assms
  unfolding log_internal_def log_message_def flag_bits
  by (simp add: bit_simps append_file_def log_prefix_def priority_name_def LOG_PRI_flags)

lemma log_external_leaves:
  assumes "lg_initialized v"
  shows "log_external tm pri msg v = vsyslog (LOG_PRI pri) msg v"
  using assms unfolding log_external_def log_message_def flag_bits by (simp add: bit_simps LOG_PRI_flags)

lemma log_both_goes_to_both:
  assumes "lg_initialized v" and "lg_privatelogflag v"
  shows "log_both tm pri msg v = vsyslog (LOG_PRI pri) msg (append_file (log_prefix tm pri @ msg) v)"
  using assms
  unfolding log_both_def log_message_def flag_bits
  by (simp add: bit_simps append_file_def log_prefix_def priority_name_def LOG_PRI_flags)

lemma terminated_log_is_silent:
  assumes "\<not> lg_initialized v"
  shows "log_message tm pri msg v = v" "log_bin pri data v = v" "log_status tm st msg v = v" "log_logmask tm v = v"
proof -
  have "fold (\<lambda>i v. case log_logmask_line (lg_logmask v) i of None \<Rightarrow> v | Some msg \<Rightarrow> log_message tm MTC_LOG_INFO msg v) is v = v" for "is"
    using assms by (induction "is") (auto simp: log_message_def split: option.split)
  then show "log_message tm pri msg v = v" "log_bin pri data v = v" "log_status tm st msg v = v" "log_logmask tm v = v"
    using assms by (simp_all add: log_message_def log_bin_def log_status_def log_logmask_def)
qed

text \<open>The default levels: warnings and information stay in the file, errors go to both.\<close>

lemma level_destinations:
  "\<not> bit MTC_LOG_WARNING 16" "\<not> bit MTC_LOG_INFO 16" "bit MTC_LOG_ERR 16" "bit MTC_LOG_NOTICE 16" "bit MTC_LOG_INFO 17"
  by (simp_all add: MTC_LOG_WARNING_def MTC_LOG_INFO_def MTC_LOG_ERR_def MTC_LOG_NOTICE_def log_level_def bit_simps)

section \<open>Dumps are complete\<close>

text \<open>What the rows show, read back: the two digits of every column.\<close>

definition hex_value :: "char \<Rightarrow> nat" where
  "hex_value c = (let n = of_char c :: nat in if n < 58 then n - 48 else n - 87)"

fun read_columns :: "nat \<Rightarrow> string \<Rightarrow> u8 list" where
  "read_columns (Suc n) (a # b # c # rest) = of_nat (16 * hex_value a + hex_value b) # read_columns n rest"
| "read_columns n rest = []"

lemma hex_value_digit: "d < 16 \<Longrightarrow> hex_value (char_of (if d < 10 then 48 + d else 87 + d :: nat)) = d"
  by (simp add: hex_value_def)

lemma hex_byte:
  "\<exists>a b. pad0 2 (hex_digits (unat (x :: u8))) = [a, b] \<and> 16 * hex_value a + hex_value b = unat x"
proof -
  have lt: "unat x < 256" using unsigned_less[of x, where 'a = nat] by simp
  show ?thesis
  proof (cases "unat x < 16")
    case True
    then show ?thesis
      using hex_value_digit[of "unat x"] by (subst hex_digits.simps) (simp add: pad0_def Let_def hex_value_def)
  next
    case False
    have hi: "unat x div 16 < 16" using lt by simp
    have "hex_digits (unat x) = [char_of (if unat x div 16 < 10 then 48 + unat x div 16 else 87 + unat x div 16),
        char_of (if unat x mod 16 < 10 then 48 + unat x mod 16 else 87 + unat x mod 16)]"
      using False hi by (subst hex_digits.simps, subst hex_digits.simps) (simp add: Let_def)
    then show ?thesis
      using hex_value_digit[OF hi] hex_value_digit[of "unat x mod 16"] by (simp add: pad0_def)
  qed
qed

lemma read_columns_row:
  "read_columns (length row) (concat (map (\<lambda>b. pad0 2 (hex_digits (unat b)) @ '' '') row) @ rest) = row"
proof (induction row)
  case (Cons x row)
  obtain a b where "pad0 2 (hex_digits (unat x)) = [a, b]" "16 * hex_value a + hex_value b = unat x" using hex_byte by blast
  then show ?case using Cons by simp
qed simp

lemma dump_row_shows:
  assumes "line < 65536"
  shows "read_columns (length row) (drop 7 (dump_row line row)) = row"
proof -
  have step: "length (hex_digits n) \<le> 1 + k" if "n < 16 ^ (1 + k)" for n k
    using that
  proof (induction k arbitrary: n)
    case 0
    then show ?case by (subst hex_digits.simps) (simp add: Let_def)
  next
    case (Suc k)
    have "n div 16 < 16 ^ (1 + k)" using Suc.prems by (simp add: less_mult_imp_div_less)
    then show ?case using Suc.IH[of "n div 16"] by (subst hex_digits.simps) (simp add: Let_def)
  qed
  have "length (hex_digits line) \<le> 4" using step[of line 3] assms by simp
  then have "length (pad0 4 (hex_digits line)) = 4" by (simp add: pad0_def)
  then have "drop 7 (dump_row line row) = concat (map (\<lambda>b. pad0 2 (hex_digits (unat b)) @ '' '') row)
       @ replicate (3 * (MAX_COL - length row)) (CHR '' '')
       @ '': '' @ map (\<lambda>b. if is_print b then char_of (unat b) else CHR ''.'') row @ [CHR 0x0A]"
    by (simp add: dump_row_def)
  then show ?thesis by (simp only: read_columns_row)
qed

end
