(* ===== verification/CallDaemon.thy ===== *)
theory CallDaemon
  imports ScServer XapiMon Logging
begin

text \<open>
  The client of the script services: \<^verbatim>\<open>commands/calldaemon.c\<close>. A request is built as
  its bytes; a response is a value of \<open>sc_response\<close>, as on the side of the daemon, with
  the number of bytes it takes. What a command prints is the list of its lines.
\<close>

section \<open>The protocol\<close>

definition bytes_of_u32 :: "u32 \<Rightarrow> u8 list" where
  "bytes_of_u32 w = [ucast w, ucast (drop_bit 8 w), ucast (drop_bit 16 w), ucast (drop_bit 24 w)]"

definition bytes_of_head :: "sc_head \<Rightarrow> u8 list" where
  "bytes_of_head h = bytes_of_u32 (hd_magic h) @ bytes_of_u32 (hd_response h) @ bytes_of_u32 (hd_type h)
     @ bytes_of_u32 (hd_length h)"

definition request_head :: "u32 \<Rightarrow> nat \<Rightarrow> sc_head" where
  "request_head ty req_len =
     \<lparr>hd_magic = SCRIPT_MAGIC, hd_response = 0, hd_type = ty, hd_length = of_nat req_len\<rparr>"

text \<open>
  What the operating system and the daemon answer: the results of \<open>socket\<close> and
  \<open>connect\<close>, the numbers of bytes the calls of \<open>write\<close> and \<open>read\<close> move
  (\<open>None\<close> for an error, 0 for the end of the file), and the response behind the socket.
\<close>

record cd_net =
  cn_socket :: bool
  cn_connect :: bool
  cn_writes :: "nat option list"
  cn_reads :: "nat option list"
  cn_answer :: "sc_head \<times> sc_response"

text \<open>A loop around \<open>write\<close> or \<open>read\<close> that moves \<open>size\<close> bytes; what is left of the answers.\<close>

fun transfer :: "nat option list \<Rightarrow> nat \<Rightarrow> nat option list option" where
  "transfer rs 0 = Some rs"
| "transfer [] (Suc n) = None"
| "transfer (None # rs) (Suc n) = None"
| "transfer (Some k # rs) (Suc n) = (if k = 0 then None else transfer rs (Suc n - k))"

text \<open>The response head is not looked at, apart from its length.\<close>

definition script_call_daemon :: "cd_net \<Rightarrow> nat \<Rightarrow> nat \<Rightarrow> mtc_status \<times> nat \<times> sc_response" where
  "script_call_daemon net req_len res_len =
     (if \<not> cn_socket net then (MTC_ERROR_SC_SOCKET, res_len, ResNone)
      else if \<not> cn_connect net then (MTC_ERROR_SC_CONNECT_TO_DAEMON, res_len, ResNone)
      else (case transfer (cn_writes net) sizeof_head of
              None \<Rightarrow> (MTC_ERROR_SC_WRITE_ERROR, res_len, ResNone)
            | Some ws \<Rightarrow>
                if transfer ws req_len = None then (MTC_ERROR_SC_WRITE_ERROR, res_len, ResNone)
                else (case transfer (cn_reads net) sizeof_head of
                        None \<Rightarrow> (MTC_ERROR_SC_READ_ERROR, res_len, ResNone)
                      | Some rs \<Rightarrow>
                          (case cn_answer net of (head, body) \<Rightarrow>
                             let len = unat (hd_length head)
                             in if res_len < len then (MTC_ERROR_SC_IMPROPER_DATA, len, ResNone)
                                else if transfer rs len = None then (MTC_ERROR_SC_READ_ERROR, len, ResNone)
                                else (MTC_SUCCESS, len, body)))))"

section \<open>Building requests\<close>

text \<open>
  A builder gets the arguments and the buffer, whose contents are whatever was on the stack;
  \<open>Inl\<close> is the error. All of them leave \<open>*len\<close> alone, so the whole buffer is sent.
\<close>

type_synonym req_result = "mtc_status + u8 list"

definition put_u32 :: "u32 \<Rightarrow> u8 list \<Rightarrow> u8 list" where
  "put_u32 w buf = bytes_of_u32 w @ drop 4 buf"

definition req_set_pool_state :: "string list \<Rightarrow> u8 list \<Rightarrow> req_result" where
  "req_set_pool_state argv buf =
     (case argv of
        [arg] \<Rightarrow>
          if length buf < sizeof_u32 then Inl MTC_ERROR_SC_IMPROPER_DATA
          else if arg = ''init'' then Inr (put_u32 SF_STATE_INIT buf)
          else if arg = ''active'' then Inr (put_u32 SF_STATE_ACTIVE buf)
          else if arg = ''invalid'' then Inr (put_u32 SF_STATE_INVALID buf)
          else Inl MTC_ERROR_SC_INVALID_PARAMETER
      | _ \<Rightarrow> Inl MTC_ERROR_SC_INVALID_PARAMETER)"

text \<open>The search gives up at the first bit without a name.\<close>

fun find_mask :: "string option list \<Rightarrow> string \<Rightarrow> nat option" where
  "find_mask [] arg = None"
| "find_mask (None # ns) arg = None"
| "find_mask (Some n # ns) arg = (if n = arg then Some 0 else map_option Suc (find_mask ns arg))"

definition mask_bit :: "nat \<Rightarrow> u32" where "mask_bit i = push_bit i 1"

text \<open>After \<open>all\<close> the index is \<open>LOG_MASK_BITS\<close>, and that bit is set as well.\<close>

fun logmask_args :: "string list \<Rightarrow> u32 \<Rightarrow> u32 option" where
  "logmask_args [] m = Some m"
| "logmask_args (a # as) m =
     (if a \<noteq> [] \<and> is_digit (hd a)
      then (let i = (word_of_int (fst (strtol a)) :: u32)
            in if unat i < LOG_MASK_BASE \<or> unat i - LOG_MASK_BASE \<ge> LOG_MASK_BITS then None
               else logmask_args as (m OR mask_bit (unat i)))
      else if a = ''all''
      then logmask_args as (fold (\<lambda>i m. m OR mask_bit (i + LOG_MASK_BASE)) [0..<LOG_MASK_BITS] m OR mask_bit LOG_MASK_BITS)
      else (case find_mask LOG_MASK_NAMES a of
              None \<Rightarrow> None
            | Some i \<Rightarrow> logmask_args as (m OR mask_bit (i + LOG_MASK_BASE))))"

definition req_set_logmask :: "string list \<Rightarrow> u8 list \<Rightarrow> req_result" where
  "req_set_logmask argv buf =
     (if length buf < sizeof_u32 then Inl MTC_ERROR_SC_IMPROPER_DATA
      else (case logmask_args argv 0 of
              None \<Rightarrow> Inl MTC_ERROR_SC_INVALID_PARAMETER
            | Some m \<Rightarrow> Inr (put_u32 m buf)))"

definition req_set_dumpcom :: "string list \<Rightarrow> u8 list \<Rightarrow> req_result" where
  "req_set_dumpcom argv buf =
     (if length buf < sizeof_u32 then Inl MTC_ERROR_SC_IMPROPER_DATA
      else Inr (put_u32 (if ''dump'' \<in> set argv then 1 else 0) buf))"

fun privatelog_cmd :: "string list \<Rightarrow> u32" where
  "privatelog_cmd [] = PRIVATELOG_CMD_NONE"
| "privatelog_cmd (a # as) =
     (if a = ''on'' then PRIVATELOG_CMD_ENABLE else if a = ''off'' then PRIVATELOG_CMD_DISABLE else privatelog_cmd as)"

definition req_privatelog :: "string list \<Rightarrow> u8 list \<Rightarrow> req_result" where
  "req_privatelog argv buf =
     (if length buf < sizeof_u32 then Inl MTC_ERROR_SC_IMPROPER_DATA else Inr (put_u32 (privatelog_cmd argv) buf))"

definition MAX_FIST_NAME_LEN :: nat where "MAX_FIST_NAME_LEN = 64"

definition bytes_of_string :: "string \<Rightarrow> u8 list" where
  "bytes_of_string s = map (\<lambda>ch. of_nat (of_char ch)) s"

text \<open>\<open>set\<close> is the byte behind the 64 characters of the name; \<open>strcpy\<close> copies up to the terminator.\<close>

definition put_fist :: "string \<Rightarrow> bool \<Rightarrow> u8 list \<Rightarrow> u8 list" where
  "put_fist name en buf =
     (bytes_of_string name @ [0] @ drop (length name + 1) (take MAX_FIST_NAME_LEN buf))
     @ [if en then 1 else 0] @ drop (MAX_FIST_NAME_LEN + 1) buf"

definition req_fist :: "string list \<Rightarrow> u8 list \<Rightarrow> req_result" where
  "req_fist argv buf =
     (if length buf < sizeof_request_fist then Inl MTC_ERROR_SC_IMPROPER_DATA
      else (case argv of
              onoff # name # _ \<Rightarrow>
                if onoff \<noteq> ''enable'' \<and> onoff \<noteq> ''disable'' then Inl MTC_ERROR_SC_INVALID_PARAMETER
                else if length name < MAX_FIST_NAME_LEN then Inr (put_fist name (onoff = ''enable'') buf)
                else Inl MTC_ERROR_SC_INVALID_PARAMETER
            | _ \<Rightarrow> Inl MTC_ERROR_SC_INVALID_PARAMETER))"

section \<open>Printing responses\<close>

definition VALID_CHARS :: string where
  "VALID_CHARS = [CHR 0x09] @ '' !'' @ [CHR 0x22] @ ''#$%'' @ [CHR 0x27] @ ''()*+,-./0123456789:;=?@ABCDEFGHIJKLMNOPQQSTUVWXYZ[''
     @ [CHR 0x5C] @ '']^_'' @ [CHR 0x60] @ ''abcdefghijklmnopqrstuvwxyz{|}~''"

fun cleanup_string :: "nat \<Rightarrow> string \<Rightarrow> string" where
  "cleanup_string 0 src = []"
| "cleanup_string (Suc n) [] = []"
| "cleanup_string (Suc n) (ch # src) =
     (if ch = NUL then [] else if ch \<in> set VALID_CHARS then ch # cleanup_string n src else cleanup_string n src)"

text \<open>A truth value, a UUID, and an element.\<close>

definition print_bool :: "bool \<Rightarrow> string" where "print_bool b = (if b then ''TRUE'' else ''FALSE'')"

definition print_uuid :: "uuid \<Rightarrow> string" where
  "print_uuid u = c_str 8 u @ ''-'' @ c_str 4 (drop 8 u) @ ''-'' @ c_str 4 (drop 12 u) @ ''-'' @ c_str 4 (drop 16 u)
     @ ''-'' @ c_str 12 (drop 20 u)"

definition elem :: "nat \<Rightarrow> string \<Rightarrow> string \<Rightarrow> string" where
  "elem indent name txt = replicate indent (CHR '' '') @ ''<'' @ name @ ''>'' @ txt @ ''</'' @ name @ ''>''"

definition open_elem :: "nat \<Rightarrow> string \<Rightarrow> string" where
  "open_elem indent name = replicate indent (CHR '' '') @ ''<'' @ name @ ''>''"

definition close_elem :: "nat \<Rightarrow> string \<Rightarrow> string" where
  "close_elem indent name = replicate indent (CHR '' '') @ ''</'' @ name @ ''>''"

definition print_status :: "u32 \<Rightarrow> string" where
  "print_status status = (if status = LIVESET_STATUS_ONLINE then ''Online'' else ''Starting'')"

definition print_ql_host :: "query_liveset \<Rightarrow> nat \<Rightarrow> string list" where
  "print_ql_host l i =
     [open_elem 2 ''host'',
      elem 4 ''HostID'' (print_uuid (q_host_id (q_host l i))),
      elem 4 ''HostIndex'' (print_int (int i)),
      elem 4 ''liveness'' (print_bool (q_liveness (q_host l i))),
      elem 4 ''master'' (print_bool (q_master (q_host l i))),
      elem 4 ''statefile_access'' (print_bool (q_sf_access (q_host l i))),
      elem 4 ''statefile_corrupted'' (print_bool (q_sf_corrupted (q_host l i))),
      elem 4 ''excluded'' (print_bool (q_excluded (q_host l i))),
      close_elem 2 ''host'']"

definition print_active_list :: "query_liveset \<Rightarrow> string \<Rightarrow> (nat \<Rightarrow> bool) \<Rightarrow> string list" where
  "print_active_list l name row =
     [open_elem 6 name]
     @ map (\<lambda>j. replicate 10 (CHR '' '') @ print_uuid (q_host_id (q_host l j))) (filter row [0..<unat (q_hostnum l)])
     @ [close_elem 6 name]"

definition print_raw_host :: "query_liveset \<Rightarrow> nat \<Rightarrow> string list" where
  "print_raw_host l i =
     (let h = q_host l i in
      [open_elem 4 ''host_raw_data'',
       elem 6 ''HostID'' (print_uuid (q_host_id h)),
       elem 6 ''HostIndex'' (print_int (int i)),
       elem 6 ''time_since_last_update_on_statefile'' (print_u32 (q_time_since_last_update_on_sf h)),
       elem 6 ''time_since_last_heartbeat'' (print_int (q_time_since_last_hb h)),
       elem 6 ''time_since_xapi_restart_first_attempted'' (print_u32 (q_time_since_xapi_restart h)),
       elem 6 ''xapi_error_string'' (cleanup_string XAPI_MAX_ERROR_STRING_LEN (q_xapi_err_string h))]
      @ print_active_list l ''heartbeat_active_list_on_heartbeat'' (q_hb_list_on_hb h)
      @ print_active_list l ''heartbeat_active_list_on_statefile'' (q_hb_list_on_sf h)
      @ print_active_list l ''statefile_active_list_on_heartbeat'' (q_sf_list_on_hb h)
      @ print_active_list l ''statefile_active_list_on_statefile'' (q_sf_list_on_sf h)
      @ [close_elem 4 ''host_raw_data''])"

definition print_online :: "query_liveset \<Rightarrow> string list" where
  "print_online l =
     concat (map (print_ql_host l) [0..<unat (q_hostnum l)])
     @ [open_elem 2 ''raw_status_on_local_host'',
        elem 4 ''statefile_latency'' (print_int (q_sf_latency l)),
        elem 4 ''statefile_latency_max'' (print_int (q_sf_latency_max l)),
        elem 4 ''statefile_latency_min'' (print_int (q_sf_latency_min l)),
        elem 4 ''heartbeat_latency'' (print_int (q_hb_latency l)),
        elem 4 ''heartbeat_latency_max'' (print_int (q_hb_latency_max l)),
        elem 4 ''heartbeat_latency_min'' (print_int (q_hb_latency_min l)),
        elem 4 ''Xapi_healthcheck_latency'' (print_int (q_xapi_latency l)),
        elem 4 ''Xapi_healthcheck_latency_max'' (print_int (q_xapi_latency_max l)),
        elem 4 ''Xapi_healthcheck_latency_min'' (print_int (q_xapi_latency_min l))]
     @ concat (map (print_raw_host l) [0..<unat (q_hostnum l)])
     @ [close_elem 2 ''raw_status_on_local_host'',
        open_elem 2 ''timeout'',
        elem 4 ''T1'' (print_u32 (q_T1 l)), elem 4 ''T2'' (print_u32 (q_T2 l)), elem 4 ''T3'' (print_u32 (q_T3 l)),
        elem 4 ''Wh'' (print_u32 (q_Wh l)), elem 4 ''Ws'' (print_u32 (q_Ws l)),
        close_elem 2 ''timeout'',
        open_elem 2 ''warning_on_local_host'',
        elem 4 ''statefile_lost'' (print_bool (q_sf_lost l)),
        elem 4 ''heartbeat_approaching_timeout'' (print_bool (q_hb_approaching_timeout l)),
        elem 4 ''statefile_approaching_timeout'' (print_bool (q_sf_approaching_timeout l)),
        elem 4 ''Xapi_healthcheck_approaching_timeout'' (print_bool (q_xapi_approaching_timeout l)),
        elem 4 ''network_bonding_error'' (print_bool (q_bonding_error l)),
        close_elem 2 ''warning_on_local_host'']"

definition print_query_liveset :: "nat \<Rightarrow> query_liveset \<Rightarrow> mtc_status \<times> string list" where
  "print_query_liveset sz l =
     (if sz < sizeof_query_liveset then (MTC_ERROR_SC_IMPROPER_DATA, [])
      else (MTC_SUCCESS,
        [''<?xml version='' @ [CHR 0x22] @ ''1.0'' @ [CHR 0x22] @ '' encoding='' @ [CHR 0x22] @ ''UTF-8'' @ [CHR 0x22] @ ''?>'',
         ''<ha_liveset_info version='' @ [CHR 0x22] @ ''1.0'' @ [CHR 0x22] @ ''>'',
         elem 2 ''status'' (print_status (q_status l)),
         open_elem 2 ''localhost'',
         elem 4 ''HostID'' (print_uuid (q_host_id (q_host l (unat (q_localhost_index l))))),
         elem 4 ''HostIndex'' (print_u32 (q_localhost_index l)),
         close_elem 2 ''localhost'']
        @ (if q_status l = LIVESET_STATUS_ONLINE then print_online l else [])
        @ [close_elem 0 ''ha_liveset_info'']))"

definition print_propose_master :: "nat \<Rightarrow> mtc_status \<Rightarrow> bool \<Rightarrow> mtc_status \<times> string list" where
  "print_propose_master sz retval accepted =
     (if sz < sizeof_propose_master then (MTC_ERROR_SC_IMPROPER_DATA, [])
      else (retval, if retval = MTC_SUCCESS then [print_bool accepted] else []))"

definition print_pid :: "nat \<Rightarrow> int \<Rightarrow> mtc_status \<times> string list" where
  "print_pid sz pid = (if sz < sizeof_u32 then (MTC_ERROR_SC_IMPROPER_DATA, []) else (MTC_SUCCESS, [print_int pid]))"

definition print_hoststate :: "nat \<Rightarrow> u32 \<Rightarrow> mtc_status \<times> string list" where
  "print_hoststate sz status =
     (if sz < sizeof_u32 then (MTC_ERROR_SC_IMPROPER_DATA, []) else (MTC_SUCCESS, [print_status status]))"

definition print_logmask :: "nat \<Rightarrow> u32 \<Rightarrow> mtc_status \<times> string list" where
  "print_logmask sz logmask =
     (if sz < sizeof_u32 then (MTC_ERROR_SC_IMPROPER_DATA, [])
      else (MTC_SUCCESS, (''logmask = '' @ hex_digits (unat logmask)) #
        concat (map (\<lambda>i. let on = (mask_bit (i + LOG_MASK_BASE) AND logmask \<noteq> 0) in
            if LOG_MASK_NAMES ! i = None \<and> \<not> on then []
            else [(if on then ''ON '' else ''OFF'') @ '':'' @ print_int (int (i + LOG_MASK_BASE)) @ ''(''
                  @ (case LOG_MASK_NAMES ! i of Some n \<Rightarrow> n | None \<Rightarrow> ''UNKNOWN_MASK'') @ '')''])
          [0..<LOG_MASK_BITS])))"

text \<open>These two do not look at the size.\<close>

definition print_buildid :: "string \<Rightarrow> string \<Rightarrow> mtc_status \<times> string list" where
  "print_buildid build_date build_id =
     (MTC_SUCCESS, [''build information'', ''  date:'' @ build_date, ''  id:'' @ build_id])"

definition print_privatelog :: "bool \<Rightarrow> mtc_status \<times> string list" where
  "print_privatelog flag = (MTC_SUCCESS, [''privatelog is '' @ (if flag then ''on'' else ''off'')])"

definition return_retval :: "nat \<Rightarrow> mtc_status \<Rightarrow> mtc_status \<times> string list" where
  "return_retval sz retval = (if sz < sizeof_u32 then (MTC_ERROR_SC_IMPROPER_DATA, []) else (retval, []))"

section \<open>The commands\<close>

datatype req_func = NoReq | ReqSetPoolState | ReqSetLogmask | ReqSetDumpcom | ReqPrivatelog | ReqFist

datatype res_func =
  PrintQueryLiveset | PrintProposeMaster | PrintPid | PrintHoststate | PrintLogmask | PrintBuildid | PrintPrivatelog
| ReturnRetval

record cmd_info =
  ci_type :: u32
  ci_name :: string
  ci_req :: req_func
  ci_res :: res_func

definition cmd_info_list :: "cmd_info list" where
  "cmd_info_list =
     [\<lparr>ci_type = 1, ci_name = ''query_liveset'', ci_req = NoReq, ci_res = PrintQueryLiveset\<rparr>,
      \<lparr>ci_type = 2, ci_name = ''propose_master'', ci_req = NoReq, ci_res = PrintProposeMaster\<rparr>,
      \<lparr>ci_type = 3, ci_name = ''disarm_fencing'', ci_req = NoReq, ci_res = ReturnRetval\<rparr>,
      \<lparr>ci_type = 4, ci_name = ''set_pool_state'', ci_req = ReqSetPoolState, ci_res = ReturnRetval\<rparr>,
      \<lparr>ci_type = 5, ci_name = ''set_excluded'', ci_req = NoReq, ci_res = ReturnRetval\<rparr>,
      \<lparr>ci_type = 6, ci_name = ''clear_excluded'', ci_req = NoReq, ci_res = ReturnRetval\<rparr>,
      \<lparr>ci_type = 7, ci_name = ''pid'', ci_req = NoReq, ci_res = PrintPid\<rparr>,
      \<lparr>ci_type = 8, ci_name = ''gethoststate'', ci_req = NoReq, ci_res = PrintHoststate\<rparr>,
      \<lparr>ci_type = 9, ci_name = ''cancel_master'', ci_req = NoReq, ci_res = ReturnRetval\<rparr>,
      \<lparr>ci_type = 10, ci_name = ''getlogmask'', ci_req = NoReq, ci_res = PrintLogmask\<rparr>,
      \<lparr>ci_type = 11, ci_name = ''setlogmask'', ci_req = ReqSetLogmask, ci_res = PrintLogmask\<rparr>,
      \<lparr>ci_type = 12, ci_name = ''resetlogmask'', ci_req = ReqSetLogmask, ci_res = PrintLogmask\<rparr>,
      \<lparr>ci_type = 13, ci_name = ''dumpcom'', ci_req = ReqSetDumpcom, ci_res = ReturnRetval\<rparr>,
      \<lparr>ci_type = 14, ci_name = ''buildid'', ci_req = NoReq, ci_res = PrintBuildid\<rparr>,
      \<lparr>ci_type = 15, ci_name = ''privatelog'', ci_req = ReqPrivatelog, ci_res = PrintPrivatelog\<rparr>,
      \<lparr>ci_type = 16, ci_name = ''fist'', ci_req = ReqFist, ci_res = ReturnRetval\<rparr>,
      \<lparr>ci_type = 17, ci_name = ''reload_host_weight'', ci_req = NoReq, ci_res = ReturnRetval\<rparr>]"

definition find_cmd :: "string \<Rightarrow> cmd_info option" where
  "find_cmd name = find (\<lambda>ci. ci_name ci = name) cmd_info_list"

fun req_call :: "req_func \<Rightarrow> string list \<Rightarrow> u8 list \<Rightarrow> req_result" where
  "req_call NoReq argv buf = Inr buf"
| "req_call ReqSetPoolState argv buf = req_set_pool_state argv buf"
| "req_call ReqSetLogmask argv buf = req_set_logmask argv buf"
| "req_call ReqSetDumpcom argv buf = req_set_dumpcom argv buf"
| "req_call ReqPrivatelog argv buf = req_privatelog argv buf"
| "req_call ReqFist argv buf = req_fist argv buf"

text \<open>
  A command without a builder sends no body. \<open>buf\<close> is the body of the request on the
  stack, \<open>sizeof_request_body\<close> bytes.
\<close>

definition build_request :: "cmd_info \<Rightarrow> string list \<Rightarrow> u8 list \<Rightarrow> (nat \<times> u8 list) option" where
  "build_request ci argv buf =
     (if ci_req ci = NoReq then Some (0, buf)
      else (case req_call (ci_req ci) argv buf of Inl e \<Rightarrow> None | Inr body \<Rightarrow> Some (sizeof_request_body, body)))"

text \<open>
  A response function casts the body to the structure of its command; \<open>None\<close> is the case of a
  daemon that answers with another structure.
\<close>

fun res_call :: "res_func \<Rightarrow> nat \<Rightarrow> sc_response \<Rightarrow> (mtc_status \<times> string list) option" where
  "res_call PrintQueryLiveset sz (ResLiveset l) = Some (print_query_liveset sz l)"
| "res_call PrintProposeMaster sz (ResMaster retval accepted) = Some (print_propose_master sz retval accepted)"
| "res_call PrintPid sz (ResPid pid) = Some (print_pid sz pid)"
| "res_call PrintHoststate sz (ResHoststate status) = Some (print_hoststate sz status)"
| "res_call PrintLogmask sz (ResLogmask m) = Some (print_logmask sz m)"
| "res_call PrintBuildid sz (ResBuildid d i) = Some (print_buildid d i)"
| "res_call PrintPrivatelog sz (ResPrivatelog f) = Some (print_privatelog f)"
| "res_call ReturnRetval sz (ResRetval r) = Some (return_retval sz r)"
| "res_call _ sz _ = None"

definition usage_of :: "cmd_info \<Rightarrow> string" where
  "usage_of ci = ''    '' @ ci_name ci @
     (if ci_req ci = NoReq then []
      else if ci_name ci = ''set_pool_state'' then '' init|active|invalid''
      else if ci_name ci = ''setlogmask'' \<or> ci_name ci = ''resetlogmask'' then '' [all] [<MASKNAME>|<MASKNUMBER>] ... ''
      else if ci_name ci = ''dumpcom'' then '' [dump]''
      else if ci_name ci = ''privatelog'' then '' [on|off]''
      else if ci_name ci = ''fist'' then '' enable|disable <fist_point_name>''
      else [])"

definition printhelp :: "string list" where
  "printhelp = [''usage: calldaemon <command> [args]'', ''  command list''] @ map usage_of cmd_info_list"

text \<open>\<open>argv\<close> without the name of the program; the exit code and what is printed.\<close>

definition calldaemon_main :: "bool \<Rightarrow> u8 list \<Rightarrow> cd_net \<Rightarrow> string list \<Rightarrow> (int \<times> string list) option" where
  "calldaemon_main root buf net argv =
     (case argv of
        [] \<Rightarrow> Some (MTC_EXIT_INVALID_PARAMETER, [])
      | name # args \<Rightarrow>
          if name = ''help'' then Some (MTC_EXIT_SUCCESS, printhelp)
          else if \<not> root then Some (MTC_EXIT_INVALID_ENVIRONMENT, [])
          else (case find_cmd name of
                  None \<Rightarrow> Some (MTC_EXIT_INVALID_PARAMETER, [])
                | Some ci \<Rightarrow>
                    (case build_request ci args buf of
                       None \<Rightarrow> Some (MTC_EXIT_INVALID_PARAMETER, [])
                     | Some (req_len, body) \<Rightarrow>
                         (case script_call_daemon net req_len sizeof_response_body of (ret, len, res) \<Rightarrow>
                            if ret \<noteq> MTC_SUCCESS then Some (status_to_exit ret, [])
                            else map_option (\<lambda>(st, out). (status_to_exit st, out)) (res_call (ci_res ci) len res)))))"

end
