(* ===== verification/CallDaemonProps.thy ===== *)
theory CallDaemonProps
  imports CallDaemon ScProps
begin

text \<open>
  The client against the server: a request that was built is read, in whatever pieces, as the
  request of the service of that name, and the exit code is what the service reports. Then
  what the builders put into a request, and what the report of the live set lets through.
\<close>

section \<open>Bytes\<close>

text \<open>A number below \<open>2^32\<close> is put together from its bytes.\<close>

lemma bytes_value:
  assumes "0 \<le> x" and "x < (4294967296 :: int)"
  shows "x mod 256 + 256 * (x div 2 ^ 8 mod 256 + 256 * (x div 2 ^ 16 mod 256 + 256 * (x div 2 ^ 24 mod 256))) = x"
proof -
  define q1 where "q1 = x div 256"
  define q2 where "q2 = q1 div 256"
  define q3 where "q3 = q2 div 256"
  have d: "x div 2 ^ 8 = q1" "x div 2 ^ 16 = q2" "x div 2 ^ 24 = q3"
    by (simp_all add: zdiv_zmult2_eq[symmetric] q1_def q2_def q3_def)
  have "q3 = x div 16777216" by (simp add: zdiv_zmult2_eq[symmetric] q1_def q2_def q3_def)
  then have "q3 mod 256 = q3" using assms by simp
  then have "q2 mod 256 + 256 * (q3 mod 256) = q2" by (simp add: q3_def)
  moreover have "q1 mod 256 + 256 * q2 = q1" by (simp add: q2_def)
  moreover have "x mod 256 + 256 * q1 = x" by (simp add: q1_def)
  ultimately show ?thesis by (simp only: d)
qed

lemma rcat_bytes:
  "word_rcat [d, c, b, a] = (word_of_int (uint a + 256 * (uint b + 256 * (uint c + 256 * uint d))) :: u32)" for a b c d :: u8
  by (simp add: word_rcat_def)

lemma byte_value: "uint (ucast (drop_bit k w) :: u8) = uint w div 2 ^ k mod 256" for w :: u32
proof -
  have "uint w mod 4294967296 = uint w" using uint_lt2p[of w] by simp
  then show ?thesis
    by (simp add: unsigned_ucast_eq unsigned_drop_bit_eq) (simp add: take_bit_eq_mod drop_bit_eq_div)
qed

lemma u32_body_bytes: "u32_body (bytes_of_u32 w @ r) = w"
proof -
  have lt: "uint w < 4294967296" using uint_lt2p[of w] by simp
  have b0: "uint (ucast w :: u8) = uint w mod 256" using byte_value[of 0 w] by simp
  have "u32_body (bytes_of_u32 w @ r) =
      word_rcat [ucast (drop_bit 24 w) :: u8, ucast (drop_bit 16 w), ucast (drop_bit 8 w), ucast w]"
    by (simp add: u32_body_def bytes_of_u32_def del: word_rcat_def)
  also have "\<dots> = word_of_int (uint w)"
    unfolding rcat_bytes byte_value b0 bytes_value[OF uint_ge_0 lt] by (rule refl)
  finally show ?thesis by simp
qed

lemma length_bytes_of_u32 [simp]: "length (bytes_of_u32 w) = 4"
  by (simp add: bytes_of_u32_def)

lemma length_bytes_of_head [simp]: "length (bytes_of_head h) = sizeof_head"
  by (simp add: bytes_of_head_def sizeof_head_def)

lemma head_of_bytes_of_head: "head_of_bytes (bytes_of_head h) = h"
proof -
  have "u32_body (bytes_of_u32 w) = w" for w using u32_body_bytes[of w "[]"] by simp
  then show ?thesis by (simp add: head_of_bytes_def bytes_of_head_def u32_body_bytes)
qed

text \<open>The answers of \<open>read\<close> that hand out the bytes in any pieces.\<close>

definition pieces :: "u8 list option list \<Rightarrow> u8 list \<Rightarrow> bool" where
  "pieces reads bytes \<longleftrightarrow> None \<notin> set reads \<and> Some [] \<notin> set reads \<and> concat (map the reads) = bytes"

lemma read_full_done: "read_full rs (length got) got = Some (got, rs)"
  by (cases rs) auto

lemma read_full_pieces:
  "pieces rs bytes \<Longrightarrow> read_full (rs @ rest) (length got + length bytes) got = Some (got @ bytes, rest)"
proof (induction rs arbitrary: got bytes)
  case Nil
  then show ?case by (simp add: pieces_def read_full_done)
next
  case (Cons r rs)
  then obtain part where part: "r = Some part" "part \<noteq> []" by (cases r) (auto simp: pieces_def)
  define more_bytes where "more_bytes = concat (map the rs)"
  have bytes: "bytes = part @ more_bytes" and p: "pieces rs more_bytes"
    using Cons.prems part by (auto simp: pieces_def more_bytes_def)
  have "read_full (rs @ rest) (length (got @ part) + length more_bytes) (got @ part) = Some ((got @ part) @ more_bytes, rest)"
    by (rule Cons.IH[OF p])
  then show ?case using part by (simp add: bytes Let_def add.assoc)
qed

lemma request_head_valid:
  assumes "unat ty < SCRIPT_TYPE_NUM" and "req_len \<le> sizeof_request_body"
  shows "check_head_valid (request_head ty req_len) = MTC_SUCCESS" "unat (hd_length (request_head ty req_len)) = req_len"
proof -
  show "unat (hd_length (request_head ty req_len)) = req_len"
    using assms(2) by (simp add: request_head_def sizeof_request_body_def unat_of_nat)
  with assms show "check_head_valid (request_head ty req_len) = MTC_SUCCESS"
    by (simp add: check_head_valid_def request_head_def)
qed

section \<open>What the builders build\<close>

lemma length_put_u32: "4 \<le> length buf \<Longrightarrow> length (put_u32 w buf) = length buf"
  by (simp add: put_u32_def)

lemma length_put_fist:
  "length name < MAX_FIST_NAME_LEN \<Longrightarrow> sizeof_request_fist \<le> length buf \<Longrightarrow> length (put_fist name en buf) = length buf"
  by (simp add: put_fist_def bytes_of_string_def MAX_FIST_NAME_LEN_def sizeof_request_fist_def)

lemma length_req_call: "req_call f argv buf = Inr body \<Longrightarrow> length body = length buf"
  by (cases f)
     (auto simp: req_set_pool_state_def req_set_logmask_def req_set_dumpcom_def req_privatelog_def req_fist_def
        sizeof_u32_def length_put_u32 length_put_fist split: list.splits if_splits option.splits)

lemma build_request_length:
  "build_request ci args buf = Some (req_len, body) \<Longrightarrow> length buf = sizeof_request_body \<Longrightarrow>
   req_len \<le> sizeof_request_body \<and> length body = sizeof_request_body"
  by (auto simp: build_request_def length_req_call split: if_splits sum.splits)

text \<open>The pool state and the mask stand where the services look for them.\<close>

lemma put_u32_decodes: "u32_body (put_u32 w buf) = w"
  by (simp add: put_u32_def u32_body_bytes)

lemma byte_char: "char_of (unat (of_nat (of_char ch) :: u8)) = ch"
proof -
  have "of_char ch < (256 :: nat)" by simp
  then have "unat (of_nat (of_char ch) :: u8) = of_char ch" by (simp only: unat_of_nat) simp
  then show ?thesis by simp
qed

lemma byte_zero: "(of_nat (of_char ch) :: u8) = 0 \<longleftrightarrow> ch = NUL"
  using byte_char[of ch] by (auto simp: char_of_def)

lemma takeWhile_bytes:
  "NUL \<notin> set name \<Longrightarrow> takeWhile (\<lambda>b. b \<noteq> 0) (bytes_of_string name @ 0 # r) = bytes_of_string name"
  by (induction name) (auto simp: bytes_of_string_def byte_zero)

lemma put_fist_decodes:
  assumes "NUL \<notin> set name" and "length name < MAX_FIST_NAME_LEN" and "sizeof_request_fist \<le> length buf"
  shows "fist_name_body (put_fist name en buf) = name" "put_fist name en buf ! 64 \<noteq> 0 \<longleftrightarrow> en"
proof -
  show "fist_name_body (put_fist name en buf) = name"
    by (simp add: fist_name_body_def put_fist_def takeWhile_bytes[OF assms(1)])
       (simp add: bytes_of_string_def byte_char comp_def)
  have len: "length (bytes_of_string name @ [0] @ drop (length name + 1) (take MAX_FIST_NAME_LEN buf)) = 64"
    using assms(2,3) by (simp add: bytes_of_string_def MAX_FIST_NAME_LEN_def sizeof_request_fist_def)
  have "put_fist name en buf ! 64 = (if en then 1 else 0)"
    unfolding put_fist_def using len by (simp only: nth_append) simp
  then show "put_fist name en buf ! 64 \<noteq> 0 \<longleftrightarrow> en" by simp
qed

section \<open>The commands\<close>

text \<open>The service a command is meant for, the status its answer carries, and its printing.\<close>

definition service_named :: "string \<Rightarrow> service option" where
  "service_named = map_of
     [(''query_liveset'', QueryLiveset), (''propose_master'', ProposeMaster), (''disarm_fencing'', DisarmFencing),
      (''set_pool_state'', SetPoolState), (''set_excluded'', SetExcluded), (''clear_excluded'', ClearExcluded),
      (''pid'', Pid), (''gethoststate'', Hoststate), (''cancel_master'', CancelMaster), (''getlogmask'', Getlogmask),
      (''setlogmask'', Setlogmask), (''resetlogmask'', Resetlogmask), (''dumpcom'', Dumpcom), (''buildid'', Buildid),
      (''privatelog'', Privatelog), (''fist'', FistService), (''reload_host_weight'', ReloadHostWeight)]"

fun answer_status :: "sc_response \<Rightarrow> mtc_status" where
  "answer_status (ResRetval r) = r"
| "answer_status (ResMaster r _) = r"
| "answer_status _ = MTC_SUCCESS"

text \<open>Every command of the client has a thread that knows its service, and understands its answer.\<close>

definition cmd_ok :: "cmd_info \<Rightarrow> bool" where
  "cmd_ok ci \<longleftrightarrow> ci_name ci \<noteq> ''help'' \<and> unat (ci_type ci) < SCRIPT_TYPE_NUM
     \<and> service_named (ci_name ci) \<noteq> None
     \<and> thread_func (type_to_socket_index (unat (ci_type ci))) (unat (ci_type ci)) = service_named (ci_name ci)"

lemma cmds_ok: "list_all cmd_ok cmd_info_list"
  by (simp add: cmd_info_list_def cmd_ok_def SCRIPT_TYPE_NUM_def service_named_def thread_func_def
        type_to_socket_index_def type_to_func_def script_socket_table_def script_func_table_def)

lemma find_cmd_ok: "find_cmd name = Some ci \<Longrightarrow> ci \<in> set cmd_info_list \<and> ci_name ci = name \<and> cmd_ok ci"
  using cmds_ok by (auto simp: find_cmd_def find_Some_iff list_all_iff)

lemma cmd_answered:
  assumes "ci \<in> set cmd_info_list" and "service_named (ci_name ci) = Some f" and "answers f res"
  shows "\<exists>out. res_call (ci_res ci) (size_of_answer res) res = Some (answer_status res, out)"
  using assms
  by (auto simp: cmd_info_list_def service_named_def print_query_liveset_def print_propose_master_def print_pid_def
        print_hoststate_def print_logmask_def print_buildid_def print_privatelog_def return_retval_def
        split: sc_response.splits)

text \<open>The socket connects, and every byte of the request and the answer is moved.\<close>

definition net_works :: "cd_net \<Rightarrow> nat \<Rightarrow> bool" where
  "net_works net req_len \<longleftrightarrow> cn_socket net \<and> cn_connect net
     \<and> (case transfer (cn_writes net) sizeof_head of None \<Rightarrow> False | Some ws \<Rightarrow> transfer ws req_len \<noteq> None)
     \<and> (case transfer (cn_reads net) sizeof_head of None \<Rightarrow> False
        | Some rs \<Rightarrow> transfer rs (unat (hd_length (fst (cn_answer net)))) \<noteq> None)"

lemma script_call_works:
  assumes "net_works net req_len" and "cn_answer net = (rhead, res)" and "unat (hd_length rhead) = len" and "len \<le> res_len"
  shows "script_call_daemon net req_len res_len = (MTC_SUCCESS, len, res)"
  using assms by (auto simp: net_works_def script_call_daemon_def split: option.splits)

text \<open>What the server makes of a request that was written whole.\<close>

lemma serve_request_written:
  assumes "unat ty < SCRIPT_TYPE_NUM" and "req_len \<le> sizeof_request_body"
    and "pieces hreads (bytes_of_head (request_head ty req_len))" and "pieces breads bytes" and "length bytes = req_len"
  shows "serve_connection c e sock (hreads @ breads) writes s =
     serve_request c e sock (request_head ty req_len) (bytes @ replicate (sizeof_request_body - req_len) 0) writes s"
proof -
  have h: "read_full (hreads @ breads) sizeof_head [] = Some (bytes_of_head (request_head ty req_len), breads)"
    using read_full_pieces[OF assms(3), of breads "[]"] by simp
  have b: "read_full breads req_len [] = Some (bytes, [])"
    using read_full_pieces[OF assms(4), of "[]" "[]"] assms(5) by simp
  show ?thesis
    by (simp add: serve_connection_def h b head_of_bytes_of_head request_head_valid[OF assms(1,2)] assms(5))
qed

lemma serve_request_answered:
  assumes "serve_request c e sock head body writes s = Some (Answered rhead res exits, s')"
    and "thread_func sock (unat (hd_type head)) = Some f"
  shows "call_service c e f (unat (hd_length head)) body sizeof_response_body s = Inr (MTC_SUCCESS, size_of_answer res, res, s')
    \<and> answers f res \<and> unat (hd_length rhead) = size_of_answer res"
proof -
  obtain ret len res1 s1 where call: "call_service c e f (unat (hd_length head)) body sizeof_response_body s = Inr (ret, len, res1, s1)"
    using assms by (auto simp: serve_request_def split: option.splits sum.splits sc_stop.splits)
  have r: "ret = MTC_SUCCESS" "res1 = res" "s1 = s'" "hd_length rhead = of_nat len"
    using assms call by (auto simp: serve_request_def Let_def split: if_splits)
  have "answers f res \<and> len = size_of_answer res" using service_outcome[OF call] r by simp
  moreover have "size_of_answer res < 2 ^ 32" using size_fits[of res] by (simp add: sizeof_defs)
  ultimately show ?thesis using call r by (simp add: unat_of_nat)
qed

text \<open>
  C19. A command that \<open>calldaemon\<close> accepts reaches the daemon: however the bytes of its request
  arrive, the server behind the socket the client connects to calls the service of that name
  with the body the client built, filled up with zeros. When the server answers and the answer
  arrives, the client understands it, and exits with the exit code of the status in it.
\<close>

theorem command_end_to_end:
  assumes "find_cmd name = Some ci" and "build_request ci args buf = Some (req_len, body)"
    and "length buf = sizeof_request_body"
    and "pieces hreads (bytes_of_head (request_head (ci_type ci) req_len))" and "pieces breads (take req_len body)"
    and "serve_connection c e (type_to_socket_index (unat (ci_type ci))) (hreads @ breads) writes s
           = Some (Answered rhead res exits, s')"
    and "cn_answer net = (rhead, res)" and "net_works net req_len"
  shows "\<exists>f out. service_named name = Some f
     \<and> call_service c e f req_len (take req_len body @ replicate (sizeof_request_body - req_len) 0) sizeof_response_body s
         = Inr (MTC_SUCCESS, size_of_answer res, res, s')
     \<and> calldaemon_main True buf net (name # args) = Some (status_to_exit (answer_status res), out)"
proof -
  have ci: "ci \<in> set cmd_info_list" "ci_name ci = name" "cmd_ok ci" using find_cmd_ok[OF assms(1)] by blast+
  then obtain f where f: "service_named name = Some f" and ty: "unat (ci_type ci) < SCRIPT_TYPE_NUM" and "name \<noteq> ''help''"
    and thread: "thread_func (type_to_socket_index (unat (ci_type ci))) (unat (ci_type ci)) = Some f"
    by (auto simp: cmd_ok_def)
  have len: "req_len \<le> sizeof_request_body" "length (take req_len body) = req_len"
    using build_request_length[OF assms(2,3)] by simp_all
  have serve: "serve_request c e (type_to_socket_index (unat (ci_type ci))) (request_head (ci_type ci) req_len)
      (take req_len body @ replicate (sizeof_request_body - req_len) 0) writes s = Some (Answered rhead res exits, s')"
    using assms(6) unfolding serve_request_written[OF ty len(1) assms(4,5) len(2)] .
  have ty_eq: "hd_type (request_head (ci_type ci) req_len) = ci_type ci" by (simp add: request_head_def)
  have called: "call_service c e f req_len (take req_len body @ replicate (sizeof_request_body - req_len) 0) sizeof_response_body s
      = Inr (MTC_SUCCESS, size_of_answer res, res, s')" "answers f res" "unat (hd_length rhead) = size_of_answer res"
    using serve_request_answered[OF serve] thread request_head_valid(2)[OF ty len(1)] by (simp_all add: ty_eq)
  obtain out where out: "res_call (ci_res ci) (size_of_answer res) res = Some (answer_status res, out)"
    using cmd_answered[OF ci(1)] ci(2) f called(2) by blast
  have "script_call_daemon net req_len sizeof_response_body = (MTC_SUCCESS, size_of_answer res, res)"
    by (rule script_call_works[OF assms(8,7) called(3) size_fits])
  then have "calldaemon_main True buf net (name # args) = Some (status_to_exit (answer_status res), out)"
    using \<open>name \<noteq> ''help''\<close> by (simp add: calldaemon_main_def assms(1,2) out)
  then show ?thesis using f called(1) by blast
qed

text \<open>The witness: \<open>privatelog on\<close>, read in three pieces.\<close>

definition ex_buf :: "u8 list" where "ex_buf = replicate sizeof_request_body 7"

definition ex_net :: cd_net where
  "ex_net = \<lparr>cn_socket = True, cn_connect = True, cn_writes = [Some 16, Some 60, Some 8], cn_reads = [Some 10, Some 6, Some 4],
     cn_answer = (\<lparr>hd_magic = SCRIPT_MAGIC, hd_response = 1, hd_type = 15, hd_length = 4\<rparr>, ResPrivatelog True)\<rparr>"

lemma transfer_cases:
  "transfer [] n = (if n = 0 then Some [] else None)"
  "transfer (Some k # rs) n = (if n = 0 then Some (Some k # rs) else if k = 0 then None else transfer rs (n - k))"
  by (cases n; simp)+

definition ex_hreads :: "u8 list option list" where
  "ex_hreads = [Some (take 5 (bytes_of_head (request_head 15 68))), Some (drop 5 (bytes_of_head (request_head 15 68)))]"

lemma ex_command:
  "find_cmd ''privatelog'' = Some \<lparr>ci_type = 15, ci_name = ''privatelog'', ci_req = ReqPrivatelog, ci_res = PrintPrivatelog\<rparr>"
  "build_request \<lparr>ci_type = 15, ci_name = ''privatelog'', ci_req = ReqPrivatelog, ci_res = PrintPrivatelog\<rparr> [''on''] ex_buf
     = Some (68, put_u32 1 ex_buf)"
  by (simp_all add: find_cmd_def cmd_info_list_def build_request_def req_privatelog_def ex_buf_def sizeof_defs
        sizeof_request_body_def)

lemma ex_pieces:
  "pieces ex_hreads (bytes_of_head (request_head 15 68))" "pieces [Some (put_u32 1 ex_buf)] (take 68 (put_u32 1 ex_buf))"
proof -
  have "take 5 (bytes_of_head h) \<noteq> [] \<and> drop 5 (bytes_of_head h) \<noteq> []" for h
    unfolding length_greater_0_conv[symmetric] length_take length_drop length_bytes_of_head by (simp add: sizeof_head_def)
  then show "pieces ex_hreads (bytes_of_head (request_head 15 68))"
    by (auto simp: pieces_def ex_hreads_def eq_commute[of "[]"])
  show "pieces [Some (put_u32 1 ex_buf)] (take 68 (put_u32 1 ex_buf))"
    by (simp add: pieces_def put_u32_def bytes_of_u32_def ex_buf_def sizeof_request_body_def)
qed

lemma ex_served:
  "serve_connection (default_config 2 0) ex_env (type_to_socket_index (unat (15 :: u32))) (ex_hreads @ [Some (put_u32 1 ex_buf)]) [Some 20] ex_sc_state
     = Some (Answered (fst (cn_answer ex_net)) (ResPrivatelog True) False, ex_sc_state\<lparr>sc_privatelogflag := True\<rparr>)"
proof -
  have thread: "thread_func (type_to_socket_index 15) 15 = Some Privatelog"
    by (simp add: thread_func_def type_to_socket_index_def type_to_func_def script_socket_table_def script_func_table_def)
  have len: "length (take 68 (put_u32 1 ex_buf)) = 68"
    by (simp add: length_put_u32 ex_buf_def sizeof_request_body_def)
  have call: "call_service (default_config 2 0) ex_env Privatelog 68 (take 68 (put_u32 1 ex_buf)) sizeof_response_body ex_sc_state
      = Inr (MTC_SUCCESS, 4, ResPrivatelog True, ex_sc_state\<lparr>sc_privatelogflag := True\<rparr>)"
    using put_u32_decodes[of 1 ex_buf] len
    by (simp add: script_service_do_privatelog_def sizeof_defs ex_buf_def sizeof_request_body_def length_put_u32)
  have "breads = [Some (put_u32 1 ex_buf)] \<Longrightarrow> serve_connection (default_config 2 0) ex_env (type_to_socket_index 15) (ex_hreads @ breads) [Some 20] ex_sc_state
     = serve_request (default_config 2 0) ex_env (type_to_socket_index 15) (request_head 15 68) (take 68 (put_u32 1 ex_buf)) [Some 20] ex_sc_state" for breads
    using serve_request_written[OF _ _ ex_pieces len] by (simp add: SCRIPT_TYPE_NUM_def sizeof_request_body_def)
  moreover have "unat (hd_length (request_head 15 68)) = 68" "hd_type (request_head 15 68) = 15"
    by (simp_all add: request_head_def)
  ultimately show ?thesis
    by (simp add: serve_request_def thread call sizeof_head_def ex_net_def script_service_check_after_set_excluded_def
          del: call_service.simps)
qed

theorem command_end_to_end_witness:
  "\<exists>out. calldaemon_main True ex_buf ex_net [''privatelog'', ''on''] = Some (MTC_EXIT_SUCCESS, out)"
proof -
  have net: "net_works ex_net 68" by (simp add: net_works_def ex_net_def sizeof_head_def transfer_cases)
  have "\<exists>f out. service_named ''privatelog'' = Some f
     \<and> call_service (default_config 2 0) ex_env f 68 (take 68 (put_u32 1 ex_buf) @ replicate (sizeof_request_body - 68) 0)
         sizeof_response_body ex_sc_state
         = Inr (MTC_SUCCESS, size_of_answer (ResPrivatelog True), ResPrivatelog True, ex_sc_state\<lparr>sc_privatelogflag := True\<rparr>)
     \<and> calldaemon_main True ex_buf ex_net [''privatelog'', ''on''] = Some (status_to_exit (answer_status (ResPrivatelog True)), out)"
    by (rule command_end_to_end[OF ex_command(1,2) _ _ _ _ _ net])
      (use ex_pieces ex_served in \<open>simp_all add: ex_buf_def ex_net_def\<close>)
  moreover have "status_to_exit (answer_status (ResPrivatelog True)) = MTC_EXIT_SUCCESS" by (simp add: status_to_exit_success)
  ultimately show ?thesis by auto
qed

section \<open>The report of the live set\<close>

text \<open>
  What Xapi reports as an error reaches the XML of the report without the three characters
  that would break it; but the letter R is lost as well, it is not among the valid ones.
\<close>

lemma cleanup_string_safe:
  "set (cleanup_string n src) \<subseteq> set VALID_CHARS" "length (cleanup_string n src) \<le> n"
  by (induction n src rule: cleanup_string.induct) auto

lemma valid_chars: "CHR ''<'' \<notin> set VALID_CHARS" "CHR ''>'' \<notin> set VALID_CHARS" "CHR ''&'' \<notin> set VALID_CHARS"
  "CHR ''R'' \<notin> set VALID_CHARS"
  by (simp_all add: VALID_CHARS_def)

lemma cleanup_string_xml_safe:
  "CHR ''<'' \<notin> set (cleanup_string n src)" "CHR ''>'' \<notin> set (cleanup_string n src)"
  "CHR ''&'' \<notin> set (cleanup_string n src)" "CHR ''R'' \<notin> set (cleanup_string n src)"
  using cleanup_string_safe(1)[of n src] valid_chars by auto

section \<open>Masks\<close>

text \<open>\<open>all\<close> sets bit 14 besides the fourteen bits of the mask.\<close>

lemma logmask_all_sets_bit_14: "bit (the (logmask_args [''all''] 0)) 14"
  by (simp add: is_digit_def mask_bit_def LOG_MASK_BITS_def LOG_MASK_BASE_def bit_or_iff bit_push_bit_iff)

end
