(* ===== verification/StateFileTools.thy ===== *)
theory StateFileTools
  imports StateFileIO Printing ErrorCodes
begin

text \<open>
  The two tools for the State-File: \<^verbatim>\<open>commands/writestatefile.c\<close> sets it up or changes
  one field of it, \<^verbatim>\<open>commands/dumpstatefile.c\<close> prints it. What
  \<open>interpret_config_file\<close> returned and left in \<open>ha_config\<close>, and whether the file
  could be opened, are arguments.
\<close>

section \<open>writestatefile\<close>

definition UUID_zero :: uuid where "UUID_zero = replicate MTC_UUID_SIZE (CHR ''0'')"

text \<open>The static image of the file, zeroed.\<close>

definition zero_global :: sf_global where
  "zero_global = \<lparr>g_sig = 0, g_sig_inv = 0, g_checksum = 0, g_version = 0, g_length_global = 0,
     g_length_host_specfic = 0, g_max_hosts = 0, g_gen_uuid = zero_uuid, g_pool_state = SF_STATE_NONE,
     g_master = zero_uuid, g_config_hosts = 0, g_end_marker = 0\<rparr>"

definition zero_host :: sf_host where
  "zero_host = \<lparr>h_sig = 0, h_sig_inv = 0, h_checksum = 0, h_sequence = 0, h_host_index = 0, h_host_uuid = zero_uuid,
     h_excluded = 0, h_starting = 0, h_since_last_hb_receipt = (\<lambda>_. 0), h_since_last_sf_update = (\<lambda>_. 0),
     h_since_xapi_restart = 0, h_current_liveset = hm_init_reset, h_proposed_liveset = hm_init_reset,
     h_hbdomain = hm_init_reset, h_sfdomain = hm_init_reset, h_lock_request = 0, h_lock_grant = hm_init_reset,
     h_sm_phase = SM_PHASE_STARTING, h_weight = 0, h_end_marker = 0\<rparr>"

text \<open>
  \<open>wio k\<close> is what write \<open>k\<close> of the run meets. The first one
  writes the zeroed image over the whole file.
\<close>

definition sizeof_state_file :: int where "sizeof_state_file = 4096 * 65"

definition write_zeros :: "(nat \<Rightarrow> write_io) \<Rightarrow> device \<Rightarrow> mtc_status \<times> device" where
  "write_zeros wio dev =
     (let io = wio 0
      in (sf_write (io_seek io) (io_ret io) sizeof_state_file,
          dev\<lparr>dv_global := after_write io sizeof_state_file (dv_global dev) zero_global (io_torn_global io),
              dv_host := (\<lambda>i. if i < MAX_HOST_NUM
                then after_write io sizeof_state_file (dv_host dev i) zero_host (io_torn_host io i) else dv_host dev i)\<rparr>))"

definition on_write :: "(nat \<Rightarrow> write_io) \<Rightarrow> nat \<Rightarrow> device \<Rightarrow> device" where
  "on_write wio k dev = dev\<lparr>dv_io := wio k\<rparr>"

text \<open>The loop over the host elements: the first failure returns.\<close>

fun clear_hosts :: "(nat \<Rightarrow> write_io) \<Rightarrow> nat list \<Rightarrow> device \<Rightarrow> mtc_status \<times> device" where
  "clear_hosts wio [] dev = (MTC_SUCCESS, dev)"
| "clear_hosts wio (i # is) dev =
     (case sf_writehostspecific (on_write wio (i + 2) dev) i zero_host of (status, _, dev1) \<Rightarrow>
        if status \<noteq> MTC_SUCCESS then (status, dev1) else clear_hosts wio is dev1)"

definition initial_global :: "ha_config \<Rightarrow> sf_global" where
  "initial_global c = zero_global\<lparr>g_gen_uuid := gen_UUID c, g_pool_state := SF_STATE_INIT, g_master := UUID_zero,
     g_config_hosts := of_nat (num_host c)\<rparr>"

definition global_init_state :: "ha_config \<Rightarrow> (nat \<Rightarrow> write_io) \<Rightarrow> device \<Rightarrow> mtc_status \<times> device" where
  "global_init_state c wio dev =
     (case write_zeros wio dev of (status, dev1) \<Rightarrow>
        if status \<noteq> MTC_SUCCESS then (status, dev1)
        else (case sf_writeglobal (on_write wio 1 dev1) (initial_global c) of (status, _, dev2) \<Rightarrow>
                if status \<noteq> MTC_SUCCESS then (status, dev2)
                else clear_hosts wio [0..<MAX_HOST_NUM] dev2))"

text \<open>The generation of the pool is not compared here.\<close>

definition global_read_and_set_state :: "u32 \<Rightarrow> device \<Rightarrow> mtc_status \<times> device" where
  "global_read_and_set_state newstate dev =
     (case sf_readglobal dev zero_global None of (status, g) \<Rightarrow>
        if status \<noteq> MTC_SUCCESS then (status, dev)
        else (case sf_writeglobal dev (g\<lparr>g_pool_state := newstate\<rparr>) of (status, _, dev1) \<Rightarrow> (status, dev1)))"

definition host_specific_ex :: "ha_config \<Rightarrow> bool \<Rightarrow> device \<Rightarrow> mtc_status \<times> device" where
  "host_specific_ex c excluded dev =
     (case sf_readglobal dev zero_global None of (status, g) \<Rightarrow>
        if status \<noteq> MTC_SUCCESS then (status, dev)
        else (case sf_readhostspecific dev (my_index c) zero_host of (status, h) \<Rightarrow>
                if status \<noteq> MTC_SUCCESS then (status, dev)
                else if g_pool_state g \<noteq> SF_STATE_ACTIVE then (MTC_ERROR_SM_INVALID_POOL_STATE, dev)
                else (case sf_writehostspecific dev (my_index c) (h\<lparr>h_excluded := (if excluded then 1 else 0)\<rparr>) of
                        (status, _, dev1) \<Rightarrow> (status, dev1))))"

text \<open>
  \<open>argv\<close> without the name of the program. The test of the configuration is for a negative
  status, as the code has it. Commands other than \<open>setinit\<close> write once.
\<close>

definition writestatefile_main :: "string list \<Rightarrow> mtc_status \<times> ha_config \<Rightarrow> bool \<Rightarrow> (nat \<Rightarrow> write_io) \<Rightarrow> device \<Rightarrow> int \<times> device" where
  "writestatefile_main argv conf opened wio dev =
     (case argv of
        [cmd, path] \<Rightarrow>
          (case conf of (status, c) \<Rightarrow>
             if status < 0 then (status_to_exit status, dev)
             else if \<not> opened then (status_to_exit MTC_ERROR_SF_OPEN, dev)
             else (case (if cmd = ''setinit'' then global_init_state c wio dev
                         else if cmd = ''setactive'' then global_read_and_set_state SF_STATE_ACTIVE (on_write wio 0 dev)
                         else if cmd = ''setinvalid'' then global_read_and_set_state SF_STATE_INVALID (on_write wio 0 dev)
                         else if cmd = ''setex'' then host_specific_ex c True (on_write wio 0 dev)
                         else if cmd = ''clearex'' then host_specific_ex c False (on_write wio 0 dev)
                         else (MTC_ERROR_INVALID_PARAMETER, dev)) of
                     (status, dev1) \<Rightarrow> (status_to_exit status, dev1)))
      | _ \<Rightarrow> (MTC_EXIT_INVALID_PARAMETER, dev))"

section \<open>dumpstatefile\<close>

text \<open>The bits of the mask of what is not valid.\<close>

record invmask =
  INV_SIG :: bool
  INV_VER :: bool
  INV_GUUID :: bool
  INV_CSUM :: bool

definition sf_readglobal_nocheck :: "device \<Rightarrow> uuid \<Rightarrow> (sf_global \<times> invmask) option" where
  "sf_readglobal_nocheck dev expected_uuid =
     (case dv_global dev of
        None \<Rightarrow> None
      | Some g \<Rightarrow> Some (g, \<lparr>INV_SIG = g_sig g \<noteq> sf_create_sig SIG_SF_GLOBAL
                               \<or> g_sig_inv g \<noteq> sf_create_inverted_sig SIG_SF_GLOBAL,
           INV_VER = g_version g \<noteq> SF_VERSION,
           INV_GUUID = (uuid_comp expected_uuid UUID_zero \<and> uuid_comp (g_gen_uuid g) expected_uuid),
           INV_CSUM = sf_checksum (global_words g) \<noteq> g_checksum g\<rparr>))"

definition sf_readhostspecific_nocheck :: "device \<Rightarrow> nat \<Rightarrow> (sf_host \<times> invmask) option" where
  "sf_readhostspecific_nocheck dev host_index =
     (case dv_host dev host_index of
        None \<Rightarrow> None
      | Some h \<Rightarrow> Some (h, \<lparr>INV_SIG = h_sig h \<noteq> sf_create_sig SIG_SF_HOST
                               \<or> h_sig_inv h \<noteq> sf_create_inverted_sig SIG_SF_HOST,
           INV_VER = False, INV_GUUID = False,
           INV_CSUM = sf_checksum (host_words h) \<noteq> h_checksum h\<rparr>))"

text \<open>\<open>HEADER\<close>: an invalid line is marked with two stars.\<close>

definition line :: "bool \<Rightarrow> string \<Rightarrow> string" where
  "line im txt = (if im then ''**'' else ''  '') @ txt"

definition print_hex :: "u32 \<Rightarrow> string" where "print_hex w = ''0x'' @ hex_digits (unat w)"

definition byte_of :: "u32 \<Rightarrow> nat \<Rightarrow> char" where "byte_of w k = char_of (unat (drop_bit k w AND 0xFF))"

definition sig_string :: "u32 \<Rightarrow> string" where
  "sig_string sig = print_hex sig @ ''('' @ [byte_of sig 0, byte_of sig 8, byte_of sig 16, byte_of sig 24] @ '')''"

definition uuid_string :: "uuid \<Rightarrow> string" where
  "uuid_string uuid = c_str MTC_UUID_SIZE uuid"

text \<open>The hosts from the lowest on, a dash before every fourth one.\<close>

fun hostmap_loop :: "hostmap \<Rightarrow> nat \<Rightarrow> nat list \<Rightarrow> string" where
  "hostmap_loop m count [] = []"
| "hostmap_loop m count (i # is) =
     (if count + 1 \<ge> 4 then CHR ''-'' # (if hm_ison m i then CHR ''1'' else CHR ''0'') # hostmap_loop m 0 is
      else (if hm_ison m i then CHR ''1'' else CHR ''0'') # hostmap_loop m (count + 1) is)"

definition hostmap_string :: "ha_config \<Rightarrow> hostmap \<Rightarrow> string" where
  "hostmap_string c m = ''bitmap l->h('' @ hostmap_loop m 0 [0..<num_host c] @ '')''"

definition dump_global :: "sf_global \<Rightarrow> invmask \<Rightarrow> string list" where
  "dump_global g im =
     [line (INV_SIG im) (''global.sig = '' @ sig_string (g_sig g)),
      line (INV_SIG im) (''global.sig_inv = '' @ print_hex (g_sig_inv g)),
      line (INV_CSUM im) (''global.checksum = '' @ print_hex (g_checksum g)),
      line (INV_VER im) (''global.version = '' @ print_u32 (g_version g)),
      line False (''global.length_global = '' @ print_u32 (g_length_global g)),
      line False (''global.length_host_specfic = '' @ print_u32 (g_length_host_specfic g)),
      line False (''global.max_hosts = '' @ print_u32 (g_max_hosts g)),
      line (INV_GUUID im) (''global.gen_uuid = '' @ uuid_string (g_gen_uuid g)),
      line False (''global.pool_state = '' @ print_u32 (g_pool_state g)),
      line False (''global.master = '' @ uuid_string (g_master g)),
      line False (''global.config_hosts = '' @ print_u32 (g_config_hosts g))]"

definition dump_host :: "ha_config \<Rightarrow> nat \<Rightarrow> sf_host \<Rightarrow> invmask \<Rightarrow> string list" where
  "dump_host c i h im =
     (let field = (\<lambda>bad name txt. line bad (''host['' @ print_int2 (int i) @ ''].'' @ name @ '' = '' @ txt));
          row = (\<lambda>name f. map (\<lambda>j. field False (name @ ''['' @ print_int2 (int j) @ '']'') (print_int (f j))) [0..<num_host c])
      in [field (INV_SIG im) ''sig'' (sig_string (h_sig h)),
          field (INV_SIG im) ''sig_inv'' (print_hex (h_sig_inv h)),
          field (INV_CSUM im) ''checksum'' (print_hex (h_checksum h)),
          field False ''sequence'' (print_u32 (h_sequence h)),
          field False ''host_index'' (print_u32 (h_host_index h)),
          field False ''host_uuid'' (uuid_string (h_host_uuid h)),
          field False ''excluded'' (print_u32 (h_excluded h)),
          field False ''starting'' (print_u32 (h_starting h))]
         @ row ''since_last_hb_receipt'' (h_since_last_hb_receipt h)
         @ row ''since_last_sf_update'' (h_since_last_sf_update h)
         @ [field False ''current_liveset'' (hostmap_string c (h_current_liveset h)),
            field False ''proposed_liveset'' (hostmap_string c (h_proposed_liveset h)),
            field False ''hbdomain'' (hostmap_string c (h_hbdomain h)),
            field False ''sfdomain'' (hostmap_string c (h_sfdomain h)),
            field False ''lock_request'' (print_u32 (h_lock_request h)),
            field False ''lock_grant'' (hostmap_string c (h_lock_grant h)),
            field False ''since_xapi_restart_first_attempted'' (print_int (h_since_xapi_restart h)),
            field False ''sequence'' (print_u32 (h_sequence h))])"

abbreviation separator :: string where "separator \<equiv> ''---------------------------''"

text \<open>The loop over the hosts ends at the first element that cannot be read.\<close>

fun dump_hosts :: "ha_config \<Rightarrow> device \<Rightarrow> nat list \<Rightarrow> int \<times> string list" where
  "dump_hosts c dev [] = (status_to_exit MTC_SUCCESS, [])"
| "dump_hosts c dev (i # is) =
     (case sf_readhostspecific_nocheck dev i of
        None \<Rightarrow> (status_to_exit MTC_ERROR_SF_IO_ERROR, [])
      | Some (h, im) \<Rightarrow>
          (case dump_hosts c dev is of (exit_code, out) \<Rightarrow> (exit_code, dump_host c i h im @ [separator] @ out)))"

definition dumpstatefile_main :: "string list \<Rightarrow> mtc_status \<times> ha_config \<Rightarrow> bool \<Rightarrow> device \<Rightarrow> int \<times> string list" where
  "dumpstatefile_main argv conf opened dev =
     (case argv of
        [path] \<Rightarrow>
          (case conf of (status, c) \<Rightarrow>
             if status < 0 then (status_to_exit status, [])
             else if \<not> opened then (status_to_exit MTC_ERROR_SF_OPEN, [])
             else (case sf_readglobal_nocheck dev (gen_UUID c) of
                     None \<Rightarrow> (status_to_exit MTC_ERROR_SF_IO_ERROR, [])
                   | Some (g, im) \<Rightarrow>
                       (case dump_hosts c dev [0..<num_host c] of (exit_code, out) \<Rightarrow>
                          (exit_code, dump_global g im @ [separator] @ out))))
      | _ \<Rightarrow> (MTC_EXIT_INVALID_PARAMETER, []))"

end
