(* ===== verification/StateFileToolsProps.thy ===== *)
theory StateFileToolsProps
  imports StateFileTools
begin

text \<open>
  What the State-File tools guarantee: the marks of a dump are what the daemon refuses, what a run of
  \<open>setinit\<close> leaves for every outcome of its writes, and that a change of one field leaves the rest.
\<close>

section \<open>Dumps\<close>

text \<open>A marked line.\<close>

definition marked :: "string \<Rightarrow> bool" where
  "marked l \<longleftrightarrow> take 2 l = ''**''"

lemma marked_line [simp]: "marked (line bad txt) = bad"
  by (simp add: marked_def line_def)

lemma marked_lines:
  "list_ex marked (dump_global g im) \<longleftrightarrow> INV_SIG im \<or> INV_CSUM im \<or> INV_VER im \<or> INV_GUUID im"
  "list_ex marked (dump_host c i h im) \<longleftrightarrow> INV_SIG im \<or> INV_CSUM im"
  by (auto simp: dump_global_def dump_host_def Let_def list_ex_iff)

text \<open>
  \<open>dumpstatefile\<close> marks a line of a section that it can read exactly when the daemon refuses
  this section: the global one as not of its generation and format, a host element as damaged.
\<close>

lemma dump_marks_what_daemon_refuses:
  assumes "sf_readglobal_nocheck dev (gen_UUID c) = Some (g, gm)" and "sf_readhostspecific_nocheck dev i = Some (h, em)"
    and "uuid_comp (gen_UUID c) UUID_zero"
  shows "list_ex marked (dump_global g gm) = (fst (sf_readglobal dev gbuf (Some (gen_UUID c))) \<noteq> MTC_SUCCESS)
    \<and> list_ex marked (dump_host c i h em) = (fst (sf_readhostspecific dev i hbuf) \<noteq> MTC_SUCCESS)"
  using assms unfolding marked_lines
  by (auto simp: sf_readglobal_nocheck_def sf_readglobal_def validate_global_def sf_readhostspecific_nocheck_def
      sf_readhostspecific_def validate_host_def split: option.splits if_splits)

section \<open>Setting up the file\<close>

text \<open>A file of a pool that has not started yet: what every host reads from it.\<close>

definition fresh_file :: "ha_config \<Rightarrow> device \<Rightarrow> bool" where
  "fresh_file c dev \<longleftrightarrow>
     (case sf_readglobal dev zero_global (Some (gen_UUID c)) of (status, g) \<Rightarrow>
        status = MTC_SUCCESS \<and> g_pool_state g = SF_STATE_INIT \<and> g_master g = UUID_zero
        \<and> g_config_hosts g = of_nat (num_host c))
     \<and> all_hosts MAX_HOST_NUM (\<lambda>i. case sf_readhostspecific dev i zero_host of (status, h) \<Rightarrow>
        status = MTC_SUCCESS \<and> h_excluded h = 0 \<and> h_starting h = 0 \<and> h_lock_request h = 0)"

text \<open>A section that the daemon refuses.\<close>

definition refused_file :: "device \<Rightarrow> bool" where
  "refused_file dev \<longleftrightarrow> fst (sf_readglobal dev zero_global None) = MTC_ERROR_SF_CORRUPTION
     \<or> some_host MAX_HOST_NUM (\<lambda>i. fst (sf_readhostspecific dev i zero_host) = MTC_ERROR_SF_CORRUPTION)"

lemma zero_refused: "validate_host zero_host = MTC_ERROR_SF_CORRUPTION" "validate_global zero_global u = MTC_ERROR_SF_CORRUPTION"
  by (simp_all add: validate_host_def validate_global_def zero_host_def zero_global_def sf_create_sig_def
        SIG_SF_HOST_def SIG_SF_GLOBAL_def)

text \<open>The 66 writes of a run: their sizes, whether one is taken for a success, and whether it was one.\<close>

definition setinit_size :: "nat \<Rightarrow> int" where
  "setinit_size k = (if k = 0 then sizeof_state_file else if k = 1 then sizeof_sf_global else sizeof_sf_host)"

definition reports :: "(nat \<Rightarrow> write_io) \<Rightarrow> nat \<Rightarrow> bool" where
  "reports wio k \<longleftrightarrow> io_seek (wio k) \<and> 0 \<le> io_ret (wio k) (sf_roundup (setinit_size k))"

definition whole :: "(nat \<Rightarrow> write_io) \<Rightarrow> nat \<Rightarrow> bool" where
  "whole wio k \<longleftrightarrow> write_complete (wio k) (setinit_size k)"

lemma setinit_size_pos: "0 \<le> sf_roundup (setinit_size k)"
  by (simp add: setinit_size_def sf_roundup_def sizeof_state_file_def sizeof_sf_global_def sizeof_sf_host_def)

lemma whole_reports: "whole wio k \<Longrightarrow> reports wio k"
  using setinit_size_pos[of k] by (simp add: whole_def reports_def write_complete_def)

lemma on_write_sel [simp]: "dv_global (on_write wio k dev) = dv_global dev" "dv_host (on_write wio k dev) = dv_host dev"
  "dv_io (on_write wio k dev) = wio k"
  by (simp_all add: on_write_def)

lemma setinit_writes:
  "sf_writehostspecific (on_write wio (i + 2) dev) i h =
     (if reports wio (i + 2) then MTC_SUCCESS else MTC_ERROR_SF_IO_ERROR, stamp_host h,
      (on_write wio (i + 2) dev)\<lparr>dv_host := (dv_host dev)(i :=
        (if \<not> io_seek (wio (i + 2)) then dv_host dev i
         else if whole wio (i + 2) then Some (stamp_host h) else io_torn_host (wio (i + 2)) i))\<rparr>)"
  "sf_writeglobal (on_write wio 1 dev) g =
     (if reports wio 1 then MTC_SUCCESS else MTC_ERROR_SF_IO_ERROR, stamp_global g,
      (on_write wio 1 dev)\<lparr>dv_global :=
        (if \<not> io_seek (wio 1) then dv_global dev
         else if whole wio 1 then Some (stamp_global g) else io_torn_global (wio 1))\<rparr>)"
  by (auto simp: sf_writehostspecific_def sf_writeglobal_def sf_write_def reports_def whole_def setinit_size_def
      after_write_def Let_def)

text \<open>The loop: an element whose write failed stops it, and those behind it are not touched.\<close>

lemma clear_hosts_status:
  "fst (clear_hosts wio is dev) = (if list_all (\<lambda>i. reports wio (i + 2)) is then MTC_SUCCESS else MTC_ERROR_SF_IO_ERROR)"
  by (induction "is" arbitrary: dev) (simp_all add: setinit_writes del: add_2_eq_Suc' add_2_eq_Suc)

lemma clear_hosts_global: "dv_global (snd (clear_hosts wio is dev)) = dv_global dev"
  by (induction "is" arbitrary: dev) (simp_all add: setinit_writes del: add_2_eq_Suc' add_2_eq_Suc)

lemma clear_hosts_others: "i \<notin> set is \<Longrightarrow> dv_host (snd (clear_hosts wio is dev)) i = dv_host dev i"
  by (induction "is" arbitrary: dev) (simp_all add: setinit_writes del: add_2_eq_Suc' add_2_eq_Suc)

lemma clear_hosts_done:
  assumes "list_all (\<lambda>i. reports wio (i + 2)) is" and "distinct is" and "i \<in> set is"
  shows "dv_host (snd (clear_hosts wio is dev)) i =
    (if whole wio (i + 2) then Some (stamp_host zero_host) else io_torn_host (wio (i + 2)) i)"
  using assms
proof (induction "is" arbitrary: dev)
  case (Cons j "is")
  have "io_seek (wio (j + 2))" using Cons.prems(1) by (simp add: reports_def)
  then show ?case
    using Cons.prems Cons.IH clear_hosts_others[of j "is" wio]
    by (cases "i = j") (simp_all add: setinit_writes del: add_2_eq_Suc' add_2_eq_Suc)
qed simp

lemma clear_hosts_stops:
  assumes "\<not> reports wio (j + 2)" and "i \<notin> set xs" and "i \<noteq> j \<or> \<not> io_seek (wio (j + 2))"
  shows "dv_host (snd (clear_hosts wio (xs @ j # ys) dev)) i = dv_host dev i"
  using assms by (induction xs arbitrary: dev) (auto simp add: setinit_writes simp del: add_2_eq_Suc' add_2_eq_Suc)

lemma stamped_zero_host: "validate_host (stamp_host zero_host) = MTC_SUCCESS" "h_excluded (stamp_host zero_host) = 0"
  "h_starting (stamp_host zero_host) = 0" "h_lock_request (stamp_host zero_host) = 0"
  by (simp_all add: validate_stamp_host) (simp_all add: stamp_host_def Let_def zero_host_def)

lemma stamped_initial_global: "validate_global (stamp_global (initial_global c)) (Some (gen_UUID c)) = MTC_SUCCESS"
  "g_pool_state (stamp_global (initial_global c)) = SF_STATE_INIT" "g_master (stamp_global (initial_global c)) = UUID_zero"
  "g_config_hosts (stamp_global (initial_global c)) = of_nat (num_host c)"
  by (simp_all add: validate_stamp_global initial_global_def) (simp_all add: stamp_global_def Let_def)

text \<open>The first write covers the whole file.\<close>

lemma write_zeros_outcome:
  "fst (write_zeros wio dev) = (if reports wio 0 then MTC_SUCCESS else MTC_ERROR_SF_IO_ERROR)"
  "whole wio 0 \<Longrightarrow> i < MAX_HOST_NUM \<Longrightarrow> dv_host (snd (write_zeros wio dev)) i = Some zero_host"
  "\<not> io_seek (wio 0) \<Longrightarrow> dv_global (snd (write_zeros wio dev)) = dv_global dev
     \<and> dv_host (snd (write_zeros wio dev)) = dv_host dev"
  by (auto simp: write_zeros_def Let_def sf_write_def reports_def whole_def setinit_size_def after_write_def write_complete_def)

definition setinit_done :: "ha_config \<Rightarrow> (nat \<Rightarrow> write_io) \<Rightarrow> device \<Rightarrow> bool" where
  "setinit_done c wio dev \<longleftrightarrow>
     dv_global dev = (if whole wio 1 then Some (stamp_global (initial_global c)) else io_torn_global (wio 1))
     \<and> all_hosts MAX_HOST_NUM (\<lambda>i. dv_host dev i =
         (if whole wio (i + 2) then Some (stamp_host zero_host) else io_torn_host (wio (i + 2)) i))"

lemma refused_zero: "i < MAX_HOST_NUM \<Longrightarrow> dv_host dev i = Some zero_host \<Longrightarrow> refused_file dev"
  by (auto simp: refused_file_def sf_readhostspecific_def zero_refused split: option.split intro!: exI[of _ i])

lemma setinit_fresh:
  assumes "setinit_done c wio dev" and "\<And>k. 1 \<le> k \<Longrightarrow> k < MAX_HOST_NUM + 2 \<Longrightarrow> whole wio k"
  shows "fresh_file c dev"
proof -
  have "dv_host dev i = Some (stamp_host zero_host)" if "i < MAX_HOST_NUM" for i
    using assms that by (simp add: setinit_done_def)
  moreover have "dv_global dev = Some (stamp_global (initial_global c))"
    using assms by (simp add: setinit_done_def MAX_HOST_NUM_def)
  ultimately show ?thesis
    by (simp add: fresh_file_def sf_readglobal_def sf_readhostspecific_def stamped_zero_host stamped_initial_global)
qed

text \<open>What the run leaves, by its first failing write.\<close>

definition after_global :: "ha_config \<Rightarrow> (nat \<Rightarrow> write_io) \<Rightarrow> device \<Rightarrow> device" where
  "after_global c wio dev = snd (snd (sf_writeglobal (on_write wio 1 (snd (write_zeros wio dev))) (initial_global c)))"

lemma after_global_host: "dv_host (after_global c wio dev) = dv_host (snd (write_zeros wio dev))"
  by (simp add: after_global_def sf_writeglobal_def Let_def)

lemma global_init_state_run:
  "global_init_state c wio dev =
     (if \<not> reports wio 0 then (MTC_ERROR_SF_IO_ERROR, snd (write_zeros wio dev))
      else if \<not> reports wio 1 then (MTC_ERROR_SF_IO_ERROR, after_global c wio dev)
      else clear_hosts wio [0..<MAX_HOST_NUM] (after_global c wio dev))"
  using write_zeros_outcome(1)[of wio dev]
  by (auto simp: global_init_state_def after_global_def setinit_writes(2)[unfolded One_nat_def] split: prod.split)

lemma setinit_succeeds:
  assumes "\<And>k. k < MAX_HOST_NUM + 2 \<Longrightarrow> reports wio k"
  shows "fst (global_init_state c wio dev) = MTC_SUCCESS" and "setinit_done c wio (snd (global_init_state c wio dev))"
proof -
  let ?dev = "after_global c wio dev"
  have first: "reports wio 0" "reports wio 1" and loop: "list_all (\<lambda>i. reports wio (i + 2)) [0..<MAX_HOST_NUM]"
    using assms by (simp_all add: list_all_iff)
  have run: "global_init_state c wio dev = clear_hosts wio [0..<MAX_HOST_NUM] ?dev"
    using first by (simp add: global_init_state_run)
  show "fst (global_init_state c wio dev) = MTC_SUCCESS" using loop by (simp add: run clear_hosts_status)
  have "io_seek (wio 1)" using first(2) by (simp add: reports_def)
  then have "dv_global ?dev = (if whole wio 1 then Some (stamp_global (initial_global c)) else io_torn_global (wio 1))"
    by (simp add: after_global_def setinit_writes(2)[unfolded One_nat_def])
  then show "setinit_done c wio (snd (global_init_state c wio dev))"
    using clear_hosts_done[OF loop] by (simp add: setinit_done_def run clear_hosts_global)
qed

lemma setinit_fails:
  assumes "\<not> reports wio k" and "k < MAX_HOST_NUM + 2"
  shows "fst (global_init_state c wio dev) = MTC_ERROR_SF_IO_ERROR"
proof -
  consider "k = 0" | "k = 1" | i where "i < MAX_HOST_NUM" "k = i + 2"
    using assms(2) by (metis One_nat_def add_2_eq_Suc' add_less_cancel_right not0_implies_Suc)
  then show ?thesis
    using assms(1)
    by cases (auto simp: global_init_state_run clear_hosts_status list_all_iff simp del: add_2_eq_Suc' add_2_eq_Suc)
qed

lemma setinit_refused:
  assumes "\<not> reports wio k" and "k < MAX_HOST_NUM + 2" and "whole wio 0" and "k \<le> MAX_HOST_NUM \<or> \<not> io_seek (wio k)"
  shows "refused_file (snd (global_init_state c wio dev))"
proof -
  let ?dev = "after_global c wio dev" and ?last = "MAX_HOST_NUM - 1"
  have last: "?last < MAX_HOST_NUM" by (simp add: MAX_HOST_NUM_def)
  have zero: "dv_host ?dev ?last = Some zero_host"
    using write_zeros_outcome(2)[OF assms(3) last] by (simp add: after_global_host)
  have r0: "reports wio 0" by (rule whole_reports[OF assms(3)])
  have "dv_host (snd (global_init_state c wio dev)) ?last = Some zero_host"
  proof (cases "reports wio 1")
    case False
    then show ?thesis using zero r0 by (simp add: global_init_state_run)
  next
    case True
    define j where "j = k - 2"
    have "k \<noteq> 0" "k \<noteq> 1" using True r0 assms(1) by metis+
    then have k: "k = j + 2" "j < MAX_HOST_NUM" using assms(2) by (simp_all add: j_def)
    then have split: "[0..<MAX_HOST_NUM] = [0..<j] @ j # [Suc j..<MAX_HOST_NUM]"
      using upt_add_eq_append[of 0 j "MAX_HOST_NUM - j"] by (simp add: upt_conv_Cons)
    have "?last \<noteq> j \<or> \<not> io_seek (wio (j + 2))" "?last \<notin> set [0..<j]"
      using assms(4) k by (auto simp: MAX_HOST_NUM_def)
    then show ?thesis
      using clear_hosts_stops[of wio j ?last "[0..<j]" "[Suc j..<MAX_HOST_NUM]" ?dev] assms(1) k zero True r0
      by (simp only: global_init_state_run split) simp
  qed
  then show ?thesis by (rule refused_zero[OF last])
qed

lemma setinit_untouched:
  assumes "\<not> io_seek (wio 0)"
  shows "dv_global (snd (global_init_state c wio dev)) = dv_global dev
    \<and> dv_host (snd (global_init_state c wio dev)) = dv_host dev"
  using write_zeros_outcome(3)[of wio dev, OF assms] assms by (simp add: global_init_state_run reports_def)

text \<open>
  C24. \<open>writestatefile setinit\<close> exits with success exactly when none of its 66 writes reports an
  error, and with the code for the State-File otherwise. After a success every section of the file holds what
  its own write left, and when all these writes were complete every host reads a valid file of its
  generation, in the state INIT, with no host excluded and no lock requested; but \<open>write\<close> is
  only tested for an error, so that a section whose write was short is whatever it left. After a failure
  the file is untouched when the first write did not reach it; when the zeroes
  were written, and a later write but the last failed, or did not reach the file, the file has an element that
  the daemon refuses. (A failed write of the zeroes, or of the last element, may leave anything in its place.)
\<close>

theorem setinit_outcome:
  "case writestatefile_main [''setinit'', path] (MTC_SUCCESS, c) True wio dev of (exit_code, dev') \<Rightarrow>
     (case first_host (MAX_HOST_NUM + 2) (\<lambda>k. \<not> reports wio k) of
        None \<Rightarrow> exit_code = MTC_EXIT_SUCCESS \<and> setinit_done c wio dev'
          \<and> ((\<forall>k\<in>{1..MAX_HOST_NUM + 1}. whole wio k) \<longrightarrow> fresh_file c dev')
      | Some k \<Rightarrow> exit_code = MTC_EXIT_CAN_NOT_ACCESS_STATEFILE
          \<and> (if io_seek (wio 0) then whole wio 0 \<and> (k \<le> MAX_HOST_NUM \<or> \<not> io_seek (wio k)) \<longrightarrow> refused_file dev'
             else dv_global dev' = dv_global dev \<and> dv_host dev' = dv_host dev))"
proof -
  obtain status dev' where run: "global_init_state c wio dev = (status, dev')" by fastforce
  have exit: "status_to_exit MTC_SUCCESS = MTC_EXIT_SUCCESS"
    "status_to_exit MTC_ERROR_SF_IO_ERROR = MTC_EXIT_CAN_NOT_ACCESS_STATEFILE"
    by (simp_all add: status_to_exit_def mtc_errtable_def)
  show ?thesis
  proof (cases "first_host (MAX_HOST_NUM + 2) (\<lambda>k. \<not> reports wio k)")
    case None
    then have "reports wio k" if "k < MAX_HOST_NUM + 2" for k using that by (simp add: first_host_None)
    then show ?thesis
      using setinit_succeeds[of wio c dev] setinit_fresh[of c wio dev'] None
      by (simp add: writestatefile_main_def run exit)
  next
    case (Some k)
    then have k: "\<not> reports wio k" "k < MAX_HOST_NUM + 2" by (simp_all add: first_host_Some)
    show ?thesis
      using setinit_fails[OF k, of c dev] setinit_refused[OF k, of c dev] setinit_untouched[of wio c dev] Some
      by (simp add: writestatefile_main_def run exit)
  qed
qed

theorem setinit_outcome_witness:
  "case writestatefile_main [''setinit'', ''/etc/xha.conf''] (MTC_SUCCESS, default_config 2 0) True (\<lambda>_. complete_io) blank_device of
     (exit_code, dev') \<Rightarrow> exit_code = MTC_EXIT_SUCCESS \<and> fresh_file (default_config 2 0) dev'"
proof -
  have "whole (\<lambda>_. complete_io) k" for k by (simp add: whole_def write_complete_def complete_io_def)
  moreover from this have "first_host (MAX_HOST_NUM + 2) (\<lambda>k. \<not> reports (\<lambda>_. complete_io) k) = None"
    using whole_reports by (simp add: first_host_None)
  ultimately show ?thesis
    using setinit_outcome[where path = "''/etc/xha.conf''" and c = "default_config 2 0" and wio = "\<lambda>_. complete_io" and dev = blank_device]
    by (simp split: prod.splits)
qed

text \<open>
  A short write is not noticed: a device that takes only half of one element, and still
  has zeroes there, gives a success and a file that the daemon refuses.
\<close>

definition short_io :: "nat \<Rightarrow> write_io" where
  "short_io k = (if k = 5 then complete_io\<lparr>io_ret := (\<lambda>n. n div 2), io_torn_host := (\<lambda>_. Some zero_host)\<rparr> else complete_io)"

lemma short_write_is_success:
  "case writestatefile_main [''setinit'', path] (MTC_SUCCESS, c) True short_io dev of
     (exit_code, dev') \<Rightarrow> exit_code = MTC_EXIT_SUCCESS \<and> refused_file dev'"
proof -
  have rep: "reports short_io k" for k
    using setinit_size_pos by (simp add: reports_def short_io_def complete_io_def)
  obtain dev' where run: "global_init_state c short_io dev = (MTC_SUCCESS, dev')"
    using setinit_succeeds(1)[of short_io c dev] rep by (metis prod.collapse)
  have "dv_host dev' 3 = Some zero_host"
    using setinit_succeeds(2)[of short_io c dev] rep
    by (simp add: run setinit_done_def whole_def setinit_size_def write_complete_def short_io_def complete_io_def MAX_HOST_NUM_def)
  then have "refused_file dev'" by (rule refused_zero[rotated]) (simp add: MAX_HOST_NUM_def)
  then show ?thesis by (simp add: writestatefile_main_def run status_to_exit_def mtc_errtable_def)
qed

section \<open>Changing one field\<close>

lemma exclude_outcome:
  assumes "host_specific_ex c excluded dev = (MTC_SUCCESS, dev')" and "dv_write_ok dev"
  shows "\<exists>g h. sf_readglobal dev' zero_global None = (MTC_SUCCESS, g) \<and> g_pool_state g = SF_STATE_ACTIVE
    \<and> sf_readhostspecific dev' (my_index c) zero_host = (MTC_SUCCESS, h) \<and> h_excluded h = (if excluded then 1 else 0)
    \<and> dv_global dev' = dv_global dev \<and> (\<forall>i. i \<noteq> my_index c \<longrightarrow> dv_host dev' i = dv_host dev i)"
  using assms
  by (auto simp: host_specific_ex_def dv_write_okD sf_readhostspecific_def sf_readglobal_def Let_def
        validate_stamp_host split: prod.splits option.splits if_splits)
     (simp_all add: stamp_host_def Let_def)

lemma set_state_outcome:
  assumes "global_read_and_set_state newstate dev = (MTC_SUCCESS, dev')" and "dv_write_ok dev"
  shows "\<exists>g g'. sf_readglobal dev zero_global None = (MTC_SUCCESS, g) \<and> sf_readglobal dev' zero_global None = (MTC_SUCCESS, g')
    \<and> g_pool_state g' = newstate \<and> g_gen_uuid g' = g_gen_uuid g \<and> g_master g' = g_master g \<and> dv_host dev' = dv_host dev"
  using assms
  by (auto simp: global_read_and_set_state_def dv_write_okD sf_readglobal_def Let_def validate_stamp_global
        split: option.splits if_splits)
     (simp_all add: stamp_global_def Let_def)

text \<open>
  A configuration that could not be read does not stop the tools: the status of an error is
  positive, and they test for a negative one. \<open>c\<close> is what the reader left behind.
\<close>

lemma bad_config_goes_on:
  assumes "0 \<le> status"
  shows "writestatefile_main argv (status, c) opened wok dev = writestatefile_main argv (MTC_SUCCESS, c) opened wok dev"
    "dumpstatefile_main argv (status, c) opened dev = dumpstatefile_main argv (MTC_SUCCESS, c) opened dev"
  using assms by (simp_all add: writestatefile_main_def dumpstatefile_main_def split: list.split)

lemma dump_marks_what_daemon_refuses_example:
  "\<exists>g gm h em. sf_readglobal_nocheck blank_device (gen_UUID (default_config 2 0)) = Some (g, gm)
     \<and> sf_readhostspecific_nocheck blank_device 1 = Some (h, em)
     \<and> \<not> list_ex marked (dump_global g gm) \<and> \<not> list_ex marked (dump_host (default_config 2 0) 1 h em)"
proof -
  have zero: "uuid_comp (gen_UUID (default_config 2 0)) UUID_zero"
    by (simp add: uuid_comp_def UUID_zero_def MTC_UUID_SIZE_def c_str_def numeral_eq_Suc)
  obtain g gm h em where r: "sf_readglobal_nocheck blank_device (gen_UUID (default_config 2 0)) = Some (g, gm)"
    "sf_readhostspecific_nocheck blank_device 1 = Some (h, em)"
    by (simp add: sf_readglobal_nocheck_def sf_readhostspecific_nocheck_def blank_device_def)
  have "fst (sf_readglobal blank_device zero_global (Some (gen_UUID (default_config 2 0)))) = MTC_SUCCESS"
    "fst (sf_readhostspecific blank_device 1 zero_host) = MTC_SUCCESS"
    by (simp_all add: sf_readglobal_def sf_readhostspecific_def blank_device_def validate_stamp_host validate_stamp_global
        blank_global_def)
  then show ?thesis
    using dump_marks_what_daemon_refuses[OF r zero, of zero_global zero_host] r by simp
qed

end
