(* ===== verification/WatchdogCleanup.thy ===== *)
theory WatchdogCleanup
  imports WatchdogProps HostWeightProps
begin

text \<open>
  The tool that disables the watchdogs a daemon left behind,
  \<^verbatim>\<open>commands/cleanupwatchdog.c\<close>: it reads the file of the ids the watchdog library
  keeps, and stops every timer in it.
\<close>

section \<open>Disabling one timer\<close>

text \<open>
  A hypercall that returns a negative number reaches the program as \<open>- 1\<close> with that number,
  negated, in \<open>errno\<close>; the test is for \<open>errno == -EINVAL\<close>. An \<open>ioctl\<close> that does not
  reach the hypervisor counts as such a number.
\<close>

definition do_watchdog_disable :: "'h hypercall \<Rightarrow> wd_env \<Rightarrow> u32 \<Rightarrow> clock \<Rightarrow> 'h \<Rightarrow> mtc_status \<times> 'h" where
  "do_watchdog_disable call env wid now hv =
     (if wid = 0 then (MTC_ERROR_INVALID_PARAMETER, hv)
      else if \<not> we_open env then (MTC_ERROR_WD_OPEN, hv)
      else if \<not> we_mlock env then (MTC_ERROR_WD_INSUFFICIENT_RESOURCE, hv)
      else (case (if we_ioctl env then call wid 0 now hv else (- 1, hv)) of (ret, hv1) \<Rightarrow>
              (if ret = 0 then MTC_SUCCESS
               else if ret < 0 \<and> - ret = - EINVAL then MTC_ERROR_WD_INVALID_HANDLE
               else if ret < 0 then MTC_ERROR_WD_INSTANCE_UNAVAILABLE
               else MTC_ERROR_UNDEFINED, hv1)))"

section \<open>Reading the file\<close>

definition BUFFER_SIZE :: nat where "BUFFER_SIZE = 128"

text \<open>\<open>fgets\<close>: up to and including the next line feed, or as much as the buffer holds.\<close>

definition fgets :: "string \<Rightarrow> string \<times> string" where
  "fgets s =
     (let l = takeWhile (\<lambda>ch. ch \<noteq> LF) s; n = min (BUFFER_SIZE - 1) (length l + 1) in (take n s, drop n s))"

function fgets_all :: "string \<Rightarrow> string list" where
  "fgets_all s = (if s = [] then [] else (case fgets s of (l, rest) \<Rightarrow> l # fgets_all rest))"
  by pat_completeness auto
termination
  by (relation "measure length") (auto simp: fgets_def Let_def BUFFER_SIZE_def split: prod.splits)

declare fgets_all.simps [simp del]

definition chop_line :: "string \<Rightarrow> string" where
  "chop_line buf = (let s = takeWhile (\<lambda>ch. ch \<noteq> NUL) buf in if s \<noteq> [] \<and> last s = LF then butlast s else s)"

text \<open>The ids in the order of the file; \<open>None\<close> is the exit for a line that is not a number, and at the eighth id.\<close>

fun read_ids :: "string list \<Rightarrow> u32 list \<Rightarrow> u32 list option" where
  "read_ids [] ids = Some ids"
| "read_ids (buf # bufs) ids =
     (case strtol (chop_line buf) of (v, endptr) \<Rightarrow>
        let ids1 = ids @ [word_of_int v]
        in if endptr \<noteq> [] then None
           else if length ids1 \<ge> MAX_WATCHDOG_INSTANCE then None
           else read_ids bufs ids1)"

section \<open>The program\<close>

text \<open>The first id that cannot be disabled ends the loop.\<close>

fun disable_ids :: "'h hypercall \<Rightarrow> (nat \<Rightarrow> wd_env) \<Rightarrow> u32 list \<Rightarrow> clock \<Rightarrow> 'h \<Rightarrow> int \<times> 'h" where
  "disable_ids call env [] now hv = (MTC_EXIT_SUCCESS, hv)"
| "disable_ids call env (wid # ids) now hv =
     (if wid = 0 then disable_ids call env ids now hv
      else (case do_watchdog_disable call (env (length ids)) wid now hv of (status, hv1) \<Rightarrow>
              if status = MTC_ERROR_WD_INSUFFICIENT_RESOURCE then (MTC_EXIT_TRANSIENT_SYSTEM_ERROR, hv1)
              else if status \<noteq> MTC_SUCCESS then (MTC_EXIT_INTERNAL_BUG, hv1)
              else disable_ids call env ids now hv1))"

text \<open>\<open>--force\<close> without a file: the first two timers, whatever state they are in.\<close>

fun force_ids :: "'h hypercall \<Rightarrow> (nat \<Rightarrow> wd_env) \<Rightarrow> u32 list \<Rightarrow> clock \<Rightarrow> 'h \<Rightarrow> int \<times> 'h" where
  "force_ids call env [] now hv = (MTC_EXIT_SUCCESS, hv)"
| "force_ids call env (wid # ids) now hv =
     (case do_watchdog_disable call (env (length ids)) wid now hv of (status, hv1) \<Rightarrow>
        if status = MTC_ERROR_WD_INSUFFICIENT_RESOURCE then (MTC_EXIT_TRANSIENT_SYSTEM_ERROR, hv1)
        else if status = MTC_ERROR_UNDEFINED then (MTC_EXIT_INTERNAL_BUG, hv1)
        else force_ids call env ids now hv1)"

text \<open>\<open>argv\<close> without the name; \<open>file\<close> is \<open>None\<close> when it cannot be opened.\<close>

definition cleanupwatchdog_main :: "'h hypercall \<Rightarrow> (nat \<Rightarrow> wd_env) \<Rightarrow> string list \<Rightarrow> string option \<Rightarrow> clock \<Rightarrow> 'h \<Rightarrow> int \<times> 'h" where
  "cleanupwatchdog_main call env argv file now hv =
     (case file of
        None \<Rightarrow> if argv = [''--force''] then force_ids call env [1, 2] now hv else (MTC_EXIT_SUCCESS, hv)
      | Some s \<Rightarrow>
          (case read_ids (fgets_all s) [] of
             None \<Rightarrow> (MTC_EXIT_INVALID_PARAMETER, hv)
           | Some ids \<Rightarrow> disable_ids call env ids now hv))"

text \<open>The file as \<open>record_watchdog_instatnce\<close> prints the ids of the instances.\<close>

definition ids_text :: "u32 list \<Rightarrow> string" where
  "ids_text ids = concat (map (\<lambda>wid. print_u32 wid @ [LF]) ids)"

section \<open>The file is read back\<close>

lemma print_u32_short: "length (print_u32 w) < 12"
proof -
  have short: "length (digits n) \<le> 10" if "n < 10 ^ 10" for n using digits_length[of n 10] that by simp
  have "length (digits (nat (sint w))) \<le> 10" "length (digits (nat (- sint w))) \<le> 10"
    using sint_lt[of w] sint_ge[of w] by (auto intro!: short)
  then show ?thesis by (simp add: print_u32_def print_int_def)
qed

lemma fgets_all_ids: "fgets_all (ids_text ids) = map (\<lambda>wid. print_u32 wid @ [LF]) ids"
proof (induction ids)
  case Nil
  then show ?case by (simp add: ids_text_def fgets_all.simps)
next
  case (Cons wid ids)
  have "takeWhile (\<lambda>ch. ch \<noteq> LF) (print_u32 wid @ LF # ids_text ids) = print_u32 wid"
    using print_int_chars[of _ "sint wid"] by (subst takeWhile_append2) (auto simp: print_u32_def)
  then have "fgets (print_u32 wid @ LF # ids_text ids) = (print_u32 wid @ [LF], ids_text ids)"
    using print_u32_short[of wid] by (simp add: fgets_def Let_def BUFFER_SIZE_def min_def)
  moreover have "ids_text (wid # ids) = print_u32 wid @ LF # ids_text ids" by (simp add: ids_text_def)
  ultimately show ?case using Cons.IH by (simp add: fgets_all.simps[of "_ @ _"])
qed

lemma chop_line_id: "chop_line (print_u32 wid @ [LF]) = print_u32 wid"
proof -
  have "takeWhile (\<lambda>ch. ch \<noteq> NUL) (print_u32 wid @ [LF]) = print_u32 wid @ [LF]"
    using print_int_chars[of _ "sint wid"] by (auto simp: print_u32_def takeWhile_eq_all_conv)
  then show ?thesis by (simp add: chop_line_def Let_def)
qed

lemma read_ids_back:
  "length ids0 + length ids < MAX_WATCHDOG_INSTANCE \<Longrightarrow>
   read_ids (map (\<lambda>wid. print_u32 wid @ [LF]) ids) ids0 = Some (ids0 @ ids)"
proof (induction ids arbitrary: ids0)
  case (Cons wid ids)
  have "strtol (print_u32 wid) = (sint wid, [])"
    using strtol_print_after[of "sint wid" "[]"] sint_ge[of wid] sint_lt[of wid] by (simp add: print_u32_def)
  then show ?case using Cons by (simp add: chop_line_id Let_def)
qed simp

section \<open>The daemon's timers are stopped\<close>

text \<open>
  The tool takes a positive answer for a failure, so it relies on a little more than the
  library: then a list of running timers is stopped.
\<close>

locale sched_watchdog_stop = sched_watchdog +
  assumes stop_answer: "i \<noteq> 0 \<Longrightarrow> tm i hv \<noteq> None \<Longrightarrow> call i 0 now hv = (r, hv') \<Longrightarrow> r \<le> 0"
begin

lemma disable_running:
  assumes "distinct ids" and "list_all (\<lambda>i. i \<noteq> 0 \<and> tm i hv \<noteq> None) ids"
    and "disable_ids call (\<lambda>_. wd_fine) ids now hv = (exit_code, hv')"
  shows "exit_code = MTC_EXIT_SUCCESS \<and> (\<forall>i. tm i hv' = (if i \<in> set ids then None else tm i hv))"
  using assms
proof (induction ids arbitrary: hv)
  case (Cons wid ids)
  obtain r hv1 where call: "call wid 0 now hv = (r, hv1)" by fastforce
  have run: "wid \<noteq> 0" "tm wid hv \<noteq> None" using Cons.prems(2) by simp_all
  have "r = 0" and off: "tm wid hv1 = None" "\<forall>k. k \<noteq> wid \<longrightarrow> tm k hv1 = tm k hv"
    using stop[OF run call] stop_answer[OF run call] by simp_all
  then have "disable_ids call (\<lambda>_. wd_fine) ids now hv1 = (exit_code, hv')"
    using Cons.prems(3) run(1) by (simp add: do_watchdog_disable_def wd_fine_def call)
  moreover have "list_all (\<lambda>i. i \<noteq> 0 \<and> tm i hv1 \<noteq> None) ids"
    using Cons.prems(1,2) off(2) by (auto simp: list_all_iff)
  ultimately show ?case using Cons.IH[of hv1] Cons.prems(1) off by auto
qed simp

end

interpretation xen_stop: sched_watchdog_stop do_watchdog timer_of
  by unfold_locales (auto simp: do_watchdog_def timer_of_def split: if_splits)

text \<open>The ids the library has written for a state.\<close>

definition ids_of :: "'h wd_state \<Rightarrow> u32 list" where
  "ids_of s = List.map_filter (\<lambda>a. map_option wi_id (wd_heap s a)) (wd_instances s)"

lemma record_ids: "wd_instances s \<noteq> [] \<Longrightarrow> wd_file (record_watchdog_instance True s) = Some (ids_of s)"
  by (simp add: record_watchdog_instance_def ids_of_def)

lemma ids_of_running:
  assumes "wd_ok tm s"
  shows "distinct (ids_of s)" "list_all (\<lambda>i. i \<noteq> 0 \<and> tm i (wd_hv s) \<noteq> None) (ids_of s)"
proof -
  define f where "f a = wi_id (the (wd_heap s a))" for a
  have dom: "set (wd_instances s) = dom (wd_heap s)" and "distinct (wd_instances s)" using assms by (simp_all add: wd_ok_def)
  have "List.map_filter (\<lambda>a. map_option wi_id (wd_heap s a)) l = map f l" if "set l \<subseteq> dom (wd_heap s)" for l
    using that by (induction l) (auto simp: List.map_filter_simps f_def)
  then have ids: "ids_of s = map f (wd_instances s)" using dom by (simp add: ids_of_def)
  have "inj_on f (dom (wd_heap s))" using assms unfolding wd_ok_def inj_on_def f_def by (metis domD option.sel)
  then show "distinct (ids_of s)" using ids dom \<open>distinct (wd_instances s)\<close> by (simp add: distinct_map)
  show "list_all (\<lambda>i. i \<noteq> 0 \<and> tm i (wd_hv s) \<noteq> None) (ids_of s)"
    using assms dom unfolding wd_ok_def by (auto simp: ids list_all_iff f_def)
qed

text \<open>The hypervisor has two timers only.\<close>

lemma running_ids_few:
  assumes "distinct ids" and "list_all (\<lambda>i. i \<noteq> 0 \<and> timer_of i hv \<noteq> None) ids"
  shows "length ids \<le> 2"
proof -
  have "unat ` set ids \<subseteq> {1, 2}"
  proof
    fix n assume "n \<in> unat ` set ids"
    then obtain i where i: "n = unat i" "i \<noteq> 0" "timer_of i hv \<noteq> None" using assms(2) by (auto simp: list_all_iff)
    then have "unat i \<le> 2" by (auto simp: timer_of_def NR_WATCHDOG_TIMERS_def split: if_splits)
    moreover have "0 < unat i" using i(2) by (simp add: unat_gt_0)
    ultimately show "n \<in> {1, 2}" using i(1) by auto
  qed
  moreover have "card (unat ` set ids) = length ids"
    using assms(1) by (simp add: card_image distinct_card word_unat_eq_iff inj_on_def)
  ultimately show ?thesis using card_mono[of "{1, 2 :: nat}" "unat ` set ids"] by simp
qed

text \<open>
  C20. A daemon that ends without closing its watchdogs can be cleaned up after: from the file of
  the ids the library has written last, \<open>cleanupwatchdog\<close> exits with success, stops exactly the
  timers of the daemon's watchdogs, and leaves every other one alone.
\<close>

theorem cleanup_stops_left_watchdogs:
  assumes "wd_ok timer_of s" and "wd_file (record_watchdog_instance True s) = Some ids"
    and "wd_instances s \<noteq> []"
    and "cleanupwatchdog_main do_watchdog (\<lambda>_. wd_fine) argv (Some (ids_text ids)) now (wd_hv s) = (exit_code, hv')"
  shows "exit_code = MTC_EXIT_SUCCESS \<and> list_all (\<lambda>i. timer_of i hv' = None) (ids_of s)
    \<and> timer_of j hv' = (if j \<in> set (ids_of s) then None else timer_of j (wd_hv s))"
proof -
  have ids: "ids = ids_of s" using assms(2,3) record_ids[of s] by simp
  note run = ids_of_running[OF assms(1)]
  have "read_ids (fgets_all (ids_text ids)) [] = Some ids"
    using read_ids_back[of "[]" ids] running_ids_few[OF run] by (simp add: ids fgets_all_ids MAX_WATCHDOG_INSTANCE_def)
  then have "disable_ids do_watchdog (\<lambda>_. wd_fine) (ids_of s) now (wd_hv s) = (exit_code, hv')"
    using assms(4) by (simp add: cleanupwatchdog_main_def ids)
  from xen_stop.disable_running[OF run this] show ?thesis by (simp add: list_all_iff)
qed

theorem cleanup_stops_left_watchdogs_witness:
  "\<exists>exit_code hv'. cleanupwatchdog_main do_watchdog (\<lambda>_. wd_fine) [] (Some (ids_text (ids_of wd_one))) 5000 (wd_hv wd_one)
       = (exit_code, hv')
     \<and> exit_code = MTC_EXIT_SUCCESS \<and> list_all (\<lambda>i. timer_of i hv' = None) (ids_of wd_one)"
proof -
  obtain exit_code hv' where r: "cleanupwatchdog_main do_watchdog (\<lambda>_. wd_fine) [] (Some (ids_text (ids_of wd_one))) 5000 (wd_hv wd_one)
       = (exit_code, hv')" by fastforce
  have ne: "wd_instances wd_one \<noteq> []" by (simp add: wd_one_sel)
  show ?thesis using cleanup_stops_left_watchdogs[OF wd_one_ok record_ids[OF ne] ne r] r by blast
qed

text \<open>
  A file that is out of date stops the tool at its first line: a timer that is not running is
  reported as an internal error, whatever the hypervisor says about it, and the timers behind
  it stay armed.
\<close>

lemma cleanup_stale_id_stops:
  assumes "wid \<noteq> 0" and "timer_of wid hv = None" and "length ids < 7"
  shows "cleanupwatchdog_main do_watchdog (\<lambda>_. wd_fine) argv (Some (ids_text (wid # ids))) now hv = (MTC_EXIT_INTERNAL_BUG, hv)"
proof -
  obtain r hv1 where call: "do_watchdog wid 0 now hv = (r, hv1)" by fastforce
  then have "r < 0" "hv1 = hv" using xen.unknown[OF assms(1,2) call] by simp_all
  then have "do_watchdog_disable do_watchdog wd_fine wid now hv = (MTC_ERROR_WD_INSTANCE_UNAVAILABLE, hv)"
    using assms(1) by (simp add: do_watchdog_disable_def wd_fine_def call EINVAL_def)
  moreover have "read_ids (fgets_all (ids_text (wid # ids))) [] = Some (wid # ids)"
    using read_ids_back[of "[]" "wid # ids"] assms(3) by (simp only: fgets_all_ids) (simp add: MAX_WATCHDOG_INSTANCE_def)
  ultimately show ?thesis using assms(1) by (simp add: cleanupwatchdog_main_def)
qed

end
