(* ===== verification/DaemonMain.thy ===== *)
theory DaemonMain
  imports Shared Printing ErrorCodes
begin

text \<open>
  The start and the end of the daemon: \<^verbatim>\<open>daemon/main.c\<close>. The initialisers of the
  modules are one argument, a function of the module and the phase; what the operating system
  answers is a record. Reports to the log are left out, except those of the signal thread.
\<close>

section \<open>The table of the modules\<close>

datatype init_module =
  COM | SF | LM | BM | HB | XAPIMON | SCRIPT | HOSTWEIGHT | SM

definition init_funcs :: "init_module list" where
  "init_funcs = [COM, SF, LM, BM, HB, XAPIMON, SCRIPT, HOSTWEIGHT, SM]"

type_synonym 's init_func = "init_module \<Rightarrow> int \<Rightarrow> 's \<Rightarrow> mtc_status \<times> 's"

text \<open>Calling the functions of a list of modules for termination, whatever they return.\<close>

definition terminate_modules :: "'s init_func \<Rightarrow> init_module list \<Rightarrow> 's \<Rightarrow> 's" where
  "terminate_modules f ms s = fold (\<lambda>m s. snd (f m (- 1) s)) ms s"

text \<open>One phase; \<open>done\<close> are the modules the loop is past, the last one first.\<close>

fun init_phase :: "'s init_func \<Rightarrow> int \<Rightarrow> init_module list \<Rightarrow> init_module list \<Rightarrow> 's \<Rightarrow> mtc_status \<times> 's" where
  "init_phase f phase past [] s = (MTC_SUCCESS, s)"
| "init_phase f phase past (m # ms) s =
     (case f m phase s of (status, s1) \<Rightarrow>
        if status \<noteq> MTC_SUCCESS then (status, terminate_modules f past s1)
        else init_phase f phase (m # past) ms s1)"

section \<open>Signals\<close>

record main_vars =
  mv_terminate_requested :: bool
  mv_catch_SIGHUP :: bool
  mv_catch_unexpected_signo :: int
  mv_sighandler_thread :: bool
  mv_exit_status :: mtc_status

definition init_main_vars :: main_vars where
  "init_main_vars = \<lparr>mv_terminate_requested = False, mv_catch_SIGHUP = False, mv_catch_unexpected_signo = 0,
     mv_sighandler_thread = False, mv_exit_status = MTC_SUCCESS\<rparr>"

abbreviation (input) "SIGHUP \<equiv> (1 :: int)"
abbreviation (input) "SIGTERM \<equiv> (15 :: int)"
abbreviation (input) "SIGCHLD \<equiv> (17 :: int)"

definition sigcatch :: "int \<Rightarrow> main_vars \<Rightarrow> main_vars" where
  "sigcatch signo v =
     (if signo = SIGTERM then v\<lparr>mv_terminate_requested := True\<rparr>
      else if signo = SIGCHLD then v
      else if signo = SIGHUP then v\<lparr>mv_catch_SIGHUP := True\<rparr>
      else v\<lparr>mv_catch_unexpected_signo := signo\<rparr>)"

text \<open>What happens to a signal; all are ignored until the threads exist, three are caught then.\<close>

definition signals_caught :: "int list" where "signals_caught = [SIGTERM, SIGCHLD, SIGHUP]"

definition deliver_signal :: "bool \<Rightarrow> int \<Rightarrow> main_vars \<Rightarrow> main_vars" where
  "deliver_signal ready signo v = (if ready \<and> signo \<in> set signals_caught then sigcatch signo v else v)"

definition post_phase_init :: "int \<Rightarrow> bool \<Rightarrow> main_vars \<Rightarrow> bool \<times> main_vars" where
  "post_phase_init phase thread_ok v =
     (if phase = 1 then
        (if \<not> thread_ok
         then (False, v\<lparr>mv_sighandler_thread := False, mv_exit_status := MTC_ERROR_SYSTEM_LEVEL_FAILURE,
                        mv_terminate_requested := True\<rparr>)
         else (True, v\<lparr>mv_sighandler_thread := True\<rparr>))
      else (False, v))"

text \<open>The call of \<open>main_terminate\<close> on the variables of the main thread.\<close>

definition request_termination :: "mtc_status \<Rightarrow> main_vars \<Rightarrow> main_vars" where
  "request_termination status v =
     v\<lparr>mv_terminate_requested := True,
       mv_exit_status := (if mv_exit_status v = MTC_SUCCESS then status else mv_exit_status v)\<rparr>"

text \<open>
  The signal thread: one round per second, with what happens while it sleeps. The result is
  what it does: reopening the log, and reporting a signal.
\<close>

datatype sig_action = LogReopen | LogSignal int

definition sighandler_round :: "main_vars \<Rightarrow> sig_action list \<times> main_vars" where
  "sighandler_round v =
     ((if mv_catch_SIGHUP v then [LogReopen] else [])
        @ (if mv_catch_unexpected_signo v \<noteq> 0 then [LogSignal (mv_catch_unexpected_signo v)] else []),
      v\<lparr>mv_catch_SIGHUP := False, mv_catch_unexpected_signo := 0\<rparr>)"

fun main_sighandler :: "(main_vars \<Rightarrow> main_vars) list \<Rightarrow> main_vars \<Rightarrow> sig_action list \<times> main_vars" where
  "main_sighandler [] v = ([], v)"
| "main_sighandler (e # es) v =
     (if mv_terminate_requested v then ([], v)
      else (case sighandler_round (e v) of (acts, v1) \<Rightarrow>
              (case main_sighandler es v1 of (others, v2) \<Rightarrow> (acts @ others, v2))))"

section \<open>Scheduling and files\<close>

text \<open>Policy and priority of the process, and the ones that were saved.\<close>

record sched =
  sc_current :: "int \<times> int"
  sc_saved :: "int \<times> int"

abbreviation (input) "SCHED_OTHER \<equiv> (0 :: int)"
abbreviation (input) "SCHED_RR \<equiv> (2 :: int)"

definition main_save_scheduler :: "bool \<Rightarrow> bool \<Rightarrow> sched \<Rightarrow> sched" where
  "main_save_scheduler policy_ok param_ok s = (if policy_ok \<and> param_ok then s\<lparr>sc_saved := sc_current s\<rparr> else s)"

definition main_set_scheduler :: "bool \<Rightarrow> sched \<Rightarrow> mtc_status \<times> sched" where
  "main_set_scheduler ok s =
     (if ok then (MTC_SUCCESS, s\<lparr>sc_current := (SCHED_RR, 48)\<rparr>) else (MTC_ERROR_SYSTEM_LEVEL_FAILURE, s))"

definition main_reset_scheduler :: "bool \<Rightarrow> sched \<Rightarrow> sched" where
  "main_reset_scheduler ok s = (if ok then s\<lparr>sc_current := sc_saved s\<rparr> else s)"

text \<open>The file the process id is written to, which moves the process to the root group.\<close>

definition move_to_root_cgroup :: "bool \<Rightarrow> bool \<Rightarrow> string option" where
  "move_to_root_cgroup v1 v2 =
     (if v1 then Some ''/sys/fs/cgroup/cpu/tasks''
      else if v2 then Some ''/sys/fs/cgroup/cgroup.procs'' else None)"

text \<open>The lock file is opened without truncation, and the line with the process id written at its start.\<close>

definition write_pid :: "int \<Rightarrow> string \<Rightarrow> string" where
  "write_pid pid content =
     (let buf = take 30 (print_int pid @ [CHR 0x0A]) in buf @ drop (length buf) content)"

text \<open>Everything is closed but the standard input and output and the lock file; \<open>~750\<close> is decimal.\<close>

definition close_inherited :: "int \<Rightarrow> int \<Rightarrow> int list \<Rightarrow> int list" where
  "close_inherited rlim lockfiled fds = filter (\<lambda>fd. fd < 2 \<or> fd \<ge> rlim \<or> fd = lockfiled) fds"

definition main_umask :: u32 where "main_umask = NOT 750 AND 511"

definition created_mode :: "u32 \<Rightarrow> u32" where "created_mode mode = mode AND NOT main_umask"

section \<open>The main function\<close>

text \<open>
  What the start meets: the lock, the configuration, the log, the scheduler, the thread
  attributes (\<open>None\<close> for those that only cost a warning) and the signal thread.
\<close>

record main_env =
  me_lock :: bool
  me_config :: mtc_status
  me_log :: mtc_status
  me_sched :: bool
  me_attr :: bool
  me_stacksize :: bool
  me_inherit :: bool
  me_thread :: bool

definition set_thread_attr :: "main_env \<Rightarrow> mtc_status" where
  "set_thread_attr e =
     (if me_attr e \<and> me_stacksize e \<and> \<not> me_inherit e then MTC_ERROR_SYSTEM_LEVEL_FAILURE else MTC_SUCCESS)"

text \<open>The points named on the command line; a name that is not in the table is passed over.\<close>

definition enable_points :: "string list \<Rightarrow> fist list \<Rightarrow> fist list" where
  "enable_points names tab = fold (\<lambda>n t. case fist_set n True t of Inl _ \<Rightarrow> t | Inr t1 \<Rightarrow> t1) names tab"

text \<open>The checks before the modules, in the order of the code.\<close>

definition main_prepare :: "main_env \<Rightarrow> string list \<Rightarrow> mtc_status" where
  "main_prepare e argv =
     (if length argv < 2 then MTC_ERROR_INVALID_PARAMETER
      else if \<not> me_lock e then MTC_ERROR_DAEMON_EXIST
      else if me_config e \<noteq> MTC_SUCCESS then me_config e
      else if me_log e \<noteq> MTC_SUCCESS then me_log e
      else if \<not> me_sched e then MTC_ERROR_SYSTEM_LEVEL_FAILURE
      else set_thread_attr e)"

text \<open>Both phases.\<close>

definition init_modules :: "'s init_func \<Rightarrow> 's \<Rightarrow> mtc_status \<times> 's" where
  "init_modules f s =
     (case init_phase f 0 [] init_funcs s of (status, s1) \<Rightarrow>
        if status \<noteq> MTC_SUCCESS then (status, s1) else init_phase f 1 [] init_funcs s1)"

text \<open>
  The loop of the main thread: what happens in each second, on its variables and on the
  modules. It is left at the first look that finds the request; \<open>None\<close> is no request.
\<close>

fun main_loop :: "(main_vars \<times> 's \<Rightarrow> main_vars \<times> 's) list \<Rightarrow> main_vars \<times> 's \<Rightarrow> (main_vars \<times> 's) option" where
  "main_loop [] vs = None"
| "main_loop (e # es) vs =
     (case e vs of (v, s) \<Rightarrow> if mv_terminate_requested v then Some (v, s) else main_loop es (v, s))"

text \<open>The exit code and the state the daemon leaves.\<close>

definition daemon_main :: "main_env \<Rightarrow> string list \<Rightarrow> 's init_func \<Rightarrow> (main_vars \<times> 's \<Rightarrow> main_vars \<times> 's) list \<Rightarrow> 's
  \<Rightarrow> (int \<times> 's) option" where
  "daemon_main e argv f evs s =
     (if main_prepare e argv \<noteq> MTC_SUCCESS then Some (status_to_exit (main_prepare e argv), s)
      else (case init_modules f s of (status, s1) \<Rightarrow>
              if status \<noteq> MTC_SUCCESS then Some (status_to_exit status, s1)
              else (case main_loop evs (snd (post_phase_init 1 (me_thread e) init_main_vars), s1) of
                      None \<Rightarrow> None
                    | Some (v, s2) \<Rightarrow> Some (status_to_exit (mv_exit_status v), terminate_modules f (rev init_funcs) s2))))"

end
