(* ===== verification/DaemonMainProps.thy ===== *)
theory DaemonMainProps
  imports DaemonMain
begin

text \<open>
  In which order the daemon starts and stops its modules, how it ends, and what the signals,
  the scheduler and the lock file are left with.
\<close>

section \<open>The calls of a run\<close>

text \<open>Modules that only record that they were called; \<open>ok\<close> is what they return.\<close>

definition traced :: "(init_module \<Rightarrow> int \<Rightarrow> mtc_status) \<Rightarrow> (init_module \<times> int) list init_func" where
  "traced ok m phase tr = (ok m phase, tr @ [(m, phase)])"

abbreviation calls :: "int \<Rightarrow> init_module list \<Rightarrow> (init_module \<times> int) list" where
  "calls phase ms \<equiv> map (\<lambda>m. (m, phase)) ms"

lemma terminate_traced: "terminate_modules (traced ok) ms tr = tr @ calls (- 1) ms"
proof -
  have "fold (\<lambda>m s. snd (traced ok m (- 1) s)) ms tr = tr @ calls (- 1) ms"
    by (induction ms arbitrary: tr) (simp_all add: traced_def)
  then show ?thesis by (simp add: terminate_modules_def)
qed

text \<open>The modules a phase gets past, and the calls it makes.\<close>

definition reached :: "(init_module \<Rightarrow> int \<Rightarrow> mtc_status) \<Rightarrow> int \<Rightarrow> init_module list \<Rightarrow> init_module list" where
  "reached ok phase ms = takeWhile (\<lambda>m. ok m phase = MTC_SUCCESS) ms"

definition phase_calls :: "(init_module \<Rightarrow> int \<Rightarrow> mtc_status) \<Rightarrow> int \<Rightarrow> init_module list
  \<Rightarrow> mtc_status \<times> (init_module \<times> int) list" where
  "phase_calls ok phase ms =
     (let p = reached ok phase ms
      in if p = ms then (MTC_SUCCESS, calls phase ms)
         else (let m = ms ! length p in (ok m phase, calls phase (p @ [m]) @ calls (- 1) (rev p))))"

lemma init_phase_traced:
  "init_phase (traced ok) phase past ms tr =
     (let p = reached ok phase ms
      in if p = ms then (MTC_SUCCESS, tr @ calls phase ms)
         else (let m = ms ! length p in (ok m phase, tr @ calls phase (p @ [m]) @ calls (- 1) (rev p @ past))))"
  by (induction ms arbitrary: past tr) (auto simp: reached_def traced_def terminate_traced Let_def)

lemma init_phase_calls:
  "init_phase (traced ok) phase [] ms tr = (case phase_calls ok phase ms of (status, cs) \<Rightarrow> (status, tr @ cs))"
  by (simp add: init_phase_traced phase_calls_def Let_def)

definition start_calls :: "(init_module \<Rightarrow> int \<Rightarrow> mtc_status) \<Rightarrow> mtc_status \<times> (init_module \<times> int) list" where
  "start_calls ok =
     (case phase_calls ok 0 init_funcs of (status, cs) \<Rightarrow>
        if status \<noteq> MTC_SUCCESS then (status, cs)
        else (case phase_calls ok 1 init_funcs of (status1, cs1) \<Rightarrow> (status1, cs @ cs1)))"

lemma init_modules_traced: "init_modules (traced ok) [] = start_calls ok"
  by (simp add: init_modules_def start_calls_def init_phase_calls split: prod.split)

text \<open>What the main thread may see in a second: nothing, a signal, or a module that gives up.\<close>

datatype main_event = Quiet | Signal int | GiveUp mtc_status

fun event :: "main_event \<Rightarrow> main_vars \<times> 's \<Rightarrow> main_vars \<times> 's" where
  "event Quiet vs = vs"
| "event (Signal signo) (v, s) = (deliver_signal True signo v, s)"
| "event (GiveUp status) (v, s) = (request_termination status v, s)"

fun ends :: "main_event \<Rightarrow> bool" where
  "ends Quiet = False"
| "ends (Signal signo) = (signo = SIGTERM)"
| "ends (GiveUp status) = True"

fun event_status :: "main_event \<Rightarrow> mtc_status" where
  "event_status (GiveUp status) = status"
| "event_status _ = MTC_SUCCESS"

lemma main_loop_events:
  assumes "\<not> mv_terminate_requested v" and "mv_exit_status v = MTC_SUCCESS"
  shows "map_option (\<lambda>(v, s). (mv_exit_status v, s)) (main_loop (map event evs) (v, s)) =
     map_option (\<lambda>ev. (event_status ev, s)) (List.find ends evs)"
  using assms
proof (induction evs arbitrary: v)
  case (Cons ev evs)
  show ?case
  proof (cases ev)
    case (Signal signo)
    then show ?thesis
      using Cons by (auto simp: deliver_signal_def sigcatch_def signals_caught_def)
  qed (use Cons in \<open>auto simp: request_termination_def\<close>)
qed simp

text \<open>
  C21. The calls of a whole run, for every outcome of the initialisers. The modules are started in
  the order of the table, phase 0 of all of them before phase 1 of any; when one fails, those
  before it are stopped in the reverse order and the daemon exits at once with the exit code of
  that failure. When all start, the daemon runs until the first second with SIGTERM or with a
  module that gives up; then every module is stopped, in the reverse order of the table, and
  the exit code is that of the module's status, or success for the signal. No other signal
  ends it.
\<close>

theorem daemon_run_calls:
  assumes "main_prepare e argv = MTC_SUCCESS" and "me_thread e"
  shows "daemon_main e argv (traced ok) (map event evs) [] =
     (case start_calls ok of (status, cs) \<Rightarrow>
        if status \<noteq> MTC_SUCCESS then Some (status_to_exit status, cs)
        else map_option (\<lambda>ev. (status_to_exit (event_status ev), cs @ calls (- 1) (rev init_funcs))) (List.find ends evs))"
proof -
  define v where "v = snd (post_phase_init 1 (me_thread e) init_main_vars)"
  have v: "\<not> mv_terminate_requested v" "mv_exit_status v = MTC_SUCCESS"
    by (simp_all add: v_def assms(2) post_phase_init_def init_main_vars_def)
  obtain status cs where start: "start_calls ok = (status, cs)" by fastforce
  show ?thesis
  proof (cases "status = MTC_SUCCESS")
    case True
    have "daemon_main e argv (traced ok) (map event evs) [] =
      map_option (\<lambda>(v, s). (status_to_exit (mv_exit_status v), terminate_modules (traced ok) (rev init_funcs) s))
        (main_loop (map event evs) (v, cs))"
      using True unfolding v_def
      by (auto simp: daemon_main_def assms(1) init_modules_traced start split: option.split)
    also have "\<dots> = map_option (\<lambda>(st, s). (status_to_exit st, terminate_modules (traced ok) (rev init_funcs) s))
        (map_option (\<lambda>(v, s). (mv_exit_status v, s)) (main_loop (map event evs) (v, cs)))"
      by (cases "main_loop (map event evs) (v, cs)") auto
    also have "\<dots> = map_option (\<lambda>ev. (status_to_exit (event_status ev), cs @ calls (- 1) (rev init_funcs))) (List.find ends evs)"
      unfolding main_loop_events[OF v] terminate_traced by (simp add: option.map_comp comp_def)
    finally show ?thesis
      using True by (simp add: start)
  next
    case False
    then show ?thesis by (simp add: daemon_main_def assms(1) init_modules_traced start)
  qed
qed

definition ex_main_env :: main_env where
  "ex_main_env = \<lparr>me_lock = True, me_config = 0, me_log = 0, me_sched = True, me_attr = True, me_stacksize = True,
     me_inherit = True, me_thread = True\<rparr>"

theorem daemon_run_calls_witness:
  "daemon_main ex_main_env [''xhad'', ''xhad.conf''] (traced (\<lambda>m phase. if m = HB \<and> phase = 1 then MTC_ERROR_SYSTEM_LEVEL_FAILURE else 0))
       (map event [Quiet]) []
     = Some (MTC_EXIT_SYSTEM_ERROR, calls 0 init_funcs @ calls 1 [COM, SF, LM, BM, HB] @ calls (- 1) [BM, LM, SF, COM])"
proof -
  have p: "main_prepare ex_main_env [''xhad'', ''xhad.conf''] = MTC_SUCCESS" and t: "me_thread ex_main_env"
    by (simp_all add: main_prepare_def ex_main_env_def set_thread_attr_def)
  show ?thesis
    unfolding daemon_run_calls[OF p t]
    by (simp add: start_calls_def phase_calls_def reached_def init_funcs_def status_to_exit_def mtc_errtable_def)
qed

section \<open>The exit status\<close>

text \<open>The main thread's variables say what \<open>main_terminate\<close> leaves in the daemon.\<close>

definition exit_agrees :: "main_vars \<Rightarrow> daemon \<Rightarrow> bool" where
  "exit_agrees v d \<longleftrightarrow> mv_terminate_requested v = (d_exit d \<noteq> None)
     \<and> mv_exit_status v = (case d_exit d of None \<Rightarrow> MTC_SUCCESS | Some status \<Rightarrow> status)"

lemma main_terminate_agrees: "exit_agrees v d \<Longrightarrow> exit_agrees (request_termination status v) (main_terminate status d)"
  by (auto simp: exit_agrees_def request_termination_def main_terminate_def split: option.splits)

section \<open>Signals\<close>

text \<open>A SIGHUP is answered by one reopening of the log, within a second.\<close>

lemma sighup_reopens:
  "\<not> mv_terminate_requested v \<Longrightarrow> LogReopen \<in> set (fst (main_sighandler (deliver_signal True SIGHUP # es) v))"
  by (auto simp: deliver_signal_def sigcatch_def signals_caught_def sighandler_round_def split: prod.splits)

section \<open>Scheduling and files\<close>

text \<open>A child that resets the scheduler runs as the process did before the daemon set it.\<close>

lemma child_scheduler:
  assumes "main_set_scheduler True (main_save_scheduler True True s) = (status, s1)"
  shows "sc_current s1 = (SCHED_RR, 48)" "sc_current (main_reset_scheduler True s1) = sc_current s"
  using assms by (auto simp: main_set_scheduler_def main_save_scheduler_def main_reset_scheduler_def)

text \<open>
  The decimal \<open>750\<close> leaves a mask that takes the owner's permission to read away, so a file
  created with the usual mode cannot be read by its owner.
\<close>

lemma umask_hides_from_owner: "main_umask = 273" "created_mode 438 AND 256 = 0"
  by (simp_all add: created_mode_def main_umask_def)

text \<open>A process id that is shorter than the one before it leaves the end of the old line.\<close>

lemma stale_pid: "write_pid 99 (print_int 12345 @ [CHR 0x0A]) = ''99'' @ [CHR 0x0A] @ ''45'' @ [CHR 0x0A]"
  by (simp add: write_pid_def print_int_def digits.simps char_of_def bit_0)

end
