(* ===== verification/ComCalls.thy ===== *)
theory ComCalls
  imports ComProps
begin

text \<open>
  The calls of the object manager as a whole, for a thread that nobody disturbs: the
  initialisers run before the other threads exist. A call leaves the objects as a map from
  names to data and callbacks shows them (\<open>com_view\<close>), which is the specification the modules
  rely on; the hash table, the counters and the thread records drop out.
\<close>

section \<open>Initialisation\<close>

text \<open>The flag is false when \<open>pthread_mutex_init\<close> fails or the point \<open>com.pthread\<close> is on.\<close>

definition com_initialize :: "int \<Rightarrow> bool \<Rightarrow> mtc_status" where
  "com_initialize phase ok = (if phase = 0 \<and> \<not> ok then MTC_ERROR_COM_PTHREAD else MTC_SUCCESS)"

section \<open>Creating and opening\<close>

text \<open>
  What the system answers: memory, \<open>pthread_rwlock_init\<close>, and the lock and the unlock of the
  section that fills an object. A call that fails does not return: it ends the process.
\<close>

record com_sys =
  ys_alloc :: com_alloc
  ys_rwlock_init :: bool
  ys_wrlock :: bool
  ys_unlock :: bool

definition com_create :: "com_sys \<Rightarrow> (callback \<Rightarrow> addr \<Rightarrow> u8 list option \<Rightarrow> u8 list option) \<Rightarrow> thread \<Rightarrow> clock
  \<Rightarrow> string \<Rightarrow> u32 \<Rightarrow> u8 list option \<Rightarrow> com_state \<Rightarrow> (mtc_status \<times> addr \<times> com_state) com_result option" where
  "com_create y cb self now object_id sz buffer s =
     (case com_create_enter (ys_alloc y) (ys_rwlock_init y) self now object_id sz buffer s of
        Inl stop \<Rightarrow> Some (Inl stop)
      | Inr (existed, h, s1) \<Rightarrow>
          if \<not> existed then Some (Inr (MTC_SUCCESS, h, s1))
          else map_option (map_sum id (\<lambda>s2. (MTC_SUCCESS, h, s2)))
            (case buffer of
               Some buf \<Rightarrow>
                 if com_create_fills buffer h s1
                 then com_create_fill cb (al_blocks (ys_alloc y)) (ys_wrlock y) (ys_unlock y) self now sz buf h s1
                 else Some (com_create_leave self now h s1)
             | None \<Rightarrow> Some (com_create_leave self now h s1)))"

definition com_open :: "com_sys \<Rightarrow> (callback \<Rightarrow> addr \<Rightarrow> u8 list option \<Rightarrow> u8 list option) \<Rightarrow> thread \<Rightarrow> clock
  \<Rightarrow> string \<Rightarrow> com_state \<Rightarrow> (mtc_status \<times> addr \<times> com_state) com_result option" where
  "com_open y cb self now object_id s = com_create y cb self now object_id 0 None s"

section \<open>The view of a module\<close>

definition quiet :: "com_state \<Rightarrow> bool" where
  "quiet s \<longleftrightarrow> com_inv \<lparr>run_s = s, run_pc = (\<lambda>_ _. Idle)\<rparr>"

definition com_view :: "com_state \<Rightarrow> string \<Rightarrow> (u8 list option \<times> callback list) option" where
  "com_view s object_id =
     (case find_common_object s object_id of
        None \<Rightarrow> None
      | Some a \<Rightarrow> map_option (\<lambda>ob. (co_buffer ob, map snd (co_callbacks ob))) (cs_objects s a))"

text \<open>The callbacks a creation with data runs; \<open>None\<close> when the object has data already and is left alone.\<close>

definition com_create_calls :: "string \<Rightarrow> com_state \<Rightarrow> callback list option" where
  "com_create_calls object_id s =
     (case com_view s object_id of None \<Rightarrow> Some [] | Some (None, cbs) \<Rightarrow> Some cbs | Some (Some _, _) \<Rightarrow> None)"

definition handle_name :: "com_state \<Rightarrow> addr \<Rightarrow> string option" where
  "handle_name s h = map_option (co_object_id \<circ> snd) (handle_object s h)"

lemma com_view_SomeI:
  assumes "quiet s" and "cs_objects s a = Some ob"
  shows "com_view s (co_object_id ob) = Some (co_buffer ob, map snd (co_callbacks ob))"
  using find_common_eq[OF assms(1)[unfolded quiet_def]] assms(2) by (simp add: com_view_def)

lemma com_view_NoneI:
  assumes "\<And>a ob. cs_objects s a = Some ob \<Longrightarrow> co_object_id ob \<noteq> name"
  shows "com_view s name = None"
  using assms find_common_Some by (fastforce simp: com_view_def split: option.splits)

lemma com_view_put:
  assumes q: "quiet s" and q': "quiet s'" and ob': "cs_objects s' = (cs_objects s)(a \<mapsto> ob')"
    and same: "\<And>ob. cs_objects s a = Some ob \<Longrightarrow> co_object_id ob = co_object_id ob'"
  shows "com_view s' = (com_view s)(co_object_id ob' \<mapsto> (co_buffer ob', map snd (co_callbacks ob')))"
proof
  fix name
  show "com_view s' name = ((com_view s)(co_object_id ob' \<mapsto> (co_buffer ob', map snd (co_callbacks ob')))) name"
  proof (cases "name = co_object_id ob'")
    case True
    then show ?thesis using com_view_SomeI[OF q', of a ob'] ob' by simp
  next
    case other: False
    show ?thesis
    proof (cases "\<exists>b ob. cs_objects s b = Some ob \<and> co_object_id ob = name")
      case True
      then obtain b ob where b: "cs_objects s b = Some ob" "co_object_id ob = name" by blast
      have b': "cs_objects s' b = Some ob" using b same other ob' by auto
      show ?thesis using com_view_SomeI[OF q' b'] com_view_SomeI[OF q b(1)] b(2) other by simp
    next
      case False
      then have "com_view s name = None" by (auto intro: com_view_NoneI)
      moreover have "com_view s' name = None"
        using False other ob' by (intro com_view_NoneI) (auto split: if_splits)
      ultimately show ?thesis using other by simp
    qed
  qed
qed

section \<open>The thread records are enough\<close>

lemma record_free:
  assumes "size (owners ob) < length (co_records ob)" and "acquiring st"
  shows "\<exists>ob'. set_thread_id_record t now st ob = Some ob'"
proof -
  have "\<exists>i < length (co_records ob). tr_lock_state (co_records ob ! i) = LOCK_STATE_NONE"
  proof (rule ccontr)
    assume "\<not> ?thesis"
    then have "filter (\<lambda>x. tr_lock_state x \<noteq> LOCK_STATE_NONE) (co_records ob) = co_records ob"
      by (auto simp: filter_id_conv in_set_conv_nth)
    then have "filter_mset (\<lambda>x. tr_lock_state x \<noteq> LOCK_STATE_NONE) (mset (co_records ob)) = mset (co_records ob)"
      by (metis mset_filter)
    then have "size (owners ob) = length (co_records ob)" by (simp add: owners_def)
    then show False using assms(1) by simp
  qed
  then have "first_host (length (co_records ob)) (\<lambda>i. tr_lock_state (co_records ob ! i) = LOCK_STATE_NONE) \<noteq> None"
    unfolding first_host_None by blast
  then show ?thesis using assms(2) by (auto simp: set_thread_id_record_def Let_def)
qed

lemma record_mine:
  assumes "t \<in># owners ob" and "\<not> acquiring st"
  shows "\<exists>ob'. set_thread_id_record t now st ob = Some ob'"
proof -
  have "\<exists>x \<in> set (co_records ob). tr_lock_state x \<noteq> LOCK_STATE_NONE \<and> tr_thread_id x = t"
    using assms(1) by (auto simp: owners_def)
  then have "\<exists>i < length (co_records ob). tr_lock_state (co_records ob ! i) \<noteq> LOCK_STATE_NONE
      \<and> tr_thread_id (co_records ob ! i) = t"
    by (auto simp: in_set_conv_nth)
  then have "first_host (length (co_records ob)) (\<lambda>i. tr_lock_state (co_records ob ! i) \<noteq> LOCK_STATE_NONE
      \<and> tr_thread_id (co_records ob ! i) = t) \<noteq> None"
    unfolding first_host_None by blast
  then show ?thesis using assms(2) by (auto simp: set_thread_id_record_def Let_def)
qed

section \<open>Creating, in the view\<close>

text \<open>The system has what a call asks for, and \<open>malloc\<close> returns addresses that are free.\<close>

definition enough :: "com_sys \<Rightarrow> com_state \<Rightarrow> bool" where
  "enough y s \<longleftrightarrow> al_object (ys_alloc y) \<noteq> None \<and> al_blocks (ys_alloc y) \<and> al_handle (ys_alloc y) \<noteq> None
     \<and> ys_rwlock_init y \<and> ys_wrlock y \<and> ys_unlock y \<and> fresh_alloc (ys_alloc y) s"

lemma quiet_object:
  assumes "quiet s" and "cs_objects s a = Some ob"
  shows "owners ob = {#}" "co_in_use ob = 0" "length (co_records ob) = 16" "co_rwlock ob = RwRead []"
proof -
  have "object_ok (\<lambda>_. Idle) ob" using com_invD(8)[OF assms(1)[unfolded quiet_def]] assms(2) by simp
  then show "owners ob = {#}" "co_in_use ob = 0" "length (co_records ob) = 16" "co_rwlock ob = RwRead []"
    by (auto simp: object_ok_def active_def rw_ok_def THREAD_ID_RECORD_NUM_def split: rwlock.splits)
qed

lemma create_new_object:
  assumes q: "quiet s" and e: "enough y s" and none: "find_common_object s i = None"
  shows "\<exists>h a s' ob'. com_create y cb t now i sz buffer s = Some (Inr (MTC_SUCCESS, h, s')) \<and> quiet s'
    \<and> cs_handles s h = None \<and> cs_handles s' = (cs_handles s)(h \<mapsto> a) \<and> cs_objects s a = None
    \<and> cs_objects s' = (cs_objects s)(a \<mapsto> ob')
    \<and> al_object (ys_alloc y) = Some a \<and> al_handle (ys_alloc y) = Some h
    \<and> co_object_id ob' = i \<and> co_buffer ob' = map_option (take (unat sz)) buffer \<and> co_callbacks ob' = []"
proof -
  obtain a h where al: "al_object (ys_alloc y) = Some a" "al_handle (ys_alloc y) = Some h" using e by (auto simp: enough_def)
  have free: "cs_objects s a = None" "cs_handles s h = None" using e al by (auto simp: enough_def fresh_alloc_def)
  obtain ob where new: "new_object True i sz buffer = Some ob" and buf: "co_buffer ob = map_option (take (unat sz)) buffer"
    and cbs: "co_callbacks ob = []"
    by (cases buffer) (auto simp: new_object_def new_object_buffer_def Let_def)
  note N = new_object_sel[OF new]
  obtain s' where run: "com_create_enter (ys_alloc y) (ys_rwlock_init y) t now i sz buffer s = Inr (False, h, s')"
    and s': "cs_handles s' = (cs_handles s)(h \<mapsto> a)" "cs_objects s' = (cs_objects s)(a \<mapsto> ob\<lparr>co_ref_count := co_ref_count ob + 1\<rparr>)"
    using e none al new
    by (auto simp: com_create_enter_def com_create_new_def enough_def Let_def insert_common_object_def put_object_def)
  have "quiet s'"
    using inv_create_new[of "\<lparr>run_s = s, run_pc = (\<lambda>_ _. Idle)\<rparr>"] q e run by (auto simp: quiet_def enough_def)
  then show ?thesis
    using run s' free N buf cbs al
    by (intro exI[of _ h] exI[of _ a] exI[of _ s'] exI[of _ "ob\<lparr>co_ref_count := co_ref_count ob + 1\<rparr>"])
       (simp add: com_create_def)
qed

text \<open>Callbacks that leave the data alone, as all do outside a disarm request.\<close>

definition keep_buffer :: "callback \<Rightarrow> addr \<Rightarrow> u8 list option \<Rightarrow> u8 list option" where
  "keep_buffer f h b = b"

lemma run_checked_same:
  assumes "co_checksum ob = calc_checksum_object_buffer ob"
  shows "run_checked keep_buffer items ob = Some ob"
  using assms by (induction items) (auto simp: keep_buffer_def)

lemma fill_object_same:
  "\<exists>ob'. fill_object keep_buffer True sz buf ob = Inr ob' \<and> co_buffer ob' = Some (take (unat sz) buf)
    \<and> co_callbacks ob' = co_callbacks ob"
  by (simp add: fill_object_def new_object_buffer_def run_checked_same calc_checksum_object_buffer_def)

lemma leave_lock_same:
  assumes "t \<in># owners ob"
  shows "\<exists>ob'. leave_lock True t now ob = Inr ob' \<and> co_buffer ob' = co_buffer ob \<and> co_callbacks ob' = co_callbacks ob"
proof -
  have "t \<in># owners (ob\<lparr>co_in_use := co_in_use ob - 1\<rparr>)" using assms by (simp add: owners_def)
  then obtain ob1 where r: "set_thread_id_record t now LOCK_STATE_NONE (ob\<lparr>co_in_use := co_in_use ob - 1\<rparr>) = Some ob1"
    using record_mine[of t "ob\<lparr>co_in_use := co_in_use ob - 1\<rparr>" LOCK_STATE_NONE now] by (auto simp: acquiring_def)
  show ?thesis using set_record_frame[OF r] by (simp add: leave_lock_def record_or_abort_def r)
qed

text \<open>The section that fills an object nobody else holds, and the one that leaves it alone.\<close>

lemma fill_section_same:
  assumes "t \<in># owners ob"
  shows "\<exists>ob'. fill_section keep_buffer True True True t now sz buf ob = Inr ob' \<and> co_buffer ob' = Some (take (unat sz) buf)
    \<and> co_callbacks ob' = co_callbacks ob"
proof -
  obtain ob1 where r: "set_thread_id_record t now LOCK_STATE_WRITER_ACQUIRED ob = Some ob1"
    using record_mine[OF assms] by (auto simp: acquiring_def)
  obtain ob2 where f: "fill_object keep_buffer True sz buf ob1 = Inr ob2" "co_buffer ob2 = Some (take (unat sz) buf)"
      "co_callbacks ob2 = co_callbacks ob1"
    using fill_object_same by blast
  have "owners ob2 = owners ob"
    using set_record_owners[OF r] owners_cong[OF fill_object_frame(1)[OF f(1)]] by (simp add: acquiring_def)
  then have "t \<in># owners ob2" using assms by simp
  then obtain ob3 where "leave_lock True t now ob2 = Inr ob3" "co_buffer ob3 = co_buffer ob2" "co_callbacks ob3 = co_callbacks ob2"
    using leave_lock_same[of t ob2 now] by auto
  then show ?thesis using f set_record_frame[OF r] by (simp add: fill_section_def record_or_abort_def r)
qed

lemma create_old_object:
  assumes q: "quiet s" and e: "enough y s"
    and fnd: "find_common_object s i = Some a" and ob: "cs_objects s a = Some ob"
  shows "\<exists>h s' ob'. com_create y keep_buffer t now i sz buffer s = Some (Inr (MTC_SUCCESS, h, s')) \<and> quiet s'
    \<and> cs_handles s h = None \<and> cs_handles s' = (cs_handles s)(h \<mapsto> a) \<and> cs_objects s' = (cs_objects s)(a \<mapsto> ob')
    \<and> co_object_id ob' = co_object_id ob \<and> al_handle (ys_alloc y) = Some h
    \<and> co_buffer ob' = (if co_buffer ob = None then map_option (take (unat sz)) buffer else co_buffer ob)
    \<and> co_callbacks ob' = co_callbacks ob"
proof -
  let ?r = "\<lparr>run_s = s, run_pc = (\<lambda>_ _. Idle)\<rparr>"
  obtain h where al: "al_handle (ys_alloc y) = Some h" using e by (auto simp: enough_def)
  have free: "cs_handles s h = None" and fresh: "fresh_alloc (ys_alloc y) s"
    using e al by (auto simp: enough_def fresh_alloc_def)
  note Q = quiet_object[OF q ob]
  have small: "size (owners (ob\<lparr>co_ref_count := c, co_in_use := d\<rparr>)) < length (co_records (ob\<lparr>co_ref_count := c, co_in_use := d\<rparr>))" for c d
    using Q owners_cong[of "ob\<lparr>co_ref_count := c, co_in_use := d\<rparr>" ob] by simp
  obtain ob1 where r: "set_thread_id_record t now LOCK_STATE_WRITER_ACQUIREING
      (ob\<lparr>co_ref_count := co_ref_count ob + 1, co_in_use := co_in_use ob + 1\<rparr>) = Some ob1"
    using record_free[OF small, of LOCK_STATE_WRITER_ACQUIREING t now "co_in_use ob + 1" "co_ref_count ob + 1"]
    by (auto simp: acquiring_def)
  define s1 where "s1 = put_object a ob1 (s\<lparr>cs_handles := (cs_handles s)(h \<mapsto> a)\<rparr>)"
  have run: "com_create_enter (ys_alloc y) (ys_rwlock_init y) t now i sz buffer s = Inr (True, h, s1)"
    using fnd ob al r by (simp add: com_create_enter_def com_create_existing_def record_or_abort_def s1_def)
  have ho: "handle_object s1 h = Some (a, ob1)" by (simp add: handle_object_def s1_def put_object_def)
  have mine: "owners ob1 = {#t#}"
    using set_record_owners[OF r] Q(1) owners_cong[of "ob\<lparr>co_ref_count := co_ref_count ob + 1, co_in_use := co_in_use ob + 1\<rparr>" ob]
    by (simp add: acquiring_def)
  note f = set_record_frame[OF r]
  have inv1: "com_inv (at_pc ?r t a Creating s1)"
    using inv_create_old[of ?r] q run fresh by (auto simp: quiet_def s1_def put_object_def)
  have same_pc: "at_pc (at_pc ?r t a p s1) t a Idle s2 = \<lparr>run_s = s2, run_pc = (\<lambda>_ _. Idle)\<rparr>" for p s2
    by (auto simp: at_pc_def)
  have sel: "run_s (at_pc ?r t a p s1) = s1" "run_pc (at_pc ?r t a p s1) a t = p" for p by (simp_all add: at_pc_def)
  have h1: "cs_handles s1 h = Some a" by (simp add: s1_def put_object_def)
  have finish_with: ?thesis if run2: "com_create y keep_buffer t now i sz buffer s = Some (Inr (MTC_SUCCESS, h, s2))"
      and s2: "s2 = put_object a ob2 s1" and q2: "quiet s2"
      and o2: "co_object_id ob2 = co_object_id ob" "co_callbacks ob2 = co_callbacks ob"
        "co_buffer ob2 = (if co_buffer ob = None then map_option (take (unat sz)) buffer else co_buffer ob)" for s2 ob2
    using run2 q2 o2 free s2 al by (intro exI[of _ h] exI[of _ s2] exI[of _ ob2]) (auto simp: s1_def put_object_def)
  show ?thesis
  proof (cases "co_buffer ob = None \<and> buffer \<noteq> None")
    case True
    then obtain buf where buf: "buffer = Some buf" by blast
    have fills: "com_create_fills buffer h s1" using True f ho by (simp add: com_create_fills_def)
    have lock: "pthread_rwlock_wrlock t (co_rwlock ob1) = Some (RwWrite t)" using f Q by (simp add: pthread_rwlock_wrlock_def)
    have "t \<in># owners (ob1\<lparr>co_rwlock := RwWrite t\<rparr>)" using mine by (simp add: owners_def)
    then obtain ob2 where o2: "fill_section keep_buffer True True True t now sz buf (ob1\<lparr>co_rwlock := RwWrite t\<rparr>) = Inr ob2"
        "co_buffer ob2 = Some (take (unat sz) buf)" "co_callbacks ob2 = co_callbacks ob1"
      using fill_section_same[of t "ob1\<lparr>co_rwlock := RwWrite t\<rparr>" now sz buf] by auto
    have fill: "com_create_fill keep_buffer True True True t now sz buf h s1 = Some (Inr (put_object a ob2 s1))"
      using ho lock o2(1) by (simp add: com_create_fill_def)
    have inv2: "com_inv (at_pc ?r t a Filling s1)"
      using com_step_inv[OF step_create_test[of "at_pc ?r t a Creating s1" a t h buffer] inv1] fills h1 sel
      by (simp add: at_pc_def)
    have q2: "quiet (put_object a ob2 s1)"
      using inv_create_fill[OF inv2 sel(2), of h keep_buffer True True True now sz buf "put_object a ob2 s1"] fill h1 sel(1) same_pc
      by (simp add: quiet_def)
    have id2: "co_object_id ob2 = co_object_id ob"
    proof -
      obtain x z where "set_thread_id_record t now LOCK_STATE_WRITER_ACQUIRED (ob1\<lparr>co_rwlock := RwWrite t\<rparr>) = Some x"
        and "fill_object keep_buffer True sz buf x = Inr z" and "leave_lock True t now z = Inr ob2"
        by (rule fill_section_Inr[OF o2(1)])
      then show ?thesis using set_record_frame(1) fill_object_frame(4) leave_lock_Inr(5) f(1) by fastforce
    qed
    show ?thesis
      by (rule finish_with[OF _ refl q2 id2])
         (use run fills fill buf e o2 f True in \<open>simp_all add: com_create_def enough_def\<close>)
  next
    case False
    obtain ob2 where r2: "set_thread_id_record t now LOCK_STATE_NONE ob1 = Some ob2"
      using record_mine[of t ob1] mine by (auto simp: acquiring_def)
    let ?ob2 = "ob2\<lparr>co_in_use := co_in_use ob2 - 1\<rparr>"
    have leave: "com_create_leave t now h s1 = Inr (put_object a ?ob2 s1)"
      using ho r2 by (simp add: com_create_leave_def record_or_abort_def)
    have nofill: "\<not> com_create_fills buffer h s1" using False f ho by (auto simp: com_create_fills_def)
    have q2: "quiet (put_object a ?ob2 s1)"
      using inv_create_leave[OF inv1 sel(2), of h now "put_object a ?ob2 s1"] leave h1 sel(1) same_pc
      by (simp add: quiet_def)
    show ?thesis
      by (rule finish_with[OF _ refl q2])
         (use run nofill leave f set_record_frame[OF r2] False in \<open>auto simp: com_create_def split: option.splits\<close>)
  qed
qed

text \<open>
  The specification of \<open>com_create\<close> on the view: the object of the name is there afterwards; it
  has the data of the first creation and its callbacks.
\<close>

definition ensure_object :: "string \<Rightarrow> u8 list option \<Rightarrow> (string \<Rightarrow> (u8 list option \<times> callback list) option)
  \<Rightarrow> string \<Rightarrow> (u8 list option \<times> callback list) option" where
  "ensure_object i data V = V(i \<mapsto> (case V i of
     None \<Rightarrow> (data, [])
   | Some (b, cbs) \<Rightarrow> (if b = None then data else b, cbs)))"

lemma handle_name_upd:
  assumes q: "quiet s" and h: "cs_handles s' = (cs_handles s)(h \<mapsto> a)" and ob': "cs_objects s' = (cs_objects s)(a \<mapsto> ob')"
    and same: "\<And>ob. cs_objects s a = Some ob \<Longrightarrow> co_object_id ob = co_object_id ob'"
  shows "handle_name s' = (handle_name s)(h \<mapsto> co_object_id ob')"
proof
  fix k
  show "handle_name s' k = ((handle_name s)(h \<mapsto> co_object_id ob')) k"
  proof (cases "cs_handles s k")
    case None
    then show ?thesis by (simp add: handle_name_def handle_object_def h ob')
  next
    case (Some b)
    then obtain ob where "cs_objects s b = Some ob" using com_invD(6)[OF q[unfolded quiet_def], of k b] by auto
    then show ?thesis using Some same[of ob] by (auto simp: handle_name_def handle_object_def h ob')
  qed
qed

lemma com_create_view:
  assumes q: "quiet s" and e: "enough y s"
  shows "\<exists>h s'. com_create y keep_buffer t now i sz buffer s = Some (Inr (MTC_SUCCESS, h, s')) \<and> quiet s'
    \<and> com_view s' = ensure_object i (map_option (take (unat sz)) buffer) (com_view s)
    \<and> handle_name s' = (handle_name s)(h \<mapsto> i) \<and> cs_handles s h = None
    \<and> dom (cs_handles s') = insert (the (al_handle (ys_alloc y))) (dom (cs_handles s))
    \<and> dom (cs_objects s') \<subseteq> insert (the (al_object (ys_alloc y))) (dom (cs_objects s))"
proof (cases "find_common_object s i")
  case None
  obtain h a s' ob' where R: "com_create y keep_buffer t now i sz buffer s = Some (Inr (MTC_SUCCESS, h, s'))" "quiet s'"
      "cs_handles s h = None" "cs_handles s' = (cs_handles s)(h \<mapsto> a)" "cs_objects s a = None" "cs_objects s' = (cs_objects s)(a \<mapsto> ob')"
      "al_object (ys_alloc y) = Some a" "al_handle (ys_alloc y) = Some h"
      "co_object_id ob' = i" "co_buffer ob' = map_option (take (unat sz)) buffer" "co_callbacks ob' = []"
    using create_new_object[OF q e None, of keep_buffer t now sz buffer] by auto
  have V: "com_view s i = None" using None by (simp add: com_view_def)
  have "com_view s' = (com_view s)(i \<mapsto> (map_option (take (unat sz)) buffer, []))"
    using com_view_put[OF q R(2,6)] R(5,9,10,11) by simp
  moreover have "handle_name s' = (handle_name s)(h \<mapsto> i)"
    using handle_name_upd[OF q R(4,6)] R(5,9) by simp
  ultimately show ?thesis
    using R V by (intro exI[of _ h] exI[of _ s']) (simp add: ensure_object_def)
next
  case (Some a)
  then obtain ob where ob: "cs_objects s a = Some ob" "co_object_id ob = i" using find_common_Some by blast
  obtain h s' ob' where R: "com_create y keep_buffer t now i sz buffer s = Some (Inr (MTC_SUCCESS, h, s'))" "quiet s'"
      "cs_handles s h = None" "cs_handles s' = (cs_handles s)(h \<mapsto> a)" "cs_objects s' = (cs_objects s)(a \<mapsto> ob')"
      "co_object_id ob' = co_object_id ob" "al_handle (ys_alloc y) = Some h"
      "co_buffer ob' = (if co_buffer ob = None then map_option (take (unat sz)) buffer else co_buffer ob)"
      "co_callbacks ob' = co_callbacks ob"
    using create_old_object[OF q e Some ob(1), of t now sz buffer] by auto
  have V: "com_view s i = Some (co_buffer ob, map snd (co_callbacks ob))"
    using com_view_SomeI[OF q ob(1)] ob(2) by simp
  have "com_view s' = (com_view s)(i \<mapsto> (co_buffer ob', map snd (co_callbacks ob)))"
    using com_view_put[OF q R(2,5)] ob R(6,9) by simp
  moreover have "handle_name s' = (handle_name s)(h \<mapsto> i)"
    using handle_name_upd[OF q R(4,5)] ob R(6) by simp
  moreover have "dom (cs_objects s') = dom (cs_objects s)" using ob R(5) by auto
  ultimately show ?thesis
    using R(1-4,7,8) V by (intro exI[of _ h] exI[of _ s']) (auto simp: ensure_object_def)
qed

text \<open>Registering a callback puts it in front.\<close>

definition add_callback :: "string \<Rightarrow> callback \<Rightarrow> (string \<Rightarrow> (u8 list option \<times> callback list) option)
  \<Rightarrow> string \<Rightarrow> (u8 list option \<times> callback list) option" where
  "add_callback i f V = V(i := map_option (\<lambda>(b, cbs). (b, f # cbs)) (V i))"

lemma com_register_view:
  assumes q: "quiet s" and h: "handle_name s h = Some i"
  shows "\<exists>s'. com_register_callback True h (Some f) s = Inr (MTC_SUCCESS, s') \<and> quiet s'
    \<and> com_view s' = add_callback i f (com_view s) \<and> handle_name s' = handle_name s
    \<and> cs_handles s' = cs_handles s \<and> dom (cs_objects s') = dom (cs_objects s)"
proof -
  obtain a ob where ho: "cs_handles s h = Some a" "cs_objects s a = Some ob" "co_object_id ob = i"
    using h by (auto simp: handle_name_def handle_object_Some)
  define ob' where "ob' = insert_callback_list_item h f ob"
  define s' where "s' = put_object a ob' s"
  have run: "com_register_callback True h (Some f) s = Inr (MTC_SUCCESS, s')"
    using ho by (simp add: com_register_callback_def handle_object_def s'_def ob'_def)
  have ob'_sel: "co_object_id ob' = i" "co_buffer ob' = co_buffer ob" "co_callbacks ob' = (h, f) # co_callbacks ob"
    using ho by (simp_all add: ob'_def insert_callback_list_item_def)
  have q': "quiet s'"
    using inv_data[OF q[unfolded quiet_def], of a ob ob'] ho by (simp add: quiet_def s'_def ob'_def insert_callback_list_item_def)
  have os: "cs_objects s' = (cs_objects s)(a \<mapsto> ob')" by (simp add: s'_def put_object_def)
  have V: "com_view s i = Some (co_buffer ob, map snd (co_callbacks ob))"
    using com_view_SomeI[OF q ho(2)] ho(3) by simp
  have "com_view s' = add_callback i f (com_view s)"
    using com_view_put[OF q q' os] ho ob'_sel V by (auto simp: add_callback_def fun_eq_iff)
  moreover have "handle_name s' = handle_name s"
    using ho ob'_sel by (auto simp: fun_eq_iff handle_name_def handle_object_def s'_def put_object_def split: option.splits)
  ultimately show ?thesis using run q' os ho by (intro exI[of _ s']) (auto simp: s'_def put_object_def)
qed

lemma ensure_object_there: "V i \<noteq> None \<Longrightarrow> ensure_object i None V = V"
  by (auto simp: ensure_object_def fun_eq_iff)

lemma handle_name_view:
  assumes "quiet s" and "handle_name s h = Some i"
  shows "com_view s i \<noteq> None"
  using assms com_view_SomeI by (auto simp: handle_name_def handle_object_Some)

text \<open>The callbacks of the view are the ones releasing the writer lock runs, in that order.\<close>

lemma writer_unlock_calls:
  assumes "com_inv r" and "handle_object (run_s r) h = Some (a, ob)"
    and "com_writer_unlock cb ok t now h (run_s r) = Inr (calls, s')"
  shows "com_view (run_s r) (co_object_id ob) = Some (co_buffer ob, map fst calls)"
proof -
  have o: "cs_objects (run_s r) a = Some ob" using assms(2) by (simp add: handle_object_Some)
  have "map fst calls = map snd (co_callbacks ob)"
    using assms(2,3) by (auto simp: com_writer_unlock_def run_callbacks_def split: if_splits)
  then show ?thesis using find_common_eq[OF assms(1) o] o by (simp add: com_view_def)
qed

end
