(* ===== verification/ModuleInit.thy ===== *)
theory ModuleInit
  imports ComCalls DaemonMain InitObjects HostWeight BondMon Config ScServer
begin

text \<open>
  The initialisers of the modules, \<open>sm_initialize\<close>, \<open>hb_initialize\<close>, \<open>sf_initialize\<close>,
  \<open>lm_initialize\<close>, \<open>bm_initialize\<close>, \<open>xapimon_initialize\<close>, \<open>script_initialize\<close> and
  \<open>com_initialize\<close> of \<^verbatim>\<open>daemon/\<close>, which \<^verbatim>\<open>daemon/main.c\<close> calls for the
  phases 0 (objects and sockets), 1 (watchdogs and threads) and -1 (termination), the only
  ones it passes. They work on
  the object manager of \<^verbatim>\<open>Com\<close>, whose data are bytes, and on the typed objects of
  \<^verbatim>\<open>Shared\<close>; what the compiler makes of an initial value is an argument (\<open>ie_image\<close>). The
  functions \<open>..._cleanup_objects\<close> are empty: their bodies are under \<open>#if 0\<close>.
\<close>

section \<open>The objects and who opens them\<close>

datatype obj = HbObj | SfObj | XmObj | SmObj | BmObj

fun com_id :: "obj \<Rightarrow> string" where
  "com_id HbObj = ''heartbeat''"
| "com_id SfObj = ''statefile''"
| "com_id XmObj = ''xapimon''"
| "com_id SmObj = ''statemanager''"
| "com_id BmObj = ''bm''"

text \<open>The callbacks, by number, and what they do to the daemon.\<close>

definition sm_hb_cb :: callback where "sm_hb_cb = 0"
definition sm_sf_cb :: callback where "sm_sf_cb = 1"
definition sm_xapimon_cb :: callback where "sm_xapimon_cb = 2"
definition sm_sm_cb :: callback where "sm_sm_cb = 3"
definition hb_hb_cb :: callback where "hb_hb_cb = 4"
definition hb_sf_cb :: callback where "hb_sf_cb = 5"
definition hb_xapimon_cb :: callback where "hb_xapimon_cb = 6"
definition hb_sm_cb :: callback where "hb_sm_cb = 7"
definition sf_sf_cb :: callback where "sf_sf_cb = 8"
definition lm_sf_cb :: callback where "lm_sf_cb = 9"
definition lm_sm_cb :: callback where "lm_sm_cb = 10"

lemmas cb_defs = sm_hb_cb_def sm_sf_cb_def sm_xapimon_cb_def sm_sm_cb_def hb_hb_cb_def hb_sf_cb_def
  hb_xapimon_cb_def hb_sm_cb_def sf_sf_cb_def lm_sf_cb_def lm_sm_cb_def

definition callback_effect :: "bool \<Rightarrow> callback \<Rightarrow> daemon \<Rightarrow> daemon" where
  "callback_effect by_sm f =
     (if f = sm_hb_cb then sm_hb_updated by_sm
      else if f = sm_sf_cb then sm_sf_updated by_sm
      else if f = sm_sm_cb then sm_sm_updated by_sm
      else if f = hb_hb_cb then hb_hb_updated
      else if f = sf_sf_cb then sf_sf_updated
      else if f = lm_sf_cb then lm_sf_updated
      else if f = lm_sm_cb then lm_sm_updated
      else id)"

definition run_effects :: "bool \<Rightarrow> callback list \<Rightarrow> daemon \<Rightarrow> daemon" where
  "run_effects by_sm cbs d = fold (callback_effect by_sm) cbs d"

text \<open>The tables \<open>objects\<close> of the modules; the handle is known by its object.\<close>

record table_entry =
  te_handle :: "obj option"
  te_name :: string
  te_callback :: "callback option"

definition entry :: "obj \<Rightarrow> callback option \<Rightarrow> table_entry" where
  "entry ob cb = \<lparr>te_handle = Some ob, te_name = com_id ob, te_callback = cb\<rparr>"

definition sm_objects :: "table_entry list" where
  "sm_objects = [entry HbObj (Some sm_hb_cb), entry SfObj (Some sm_sf_cb), entry XmObj (Some sm_xapimon_cb),
     entry SmObj (Some sm_sm_cb), \<lparr>te_handle = None, te_name = [], te_callback = None\<rparr>]"

definition hb_objects :: "table_entry list" where
  "hb_objects = [entry HbObj (Some hb_hb_cb), entry SfObj (Some hb_sf_cb), entry XmObj (Some hb_xapimon_cb),
     entry SmObj (Some hb_sm_cb), \<lparr>te_handle = None, te_name = [], te_callback = None\<rparr>]"

definition sf_objects :: "table_entry list" where
  "sf_objects = [entry HbObj None, entry SfObj (Some sf_sf_cb), entry XmObj None, entry SmObj None]"

definition lm_objects :: "table_entry list" where
  "lm_objects = [entry SfObj (Some lm_sf_cb), entry SmObj (Some lm_sm_cb),
     \<lparr>te_handle = None, te_name = [], te_callback = None\<rparr>]"

section \<open>The system and the state\<close>

text \<open>
  What the operating system and the other threads contribute. \<open>ie_sys\<close> and \<open>ie_item\<close> are the
  memory of the successive calls of the object manager, \<open>ie_others\<close> what the threads that
  already run do before a module is called, \<open>ie_between\<close> what they do between the sections of
  the termination.
\<close>

record init_env =
  ie_conf :: ha_config
  ie_sys :: "nat \<Rightarrow> com_sys"
  ie_item :: "nat \<Rightarrow> bool"
  ie_image :: "obj \<Rightarrow> u8 list"
  ie_self :: thread
  ie_now :: clock
  ie_spin :: "init_module \<Rightarrow> bool"
  ie_thread :: "string \<Rightarrow> bool"
  ie_watchdog :: "string \<Rightarrow> mtc_status \<times> nat option"
  ie_watchdog_close :: "nat \<Rightarrow> mtc_status"
  ie_sf_open :: bool
  ie_addr :: "nat \<Rightarrow> sock_address"
  ie_udp_port :: "16 word"
  ie_hb_socket :: bool
  ie_bindtodevice :: bool
  ie_bind :: bool
  ie_sc_socket :: "nat \<Rightarrow> int"
  ie_sc_bind :: "nat \<Rightarrow> bool"
  ie_sc_listen :: "nat \<Rightarrow> bool"
  ie_weight_opened :: mtc_status
  ie_weight_reads :: "string option list"
  ie_others :: "init_module \<Rightarrow> int \<Rightarrow> daemon \<Rightarrow> daemon"
  ie_between :: "nat \<Rightarrow> daemon \<Rightarrow> daemon"

record init_state =
  is_com :: com_state
  is_allocs :: nat
  is_items :: nat
  is_handles :: "init_module \<Rightarrow> obj \<Rightarrow> addr option"
  is_tables :: "init_module \<Rightarrow> table_entry list"
  is_daemon :: daemon
  is_bm :: com_data_bm
  is_hw :: hw_var
  is_threads :: "string list"
  is_sf_open :: bool
  is_hb_bound :: "(sock_address \<times> 16 word) option"
  is_sa_to :: "nat \<Rightarrow> (sock_address \<times> 16 word) option"
  is_bm_terminate :: bool
  is_xm_terminate :: bool
  is_sc_terminate :: bool
  is_sc_socket :: "nat \<Rightarrow> int"
  is_sc_bound :: "nat \<Rightarrow> string option"

text \<open>
  A call returns a status and the state, or the process ends in it (\<open>Inl\<close>), or it blocks
  (\<open>None\<close>). \<open>and_then\<close> is the \<open>if (ret) goto error\<close> after a call.
\<close>

type_synonym init_run = "(mtc_status \<times> init_state) com_result option"

abbreviation ret :: "mtc_status \<Rightarrow> init_state \<Rightarrow> init_run" where
  "ret st s \<equiv> Some (Inr (st, s))"

definition and_then :: "init_run \<Rightarrow> (init_state \<Rightarrow> init_run) \<Rightarrow> init_run" where
  "and_then r k =
     (case r of
        None \<Rightarrow> None
      | Some (Inl stop) \<Rightarrow> Some (Inl stop)
      | Some (Inr (st, s)) \<Rightarrow> if st \<noteq> MTC_SUCCESS then ret st s else k s)"

section \<open>Creating and opening objects\<close>

definition create_object :: "init_env \<Rightarrow> init_module \<Rightarrow> obj \<Rightarrow> (init_state \<Rightarrow> init_state) \<Rightarrow> init_state \<Rightarrow> init_run" where
  "create_object e m ob put s =
     map_option (map_sum id (\<lambda>(st, h, c).
         (st, (case com_create_calls (com_id ob) (is_com s) of
                 Some cbs \<Rightarrow> (put s)\<lparr>is_daemon := run_effects False cbs (is_daemon (put s))\<rparr>
               | None \<Rightarrow> s)
              \<lparr>is_com := c, is_allocs := is_allocs s + 1,
               is_handles := (is_handles s)(m := (is_handles s m)(ob := if st \<noteq> MTC_SUCCESS then None else Some h))\<rparr>)))
       (com_create (ie_sys e (is_allocs s)) keep_buffer (ie_self e) (ie_now e) (com_id ob)
          (of_nat (length (ie_image e ob))) (Some (ie_image e ob)) (is_com s))"

text \<open>
  The body of the loop over the table. When an object cannot be opened the state manager, the
  heartbeat and the lock manager clear the pointer in the table, the State-File the handle.
\<close>

definition open_entry :: "init_env \<Rightarrow> init_module \<Rightarrow> nat \<Rightarrow> table_entry \<Rightarrow> obj \<Rightarrow> init_state \<Rightarrow> init_run" where
  "open_entry e m i en ob s =
     (if is_handles s m ob \<noteq> None then ret MTC_SUCCESS s
      else map_option (map_sum id (\<lambda>(st, h, c).
         (st, (if st \<noteq> MTC_SUCCESS
               then (if m = SF then s\<lparr>is_handles := (is_handles s)(m := (is_handles s m)(ob := None))\<rparr>
                     else s\<lparr>is_tables := (is_tables s)(m := (is_tables s m)[i := en\<lparr>te_handle := None\<rparr>])\<rparr>)
               else s\<lparr>is_handles := (is_handles s)(m := (is_handles s m)(ob := Some h))\<rparr>)
              \<lparr>is_com := c, is_allocs := is_allocs s + 1\<rparr>)))
         (com_open (ie_sys e (is_allocs s)) keep_buffer (ie_self e) (ie_now e) (te_name en) (is_com s)))"

definition register_entry :: "init_env \<Rightarrow> init_module \<Rightarrow> table_entry \<Rightarrow> obj \<Rightarrow> init_state \<Rightarrow> init_run" where
  "register_entry e m en ob s =
     (case te_callback en of
        None \<Rightarrow> ret MTC_SUCCESS s
      | Some f \<Rightarrow>
          (case is_handles s m ob of
             None \<Rightarrow> Some (Inl ComAbort)
           | Some h \<Rightarrow> Some (map_sum id (\<lambda>(st, c). (st, s\<lparr>is_com := c, is_items := is_items s + 1\<rparr>))
               (com_register_callback (ie_item e (is_items s)) h (Some f) (is_com s)))))"

fun open_entries :: "init_env \<Rightarrow> init_module \<Rightarrow> nat \<Rightarrow> table_entry list \<Rightarrow> init_state \<Rightarrow> init_run" where
  "open_entries e m i [] s = ret MTC_SUCCESS s"
| "open_entries e m i (en # ens) s =
     (case te_handle en of
        None \<Rightarrow> ret MTC_SUCCESS s
      | Some ob \<Rightarrow> and_then (open_entry e m i en ob s) (\<lambda>s1.
          and_then (register_entry e m en ob s1) (\<lambda>s2. open_entries e m (Suc i) ens s2)))"

definition open_objects :: "init_env \<Rightarrow> init_module \<Rightarrow> init_state \<Rightarrow> init_run" where
  "open_objects e m s = open_entries e m 0 (is_tables s m) s"

section \<open>Threads\<close>

definition start_thread :: "init_env \<Rightarrow> string \<Rightarrow> mtc_status \<Rightarrow> init_state \<Rightarrow> init_run" where
  "start_thread e name failure s =
     (if ie_thread e name then ret MTC_SUCCESS (s\<lparr>is_threads := is_threads s @ [name]\<rparr>) else ret failure s)"

abbreviation upd_d :: "(daemon \<Rightarrow> daemon) \<Rightarrow> init_state \<Rightarrow> init_state" where
  "upd_d f s \<equiv> s\<lparr>is_daemon := f (is_daemon s)\<rparr>"

section \<open>The object manager, the bond monitor and the Xapi monitor\<close>

definition com_initialize_run :: "init_env \<Rightarrow> int \<Rightarrow> init_state \<Rightarrow> init_run" where
  "com_initialize_run e phase s = ret (com_initialize phase (ie_spin e COM)) s"

definition bm_initialize :: "init_env \<Rightarrow> int \<Rightarrow> init_state \<Rightarrow> init_run" where
  "bm_initialize e phase s =
     (if phase = 0 then create_object e BM BmObj (\<lambda>s. s\<lparr>is_bm := init_com_bm\<rparr>) s
      else if phase = 1 then start_thread e ''bm'' MTC_ERROR_BM_PTHREAD (s\<lparr>is_bm_terminate := False\<rparr>)
      else ret MTC_ERROR_INVALID_PARAMETER
        (if ''bm'' \<in> set (is_threads s) then s\<lparr>is_bm_terminate := True\<rparr> else s))"

definition xapimon_initialize :: "init_env \<Rightarrow> int \<Rightarrow> init_state \<Rightarrow> init_run" where
  "xapimon_initialize e phase s =
     (if phase = 0 then create_object e XAPIMON XmObj (upd_d (\<lambda>d. d\<lparr>d_xm := init_com_xm\<rparr>)) s
      else if phase = 1 then start_thread e ''xapimon'' MTC_ERROR_XAPIMON_PTHREAD (s\<lparr>is_xm_terminate := False\<rparr>)
      else ret MTC_SUCCESS s)"

section \<open>The State-File and the lock manager\<close>

definition sf_initialize_vars :: "ha_config \<Rightarrow> sf_var \<Rightarrow> sf_var" where
  "sf_initialize_vars c v = v\<lparr>sfv_watchdog := None, sfv_terminate := False,
     sfv_readlatency := (sfv_readlatency v)\<lparr>lat_max := - 1, lat_min := - 1\<rparr>,
     sfv_writelatency := (sfv_writelatency v)\<lparr>lat_max := - 1, lat_min := - 1\<rparr>,
     sfv_SF_access := False, sfv_interval_ms := uint (cfg_t2 c * 1000),
     sfv_hoststat := (\<lambda>host. if host < MAX_HOST_NUM
        then (sfv_hoststat v host)\<lparr>hs_readonce := False, hs_readclock := - 1, hs_updateclock := - 1\<rparr>
        else sfv_hoststat v host)\<rparr>"

definition sf_initialize0 :: "init_env \<Rightarrow> init_state \<Rightarrow> init_run" where
  "sf_initialize0 e s0 =
     (let s = upd_d (upd_sfv (sf_initialize_vars (ie_conf e))) (s0\<lparr>is_sf_open := False\<rparr>)
      in if \<not> ie_spin e SF then ret MTC_ERROR_SF_PTHREAD s
         else and_then (create_object e SF SfObj (upd_d (\<lambda>d. d\<lparr>d_sf := init_com_sf (ie_conf e)\<rparr>)) s) (\<lambda>s1.
           and_then (open_objects e SF s1) (\<lambda>s2.
             if \<not> ie_sf_open e then ret MTC_ERROR_SF_OPEN s2 else ret MTC_SUCCESS (s2\<lparr>is_sf_open := True\<rparr>))))"

definition sf_initialize1 :: "init_env \<Rightarrow> init_state \<Rightarrow> init_run" where
  "sf_initialize1 e s =
     (case ie_watchdog e ''statefile'' of (st, h) \<Rightarrow>
        if st \<noteq> MTC_SUCCESS then ret st s
        else start_thread e ''sfthread'' MTC_ERROR_SF_PTHREAD
          (upd_d (upd_sfv (\<lambda>v. v\<lparr>sfv_watchdog := h, sfv_terminate := False\<rparr>)) s))"

definition sf_terminate :: "init_state \<Rightarrow> init_state" where
  "sf_terminate s =
     (if ''sfthread'' \<in> set (is_threads s)
      then upd_d (\<lambda>d. case sfv_watchdog (d_sfv d) of
          None \<Rightarrow> d
        | Some w \<Rightarrow> upd_sfv (\<lambda>v. v\<lparr>sfv_watchdog := None\<rparr>) (d\<lparr>d_wd := d_wd d @ [WdClose w]\<rparr>)) s
      else s)"

text \<open>The status is the one of the close.\<close>

definition sf_terminate_status :: "init_env \<Rightarrow> init_state \<Rightarrow> mtc_status" where
  "sf_terminate_status e s =
     (case sfv_watchdog (d_sfv (is_daemon s)) of
        Some w \<Rightarrow> if ''sfthread'' \<in> set (is_threads s) then ie_watchdog_close e w else MTC_SUCCESS
      | None \<Rightarrow> MTC_SUCCESS)"

definition sf_initialize :: "init_env \<Rightarrow> int \<Rightarrow> init_state \<Rightarrow> init_run" where
  "sf_initialize e phase s =
     (if phase = 0 then sf_initialize0 e s
      else if phase = 1 then sf_initialize1 e s
      else ret (sf_terminate_status e s) (sf_terminate s))"

text \<open>The two copies are cleared with \<open>memset\<close>; \<open>init_com_sm\<close> is all zeros.\<close>

definition lm_initialize :: "init_env \<Rightarrow> int \<Rightarrow> init_state \<Rightarrow> init_run" where
  "lm_initialize e phase s =
     (if phase = 0 then open_objects e LM (upd_d (upd_lmv (\<lambda>v. v\<lparr>lmv_sf := zero_com_sf, lmv_sm := init_com_sm\<rparr>)) s)
      else if phase = 1 then
        and_then (start_thread e ''lock_mgr'' MTC_ERROR_LM_PTHREAD s) (\<lambda>s1.
          ret MTC_SUCCESS (upd_d (upd_lmv (\<lambda>v. v\<lparr>lmv_terminate := False\<rparr>)) s1))
      else ret MTC_SUCCESS
        (if ''lock_mgr'' \<in> set (is_threads s)
         then upd_d (upd_lmv (\<lambda>v. v\<lparr>lmv_pending_request := False, lmv_cancel_request := True, lmv_terminate := True\<rparr>)) s
         else s))"

section \<open>The heartbeat\<close>

text \<open>
  The socket is bound to the port, at the address of the host and on the interface. The loop
  over the destinations stops the process at a host without a usable address.
\<close>

definition hb_bind_socket :: "init_env \<Rightarrow> init_state \<Rightarrow> init_run" where
  "hb_bind_socket e s =
     (let addr = ie_addr e (my_index (ie_conf e))
      in case addr of
           AF_OTHER f \<Rightarrow> ret MTC_ERROR_HB_SOCKET s
         | _ \<Rightarrow>
           if \<not> ie_hb_socket e \<or> \<not> ie_bindtodevice e \<or> \<not> ie_bind e then ret MTC_ERROR_HB_SOCKET s
           else ret MTC_SUCCESS (s\<lparr>is_hb_bound := Some (addr, ie_udp_port e)\<rparr>))"

fun hb_destinations :: "init_env \<Rightarrow> nat \<Rightarrow> init_state \<Rightarrow> init_state com_result" where
  "hb_destinations e 0 s = Inr s"
| "hb_destinations e (Suc n) s =
     (case hb_destinations e n s of
        Inl stop \<Rightarrow> Inl stop
      | Inr s1 \<Rightarrow>
          (case ie_addr e n of
             AF_OTHER f \<Rightarrow> Inl ComAbort
           | addr \<Rightarrow> Inr (s1\<lparr>is_sa_to := (is_sa_to s1)(n \<mapsto> (addr, ie_udp_port e))\<rparr>)))"

definition hb_initialize0 :: "init_env \<Rightarrow> init_state \<Rightarrow> init_run" where
  "hb_initialize0 e s =
     and_then (create_object e HB HbObj (upd_d (\<lambda>d. d\<lparr>d_hb := init_com_hb\<rparr>)) s) (\<lambda>s1.
       and_then (open_objects e HB s1) (\<lambda>s2.
         and_then (hb_bind_socket e s2) (\<lambda>s3.
           Some (map_sum id (Pair MTC_SUCCESS) (hb_destinations e (num_host (ie_conf e)) s3)))))"

definition hb_initialize1 :: "init_env \<Rightarrow> init_state \<Rightarrow> init_run" where
  "hb_initialize1 e s =
     (case ie_watchdog e ''heartbeat'' of (st, h) \<Rightarrow>
        if st \<noteq> MTC_SUCCESS then ret st (upd_d (upd_hbv (\<lambda>v. v\<lparr>hbv_watchdog := None\<rparr>)) s)
        else and_then (start_thread e ''hb_receive'' MTC_ERROR_HB_PTHREAD
            (upd_d (upd_hbv (\<lambda>v. v\<lparr>hbv_watchdog := h, hbv_terminate := False\<rparr>)) s))
          (start_thread e ''hb_send'' MTC_ERROR_HB_PTHREAD))"

text \<open>
  The two threads are waited for, which is the section \<open>0\<close> of the other threads; the handle of the
  watchdog is kept after the close.
\<close>

definition hb_terminate :: "init_env \<Rightarrow> init_state \<Rightarrow> init_state" where
  "hb_terminate e s =
     (let s1 = upd_d (ie_between e 0 \<circ> upd_hbv (\<lambda>v. v\<lparr>hbv_terminate := True\<rparr>)) s
      in upd_d (\<lambda>d. case hbv_watchdog (d_hbv d) of None \<Rightarrow> d | Some w \<Rightarrow> d\<lparr>d_wd := d_wd d @ [WdClose w]\<rparr>) s1)"

definition hb_initialize :: "init_env \<Rightarrow> int \<Rightarrow> init_state \<Rightarrow> init_run" where
  "hb_initialize e phase s =
     (if phase = 0 then (if \<not> ie_spin e HB then ret MTC_ERROR_HB_PTHREAD s else hb_initialize0 e s)
      else if phase = 1 then hb_initialize1 e s
      else ret MTC_SUCCESS (hb_terminate e s))"

section \<open>The state manager\<close>

definition sm_initialize0 :: "init_env \<Rightarrow> init_state \<Rightarrow> init_run" where
  "sm_initialize0 e s =
     and_then (create_object e SM SmObj (upd_d (\<lambda>d. d\<lparr>d_sm := init_com_sm\<rparr>)) s) (\<lambda>s1.
       open_objects e SM (upd_d (upd_smv (\<lambda>v. v\<lparr>smv_last_hbdomain := hm_init_reset, smv_last_sfdomain := hm_init_reset\<rparr>)) s1))"

text \<open>The worker may fail to start after the thread of the state manager runs.\<close>

definition sm_initialize1 :: "init_env \<Rightarrow> init_state \<Rightarrow> init_run" where
  "sm_initialize1 e s =
     and_then (start_thread e ''sm'' MTC_ERROR_SM_PTHREAD (upd_d (upd_smv (\<lambda>v. v\<lparr>smv_terminate := False\<rparr>)) s))
       (start_thread e ''sm_worker'' MTC_ERROR_SM_PTHREAD)"

text \<open>Four sections, one per object; the callbacks run at the end of each.\<close>

definition sm_disarm :: "(nat \<Rightarrow> daemon \<Rightarrow> daemon) \<Rightarrow> daemon \<Rightarrow> daemon" where
  "sm_disarm between d =
     (let d1 = with_sm False (\<lambda>x. x\<lparr>sm_fencing := FENCING_DISARMED\<rparr>)
                 (upd_smv (\<lambda>v. v\<lparr>smv_fencing := FENCING_DISARMED\<rparr>) d);
          d2 = with_hb False (\<lambda>x. x\<lparr>hb_enable_send := False, hb_enable_receive := False\<rparr>) (between 1 d1);
          d3 = with_sf False (\<lambda>x. x\<lparr>sf_enable_read := False, sf_enable_write := False\<rparr>) (between 2 d2);
          d4 = upd_xm (\<lambda>x. x\<lparr>xm_enable_monitor := False\<rparr>) (between 3 d3)
      in upd_smv (\<lambda>v. v\<lparr>smv_terminate := True\<rparr>) d4)"

definition sm_initialize :: "init_env \<Rightarrow> int \<Rightarrow> init_state \<Rightarrow> init_run" where
  "sm_initialize e phase s =
     (if phase = 0 then sm_initialize0 e s
      else if phase = 1 then sm_initialize1 e s
      else ret MTC_SUCCESS (upd_d (sm_disarm (ie_between e)) s))"

section \<open>The script server\<close>

text \<open>The name of a socket, in the abstract name space: a zero byte in front.\<close>

definition script_sock_name :: "nat \<Rightarrow> string" where
  "script_sock_name i = CHR 0x00 # ''xha_socket_'' @ print_int (int i)"

text \<open>The loop over the sockets; the first failure ends it and leaves what is open.\<close>

fun create_sockets_from :: "init_env \<Rightarrow> nat list \<Rightarrow> init_state \<Rightarrow> init_run" where
  "create_sockets_from e [] s = ret MTC_SUCCESS s"
| "create_sockets_from e (i # is) s =
     (let s1 = s\<lparr>is_sc_socket := (is_sc_socket s)(i := ie_sc_socket e i)\<rparr>
      in if ie_sc_socket e i < 0 \<or> \<not> ie_sc_bind e i then ret MTC_ERROR_SC_SOCKET s1
         else (let s2 = s1\<lparr>is_sc_bound := (is_sc_bound s1)(i \<mapsto> script_sock_name i)\<rparr>
               in if \<not> ie_sc_listen e i then ret MTC_ERROR_SC_SOCKET s2 else create_sockets_from e is s2))"

definition create_sockets :: "init_env \<Rightarrow> init_state \<Rightarrow> init_run" where
  "create_sockets e s =
     (case fist_on ''sc.socket'' (d_fist (is_daemon s)) of (point, tab) \<Rightarrow>
        let s1 = upd_d (\<lambda>d. d\<lparr>d_fist := tab\<rparr>) s
        in if point then ret MTC_ERROR_SC_SOCKET s1 else create_sockets_from e [0..<SCRIPT_SOCKET_NUM] s1)"

definition script_initialize0 :: "init_env \<Rightarrow> init_state \<Rightarrow> init_run" where
  "script_initialize0 e s =
     (case fist_on ''sc.pthread'' (d_fist (is_daemon s)) of (point, tab) \<Rightarrow>
        let s1 = upd_d (\<lambda>d. d\<lparr>d_fist := tab\<rparr>) s
        in if \<not> ie_spin e SCRIPT \<or> point then ret MTC_ERROR_SC_PTHREAD s1 else create_sockets e s1)"

definition script_thread_name :: "nat \<Rightarrow> string" where
  "script_thread_name i =
     (if i = 0 then ''sc_thread_other'' else if i = 1 then ''sc_thread_query''
      else if i = 2 then ''sc_thread_internal'' else ''sc_thread_unknown'')"

text \<open>The fault point replaces what \<open>pthread_create\<close> says, after the thread was started.\<close>

fun create_threads_from :: "init_env \<Rightarrow> nat list \<Rightarrow> init_state \<Rightarrow> init_run" where
  "create_threads_from e [] s = ret MTC_SUCCESS s"
| "create_threads_from e (i # is) s =
     (let s1 = (if ie_thread e (script_thread_name i) then s\<lparr>is_threads := is_threads s @ [script_thread_name i]\<rparr> else s)
      in case fist_on ''sc.pthread'' (d_fist (is_daemon s1)) of (point, tab) \<Rightarrow>
           let s2 = upd_d (\<lambda>d. d\<lparr>d_fist := tab\<rparr>) s1
           in if \<not> ie_thread e (script_thread_name i) \<or> point then ret MTC_ERROR_SC_PTHREAD s2
              else create_threads_from e is s2)"

definition create_threads :: "init_env \<Rightarrow> init_state \<Rightarrow> init_run" where
  "create_threads e s = create_threads_from e [0..<SCRIPT_SOCKET_NUM] s"

definition script_terminate :: "init_state \<Rightarrow> init_state" where
  "script_terminate s = s\<lparr>is_sc_terminate := True,
     is_sc_socket := (\<lambda>i. if i < SCRIPT_SOCKET_NUM \<and> 0 < is_sc_socket s i then - 1 else is_sc_socket s i)\<rparr>"

definition script_initialize :: "init_env \<Rightarrow> int \<Rightarrow> init_state \<Rightarrow> init_run" where
  "script_initialize e phase s =
     (if phase = 0 then script_initialize0 e s
      else if phase = 1 then create_threads e s
      else ret MTC_SUCCESS (script_terminate s))"

section \<open>All modules\<close>

definition initialize :: "init_env \<Rightarrow> init_module \<Rightarrow> int \<Rightarrow> init_state \<Rightarrow> init_run" where
  "initialize e m phase s =
     (case m of
        COM \<Rightarrow> com_initialize_run e phase s
      | SF \<Rightarrow> sf_initialize e phase s
      | LM \<Rightarrow> lm_initialize e phase s
      | BM \<Rightarrow> bm_initialize e phase s
      | HB \<Rightarrow> hb_initialize e phase s
      | XAPIMON \<Rightarrow> xapimon_initialize e phase s
      | SCRIPT \<Rightarrow> script_initialize e phase s
      | HOSTWEIGHT \<Rightarrow>
          (case hostweight_initialize phase (ie_weight_opened e) (ie_weight_reads e) (is_hw s, is_daemon s) of
             (st, hw, d) \<Rightarrow> ret st (s\<lparr>is_hw := hw, is_daemon := d\<rparr>))
      | SM \<Rightarrow> sm_initialize e phase s)"

text \<open>The process as \<open>main\<close> drives it: after it has ended or blocks, nothing more happens.\<close>

datatype init_proc = Running init_state | Ended com_stop | Blocked

definition module_init :: "init_env \<Rightarrow> init_proc init_func" where
  "module_init e m phase p =
     (case p of
        Running s \<Rightarrow>
          (case initialize e m phase (upd_d (ie_others e m phase) s) of
             None \<Rightarrow> (MTC_SUCCESS, Blocked)
           | Some (Inl stop) \<Rightarrow> (MTC_SUCCESS, Ended stop)
           | Some (Inr (st, s1)) \<Rightarrow> (st, Running s1))
      | _ \<Rightarrow> (MTC_SUCCESS, p))"

text \<open>The static variables before the first call: nothing is open, and the tables are as written.\<close>

definition init_tables :: "init_module \<Rightarrow> table_entry list" where
  "init_tables m =
     (case m of SM \<Rightarrow> sm_objects | HB \<Rightarrow> hb_objects | SF \<Rightarrow> sf_objects | LM \<Rightarrow> lm_objects | _ \<Rightarrow> [])"

definition static_state :: "init_state \<Rightarrow> bool" where
  "static_state s \<longleftrightarrow> is_com s = run_s com_start \<and> is_allocs s = 0 \<and> is_items s = 0
     \<and> is_handles s = (\<lambda>_ _. None) \<and> is_tables s = init_tables \<and> is_threads s = []"

end
