(* ===== verification/ModuleInitProps.thy ===== *)
theory ModuleInitProps
  imports ModuleInit
begin

text \<open>
  What the initialisers build: after phase 0 every object has the data its owner created it
  with, whoever opened it first, and its callbacks are in the order in which the model of the
  daemon runs them when a lock is released. And what the termination leaves: fencing is
  disarmed and the watchdogs are closed.
\<close>

section \<open>The order of the callbacks\<close>

fun object_callbacks :: "obj \<Rightarrow> callback list" where
  "object_callbacks HbObj = [sm_hb_cb, hb_hb_cb]"
| "object_callbacks SfObj = [sm_sf_cb, hb_sf_cb, lm_sf_cb, sf_sf_cb]"
| "object_callbacks XmObj = [sm_xapimon_cb, hb_xapimon_cb]"
| "object_callbacks SmObj = [sm_sm_cb, hb_sm_cb, lm_sm_cb]"
| "object_callbacks BmObj = []"

lemma callbacks_unlock:
  "run_effects b (object_callbacks SmObj) d = unlock_sm b d"
  "run_effects b (object_callbacks HbObj) d = unlock_hb b d"
  "run_effects b (object_callbacks SfObj) d = unlock_sf b d"
  "run_effects b (object_callbacks XmObj) d = d"
  by (simp_all add: run_effects_def callback_effect_def cb_defs unlock_sm_def unlock_hb_def unlock_sf_def)

section \<open>Memory\<close>

text \<open>Every call of the object manager gets memory, at an address that was not given before.\<close>

definition enough_memory :: "init_env \<Rightarrow> bool" where
  "enough_memory e \<longleftrightarrow>
     (\<forall>n. al_object (ys_alloc (ie_sys e n)) \<noteq> None \<and> al_blocks (ys_alloc (ie_sys e n)) \<and> al_handle (ys_alloc (ie_sys e n)) \<noteq> None
        \<and> ys_rwlock_init (ie_sys e n) \<and> ys_wrlock (ie_sys e n) \<and> ys_unlock (ie_sys e n) \<and> ie_item e n) \<and>
     inj (\<lambda>n. al_object (ys_alloc (ie_sys e n))) \<and> inj (\<lambda>n. al_handle (ys_alloc (ie_sys e n))) \<and>
     (\<forall>ob. length (ie_image e ob) < 2 ^ 32)"

definition alloc_inv :: "init_env \<Rightarrow> init_state \<Rightarrow> bool" where
  "alloc_inv e s \<longleftrightarrow> quiet (is_com s) \<and> is_allocs s < 100 \<and>
     dom (cs_objects (is_com s)) \<subseteq> (\<lambda>n. the (al_object (ys_alloc (ie_sys e n)))) ` {..<is_allocs s} \<and>
     dom (cs_handles (is_com s)) \<subseteq> (\<lambda>n. the (al_handle (ys_alloc (ie_sys e n)))) ` {..<is_allocs s} \<and>
     (\<forall>m ob h. is_handles s m ob = Some h \<longrightarrow> handle_name (is_com s) h = Some (com_id ob))"

lemma alloc_inv_enough:
  assumes m: "enough_memory e" and i: "alloc_inv e s"
  shows "enough (ie_sys e (is_allocs s)) (is_com s)"
proof -
  let ?n = "is_allocs s"
  let ?o = "\<lambda>n. al_object (ys_alloc (ie_sys e n))" and ?h = "\<lambda>n. al_handle (ys_alloc (ie_sys e n))"
  have inj: "inj ?o" "inj ?h" and some: "?o k \<noteq> None" "?h k \<noteq> None" for k using m by (simp_all add: enough_memory_def)
  have o: "cs_objects (is_com s) a = None" if "?o ?n = Some a" for a
  proof (rule ccontr)
    assume "cs_objects (is_com s) a \<noteq> None"
    then obtain k where "k < ?n" "a = the (?o k)" using i by (auto simp: alloc_inv_def)
    then show False using that some(1)[of k] injD[OF inj(1), of k ?n] by auto
  qed
  have h: "cs_handles (is_com s) a = None" if "?h ?n = Some a" for a
  proof (rule ccontr)
    assume "cs_handles (is_com s) a \<noteq> None"
    then obtain k where "k < ?n" "a = the (?h k)" using i by (auto simp: alloc_inv_def)
    then show False using that some(2)[of k] injD[OF inj(2), of k ?n] by auto
  qed
  have "card (dom (cs_handles (is_com s))) \<le> card ((\<lambda>n. the (?h n)) ` {..<?n})"
    using i by (intro card_mono) (simp_all add: alloc_inv_def)
  then have "card (dom (cs_handles (is_com s))) \<le> ?n" using card_image_le[of "{..<?n}" "\<lambda>n. the (?h n)"] by simp
  then have "card (dom (cs_handles (is_com s))) + 1 < 2 ^ 32" using i by (simp add: alloc_inv_def)
  then show ?thesis using m o h by (simp add: enough_def enough_memory_def fresh_alloc_def)
qed

section \<open>One call\<close>

lemma alloc_inv_next:
  assumes i: "alloc_inv e s" and n: "is_allocs s < 99" and q: "quiet c"
    and hn: "handle_name c = (handle_name (is_com s))(h \<mapsto> com_id ob)" "cs_handles (is_com s) h = None"
    and d: "dom (cs_handles c) = insert (the (al_handle (ys_alloc (ie_sys e (is_allocs s))))) (dom (cs_handles (is_com s)))"
      "dom (cs_objects c) \<subseteq> insert (the (al_object (ys_alloc (ie_sys e (is_allocs s))))) (dom (cs_objects (is_com s)))"
    and s': "is_com s' = c" "is_allocs s' = is_allocs s + 1" "is_handles s' = (is_handles s)(m := (is_handles s m)(ob := Some h))"
  shows "alloc_inv e s'"
proof -
  have old: "handle_name c k = Some (com_id ob')" if "is_handles s m' ob' = Some k" for m' ob' k
  proof -
    have "handle_name (is_com s) k = Some (com_id ob')" using i that by (simp add: alloc_inv_def)
    moreover have "k \<noteq> h" using calculation hn(2) by (auto simp: handle_name_def handle_object_def)
    ultimately show ?thesis by (simp add: hn(1))
  qed
  have new: "handle_name c h = Some (com_id ob)" by (simp add: hn(1))
  have "dom (cs_objects c) \<subseteq> (\<lambda>n. the (al_object (ys_alloc (ie_sys e n)))) ` {..<is_allocs s + 1}"
    using d(2) i unfolding alloc_inv_def Suc_eq_plus1[symmetric] lessThan_Suc image_insert by blast
  moreover have "dom (cs_handles c) \<subseteq> (\<lambda>n. the (al_handle (ys_alloc (ie_sys e n)))) ` {..<is_allocs s + 1}"
    using d(1) i unfolding alloc_inv_def Suc_eq_plus1[symmetric] lessThan_Suc image_insert by blast
  ultimately show ?thesis
    using n q old new unfolding alloc_inv_def s' by (simp del: fun_upd_apply add: fun_upd_def)
qed

lemma create_object_ok:
  assumes m: "enough_memory e" and i: "alloc_inv e s" and n: "is_allocs s < 99"
    and put: "is_com (put s) = is_com s" "is_allocs (put s) = is_allocs s" "is_handles (put s) = is_handles s"
  obtains s' c h where "create_object e md ob put s = ret MTC_SUCCESS s'" and "alloc_inv e s'"
    and "s' = (case com_create_calls (com_id ob) (is_com s) of
                 Some cbs \<Rightarrow> (put s)\<lparr>is_daemon := run_effects False cbs (is_daemon (put s))\<rparr> | None \<Rightarrow> s)
              \<lparr>is_com := c, is_allocs := is_allocs s + 1, is_handles := (is_handles s)(md := (is_handles s md)(ob := Some h))\<rparr>"
    and "com_view c = ensure_object (com_id ob) (Some (ie_image e ob)) (com_view (is_com s))"
proof -
  have q: "quiet (is_com s)" using i by (simp add: alloc_inv_def)
  have len: "unat (of_nat (length (ie_image e ob)) :: u32) = length (ie_image e ob)"
    using m by (simp add: enough_memory_def unat_small)
  obtain h c where C: "com_create (ie_sys e (is_allocs s)) keep_buffer (ie_self e) (ie_now e) (com_id ob)
        (of_nat (length (ie_image e ob))) (Some (ie_image e ob)) (is_com s) = Some (Inr (MTC_SUCCESS, h, c))"
      "quiet c" "com_view c = ensure_object (com_id ob) (Some (ie_image e ob)) (com_view (is_com s))"
      "handle_name c = (handle_name (is_com s))(h \<mapsto> com_id ob)" "cs_handles (is_com s) h = None"
      "dom (cs_handles c) = insert (the (al_handle (ys_alloc (ie_sys e (is_allocs s))))) (dom (cs_handles (is_com s)))"
      "dom (cs_objects c) \<subseteq> insert (the (al_object (ys_alloc (ie_sys e (is_allocs s))))) (dom (cs_objects (is_com s)))"
    using com_create_view[OF q alloc_inv_enough[OF m i], of "ie_self e" "ie_now e" "com_id ob"
      "of_nat (length (ie_image e ob))" "Some (ie_image e ob)"] len by auto
  define s' where "s' = (case com_create_calls (com_id ob) (is_com s) of
                 Some cbs \<Rightarrow> (put s)\<lparr>is_daemon := run_effects False cbs (is_daemon (put s))\<rparr> | None \<Rightarrow> s)
              \<lparr>is_com := c, is_allocs := is_allocs s + 1, is_handles := (is_handles s)(md := (is_handles s md)(ob := Some h))\<rparr>"
  have "create_object e md ob put s = ret MTC_SUCCESS s'"
    by (simp add: create_object_def C(1) s'_def)
  moreover have "alloc_inv e s'"
    by (rule alloc_inv_next[OF i n C(2,4,5,6,7)]) (simp_all add: s'_def)
  ultimately show ?thesis using that C(3) s'_def by blast
qed

lemma open_entry_ok:
  assumes m: "enough_memory e" and i: "alloc_inv e s" and n: "is_allocs s < 99"
  obtains s' where "open_entry e md k (entry ob cb) ob s = ret MTC_SUCCESS s'" and "alloc_inv e s'"
    and "is_handles s' md ob \<noteq> None" and "is_allocs s' \<le> is_allocs s + 1"
    and "com_view (is_com s') = ensure_object (com_id ob) None (com_view (is_com s))"
    and "s' = s\<lparr>is_com := is_com s', is_allocs := is_allocs s', is_handles := is_handles s'\<rparr>"
proof (cases "is_handles s md ob")
  case (Some h)
  have q: "quiet (is_com s)" and "handle_name (is_com s) h = Some (com_id ob)" using i Some by (auto simp: alloc_inv_def)
  then have "ensure_object (com_id ob) None (com_view (is_com s)) = com_view (is_com s)"
    by (simp add: ensure_object_there handle_name_view)
  then show ?thesis using Some i by (intro that[of s]) (simp_all add: open_entry_def)
next
  case None
  have q: "quiet (is_com s)" using i by (simp add: alloc_inv_def)
  obtain h c where C: "com_open (ie_sys e (is_allocs s)) keep_buffer (ie_self e) (ie_now e) (com_id ob) (is_com s)
        = Some (Inr (MTC_SUCCESS, h, c))"
      "quiet c" "com_view c = ensure_object (com_id ob) None (com_view (is_com s))"
      "handle_name c = (handle_name (is_com s))(h \<mapsto> com_id ob)" "cs_handles (is_com s) h = None"
      "dom (cs_handles c) = insert (the (al_handle (ys_alloc (ie_sys e (is_allocs s))))) (dom (cs_handles (is_com s)))"
      "dom (cs_objects c) \<subseteq> insert (the (al_object (ys_alloc (ie_sys e (is_allocs s))))) (dom (cs_objects (is_com s)))"
    using com_create_view[OF q alloc_inv_enough[OF m i], of "ie_self e" "ie_now e" "com_id ob" 0 None]
    by (auto simp: com_open_def)
  define s' where "s' = s\<lparr>is_handles := (is_handles s)(md := (is_handles s md)(ob := Some h)), is_com := c, is_allocs := is_allocs s + 1\<rparr>"
  have run: "open_entry e md k (entry ob cb) ob s = ret MTC_SUCCESS s'"
    by (simp add: open_entry_def None C(1) s'_def entry_def)
  have inv: "alloc_inv e s'"
    by (rule alloc_inv_next[OF i n C(2,4,5,6,7)]) (simp_all add: s'_def)
  show ?thesis by (rule that[OF run inv]) (simp_all add: s'_def C(3))
qed

lemma register_entry_ok:
  assumes m: "enough_memory e" and i: "alloc_inv e s" and h: "is_handles s md ob \<noteq> None"
  obtains s' where "register_entry e md (entry ob cb) ob s = ret MTC_SUCCESS s'" and "alloc_inv e s'"
    and "com_view (is_com s') = (case cb of None \<Rightarrow> com_view (is_com s) | Some f \<Rightarrow> add_callback (com_id ob) f (com_view (is_com s)))"
    and "s' = s\<lparr>is_com := is_com s', is_items := is_items s'\<rparr>"
proof (cases cb)
  case None
  then show ?thesis using i by (intro that[of s]) (simp_all add: register_entry_def entry_def)
next
  case (Some f)
  obtain hh where hh: "is_handles s md ob = Some hh" using h by blast
  have q: "quiet (is_com s)" and name: "handle_name (is_com s) hh = Some (com_id ob)" using i hh by (auto simp: alloc_inv_def)
  obtain c where C: "com_register_callback True hh (Some f) (is_com s) = Inr (MTC_SUCCESS, c)" "quiet c"
      "com_view c = add_callback (com_id ob) f (com_view (is_com s))" "handle_name c = handle_name (is_com s)"
      "cs_handles c = cs_handles (is_com s)" "dom (cs_objects c) = dom (cs_objects (is_com s))"
    using com_register_view[OF q name, of f] by blast
  define s' where "s' = s\<lparr>is_com := c, is_items := is_items s + 1\<rparr>"
  have run: "register_entry e md (entry ob cb) ob s = ret MTC_SUCCESS s'"
    using m C(1) by (simp add: register_entry_def entry_def Some hh s'_def enough_memory_def)
  have inv: "alloc_inv e s'" using i C by (simp add: alloc_inv_def s'_def)
  show ?thesis by (rule that[OF run inv]) (simp_all add: s'_def C(3) Some)
qed

section \<open>A module\<close>

text \<open>What opening the object of an entry does to the view.\<close>

fun open_view :: "obj \<times> callback option \<Rightarrow> (string \<Rightarrow> (u8 list option \<times> callback list) option)
  \<Rightarrow> string \<Rightarrow> (u8 list option \<times> callback list) option" where
  "open_view (ob, None) V = ensure_object (com_id ob) None V"
| "open_view (ob, Some f) V = add_callback (com_id ob) f (ensure_object (com_id ob) None V)"

lemma and_then_ok [simp]: "and_then (ret MTC_SUCCESS s) k = k s"
  by (simp add: and_then_def)

lemma te_entry [simp]: "te_handle (entry ob cb) = Some ob"
  by (simp add: entry_def)

lemma open_entries_ok:
  assumes m: "enough_memory e" and tail: "\<And>j s. open_entries e md j tail s = ret MTC_SUCCESS s"
  shows "alloc_inv e s \<Longrightarrow> is_allocs s + length xs < 99 \<Longrightarrow>
    \<exists>s'. open_entries e md k (map (\<lambda>(ob, cb). entry ob cb) xs @ tail) s = ret MTC_SUCCESS s' \<and> alloc_inv e s'
      \<and> is_allocs s' \<le> is_allocs s + length xs \<and> com_view (is_com s') = fold open_view xs (com_view (is_com s))
      \<and> s' = s\<lparr>is_com := is_com s', is_allocs := is_allocs s', is_handles := is_handles s', is_items := is_items s'\<rparr>"
proof (induction xs arbitrary: k s)
  case Nil
  then show ?case by (simp add: tail)
next
  case (Cons x xs)
  obtain ob cb where x: "x = (ob, cb)" by (cases x)
  have lt: "is_allocs s < 99" using Cons.prems(2) by simp
  obtain s1 where s1: "open_entry e md k (entry ob cb) ob s = ret MTC_SUCCESS s1" "alloc_inv e s1"
      "is_handles s1 md ob \<noteq> None" "is_allocs s1 \<le> is_allocs s + 1"
      "com_view (is_com s1) = ensure_object (com_id ob) None (com_view (is_com s))"
      "s1 = s\<lparr>is_com := is_com s1, is_allocs := is_allocs s1, is_handles := is_handles s1\<rparr>"
    by (rule open_entry_ok[OF m Cons.prems(1) lt])
  obtain s2 where s2: "register_entry e md (entry ob cb) ob s1 = ret MTC_SUCCESS s2" "alloc_inv e s2"
      "com_view (is_com s2) = (case cb of None \<Rightarrow> com_view (is_com s1) | Some f \<Rightarrow> add_callback (com_id ob) f (com_view (is_com s1)))"
      "s2 = s1\<lparr>is_com := is_com s2, is_items := is_items s2\<rparr>"
    by (rule register_entry_ok[OF m s1(2,3)])
  have al: "is_allocs s2 = is_allocs s1" by (subst s2(4)) simp
  have v2: "com_view (is_com s2) = open_view x (com_view (is_com s))"
    using s2(3) s1(5) by (cases cb) (simp_all add: x)
  obtain s3 where s3: "open_entries e md (Suc k) (map (\<lambda>(ob, cb). entry ob cb) xs @ tail) s2 = ret MTC_SUCCESS s3" "alloc_inv e s3"
      "is_allocs s3 \<le> is_allocs s2 + length xs" "com_view (is_com s3) = fold open_view xs (com_view (is_com s2))"
      "s3 = s2\<lparr>is_com := is_com s3, is_allocs := is_allocs s3, is_handles := is_handles s3, is_items := is_items s3\<rparr>"
    using Cons.IH[OF s2(2), of "Suc k"] al s1(4) Cons.prems(2) by auto
  have "open_entries e md k (map (\<lambda>(ob, cb). entry ob cb) (x # xs) @ tail) s = ret MTC_SUCCESS s3"
    using s1(1) s2(1) s3(1) by (simp add: x and_then_ok te_entry)
  moreover have "s3 = s\<lparr>is_com := is_com s3, is_allocs := is_allocs s3, is_handles := is_handles s3, is_items := is_items s3\<rparr>"
    by (subst s3(5), subst s2(4), subst s1(6)) simp
  ultimately show ?case using s3(2,3,4) al s1(4) v2 by (intro exI[of _ s3]) simp
qed

text \<open>What the rest of the start needs to know of a state.\<close>

definition wired :: "init_env \<Rightarrow> nat \<Rightarrow> (string \<Rightarrow> (u8 list option \<times> callback list) option) \<Rightarrow> daemon \<Rightarrow> com_data_bm
  \<Rightarrow> init_state \<Rightarrow> bool" where
  "wired e n V d b s \<longleftrightarrow> alloc_inv e s \<and> is_allocs s \<le> n \<and> com_view (is_com s) = V \<and> is_daemon s = d \<and> is_bm s = b
     \<and> is_tables s = init_tables"

lemma wired_cong:
  assumes "wired e n V d b s" and "is_com s' = is_com s" "is_allocs s' = is_allocs s" "is_handles s' = is_handles s"
    "is_tables s' = is_tables s"
  shows "wired e n V (is_daemon s') (is_bm s') s'"
  using assms by (simp add: wired_def alloc_inv_def)

text \<open>The objects a module opens, in the order of its table.\<close>

definition opens :: "init_module \<Rightarrow> (obj \<times> callback option) list" where
  "opens m =
     (case m of
        SM \<Rightarrow> [(HbObj, Some sm_hb_cb), (SfObj, Some sm_sf_cb), (XmObj, Some sm_xapimon_cb), (SmObj, Some sm_sm_cb)]
      | HB \<Rightarrow> [(HbObj, Some hb_hb_cb), (SfObj, Some hb_sf_cb), (XmObj, Some hb_xapimon_cb), (SmObj, Some hb_sm_cb)]
      | SF \<Rightarrow> [(HbObj, None), (SfObj, Some sf_sf_cb), (XmObj, None), (SmObj, None)]
      | LM \<Rightarrow> [(SfObj, Some lm_sf_cb), (SmObj, Some lm_sm_cb)]
      | _ \<Rightarrow> [])"

lemma init_tables_opens:
  "\<exists>tail. init_tables m = map (\<lambda>(ob, cb). entry ob cb) (opens m) @ tail
     \<and> (\<forall>j s. open_entries e m j tail s = ret MTC_SUCCESS s)"
  by (cases m) (simp_all add: init_tables_def opens_def sm_objects_def hb_objects_def sf_objects_def lm_objects_def)

lemma open_objects_wired:
  assumes m: "enough_memory e" and w: "wired e n V d b s" and n: "n + length (opens md) < 99"
  shows "\<exists>s'. open_objects e md s = ret MTC_SUCCESS s' \<and> wired e (n + length (opens md)) (fold open_view (opens md) V) d b s'"
proof -
  obtain tail where t: "init_tables md = map (\<lambda>(ob, cb). entry ob cb) (opens md) @ tail"
      "\<And>j s. open_entries e md j tail s = ret MTC_SUCCESS s"
    using init_tables_opens by blast
  have i: "alloc_inv e s" and al: "is_allocs s \<le> n" using w by (simp_all add: wired_def)
  obtain s' where s': "open_entries e md 0 (map (\<lambda>(ob, cb). entry ob cb) (opens md) @ tail) s = ret MTC_SUCCESS s'" "alloc_inv e s'"
      "is_allocs s' \<le> is_allocs s + length (opens md)" "com_view (is_com s') = fold open_view (opens md) (com_view (is_com s))"
      "s' = s\<lparr>is_com := is_com s', is_allocs := is_allocs s', is_handles := is_handles s', is_items := is_items s'\<rparr>"
    using open_entries_ok[OF m t(2) i, of "opens md" 0] al n by auto
  have "is_daemon s' = is_daemon s" "is_bm s' = is_bm s" "is_tables s' = is_tables s"
    by (subst s'(5), simp)+
  then have "wired e (n + length (opens md)) (fold open_view (opens md) V) d b s'"
    using w s'(2-4) by (simp add: wired_def)
  moreover have "open_objects e md s = ret MTC_SUCCESS s'"
    using w s'(1) t(1) by (simp add: open_objects_def wired_def)
  ultimately show ?thesis by blast
qed

lemma create_object_wired:
  assumes m: "enough_memory e" and w: "wired e n V d b s" and n: "n < 99"
    and put: "is_com (put s) = is_com s" "is_allocs (put s) = is_allocs s" "is_handles (put s) = is_handles s"
      "is_tables (put s) = is_tables s"
    and cbs: "V (com_id ob) = None \<and> cbs = [] \<or> V (com_id ob) = Some (None, cbs)"
  shows "\<exists>s'. create_object e md ob put s = ret MTC_SUCCESS s'
    \<and> wired e (n + 1) (V(com_id ob \<mapsto> (Some (ie_image e ob), cbs))) (run_effects False cbs (is_daemon (put s))) (is_bm (put s)) s'"
proof -
  have i: "alloc_inv e s" and al: "is_allocs s < 99" and V: "com_view (is_com s) = V" using w n by (simp_all add: wired_def)
  have calls: "com_create_calls (com_id ob) (is_com s) = Some cbs"
    using cbs by (auto simp: com_create_calls_def V)
  have view: "ensure_object (com_id ob) (Some (ie_image e ob)) V = V(com_id ob \<mapsto> (Some (ie_image e ob), cbs))"
    using cbs by (auto simp: ensure_object_def)
  obtain s' c h where s': "create_object e md ob put s = ret MTC_SUCCESS s'" "alloc_inv e s'"
    "s' = (put s)\<lparr>is_daemon := run_effects False cbs (is_daemon (put s)), is_com := c, is_allocs := is_allocs s + 1,
        is_handles := (is_handles s)(md := (is_handles s md)(ob := Some h))\<rparr>"
    "com_view c = V(com_id ob \<mapsto> (Some (ie_image e ob), cbs))"
    by (rule create_object_ok[where put = put and md = md and ob = ob, OF m i al put(1-3)]) (simp add: calls V view)
  have "wired e (n + 1) (V(com_id ob \<mapsto> (Some (ie_image e ob), cbs))) (run_effects False cbs (is_daemon (put s))) (is_bm (put s)) s'"
    using w s'(2,4) put(4) by (simp add: wired_def s'(3))
  then show ?thesis using s'(1) by blast
qed

section \<open>Phase 0\<close>

text \<open>A system that gives the initialisers what they ask for, with no other thread yet.\<close>

definition system_ok :: "init_env \<Rightarrow> bool" where
  "system_ok e \<longleftrightarrow> enough_memory e \<and> (\<forall>m. ie_spin e m) \<and> ie_sf_open e \<and>
     ie_hb_socket e \<and> ie_bindtodevice e \<and> ie_bind e \<and> valid_config (ie_conf e) \<and>
     (\<forall>i f. ie_addr e i \<noteq> AF_OTHER f) \<and>
     (\<forall>i. 0 < ie_sc_socket e i \<and> ie_sc_bind e i \<and> ie_sc_listen e i) \<and> (\<forall>m. ie_others e m 0 = id)"

lemma run_initialize:
  assumes "ie_others e m 0 = id" and "initialize e m 0 s = ret MTC_SUCCESS s'"
  shows "module_init e m 0 (Running s) = (MTC_SUCCESS, Running s')"
  using assms by (simp add: module_init_def)

lemma sf_wired:
  assumes ok: "system_ok e" and w: "wired e n V d b s" and n: "n < 90" and V: "V (com_id SfObj) = None"
  shows "\<exists>s'. sf_initialize e 0 s = ret MTC_SUCCESS s' \<and> wired e (n + 5)
    (fold open_view (opens SF) (V(com_id SfObj \<mapsto> (Some (ie_image e SfObj), []))))
    ((upd_sfv (sf_initialize_vars (ie_conf e)) d)\<lparr>d_sf := init_com_sf (ie_conf e)\<rparr>) b s'"
proof -
  have m: "enough_memory e" and e: "ie_spin e SF" "ie_sf_open e" using ok by (simp_all add: system_ok_def)
  define s1 where "s1 = upd_d (upd_sfv (sf_initialize_vars (ie_conf e))) (s\<lparr>is_sf_open := False\<rparr>)"
  have w1: "wired e n V (upd_sfv (sf_initialize_vars (ie_conf e)) d) b s1"
    using w wired_cong[OF w, of s1] by (simp add: s1_def wired_def)
  obtain s2 where s2: "create_object e SF SfObj (upd_d (\<lambda>d. d\<lparr>d_sf := init_com_sf (ie_conf e)\<rparr>)) s1 = ret MTC_SUCCESS s2"
    and w2: "wired e (n + 1) (V(com_id SfObj \<mapsto> (Some (ie_image e SfObj), [])))
      ((upd_sfv (sf_initialize_vars (ie_conf e)) d)\<lparr>d_sf := init_com_sf (ie_conf e)\<rparr>) b s2"
    using create_object_wired[OF m w1, of "upd_d (\<lambda>d. d\<lparr>d_sf := init_com_sf (ie_conf e)\<rparr>)" SfObj "[]" SF] n V w1
    by (auto simp: run_effects_def wired_def)
  obtain s3 where s3: "open_objects e SF s2 = ret MTC_SUCCESS s3"
    and w3: "wired e (n + 1 + length (opens SF)) (fold open_view (opens SF) (V(com_id SfObj \<mapsto> (Some (ie_image e SfObj), []))))
      ((upd_sfv (sf_initialize_vars (ie_conf e)) d)\<lparr>d_sf := init_com_sf (ie_conf e)\<rparr>) b s3"
    using open_objects_wired[OF m w2, of SF] n by (auto simp: opens_def)
  have "sf_initialize e 0 s = and_then (create_object e SF SfObj (upd_d (\<lambda>d. d\<lparr>d_sf := init_com_sf (ie_conf e)\<rparr>)) s1)
      (\<lambda>s1. and_then (open_objects e SF s1) (\<lambda>s2. ret MTC_SUCCESS (s2\<lparr>is_sf_open := True\<rparr>)))"
    using e by (simp add: sf_initialize_def sf_initialize0_def s1_def)
  then have "sf_initialize e 0 s = ret MTC_SUCCESS (s3\<lparr>is_sf_open := True\<rparr>)"
    by (simp only: s2 s3 and_then_ok)
  moreover have "wired e (n + 5) (fold open_view (opens SF) (V(com_id SfObj \<mapsto> (Some (ie_image e SfObj), []))))
      ((upd_sfv (sf_initialize_vars (ie_conf e)) d)\<lparr>d_sf := init_com_sf (ie_conf e)\<rparr>) b (s3\<lparr>is_sf_open := True\<rparr>)"
    using w3 by (simp add: wired_def alloc_inv_def opens_def)
  ultimately show ?thesis by blast
qed

lemma lm_wired:
  assumes ok: "system_ok e" and w: "wired e n V d b s" and n: "n < 90"
  shows "\<exists>s'. lm_initialize e 0 s = ret MTC_SUCCESS s' \<and> wired e (n + 2) (fold open_view (opens LM) V)
    (upd_lmv (\<lambda>v. v\<lparr>lmv_sf := zero_com_sf, lmv_sm := init_com_sm\<rparr>) d) b s'"
proof -
  have m: "enough_memory e" using ok by (simp add: system_ok_def)
  define s1 where "s1 = upd_d (upd_lmv (\<lambda>v. v\<lparr>lmv_sf := zero_com_sf, lmv_sm := init_com_sm\<rparr>)) s"
  have w1: "wired e n V (upd_lmv (\<lambda>v. v\<lparr>lmv_sf := zero_com_sf, lmv_sm := init_com_sm\<rparr>) d) b s1"
    using w wired_cong[OF w, of s1] by (simp add: s1_def wired_def)
  show ?thesis
    using open_objects_wired[OF m w1, of LM] n
    by (auto simp: lm_initialize_def opens_def s1_def[symmetric])
qed

lemma bm_wired:
  assumes ok: "system_ok e" and w: "wired e n V d b s" and n: "n < 90" and V: "V (com_id BmObj) = None"
  shows "\<exists>s'. bm_initialize e 0 s = ret MTC_SUCCESS s' \<and>
    wired e (n + 1) (V(com_id BmObj \<mapsto> (Some (ie_image e BmObj), []))) d init_com_bm s'"
proof -
  have m: "enough_memory e" using ok by (simp add: system_ok_def)
  show ?thesis
    using create_object_wired[OF m w, of "\<lambda>s. s\<lparr>is_bm := init_com_bm\<rparr>" BmObj "[]" BM] n V w
    by (auto simp: bm_initialize_def run_effects_def wired_def)
qed

lemma hb_destinations_ok:
  assumes "\<And>i f. ie_addr e i \<noteq> AF_OTHER f"
  shows "\<exists>to. hb_destinations e n s = Inr (s\<lparr>is_sa_to := to\<rparr>) \<and> (\<forall>i < n. to i = Some (ie_addr e i, ie_udp_port e))"
proof (induction n)
  case 0
  then show ?case by (intro exI[of _ "is_sa_to s"]) simp
next
  case (Suc n)
  then obtain to where to: "hb_destinations e n s = Inr (s\<lparr>is_sa_to := to\<rparr>)" "\<forall>i < n. to i = Some (ie_addr e i, ie_udp_port e)"
    by blast
  have "hb_destinations e (Suc n) s = Inr (s\<lparr>is_sa_to := to(n \<mapsto> (ie_addr e n, ie_udp_port e))\<rparr>)"
    using to(1) assms[of n] by (simp split: sock_address.split)
  then show ?case using to(2) by (auto simp: less_Suc_eq)
qed

lemma hb_wired:
  assumes ok: "system_ok e" and w: "wired e n V d b s" and n: "n < 90" and V: "V (com_id HbObj) = Some (None, [])"
  shows "\<exists>s'. hb_initialize e 0 s = ret MTC_SUCCESS s' \<and> wired e (n + 5)
      (fold open_view (opens HB) (V(com_id HbObj \<mapsto> (Some (ie_image e HbObj), [])))) (d\<lparr>d_hb := init_com_hb\<rparr>) b s'
    \<and> is_hb_bound s' = Some (ie_addr e (my_index (ie_conf e)), ie_udp_port e)
    \<and> (\<forall>i < num_host (ie_conf e). is_sa_to s' i = Some (ie_addr e i, ie_udp_port e))"
proof -
  have m: "enough_memory e" and e: "ie_spin e HB" "ie_hb_socket e" "ie_bindtodevice e" "ie_bind e"
    and addr: "\<And>i f. ie_addr e i \<noteq> AF_OTHER f" using ok by (simp_all add: system_ok_def)
  obtain s1 where s1: "create_object e HB HbObj (upd_d (\<lambda>d. d\<lparr>d_hb := init_com_hb\<rparr>)) s = ret MTC_SUCCESS s1"
    and w1: "wired e (n + 1) (V(com_id HbObj \<mapsto> (Some (ie_image e HbObj), []))) (d\<lparr>d_hb := init_com_hb\<rparr>) b s1"
    using create_object_wired[OF m w, of "upd_d (\<lambda>d. d\<lparr>d_hb := init_com_hb\<rparr>)" HbObj "[]" HB] n V w
    by (auto simp: run_effects_def wired_def)
  obtain s2 where s2: "open_objects e HB s1 = ret MTC_SUCCESS s2"
    and w2: "wired e (n + 1 + length (opens HB)) (fold open_view (opens HB) (V(com_id HbObj \<mapsto> (Some (ie_image e HbObj), []))))
      (d\<lparr>d_hb := init_com_hb\<rparr>) b s2"
    using open_objects_wired[OF m w1, of HB] n by (auto simp: opens_def)
  define s3 where "s3 = s2\<lparr>is_hb_bound := Some (ie_addr e (my_index (ie_conf e)), ie_udp_port e)\<rparr>"
  have s3: "hb_bind_socket e s2 = ret MTC_SUCCESS s3"
    using e addr by (simp add: hb_bind_socket_def s3_def Let_def split: sock_address.split)
  obtain to where to: "hb_destinations e (num_host (ie_conf e)) s3 = Inr (s3\<lparr>is_sa_to := to\<rparr>)"
      "\<forall>i < num_host (ie_conf e). to i = Some (ie_addr e i, ie_udp_port e)"
    using hb_destinations_ok[OF addr] by blast
  have "hb_initialize e 0 s = ret MTC_SUCCESS (s3\<lparr>is_sa_to := to\<rparr>)"
    using s1 s2 s3 to(1) e by (simp add: hb_initialize_def hb_initialize0_def)
  moreover have "wired e (n + 5) (fold open_view (opens HB) (V(com_id HbObj \<mapsto> (Some (ie_image e HbObj), []))))
      (d\<lparr>d_hb := init_com_hb\<rparr>) b (s3\<lparr>is_sa_to := to\<rparr>)"
    using w2 by (simp add: wired_def alloc_inv_def s3_def opens_def)
  ultimately show ?thesis using to(2) by (intro exI[of _ "s3\<lparr>is_sa_to := to\<rparr>"]) (simp add: s3_def)
qed

lemma xapimon_wired:
  assumes ok: "system_ok e" and w: "wired e n V d b s" and n: "n < 90" and V: "V (com_id XmObj) = Some (None, cbs)"
  shows "\<exists>s'. xapimon_initialize e 0 s = ret MTC_SUCCESS s' \<and>
    wired e (n + 1) (V(com_id XmObj \<mapsto> (Some (ie_image e XmObj), cbs))) (run_effects False cbs (d\<lparr>d_xm := init_com_xm\<rparr>)) b s'"
proof -
  have m: "enough_memory e" using ok by (simp add: system_ok_def)
  show ?thesis
    using create_object_wired[OF m w, of "upd_d (\<lambda>d. d\<lparr>d_xm := init_com_xm\<rparr>)" XmObj cbs XAPIMON] n V w
    by (auto simp: xapimon_initialize_def wired_def)
qed

lemma create_sockets_ok:
  assumes "\<And>i. 0 < ie_sc_socket e i \<and> ie_sc_bind e i \<and> ie_sc_listen e i"
  shows "\<exists>sk bd. create_sockets_from e js s = ret MTC_SUCCESS (s\<lparr>is_sc_socket := sk, is_sc_bound := bd\<rparr>)
    \<and> (\<forall>i \<in> set js. sk i = ie_sc_socket e i \<and> bd i = Some (script_sock_name i))
    \<and> (\<forall>i. i \<notin> set js \<longrightarrow> sk i = is_sc_socket s i \<and> bd i = is_sc_bound s i)"
proof (induction js arbitrary: s)
  case Nil
  then show ?case by (intro exI[of _ "is_sc_socket s"] exI[of _ "is_sc_bound s"]) simp
next
  case (Cons j js)
  have j: "\<not> ie_sc_socket e j < 0" "ie_sc_bind e j" "ie_sc_listen e j"
    using assms[of j] by (auto simp: not_less less_imp_le)
  define s1 where "s1 = s\<lparr>is_sc_socket := (is_sc_socket s)(j := ie_sc_socket e j),
      is_sc_bound := (is_sc_bound s)(j \<mapsto> script_sock_name j)\<rparr>"
  obtain sk bd where IH: "create_sockets_from e js s1 = ret MTC_SUCCESS (s1\<lparr>is_sc_socket := sk, is_sc_bound := bd\<rparr>)"
      "\<forall>i \<in> set js. sk i = ie_sc_socket e i \<and> bd i = Some (script_sock_name i)"
      "\<forall>i. i \<notin> set js \<longrightarrow> sk i = is_sc_socket s1 i \<and> bd i = is_sc_bound s1 i"
    using Cons.IH[of s1] by blast
  have "create_sockets_from e (j # js) s = ret MTC_SUCCESS (s\<lparr>is_sc_socket := sk, is_sc_bound := bd\<rparr>)"
    using j IH(1) by (simp add: Let_def s1_def)
  then show ?case
    using IH(2,3) by (intro exI[of _ sk] exI[of _ bd]) (auto simp: s1_def)
qed

lemma script_wired:
  assumes ok: "system_ok e" and w: "wired e n V d b s" and q: "fist_quiet (d_fist d)"
  shows "\<exists>s'. script_initialize e 0 s = ret MTC_SUCCESS s' \<and> wired e n V d b s'
    \<and> (\<forall>i < SCRIPT_SOCKET_NUM. is_sc_socket s' i = ie_sc_socket e i \<and> is_sc_bound s' i = Some (script_sock_name i))"
proof -
  have e: "ie_spin e SCRIPT" "\<And>i. 0 < ie_sc_socket e i \<and> ie_sc_bind e i \<and> ie_sc_listen e i"
    using ok by (simp_all add: system_ok_def)
  have d: "is_daemon s = d" using w by (simp add: wired_def)
  obtain sk bd where c: "create_sockets_from e [0..<SCRIPT_SOCKET_NUM] s = ret MTC_SUCCESS (s\<lparr>is_sc_socket := sk, is_sc_bound := bd\<rparr>)"
    and sk: "\<forall>i \<in> set [0..<SCRIPT_SOCKET_NUM]. sk i = ie_sc_socket e i \<and> bd i = Some (script_sock_name i)"
    using create_sockets_ok[where e = e and js = "[0..<SCRIPT_SOCKET_NUM]" and s = s, OF e(2)] by blast
  have same: "s\<lparr>is_daemon := d\<rparr> = s" using d by simp
  have "script_initialize e 0 s = ret MTC_SUCCESS (s\<lparr>is_sc_socket := sk, is_sc_bound := bd\<rparr>)"
    using c e(1) q d by (simp add: same script_initialize_def script_initialize0_def create_sockets_def Let_def)
  moreover have "wired e n V d b (s\<lparr>is_sc_socket := sk, is_sc_bound := bd\<rparr>)"
    using w by (simp add: wired_def alloc_inv_def)
  ultimately show ?thesis
    using sk by (intro exI[of _ "s\<lparr>is_sc_socket := sk, is_sc_bound := bd\<rparr>"]) simp
qed

lemma sm_wired:
  assumes ok: "system_ok e" and w: "wired e n V d b s" and n: "n < 90" and V: "V (com_id SmObj) = Some (None, cbs)"
  shows "\<exists>s'. sm_initialize e 0 s = ret MTC_SUCCESS s' \<and> wired e (n + 5)
      (fold open_view (opens SM) (V(com_id SmObj \<mapsto> (Some (ie_image e SmObj), cbs))))
      (upd_smv (\<lambda>v. v\<lparr>smv_last_hbdomain := hm_init_reset, smv_last_sfdomain := hm_init_reset\<rparr>)
         (run_effects False cbs (d\<lparr>d_sm := init_com_sm\<rparr>))) b s'"
proof -
  have m: "enough_memory e" using ok by (simp add: system_ok_def)
  obtain s1 where s1: "create_object e SM SmObj (upd_d (\<lambda>d. d\<lparr>d_sm := init_com_sm\<rparr>)) s = ret MTC_SUCCESS s1"
    and w1: "wired e (n + 1) (V(com_id SmObj \<mapsto> (Some (ie_image e SmObj), cbs))) (run_effects False cbs (d\<lparr>d_sm := init_com_sm\<rparr>)) b s1"
    using create_object_wired[OF m w, of "upd_d (\<lambda>d. d\<lparr>d_sm := init_com_sm\<rparr>)" SmObj cbs SM] n V w
    by (auto simp: wired_def)
  define s2 where "s2 = upd_d (upd_smv (\<lambda>v. v\<lparr>smv_last_hbdomain := hm_init_reset, smv_last_sfdomain := hm_init_reset\<rparr>)) s1"
  have w2: "wired e (n + 1) (V(com_id SmObj \<mapsto> (Some (ie_image e SmObj), cbs)))
      (upd_smv (\<lambda>v. v\<lparr>smv_last_hbdomain := hm_init_reset, smv_last_sfdomain := hm_init_reset\<rparr>)
         (run_effects False cbs (d\<lparr>d_sm := init_com_sm\<rparr>))) b s2"
    using w1 by (simp add: wired_def alloc_inv_def s2_def)
  have "sm_initialize e 0 s = and_then (create_object e SM SmObj (upd_d (\<lambda>d. d\<lparr>d_sm := init_com_sm\<rparr>)) s)
      (\<lambda>s1. open_objects e SM (upd_d (upd_smv (\<lambda>v. v\<lparr>smv_last_hbdomain := hm_init_reset, smv_last_sfdomain := hm_init_reset\<rparr>)) s1))"
    by (simp add: sm_initialize_def sm_initialize0_def)
  then have run: "sm_initialize e 0 s = open_objects e SM s2"
    by (simp only: s1 and_then_ok s2_def)
  have len: "n + 1 + length (opens SM) = n + 5" by (simp add: opens_def)
  show ?thesis
    unfolding run by (rule open_objects_wired[OF m w2, of SM, unfolded len]) (use n in simp)
qed

text \<open>The view after all modules; every module finds what those before it left.\<close>

definition all_views :: "init_env \<Rightarrow> (string \<Rightarrow> (u8 list option \<times> callback list) option)" where
  "all_views e =
     (let sf = fold open_view (opens SF) ((\<lambda>_. None)(com_id SfObj \<mapsto> (Some (ie_image e SfObj), [])));
          bm = (fold open_view (opens LM) sf)(com_id BmObj \<mapsto> (Some (ie_image e BmObj), []));
          hb = fold open_view (opens HB) (bm(com_id HbObj \<mapsto> (Some (ie_image e HbObj), [])));
          xm = hb(com_id XmObj \<mapsto> (Some (ie_image e XmObj), [hb_xapimon_cb]))
      in fold open_view (opens SM) (xm(com_id SmObj \<mapsto> (Some (ie_image e SmObj), [hb_sm_cb, lm_sm_cb]))))"

lemma view_simps [simp]:
  "ensure_object i None V j = (if j = i then (case V i of None \<Rightarrow> Some (None, []) | Some x \<Rightarrow> Some x) else V j)"
  "add_callback i f V j = (if j = i then map_option (\<lambda>(b, cbs). (b, f # cbs)) (V i) else V j)"
  by (auto simp: ensure_object_def add_callback_def split: option.splits)

lemma all_views_objects: "all_views e (com_id ob) = Some (Some (ie_image e ob), object_callbacks ob)"
  by (cases ob) (simp_all add: all_views_def opens_def Let_def)

lemma phase0_modules:
  assumes ok: "system_ok e" and st: "static_state s" and q: "fist_quiet (d_fist (is_daemon s))"
  shows "\<exists>s'. init_phase (module_init e) 0 [] init_funcs (Running s) = (MTC_SUCCESS, Running s')
    \<and> com_view (is_com s') = all_views e \<and> is_bm s' = init_com_bm
    \<and> d_sm (is_daemon s') = init_com_sm \<and> d_hb (is_daemon s') = init_com_hb
    \<and> d_sf (is_daemon s') = init_com_sf (ie_conf e) \<and> d_xm (is_daemon s') = init_com_xm
    \<and> lmv_sf (d_lmv (is_daemon s')) = zero_com_sf \<and> lmv_sm (d_lmv (is_daemon s')) = init_com_sm"
proof -
  have others: "ie_others e m 0 = id" for m using ok by (simp add: system_ok_def)
  note step = run_initialize[OF others]
  define d0 where "d0 = is_daemon s"
  have "quiet (is_com s)" using st com_start_inv by (simp add: quiet_def static_state_def com_start_def)
  moreover have "com_view (is_com s) = (\<lambda>_. None)"
    using st by (auto simp: com_view_def find_common_object_def static_state_def com_start_def)
  ultimately have w0: "wired e 0 (\<lambda>_. None) d0 (is_bm s) s"
    using st by (simp add: wired_def alloc_inv_def static_state_def com_start_def d0_def)
  have i0: "initialize e COM 0 s = ret MTC_SUCCESS s"
    using ok by (simp add: initialize_def com_initialize_run_def com_initialize_def system_ok_def)
  define V1 where "V1 = fold open_view (opens SF) ((\<lambda>_. None)(com_id SfObj \<mapsto> (Some (ie_image e SfObj), [])))"
  obtain s1 where i1: "initialize e SF 0 s = ret MTC_SUCCESS s1"
    and w1: "wired e 5 V1 ((upd_sfv (sf_initialize_vars (ie_conf e)) d0)\<lparr>d_sf := init_com_sf (ie_conf e)\<rparr>) (is_bm s) s1"
    using sf_wired[OF ok w0] unfolding V1_def by (auto simp: initialize_def)
  define d1 where "d1 = (upd_sfv (sf_initialize_vars (ie_conf e)) d0)\<lparr>d_sf := init_com_sf (ie_conf e)\<rparr>"
  define V2 where "V2 = fold open_view (opens LM) V1"
  obtain s2 where i2: "initialize e LM 0 s1 = ret MTC_SUCCESS s2"
    and w2: "wired e 7 V2 (upd_lmv (\<lambda>v. v\<lparr>lmv_sf := zero_com_sf, lmv_sm := init_com_sm\<rparr>) d1) (is_bm s) s2"
    using lm_wired[OF ok w1] unfolding d1_def V2_def by (auto simp: initialize_def)
  define d2 where "d2 = upd_lmv (\<lambda>v. v\<lparr>lmv_sf := zero_com_sf, lmv_sm := init_com_sm\<rparr>) d1"
  define V3 where "V3 = V2(com_id BmObj \<mapsto> (Some (ie_image e BmObj), []))"
  have n3: "V2 (com_id BmObj) = None" by (simp add: opens_def V1_def V2_def)
  obtain s3 where i3: "initialize e BM 0 s2 = ret MTC_SUCCESS s3" and w3: "wired e 8 V3 d2 init_com_bm s3"
    using bm_wired[OF ok w2 _ n3] unfolding d2_def V3_def by (auto simp: initialize_def)
  define V4 where "V4 = fold open_view (opens HB) (V3(com_id HbObj \<mapsto> (Some (ie_image e HbObj), [])))"
  have n4: "V3 (com_id HbObj) = Some (None, [])" by (simp add: opens_def V1_def V2_def V3_def)
  obtain s4 where i4: "initialize e HB 0 s3 = ret MTC_SUCCESS s4" and w4: "wired e 13 V4 (d2\<lparr>d_hb := init_com_hb\<rparr>) init_com_bm s4"
    using hb_wired[OF ok w3 _ n4] unfolding V4_def by (auto simp: initialize_def)
  define d4 where "d4 = d2\<lparr>d_hb := init_com_hb\<rparr>"
  define V5 where "V5 = V4(com_id XmObj \<mapsto> (Some (ie_image e XmObj), [hb_xapimon_cb]))"
  have n5: "V4 (com_id XmObj) = Some (None, [hb_xapimon_cb])" by (simp add: opens_def V1_def V2_def V3_def V4_def)
  have x5: "run_effects False [hb_xapimon_cb] (d4\<lparr>d_xm := init_com_xm\<rparr>) = d4\<lparr>d_xm := init_com_xm\<rparr>"
    by (simp add: run_effects_def callback_effect_def cb_defs)
  obtain s5 where i5: "initialize e XAPIMON 0 s4 = ret MTC_SUCCESS s5"
    and w5: "wired e 14 V5 (d4\<lparr>d_xm := init_com_xm\<rparr>) init_com_bm s5"
    using xapimon_wired[OF ok w4 _ n5] x5 unfolding d4_def V5_def by (auto simp: initialize_def)
  define d5 where "d5 = d4\<lparr>d_xm := init_com_xm\<rparr>"
  have q5: "fist_quiet (d_fist d5)" using q by (simp add: d5_def d4_def d2_def d1_def d0_def)
  obtain s6 where i6: "initialize e SCRIPT 0 s5 = ret MTC_SUCCESS s6" and w6: "wired e 14 V5 d5 init_com_bm s6"
    using script_wired[OF ok w5[folded d5_def] q5] by (auto simp: initialize_def)
  define s7 where "s7 = s6\<lparr>is_hw := hostweight_initialize0 (is_hw s6)\<rparr>"
  have dm6: "is_daemon s6 = d5" using w6 by (simp add: wired_def)
  have i7: "initialize e HOSTWEIGHT 0 s6 = ret MTC_SUCCESS s7"
    by (simp add: initialize_def hostweight_initialize_def s7_def)
  have w7: "wired e 14 V5 d5 init_com_bm s7" using w6 by (simp add: wired_def alloc_inv_def s7_def)
  have n8: "V5 (com_id SmObj) = Some (None, [hb_sm_cb, lm_sm_cb])" by (simp add: opens_def V1_def V2_def V3_def V4_def V5_def)
  have x8: "run_effects False [hb_sm_cb, lm_sm_cb] (d5\<lparr>d_sm := init_com_sm\<rparr>) = lm_sm_updated (d5\<lparr>d_sm := init_com_sm\<rparr>)"
    by (simp add: run_effects_def callback_effect_def cb_defs)
  obtain s8 where i8: "initialize e SM 0 s7 = ret MTC_SUCCESS s8" and w8: "wired e 19
      (fold open_view (opens SM) (V5(com_id SmObj \<mapsto> (Some (ie_image e SmObj), [hb_sm_cb, lm_sm_cb]))))
      (upd_smv (\<lambda>v. v\<lparr>smv_last_hbdomain := hm_init_reset, smv_last_sfdomain := hm_init_reset\<rparr>)
         (lm_sm_updated (d5\<lparr>d_sm := init_com_sm\<rparr>))) init_com_bm s8"
    using sm_wired[OF ok w7 _ n8] unfolding x8 by (auto simp: initialize_def)
  have run: "init_phase (module_init e) 0 [] init_funcs (Running s) = (MTC_SUCCESS, Running s8)"
    by (simp add: init_funcs_def step[OF i0] step[OF i1] step[OF i2] step[OF i3] step[OF i4] step[OF i5] step[OF i6] step[OF i7]
        step[OF i8])
  have "com_view (is_com s8) = all_views e" and bm: "is_bm s8 = init_com_bm"
    using w8 by (simp_all add: wired_def all_views_def Let_def V1_def V2_def V3_def V4_def V5_def)
  moreover have "is_daemon s8 = upd_smv (\<lambda>v. v\<lparr>smv_last_hbdomain := hm_init_reset, smv_last_sfdomain := hm_init_reset\<rparr>)
         (lm_sm_updated (d5\<lparr>d_sm := init_com_sm\<rparr>))"
    using w8 by (simp add: wired_def)
  ultimately show ?thesis
    using run by (intro exI[of _ s8]) (simp add: lm_sm_updated_def d5_def d4_def d2_def d1_def)
qed

text \<open>
  C22. When the system gives what is asked for, phase 0 of all modules succeeds, and it does not
  matter that modules open objects before their owners create them: every object has the data
  of its owner, and the values of the typed objects are the initial ones. The callbacks of
  the five objects are in the order in which the rest of the development runs them: releasing
  the writer lock of an object runs exactly the callbacks of the state manager, of the lock
  manager and of the owner, in this order.
\<close>

theorem objects_wired:
  assumes "system_ok e" and "static_state s" and "fist_quiet (d_fist (is_daemon s))"
  shows "\<exists>s'. init_phase (module_init e) 0 [] init_funcs (Running s) = (MTC_SUCCESS, Running s')
    \<and> (\<forall>ob. com_view (is_com s') (com_id ob) = Some (Some (ie_image e ob), object_callbacks ob))
    \<and> d_sm (is_daemon s') = init_com_sm \<and> d_hb (is_daemon s') = init_com_hb
    \<and> d_sf (is_daemon s') = init_com_sf (ie_conf e) \<and> d_xm (is_daemon s') = init_com_xm \<and> is_bm s' = init_com_bm
    \<and> lmv_sf (d_lmv (is_daemon s')) = zero_com_sf \<and> lmv_sm (d_lmv (is_daemon s')) = init_com_sm
    \<and> (\<forall>b d. run_effects b (snd (the (com_view (is_com s') (com_id SmObj)))) d = unlock_sm b d
          \<and> run_effects b (snd (the (com_view (is_com s') (com_id HbObj)))) d = unlock_hb b d
          \<and> run_effects b (snd (the (com_view (is_com s') (com_id SfObj)))) d = unlock_sf b d
          \<and> run_effects b (snd (the (com_view (is_com s') (com_id XmObj)))) d = d)"
proof -
  obtain s' where s': "init_phase (module_init e) 0 [] init_funcs (Running s) = (MTC_SUCCESS, Running s')"
    "com_view (is_com s') = all_views e" "is_bm s' = init_com_bm" "d_sm (is_daemon s') = init_com_sm"
    "d_hb (is_daemon s') = init_com_hb" "d_sf (is_daemon s') = init_com_sf (ie_conf e)" "d_xm (is_daemon s') = init_com_xm"
    "lmv_sf (d_lmv (is_daemon s')) = zero_com_sf" "lmv_sm (d_lmv (is_daemon s')) = init_com_sm"
    using phase0_modules[OF assms] by auto
  have view: "com_view (is_com s') (com_id ob) = Some (Some (ie_image e ob), object_callbacks ob)" for ob
    unfolding s'(2) by (rule all_views_objects)
  show ?thesis
    by (intro exI[of _ s'] conjI allI s') (simp_all only: view option.sel snd_conv callbacks_unlock)
qed

definition ex_conf :: ha_config where
  "ex_conf = \<lparr>num_host = 2, my_index = 0, cfg_t1 = 4, cfg_T1 = 30, cfg_t2 = 4, cfg_T2 = 30, cfg_Wh = 60, cfg_Ws = 60,
     cfg_Tboot = 300, cfg_Tenable = 240, cfg_tXapi = 60, cfg_TXapi = 120, cfg_RestartXapi = 2, cfg_TRestartXapi = 30,
     cfg_Tlicense = 30, gen_UUID = [], host_UUID = (\<lambda>_. [])\<rparr>"

definition ex_init_env :: init_env where
  "ex_init_env = \<lparr>ie_conf = ex_conf,
     ie_sys = (\<lambda>n. \<lparr>ys_alloc = \<lparr>al_object = Some n, al_blocks = True, al_handle = Some n\<rparr>,
       ys_rwlock_init = True, ys_wrlock = True, ys_unlock = True\<rparr>),
     ie_item = (\<lambda>_. True), ie_image = (\<lambda>_. [1, 2]), ie_self = 0, ie_now = 0, ie_spin = (\<lambda>_. True),
     ie_thread = (\<lambda>_. True), ie_watchdog = (\<lambda>name. (MTC_SUCCESS, Some (length name))), ie_watchdog_close = (\<lambda>_. MTC_SUCCESS), ie_sf_open = True,
     ie_addr = (\<lambda>i. AF_INET ''10.0.0.1''), ie_udp_port = 694, ie_hb_socket = True, ie_bindtodevice = True, ie_bind = True,
     ie_sc_socket = (\<lambda>_. 5), ie_sc_bind = (\<lambda>_. True), ie_sc_listen = (\<lambda>_. True), ie_weight_opened = MTC_SUCCESS,
     ie_weight_reads = [], ie_others = (\<lambda>_ _. id), ie_between = (\<lambda>_. id)\<rparr>"

definition ex_init_state :: init_state where
  "ex_init_state = \<lparr>is_com = run_s com_start, is_allocs = 0, is_items = 0, is_handles = (\<lambda>_ _. None), is_tables = init_tables,
     is_daemon = init_daemon ex_conf, is_bm = init_com_bm, is_hw = \<lparr>hw_error_reported = False, hw_weight_table = []\<rparr>,
     is_threads = [], is_sf_open = False, is_hb_bound = None, is_sa_to = (\<lambda>_. None), is_bm_terminate = False,
     is_xm_terminate = False, is_sc_terminate = False, is_sc_socket = (\<lambda>_. 0), is_sc_bound = (\<lambda>_. None)\<rparr>"

lemma ex_system_ok: "system_ok ex_init_env"
  by (simp add: system_ok_def enough_memory_def ex_init_env_def inj_on_def valid_config_def ex_conf_def MAX_HOST_NUM_def)

theorem objects_wired_witness:
  "\<exists>s'. init_phase (module_init ex_init_env) 0 [] init_funcs (Running ex_init_state) = (MTC_SUCCESS, Running s')
    \<and> com_view (is_com s') ''statemanager'' = Some (Some [1, 2], [sm_sm_cb, hb_sm_cb, lm_sm_cb])
    \<and> com_view (is_com s') ''statefile'' = Some (Some [1, 2], [sm_sf_cb, hb_sf_cb, lm_sf_cb, sf_sf_cb])"
proof -
  have s: "static_state ex_init_state" by (simp add: static_state_def ex_init_state_def)
  have q: "fist_quiet (d_fist (is_daemon ex_init_state))"
    using fist_on_initial_quiet by (simp add: ex_init_state_def init_daemon_def)
  obtain s' where run: "init_phase (module_init ex_init_env) 0 [] init_funcs (Running ex_init_state) = (MTC_SUCCESS, Running s')"
    and v: "\<And>ob. com_view (is_com s') (com_id ob) = Some (Some (ie_image ex_init_env ob), object_callbacks ob)"
    using objects_wired[OF ex_system_ok s q] by blast
  show ?thesis using run v[of SmObj] v[of SfObj] by (simp add: ex_init_env_def)
qed

section \<open>Termination\<close>

text \<open>
  What the threads that still run may do: not arm the fencing again, and close a watchdog
  rather than forget it.
\<close>

definition rely :: "(daemon \<Rightarrow> daemon) \<Rightarrow> bool" where
  "rely g \<longleftrightarrow> (\<forall>d.
     (smv_fencing (d_smv d) = FENCING_DISARMED \<longrightarrow> smv_fencing (d_smv (g d)) = FENCING_DISARMED) \<and>
     set (d_wd d) \<subseteq> set (d_wd (g d)) \<and>
     (\<forall>w. hbv_watchdog (d_hbv d) = Some w \<longrightarrow> hbv_watchdog (d_hbv (g d)) = Some w \<or> WdClose w \<in> set (d_wd (g d))) \<and>
     (\<forall>w. sfv_watchdog (d_sfv d) = Some w \<longrightarrow> sfv_watchdog (d_sfv (g d)) = Some w \<or> WdClose w \<in> set (d_wd (g d))))"

lemma rely_id [simp]: "rely id" "rely (\<lambda>d. d)"
  by (simp_all add: rely_def)


lemma rely_unlock_sm: "rely (unlock_sm b)"
  by (simp add: rely_def unlock_sm_fencing)
















section \<open>When something fails\<close>

text \<open>The thread of the state manager stays when its worker cannot be started.\<close>

lemma sm_worker_failure:
  assumes "ie_thread e ''sm''" and "\<not> ie_thread e ''sm_worker''"
  shows "\<exists>s'. initialize e SM 1 s = ret MTC_ERROR_SM_PTHREAD s' \<and> ''sm'' \<in> set (is_threads s')"
  using assms by (simp add: initialize_def sm_initialize_def sm_initialize1_def start_thread_def and_then_def)

text \<open>The bond monitor reports a failure whenever it is stopped.\<close>

lemma bm_terminate_status:
  "fst (module_init e BM (- 1) (Running s)) = MTC_ERROR_INVALID_PARAMETER"
  by (simp add: module_init_def initialize_def bm_initialize_def)

text \<open>Without memory the process ends in the object manager, so the error paths of the tables are never taken.\<close>

lemma no_memory_ends:
  assumes "al_handle (ys_alloc (ie_sys e (is_allocs s))) = None" and "is_handles s m ob = None" and "te_name en = com_id ob"
  shows "open_entry e m k en ob s = Some (Inl (ComExit MTC_ERROR_COM_INSUFFICIENT_RESOURCE))
    \<or> open_entry e m k en ob s = Some (Inl (ComExit MTC_ERROR_COM_PTHREAD))"
  using assms
  by (auto simp: open_entry_def com_open_def com_create_def com_create_enter_def com_create_new_def com_create_existing_def Let_def
      split: option.splits)

lemma open_never_fails:
  assumes "open_entry e m k en ob s = ret st s'"
  shows "st = MTC_SUCCESS"
  using assms
  by (auto simp: open_entry_def com_open_def com_create_def split: if_splits option.splits sum.splits prod.splits)

end
