(* ===== verification/HostWeightReports.thy ===== *)
theory HostWeightReports
  imports HostWeight Logging
begin

text \<open>
  What the daemon tells its log about host weights (\<^verbatim>\<open>daemon/hostweight.c\<close>):
  \<open>hostweight_get_weight\<close>, the two passes of \<open>hostweight_update\<close> before it copies the table, and
  \<open>log_hostweight\<close>. A report is the class with the weights before and after.
\<close>

section \<open>The reports\<close>

fun hostweight_get_weight :: "hw_entry list \<Rightarrow> string \<Rightarrow> u32" where
  "hostweight_get_weight [] classname = 0"
| "hostweight_get_weight (e # wtable) classname =
     (if fst e = classname then snd e else hostweight_get_weight wtable classname)"

type_synonym weight_report = "string \<times> u32 \<times> u32"

definition removed_reports :: "hw_entry list \<Rightarrow> hw_entry list \<Rightarrow> weight_report list" where
  "removed_reports wtable newwtable =
     [(fst e, snd e, 0). e \<leftarrow> wtable, fst e \<noteq> [] \<and> hostweight_get_weight newwtable (fst e) = 0]"

definition changed_reports :: "hw_entry list \<Rightarrow> hw_entry list \<Rightarrow> weight_report list" where
  "changed_reports wtable newwtable =
     [(fst e, hostweight_get_weight wtable (fst e), snd e). e \<leftarrow> newwtable,
        fst e \<noteq> [] \<and> hostweight_get_weight wtable (fst e) \<noteq> snd e]"

definition hostweight_reports :: "hw_entry list \<Rightarrow> hw_entry list \<Rightarrow> weight_report list" where
  "hostweight_reports wtable newwtable = removed_reports wtable newwtable @ changed_reports wtable newwtable"

definition report_line :: "weight_report \<Rightarrow> string" where
  "report_line = (\<lambda>(classname, old, new).
     ''SC: class='' @ classname @ '' weight has changed from '' @ print_int (sint old) @ '' to ''
       @ print_int (sint new) @ [CHR 0x0A])"

text \<open>\<open>hostweight_update\<close> with its reports; \<open>tm\<close> is the time the log prints.\<close>

definition hostweight_update_logged :: "log_time \<Rightarrow> hw_entry list \<Rightarrow> hw_var \<times> log_var \<Rightarrow> mtc_status \<times> hw_var \<times> log_var" where
  "hostweight_update_logged tm newwtable = (\<lambda>(v, lg).
     case hostweight_update newwtable v of (rs, v1) \<Rightarrow>
       (rs, v1, fold (\<lambda>r. log_message tm MTC_LOG_INFO (report_line r))
                  (hostweight_reports (hw_weight_table v) newwtable) lg))"

text \<open>The entries \<open>log_hostweight\<close> prints, the built-in class first.\<close>

definition hostweight_entries :: "hw_entry list \<Rightarrow> hw_entry list" where
  "hostweight_entries wtable =
     (BUILTIN_HOST_WEIGHT_CLASSNAME, BUILTIN_HOST_WEIGHT_VALUE) # filter (\<lambda>e. fst e \<noteq> []) wtable"

definition weight_line :: "string \<Rightarrow> hw_entry \<Rightarrow> string" where
  "weight_line key e = ''SC:     '' @ key @ fst e @ '' weight='' @ print_int (sint (snd e)) @ [CHR 0x0A]"

definition log_hostweight :: "log_time \<Rightarrow> hw_entry list \<Rightarrow> log_var \<Rightarrow> log_var" where
  "log_hostweight tm wtable lg =
     fold (\<lambda>e. log_message tm MTC_LOG_INFO (weight_line ''class='' e)) (tl (hostweight_entries wtable))
       (log_message tm MTC_LOG_INFO (weight_line ''builtinclass='' (hd (hostweight_entries wtable))) lg)"

section \<open>What they tell\<close>

text \<open>The weights that are printed add up to the weight that is published.\<close>

lemma printed_weights_add_up: "sum_list (map snd (hostweight_entries wtable)) = calc_hostweight wtable"
proof -
  have "fold (\<lambda>e weight. if fst e = [] then weight else weight + snd e) wtable w
      = w + sum_list (map snd (filter (\<lambda>e. fst e \<noteq> []) wtable))" for w
    by (induction wtable arbitrary: w) (auto simp: add.assoc)
  then show ?thesis by (simp add: hostweight_entries_def calc_hostweight_def)
qed

text \<open>A table as the command leaves it: no class twice, and no class of weight zero.\<close>

definition clean_table :: "hw_entry list \<Rightarrow> bool" where
  "clean_table wtable \<longleftrightarrow>
     distinct (map fst (filter (\<lambda>e. fst e \<noteq> []) wtable)) \<and> (\<forall>e \<in> set wtable. fst e \<noteq> [] \<longrightarrow> snd e \<noteq> 0)"

lemma get_weight_member:
  assumes "distinct (map fst (filter (\<lambda>e. fst e \<noteq> []) wtable))" and "e \<in> set wtable" and "fst e \<noteq> []"
  shows "hostweight_get_weight wtable (fst e) = snd e"
  using assms
proof (induction wtable)
  case (Cons x wtable)
  show ?case
  proof (cases "fst x = fst e")
    case True
    have "fst x \<notin> set (map fst (filter (\<lambda>e. fst e \<noteq> []) wtable))" using True Cons.prems(1,3) by simp
    then have "e \<notin> set wtable" using True Cons.prems(3) by auto
    then have "e = x" using Cons.prems(2) by simp
    then show ?thesis by simp
  next
    case False
    have "distinct (map fst (filter (\<lambda>e. fst e \<noteq> []) wtable))" using Cons.prems(1) by (simp split: if_splits)
    moreover have "e \<in> set wtable" using Cons.prems(2) False by auto
    ultimately show ?thesis using Cons.IH Cons.prems(3) False by simp
  qed
qed simp

lemma get_weight_found:
  assumes "hostweight_get_weight wtable classname \<noteq> 0"
  shows "(classname, hostweight_get_weight wtable classname) \<in> set wtable"
  using assms by (induction wtable) (auto split: if_splits)

text \<open>
  Between clean tables the reports are exactly the classes whose weight differs, a missing
  class counting as weight zero.
\<close>

lemma reports_exact:
  assumes "clean_table wtable" and "clean_table newwtable"
  shows "set (hostweight_reports wtable newwtable) =
     {(c, a, b). c \<noteq> [] \<and> a = hostweight_get_weight wtable c \<and> b = hostweight_get_weight newwtable c \<and> a \<noteq> b}"
proof -
  have member: "hostweight_get_weight t c = w" if "clean_table t" "(c, w) \<in> set t" "c \<noteq> []" for t c w
    using get_weight_member[of t "(c, w)"] that by (simp add: clean_table_def)
  have positive: "w \<noteq> 0" if "clean_table t" "(c, w) \<in> set t" "c \<noteq> []" for t c w
    using that by (auto simp: clean_table_def)
  have removed: "(c, a, b) \<in> set (removed_reports wtable newwtable) \<longleftrightarrow>
      c \<noteq> [] \<and> (c, a) \<in> set wtable \<and> hostweight_get_weight newwtable c = 0 \<and> b = 0" for c a b
    by (force simp: removed_reports_def)
  have changed: "(c, a, b) \<in> set (changed_reports wtable newwtable) \<longleftrightarrow>
      c \<noteq> [] \<and> (c, b) \<in> set newwtable \<and> hostweight_get_weight wtable c = a \<and> a \<noteq> b" for c a b
    by (force simp: changed_reports_def)
  have "(c, a, b) \<in> set (hostweight_reports wtable newwtable) \<longleftrightarrow>
      c \<noteq> [] \<and> a = hostweight_get_weight wtable c \<and> b = hostweight_get_weight newwtable c \<and> a \<noteq> b" (is "?l \<longleftrightarrow> ?r") for c a b
  proof
    assume ?l
    then consider "(c, a, b) \<in> set (removed_reports wtable newwtable)" | "(c, a, b) \<in> set (changed_reports wtable newwtable)"
      by (auto simp: hostweight_reports_def)
    then show ?r
    proof cases
      case 1
      then show ?thesis using member[OF assms(1)] positive[OF assms(1)] unfolding removed by metis
    next
      case 2
      then show ?thesis using member[OF assms(2)] unfolding changed by metis
    qed
  next
    assume r: ?r
    then have "a \<noteq> 0 \<Longrightarrow> (c, a) \<in> set wtable" "b \<noteq> 0 \<Longrightarrow> (c, b) \<in> set newwtable"
      using get_weight_found by auto
    then show ?l using r unfolding hostweight_reports_def set_append Un_iff removed changed by metis
  qed
  then show ?thesis by auto
qed

lemma unchanged_table_is_silent:
  assumes "clean_table wtable"
  shows "hostweight_reports wtable wtable = []"
proof -
  have "set (hostweight_reports wtable wtable) = {}" unfolding reports_exact[OF assms assms] by auto
  then show ?thesis by simp
qed

text \<open>
  A weight of zero, which the command never writes but a file may hold, is reported as a change
  on every reload; a class whose weight becomes zero is reported twice.
\<close>

lemma zero_weight_reported:
  "hostweight_reports [(''a'', 0)] [(''a'', 0)] = [(''a'', 0, 0)]"
  "hostweight_reports [(''a'', 5)] [(''a'', 0)] = [(''a'', 5, 0), (''a'', 5, 0)]"
  by (simp_all add: hostweight_reports_def removed_reports_def changed_reports_def)

text \<open>The command keeps a table clean.\<close>

lemma distinct_names_update:
  assumes "distinct (map fst (filter (\<lambda>e. fst e \<noteq> []) wtable))" and "i < length wtable"
    and "c = [] \<or> fst (wtable ! i) = c \<or> c \<notin> fst ` set wtable"
  shows "distinct (map fst (filter (\<lambda>e. fst e \<noteq> []) (wtable[i := (c, w)])))"
  using assms
proof (induction wtable arbitrary: i)
  case (Cons x wtable)
  show ?case
  proof (cases i)
    case 0
    then show ?thesis using Cons.prems by (auto split: if_splits)
  next
    case (Suc j)
    have ih: "distinct (map fst (filter (\<lambda>e. fst e \<noteq> []) (wtable[j := (c, w)])))"
      using Cons.IH[of j] Cons.prems Suc by (auto split: if_splits)
    have "fst x \<notin> fst ` set (filter (\<lambda>e. fst e \<noteq> []) (wtable[j := (c, w)]))" if "fst x \<noteq> []"
    proof
      assume "fst x \<in> fst ` set (filter (\<lambda>e. fst e \<noteq> []) (wtable[j := (c, w)]))"
      then obtain y where y: "y \<in> set (wtable[j := (c, w)])" "fst y = fst x" using that by auto
      have "y = (c, w) \<or> y \<in> set wtable" using y(1) set_update_subset_insert[of wtable j "(c, w)"] by blast
      then have "fst x = c \<or> fst x \<in> fst ` set (filter (\<lambda>e. fst e \<noteq> []) wtable)"
      proof
        assume "y \<in> set wtable"
        then have "y \<in> set (filter (\<lambda>e. fst e \<noteq> []) wtable)" using y(2) that by simp
        then show ?thesis using y(2) by (metis imageI)
      qed (use y(2) in simp)
      moreover have "fst x \<notin> fst ` set (filter (\<lambda>e. fst e \<noteq> []) wtable)" using Cons.prems(1) that by auto
      moreover have "fst (wtable ! j) \<in> fst ` set (filter (\<lambda>e. fst e \<noteq> []) wtable)" if "fst (wtable ! j) \<noteq> []"
        using that Cons.prems(2) Suc by auto
      ultimately show False using Cons.prems(3) Suc that by auto
    qed
    then show ?thesis using ih Suc by auto
  qed
qed simp

lemma set_keeps_clean:
  assumes "clean_table wtable"
  shows "clean_table (snd (set_hostweight_table wtable classname weight))"
proof -
  have weights: "\<forall>e \<in> set (wtable[i := (c, w)]). fst e \<noteq> [] \<longrightarrow> snd e \<noteq> 0" if "c = [] \<or> w \<noteq> 0" for i c w
    using that assms set_update_subset_insert[of wtable i "(c, w)"] by (fastforce simp: clean_table_def)
  have names: "distinct (map fst (filter (\<lambda>e. fst e \<noteq> []) wtable))" using assms by (simp add: clean_table_def)
  have put: "clean_table (wtable[i := (c, w)])"
    if "i < length wtable" "c = [] \<or> w \<noteq> 0" "c = [] \<or> fst (wtable ! i) = c \<or> c \<notin> fst ` set wtable" for i c w
    unfolding clean_table_def using weights[OF that(2)] distinct_names_update[OF names that(1,3)] by blast
  show ?thesis
  proof (cases "first_host (length wtable) (\<lambda>i. fst (wtable ! i) = classname)")
    case (Some i)
    then have "i < length wtable" "fst (wtable ! i) = classname" using first_host_Some by auto
    then show ?thesis using Some put[of i "if weight = 0 then [] else classname" weight] by simp
  next
    case None
    then have "\<forall>i<length wtable. fst (wtable ! i) \<noteq> classname" by (simp add: first_host_None)
    then have "classname \<notin> set (map fst wtable)" by (auto simp: in_set_conv_nth simp del: set_map)
    then have absent: "classname \<notin> fst ` set wtable" by simp
    show ?thesis
    proof (cases "first_host (length wtable) (\<lambda>i. fst (wtable ! i) = [])")
      case free: None
      then show ?thesis using None assms by simp
    next
      case (Some i)
      then have "i < length wtable" using first_host_Some by auto
      then have "weight \<noteq> 0 \<Longrightarrow> clean_table (wtable[i := (classname, weight)])" using put[of i classname weight] absent by blast
      then show ?thesis using None Some assms by simp
    qed
  qed
qed

end
