(* ===== verification/SfDelays.thy ===== *)
theory SfDelays
  imports HaTypes Fist "HOL-Library.Signed_Division"
begin

text \<open>
  How long the State-File thread waits besides its interval: the delays the fault points put
  before an access (\<open>sf_FIST_delay\<close> and \<open>sf_FIST_delay_on_write\<close> of \<^verbatim>\<open>lib/statefileio.c\<close>), and the
  random part of the interval (\<open>sf_rand\<close> of \<^verbatim>\<open>daemon/statefile.c\<close>). The rest of the development
  runs the accesses without them, with a clock that the environment chooses.
\<close>

section \<open>Injected delays\<close>

text \<open>
  The first point of the list that is on gives its delay in milliseconds; a point that is asked is
  consumed when it is not sticky.
\<close>

fun first_delay :: "(string \<times> u32) list \<Rightarrow> fist list \<Rightarrow> u32 option \<times> fist list" where
  "first_delay [] tab = (None, tab)"
| "first_delay ((name, target) # points) tab =
     (case fist_on name tab of (on, tab1) \<Rightarrow> if on then (Some target, tab1) else first_delay points tab1)"

definition below_T2 :: "ha_config \<Rightarrow> u32" where
  "below_T2 c = (let target = cfg_T2 c * 1000 * 3 div 4 in if target = 0 then 1000 else target)"

definition delay_points :: "ha_config \<Rightarrow> (string \<times> u32) list" where
  "delay_points c =
     [(''sf.time.<T2'', below_T2 c),
      (''sf.time.=T2'', cfg_T2 c * 1000),
      (''sf.time.>T2<Ws'', (cfg_Ws c + cfg_T2 c) * 1000 div 2),
      (''sf.time.2Ws'', 2 * cfg_Ws c * 1000),
      (''sf.time.=T2/2+t2'', cfg_T2 c * 1000 div 2)]"

definition write_delay_points :: "ha_config \<Rightarrow> (string \<times> u32) list" where
  "write_delay_points c =
     [(''sf.time.<T2.onwrite'', below_T2 c),
      (''sf.time.=T2/2+t2.onwrite'', cfg_T2 c * 1000 div 2)]"

text \<open>
  The thread hangs until the point is switched off; the list is what the other threads make of
  the points in each second, and a list that ends before is a thread that still hangs. The
  result is the number of seconds.
\<close>

fun sf_hang :: "(fist list \<Rightarrow> fist list) list \<Rightarrow> nat \<Rightarrow> fist list \<Rightarrow> (nat \<times> fist list) option" where
  "sf_hang es n tab =
     (case fist_on ''sf.time.forever'' tab of (on, tab1) \<Rightarrow>
        if \<not> on then Some (n, tab1)
        else (case es of [] \<Rightarrow> None | e # es1 \<Rightarrow> sf_hang es1 (n + 1) (e tab1)))"

declare sf_hang.simps [simp del]

text \<open>The milliseconds handed to \<open>sf_sleep\<close>, which takes an unsigned word, and the points it leaves.\<close>

definition sf_FIST_delay :: "ha_config \<Rightarrow> (fist list \<Rightarrow> fist list) list \<Rightarrow> fist list \<Rightarrow> (nat \<times> fist list) option" where
  "sf_FIST_delay c es tab =
     (case fist_on ''sf.time.forever'' tab of (on, tab1) \<Rightarrow>
        if on then map_option (\<lambda>(n, tab2). (1000 * n, tab2)) (sf_hang es 0 tab1)
        else (case first_delay (delay_points c) tab1 of (target, tab2) \<Rightarrow>
                Some (case target of None \<Rightarrow> 0 | Some t \<Rightarrow> unat t, tab2)))"

definition sf_FIST_delay_on_write :: "ha_config \<Rightarrow> fist list \<Rightarrow> nat \<times> fist list" where
  "sf_FIST_delay_on_write c tab =
     (case first_delay (write_delay_points c) tab of (target, tab1) \<Rightarrow>
        (case target of None \<Rightarrow> 0 | Some t \<Rightarrow> unat t, tab1))"

lemma first_delay_quiet: "fist_quiet tab \<Longrightarrow> first_delay points tab = (None, tab)"
  by (induction points) auto

lemma quiet_delays:
  assumes "fist_quiet tab"
  shows "sf_FIST_delay c es tab = Some (0, tab)" "sf_FIST_delay_on_write c tab = (0, tab)"
  using assms by (simp_all add: sf_FIST_delay_def sf_FIST_delay_on_write_def first_delay_quiet)

lemma first_delay_mem: "first_delay points tab = (Some t, tab') \<Longrightarrow> t \<in> snd ` set points"
  by (induction points tab rule: first_delay.induct) (auto split: prod.splits if_splits)

text \<open>
  The names of the points are true to the delays: as long as the products fit in a word, a delay
  below \<open>T2\<close> is below it, and the one between \<open>T2\<close> and the watchdog timeout lies between them.
\<close>

lemma delay_values:
  assumes "unat (cfg_T2 c) * 3000 < 2 ^ 32" and "unat (cfg_Ws c) * 2000 < 2 ^ 32" and "0 < cfg_T2 c" and "cfg_T2 c < cfg_Ws c"
  shows "0 < unat (below_T2 c)" "unat (below_T2 c) < 1000 * unat (cfg_T2 c)"
    "1000 * unat (cfg_T2 c) < unat ((cfg_Ws c + cfg_T2 c) * 1000 div 2)"
    "unat ((cfg_Ws c + cfg_T2 c) * 1000 div 2) < 1000 * unat (cfg_Ws c)"
proof -
  have p: "0 < unat (cfg_T2 c)" "unat (cfg_T2 c) < unat (cfg_Ws c)"
    using assms(3,4) by (simp_all add: unat_gt_0 word_less_nat_alt)
  have m: "unat (cfg_T2 c * 1000 * 3) = unat (cfg_T2 c) * 3000"
    using assms(1) by (simp add: unat_word_ariths(2) mult.assoc)
  have d: "unat (cfg_T2 c * 1000 * 3 div 4) = unat (cfg_T2 c) * 3000 div 4"
    using m by (simp add: unat_div)
  have "0 < unat (cfg_T2 c) * 3000 div 4" using p by simp
  then have b: "unat (below_T2 c) = unat (cfg_T2 c) * 3000 div 4"
    using d by (auto simp: below_T2_def Let_def)
  show "0 < unat (below_T2 c)" "unat (below_T2 c) < 1000 * unat (cfg_T2 c)" using b p by simp_all
  have s: "unat ((cfg_Ws c + cfg_T2 c) * 1000) = (unat (cfg_Ws c) + unat (cfg_T2 c)) * 1000"
    using assms(1,2) p by (simp add: unat_word_ariths)
  have h: "unat ((cfg_Ws c + cfg_T2 c) * 1000 div 2) = (unat (cfg_Ws c) + unat (cfg_T2 c)) * 500"
    using s by (simp add: unat_div)
  show "1000 * unat (cfg_T2 c) < unat ((cfg_Ws c + cfg_T2 c) * 1000 div 2)"
    "unat ((cfg_Ws c + cfg_T2 c) * 1000 div 2) < 1000 * unat (cfg_Ws c)"
    unfolding h using p by simp_all
qed

text \<open>A hanging thread goes on as soon as the point is off, and not before.\<close>

lemma sf_hang_seconds:
  assumes "sf_hang es n tab = Some (k, tab')"
  shows "n \<le> k \<and> k \<le> n + length es"
  using assms
proof (induction es arbitrary: n tab)
  case Nil
  then show ?case by (subst (asm) sf_hang.simps) (auto split: prod.splits if_splits)
next
  case (Cons e es)
  show ?case
  proof (cases "fst (fist_on ''sf.time.forever'' tab)")
    case True
    then have "sf_hang es (n + 1) (e (snd (fist_on ''sf.time.forever'' tab))) = Some (k, tab')"
      using Cons.prems by (subst (asm) sf_hang.simps) (auto split: prod.splits if_splits)
    then show ?thesis using Cons.IH by fastforce
  next
    case False
    then show ?thesis using Cons.prems by (subst (asm) sf_hang.simps) (auto split: prod.splits if_splits)
  qed
qed

lemma sf_hang_forever:
  assumes "\<And>e t. e \<in> set es \<Longrightarrow> fst (fist_on ''sf.time.forever'' t) \<Longrightarrow> fst (fist_on ''sf.time.forever'' (e (snd (fist_on ''sf.time.forever'' t))))"
    and "fst (fist_on ''sf.time.forever'' tab)"
  shows "sf_hang es n tab = None"
  using assms
proof (induction es arbitrary: n tab)
  case Nil
  then show ?case by (subst sf_hang.simps) (auto split: prod.splits)
next
  case (Cons e es)
  have "sf_hang es (n + 1) (e (snd (fist_on ''sf.time.forever'' tab))) = None"
    by (rule Cons.IH) (use Cons.prems in auto)
  then show ?case using Cons.prems(2) by (subst sf_hang.simps) (auto split: prod.splits)
qed

section \<open>The random part of the interval\<close>

definition RAND_MAX :: int where "RAND_MAX = 2147483647"

text \<open>\<open>r\<close> is what \<open>rand()\<close> returns; the seed is the sum of the bytes of the host's UUID.\<close>

definition sf_rand_seed :: "uuid \<Rightarrow> int" where
  "sf_rand_seed u = to_s32 (fold (\<lambda>ch total. total + sint (of_char ch :: u8)) u 0)"

definition sf_rand :: "int \<Rightarrow> int" where
  "sf_rand r = (r - RAND_MAX sdiv 2) sdiv (RAND_MAX sdiv 1000)"

text \<open>As its comment says, between half a second before and half a second after.\<close>

lemma sf_rand_range:
  assumes "0 \<le> r" and "r \<le> RAND_MAX"
  shows "- 500 \<le> sf_rand r \<and> sf_rand r \<le> 500"
proof (cases "1073741823 \<le> r")
  case True
  have "(r - 1073741823) div 2147483 \<le> 1073741824 div 2147483"
    using assms by (intro zdiv_mono1) (simp_all add: RAND_MAX_def)
  moreover have "0 \<le> (r - 1073741823) div 2147483" using True by (simp add: pos_imp_zdiv_nonneg_iff)
  moreover have "sf_rand r = (r - 1073741823) div 2147483"
    using True by (cases "r = 1073741823") (simp_all add: sf_rand_def RAND_MAX_def signed_divide_int_def)
  ultimately show ?thesis by simp
next
  case False
  have "(1073741823 - r) div 2147483 \<le> 1073741823 div 2147483"
    using assms by (intro zdiv_mono1) simp_all
  moreover have "0 \<le> (1073741823 - r) div 2147483" using False by (simp add: pos_imp_zdiv_nonneg_iff)
  moreover have "sf_rand r = - ((1073741823 - r) div 2147483)"
    using False by (simp add: sf_rand_def RAND_MAX_def signed_divide_int_def)
  ultimately show ?thesis by simp
qed

lemma sf_rand_ends: "sf_rand 0 = - 500" "sf_rand RAND_MAX = 500"
  by (simp_all add: sf_rand_def RAND_MAX_def signed_divide_int_def)

end
