(* ===== verification/CfRead.thy ===== *)
theory CfRead
  imports Config Logging
begin

text \<open>
  The stand-alone reader of the config file: \<^verbatim>\<open>stubs/cfread-libxml2\<close> (\<^verbatim>\<open>cf_read.c\<close>, its test program
  \<^verbatim>\<open>cf_read_test.c\<close> and its \<^verbatim>\<open>log.c\<close>). It walks the same tree as \<^verbatim>\<open>lib/config.c\<close>, whose tree,
  numbers and loops are used here. Names that both readers use have the prefix \<open>cfr_\<close>.
\<close>

section \<open>Data\<close>

definition CFREAD_ERROR_SUCCESS :: int where "CFREAD_ERROR_SUCCESS = 0"
definition CFREAD_ERROR_INVALID_PARAMETER :: int where "CFREAD_ERROR_INVALID_PARAMETER = - 1"
definition CFREAD_ERROR_FILEFORMAT :: int where "CFREAD_ERROR_FILEFORMAT = - 2"
definition CFREAD_ERROR_OPEN :: int where "CFREAD_ERROR_OPEN = - 3"

definition UUID_LEN :: nat where "UUID_LEN = 32"
definition CFR_HEARTBEAT_INTERFACE_LEN :: nat where "CFR_HEARTBEAT_INTERFACE_LEN = 64"
definition CFR_STATEFILE_PATH_LEN :: nat where "CFR_STATEFILE_PATH_LEN = 256"

text \<open>A host; an address is the word \<open>inet_addr\<close> returns.\<close>

record cfr_host_info =
  ch_host_id :: uuid
  ch_ip_address :: u32

record cfr_config =
  cc_version :: string
  cc_generation_uuid :: uuid
  cc_udp_port :: u32
  cc_host :: "cfr_host_info list"
  cc_heartbeat_interval :: u32
  cc_heartbeat_timeout :: u32
  cc_statefile_interval :: u32
  cc_statefile_timeout :: u32
  cc_heartbeat_watchdog_timeout :: u32
  cc_statefile_watchdog_timeout :: u32
  cc_boot_join_timeout :: u32
  cc_enable_join_timeout :: u32
  cc_xapi_healthcheck_interval :: u32
  cc_xapi_healthcheck_timeout :: u32
  cc_xapi_restart_retry :: u32
  cc_xapi_restart_timeout :: u32
  cc_xapi_licensecheck_timeout :: u32
  cc_localhost_index :: u32
  cc_heartbeat_interface :: string
  cc_statefile_path :: string

text \<open>
  The static structure of the test program: zeros. \<open>hostnum\<close> is the length of the list of
  hosts; the places beyond it are zeros as long as the structure is filled once.
\<close>

definition cfr_zero_config :: cfr_config where
  "cfr_zero_config = \<lparr>cc_version = [], cc_generation_uuid = replicate UUID_LEN NUL, cc_udp_port = 0, cc_host = [],
     cc_heartbeat_interval = 0, cc_heartbeat_timeout = 0, cc_statefile_interval = 0, cc_statefile_timeout = 0,
     cc_heartbeat_watchdog_timeout = 0, cc_statefile_watchdog_timeout = 0, cc_boot_join_timeout = 0,
     cc_enable_join_timeout = 0, cc_xapi_healthcheck_interval = 0, cc_xapi_healthcheck_timeout = 0,
     cc_xapi_restart_retry = 0, cc_xapi_restart_timeout = 0, cc_xapi_licensecheck_timeout = 0,
     cc_localhost_index = 0, cc_heartbeat_interface = [], cc_statefile_path = []\<rparr>"

text \<open>
  An error is a status, or \<open>Overflow\<close>: a \<open>strcpy\<close> wrote beyond its field, and what the program
  does from then on is undefined.
\<close>

datatype cfr_error = Status int | Overflow

type_synonym 'a cfr_result = "cfr_error + 'a"

abbreviation bad_format :: "'a cfr_result" where "bad_format \<equiv> Inl (Status CFREAD_ERROR_FILEFORMAT)"

definition cfr_set_default_value :: "cfr_config \<Rightarrow> cfr_config" where
  "cfr_set_default_value c = c\<lparr>cc_heartbeat_interval := 3, cc_heartbeat_timeout := 30, cc_statefile_interval := 3,
     cc_statefile_timeout := 30, cc_boot_join_timeout := 300, cc_enable_join_timeout := 600,
     cc_xapi_healthcheck_interval := 3, cc_xapi_healthcheck_timeout := 10, cc_xapi_restart_retry := 0,
     cc_xapi_restart_timeout := 10, cc_xapi_licensecheck_timeout := 5\<rparr>"

definition cfr_valid_version :: "string \<Rightarrow> bool" where
  "cfr_valid_version version \<longleftrightarrow> \<not> length version \<ge> 8 \<and> version = ''1.0''"

definition cfr_valid_config :: "cfr_config \<Rightarrow> bool" where
  "cfr_valid_config c \<longleftrightarrow> hd (cc_generation_uuid c) \<noteq> NUL \<and> cc_udp_port c \<noteq> 0 \<and> length (cc_host c) \<noteq> 0
     \<and> cc_heartbeat_interface c \<noteq> [] \<and> cc_statefile_path c \<noteq> []
     \<and> \<not> cc_localhost_index c \<ge> of_nat MAX_HOST_NUM"

text \<open>The loop: \<open>n\<close> characters are copied already.\<close>

fun uuid_copy :: "nat \<Rightarrow> string \<Rightarrow> int \<times> string" where
  "uuid_copy n [] = (if n < UUID_LEN then (- 1, replicate (UUID_LEN - n) NUL) else (0, []))"
| "uuid_copy n (ch # src) =
     (if ch = CHR ''-'' then uuid_copy n src
      else if n < UUID_LEN then (case uuid_copy (n + 1) src of (ret, cs) \<Rightarrow> (ret, ch # cs))
      else (- 1, []))"

definition cfr_uuid_strcpy :: "string \<Rightarrow> int \<times> uuid" where
  "cfr_uuid_strcpy uuid = uuid_copy 0 uuid"

definition cfr_strcpy :: "nat \<Rightarrow> string \<Rightarrow> string cfr_result" where
  "cfr_strcpy len txt = (if length txt < len then Inr txt else Inl Overflow)"

section \<open>Walking the tree\<close>

text \<open>
  The children of a host fill the place after the last host. \<open>inet_addr\<close> is the function of the C
  library: the address in network order, all ones when the text is none.
\<close>

definition cfr_walk_host_child :: "(string \<Rightarrow> u32) \<Rightarrow> xml \<Rightarrow> cfr_host_info \<Rightarrow> cfr_host_info cfr_result" where
  "cfr_walk_host_child inet_addr sub h =
     (if xml_name sub = ''HostID'' then
        (case xml_text sub of
           None \<Rightarrow> bad_format
         | Some txt \<Rightarrow> (case cfr_uuid_strcpy txt of (ret, packed_uuid) \<Rightarrow>
             if ret < 0 then bad_format else Inr (h\<lparr>ch_host_id := packed_uuid\<rparr>)))
      else if xml_name sub = ''IPaddress'' then
        (case xml_text sub of
           None \<Rightarrow> bad_format
         | Some txt \<Rightarrow> if inet_addr txt = 0 then bad_format else Inr (h\<lparr>ch_ip_address := inet_addr txt\<rparr>))
      else Inr h)"

definition cfr_walk_host_config :: "(string \<Rightarrow> u32) \<Rightarrow> xml \<Rightarrow> cfr_config \<Rightarrow> cfr_config cfr_result" where
  "cfr_walk_host_config inet_addr cur c =
     (if length (cc_host c) \<ge> MAX_HOST_NUM then bad_format
      else (case walk (cfr_walk_host_child inet_addr) (xml_children cur)
                   \<lparr>ch_host_id = replicate UUID_LEN NUL, ch_ip_address = 0\<rparr> of
              Inl e \<Rightarrow> Inl e
            | Inr h \<Rightarrow> Inr (c\<lparr>cc_host := cc_host c @ [h]\<rparr>)))"

definition cfr_parameter_table :: "(string \<times> (u32 \<Rightarrow> cfr_config \<Rightarrow> cfr_config)) list" where
  "cfr_parameter_table =
     [(''HeartbeatInterval'', \<lambda>v c. c\<lparr>cc_heartbeat_interval := v\<rparr>),
      (''HeartbeatTimeout'', \<lambda>v c. c\<lparr>cc_heartbeat_timeout := v\<rparr>),
      (''StateFileInterval'', \<lambda>v c. c\<lparr>cc_statefile_interval := v\<rparr>),
      (''StateFileTimeout'', \<lambda>v c. c\<lparr>cc_statefile_timeout := v\<rparr>),
      (''HeartbeatWatchdogTimeout'', \<lambda>v c. c\<lparr>cc_heartbeat_watchdog_timeout := v\<rparr>),
      (''StateFileWatchdogTimeout'', \<lambda>v c. c\<lparr>cc_statefile_watchdog_timeout := v\<rparr>),
      (''BootJoinTimeout'', \<lambda>v c. c\<lparr>cc_boot_join_timeout := v\<rparr>),
      (''EnableJoinTimeout'', \<lambda>v c. c\<lparr>cc_enable_join_timeout := v\<rparr>),
      (''XapiHealthCheckInterval'', \<lambda>v c. c\<lparr>cc_xapi_healthcheck_interval := v\<rparr>),
      (''XapiHealthCheckTimeout'', \<lambda>v c. c\<lparr>cc_xapi_healthcheck_timeout := v\<rparr>),
      (''XapiRestartRetry'', \<lambda>v c. c\<lparr>cc_xapi_restart_retry := v\<rparr>),
      (''XapiRestartTimeout'', \<lambda>v c. c\<lparr>cc_xapi_restart_timeout := v\<rparr>),
      (''XapiLicenseCheckTimeout'', \<lambda>v c. c\<lparr>cc_xapi_licensecheck_timeout := v\<rparr>)]"

definition cfr_walk_parameter :: "xml \<Rightarrow> cfr_config \<Rightarrow> cfr_config cfr_result" where
  "cfr_walk_parameter sub c =
     (case map_of cfr_parameter_table (xml_name sub) of
        None \<Rightarrow> Inr c
      | Some set_value \<Rightarrow>
          (case xml_text sub of
             None \<Rightarrow> bad_format
           | Some txt \<Rightarrow> (case strtol txt of (v, endptr) \<Rightarrow>
               if endptr \<noteq> [] then bad_format else Inr (set_value (word_of_int v) c))))"

definition cfr_walk_parameters_config :: "xml \<Rightarrow> cfr_config \<Rightarrow> cfr_config cfr_result" where
  "cfr_walk_parameters_config cur c = walk cfr_walk_parameter (xml_children cur) c"

definition cfr_walk_localhost_child :: "xml \<Rightarrow> cfr_config \<Rightarrow> cfr_config cfr_result" where
  "cfr_walk_localhost_child sub c =
     (if xml_name sub = ''HostID'' then
        (case xml_text sub of
           None \<Rightarrow> bad_format
         | Some txt \<Rightarrow> (case cfr_uuid_strcpy txt of (ret, host_id) \<Rightarrow>
             if ret < 0 then bad_format
             else (case first_host (length (cc_host c)) (\<lambda>i. strncmp host_id (ch_host_id (cc_host c ! i)) UUID_LEN = 0) of
                     None \<Rightarrow> bad_format
                   | Some i \<Rightarrow> Inr (c\<lparr>cc_localhost_index := of_nat i\<rparr>))))
      else if xml_name sub = ''HeartbeatInterface'' then
        (case xml_text sub of
           None \<Rightarrow> bad_format
         | Some txt \<Rightarrow> (case cfr_strcpy CFR_HEARTBEAT_INTERFACE_LEN txt of
             Inl e \<Rightarrow> Inl e | Inr s \<Rightarrow> Inr (c\<lparr>cc_heartbeat_interface := s\<rparr>)))
      else if xml_name sub = ''StateFile'' then
        (case xml_text sub of
           None \<Rightarrow> bad_format
         | Some txt \<Rightarrow> (case cfr_strcpy CFR_STATEFILE_PATH_LEN txt of
             Inl e \<Rightarrow> Inl e | Inr s \<Rightarrow> Inr (c\<lparr>cc_statefile_path := s\<rparr>)))
      else Inr c)"

definition cfr_walk_localhost :: "xml \<Rightarrow> cfr_config \<Rightarrow> cfr_config cfr_result" where
  "cfr_walk_localhost cur c = walk cfr_walk_localhost_child (xml_children cur) c"

definition cfr_walk_common_child :: "(string \<Rightarrow> u32) \<Rightarrow> xml \<Rightarrow> cfr_config \<Rightarrow> cfr_config cfr_result" where
  "cfr_walk_common_child inet_addr sub c =
     (if xml_name sub = ''GenerationUUID'' then
        (case xml_text sub of
           None \<Rightarrow> bad_format
         | Some txt \<Rightarrow> (case cfr_uuid_strcpy txt of (ret, packed_uuid) \<Rightarrow>
             if ret < 0 then bad_format else Inr (c\<lparr>cc_generation_uuid := packed_uuid\<rparr>)))
      else if xml_name sub = ''UDPport'' then
        (case xml_text sub of
           None \<Rightarrow> bad_format
         | Some txt \<Rightarrow> (case strtol txt of (v, endptr) \<Rightarrow>
             let port = (word_of_int v :: u32) in
             if endptr \<noteq> [] \<or> port = 0 then bad_format else Inr (c\<lparr>cc_udp_port := port\<rparr>)))
      else if xml_name sub = ''host'' then cfr_walk_host_config inet_addr sub c
      else if xml_name sub = ''parameters'' then cfr_walk_parameters_config sub c
      else Inr c)"

definition cfr_walk_common_config :: "(string \<Rightarrow> u32) \<Rightarrow> xml \<Rightarrow> cfr_config \<Rightarrow> cfr_config cfr_result" where
  "cfr_walk_common_config inet_addr cur c = walk (cfr_walk_common_child inet_addr) (xml_children cur) c"

text \<open>
  \<open>walk_local_config\<close> has no \<open>return\<close> after its loop, and its caller looks at the value: it is
  whatever the register for results holds, the argument \<open>leftover\<close>.
\<close>

definition cfr_walk_local_config :: "int \<Rightarrow> xml \<Rightarrow> cfr_config \<Rightarrow> cfr_config cfr_result" where
  "cfr_walk_local_config leftover cur c =
     (case walk (\<lambda>sub c. if xml_name sub = ''localhost'' then cfr_walk_localhost sub c else Inr c) (xml_children cur) c of
        Inl e \<Rightarrow> Inl e
      | Inr c1 \<Rightarrow> if leftover \<noteq> CFREAD_ERROR_SUCCESS then bad_format else Inr c1)"

definition cfr_walk_root_child :: "(string \<Rightarrow> u32) \<Rightarrow> int \<Rightarrow> xml \<Rightarrow> cfr_config \<Rightarrow> cfr_config cfr_result" where
  "cfr_walk_root_child inet_addr leftover sub c =
     (if xml_name sub = ''common-config'' then cfr_walk_common_config inet_addr sub c
      else if xml_name sub = ''local-config'' then cfr_walk_local_config leftover sub c else Inr c)"

text \<open>
  \<open>path\<close> and the structure are pointers, \<open>None\<close> for the null pointer; \<open>exists\<close> is the answer of
  \<open>stat\<close>, \<open>parsed\<close> the tree of the parser, if any, and its root element, if any.
\<close>

definition cfr_interpret_config_file :: "(string \<Rightarrow> u32) \<Rightarrow> int \<Rightarrow> string option \<Rightarrow> bool \<Rightarrow> xml option option
  \<Rightarrow> cfr_config option \<Rightarrow> cfr_config cfr_result" where
  "cfr_interpret_config_file inet_addr leftover path exists parsed cfg =
     (if path = None then Inl (Status CFREAD_ERROR_OPEN)
      else (case cfg of
        None \<Rightarrow> Inl (Status CFREAD_ERROR_INVALID_PARAMETER)
      | Some c0 \<Rightarrow>
          if \<not> exists then Inl (Status CFREAD_ERROR_OPEN)
          else
           let c = (cfr_set_default_value c0)\<lparr>cc_localhost_index := - 1\<rparr>
           in (case parsed of
                 None \<Rightarrow> Inl (Status CFREAD_ERROR_OPEN)
               | Some None \<Rightarrow> bad_format
               | Some (Some cur) \<Rightarrow>
                   if xml_name cur \<noteq> ''xhad-config'' then bad_format
                   else (case map_of (xml_props cur) ''version'' of
                           None \<Rightarrow> bad_format
                         | Some txt \<Rightarrow>
                             if \<not> cfr_valid_version txt then bad_format
                             else (case walk (cfr_walk_root_child inet_addr leftover) (xml_children cur) (c\<lparr>cc_version := txt\<rparr>) of
                                     Inl e \<Rightarrow> Inl e
                                   | Inr c1 \<Rightarrow> if \<not> cfr_valid_config c1 then bad_format else Inr c1)))))"

section \<open>The test program\<close>

text \<open>\<open>%.ns\<close> of a text that need not be terminated.\<close>

definition print_at_most :: "nat \<Rightarrow> string \<Rightarrow> string" where
  "print_at_most n s = takeWhile (\<lambda>ch. ch \<noteq> NUL) (take n s)"

definition cfr_print_uuid :: "uuid \<Rightarrow> string" where
  "cfr_print_uuid u = print_at_most 8 u @ ''-'' @ print_at_most 4 (drop 8 u) @ ''-'' @ print_at_most 4 (drop 12 u) @ ''-''
     @ print_at_most 4 (drop 16 u) @ ''-'' @ print_at_most 12 (drop 20 u)"

definition print_field :: "string \<Rightarrow> string \<Rightarrow> string" where
  "print_field key v = key @ ''='' @ v @ [CHR 0x0A]"

definition print_ha_config :: "(u32 \<Rightarrow> string) \<Rightarrow> cfr_config \<Rightarrow> string" where
  "print_ha_config inet_ntoa c =
     (let num = (\<lambda>key v. print_field key (print_int (sint (v :: u32)))) in
      print_field ''version'' (cc_version c)
      @ print_field ''generation_uuid'' (cfr_print_uuid (cc_generation_uuid c))
      @ num ''udp_port'' (cc_udp_port c)
      @ num ''hostnum'' (of_nat (length (cc_host c)))
      @ concat (map (\<lambda>(i, h). print_field (''host['' @ print_int (int i) @ ''].HostId'') (cfr_print_uuid (ch_host_id h))
             @ print_field (''host['' @ print_int (int i) @ ''].ipaddress'') (inet_ntoa (ch_ip_address h)))
          (zip [0..<length (cc_host c)] (cc_host c)))
      @ num ''heartbeat_interval'' (cc_heartbeat_interval c) @ num ''heartbeat_timeout'' (cc_heartbeat_timeout c)
      @ num ''statefile_interval'' (cc_statefile_interval c) @ num ''statefile_timeout'' (cc_statefile_timeout c)
      @ num ''heartbeat_watchdog_timeout'' (cc_heartbeat_watchdog_timeout c)
      @ num ''statefile_watchdog_timeout'' (cc_statefile_watchdog_timeout c)
      @ num ''boot_join_timeout'' (cc_boot_join_timeout c) @ num ''enable_join_timeout'' (cc_enable_join_timeout c)
      @ num ''xapi_healthcheck_interval'' (cc_xapi_healthcheck_interval c)
      @ num ''xapi_healthcheck_timeout'' (cc_xapi_healthcheck_timeout c)
      @ num ''xapi_restart_retry'' (cc_xapi_restart_retry c) @ num ''xapi_restart_timeout'' (cc_xapi_restart_timeout c)
      @ num ''xapi_licensecheck_timeout'' (cc_xapi_licensecheck_timeout c)
      @ num ''localhost_index'' (cc_localhost_index c)
      @ print_field ''heartbeat_interface'' (cc_heartbeat_interface c)
      @ print_field ''statefile_path'' (cc_statefile_path c))"

text \<open>The exit code and the output of the program; \<open>None\<close> when its behaviour is undefined.\<close>

definition cf_read_test_main :: "(string \<Rightarrow> u32) \<Rightarrow> (u32 \<Rightarrow> string) \<Rightarrow> int \<Rightarrow> string list \<Rightarrow> bool \<Rightarrow> xml option option
  \<Rightarrow> (int \<times> string) option" where
  "cf_read_test_main inet_addr inet_ntoa leftover args exists parsed =
     (case args of
        [filename] \<Rightarrow>
          (case cfr_interpret_config_file inet_addr leftover (Some filename) exists parsed (Some cfr_zero_config) of
             Inl Overflow \<Rightarrow> None
           | Inl (Status ret) \<Rightarrow> Some (if ret \<noteq> 0 then 1 else 0, [])
           | Inr c \<Rightarrow> Some (0, print_ha_config inet_ntoa c))
      | _ \<Rightarrow> Some (1, []))"

end
