(* ===== verification/CfReadProps.thy ===== *)
theory CfReadProps
  imports CfRead ConfigProps
begin

text \<open>
  What the stand-alone reader guarantees, where it differs from the reader of the daemon, and
  that the two agree on a file both accept.
\<close>

section \<open>Identifiers\<close>

text \<open>The loop computes what the reader of the daemon states in one expression.\<close>

lemma uuid_copy_append:
  assumes "n \<le> UUID_LEN"
  shows "uuid_copy n src =
     (let cs = filter (\<lambda>c. c \<noteq> CHR ''-'') src
      in if length cs > UUID_LEN - n then (- 1, take (UUID_LEN - n) cs)
         else if length cs < UUID_LEN - n then (- 1, cs @ replicate (UUID_LEN - n - length cs) NUL)
         else (0, cs))"
  using assms
proof (induction n src rule: uuid_copy.induct)
  case (2 n ch src)
  show ?case
  proof (cases "ch = CHR ''-''")
    case True
    then show ?thesis using 2 by simp
  next
    case False
    show ?thesis
    proof (cases "n < UUID_LEN")
      case True
      then have "UUID_LEN - n = Suc (UUID_LEN - (n + 1))" by simp
      then show ?thesis using 2 False True by (auto simp: Let_def)
    qed (use 2 False in \<open>auto simp: Let_def\<close>)
  qed
qed auto

lemma cfr_uuid_agrees:
  "snd (cfr_uuid_strcpy u) = snd (uuid_strcpy u)"
  "fst (cfr_uuid_strcpy u) < 0 \<longleftrightarrow> fst (uuid_strcpy u) \<noteq> MTC_SUCCESS"
  using uuid_copy_append[of 0 u]
  by (simp_all add: cfr_uuid_strcpy_def uuid_strcpy_def UUID_LEN_def MTC_UUID_SIZE_def Let_def)

section \<open>Accepted files\<close>

definition cfr_inv :: "string \<Rightarrow> cfr_config \<Rightarrow> bool" where
  "cfr_inv ver c \<longleftrightarrow> length (cc_host c) \<le> MAX_HOST_NUM \<and> cc_version c = ver
     \<and> (cc_localhost_index c = - 1 \<or> unat (cc_localhost_index c) < length (cc_host c))
     \<and> length (cc_heartbeat_interface c) < CFR_HEARTBEAT_INTERFACE_LEN
     \<and> length (cc_statefile_path c) < CFR_STATEFILE_PATH_LEN"

lemma cfr_parameter_frame:
  "map_of cfr_parameter_table nm = Some f \<Longrightarrow> cfr_inv ver c \<Longrightarrow> cfr_inv ver (f v c)"
  by (auto simp: cfr_parameter_table_def cfr_inv_def split: if_splits)

lemma cfr_parameters_inv: "cfr_inv ver c \<Longrightarrow> cfr_walk_parameters_config x c = Inr c' \<Longrightarrow> cfr_inv ver c'"
  unfolding cfr_walk_parameters_config_def
  by (erule (1) walk_inv)
     (auto simp: cfr_walk_parameter_def cfr_parameter_frame split: option.splits prod.splits if_splits)

lemma cfr_host_inv: "cfr_inv ver c \<Longrightarrow> cfr_walk_host_config inet_addr x c = Inr c' \<Longrightarrow> cfr_inv ver c'"
  by (auto simp: cfr_walk_host_config_def cfr_inv_def split: if_splits sum.splits)

lemma cfr_common_inv:
  assumes "cfr_inv ver c" and "cfr_walk_common_config inet_addr x c = Inr c'"
  shows "cfr_inv ver c'"
  using assms(2,1) unfolding cfr_walk_common_config_def
proof (rule walk_inv)
  fix y a b assume "cfr_inv ver a" "cfr_walk_common_child inet_addr y a = Inr b"
  then show "cfr_inv ver b"
    by (auto simp: cfr_walk_common_child_def Let_def intro: cfr_host_inv cfr_parameters_inv
          split: if_splits option.splits prod.splits)
       (auto simp: cfr_inv_def)
qed

lemma cfr_index_inv:
  assumes "cfr_inv ver c" and "first_host (length (cc_host c)) P = Some i"
  shows "cfr_inv ver (c\<lparr>cc_localhost_index := of_nat i\<rparr>)"
proof -
  have "i < length (cc_host c)" "length (cc_host c) \<le> 64"
    using assms by (auto simp: first_host_Some cfr_inv_def MAX_HOST_NUM_def)
  then have "unat (of_nat i :: u32) < length (cc_host c)" by (simp add: unat_of_nat)
  then show ?thesis using assms(1) by (simp add: cfr_inv_def)
qed

lemma cfr_localhost_child_inv:
  assumes "cfr_inv ver c" and "cfr_walk_localhost_child x c = Inr c'"
  shows "cfr_inv ver c'"
  using assms
  by (auto simp: cfr_walk_localhost_child_def cfr_index_inv split: if_splits option.splits prod.splits sum.splits)
     (auto simp: cfr_inv_def cfr_strcpy_def split: if_splits)

lemma cfr_local_inv:
  assumes "cfr_inv ver c" and "cfr_walk_local_config leftover x c = Inr c'"
  shows "cfr_inv ver c'"
proof -
  have "walk (\<lambda>sub c. if xml_name sub = ''localhost'' then cfr_walk_localhost sub c else Inr c) (xml_children x) c = Inr c'"
    using assms(2) by (auto simp: cfr_walk_local_config_def split: sum.splits if_splits)
  then show ?thesis using assms(1)
  proof (rule walk_inv)
    fix y a b assume "cfr_inv ver a" "(if xml_name y = ''localhost'' then cfr_walk_localhost y a else Inr a) = Inr b"
    then show "cfr_inv ver b"
      by (auto simp: cfr_walk_localhost_def split: if_splits elim: walk_inv intro: cfr_localhost_child_inv)
  qed
qed

lemma cfr_root_child_inv:
  "cfr_inv ver c \<Longrightarrow> cfr_walk_root_child inet_addr leftover x c = Inr c' \<Longrightarrow> cfr_inv ver c'"
  by (auto simp: cfr_walk_root_child_def split: if_splits intro: cfr_common_inv cfr_local_inv)

lemma cfr_accepted_walk:
  assumes "cfr_interpret_config_file inet_addr leftover path ex parsed (Some c0) = Inr c"
  shows "\<exists>cur. parsed = Some (Some cur) \<and> cfr_valid_config c \<and> walk (cfr_walk_root_child inet_addr leftover) (xml_children cur)
     ((cfr_set_default_value c0)\<lparr>cc_localhost_index := - 1, cc_version := ''1.0''\<rparr>) = Inr c"
  using assms
  by (auto simp: cfr_interpret_config_file_def Let_def cfr_valid_version_def split: if_splits option.splits sum.splits)

lemma cfr_accepted_is_valid:
  assumes "cfr_interpret_config_file inet_addr leftover path ex parsed (Some cfr_zero_config) = Inr c"
  shows "0 < length (cc_host c)" "length (cc_host c) \<le> 64" "unat (cc_localhost_index c) < length (cc_host c)"
    "cc_version c = ''1.0''" "cc_udp_port c \<noteq> 0" "length (cc_heartbeat_interface c) < 64" "length (cc_statefile_path c) < 256"
proof -
  define c1 where "c1 = (cfr_set_default_value cfr_zero_config)\<lparr>cc_localhost_index := - 1, cc_version := ''1.0''\<rparr>"
  obtain cur where cur: "walk (cfr_walk_root_child inet_addr leftover) (xml_children cur) c1 = Inr c"
    and ok: "cfr_valid_config c"
    using cfr_accepted_walk[OF assms] unfolding c1_def by blast
  have "cfr_inv ''1.0'' c1"
    by (simp add: c1_def cfr_inv_def cfr_set_default_value_def cfr_zero_config_def CFR_HEARTBEAT_INTERFACE_LEN_def
          CFR_STATEFILE_PATH_LEN_def)
  with cur have inv: "cfr_inv ''1.0'' c" by (rule walk_inv) (rule cfr_root_child_inv)
  have "cc_localhost_index c \<noteq> - 1" using ok by (auto simp: cfr_valid_config_def MAX_HOST_NUM_def)
  then show "0 < length (cc_host c)" "length (cc_host c) \<le> 64" "unat (cc_localhost_index c) < length (cc_host c)"
    "cc_version c = ''1.0''" "cc_udp_port c \<noteq> 0" "length (cc_heartbeat_interface c) < 64" "length (cc_statefile_path c) < 256"
    using inv ok by (auto simp: cfr_inv_def cfr_valid_config_def CFR_HEARTBEAT_INTERFACE_LEN_def
        CFR_STATEFILE_PATH_LEN_def MAX_HOST_NUM_def)
qed

section \<open>Both readers on one file\<close>

text \<open>Two loops over the same children keep a relation that every child keeps.\<close>

lemma walk_sim:
  assumes "walk f xs a = Inr a'" and "walk g xs b = Inr b'" and "R a b"
    and "\<And>x a b a' b'. R a b \<Longrightarrow> f x a = Inr a' \<Longrightarrow> g x b = Inr b' \<Longrightarrow> R a' b'"
  shows "R a' b'"
  using assms
proof (induction xs arbitrary: a b)
  case (Cons x xs)
  then obtain a1 b1 where "f x a = Inr a1" "g x b = Inr b1" by (auto split: sum.splits)
  with Cons show ?case by auto
qed simp

definition same_pool :: "config \<Rightarrow> cfr_config \<Rightarrow> bool" where
  "same_pool c c' \<longleftrightarrow> cf_version c = cc_version c' \<and> cf_generation_uuid c = cc_generation_uuid c'
     \<and> cf_udp_port c = cc_udp_port c' \<and> mset (map hi_host_id (cf_host c)) = mset (map ch_host_id (cc_host c'))
     \<and> cf_heartbeat_interface c = cc_heartbeat_interface c' \<and> cf_statefile_path c = cc_statefile_path c'"

lemma parameter_same_pool:
  "walk_parameters_config x c = Inr c1 \<Longrightarrow> cfr_walk_parameters_config x c' = Inr c1' \<Longrightarrow> same_pool c c' \<Longrightarrow> same_pool c1 c1'"
proof -
  assume w: "walk_parameters_config x c = Inr c1" "cfr_walk_parameters_config x c' = Inr c1'" and "same_pool c c'"
  have f: "map_of parameter_table nm = Some f \<Longrightarrow> same_pool a b \<Longrightarrow> same_pool (f v a) b" for nm f v a b
    by (auto simp: parameter_table_def same_pool_def split: if_splits)
  have g: "map_of cfr_parameter_table nm = Some f \<Longrightarrow> same_pool a b \<Longrightarrow> same_pool a (f v b)" for nm f v a b
    by (auto simp: cfr_parameter_table_def same_pool_def split: if_splits)
  have left: "same_pool a b \<Longrightarrow> walk_parameter y a = Inr a1 \<Longrightarrow> same_pool a1 b" for y a a1 b
    by (auto simp: walk_parameter_def f split: option.splits prod.splits if_splits)
  have right: "same_pool a b \<Longrightarrow> cfr_walk_parameter y b = Inr b1 \<Longrightarrow> same_pool a b1" for y a b b1
    by (auto simp: cfr_walk_parameter_def g split: option.splits prod.splits if_splits)
  show ?thesis
    using w \<open>same_pool c c'\<close> unfolding walk_parameters_config_def cfr_walk_parameters_config_def
    by (rule walk_sim) (metis left right)
qed

lemma zero_ids [simp]: "zero_uuid = replicate UUID_LEN NUL"
  by (simp add: zero_uuid_def UUID_LEN_def MTC_UUID_SIZE_def)

lemma host_child_same_id:
  assumes "hi_host_id h = ch_host_id h'" and "walk_host_child gai x h = Inr h1" and "cfr_walk_host_child inet_addr x h' = Inr h1'"
  shows "hi_host_id h1 = ch_host_id h1'"
  using assms cfr_uuid_agrees(1)
  by (auto simp: walk_host_child_def cfr_walk_host_child_def split: if_splits option.splits prod.splits sock_address.splits)
     (metis snd_conv)

lemma host_same_pool:
  assumes "walk_host_config gai x c = Inr c1" and "cfr_walk_host_config inet_addr x c' = Inr c1'" and "same_pool c c'"
  shows "same_pool c1 c1'"
proof -
  obtain h where h: "walk (walk_host_child gai) (xml_children x) zero_host_info = Inr h" "c1 = c\<lparr>cf_host := cf_host c @ [h]\<rparr>"
    using assms(1) by (auto simp: walk_host_config_def split: if_splits sum.splits)
  obtain h' where h': "walk (cfr_walk_host_child inet_addr) (xml_children x)
        \<lparr>ch_host_id = replicate UUID_LEN NUL, ch_ip_address = 0\<rparr> = Inr h'" "c1' = c'\<lparr>cc_host := cc_host c' @ [h']\<rparr>"
    using assms(2) by (auto simp: cfr_walk_host_config_def split: if_splits sum.splits)
  have "hi_host_id h = ch_host_id h'"
    by (rule walk_sim[where R = "\<lambda>a b. hi_host_id a = ch_host_id b", OF h(1) h'(1)])
       (auto simp: zero_host_info_def intro: host_child_same_id)
  then show ?thesis using assms(3) h(2) h'(2) by (simp add: same_pool_def)
qed

lemma common_child_same_pool:
  assumes "same_pool c c'" and "walk_common_child gai x c = Inr c1" and "cfr_walk_common_child inet_addr x c' = Inr c1'"
  shows "same_pool c1 c1'"
proof -
  consider "xml_name x = ''GenerationUUID''" | "xml_name x = ''UDPport''" | "xml_name x = ''host''" | "xml_name x = ''parameters''"
    | "xml_name x \<notin> {''GenerationUUID'', ''UDPport'', ''host'', ''parameters''}" by blast
  then show ?thesis
  proof cases
    case 1
    then show ?thesis
      using assms cfr_uuid_agrees(1)
      by (auto simp: walk_common_child_def cfr_walk_common_child_def same_pool_def split: if_splits option.splits prod.splits)
         (metis snd_conv)+
  next
    case 2
    then show ?thesis
      using assms
      by (auto simp: walk_common_child_def cfr_walk_common_child_def same_pool_def Let_def split: if_splits option.splits prod.splits)
  next
    case 3
    then show ?thesis using assms host_same_pool by (simp add: walk_common_child_def cfr_walk_common_child_def)
  next
    case 4
    then show ?thesis using assms parameter_same_pool by (simp add: walk_common_child_def cfr_walk_common_child_def)
  next
    case 5
    then show ?thesis using assms by (simp add: walk_common_child_def cfr_walk_common_child_def)
  qed
qed

lemma common_same_pool:
  assumes "same_pool c c'" and "walk_common_config gai qs x c = Inr c1" and "cfr_walk_common_config inet_addr x c' = Inr c1'"
    and "\<And>l. mset (qs l) = mset l"
  shows "same_pool c1 c1'"
proof -
  obtain c2 where c2: "walk (walk_common_child gai) (xml_children x) c = Inr c2" "c1 = c2\<lparr>cf_host := qs (cf_host c2)\<rparr>"
    using assms(2) by (auto simp: walk_common_config_def split: sum.splits)
  have "same_pool c2 c1'"
    using c2(1) assms(3)[unfolded cfr_walk_common_config_def] assms(1) by (rule walk_sim) (rule common_child_same_pool)
  then show ?thesis using assms(4) by (simp add: same_pool_def c2(2))
qed

lemma field_agrees:
  "cfr_strcpy CFR_HEARTBEAT_INTERFACE_LEN txt = Inr s \<Longrightarrow> s = copy_field HEARTBEAT_INTERFACE_LEN txt"
  "cfr_strcpy CFR_STATEFILE_PATH_LEN txt = Inr s \<Longrightarrow> s = copy_field STATEFILE_PATH_LEN txt"
  by (auto simp: cfr_strcpy_def copy_field_def CFR_HEARTBEAT_INTERFACE_LEN_def HEARTBEAT_INTERFACE_LEN_def
        CFR_STATEFILE_PATH_LEN_def STATEFILE_PATH_LEN_def split: if_splits)

lemma localhost_child_same_pool:
  assumes "same_pool c c'" and "walk_localhost_child x c = Inr c1" and "cfr_walk_localhost_child x c' = Inr c1'"
  shows "same_pool c1 c1'"
proof -
  consider "xml_name x = ''HostID''" | "xml_name x = ''HeartbeatInterface''" | "xml_name x = ''StateFile''"
    | "xml_name x \<notin> {''HostID'', ''HeartbeatInterface'', ''StateFile''}" by blast
  then show ?thesis
  proof cases
    case 1
    then show ?thesis
      using assms by (auto simp: walk_localhost_child_def cfr_walk_localhost_child_def same_pool_def Let_def
          split: if_splits option.splits prod.splits)
  next
    case 2
    then show ?thesis
      using assms field_agrees(1) by (auto simp: walk_localhost_child_def cfr_walk_localhost_child_def same_pool_def Let_def
          split: option.splits sum.splits)
  next
    case 3
    then show ?thesis
      using assms field_agrees(2) by (auto simp: walk_localhost_child_def cfr_walk_localhost_child_def same_pool_def Let_def
          split: option.splits sum.splits)
  next
    case 4
    then show ?thesis
      using assms by (auto simp: walk_localhost_child_def cfr_walk_localhost_child_def same_pool_def Let_def
          split: if_splits option.splits)
  qed
qed

lemma local_same_pool:
  assumes "same_pool c c'" and "walk_local_config x c = Inr c1" and "cfr_walk_local_config leftover x c' = Inr c1'"
  shows "same_pool c1 c1'"
proof -
  have right: "walk (\<lambda>sub c. if xml_name sub = ''localhost'' then cfr_walk_localhost sub c else Inr c) (xml_children x) c' = Inr c1'"
    using assms(3) by (auto simp: cfr_walk_local_config_def split: sum.splits if_splits)
  have step: "same_pool a1 b1" if "same_pool a b" "walk_localhost y a = Inr a1" "cfr_walk_localhost y b = Inr b1" for y a b a1 b1
    using that(2,3,1) unfolding walk_localhost_def cfr_walk_localhost_def by (rule walk_sim) (rule localhost_child_same_pool)
  show ?thesis
    using assms(2)[unfolded walk_local_config_def] right assms(1)
    by (rule walk_sim) (auto split: if_splits intro: step)
qed

lemma root_child_same_pool:
  assumes "same_pool c c'" and "walk_root_child gai qs x c = Inr c1" and "cfr_walk_root_child inet_addr leftover x c' = Inr c1'"
    and "\<And>l. mset (qs l) = mset l"
  shows "same_pool c1 c1'"
proof -
  consider "xml_name x = ''common-config''" | "xml_name x = ''local-config''"
    | "xml_name x \<notin> {''common-config'', ''local-config''}" by blast
  then show ?thesis
  proof cases
    case 1
    then show ?thesis using assms(2,3) common_same_pool[OF assms(1) _ _ assms(4)]
      by (simp add: walk_root_child_def cfr_walk_root_child_def)
  next
    case 2
    then show ?thesis using assms(2,3) local_same_pool[OF assms(1)] by (simp add: walk_root_child_def cfr_walk_root_child_def)
  next
    case 3
    then show ?thesis using assms by (simp add: walk_root_child_def cfr_walk_root_child_def)
  qed
qed

lemma lib_accepted_walk:
  assumes "interpret_config_file gai qs ex (Some (Some cur)) c0 = Inr c"
  shows "walk (walk_root_child gai qs) (xml_children cur) ((set_default_value c0)\<lparr>cf_localhost_index := - 1, cf_version := ''1.0''\<rparr>) = Inr c"
  using assms
  by (auto simp: interpret_config_file_def Let_def valid_version_iff split: if_splits option.splits sum.splits)

text \<open>
  A file both readers accept describes the same pool to both: the version, the generation, the
  port, the identifiers of the hosts, and the local texts. (Only the reader of the daemon sorts
  the hosts.)
\<close>

lemma both_readers_agree:
  assumes "interpret_config_file gai qs True parsed zero_config = Inr c"
    and "cfr_interpret_config_file inet_addr leftover path True parsed (Some cfr_zero_config) = Inr c'"
    and "\<And>l. mset (qs l) = mset l"
  shows "same_pool c c'"
proof -
  obtain cur where cur: "parsed = Some (Some cur)" and w': "walk (cfr_walk_root_child inet_addr leftover) (xml_children cur)
      ((cfr_set_default_value cfr_zero_config)\<lparr>cc_localhost_index := - 1, cc_version := ''1.0''\<rparr>) = Inr c'"
    using cfr_accepted_walk[OF assms(2)] by blast
  have "same_pool ((set_default_value zero_config)\<lparr>cf_localhost_index := - 1, cf_version := ''1.0''\<rparr>)
      ((cfr_set_default_value cfr_zero_config)\<lparr>cc_localhost_index := - 1, cc_version := ''1.0''\<rparr>)"
    by (simp add: same_pool_def set_default_value_def zero_config_def cfr_set_default_value_def cfr_zero_config_def)
  with lib_accepted_walk[OF assms(1)[unfolded cur]] w' show ?thesis
    by (rule walk_sim) (rule root_child_same_pool[OF _ _ _ assms(3)])
qed

section \<open>Where the stand-alone reader goes wrong\<close>

definition ex_inet_addr :: "string \<Rightarrow> u32" where
  "ex_inet_addr ip = (if ip = ''10.0.0.1'' then 0x0100000A else if ip = ''10.0.0.2'' then 0x0200000A
     else if ip = ''0.0.0.0'' then 0 else - 1)"

definition ex_pool :: "string \<Rightarrow> string \<Rightarrow> xml" where
  "ex_pool ip iface = Xml ''xhad-config'' [(''version'', ''1.0'')] None
     [ex_common [ex_host uuid_b ip, ex_host uuid_a ''10.0.0.1''],
      Xml ''local-config'' [] None
        [Xml ''localhost'' [] None
           [ex_leaf ''HostID'' uuid_b, ex_leaf ''HeartbeatInterface'' iface, ex_leaf ''StateFile'' ''/dev/statefile'']]]"

definition ex_read :: "int \<Rightarrow> xml \<Rightarrow> cfr_config cfr_result" where
  "ex_read leftover root =
     cfr_interpret_config_file ex_inet_addr leftover (Some ''f'') True (Some (Some root)) (Some cfr_zero_config)"

definition ex_outcome :: "cfr_config cfr_result \<Rightarrow> cfr_error + nat \<times> u32 \<times> u32 \<times> u32 list" where
  "ex_outcome r = (case r of Inl e \<Rightarrow> Inl e
     | Inr c \<Rightarrow> Inr (length (cc_host c), cc_localhost_index c, cc_heartbeat_watchdog_timeout c, map ch_ip_address (cc_host c)))"

text \<open>
  With zero in the register the file is read, and the watchdog timeouts, which no default is
  stored for, stay zero. With anything else a good file is refused.
\<close>

lemma ex_good_file: "ex_outcome (ex_read 0 (ex_pool ''10.0.0.2'' ''xenbr0'')) = Inr (2, 0, 0, [0x0200000A, 0x0100000A])"
  by code_simp

lemma missing_return_refuses: "ex_outcome (ex_read 1 (ex_pool ''10.0.0.2'' ''xenbr0'')) = Inl (Status CFREAD_ERROR_FILEFORMAT)"
  by code_simp

text \<open>
  A text that is no address is accepted as the address of all ones, the one text that is refused
  is a valid address, and a long interface name overwrites what follows its field.
\<close>

lemma bad_address_accepted: "ex_outcome (ex_read 0 (ex_pool ''nonsense'' ''xenbr0'')) = Inr (2, 0, 0, [- 1, 0x0100000A])"
  by code_simp

lemma zero_address_refused: "ex_outcome (ex_read 0 (ex_pool ''0.0.0.0'' ''xenbr0'')) = Inl (Status CFREAD_ERROR_FILEFORMAT)"
  by code_simp

lemma long_interface_overflows: "ex_outcome (ex_read 0 (ex_pool ''10.0.0.2'' (replicate 64 CHR ''x''))) = Inl Overflow"
  by code_simp

text \<open>The agreement of the readers is not vacuous.\<close>

lemma both_readers_agree_instance:
  "same_pool (right_of (interpret_config_file ex_gai key_sort True (Some (Some (ex_pool ''10.0.0.2'' ''xenbr0''))) zero_config) zero_config)
     (case ex_read 0 (ex_pool ''10.0.0.2'' ''xenbr0'') of Inr c \<Rightarrow> c)"
proof -
  have "\<not> isl (interpret_config_file ex_gai key_sort True (Some (Some (ex_pool ''10.0.0.2'' ''xenbr0''))) zero_config)"
    by code_simp
  moreover obtain c' where c': "ex_read 0 (ex_pool ''10.0.0.2'' ''xenbr0'') = Inr c'"
    using ex_good_file by (cases "ex_read 0 (ex_pool ''10.0.0.2'' ''xenbr0'')") (auto simp: ex_outcome_def)
  ultimately show ?thesis
    using both_readers_agree[OF right_of_Inr c'[unfolded ex_read_def] qsort_specD(1)[OF key_sort_spec]]
    by (simp add: ex_read_def)
qed

end
