(* ===== verification/CfReadLog.thy ===== *)
theory CfReadLog
  imports CfRead
begin

text \<open>
  The log of the stand-alone reader: \<^verbatim>\<open>stubs/cfread-libxml2/log.c\<close>. The file is always the standard
  error output, here a string; the system log is compiled out. The spin lock is taken around
  every call.
\<close>

unbundle bit_operations_syntax

section \<open>The calls\<close>

text \<open>
  \<open>ret\<close> is the result of \<open>pthread_spin_init\<close>, which does not set \<open>errno\<close>; the function returns
  the negative of the latter.
\<close>

definition cfr_log_initialize :: "int \<Rightarrow> int \<Rightarrow> int" where
  "cfr_log_initialize ret errno = (if ret \<noteq> 0 then - errno else 0)"

text \<open>\<open>ctime\<close> gives a line, whose last character is cut off.\<close>

definition xhadlog :: "string \<Rightarrow> u32 \<Rightarrow> string \<Rightarrow> string \<Rightarrow> string" where
  "xhadlog ctime priority msg err =
     (if priority AND MTC_LOG_PRIVATELOG \<noteq> 0
      then err @ butlast ctime @ '' ['' @ priority_name priority @ ''] '' @ msg else err)"

text \<open>A byte is a signed \<open>char\<close> that is passed as an \<open>int\<close> and printed as an unsigned one.\<close>

definition print_x_char :: "u8 \<Rightarrow> string" where
  "print_x_char b = pad0 2 (hex_digits (unat (scast b :: u32)))"

definition xhad_dump_row :: "nat \<Rightarrow> u8 list \<Rightarrow> string" where
  "xhad_dump_row line row =
     [CHR 0x09] @ pad0 4 (hex_digits line) @ '': ''
       @ concat (map (\<lambda>b. print_x_char b @ '' '') row)
       @ replicate (3 * (MAX_COL - length row)) (CHR '' '')
       @ '': '' @ map (\<lambda>b. if is_print b then char_of (unat b) else CHR ''.'') row @ [CHR 0x0A]"

function xhad_dump_rows :: "nat \<Rightarrow> u8 list \<Rightarrow> string" where
  "xhad_dump_rows line data =
     (if data = [] then [] else xhad_dump_row line (take MAX_COL data) @ xhad_dump_rows (line + 1) (drop MAX_COL data))"
  by auto
termination
  by (relation "measure (\<lambda>(line, data). length data)") (auto simp: MAX_COL_def)

declare xhad_dump_rows.simps [simp del]

definition xhadlog_bin8 :: "u32 \<Rightarrow> u8 list \<Rightarrow> string \<Rightarrow> string" where
  "xhadlog_bin8 priority data err =
     (if priority AND MTC_LOG_PRIVATELOG \<noteq> 0 then err @ xhad_dump_rows 0 data else err)"

section \<open>Against the log of the daemon\<close>

text \<open>
  The dumps are the same for bytes below 128. The cast the daemon's log has is missing here, so
  any other byte is printed with eight digits and moves the columns.
\<close>

lemma print_x_char_ascii:
  assumes "b < 128"
  shows "print_x_char b = pad0 2 (hex_digits (unat b))"
proof -
  have lt: "uint b < 128" using assms by (simp add: word_less_def)
  then have "take_bit 7 (uint b) = uint b" by (simp add: take_bit_int_eq_self)
  then have "sint b = uint b" using lt by (simp add: sint_uint signed_take_bit_eq_if_positive bit_iff_odd)
  moreover have "0 \<le> uint b" "uint b < 256" using uint_lt2p[of b] by simp_all
  ultimately have "uint (scast b :: u32) = uint b"
    by (simp add: scast_eq unsigned_ucast_eq take_bit_int_eq_self)
  then have "unat (scast b :: u32) = unat b" by (metis nat_uint_eq)
  then show ?thesis by (simp only: print_x_char_def)
qed

lemma dump_rows_ascii:
  assumes "list_all (\<lambda>b. b < 128) data"
  shows "xhad_dump_rows line data = dump_rows line data"
  using assms
proof (induction line data rule: xhad_dump_rows.induct)
  case (1 line data)
  have row: "xhad_dump_row line r = dump_row line r" if "list_all (\<lambda>b. b < 128) r" for r
  proof -
    have "map (\<lambda>b. print_x_char b @ '' '') r = map (\<lambda>b. pad0 2 (hex_digits (unat b)) @ '' '') r"
      using that by (intro map_cong) (simp_all add: list_all_iff print_x_char_ascii)
    then show ?thesis by (simp only: xhad_dump_row_def dump_row_def)
  qed
  have "list_all (\<lambda>b. b < 128) (take MAX_COL data)" "list_all (\<lambda>b. b < 128) (drop MAX_COL data)"
    using "1.prems" by (auto simp: list_all_iff dest: in_set_takeD in_set_dropD)
  then show ?case
    using 1 row
    by (cases "data = []")
       (simp_all add: xhad_dump_rows.simps[of line data] dump_rows.simps[of line data] xhad_dump_rows.simps[of line "[]"]
         dump_rows.simps[of line "[]"])
qed

lemma dump_of_high_byte: "print_x_char 0x80 = ''ffffff80''"
  by (simp add: print_x_char_def pad0_def hex_digits.simps Let_def) code_simp

text \<open>A failed initialisation can report success.\<close>

lemma cfr_log_initialize_lost_error: "ret \<noteq> 0 \<Longrightarrow> cfr_log_initialize ret 0 = 0"
  by (simp add: cfr_log_initialize_def)

end
