(* ===== verification/SysTime.thy ===== *)
theory SysTime
  imports HaTypes "HOL-Library.Signed_Division"
begin

text \<open>
  Times of the operating system: the conversions of \<^verbatim>\<open>include/mtctypes.h\<close> between milliseconds and
  the two structures of the C library, and the loop around \<open>nanosleep\<close> that \<open>sf_sleep\<close>,
  \<open>xm_sleep\<close> and \<open>main_sleep\<close> share. Division truncates, as in C.
\<close>

section \<open>Conversions\<close>

text \<open>A structure is its pair of fields: seconds with nanoseconds, seconds with microseconds.\<close>

type_synonym timespec = "int \<times> int"
type_synonym timeval = "int \<times> int"

definition tstoms :: "timespec \<Rightarrow> clock" where
  "tstoms ts = fst ts * 1000 + (snd ts sdiv 1000) sdiv 1000"

definition tvtoms :: "timeval \<Rightarrow> clock" where
  "tvtoms tv = fst tv * 1000 + snd tv sdiv 1000"

definition mstots :: "clock \<Rightarrow> timespec" where
  "mstots ms = (ms sdiv 1000, (ms smod 1000) * 1000 * 1000)"

definition mstotv :: "clock \<Rightarrow> timeval" where
  "mstotv ms = (ms sdiv 1000, (ms smod 1000) * 1000)"

lemma sdiv_smod: "(a :: int) sdiv b * b + a smod b = a"
  by (rule sdiv_mult_smod_eq)

lemma exact_sdiv [simp]: "(a :: int) * 1000 sdiv 1000 = a"
  by (cases a "0 :: int" rule: linorder_cases) (simp_all add: signed_divide_int_def abs_mult sgn_mult)

lemma tstoms_mstots: "tstoms (mstots ms) = ms"
  unfolding tstoms_def mstots_def fst_conv snd_conv exact_sdiv by (rule sdiv_smod)

lemma tvtoms_mstotv: "tvtoms (mstotv ms) = ms"
  unfolding tvtoms_def mstotv_def fst_conv snd_conv exact_sdiv by (rule sdiv_smod)

text \<open>A time the C library accepts; a negative number of milliseconds never gives one.\<close>

definition valid_timespec :: "timespec \<Rightarrow> bool" where
  "valid_timespec ts \<longleftrightarrow> 0 \<le> fst ts \<and> 0 \<le> snd ts \<and> snd ts < 1000000000"

lemma valid_mstots: "valid_timespec (mstots ms) \<longleftrightarrow> 0 \<le> ms"
proof (cases "0 \<le> ms")
  case True
  then have "mstots ms = (ms div 1000, ms mod 1000 * 1000 * 1000)"
    by (cases "ms = 0") (simp_all add: mstots_def signed_divide_int_def signed_modulo_int_def minus_div_mult_eq_mod sgn_if)
  moreover have "ms mod 1000 < 1000" "0 \<le> ms mod 1000" by simp_all
  ultimately show ?thesis using True by (simp add: valid_timespec_def pos_imp_zdiv_nonneg_iff)
next
  case False
  have "ms smod 1000 = 0 \<or> ms smod 1000 < 0"
  proof -
    have "ms smod 1000 = - (- ms mod 1000)" using False by (simp add: signed_modulo_int_def)
    moreover have "0 \<le> - ms mod 1000" by simp
    ultimately show ?thesis by linarith
  qed
  then show ?thesis
  proof
    assume z: "ms smod 1000 = 0"
    then have "ms sdiv 1000 * 1000 = ms" using sdiv_smod[of ms 1000] by simp
    then have "ms sdiv 1000 < 0" using False by (cases "0 \<le> ms sdiv 1000") auto
    then show ?thesis using False by (simp add: valid_timespec_def mstots_def)
  qed (use False in \<open>simp add: valid_timespec_def mstots_def\<close>)
qed

section \<open>Sleeping\<close>

text \<open>
  The loop around \<open>nanosleep\<close>. \<open>ts\<close> is what is asked for next, \<open>rems\<close> what is left when a
  signal ends each sleep early. An invalid time is refused at once and nothing is left of it, so
  it is asked for again. The result is the sum of the times slept (in nanoseconds), \<open>None\<close> a loop
  that goes on when the signals are used up.
\<close>

definition nsec :: "timespec \<Rightarrow> int" where
  "nsec ts = fst ts * 1000000000 + snd ts"

fun nanosleep_loop :: "timespec list \<Rightarrow> timespec \<Rightarrow> int option" where
  "nanosleep_loop [] ts = (if valid_timespec ts then Some (nsec ts) else None)"
| "nanosleep_loop (rem # rems) ts =
     (if valid_timespec ts
      then map_option (\<lambda>n. nsec ts - nsec rem + n) (nanosleep_loop rems rem)
      else nanosleep_loop rems ts)"

definition main_sleep :: "timespec list \<Rightarrow> clock \<Rightarrow> int option" where
  "main_sleep rems msec = nanosleep_loop rems (mstots msec)"

definition xm_sleep :: "timespec list \<Rightarrow> clock \<Rightarrow> int option" where
  "xm_sleep rems msec = nanosleep_loop rems (mstots msec)"

definition sf_sleep :: "timespec list \<Rightarrow> u32 \<Rightarrow> int option" where
  "sf_sleep rems msec = nanosleep_loop rems (mstots (uint msec))"

text \<open>However often it is interrupted, the loop sleeps the time that was asked for in all.\<close>

lemma nanosleep_loop_total:
  assumes "valid_timespec ts" and "list_all valid_timespec rems"
  shows "nanosleep_loop rems ts = Some (nsec ts)"
  using assms by (induction rems arbitrary: ts) auto

lemma nsec_mstots: "nsec (mstots ms) = ms * 1000000"
  using sdiv_smod[of ms 1000] by (simp add: nsec_def mstots_def)

lemma sleeps_their_time:
  assumes "list_all valid_timespec rems"
  shows "0 \<le> msec \<Longrightarrow> xm_sleep rems msec = Some (msec * 1000000)"
    "0 \<le> msec \<Longrightarrow> main_sleep rems msec = Some (msec * 1000000)"
    "sf_sleep rems w = Some (uint w * 1000000)"
  using nanosleep_loop_total[OF _ assms]
  by (simp_all add: xm_sleep_def main_sleep_def sf_sleep_def valid_mstots nsec_mstots)

text \<open>A negative time never ends.\<close>

lemma negative_sleep_hangs:
  assumes "msec < 0"
  shows "xm_sleep rems msec = None" "main_sleep rems msec = None"
proof -
  have "\<not> valid_timespec (mstots msec)" using assms by (simp add: valid_mstots)
  then have "nanosleep_loop rems (mstots msec) = None" by (induction rems) auto
  then show "xm_sleep rems msec = None" "main_sleep rems msec = None" by (simp_all add: xm_sleep_def main_sleep_def)
qed

end
