(* ===== verification/PageLock.thy ===== *)
theory PageLock
  imports HaTypes
begin

text \<open>
  Locking the pages of a hypercall's arguments: \<open>do_lock_pages\<close> and \<open>do_unlock_pages\<close> of
  \<^verbatim>\<open>daemon/watchdog.c\<close>, \<open>lock_pages\<close> and \<open>unlock_pages\<close> of \<^verbatim>\<open>commands/cleanupwatchdog.c\<close>. The state
  is the list of the numbers of the locked pages.
\<close>

unbundle bit_operations_syntax

type_synonym u64 = "64 word"

definition XC_PAGE_SHIFT :: nat where "XC_PAGE_SHIFT = 12"
definition PAGE_SIZE :: u64 where "PAGE_SIZE = push_bit XC_PAGE_SHIFT 1"
definition PAGE_MASK :: u64 where "PAGE_MASK = NOT (PAGE_SIZE - 1)"

text \<open>The address and the length that are handed to \<open>mlock\<close> and \<open>munlock\<close>.\<close>

definition page_range :: "u64 \<Rightarrow> u64 \<Rightarrow> u64 \<times> u64" where
  "page_range addr len = (addr AND PAGE_MASK, (len + PAGE_SIZE - 1) AND PAGE_MASK)"

text \<open>\<open>mlock\<close> and \<open>munlock\<close> work on every page that has a byte of the range.\<close>

definition pages_of :: "u64 \<Rightarrow> u64 \<Rightarrow> nat list" where
  "pages_of addr len =
     (if len = 0 then [] else [unat addr div 4096 ..< (unat addr + unat len - 1) div 4096 + 1])"

definition do_lock_pages :: "bool \<Rightarrow> u64 \<Rightarrow> u64 \<Rightarrow> nat list \<Rightarrow> int \<times> nat list" where
  "do_lock_pages mlock_ok addr len locked =
     (case page_range addr len of (laddr, llen) \<Rightarrow>
        if mlock_ok then (0, locked @ pages_of laddr llen) else (- 1, locked))"

definition do_unlock_pages :: "u64 \<Rightarrow> u64 \<Rightarrow> nat list \<Rightarrow> nat list" where
  "do_unlock_pages addr len locked =
     (case page_range addr len of (laddr, llen) \<Rightarrow> filter (\<lambda>p. p \<notin> set (pages_of laddr llen)) locked)"

section \<open>Which pages are locked\<close>

lemma and_page_mask: "unat (a AND PAGE_MASK) = unat a div 4096 * 4096"
proof -
  have "a AND PAGE_MASK = push_bit 12 (drop_bit 12 a)"
  proof (rule bit_word_eqI)
    fix n assume "n < LENGTH(64)"
    have "PAGE_SIZE - 1 = mask 12" by (simp add: PAGE_SIZE_def XC_PAGE_SHIFT_def mask_eq_exp_minus_1 push_bit_of_1)
    then show "bit (a AND PAGE_MASK) n = bit (push_bit 12 (drop_bit 12 a)) n"
      using \<open>n < LENGTH(64)\<close> by (auto simp: PAGE_MASK_def bit_and_iff bit_not_iff bit_mask_iff bit_push_bit_iff bit_drop_bit_eq)
  qed
  moreover have "unat (drop_bit 12 a) = unat a div 4096" by (simp add: drop_bit_eq_div unat_div)
  moreover have "unat a div 4096 * 4096 < 2 ^ 64"
    using unsigned_less[of a, where 'a = nat] div_times_less_eq_dividend[of "unat a" 4096] by simp
  ultimately show ?thesis by (simp add: push_bit_eq_mult unat_word_ariths(2))
qed

lemma page_range_nat:
  assumes "unat len + 4095 < 2 ^ 64"
  shows "unat (fst (page_range addr len)) = unat addr div 4096 * 4096"
    "unat (snd (page_range addr len)) = (unat len + 4095) div 4096 * 4096"
proof -
  have "PAGE_SIZE - 1 = 4095" by (simp add: PAGE_SIZE_def XC_PAGE_SHIFT_def push_bit_of_1)
  then have l: "len + PAGE_SIZE - 1 = len + 4095" by (simp only: add_diff_eq [symmetric])
  have u: "unat (len + 4095) = unat len + 4095" using assms by (simp add: unat_word_ariths(1))
  show "unat (fst (page_range addr len)) = unat addr div 4096 * 4096"
    unfolding page_range_def fst_conv by (rule and_page_mask)
  show "unat (snd (page_range addr len)) = (unat len + 4095) div 4096 * 4096"
    unfolding page_range_def snd_conv l and_page_mask u by (rule refl)
qed

lemma locked_pages:
  assumes "unat len + 4095 < 2 ^ 64" and "len \<noteq> 0"
  shows "set (snd (do_lock_pages True addr len [])) = {unat addr div 4096 ..< unat addr div 4096 + (unat len + 4095) div 4096}"
proof -
  obtain laddr llen where pr: "page_range addr len = (laddr, llen)" by fastforce
  define p where "p = unat addr div 4096"
  define k where "k = (unat len + 4095) div 4096"
  have "0 < unat len" using assms(2) by (simp add: unat_gt_0)
  then have k: "0 < k" by (simp add: k_def)
  have u: "unat laddr = p * 4096" "unat llen = k * 4096"
    using page_range_nat[OF assms(1), of addr] pr by (simp_all add: p_def k_def)
  then have "llen \<noteq> 0" using k by auto
  moreover have "(p * 4096 + k * 4096 - 1) div 4096 + 1 = p + k"
  proof -
    obtain j where "k = Suc j" using k by (cases k) auto
    then have "p * 4096 + k * 4096 - 1 = (p + j) * 4096 + 4095" by simp
    then show ?thesis using \<open>k = Suc j\<close> by simp
  qed
  ultimately show ?thesis
    unfolding p_def[symmetric] k_def[symmetric] using u pr by (simp add: do_lock_pages_def pages_of_def)
qed

text \<open>
  The length is rounded up without the offset of the address in its page, so all bytes of the
  object are in locked pages exactly when offset and length together fit the rounded length. An
  object that crosses into a page beyond that is locked only in part, with success reported.
\<close>

lemma object_locked_iff:
  assumes "unat len + 4095 < 2 ^ 64" and "len \<noteq> 0"
  shows "(\<forall>i < unat len. (unat addr + i) div 4096 \<in> set (snd (do_lock_pages True addr len [])))
    \<longleftrightarrow> unat addr mod 4096 + unat len \<le> (unat len + 4095) div 4096 * 4096"
proof -
  define n where "n = unat len"
  define k where "k = (n + 4095) div 4096"
  define off where "off = unat addr mod 4096"
  have n: "0 < n" using assms(2) by (simp add: n_def unat_gt_0)
  have page: "(unat addr + i) div 4096 = unat addr div 4096 + (off + i) div 4096" for i
  proof -
    have "unat addr + i = unat addr div 4096 * 4096 + (off + i)" by (simp add: off_def)
    then show ?thesis by (metis add.commute div_mult_self1 zero_neq_numeral)
  qed
  have "(\<forall>i < n. (unat addr + i) div 4096 \<in> set (snd (do_lock_pages True addr len []))) \<longleftrightarrow> (\<forall>i < n. (off + i) div 4096 < k)"
    unfolding locked_pages[OF assms] page n_def[symmetric] k_def[symmetric] by auto
  also have "\<dots> \<longleftrightarrow> off + n \<le> k * 4096"
  proof
    assume "\<forall>i < n. (off + i) div 4096 < k"
    then have "(off + (n - 1)) div 4096 < k" using n by (metis One_nat_def diff_less zero_less_one)
    then have "off + (n - 1) < k * 4096" by (simp add: div_less_iff_less_mult)
    then show "off + n \<le> k * 4096" using n by simp
  qed (auto simp: div_less_iff_less_mult)
  finally show ?thesis unfolding off_def n_def k_def .
qed

lemma aligned_object_locked:
  assumes "unat len + 4095 < 2 ^ 64" and "len \<noteq> 0" and "unat addr mod 4096 = 0" and "i < unat len"
  shows "(unat addr + i) div 4096 \<in> set (snd (do_lock_pages True addr len []))"
proof -
  have "unat len \<le> (unat len + 4095) div 4096 * 4096"
    using div_mult_mod_eq[of "unat len + 4095" 4096] mod_less_divisor[of 4096 "unat len + 4095"] by linarith
  then show ?thesis using object_locked_iff[OF assms(1,2), of addr] assms(3,4) by simp
qed

lemma crossing_object_not_locked:
  "snd (do_lock_pages True 0x1FFC 8 []) = [1]" "(unat (0x1FFC :: u64) + 4) div 4096 = 2"
  by (simp_all add: do_lock_pages_def page_range_def PAGE_MASK_def PAGE_SIZE_def XC_PAGE_SHIFT_def push_bit_of_1 pages_of_def upt_rec)

end
