(* ===== verification/XapiProcess.thy ===== *)
theory XapiProcess
  imports XapiMon ErrorCodes
begin

text \<open>
  How the Xapi monitor starts its children: \<open>xapi_healthcheck\<close>, \<open>restart_xapi\<close> and
  \<open>xm_close_descriptors\<close> of \<^verbatim>\<open>daemon/xapi_mon.c\<close>. A process has a table of open files; the
  limit of descriptors is \<open>lim\<close>. \<open>fork\<close> gives the child a copy of the table, \<open>exec\<close> keeps it.
\<close>

section \<open>Descriptors\<close>

datatype open_file = PipeRead nat | PipeWrite nat | OtherFile nat

type_synonym fd_table = "nat \<Rightarrow> open_file option"

definition close_fd :: "nat \<Rightarrow> fd_table \<Rightarrow> fd_table" where
  "close_fd fd fds = fds(fd := None)"

definition dup2 :: "nat \<Rightarrow> nat \<Rightarrow> fd_table \<Rightarrow> fd_table" where
  "dup2 old new fds = fds(new := fds old)"

text \<open>\<open>pipe\<close> takes the two lowest free descriptors; \<open>p\<close> is the new pipe.\<close>

definition sys_pipe :: "nat \<Rightarrow> nat \<Rightarrow> fd_table \<Rightarrow> (nat \<times> nat \<times> fd_table) option" where
  "sys_pipe lim p fds =
     (case first_host lim (\<lambda>i. fds i = None) of
        None \<Rightarrow> None
      | Some r \<Rightarrow> (case first_host lim (\<lambda>i. fds i = None \<and> i \<noteq> r) of
            None \<Rightarrow> None
          | Some w \<Rightarrow> Some (r, w, fds(r \<mapsto> PipeRead p, w \<mapsto> PipeWrite p))))"

definition xm_close_descriptors :: "nat \<Rightarrow> fd_table \<Rightarrow> fd_table" where
  "xm_close_descriptors lim fds = fold close_fd [2 ..< lim] fds"

section \<open>The health check\<close>

definition XAPI_HEALTHCHECKER :: string where "XAPI_HEALTHCHECKER = ''/opt/xensource/libexec/xapi-health-check''"

text \<open>A child runs a program with its arguments and its open files, or has ended.\<close>

datatype child = ChildRuns string "string list" fd_table | ChildExits int

text \<open>
  \<open>forked\<close> is the result of \<open>fork\<close> in the parent, \<open>exec_ok\<close> whether the program can be executed. The
  result is the status, the descriptor for the caller, the table of the parent, and the child.
\<close>

definition xapi_healthcheck :: "nat \<Rightarrow> nat \<Rightarrow> int \<Rightarrow> bool \<Rightarrow> fd_table
  \<Rightarrow> mtc_status \<times> nat option \<times> fd_table \<times> child option" where
  "xapi_healthcheck lim p forked exec_ok fds =
     (case sys_pipe lim p fds of
        None \<Rightarrow> (MTC_ERROR_XAPIMON_PIPE, None, fds, None)
      | Some (r, w, fds1) \<Rightarrow>
          if forked < 0 then (MTC_ERROR_XAPIMON_FORK, None, close_fd w (close_fd r fds1), None)
          else (MTC_SUCCESS, Some r, close_fd w fds1,
                Some (if exec_ok
                      then ChildRuns XAPI_HEALTHCHECKER [''xapi-health-check'']
                             (xm_close_descriptors lim (close_fd w (close_fd r (dup2 w 1 fds1))))
                      else ChildExits (- 1))))"

section \<open>The restart\<close>

definition XAPI_RESTARTER :: string where "XAPI_RESTARTER = ''systemctl''"
definition XAPI_RESTARTER_PATH :: string where "XAPI_RESTARTER_PATH = ''/usr/bin/''"
definition restarter_args :: "string list" where "restarter_args = [XAPI_RESTARTER, ''restart'', ''xapi.service'']"
definition ENOENT :: int where "ENOENT = 2"

text \<open>
  \<open>exec\<close> is the C library's: \<open>None\<close> when the program runs, otherwise \<open>errno\<close>. A name without a slash
  is looked for in the path.
\<close>

definition restart_child :: "(string \<Rightarrow> int option) \<Rightarrow> fd_table \<Rightarrow> child" where
  "restart_child exec fds =
     (case exec XAPI_RESTARTER of
        None \<Rightarrow> ChildRuns XAPI_RESTARTER restarter_args fds
      | Some errno \<Rightarrow>
          if errno = ENOENT \<and> exec (XAPI_RESTARTER_PATH @ XAPI_RESTARTER) = None
          then ChildRuns (XAPI_RESTARTER_PATH @ XAPI_RESTARTER) restarter_args fds
          else ChildExits (- 1))"

definition restart_xapi :: "nat \<Rightarrow> int \<Rightarrow> (string \<Rightarrow> int option) \<Rightarrow> fd_table \<Rightarrow> int \<times> child option" where
  "restart_xapi lim forked exec fds =
     (forked, if forked < 0 then None else Some (restart_child exec (xm_close_descriptors lim fds)))"

section \<open>What the children inherit\<close>

lemma xm_close_descriptors_at: "xm_close_descriptors lim fds i = (if 2 \<le> i \<and> i < lim then None else fds i)"
proof -
  have "fold close_fd l t i = (if i \<in> set l then None else t i)" for l and t :: fd_table
    by (induction l arbitrary: t) (auto simp: close_fd_def)
  then show ?thesis by (simp add: xm_close_descriptors_def)
qed

lemma sys_pipe_new:
  assumes "sys_pipe lim p fds = Some (r, w, fds1)"
  shows "r \<noteq> w" "fds r = None" "fds w = None" "fds1 = fds(r \<mapsto> PipeRead p, w \<mapsto> PipeWrite p)" "r < lim" "w < lim"
  using assms by (auto simp: sys_pipe_def first_host_Some split: option.splits)

text \<open>
  A check that cannot be started leaves no descriptor behind; one that starts leaves the reading
  end only, so that the end of the child ends the reading, and closing it restores the table.
\<close>

lemma failed_check_leaks_nothing:
  assumes "xapi_healthcheck lim p forked exec_ok fds = (st, pip, fds', ch)" and "st \<noteq> MTC_SUCCESS"
  shows "fds' = fds" "ch = None" "pip = None"
proof -
  have restored: "close_fd w (close_fd r fds1) = fds" if "sys_pipe lim p fds = Some (r, w, fds1)" for r w fds1
    using sys_pipe_new[OF that] by (auto simp: close_fd_def fun_eq_iff)
  show "fds' = fds" "ch = None" "pip = None"
    using assms restored by (auto simp: xapi_healthcheck_def split: option.splits if_splits)
qed

lemma started_check_parent:
  assumes "xapi_healthcheck lim p forked exec_ok fds = (MTC_SUCCESS, pip, fds', ch)"
  shows "\<exists>r. pip = Some r \<and> fds r = None \<and> fds' = fds(r \<mapsto> PipeRead p) \<and> close_fd r fds' = fds"
proof -
  obtain r w fds1 where pipe: "sys_pipe lim p fds = Some (r, w, fds1)"
    using assms by (auto simp: xapi_healthcheck_def split: option.splits)
  have "pip = Some r" "fds' = close_fd w fds1"
    using assms pipe by (auto simp: xapi_healthcheck_def split: if_splits)
  then show ?thesis using sys_pipe_new[OF pipe] by (auto simp: close_fd_def fun_eq_iff)
qed

text \<open>
  The health checker has the pipe as its standard output and no other descriptor but its
  standard input, provided the daemon's own first two are open.
\<close>

lemma started_check_child:
  assumes "xapi_healthcheck lim p forked True fds = (MTC_SUCCESS, pip, fds', Some ch)"
    and "fds 0 \<noteq> None" "fds 1 \<noteq> None" and "\<And>i. lim \<le> i \<Longrightarrow> fds i = None"
  shows "ch = ChildRuns XAPI_HEALTHCHECKER [''xapi-health-check''] [0 \<mapsto> the (fds 0), 1 \<mapsto> PipeWrite p]"
proof -
  obtain r w fds1 where pipe: "sys_pipe lim p fds = Some (r, w, fds1)"
    using assms(1) by (auto simp: xapi_healthcheck_def split: option.splits)
  note n = sys_pipe_new[OF pipe]
  have rw: "r \<noteq> 0" "r \<noteq> 1" "w \<noteq> 0" "w \<noteq> 1" using n assms(2,3) by metis+
  have "ch = ChildRuns XAPI_HEALTHCHECKER [''xapi-health-check'']
      (xm_close_descriptors lim (close_fd w (close_fd r (dup2 w 1 fds1))))"
    using assms(1) pipe by (auto simp: xapi_healthcheck_def split: if_splits)
  moreover have "xm_close_descriptors lim (close_fd w (close_fd r (dup2 w 1 fds1))) i = [0 \<mapsto> the (fds 0), 1 \<mapsto> PipeWrite p] i" for i
  proof -
    consider "i = 0" | "i = 1" | "2 \<le> i" by linarith
    then show ?thesis
    proof cases
      case 3
      then show ?thesis using n(4-6) assms(4)[of i] by (auto simp: xm_close_descriptors_at close_fd_def dup2_def)
    qed (use n rw assms(2) in \<open>auto simp: xm_close_descriptors_at close_fd_def dup2_def\<close>)
  qed
  ultimately show ?thesis by (simp add: fun_eq_iff)
qed

text \<open>
  When the daemon's own standard output is closed, the pipe takes its place, and closing the
  pipe after \<open>dup2\<close> takes the output away from the child.
\<close>

lemma closed_stdout_loses_pipe:
  "\<exists>fds' env. xapi_healthcheck 8 3 77 True [0 \<mapsto> OtherFile 9, 2 \<mapsto> OtherFile 9] = (MTC_SUCCESS, Some 1, fds', Some (ChildRuns XAPI_HEALTHCHECKER [''xapi-health-check''] env)) \<and> env 1 = None"
proof -
  have pipe: "sys_pipe 8 3 [0 \<mapsto> OtherFile 9, 2 \<mapsto> OtherFile 9] =
      Some (1, 3, [0 \<mapsto> OtherFile 9, 2 \<mapsto> OtherFile 9, 1 \<mapsto> PipeRead 3, 3 \<mapsto> PipeWrite 3])"
    by (simp add: sys_pipe_def first_host_def upt_rec numeral_eq_Suc)
  show ?thesis by (simp add: xapi_healthcheck_def pipe xm_close_descriptors_at close_fd_def dup2_def)
qed

text \<open>The restarter inherits no descriptor but the first two, and runs unless both names fail.\<close>

lemma restart_child_descriptors:
  assumes "restart_xapi lim forked exec fds = (pid, Some (ChildRuns prog args env))" and "2 \<le> i" "i < lim"
  shows "env i = None \<and> args = [''systemctl'', ''restart'', ''xapi.service'']"
  using assms
  by (auto simp: restart_xapi_def restart_child_def xm_close_descriptors_at restarter_args_def XAPI_RESTARTER_def
        split: if_splits option.splits)

lemma restart_runs_iff:
  assumes "0 \<le> forked"
  shows "restart_xapi lim forked exec fds = (forked, Some (ChildExits (- 1))) \<longleftrightarrow>
    (\<exists>e. exec XAPI_RESTARTER = Some e \<and> (e = ENOENT \<longrightarrow> exec (XAPI_RESTARTER_PATH @ XAPI_RESTARTER) \<noteq> None))"
  using assms by (auto simp: restart_xapi_def restart_child_def split: option.splits)

end
