(* ===== verification/ComDump.thy ===== *)
theory ComDump
  imports Com Logging
begin

text \<open>
  The dump of the object manager: \<open>com_log_all_objects\<close> of \<^verbatim>\<open>daemon/com.c\<close>, the service behind the
  command \<open>dumpcom\<close>. It only tries to lock the table, once for every bucket, and goes on without
  the lock; the state each bucket is found in is an argument.
\<close>

section \<open>Items of the dump\<close>

datatype dump_item = Line string | Bytes "u8 list"

definition lock_state_number :: "lock_state \<Rightarrow> int" where
  "lock_state_number st = (case st of LOCK_STATE_NONE \<Rightarrow> 0 | LOCK_STATE_READER_ACQUIREING \<Rightarrow> 1
     | LOCK_STATE_READER_ACQUIRED \<Rightarrow> 2 | LOCK_STATE_WRITER_ACQUIREING \<Rightarrow> 3 | LOCK_STATE_WRITER_ACQUIRED \<Rightarrow> 4)"

definition dump_record :: "clock \<Rightarrow> thread_id_record \<Rightarrow> dump_item list" where
  "dump_record now r =
     (if tr_lock_state r = LOCK_STATE_NONE then []
      else [Line (''COM:     lock_state='' @ print_int (lock_state_number (tr_lock_state r)) @ '' thread_id=0x''
              @ hex_digits (tr_thread_id r) @ '' changed_time='' @ print_int (now - tr_changed_time r) @ ''(ms) .'' @ [CHR 0x0A])])"

definition dump_object :: "clock \<Rightarrow> bool \<Rightarrow> com_object \<Rightarrow> dump_item list" where
  "dump_object now dumpflag ob =
     (let records = concat (map (dump_record now) (co_records ob)) in
      [Line (''COM: object_id='' @ co_object_id ob @ ''.'' @ [CHR 0x0A]),
       Line (''COM:   size='' @ print_u32 (co_size ob) @ '' ref_count='' @ print_u32 (co_ref_count ob) @ '' in_use=''
               @ print_u32 (co_in_use ob) @ ''.'' @ [CHR 0x0A])]
      @ records
      @ (if records = [] then [Line (''COM:   no lock owner.'' @ [CHR 0x0A])] else [])
      @ [Line (''COM:   '' @ print_int (int (length (co_callbacks ob))) @ '' callback functions are registered.'' @ [CHR 0x0A])]
      @ (case co_buffer ob of Some buf \<Rightarrow> if dumpflag then [Bytes (take (unat (co_size ob)) buf)] else [] | None \<Rightarrow> []))"

definition dump_bucket :: "clock \<Rightarrow> bool \<Rightarrow> com_state \<Rightarrow> nat \<Rightarrow> dump_item list" where
  "dump_bucket now dumpflag s i =
     concat (map (\<lambda>a. case cs_objects s a of None \<Rightarrow> [] | Some ob \<Rightarrow> dump_object now dumpflag ob) (cs_table s i))"

definition dump_line :: dump_item where
  "dump_line = Line (''COM: ----------------<COM DUMP>----------------.'' @ [CHR 0x0A])"

definition com_dump :: "clock \<Rightarrow> bool \<Rightarrow> (nat \<Rightarrow> com_state) \<Rightarrow> dump_item list" where
  "com_dump now dumpflag states =
     dump_line # concat (map (\<lambda>i. dump_bucket now dumpflag (states i) i) [0 ..< HASH_TABLE_SIZE]) @ [dump_line]"

definition emit :: "log_time \<Rightarrow> dump_item \<Rightarrow> log_var \<Rightarrow> log_var" where
  "emit tm item = (case item of Line msg \<Rightarrow> log_message tm MTC_LOG_DEBUG msg | Bytes data \<Rightarrow> log_bin MTC_LOG_DEBUG data)"

definition com_log_all_objects :: "log_time \<Rightarrow> clock \<Rightarrow> bool \<Rightarrow> (nat \<Rightarrow> com_state) \<Rightarrow> log_var \<Rightarrow> mtc_status \<times> log_var" where
  "com_log_all_objects tm now dumpflag states lg = (MTC_SUCCESS, fold (emit tm) (com_dump now dumpflag states) lg)"

section \<open>What the dump shows\<close>

text \<open>Every object of the table is shown, with its name and, when asked for, its content.\<close>

lemma dump_shows_object:
  assumes "i < HASH_TABLE_SIZE" and "a \<in> set (cs_table (states i) i)" and "cs_objects (states i) a = Some ob"
  shows "Line (''COM: object_id='' @ co_object_id ob @ ''.'' @ [CHR 0x0A]) \<in> set (com_dump now dumpflag states)"
    and "co_buffer ob = Some buf \<Longrightarrow> length buf = unat (co_size ob) \<Longrightarrow> Bytes buf \<in> set (com_dump now True states)"
proof -
  have sub: "set (dump_object now f ob) \<subseteq> set (com_dump now f states)" for f
  proof -
    have "set (dump_object now f ob) \<subseteq> set (dump_bucket now f (states i) i)"
      using assms(2,3) by (force simp: dump_bucket_def)
    moreover have "set (dump_bucket now f (states i) i) \<subseteq> set (com_dump now f states)"
      using assms(1) by (auto simp: com_dump_def)
    ultimately show ?thesis by blast
  qed
  show "Line (''COM: object_id='' @ co_object_id ob @ ''.'' @ [CHR 0x0A]) \<in> set (com_dump now dumpflag states)"
    using sub[of dumpflag] by (auto simp: dump_object_def Let_def)
  assume "co_buffer ob = Some buf" "length buf = unat (co_size ob)"
  then show "Bytes buf \<in> set (com_dump now True states)"
    using sub[of True] by (auto simp: dump_object_def Let_def)
qed

lemma dump_without_flag_has_no_content: "Bytes bs \<notin> set (com_dump now False states)"
proof -
  have r: "Bytes bs \<notin> set (dump_record now r)" for r by (simp add: dump_record_def)
  have "Bytes bs \<notin> set (dump_object now False ob)" for ob
    using r by (auto simp: dump_object_def Let_def split: option.splits)
  then show ?thesis by (auto simp: com_dump_def dump_bucket_def dump_line_def split: option.splits)
qed

text \<open>\<open>no lock owner\<close> is shown exactly for an object with no thread record in use.\<close>

lemma dump_no_owner:
  "Line (''COM:   no lock owner.'' @ [CHR 0x0A]) \<in> set (dump_object now dumpflag ob) \<longleftrightarrow>
     list_all (\<lambda>r. tr_lock_state r = LOCK_STATE_NONE) (co_records ob)"
proof -
  have "concat (map (dump_record now) rs) = [] \<longleftrightarrow> list_all (\<lambda>r. tr_lock_state r = LOCK_STATE_NONE) rs" for rs
    by (induction rs) (auto simp: dump_record_def)
  moreover have "Line (''COM:   no lock owner.'' @ [CHR 0x0A]) \<notin> set (concat (map (dump_record now) rs))" for rs
    by (auto simp: dump_record_def)
  moreover have "print_int (int k) \<noteq> CHR ''n'' # s" for k s
  proof -
    have "hd (digits m) \<noteq> CHR ''n'' \<and> digits m \<noteq> []" for m
    proof (induction m rule: digits.induct)
      case (1 n)
      have "char_of (48 + n) \<noteq> CHR ''n''" if "n < 10" for n :: nat
      proof
        assume "char_of (48 + n) = CHR ''n''"
        then have "(of_char (char_of (48 + n) :: char) :: nat) = of_char (CHR ''n'')" by simp
        then show False using that by simp
      qed
      then show ?case using 1 by (subst (1 2) digits.simps) (simp add: hd_append)
    qed
    then show ?thesis by (metis int_nat_eq list.sel(1) nat_int not_less of_nat_0_le_iff print_int_def)
  qed
  ultimately show ?thesis by (auto simp: dump_object_def Let_def split: option.splits)
qed

end
