(* ===== verification/ErrScript.thy ===== *)
theory ErrScript
  imports ErrorCodes Printing
begin

text \<open>
  The generator of the shell script with the status codes: \<^verbatim>\<open>scripts/generr.c\<close>. The scripts that
  call the commands source what it prints.
\<close>

section \<open>The generator\<close>

text \<open>The names of the table of \<^verbatim>\<open>include/mtcerrno.def\<close>, in its order.\<close>

definition mtc_errnames :: "string list" where
  "mtc_errnames =
     [''MTC_EXIT_SUCCESS'', ''MTC_EXIT_INVALID_PARAMETER'', ''MTC_EXIT_SYSTEM_ERROR'',
      ''MTC_EXIT_TRANSIENT_SYSTEM_ERROR'', ''MTC_EXIT_WATCHDOG_ERROR'', ''MTC_EXIT_IMPROPER_LICENSE'',
      ''MTC_EXIT_CAN_NOT_READ_CONFIG_FILE'', ''MTC_EXIT_INVALID_CONFIG_FILE'',
      ''MTC_EXIT_CAN_NOT_ACCESS_STATEFILE'', ''MTC_EXIT_INVALID_STATE_FILE'',
      ''MTC_EXIT_GENERATION_UUID_MISMATCH'', ''MTC_EXIT_INVALID_POOL_STATE'', ''MTC_EXIT_BOOTJOIN_TIMEOUT'',
      ''MTC_EXIT_CAN_NOT_JOIN_EXISTING_LIVESET'', ''MTC_EXIT_DAEMON_IS_NOT_PRESENT'',
      ''MTC_EXIT_DAEMON_IS_PRESENT'', ''MTC_EXIT_INVALID_ENVIRONMENT'', ''MTC_EXIT_INVALID_LOCALHOST_STATE'',
      ''MTC_EXIT_BOOT_BLOCKED_BY_EXCLUDED'', ''MTC_EXIT_SET_EXCLUDED'', ''MTC_EXIT_INTERNAL_BUG'',
      ''MTC_SUCCESS'', ''MTC_ERROR_SYSTEM_LEVEL_FAILURE'', ''MTC_ERROR_DAEMON_EXIST'',
      ''MTC_ERROR_IMPROPER_LICENSE'', ''MTC_ERROR_INVALID_PARAMETER'', ''MTC_ERROR_CF_INVALID_PARAMETER'',
      ''MTC_ERROR_CF_INVALID_FORMAT'', ''MTC_ERROR_CF_OPEN'', ''MTC_ERROR_COM_INSUFFICIENT_RESOURCE'',
      ''MTC_ERROR_COM_PTHREAD'', ''MTC_ERROR_COM_CALLBACK_NOT_EXIST'', ''MTC_ERROR_COM_INVALID_HANDLE'',
      ''MTC_ERROR_WD_INSUFFICIENT_RESOURCE'', ''MTC_ERROR_WD_OPEN'', ''MTC_ERROR_WD_INSTANCE_UNAVAILABLE'',
      ''MTC_ERROR_WD_INVALID_HANDLE'', ''MTC_ERROR_SF_INSUFFICIENT_RESOURCE'', ''MTC_ERROR_SF_OPEN'',
      ''MTC_ERROR_SF_IO_ERROR'', ''MTC_ERROR_SF_CORRUPTION'', ''MTC_ERROR_SF_VERSION_MISMATCH'',
      ''MTC_ERROR_SF_PTHREAD'', ''MTC_ERROR_SF_PENDING_WRITE'', ''MTC_ERROR_SF_GEN_UUID'',
      ''MTC_ERROR_SF_INVALID_POOL_STATE'', ''MTC_ERROR_SC_INSUFFICIENT_RESOURCE'', ''MTC_ERROR_SC_SOCKET'',
      ''MTC_ERROR_SC_PTHREAD'', ''MTC_ERROR_SC_CONNECT_TO_DAEMON'', ''MTC_ERROR_SC_READ_ERROR'',
      ''MTC_ERROR_SC_WRITE_ERROR'', ''MTC_ERROR_SC_IMPROPER_DATA'', ''MTC_ERROR_SC_INVALID_LOCALHOST_STATE'',
      ''MTC_ERROR_SC_INVALID_PARAMETER'', ''MTC_ERROR_SC_STATEFILE_ACCESS'',
      ''MTC_ERROR_SC_INVALID_POOL_STATE'', ''MTC_ERROR_HB_INSUFFICIENT_RESOURCE'', ''MTC_ERROR_HB_SOCKET'',
      ''MTC_ERROR_HB_PTHREAD'', ''MTC_ERROR_HB_FENCEREQUESTED'', ''MTC_ERROR_LOG_PTHREAD'',
      ''MTC_ERROR_SM_PTHREAD'', ''MTC_ERROR_SM_BOOT_TIMEOUT'', ''MTC_ERROR_SM_NOSTATEFILE'',
      ''MTC_ERROR_SM_JOIN_FAILED'', ''MTC_ERROR_SM_FAULTHANDLER_TIMEOUT'',
      ''MTC_ERROR_SM_SURVIVALRULE_FAILED'', ''MTC_ERROR_SM_INVALID_POOL_STATE'',
      ''MTC_ERROR_SM_ENABLE_TIMEOUT'', ''MTC_ERROR_SM_BOOT_BLOCKED_BY_EXCLUDED'', ''MTC_ERROR_SM_BOOT_FAILED'',
      ''MTC_ERROR_SM_INVALID_INIT_POOL_STATE'', ''MTC_ERROR_XAPIMON_XAPI_FAILED'',
      ''MTC_ERROR_XAPIMON_PTHREAD'', ''MTC_ERROR_XAPIMON_PIPE'', ''MTC_ERROR_XAPIMON_FORK'',
      ''MTC_ERROR_LM_PTHREAD'', ''MTC_ERROR_BM_PTHREAD'', ''MTC_ERROR_WEIGHT_OPEN'', ''MTC_ERROR_WEIGHT_LOCK'',
      ''MTC_ERROR_WEIGHT_IO_ERROR'', ''MTC_ERROR_WEIGHT_TABLE_FULL'', ''MTC_ERROR_UNDEFINED'']"

definition generr_header :: string where
  "generr_header = ''#!/bin/bash'' @ [CHR 0x0A] @ ''#CAUTION:'' @ [CHR 0x0A] @ [CHR ''#'', CHR 0x09]
     @ ''Do not edit this file manually.'' @ [CHR 0x0A] @ [CHR ''#'', CHR 0x09]
     @ ''This file is generated by ./generr'' @ [CHR 0x0A, CHR 0x0A]"

definition generr_line :: "string \<times> mtc_status \<Rightarrow> string" where
  "generr_line = (\<lambda>(name, status). name @ ''='' @ print_int status @ [CHR 0x0A])"

text \<open>Every entry has a name, so the test of the loop always holds.\<close>

definition generr_main :: "int \<times> string" where
  "generr_main = (0, generr_header @ concat (map generr_line (zip mtc_errnames (map fst mtc_errtable))))"

section \<open>What the script defines\<close>

text \<open>
  The assignments of a script, as the shell takes them: lines up to the line feed, comments and
  empty lines skipped, the name before the first \<open>=\<close>.
\<close>

fun script_lines :: "string \<Rightarrow> string \<Rightarrow> string list" where
  "script_lines acc [] = (if acc = [] then [] else [acc])"
| "script_lines acc (ch # cs) = (if ch = CHR 0x0A then acc # script_lines [] cs else script_lines (acc @ [ch]) cs)"

definition assignment :: "string \<Rightarrow> (string \<times> string) option" where
  "assignment line =
     (if line = [] \<or> hd line = CHR ''#'' \<or> CHR ''='' \<notin> set line then None
      else Some (takeWhile (\<lambda>ch. ch \<noteq> CHR ''='') line, tl (dropWhile (\<lambda>ch. ch \<noteq> CHR ''='') line)))"

definition script_assignments :: "string \<Rightarrow> (string \<times> string) list" where
  "script_assignments script = List.map_filter assignment (script_lines [] script)"

lemma script_lines_append: "CHR 0x0A \<notin> set l \<Longrightarrow> script_lines acc (l @ CHR 0x0A # rest) = (acc @ l) # script_lines [] rest"
  by (induction l arbitrary: acc) auto

lemma script_assignments_line:
  assumes "CHR 0x0A \<notin> set l"
  shows "script_assignments (l @ CHR 0x0A # rest) = (case assignment l of None \<Rightarrow> [] | Some a \<Rightarrow> [a]) @ script_assignments rest"
  using script_lines_append[OF assms, of "[]" rest]
  by (simp add: script_assignments_def map_filter_simps split: option.split)

lemma digit_chars: "set (digits n) \<subseteq> {ch. is_digit ch}"
proof (induction n rule: digits.induct)
  case (1 n)
  have d: "is_digit (char_of (48 + k))" if "k < 10" for k :: nat
    using that by (simp add: is_digit_def)
  show ?case using 1 d by (subst digits.simps) auto
qed

lemma printed_int_chars: "ch \<in> set (print_int v) \<Longrightarrow> ch = CHR ''-'' \<or> is_digit ch"
  using digit_chars by (auto simp: print_int_def split: if_splits)

definition shell_name :: "string \<Rightarrow> bool" where
  "shell_name name \<longleftrightarrow> name \<noteq> [] \<and> CHR ''#'' \<notin> set name \<and> CHR ''='' \<notin> set name \<and> CHR 0x0A \<notin> set name"

lemma assignments_of_lines:
  assumes "list_all (shell_name \<circ> fst) es"
  shows "script_assignments (concat (map generr_line es)) = map (\<lambda>(name, st). (name, print_int st)) es"
  using assms
proof (induction es)
  case (Cons e es)
  obtain name st where e: "e = (name, st)" by fastforce
  have nm: "shell_name name" using Cons.prems e by simp
  have lf: "CHR 0x0A \<notin> set (name @ ''='' @ print_int st)"
    using nm printed_int_chars[of "CHR 0x0A" st] by (auto simp: shell_name_def is_digit_def)
  have line: "assignment (name @ ''='' @ print_int st) = Some (name, print_int st)"
  proof -
    have "\<forall>ch \<in> set name. ch \<noteq> CHR ''=''" using nm by (auto simp: shell_name_def)
    then have "takeWhile (\<lambda>ch. ch \<noteq> CHR ''='') (name @ ''='' @ print_int st) = name"
      "dropWhile (\<lambda>ch. ch \<noteq> CHR ''='') (name @ ''='' @ print_int st) = ''='' @ print_int st"
      by (simp_all add: takeWhile_append2 dropWhile_append2)
    moreover have "hd (name @ ''='' @ print_int st) \<noteq> CHR ''#''" using nm by (cases name) (auto simp: shell_name_def)
    ultimately show ?thesis by (simp add: assignment_def)
  qed
  show ?case
    using Cons script_assignments_line[OF lf] line by (simp add: generr_line_def e)
qed (simp add: script_assignments_def map_filter_simps)

lemma errnames_are_names: "list_all shell_name mtc_errnames" "distinct mtc_errnames" "length mtc_errnames = length mtc_errtable"
  by (simp_all add: mtc_errnames_def shell_name_def mtc_errtable_def)

lemma header_defines_nothing: "script_assignments (generr_header @ rest) = script_assignments rest"
  by (simp add: generr_header_def script_assignments_def assignment_def map_filter_simps)

text \<open>Sourcing the script gives every name of the table its status, and defines nothing else.\<close>

lemma script_defines_table:
  "script_assignments (snd generr_main) = zip mtc_errnames (map (print_int \<circ> fst) mtc_errtable)"
proof -
  have "list_all (shell_name \<circ> fst) (zip mtc_errnames (map fst mtc_errtable))"
    using errnames_are_names(1) by (auto simp: list_all_iff dest: set_zip_leftD)
  then have "script_assignments (snd generr_main) = map (\<lambda>(name, st). (name, print_int st)) (zip mtc_errnames (map fst mtc_errtable))"
    by (simp add: generr_main_def header_defines_nothing assignments_of_lines)
  then show ?thesis by (simp add: zip_map2 split_beta comp_def)
qed

lemma script_value:
  assumes "i < length mtc_errtable"
  shows "map_of (script_assignments (snd generr_main)) (mtc_errnames ! i) = Some (print_int (fst (mtc_errtable ! i)))"
  unfolding script_defines_table
  using assms errnames_are_names(2,3) by (subst map_of_zip_nth) auto

end
