(* ===== verification/LogLines.thy ===== *)
theory LogLines
  imports HostMap Logging
begin

text \<open>
  Lines the daemon composes for its log: \<open>print_liveset\<close> of \<^verbatim>\<open>daemon/sm.c\<close>, \<open>main_log_timeouts\<close> and
  \<open>main_steady_state\<close> of \<^verbatim>\<open>daemon/main.c\<close>; and the log the commands link instead of the daemon's,
  \<^verbatim>\<open>commands/stubs.c\<close>.
\<close>

section \<open>Sets of hosts\<close>

definition liveset_string :: "nat \<Rightarrow> hostmap \<Rightarrow> string" where
  "liveset_string num hm = map (\<lambda>i. if hm_ison hm i then CHR ''1'' else CHR ''0'') [0 ..< num]"

text \<open>\<open>fmt\<close> is the format, a text with one place for the set.\<close>

definition print_liveset :: "log_time \<Rightarrow> u32 \<Rightarrow> (string \<Rightarrow> string) \<Rightarrow> nat \<Rightarrow> hostmap \<Rightarrow> log_var \<Rightarrow> log_var" where
  "print_liveset tm pri fmt num hm = log_message tm pri (fmt (liveset_string num hm))"

text \<open>The set can be read off the line, and the text fits its buffer.\<close>

lemma liveset_string_reads_back:
  "{i. i < num \<and> liveset_string num hm ! i = CHR ''1''} = {i. i < num \<and> hm_ison hm i}"
  by (auto simp: liveset_string_def split: if_splits)

lemma liveset_string_determines:
  assumes "liveset_string num a = liveset_string num b" and "i < num"
  shows "hm_ison a i \<longleftrightarrow> hm_ison b i"
  using liveset_string_reads_back[of num a] liveset_string_reads_back[of num b] assms by auto

lemma liveset_string_fits: "num \<le> MAX_HOST_NUM \<Longrightarrow> length (liveset_string num hm) < MAX_HOST_NUM + 1"
  by (simp add: liveset_string_def)

section \<open>Timeouts\<close>

definition timeout_fields :: "ha_config \<Rightarrow> (string \<times> u32) list" where
  "timeout_fields c =
     [(''my_index'', of_nat (my_index c)), (''num_host'', of_nat (num_host c)), (''t1'', cfg_t1 c), (''T1'', cfg_T1 c),
      (''t2'', cfg_t2 c), (''T2'', cfg_T2 c), (''Wh'', cfg_Wh c), (''Ws'', cfg_Ws c), (''Tboot'', cfg_Tboot c),
      (''Tenable'', cfg_Tenable c), (''tXapi'', cfg_tXapi c), (''TXapi'', cfg_TXapi c), (''RestartXapi'', cfg_RestartXapi c),
      (''TRestartXapi'', cfg_TRestartXapi c), (''Tlicence'', cfg_Tlicense c)]"

fun spaced :: "string list \<Rightarrow> string" where
  "spaced [] = []"
| "spaced [s] = s"
| "spaced (s # ss) = s @ '' '' @ spaced ss"

definition main_log_timeouts :: "log_time \<Rightarrow> ha_config \<Rightarrow> log_var \<Rightarrow> log_var" where
  "main_log_timeouts tm c =
     log_message tm MTC_LOG_INFO
       (''CONF: '' @ spaced (map (\<lambda>(name, v). name @ ''='' @ print_u32 v) (timeout_fields c)) @ [CHR 0x0A])"

section \<open>Locking the daemon in memory\<close>

text \<open>\<open>status\<close> is the result of \<open>mlockall\<close>; the daemon goes on without.\<close>

definition main_steady_state :: "log_time \<Rightarrow> int \<Rightarrow> int \<Rightarrow> log_var \<Rightarrow> log_var" where
  "main_steady_state tm status errno =
     (if status = 0 then log_message tm MTC_LOG_DEBUG (''HA daemon mlockall succeeded'' @ [CHR 0x0A])
      else log_message tm MTC_LOG_WARNING (''HA daemon mlockall failed (sys '' @ print_int errno @ '')'' @ [CHR 0x0A]))"

section \<open>The commands\<close>

text \<open>
  In the tools that work on the State-File every line goes to the standard error output, here a
  string, whatever its priority, and no fault point is ever set.
\<close>

definition stub_log_message :: "u32 \<Rightarrow> string \<Rightarrow> string \<Rightarrow> string" where
  "stub_log_message priority msg err = err @ msg"

definition stub_fist_on :: "string \<Rightarrow> bool" where
  "stub_fist_on name = False"

end
