(* ===== verification/Spec2Isabelle.thy ===== *)
theory Spec2Isabelle
  imports SmPartition StateFileProps HeartbeatProps LockPool SmFaultProps FaultWatchdogs Rendezvous SmStartProps ComProps
    WatchdogProps ConfigProps HostWeightProps XapiMonProps ScReport CallDaemonProps StateFileToolsProps WatchdogCleanup DaemonMainProps ModuleInitProps
    HostWeightReports SfDelays CfReadProps CfReadLog SysTime PageLock XapiProcess ComDump ErrScript LogLines
begin

section \<open>The program\<close>

text \<open>
  xHA is the high-availability daemon of a pool of at most 64 virtualisation hosts. Each host runs
  one daemon (\<^verbatim>\<open>src/daemon\<close>); it sends heartbeat packets to the others, writes its own
  element of a shared State-File on common storage, and reads the elements of the others. From
  the two sources it keeps the set of hosts that are alive, the live set. When hosts are lost
  the survivors agree on who stays, and a host that does not stay is reset: by itself, by a
  request in a packet, or by its watchdogs, hypervisor timers the daemon has to set again and
  again. Commands (\<^verbatim>\<open>src/commands\<close>) talk to the daemon over local sockets; a file of weights
  lets the administrator prefer the hosts that do important work.

  The parts and how they meet:

  \<^item> the modules of the daemon (heartbeat, State-File, lock manager, state manager, Xapi and bond
    monitor, script server) keep their data in common objects, \<^verbatim>\<open>daemon/com.c\<close>; releasing the
    writer lock of an object runs the callbacks the other modules registered for it;
  \<^item> \<^verbatim>\<open>daemon/main.c\<close> initialises the modules in two phases, waits, and stops them;
  \<^item> the heartbeat and the State-File thread feed the state manager (\<^verbatim>\<open>daemon/sm.c\<close>), whose
    worker updates the sets of reachable hosts and answers hosts that join, and whose thread
    starts the host and handles the faults;
  \<^item> the lock manager runs a protocol over the State-File, by which the pool elects its master;
  \<^item> the daemon reaches the hypervisor through \<^verbatim>\<open>daemon/watchdog.c\<close> only.
\<close>

section \<open>The theories\<close>

text \<open>
  Names are those of the source. Every theory opens with the files it models; the lemmas about a
  component are in the theory with \<open>Props\<close> in its name, or behind its definitions.

  \<^item> \<open>Prelude\<close>, \<open>Printing\<close>: machine integers, the loops over hosts (\<open>for_hosts\<close>), searching, and the
    conversions of \<open>printf\<close>. The collections \<open>hostmap_simps\<close> and \<open>frame_simps\<close> carry the proofs
    about bitmaps and about what an operation leaves alone.
  \<^item> \<open>HostMap\<close>: the bitmaps of \<^verbatim>\<open>include/sm.h\<close>, against finite sets of host numbers.
  \<^item> \<open>HaTypes\<close>, \<open>ErrorCodes\<close>, \<open>Fist\<close>: configuration, phases, status and exit codes, and the points
    of fault injection (\<^verbatim>\<open>daemon/fist.c\<close>).
  \<^item> \<open>Shared\<close>, \<open>InitObjects\<close>: the common objects with their fields, the static variables of the
    modules, what releasing a lock does, and all initial values. The record \<open>daemon\<close> is the state
    every component below works on.
  \<^item> \<open>Com\<close>, \<open>ComProps\<close>, \<open>ComCalls\<close>: the object manager, with the critical sections as steps of any
    number of threads, and as whole calls for a thread that is alone.
  \<^item> \<open>DaemonMain\<close>, \<open>DaemonMainProps\<close>, \<open>ModuleInit\<close>, \<open>ModuleInitProps\<close>: \<^verbatim>\<open>daemon/main.c\<close> and the three
    phases of the initialisers of all modules. This is where the callback lists of the object
    manager are shown to be the ones \<open>Shared\<close> runs.
  \<^item> \<open>StateFileIO\<close>, \<open>StateFile\<close>, \<open>StateFileProps\<close>: the format of the State-File with its signatures and
    checksums (\<^verbatim>\<open>lib/statefileio.c\<close>), and the thread that reads and writes it.
  \<^item> \<open>Heartbeat\<close>, \<open>HeartbeatProps\<close>: composing, sending and receiving packets, the heartbeat domain.
  \<^item> \<open>SmPartition\<close>, \<open>SmBase\<close>, \<open>SmFault\<close>, \<open>SmFaultProps\<close>, \<open>FaultWatchdogs\<close>, \<open>FaultSteps\<close>,
    \<open>Rendezvous\<close>, \<open>SmWait\<close>, \<open>SmStart\<close>, \<open>SmStartProps\<close>, \<open>SmWorker\<close>, \<open>SmWorkerProps\<close>: the state manager:
    the election between partitions, self-fence and signals, the fault handler, its last phase
    against the watchdogs of a silent host, the steps every run of the handler consists of and
    the pool of daemons going through its phases together by such steps, the waits, starting
    and joining, and the worker.
  \<^item> \<open>LockMgr\<close>, \<open>LockProps\<close>, \<open>LockPool\<close>: the lock manager, the abstract protocol, and the pool of
    daemons with their State-File that implements it.
  \<^item> \<open>Watchdog\<close>, \<open>WatchdogProps\<close>, \<open>WatchdogCleanup\<close>: the watchdog library, the hypervisor patch it
    needs, and the tool that stops what a dead daemon left armed.
  \<^item> \<open>Config\<close>, \<open>ConfigProps\<close>: \<^verbatim>\<open>lib/config.c\<close>. \<open>HostWeight\<close>, \<open>HostWeightProps\<close>,
    \<open>HostWeightReports\<close>: \<^verbatim>\<open>lib/weightio.c\<close>, \<^verbatim>\<open>daemon/hostweight.c\<close> and \<^verbatim>\<open>commands/weightctl.c\<close>.
  \<^item> \<open>XapiMon\<close>, \<open>XapiMonProps\<close>, \<open>BondMon\<close>: the two monitors.
  \<^item> \<open>ScFunc\<close>, \<open>ScServer\<close>, \<open>ScProps\<close>, \<open>ScReport\<close>, \<open>CallDaemon\<close>, \<open>CallDaemonProps\<close>: the services, the
    server, the report of the live set with every field of it, and the client \<^verbatim>\<open>commands/calldaemon.c\<close>, up to a request going through both.
  \<^item> \<open>StateFileTools\<close>, \<open>StateFileToolsProps\<close>: \<^verbatim>\<open>commands/writestatefile.c\<close> and
    \<^verbatim>\<open>commands/dumpstatefile.c\<close>.
  \<^item> \<open>CfRead\<close>, \<open>CfReadProps\<close>, \<open>CfReadLog\<close>: \<^verbatim>\<open>stubs/cfread-libxml2\<close>, the stand-alone reader of the config
    file with its test program and its log, and its agreement with \<^verbatim>\<open>lib/config.c\<close>.
  \<^item> \<open>XapiProcess\<close>: the children of the Xapi monitor and their descriptors. \<open>PageLock\<close>: the pages a
    hypercall locks. \<open>SysTime\<close>: the times of \<^verbatim>\<open>include/mtctypes.h\<close> and the loops around \<open>nanosleep\<close>.
  \<^item> \<open>ErrScript\<close>: \<^verbatim>\<open>scripts/generr.c\<close>. \<open>ComDump\<close>, \<open>LogLines\<close>: what the object manager, the state
    manager and \<^verbatim>\<open>daemon/main.c\<close> write to the log.
  \<^item> \<open>Logging\<close>: \<^verbatim>\<open>daemon/log.c\<close>. \<open>SfDelays\<close>: the injected delays of \<^verbatim>\<open>lib/statefileio.c\<close> and the random
    part of the State-File interval.
\<close>

section \<open>What is shown\<close>

text \<open>
  \<^item> Safety of the pool: at most one side of a split survives (the survival rule and the election
    of the largest partition); the live set shrinks only while fencing is armed and only after a
    sleep that outlasts the watchdogs of a host that fell silent; every run of the fault handler
    goes round its phases through the rendezvous, and hosts that see each other at their looks
    stay within one phase; and two hosts hold the lock at once only after a request was
    withdrawn before it was granted or a grant was reported without a request. The code can do
    both, and a counterexample shows it.
  \<^item> Fencing: a packet fences its receiver exactly when it is entitled to, a watchdog that is no
    longer set resets the host, a self-fence ends it, and disarming, the orderly termination and
    the clean-up tool each leave nothing armed.
  \<^item> Membership: the heartbeat domain and the State-File domain are the hosts heard in time, a
    host enters the live set only with the agreement of all live hosts, and the loss of a host
    requests the fault handler, except in one case that is stated as a property of its own.
  \<^item> Starting: the grounds on which a host starts, that the decision and the join handshake come
    in bounded time, and what the initialisers build.
  \<^item> Data: a packet and a State-File element arrive as they were sent, unreadable elements change
    nothing, a weight goes from the command to the daemon, a request of a command reaches the
    service of its name and its exit code comes back, and accepted configurations are valid and
    number the hosts alike on all hosts.
  \<^item> The object manager: the counters, thread records and locks are exact under every interleaving
    of its critical sections.
\<close>

section \<open>How it is modelled\<close>

text \<open>
  \<^item> A function of the source that works on shared data is a function on the record \<open>daemon\<close> (or
    on the state of its own component). A critical section is atomic, and a function with several
    sections takes what the other threads do between them as an argument, an event or a list
    of events, so the theorems hold for every interference they do not exclude by a hypothesis.
  \<^item> Waits and loops that may not end return an option: \<open>None\<close> is a run whose events end before
    the wait does. The loops of the state manager are recursive on the measure \<open>sm_fuel\<close>, four times
    the number of events plus the pending signals, which every round lowers; the theorems on
    deciding and joining state that the result is \<open>Some\<close> once the clock of the events is far enough.
    Loops over hosts are structural on \<open>MAX_HOST_NUM = 64\<close> or the number of hosts; the merger and
    the election end by measures on the sets of hosts.
  \<^item> Unsigned 32-bit fields are words and wrap around. Clocks are integers: the source counts
    milliseconds in 64 bits. A per-host array is a function on host numbers.
  \<^item> Failed assertions, exits and self-fences are values: \<open>com_stop\<close>, \<open>d_exit\<close>, \<open>d_fenced\<close>; a service
    whose request is too short is \<open>Aborted\<close>, and so is a round of the Xapi monitor (\<open>Aborts\<close>) whose
    \<open>waitpid\<close> failed.
  \<^item> A write to the State-File is given by what the system call returns and by what it leaves on
    the device (\<open>write_io\<close>): it may fail after it transferred a part, and a short write counts as
    a success, as in \<open>sf_write\<close>. The theorems that need complete writes say so (\<open>dv_write_ok\<close>).
  \<^item> The two models of a whole pool are step relations: \<open>lk_step\<close>, whose steps are passes of the lock
    manager and of the State-File thread, from the rows of grants the daemons start with; and
    \<open>rv_step\<close>, whose thread steps are those of \<open>fh_act\<close>. That \<open>fault_handler\<close> runs by such steps only
    is shown, not assumed. Passes are atomic there, and the live set of \<open>lk_step\<close> is fixed.
  \<^item> Interfaces are locales: the bitmap operations (\<open>host_bitmap\<close>), the hypervisor timers
    (\<open>sched_watchdog\<close>, extended by \<open>sched_watchdog_stop\<close> for the tool), both interpreted on the
    model of the code that provides them, the second on the patch for the hypervisor; and the
    interference the waits of the state manager tolerate (\<open>interference\<close>), interpreted on what the
    other threads do while a host starts and on any interference.
  \<^item> Parameters, for code that is not in the repository: the tree the XML parser returns,
    \<open>getaddrinfo\<close> and \<open>qsort\<close>; results of \<open>read\<close>, \<open>write\<close>, \<open>malloc\<close>, of sockets and of thread creation;
    child processes of the Xapi monitor; the clock; the hypercall; the bytes a compiler lays a
    structure out in. What the theorems need of them is a named hypothesis
    (\<open>enough_memory\<close>, \<open>system_ok\<close>, \<open>rely\<close> and the like), and a witness has an instance of it.
\<close>

section \<open>Not modelled\<close>

text \<open>
  \<^item> The calls to the log, which are output only and left out of the other theories; \<open>log_fsync\<close>.
  \<^item> \<^verbatim>\<open>stubs/cfread-libxml2/clread.c\<close>: an unfinished predecessor of the reader, which is not valid C.
  \<^item> The shell scripts and build files.
  \<^item> The tests under \<open>#if 0\<close> and the clean-up functions whose bodies are compiled out. The injected
    delays of \<open>SfDelays\<close> are not composed with the accesses they precede: there the clock is the
    environment's anyway.
\<close>

end
